(* ===== verification/Prelude.thy ===== *)
theory Prelude
  imports
    Complex_Main
    "HOL-Library.AList"
    "HOL-Library.Char_ord"
    "HOL-Library.List_Lexorder"
    "HOL-Library.Product_Lexorder"
begin

text \<open>
  Shared vocabulary of the development: the Python values every component uses (decimal
  numbers, ordered dictionaries, strings, exceptions), the result type of a stateful
  operation that may raise, and the generic lemmas on them.

  Numbers. \<open>Decimal\<close> and \<open>float\<close> values are read as exact rationals. A Python \<open>int\<close> is
  \<open>int\<close>. A \<open>dict\<close> keeps insertion order, so it is an association list without duplicate
  keys, read by \<open>dict_get\<close> and written by \<open>dict_set\<close> (in place for a known key, at the end
  for a new one).
\<close>

named_theorems dict_simps
named_theorems run_simps
named_theorems preserve_intros

type_synonym decimal = rat
type_synonym pyfloat = rat
type_synonym uuid = string
type_synonym ('k, 'v) dict = "('k \<times> 'v) list"

section \<open>Dictionaries\<close>

abbreviation dict_get :: "('k, 'v) dict \<Rightarrow> 'k \<Rightarrow> 'v option" where
  "dict_get d k \<equiv> map_of d k"

abbreviation dict_set :: "'k \<Rightarrow> 'v \<Rightarrow> ('k, 'v) dict \<Rightarrow> ('k, 'v) dict" where
  "dict_set k v d \<equiv> AList.update k v d"

abbreviation dict_values :: "('k, 'v) dict \<Rightarrow> 'v list" where
  "dict_values d \<equiv> map snd d"

abbreviation dict_ok :: "('k, 'v) dict \<Rightarrow> bool" where
  "dict_ok d \<equiv> distinct (map fst d)"

text \<open>\<open>dict.setdefault\<close> without its result.\<close>

definition dict_setdefault :: "'k \<Rightarrow> 'v \<Rightarrow> ('k, 'v) dict \<Rightarrow> ('k, 'v) dict" where
  "dict_setdefault k v d = (case dict_get d k of None \<Rightarrow> dict_set k v d | Some _ \<Rightarrow> d)"

lemma dict_get_set [dict_simps, simp]:
  "dict_get (dict_set k v d) k' = (if k' = k then Some v else dict_get d k')"
  by (simp add: update_conv')

lemma dict_ok_set [dict_simps, simp]: "dict_ok d \<Longrightarrow> dict_ok (dict_set k v d)"
  by (rule distinct_update)

lemma dict_set_keys [dict_simps]:
  "fst ` set (dict_set k v d) = insert k (fst ` set d)"
  by (induction d) auto

lemma dict_set_values: "x \<in> set (dict_set k v d) \<Longrightarrow> x = (k, v) \<or> x \<in> set d"
  by (induction d) (auto split: if_splits)

lemma dict_get_setdefault [dict_simps]:
  "dict_get (dict_setdefault k v d) k' =
     (if k' = k \<and> dict_get d k = None then Some v else dict_get d k')"
  by (auto simp: dict_setdefault_def split: option.splits)

lemma dict_get_map_values [dict_simps]:
  "dict_get (map (\<lambda>(k, v). (k, f v)) d) k = map_option f (dict_get d k)"
  by (induction d) auto

lemma dict_get_in_values: "dict_get d k = Some v \<Longrightarrow> v \<in> set (dict_values d)"
  by (force dest: map_of_SomeD)

lemma dict_ok_get: "dict_ok d \<Longrightarrow> (k, v) \<in> set d \<Longrightarrow> dict_get d k = Some v"
  by (simp add: map_of_is_SomeI)

text \<open>\<open>a == b\<close> on dictionaries, insertion order ignored.\<close>

definition dict_eq :: "('k, 'v) dict \<Rightarrow> ('k, 'v) dict \<Rightarrow> bool" where
  "dict_eq a b \<longleftrightarrow> (\<forall>k \<in> set (map fst a @ map fst b). dict_get a k = dict_get b k)"

lemma dict_eq_iff: "dict_eq a b \<longleftrightarrow> map_of a = map_of b"
proof
  assume eq: "dict_eq a b"
  show "map_of a = map_of b"
  proof
    fix k
    show "map_of a k = map_of b k"
    proof (cases "k \<in> fst ` set a \<or> k \<in> fst ` set b")
      case True
      then show ?thesis using eq by (auto simp: dict_eq_def)
    next
      case False
      then show ?thesis by (simp add: map_of_eq_None_iff [symmetric])
    qed
  qed
qed (simp add: dict_eq_def)

lemma dict_eq_refl [simp]: "dict_eq a a"
  by (simp add: dict_eq_iff)

section \<open>Strings\<close>

text \<open>
  Python strings of ASCII text. \<open>py_strip\<close> and \<open>py_lower\<close> are \<open>str.strip\<close> and
  \<open>str.lower\<close> on them; \<open>nonblank s\<close> is \<open>bool(s and s.strip())\<close>.
\<close>

definition is_space :: "char \<Rightarrow> bool" where
  "is_space c \<longleftrightarrow> (let n = (of_char c :: nat) in n = 32 \<or> (9 \<le> n \<and> n \<le> 13) \<or> (28 \<le> n \<and> n \<le> 31))"

definition py_strip :: "string \<Rightarrow> string" where
  "py_strip s = rev (dropWhile is_space (rev (dropWhile is_space s)))"

definition char_lower :: "char \<Rightarrow> char" where
  "char_lower c = (let n = (of_char c :: nat) in if 65 \<le> n \<and> n \<le> 90 then char_of (n + 32) else c)"

definition py_lower :: "string \<Rightarrow> string" where
  "py_lower s = map char_lower s"

definition char_upper :: "char \<Rightarrow> char" where
  "char_upper c = (let n = (of_char c :: nat) in if 97 \<le> n \<and> n \<le> 122 then char_of (n - 32) else c)"

definition py_upper :: "string \<Rightarrow> string" where
  "py_upper s = map char_upper s"

definition nonblank :: "string \<Rightarrow> bool" where
  "nonblank s \<longleftrightarrow> (\<exists>c \<in> set s. \<not> is_space c)"

lemma nonblank_strip: "nonblank s \<longleftrightarrow> py_strip s \<noteq> []"
  by (auto simp: nonblank_def py_strip_def dropWhile_eq_Nil_conv dest: set_dropWhileD)
     (metis dropWhile_eq_Nil_conv hd_dropWhile hd_in_set)+

text \<open>\<open>needle in haystack\<close> on strings.\<close>

fun has_prefix :: "string \<Rightarrow> string \<Rightarrow> bool" where
  "has_prefix [] ys = True"
| "has_prefix (x # xs) [] = False"
| "has_prefix (x # xs) (y # ys) = (x = y \<and> has_prefix xs ys)"

fun contains_text :: "string \<Rightarrow> string \<Rightarrow> bool" where
  "contains_text needle [] = (needle = [])"
| "contains_text needle (y # ys) = (has_prefix needle (y # ys) \<or> contains_text needle ys)"

text \<open>The decimal digits of a number, as \<open>str(n)\<close> prints an \<open>int\<close>.\<close>

fun nat_text :: "nat \<Rightarrow> string" where
  "nat_text n = (if n < 10 then [char_of (48 + n)] else nat_text (n div 10) @ [char_of (48 + n mod 10)])"

declare nat_text.simps [simp del]

definition int_text :: "int \<Rightarrow> string" where
  "int_text i = (if i < 0 then CHR ''-'' # nat_text (nat (- i)) else nat_text (nat i))"

definition pad_text :: "nat \<Rightarrow> nat \<Rightarrow> string" where
  "pad_text w n = (let t = nat_text n in replicate (w - length t) (CHR ''0'') @ t)"

section \<open>Exceptions and results\<close>

text \<open>
  The exceptions the modelled code raises. The text of a message is kept where the code
  reads it back (\<open>CognitiveValidationError\<close>, \<open>OptionSelectionError\<close>, the errors of a broker)
  and dropped where it is only shown. \<open>OtherError\<close> is any further exception of a broker, by
  its class name and text.
\<close>

datatype py_error =
    ValueError
  | ValidationError
  | InvalidOperation
  | TypeError
  | FeatureTimeframeError
  | LedgerError
  | IdempotencyConflict
  | ReconciliationError
  | BrokerError string
  | BrokerFactoryError
  | CapitalError string
  | StateMachineError
  | CognitiveValidationError string
  | OptionSelectionError string
  | RuntimeError
  | MarketDataError
  | SnapshotError
  | OtherError string string

fun exc_name :: "py_error \<Rightarrow> string" where
  "exc_name ValueError = ''ValueError''"
| "exc_name ValidationError = ''ValidationError''"
| "exc_name InvalidOperation = ''InvalidOperation''"
| "exc_name TypeError = ''TypeError''"
| "exc_name FeatureTimeframeError = ''FeatureTimeframeError''"
| "exc_name LedgerError = ''LedgerError''"
| "exc_name IdempotencyConflict = ''IdempotencyConflict''"
| "exc_name ReconciliationError = ''ReconciliationError''"
| "exc_name (BrokerError _) = ''BrokerError''"
| "exc_name BrokerFactoryError = ''BrokerFactoryError''"
| "exc_name (CapitalError _) = ''CapitalError''"
| "exc_name StateMachineError = ''StateMachineError''"
| "exc_name (CognitiveValidationError _) = ''CognitiveValidationError''"
| "exc_name (OptionSelectionError _) = ''OptionSelectionError''"
| "exc_name RuntimeError = ''RuntimeError''"
| "exc_name MarketDataError = ''MarketDataError''"
| "exc_name SnapshotError = ''SnapshotError''"
| "exc_name (OtherError n _) = n"

text \<open>A step that may raise, then the rest; an error abandons the rest.\<close>

definition sum_then :: "py_error + 'a \<Rightarrow> ('a \<Rightarrow> py_error + 'b) \<Rightarrow> py_error + 'b" where
  "sum_then r f = (case r of Inl e \<Rightarrow> Inl e | Inr a \<Rightarrow> f a)"

lemma sum_then_Inr: "sum_then r f = Inr b \<longleftrightarrow> (\<exists>a. r = Inr a \<and> f a = Inr b)"
  by (cases r) (simp_all add: sum_then_def)

lemma sum_thenE: "sum_then r f = Inr b \<Longrightarrow> (\<And>a. r = Inr a \<Longrightarrow> f a = Inr b \<Longrightarrow> thesis) \<Longrightarrow> thesis"
  by (cases r) (simp_all add: sum_then_def)

text \<open>
  A stateful operation: from a state, either an exception or a value, and the state it
  leaves. The state survives an exception, as the fields of a Python object do.
\<close>

type_synonym ('s, 'a) run = "'s \<Rightarrow> (py_error + 'a) \<times> 's"

definition run_ret :: "'a \<Rightarrow> ('s, 'a) run" where
  "run_ret a s = (Inr a, s)"

definition run_raise :: "py_error \<Rightarrow> ('s, 'a) run" where
  "run_raise e s = (Inl e, s)"

definition run_bind :: "('s, 'a) run \<Rightarrow> ('a \<Rightarrow> ('s, 'b) run) \<Rightarrow> ('s, 'b) run" where
  "run_bind m f s = (case m s of (Inl e, s') \<Rightarrow> (Inl e, s') | (Inr a, s') \<Rightarrow> f a s')"

definition run_get :: "('s \<Rightarrow> 'a) \<Rightarrow> ('s, 'a) run" where
  "run_get f s = (Inr (f s), s)"

definition run_modify :: "('s \<Rightarrow> 's) \<Rightarrow> ('s, unit) run" where
  "run_modify f s = (Inr (), f s)"

definition run_lift :: "py_error + 'a \<Rightarrow> ('s, 'a) run" where
  "run_lift r s = (r, s)"

text \<open>\<open>try: m except Exception as e: h e\<close>\<close>

definition run_catch :: "('s, 'a) run \<Rightarrow> (py_error \<Rightarrow> ('s, 'a) run) \<Rightarrow> ('s, 'a) run" where
  "run_catch m h s = (case m s of (Inl e, s') \<Rightarrow> h e s' | (Inr a, s') \<Rightarrow> (Inr a, s'))"

text \<open>\<open>for x in xs: out.extend(f x)\<close>, the results collected in order.\<close>

fun run_for :: "('x \<Rightarrow> ('s, 'a list) run) \<Rightarrow> 'x list \<Rightarrow> ('s, 'a list) run" where
  "run_for f [] = run_ret []"
| "run_for f (x # xs) = run_bind (f x) (\<lambda>a. run_bind (run_for f xs) (\<lambda>b. run_ret (a @ b)))"

text \<open>\<open>for x in xs: s = f(x, s)\<close> for a body that may raise and then abandons the loop.\<close>

fun fold_sum :: "('x \<Rightarrow> 's \<Rightarrow> py_error + 's) \<Rightarrow> 'x list \<Rightarrow> 's \<Rightarrow> py_error + 's" where
  "fold_sum f [] s = Inr s"
| "fold_sum f (x # xs) s = (case f x s of Inl e \<Rightarrow> Inl e | Inr s' \<Rightarrow> fold_sum f xs s')"

lemma fold_sum_append:
  "fold_sum f (xs @ ys) s = (case fold_sum f xs s of Inl e \<Rightarrow> Inl e | Inr s' \<Rightarrow> fold_sum f ys s')"
  by (induction xs arbitrary: s) (auto split: sum.splits)

lemma fold_sum_invariant:
  assumes "\<And>x s s'. x \<in> set xs \<Longrightarrow> P s \<Longrightarrow> f x s = Inr s' \<Longrightarrow> P s'"
    and "P s" and "fold_sum f xs s = Inr s'"
  shows "P s'"
  using assms by (induction xs arbitrary: s) (auto split: sum.splits)

section \<open>Interface: a consumer that skips what it has already seen\<close>

text \<open>
  The contract behind every idempotent consumer of the system (the ledger projector, the event
  bus): \<open>step\<close> leaves the state alone for an event it has \<open>seen\<close>, marks the event as seen
  otherwise, and never forgets. \<open>same\<close> says that two deliveries are the same event.
\<close>

locale idempotent_consumer =
  fixes step :: "'e \<Rightarrow> 's \<Rightarrow> py_error + 's"
    and seen :: "'s \<Rightarrow> 'e \<Rightarrow> bool"
    and same :: "'e \<Rightarrow> 'e \<Rightarrow> bool"
  assumes skip: "seen s e \<Longrightarrow> step e s = Inr s"
    and marks: "step e s = Inr s' \<Longrightarrow> seen s' e"
    and keeps: "step d s = Inr s' \<Longrightarrow> seen s e \<Longrightarrow> seen s' e"
    and seen_same: "seen s d \<Longrightarrow> same d e \<Longrightarrow> seen s e"
begin

lemma fold_keeps: "fold_sum step es s = Inr s' \<Longrightarrow> seen s e \<Longrightarrow> seen s' e"
  by (induction es arbitrary: s) (auto split: sum.splits dest: keeps)

lemma fold_marks: "fold_sum step es s = Inr s' \<Longrightarrow> e \<in> set es \<Longrightarrow> seen s' e"
  by (induction es arbitrary: s) (auto split: sum.splits dest: marks fold_keeps)

lemma replay_noop:
  assumes "d \<in> set es" "same d e"
  shows "fold_sum step (es @ e # fs) s = fold_sum step (es @ fs) s"
proof (cases "fold_sum step es s")
  case (Inr s')
  have "seen s' e" using fold_marks [OF Inr assms(1)] assms(2) by (rule seen_same)
  with Inr show ?thesis by (simp add: fold_sum_append skip)
qed (simp add: fold_sum_append)

lemma replay_all:
  assumes "\<And>e. e \<in> set fs \<Longrightarrow> \<exists>d \<in> set es. same d e"
  shows "fold_sum step (es @ fs) s = fold_sum step es s"
  using assms
proof (induction fs)
  case (Cons e fs)
  then obtain d where d: "d \<in> set es" "same d e" by auto
  have "fold_sum step (es @ e # fs) s = fold_sum step (es @ fs) s" by (rule replay_noop [OF d])
  also have "\<dots> = fold_sum step es s" using Cons by auto
  finally show ?case .
qed simp

end

section \<open>Interface: an append-only table\<close>

text \<open>
  The contract of the market repositories: a row is saved once under its key, a second row with the
  key is refused without effect, and a saved row stays as it is whatever is saved later.
\<close>

locale append_only_table =
  fixes save :: "'r \<Rightarrow> ('d, 'k) run"
    and load :: "'k \<Rightarrow> 'd \<Rightarrow> 'r option"
    and key :: "'r \<Rightarrow> 'k"
  assumes save_new: "load (key r) d = None \<Longrightarrow>
      fst (save r d) = Inr (key r) \<and> load k (snd (save r d)) = (if k = key r then Some r else load k d)"
    and save_known: "load (key r) d = Some r' \<Longrightarrow> \<exists>e. save r d = (Inl e, d)"
begin

lemma save_keeps: "load k d = Some r \<Longrightarrow> load k (snd (save r' d)) = Some r"
  by (cases "load (key r') d") (auto simp: save_new dest: save_known [of r' d])

lemma saves_keep: "load k d = Some r \<Longrightarrow> load k (fold (\<lambda>r d. snd (save r d)) rs d) = Some r"
  by (induction rs arbitrary: d) (simp_all add: save_keeps)

lemma save_then_load: "fst (save r d) = Inr k \<Longrightarrow> load k (fold (\<lambda>r d. snd (save r d)) rs (snd (save r d))) = Some r"
  by (cases "load (key r) d") (auto simp: save_new intro!: saves_keep dest: save_known [of r d])

end

lemmas run_defs = run_ret_def run_raise_def run_get_def run_modify_def run_lift_def

lemma run_bind_ret [run_simps, simp]: "run_bind (run_ret a) f = f a"
  by (rule ext) (simp add: run_bind_def run_ret_def)

lemma run_bind_raise [run_simps, simp]: "run_bind (run_raise e) f = run_raise e"
  by (rule ext) (simp add: run_bind_def run_raise_def)

lemma run_bind_assoc: "run_bind (run_bind m f) g = run_bind m (\<lambda>a. run_bind (f a) g)"
  by (rule ext) (simp add: run_bind_def split: prod.splits sum.splits)

text \<open>
  \<open>preserves P m\<close>: whatever \<open>m\<close> does, raising included, it keeps \<open>P\<close>. It composes over the
  combinators, so an invariant of a handler follows from the invariant of its primitive steps.
\<close>

definition preserves :: "('s \<Rightarrow> bool) \<Rightarrow> ('s, 'a) run \<Rightarrow> bool" where
  "preserves P m \<longleftrightarrow> (\<forall>s. P s \<longrightarrow> P (snd (m s)))"

lemma preservesI [intro?]: "(\<And>s. P s \<Longrightarrow> P (snd (m s))) \<Longrightarrow> preserves P m"
  by (simp add: preserves_def)

lemma preservesD: "preserves P m \<Longrightarrow> P s \<Longrightarrow> P (snd (m s))"
  by (simp add: preserves_def)

lemma preserves_ret [preserve_intros]: "preserves P (run_ret a)"
  by (simp add: preserves_def run_ret_def)

lemma preserves_raise [preserve_intros]: "preserves P (run_raise e)"
  by (simp add: preserves_def run_raise_def)

lemma preserves_get [preserve_intros]: "preserves P (run_get f)"
  by (simp add: preserves_def run_get_def)

lemma preserves_lift [preserve_intros]: "preserves P (run_lift r)"
  by (simp add: preserves_def run_lift_def)

lemma preserves_modify: "(\<And>s. P s \<Longrightarrow> P (f s)) \<Longrightarrow> preserves P (run_modify f)"
  by (simp add: preserves_def run_modify_def)

lemma preserves_bind [preserve_intros]:
  "preserves P m \<Longrightarrow> (\<And>a. preserves P (f a)) \<Longrightarrow> preserves P (run_bind m f)"
  by (fastforce simp: preserves_def run_bind_def split: prod.splits sum.splits)

lemma preserves_catch [preserve_intros]:
  "preserves P m \<Longrightarrow> (\<And>e. preserves P (h e)) \<Longrightarrow> preserves P (run_catch m h)"
  by (fastforce simp: preserves_def run_catch_def split: prod.splits sum.splits)

lemma preserves_for [preserve_intros]:
  "(\<And>x. preserves P (f x)) \<Longrightarrow> preserves P (run_for f xs)"
  by (induction xs) (auto intro: preserve_intros)

lemma preserves_if [preserve_intros]:
  "preserves P m \<Longrightarrow> preserves P n \<Longrightarrow> preserves P (if b then m else n)"
  by simp

lemma preserves_option [preserve_intros]:
  "preserves P m \<Longrightarrow> (\<And>x. preserves P (f x)) \<Longrightarrow>
   preserves P (case z of None \<Rightarrow> m | Some x \<Rightarrow> f x)"
  by (cases z) simp_all

section \<open>Rational arithmetic used by several components\<close>

lemma weighted_mean_bounds:
  fixes a b p q :: rat
  assumes "0 < p" "0 < q" "lo \<le> a" "a \<le> hi" "lo \<le> b" "b \<le> hi"
  shows "lo \<le> (a * p + b * q) / (p + q)" "(a * p + b * q) / (p + q) \<le> hi"
proof -
  have "lo * p \<le> a * p" "lo * q \<le> b * q" "a * p \<le> hi * p" "b * q \<le> hi * q"
    using assms by (simp_all add: mult_right_mono)
  then show "lo \<le> (a * p + b * q) / (p + q)" "(a * p + b * q) / (p + q) \<le> hi"
    using assms by (simp_all add: pos_le_divide_eq pos_divide_le_eq distrib_left add_mono)
qed

section \<open>What a stateful operation guarantees when it returns\<close>

text \<open>
  \<open>returns P m Q\<close>: started in a state with \<open>P\<close>, if \<open>m\<close> returns \<open>a\<close> in state \<open>s\<close> then \<open>Q a s\<close>.
  Nothing is said of a run that raises; \<open>preserves\<close> covers those.
\<close>

named_theorems returns_intros

definition returns :: "('s \<Rightarrow> bool) \<Rightarrow> ('s, 'a) run \<Rightarrow> ('a \<Rightarrow> 's \<Rightarrow> bool) \<Rightarrow> bool" where
  "returns P m Q \<longleftrightarrow> (\<forall>s a s'. P s \<longrightarrow> m s = (Inr a, s') \<longrightarrow> Q a s')"

lemma returnsI: "(\<And>s a s'. P s \<Longrightarrow> m s = (Inr a, s') \<Longrightarrow> Q a s') \<Longrightarrow> returns P m Q"
  by (simp add: returns_def)

lemma returnsD: "returns P m Q \<Longrightarrow> P s \<Longrightarrow> m s = (Inr a, s') \<Longrightarrow> Q a s'"
  by (simp add: returns_def)

lemma returns_ret: "(\<And>s. P s \<Longrightarrow> Q a s) \<Longrightarrow> returns P (run_ret a) Q"
  by (simp add: returns_def run_ret_def)

lemma returns_raise [returns_intros]: "returns P (run_raise e) Q"
  by (simp add: returns_def run_raise_def)

lemma returns_bind:
  "returns P m R \<Longrightarrow> (\<And>a. returns (R a) (f a) Q) \<Longrightarrow> returns P (run_bind m f) Q"
  by (fastforce simp: returns_def run_bind_def split: prod.splits sum.splits)

lemma returns_weaken: "returns P m Q \<Longrightarrow> (\<And>s. P' s \<Longrightarrow> P s) \<Longrightarrow> (\<And>a s. Q a s \<Longrightarrow> Q' a s) \<Longrightarrow> returns P' m Q'"
  unfolding returns_def by blast

lemma returns_preserves: "preserves P m \<Longrightarrow> returns P m (\<lambda>_. P)"
  by (metis preservesD returnsI snd_conv)

lemma run_bind_Inr:
  "run_bind m f s = (Inr b, s') \<longleftrightarrow> (\<exists>a s1. m s = (Inr a, s1) \<and> f a s1 = (Inr b, s'))"
  by (auto simp: run_bind_def split: prod.splits sum.splits)

end
