(* ===== verification/Py_Time.thy ===== *)
theory Py_Time
  imports Prelude
begin

text \<open>
  \<open>datetime\<close> values of the standard library, as far as the code uses them: a wall clock in
  microseconds since 1970-01-01T00:00 of its own time zone, and the zone's offset from UTC at
  that moment (\<open>None\<close> for a naive value). \<open>isoformat\<close> is the text the SQLite stores order by.
\<close>

record datetime =
  dt_wall :: int
  dt_off :: "int option"

abbreviation usec :: int where
  "usec \<equiv> 1000000"

text \<open>\<open>value.tzinfo is not None and value.utcoffset() is not None\<close>\<close>

definition tz_aware :: "datetime \<Rightarrow> bool" where
  "tz_aware t \<longleftrightarrow> dt_off t \<noteq> None"

text \<open>The moment a value stands for, a naive one read as UTC (\<open>replace(tzinfo=utc)\<close>).\<close>

definition instant :: "datetime \<Rightarrow> int" where
  "instant t = (case dt_off t of None \<Rightarrow> dt_wall t | Some z \<Rightarrow> dt_wall t - z)"

definition at_utc :: "int \<Rightarrow> datetime" where
  "at_utc u = \<lparr>dt_wall = u, dt_off = Some 0\<rparr>"

lemma instant_at_utc [simp]: "instant (at_utc u) = u"
  by (simp add: instant_def at_utc_def)

lemma tz_aware_at_utc [simp]: "tz_aware (at_utc u)"
  by (simp add: tz_aware_def at_utc_def)

text \<open>\<open>(a - b).total_seconds()\<close>\<close>

definition seconds_between :: "datetime \<Rightarrow> datetime \<Rightarrow> pyfloat" where
  "seconds_between a b = of_int (instant a - instant b) / 1000000"

lemma seconds_between_self [simp]: "seconds_between a a = 0"
  by (simp add: seconds_between_def)

text \<open>
  Days since 1970-01-01 to year, month and day of the proleptic Gregorian calendar, by cycles of
  400, 100 and 4 years as the standard library does it, and back.
\<close>

definition is_leap :: "int \<Rightarrow> bool" where
  "is_leap y \<longleftrightarrow> y mod 4 = 0 \<and> (y mod 100 \<noteq> 0 \<or> y mod 400 = 0)"

definition month_lengths :: "int \<Rightarrow> int list" where
  "month_lengths y = [31, if is_leap y then 29 else 28, 31, 30, 31, 30, 31, 31, 30, 31, 30, 31]"

definition year_and_offset :: "int \<Rightarrow> int \<times> int" where
  "year_and_offset n =
     (let a = n div 146097; r = n mod 146097;
          b = min 3 (r div 36524); r1 = r - b * 36524;
          c = r1 div 1461; r2 = r1 mod 1461;
          e = min 3 (r2 div 365)
      in (400 * a + 100 * b + 4 * c + e + 1, r2 - e * 365))"

fun month_and_day :: "int list \<Rightarrow> int \<Rightarrow> int \<Rightarrow> int \<times> int" where
  "month_and_day [] m d = (m, d + 1)"
| "month_and_day (l # ls) m d = (if d < l then (m, d + 1) else month_and_day ls (m + 1) (d - l))"

definition civil_from_days :: "int \<Rightarrow> int \<times> int \<times> int" where
  "civil_from_days z =
     (case year_and_offset (z + 719162) of (y, n) \<Rightarrow>
        case month_and_day (month_lengths y) 1 n of (m, d) \<Rightarrow> (y, m, d))"

definition days_from_civil :: "int \<Rightarrow> int \<Rightarrow> int \<Rightarrow> int" where
  "days_from_civil y m d =
     365 * (y - 1) + (y - 1) div 4 - (y - 1) div 100 + (y - 1) div 400
     + sum_list (take (nat (m - 1)) (month_lengths y)) + d - 1 - 719162"

definition valid_civil :: "int \<Rightarrow> int \<Rightarrow> int \<Rightarrow> bool" where
  "valid_civil y m d \<longleftrightarrow> 1 \<le> y \<and> y \<le> 9999 \<and> 1 \<le> m \<and> m \<le> 12 \<and> 1 \<le> d \<and> d \<le> month_lengths y ! nat (m - 1)"

lemma month_and_day_split:
  "0 \<le> d \<Longrightarrow> d < sum_list ls \<Longrightarrow> month_and_day ls m d = (m', d') \<Longrightarrow>
   m \<le> m' \<and> m' < m + int (length ls) \<and> 1 \<le> d' \<and> d' \<le> ls ! nat (m' - m) \<and>
   sum_list (take (nat (m' - m)) ls) + d' - 1 = d"
proof (induction ls m d rule: month_and_day.induct)
  case (1 m d)
  then show ?case by simp
next
  case (2 l ls m d)
  show ?case
  proof (cases "d < l")
    case True
    with 2 show ?thesis by auto
  next
    case False
    with 2 have rest: "m + 1 \<le> m' \<and> m' < m + 1 + int (length ls) \<and> 1 \<le> d' \<and> d' \<le> ls ! nat (m' - (m + 1)) \<and>
        sum_list (take (nat (m' - (m + 1))) ls) + d' - 1 = d - l"
      by simp
    then have "nat (m' - m) = Suc (nat (m' - (m + 1)))" by (simp add: Suc_nat_eq_nat_zadd1)
    with rest show ?thesis by simp
  qed
qed

lemma year_parts:
  fixes a b c e :: int
  assumes "0 \<le> b" "b \<le> 3" "0 \<le> c" "c \<le> 24" "0 \<le> e" "e \<le> 3"
  shows "(400 * a + 100 * b + 4 * c + e) div 4 = 100 * a + 25 * b + c"
    "(400 * a + 100 * b + 4 * c + e) div 100 = 4 * a + b"
    "(400 * a + 100 * b + 4 * c + e) div 400 = a"
    "is_leap (400 * a + 100 * b + 4 * c + e + 1) \<longleftrightarrow> e = 3 \<and> (c \<noteq> 24 \<or> b = 3)"
proof -
  have 1: "(4 * (100 * a + 25 * b + c) + e) div 4 = 100 * a + 25 * b + c" using assms by simp
  have 2: "(100 * (4 * a + b) + (4 * c + e)) div 100 = 4 * a + b" using assms by simp
  have 3: "(400 * a + (100 * b + 4 * c + e)) div 400 = a" using assms by simp
  show "(400 * a + 100 * b + 4 * c + e) div 4 = 100 * a + 25 * b + c" using 1 by (simp add: algebra_simps)
  show "(400 * a + 100 * b + 4 * c + e) div 100 = 4 * a + b" using 2 by (simp add: algebra_simps)
  show "(400 * a + 100 * b + 4 * c + e) div 400 = a" using 3 by (simp add: algebra_simps)
  have m4: "(400 * a + 100 * b + 4 * c + e + 1) mod 4 = (e + 1) mod 4"
    using mod_mult_self4 [of 4 "100 * a + 25 * b + c" "e + 1"] by (simp add: algebra_simps)
  have m100: "(400 * a + 100 * b + 4 * c + e + 1) mod 100 = (4 * c + e + 1) mod 100"
    using mod_mult_self4 [of 100 "4 * a + b" "4 * c + e + 1"] by (simp add: algebra_simps)
  have m400: "(400 * a + 100 * b + 4 * c + e + 1) mod 400 = (100 * b + 4 * c + e + 1) mod 400"
    using mod_mult_self4 [of 400 a "100 * b + 4 * c + e + 1"] by (simp add: algebra_simps)
  have e4: "(e + 1) mod 4 = 0 \<longleftrightarrow> e = 3" using assms by presburger
  have c100: "(4 * c + 4) mod 100 = 0 \<longleftrightarrow> c = 24"
    using assms by (cases "c = 24") (simp_all add: mod_pos_pos_trivial)
  have b400: "(100 * b + 100) mod 400 = 0 \<longleftrightarrow> b = 3"
    using assms by (cases "b = 3") (simp_all add: mod_pos_pos_trivial)
  show "is_leap (400 * a + 100 * b + 4 * c + e + 1) \<longleftrightarrow> e = 3 \<and> (c \<noteq> 24 \<or> b = 3)"
    unfolding is_leap_def m4 m100 m400 e4 using c100 b400 by (auto simp: add.commute)
qed

text \<open>The number of whole units of \<open>u\<close> days in \<open>r\<close>, but at most three.\<close>

lemma capped_division:
  fixes r u :: int
  assumes "0 \<le> r" "r \<le> 4 * u" "0 < u" "b = min 3 (r div u)"
  shows "0 \<le> b \<and> b \<le> 3 \<and> 0 \<le> r - b * u \<and> r - b * u \<le> u \<and> (b < 3 \<longrightarrow> r - b * u < u)"
proof (cases "r div u < 3")
  case True
  then have "b = r div u" using assms(4) by simp
  moreover have "r - r div u * u = r mod u" by (simp add: minus_div_mult_eq_mod)
  ultimately show ?thesis
    using True assms(1,3) by (simp add: pos_imp_zdiv_nonneg_iff less_imp_le)
next
  case False
  then have b: "b = 3" using assms(4) by simp
  have "3 * u \<le> r div u * u" using False assms(3) by (intro mult_right_mono) simp_all
  also have "\<dots> \<le> r" using minus_mod_eq_div_mult [of r u] pos_mod_sign [of u r] assms(3) by linarith
  finally show ?thesis using b assms(2) by simp
qed

lemma year_and_offset_inverse:
  assumes "year_and_offset n = (y, k)"
  shows "365 * (y - 1) + (y - 1) div 4 - (y - 1) div 100 + (y - 1) div 400 + k = n \<and> 0 \<le> k \<and>
         k < sum_list (month_lengths y)"
proof -
  define a where "a = n div 146097"
  define r where "r = n mod 146097"
  define b where "b = min 3 (r div 36524)"
  define r1 where "r1 = r - b * 36524"
  define c where "c = r1 div 1461"
  define r2 where "r2 = r1 mod 1461"
  define e where "e = min 3 (r2 div 365)"
  have y: "y = 400 * a + 100 * b + 4 * c + e + 1" and k: "k = r2 - e * 365"
    using assms by (simp_all add: year_and_offset_def Let_def a_def r_def b_def r1_def c_def r2_def e_def)
  have r: "0 \<le> r" "r < 146097" "n = 146097 * a + r" by (simp_all add: r_def a_def)
  have b: "0 \<le> b \<and> b \<le> 3 \<and> 0 \<le> r1 \<and> r1 \<le> 36524 \<and> (b < 3 \<longrightarrow> r1 < 36524)"
    unfolding r1_def using r by (intro capped_division b_def) simp_all
  have c: "r1 = 1461 * c + r2" "0 \<le> r2" "r2 < 1461" by (simp_all add: c_def r2_def)
  then have c': "0 \<le> c" "c \<le> 24" using b by linarith+
  have e: "0 \<le> e \<and> e \<le> 3 \<and> 0 \<le> k \<and> k \<le> 365 \<and> (e < 3 \<longrightarrow> k < 365)"
    unfolding k using c by (intro capped_division e_def) simp_all
  have parts: "(y - 1) div 4 = 100 * a + 25 * b + c" "(y - 1) div 100 = 4 * a + b" "(y - 1) div 400 = a"
    "is_leap y \<longleftrightarrow> e = 3 \<and> (c \<noteq> 24 \<or> b = 3)"
    using year_parts [of b c e a] b c' e by (simp_all add: y)
  have "k < (if e = 3 \<and> (c \<noteq> 24 \<or> b = 3) then 366 else 365)"
  proof (cases "e = 3 \<and> (c \<noteq> 24 \<or> b = 3)")
    case False
    then consider "e < 3" | "e = 3" "c = 24" "b < 3" using e b by linarith
    then show ?thesis
    proof cases
      case 1
      then show ?thesis using e False by simp
    next
      case 2
      then have "r2 < 1460" using b c(1) by simp
      then show ?thesis using 2 k by simp
    qed
  next
    case True
    then show ?thesis using e by simp
  qed
  then have "k < sum_list (month_lengths y)" by (auto simp: month_lengths_def parts(4) split: if_splits)
  moreover have "365 * (y - 1) + (y - 1) div 4 - (y - 1) div 100 + (y - 1) div 400 + k = n"
    unfolding parts(1-3) using r(3) c(1) k r1_def y by simp
  ultimately show ?thesis using e by simp
qed

lemma days_from_civil_inverse:
  assumes "civil_from_days z = (y, m, d)"
  shows "days_from_civil y m d = z" "1 \<le> m" "m \<le> 12" "1 \<le> d" "d \<le> month_lengths y ! nat (m - 1)"
proof -
  obtain k where yk: "year_and_offset (z + 719162) = (y, k)" and md: "month_and_day (month_lengths y) 1 k = (m, d)"
    using assms by (auto simp: civil_from_days_def split: prod.splits)
  note off = year_and_offset_inverse [OF yk]
  note split = month_and_day_split [OF _ _ md]
  show "days_from_civil y m d = z" using off split by (simp add: days_from_civil_def)
  show "1 \<le> m" "m \<le> 12" "1 \<le> d" "d \<le> month_lengths y ! nat (m - 1)"
    using off split by (simp_all add: month_lengths_def)
qed

definition date_text :: "int \<Rightarrow> string" where
  "date_text days = (case civil_from_days days of (y, m, d) \<Rightarrow>
     pad_text 4 (nat y) @ ''-'' @ pad_text 2 (nat m) @ ''-'' @ pad_text 2 (nat d))"

definition offset_text :: "int \<Rightarrow> string" where
  "offset_text z =
     (let a = nat (\<bar>z\<bar> div usec) in
      (if z < 0 then ''-'' else ''+'') @ pad_text 2 (a div 3600) @ '':'' @ pad_text 2 (a mod 3600 div 60)
      @ (if a mod 60 = 0 then '''' else '':'' @ pad_text 2 (a mod 60)))"

definition isoformat :: "datetime \<Rightarrow> string" where
  "isoformat t =
     (let w = dt_wall t;
          days = w div (86400 * usec);
          us = w mod (86400 * usec);
          s = us div usec;
          micro = us mod usec
      in date_text days @ ''T'' @ pad_text 2 (nat (s div 3600)) @ '':'' @
         pad_text 2 (nat (s mod 3600 div 60)) @ '':'' @ pad_text 2 (nat (s mod 60)) @
         (if micro = 0 then '''' else ''.'' @ pad_text 6 (nat micro)) @
         (case dt_off t of None \<Rightarrow> '''' | Some z \<Rightarrow> offset_text z))"

end
