(* ===== verification/Py_Text.thy ===== *)
theory Py_Text
  imports Py_Time
begin

text \<open>
  The texts the code prints and reads back: numbers, dates and lists of fields. The readers follow
  \<open>int\<close>, \<open>float\<close> (and \<open>Decimal\<close>), \<open>date.fromisoformat\<close> and \<open>str.split\<close> on ASCII text, without digit
  separators (\<open>1_000\<close>), without the special floats, and without the week form of a date.
\<close>

section \<open>The text of a float\<close>

text \<open>
  \<open>str(x)\<close> of a float with a finite decimal expansion of at most 17 digits after the point and
  below the exponent notation of large numbers, which covers strikes and option prices.
\<close>

fun frac_digits :: "nat \<Rightarrow> rat \<Rightarrow> string" where
  "frac_digits 0 r = []"
| "frac_digits (Suc n) r =
     (if r = 0 then []
      else let d = \<lfloor>10 * r\<rfloor> in nat_text (nat d) @ frac_digits n (10 * r - of_int d))"

definition float_text :: "pyfloat \<Rightarrow> string" where
  "float_text x =
     (let a = \<bar>x\<bar>; i = \<lfloor>a\<rfloor>; f = frac_digits 17 (a - of_int i)
      in (if x < 0 then ''-'' else '''') @ nat_text (nat i) @ ''.'' @ (if f = [] then ''0'' else f))"

section \<open>Fields\<close>

text \<open>\<open>text.split(c)\<close>\<close>

fun split_on :: "char \<Rightarrow> string \<Rightarrow> string list" where
  "split_on c [] = [[]]"
| "split_on c (x # xs) =
     (if x = c then [] # split_on c xs
      else case split_on c xs of [] \<Rightarrow> [[x]] | y # ys \<Rightarrow> (x # y) # ys)"

lemma split_on_last: "c \<notin> set a \<Longrightarrow> split_on c a = [a]"
  by (induction a) auto

lemma split_on_field: "c \<notin> set a \<Longrightarrow> split_on c (a @ c # b) = a # split_on c b"
  by (induction a) auto

section \<open>Reading numbers\<close>

definition is_digit :: "char \<Rightarrow> bool" where
  "is_digit c \<longleftrightarrow> (let n = (of_char c :: nat) in 48 \<le> n \<and> n \<le> 57)"

definition digit_value :: "char \<Rightarrow> nat" where
  "digit_value c = of_char c - 48"

definition digits_value :: "string \<Rightarrow> nat" where
  "digits_value t = foldl (\<lambda>n c. 10 * n + digit_value c) 0 t"

definition parse_nat :: "string \<Rightarrow> nat option" where
  "parse_nat t = (if t \<noteq> [] \<and> list_all is_digit t then Some (digits_value t) else None)"

definition split_sign :: "string \<Rightarrow> bool \<times> string" where
  "split_sign t =
     (case t of [] \<Rightarrow> (False, [])
      | c # r \<Rightarrow> if c = CHR ''-'' then (True, r) else if c = CHR ''+'' then (False, r) else (False, t))"

definition parse_int :: "string \<Rightarrow> int option" where
  "parse_int t = (case split_sign (py_strip t) of (neg, r) \<Rightarrow>
     map_option (\<lambda>n. if neg then - int n else int n) (parse_nat r))"

definition parse_fixed :: "string \<Rightarrow> rat option" where
  "parse_fixed t =
     (case split_on (CHR ''.'') t of
        [i] \<Rightarrow> map_option of_nat (parse_nat i)
      | [i, f] \<Rightarrow>
          if (i = [] \<and> f = []) \<or> \<not> list_all is_digit (i @ f) then None
          else Some (of_nat (digits_value i) + of_nat (digits_value f) / 10 ^ length f)
      | _ \<Rightarrow> None)"

definition scale_ten :: "int \<Rightarrow> rat \<Rightarrow> rat" where
  "scale_ten e m = (if 0 \<le> e then m * 10 ^ nat e else m / 10 ^ nat (- e))"

definition parse_number :: "string \<Rightarrow> rat option" where
  "parse_number t =
     (case split_sign (py_strip t) of (neg, r) \<Rightarrow>
        map_option (\<lambda>x. if neg then - x else x)
          (case split_on (CHR ''e'') (map (\<lambda>c. if c = CHR ''E'' then CHR ''e'' else c) r) of
             [m] \<Rightarrow> parse_fixed m
           | [m, e] \<Rightarrow>
               (case (parse_fixed m, split_sign e) of
                  (Some x, (eneg, ed)) \<Rightarrow>
                    map_option (\<lambda>n. scale_ten (if eneg then - int n else int n) x) (parse_nat ed)
                | _ \<Rightarrow> None)
           | _ \<Rightarrow> None))"

section \<open>Reading dates\<close>

text \<open>\<open>date.fromisoformat\<close> on \<open>YYYY-MM-DD\<close> and \<open>YYYYMMDD\<close>.\<close>

definition parse_ymd :: "string \<Rightarrow> string \<Rightarrow> string \<Rightarrow> int option" where
  "parse_ymd ys ms ds =
     (case (parse_nat ys, parse_nat ms, parse_nat ds) of
        (Some y, Some m, Some d) \<Rightarrow>
          if valid_civil (int y) (int m) (int d) then Some (days_from_civil (int y) (int m) (int d)) else None
      | _ \<Rightarrow> None)"

definition parse_date :: "string \<Rightarrow> int option" where
  "parse_date t =
     (if length t = 10 \<and> t ! 4 = CHR ''-'' \<and> t ! 7 = CHR ''-''
      then parse_ymd (take 4 t) (take 2 (drop 5 t)) (drop 8 t)
      else if length t = 8 then parse_ymd (take 4 t) (take 2 (drop 4 t)) (drop 6 t)
      else None)"

section \<open>What is printed reads back\<close>

lemma digit_char:
  assumes "n < 10"
  shows "is_digit (char_of (48 + n))" "digit_value (char_of (48 + n)) = n"
  using assms by (simp_all add: is_digit_def digit_value_def Let_def)

lemma digits_value_snoc: "digits_value (t @ [c]) = 10 * digits_value t + digit_value c"
  by (simp add: digits_value_def)

lemma digits_value_zeros: "digits_value (replicate k (CHR ''0'') @ t) = digits_value t"
  by (induction k) (simp_all add: digits_value_def digit_value_def)

lemma nat_text_digits: "list_all is_digit (nat_text n) \<and> digits_value (nat_text n) = n \<and> nat_text n \<noteq> []"
proof (induction n rule: nat_text.induct)
  case (1 n)
  show ?case
  proof (cases "n < 10")
    case True
    then show ?thesis
      by (simp add: nat_text.simps [of n] digit_char digits_value_def)
  next
    case False
    then have "nat_text n = nat_text (n div 10) @ [char_of (48 + n mod 10)]" by (simp add: nat_text.simps [of n])
    then show ?thesis using 1 False by (simp add: digit_char digits_value_snoc)
  qed
qed

lemma parse_nat_text [simp]: "parse_nat (nat_text n) = Some n"
  using nat_text_digits [of n] by (simp add: parse_nat_def)

lemma pad_text_digits: "list_all is_digit (pad_text w n) \<and> digits_value (pad_text w n) = n \<and> pad_text w n \<noteq> []"
  using nat_text_digits [of n]
  by (simp add: pad_text_def Let_def digits_value_zeros) (simp add: list_all_iff is_digit_def)

lemma parse_pad_text [simp]: "parse_nat (pad_text w n) = Some n"
  using pad_text_digits [of w n] by (simp add: parse_nat_def)

lemma length_nat_text: "n < 10 ^ w \<Longrightarrow> 0 < w \<Longrightarrow> length (nat_text n) \<le> w"
proof (induction w arbitrary: n)
  case (Suc w)
  show ?case
  proof (cases "n < 10")
    case True
    then show ?thesis by (simp add: nat_text.simps [of n])
  next
    case False
    then have "nat_text n = nat_text (n div 10) @ [char_of (48 + n mod 10)]" by (simp add: nat_text.simps [of n])
    moreover have "n div 10 < 10 ^ w" using Suc.prems(1) by (simp add: less_mult_imp_div_less mult.commute)
    moreover have "0 < w" using False Suc.prems(1) by (cases w) simp_all
    ultimately show ?thesis using Suc.IH by simp
  qed
qed simp

lemma length_pad_text: "n < 10 ^ w \<Longrightarrow> 0 < w \<Longrightarrow> length (pad_text w n) = w"
  using length_nat_text [of n w] by (simp add: pad_text_def Let_def)

text \<open>The dates a \<open>date\<close> can hold.\<close>

definition in_calendar :: "int \<Rightarrow> bool" where
  "in_calendar d \<longleftrightarrow> (case civil_from_days d of (y, _) \<Rightarrow> 1 \<le> y \<and> y \<le> 9999)"

lemma month_lengths_le: "1 \<le> m \<Longrightarrow> m \<le> 12 \<Longrightarrow> month_lengths y ! nat (m - 1) \<le> 31"
proof -
  assume "1 \<le> m" "m \<le> 12"
  then have "nat (m - 1) < 12" by simp
  then show ?thesis
    by (auto simp: month_lengths_def less_Suc_eq numeral_eq_Suc nth_Cons split: nat.splits)
qed

lemma parse_date_text:
  assumes "in_calendar z"
  shows "parse_date (date_text z) = Some z" "length (date_text z) = 10"
proof -
  obtain y m d where ymd: "civil_from_days z = (y, m, d)" by (cases "civil_from_days z") auto
  note inv = days_from_civil_inverse [OF ymd]
  have y: "1 \<le> y" "y \<le> 9999" using assms ymd by (simp_all add: in_calendar_def)
  have d: "d \<le> 31" using inv(5) month_lengths_le [OF inv(2,3), of y] by linarith
  let ?y = "pad_text 4 (nat y)" and ?m = "pad_text 2 (nat m)" and ?d = "pad_text 2 (nat d)"
  have len: "length ?y = 4" "length ?m = 2" "length ?d = 2"
    using y inv(2,3,4) d by (simp_all add: length_pad_text nat_less_iff)
  have t: "date_text z = ?y @ ''-'' @ ?m @ ''-'' @ ?d" by (simp add: date_text_def ymd)
  have "valid_civil y m d" using y inv by (simp add: valid_civil_def)
  then show "parse_date (date_text z) = Some z" "length (date_text z) = 10"
    using y inv by (simp_all add: t parse_date_def len nth_append parse_ymd_def)
qed

section \<open>Floats read back\<close>

text \<open>A number with at most 17 digits after its decimal point.\<close>

definition short_decimal :: "rat \<Rightarrow> bool" where
  "short_decimal x \<longleftrightarrow> x * 10 ^ 17 \<in> \<int>"

lemma foldl_digits:
  "foldl (\<lambda>n c. 10 * n + digit_value c) a t = a * 10 ^ length t + foldl (\<lambda>n c. 10 * n + digit_value c) 0 t"
proof (induction t arbitrary: a)
  case (Cons c t)
  show ?case
    using Cons.IH [of "10 * a + digit_value c"] Cons.IH [of "digit_value c"]
    by (simp add: algebra_simps)
qed simp

lemma digits_value_Cons: "digits_value (c # t) = digit_value c * 10 ^ length t + digits_value t"
  unfolding digits_value_def using foldl_digits [of "digit_value c" t] by simp

lemma frac_digits_value:
  assumes "r * 10 ^ n \<in> \<int>" "0 \<le> r" "r < 1"
  shows "list_all is_digit (frac_digits n r) \<and>
         of_nat (digits_value (frac_digits n r)) / 10 ^ length (frac_digits n r) = r"
  using assms
proof (induction n arbitrary: r)
  case 0
  then obtain k :: int where "r = of_int k" by (auto elim: Ints_cases)
  with 0 have "r = 0" by auto
  then show ?case by (simp add: digits_value_def)
next
  case (Suc n)
  show ?case
  proof (cases "r = 0")
    case True
    then show ?thesis by (simp add: digits_value_def)
  next
    case False
    define d where "d = \<lfloor>10 * r\<rfloor>"
    define s where "s = 10 * r - of_int d"
    have d: "0 \<le> d" "d < 10" using Suc.prems by (simp_all add: d_def floor_less_iff)
    have s: "0 \<le> s" "s < 1" unfolding s_def d_def by linarith+
    have "s * 10 ^ n = r * 10 ^ Suc n - of_int (d * 10 ^ n)" by (simp add: s_def algebra_simps)
    then have "s * 10 ^ n \<in> \<int>" using Suc.prems(1) by (simp only: Ints_diff Ints_of_int)
    note IH = Suc.IH [OF this s]
    define t where "t = frac_digits n s"
    have small: "nat d < 10" using d by simp
    have printed: "frac_digits (Suc n) r = char_of (48 + nat d) # t"
      using False d by (simp add: Let_def d_def [symmetric] s_def [symmetric] t_def nat_text.simps [of "nat d"] small)
    have digit: "is_digit (char_of (48 + nat d))" "digit_value (char_of (48 + nat d)) = nat d"
      using d by (simp_all add: digit_char)
    have "(of_nat (digits_value (frac_digits (Suc n) r)) / 10 ^ length (frac_digits (Suc n) r) :: rat) =
        (of_int d * 10 ^ length t + of_nat (digits_value t)) / (10 * 10 ^ length t)"
      unfolding printed using d by (simp add: digits_value_Cons digit)
    also have "\<dots> = (of_int d + of_nat (digits_value t) / 10 ^ length t) / 10" by (simp add: field_simps)
    also have "\<dots> = r" using IH by (simp add: t_def s_def)
    finally show ?thesis unfolding printed using IH by (simp add: digit t_def)
  qed
qed

lemma digit_not_space: "is_digit c \<Longrightarrow> \<not> is_space c \<and> c \<noteq> CHR ''.'' \<and> c \<noteq> CHR ''e'' \<and> c \<noteq> CHR ''E'' \<and>
    c \<noteq> CHR ''-'' \<and> c \<noteq> CHR ''+'' \<and> c \<noteq> CHR '':''"
  by (auto simp: is_digit_def is_space_def Let_def)

lemma digits_avoid: "list_all is_digit t \<Longrightarrow> \<not> is_digit c \<Longrightarrow> c \<notin> set t"
  by (auto simp: list_all_iff)

definition number_char :: "char \<Rightarrow> bool" where
  "number_char c \<longleftrightarrow> is_digit c \<or> c = CHR ''.'' \<or> c = CHR ''-''"

lemma number_char_solid: "number_char c \<Longrightarrow> \<not> is_space c"
  by (auto simp: number_char_def is_digit_def is_space_def Let_def)

lemma drop_solid: "\<forall>c \<in> set t. \<not> is_space c \<Longrightarrow> dropWhile is_space t = t"
  by (cases t) auto

lemma strip_solid: "\<forall>c \<in> set t. \<not> is_space c \<Longrightarrow> py_strip t = t"
  using drop_solid [of t] drop_solid [of "rev t"] by (simp add: py_strip_def)

lemma parse_number_float_text:
  assumes "short_decimal x"
  shows "parse_number (float_text x) = Some x" "\<forall>c \<in> set (float_text x). number_char c"
proof -
  define i where "i = \<lfloor>\<bar>x\<bar>\<rfloor>"
  define r where "r = \<bar>x\<bar> - of_int i"
  define f where "f = frac_digits 17 r"
  define g where "g = (if f = [] then ''0'' else f)"
  have r: "0 \<le> r" "r < 1" unfolding r_def i_def by linarith+
  have i: "0 \<le> i" by (simp add: i_def)
  have "\<bar>x\<bar> * 10 ^ 17 \<in> \<int>"
  proof (cases "0 \<le> x")
    case False
    then have "\<bar>x\<bar> * 10 ^ 17 = - (x * 10 ^ 17)" by simp
    then show ?thesis using assms unfolding short_decimal_def by (simp only: Ints_minus)
  qed (use assms in \<open>simp add: short_decimal_def\<close>)
  then have "\<bar>x\<bar> * 10 ^ 17 - of_int (i * 10 ^ 17) \<in> \<int>" by (rule Ints_diff) (rule Ints_of_int)
  moreover have "r * 10 ^ 17 = \<bar>x\<bar> * 10 ^ 17 - of_int (i * 10 ^ 17)" by (simp add: r_def left_diff_distrib)
  ultimately have int: "r * 10 ^ 17 \<in> \<int>" by simp
  note f = frac_digits_value [OF int r, folded f_def]
  have g: "list_all is_digit g" "of_nat (digits_value g) / 10 ^ length g = r" "g \<noteq> []"
    using f by (cases "f = []"; simp add: g_def digits_value_def digit_value_def is_digit_def)+
  let ?n = "nat_text (nat i)"
  have n: "list_all is_digit ?n" "digits_value ?n = nat i" "?n \<noteq> []" using nat_text_digits by auto
  define u where "u = ?n @ CHR ''.'' # g"
  have printed: "float_text x = (if x < 0 then ''-'' else '''') @ u"
    by (simp add: float_text_def Let_def i_def [symmetric] r_def [symmetric] f_def [symmetric] g_def u_def)
  show chars: "\<forall>c \<in> set (float_text x). number_char c"
    using n(1) g(1) by (auto simp: printed u_def number_char_def list_all_iff)
  then have "\<forall>c \<in> set (float_text x). \<not> is_space c"
    by (auto simp: number_char_solid)
  then have strip: "py_strip (float_text x) = float_text x" by (rule strip_solid)
  have sign: "split_sign (float_text x) = (x < 0, u)"
    using n by (cases ?n) (auto simp: printed u_def split_sign_def dest: digit_not_space)
  have solid: "c \<noteq> CHR ''e'' \<and> c \<noteq> CHR ''E''" if "c \<in> set u" for c
    using that n(1) g(1) by (auto simp: u_def list_all_iff dest: digit_not_space)
  have "map (\<lambda>c. if c = CHR ''E'' then CHR ''e'' else c) u = u" using solid by (intro map_idI) auto
  moreover have "split_on (CHR ''e'') u = [u]" using solid by (intro split_on_last) auto
  moreover have "split_on (CHR ''.'') u = [?n, g]"
    unfolding u_def using digits_avoid [OF n(1)] digits_avoid [OF g(1)]
    by (simp add: split_on_field split_on_last is_digit_def)
  then have "parse_fixed u = Some \<bar>x\<bar>"
    using n g i by (simp add: parse_fixed_def) (simp add: r_def)
  ultimately show "parse_number (float_text x) = Some x"
    by (simp add: parse_number_def strip sign)
qed

end
