(* ===== verification/Ledger_Schemas.thy ===== *)
theory Ledger_Schemas
  imports Py_Time
begin

text \<open>
  The append-only ledger events of \<open>joker/ledger/schemas.py\<close>: their type, the field checks
  that run when one is built, and the factory \<open>make_ledger_event\<close>.
\<close>

datatype side = Buy | Sell

fun side_text :: "side \<Rightarrow> string" where
  "side_text Buy = ''buy''"
| "side_text Sell = ''sell''"

datatype ledger_event_type =
    ORDER_SUBMISSION_REQUESTED
  | BROKER_ORDER_ACCEPTED
  | PARTIAL_FILL
  | FINAL_FILL
  | CANCELLATION
  | REJECTION
  | POSITION_OPENED
  | POSITION_RESIZED
  | POSITION_CLOSED
  | FEE_RECORDED
  | RECONCILIATION_CORRECTION

fun ledger_event_type_value :: "ledger_event_type \<Rightarrow> string" where
  "ledger_event_type_value ORDER_SUBMISSION_REQUESTED = ''order_submission_requested''"
| "ledger_event_type_value BROKER_ORDER_ACCEPTED = ''broker_order_accepted''"
| "ledger_event_type_value PARTIAL_FILL = ''partial_fill''"
| "ledger_event_type_value FINAL_FILL = ''final_fill''"
| "ledger_event_type_value CANCELLATION = ''cancellation''"
| "ledger_event_type_value REJECTION = ''rejection''"
| "ledger_event_type_value POSITION_OPENED = ''position_opened''"
| "ledger_event_type_value POSITION_RESIZED = ''position_resized''"
| "ledger_event_type_value POSITION_CLOSED = ''position_closed''"
| "ledger_event_type_value FEE_RECORDED = ''fee_recorded''"
| "ledger_event_type_value RECONCILIATION_CORRECTION = ''reconciliation_correction''"

text \<open>
  A value of the free-form \<open>metadata\<close> dictionary. \<open>MNumText\<close> is a string that \<open>Decimal\<close>
  parses, given by the number it stands for; \<open>MText\<close> is any other string.
\<close>

datatype meta_val = MNull | MBool bool | MInt int | MText string | MNumText decimal

text \<open>\<open>bool(value)\<close>\<close>

fun meta_truthy :: "meta_val \<Rightarrow> bool" where
  "meta_truthy MNull = False"
| "meta_truthy (MBool b) = b"
| "meta_truthy (MInt i) = (i \<noteq> 0)"
| "meta_truthy (MText s) = (s \<noteq> [])"
| "meta_truthy (MNumText _) = True"

text \<open>\<open>Decimal(str(value))\<close>\<close>

fun meta_decimal :: "meta_val \<Rightarrow> py_error + decimal" where
  "meta_decimal (MInt i) = Inr (of_int i)"
| "meta_decimal (MNumText d) = Inr d"
| "meta_decimal MNull = Inl InvalidOperation"
| "meta_decimal (MBool _) = Inl InvalidOperation"
| "meta_decimal (MText _) = Inl InvalidOperation"

record ledger_event =
  le_id :: uuid
  le_account :: string
  le_client_order_id :: string
  le_broker_order_id :: "string option"
  le_contract_id :: string
  le_side :: side
  le_quantity :: decimal
  le_price :: "decimal option"
  le_exchange_ts :: datetime
  le_source_event_id :: "uuid option"
  le_key :: string
  le_type :: ledger_event_type
  le_fees :: "decimal option"
  le_metadata :: "(string, meta_val) dict"
  le_session_id :: string
  le_position_id :: "string option"
  le_created_at :: datetime

section \<open>Field checks\<close>

definition require_tz_aware :: "ledger_event \<Rightarrow> bool" where
  "require_tz_aware e \<longleftrightarrow> tz_aware (le_exchange_ts e) \<and> tz_aware (le_created_at e)"

definition require_non_negative_qty :: "ledger_event \<Rightarrow> bool" where
  "require_non_negative_qty e \<longleftrightarrow> \<not> le_quantity e < 0"

definition require_non_negative_money :: "ledger_event \<Rightarrow> bool" where
  "require_non_negative_money e \<longleftrightarrow>
     (case le_price e of None \<Rightarrow> True | Some p \<Rightarrow> \<not> p < 0) \<and>
     (case le_fees e of None \<Rightarrow> True | Some f \<Rightarrow> \<not> f < 0)"

definition require_non_empty :: "ledger_event \<Rightarrow> bool" where
  "require_non_empty e \<longleftrightarrow>
     nonblank (le_account e) \<and> nonblank (le_client_order_id e) \<and> nonblank (le_contract_id e) \<and>
     nonblank (le_key e) \<and> nonblank (le_session_id e)"

definition valid_ledger_event :: "ledger_event \<Rightarrow> bool" where
  "valid_ledger_event e \<longleftrightarrow>
     require_tz_aware e \<and> require_non_negative_qty e \<and> require_non_negative_money e \<and>
     require_non_empty e"

text \<open>\<open>LedgerEvent(**kwargs)\<close>: every check runs; one failure is a \<open>ValidationError\<close>.\<close>

definition build_ledger_event :: "ledger_event \<Rightarrow> py_error + ledger_event" where
  "build_ledger_event e = (if valid_ledger_event e then Inr e else Inl ValidationError)"

text \<open>
  The keyword arguments of \<open>make_ledger_event\<close> with their defaults: a caller overrides the
  optional ones by record update. The id and the creation time are filled in by the factory.
\<close>

definition ledger_event_kwargs ::
  "ledger_event_type \<Rightarrow> string \<Rightarrow> string \<Rightarrow> string \<Rightarrow> side \<Rightarrow> decimal \<Rightarrow> datetime \<Rightarrow> string \<Rightarrow>
   string \<Rightarrow> ledger_event" where
  "ledger_event_kwargs etype account client_order_id contract_id sd quantity ts key session =
     \<lparr>le_id = [], le_account = account, le_client_order_id = client_order_id,
      le_broker_order_id = None, le_contract_id = contract_id, le_side = sd,
      le_quantity = quantity, le_price = None, le_exchange_ts = ts, le_source_event_id = None,
      le_key = key, le_type = etype, le_fees = None, le_metadata = [],
      le_session_id = session, le_position_id = None, le_created_at = ts\<rparr>"

text \<open>
  \<open>fresh_id\<close> and \<open>now\<close> are what \<open>uuid4()\<close> and \<open>datetime.now(utc)\<close> give at this call; they are
  used where the caller passes no id or creation time.
\<close>

definition make_ledger_event ::
  "uuid \<Rightarrow> datetime \<Rightarrow> uuid option \<Rightarrow> datetime option \<Rightarrow> ledger_event \<Rightarrow> py_error + ledger_event" where
  "make_ledger_event fresh_id now ledger_event_id created_at kw =
     build_ledger_event
       (kw\<lparr>le_id := (case ledger_event_id of None \<Rightarrow> fresh_id | Some i \<Rightarrow> i),
           le_created_at := (case created_at of None \<Rightarrow> now | Some t \<Rightarrow> t)\<rparr>)"

section \<open>What a built event satisfies\<close>

lemma build_ledger_event_Inr:
  "build_ledger_event e = Inr e' \<longleftrightarrow> e' = e \<and> valid_ledger_event e"
  by (auto simp: build_ledger_event_def)

lemma make_ledger_event_valid:
  "make_ledger_event i n oi oc kw = Inr e \<Longrightarrow> valid_ledger_event e"
  by (auto simp: make_ledger_event_def build_ledger_event_Inr)

lemma make_ledger_event_fields:
  assumes "make_ledger_event i n None None kw = Inr e"
  shows "le_id e = i" "le_created_at e = n" "le_key e = le_key kw" "le_type e = le_type kw"
    "le_quantity e = le_quantity kw" "le_price e = le_price kw" "le_side e = le_side kw"
    "le_client_order_id e = le_client_order_id kw" "le_contract_id e = le_contract_id kw"
    "le_broker_order_id e = le_broker_order_id kw" "le_session_id e = le_session_id kw"
    "le_fees e = le_fees kw" "le_metadata e = le_metadata kw" "le_account e = le_account kw"
    "le_source_event_id e = le_source_event_id kw" "le_position_id e = le_position_id kw"
    "le_exchange_ts e = le_exchange_ts kw"
  using assms by (auto simp: make_ledger_event_def build_ledger_event_Inr)

lemma make_ledger_event_ok_iff:
  "(\<exists>e. make_ledger_event i n None None kw = Inr e) \<longleftrightarrow>
   valid_ledger_event (kw\<lparr>le_id := i, le_created_at := n\<rparr>)"
  by (simp add: make_ledger_event_def build_ledger_event_Inr)

lemma valid_ledger_event_nonneg:
  "valid_ledger_event e \<Longrightarrow> 0 \<le> le_quantity e"
  "valid_ledger_event e \<Longrightarrow> le_price e = Some p \<Longrightarrow> 0 \<le> p"
  "valid_ledger_event e \<Longrightarrow> le_fees e = Some f \<Longrightarrow> 0 \<le> f"
  by (auto simp: valid_ledger_event_def require_non_negative_qty_def require_non_negative_money_def)

end
