(* ===== verification/Domain.thy ===== *)
theory Domain
  imports Py_Text Ledger_Schemas
begin

text \<open>
  The trading objects of \<open>joker/schemas/domain.py\<close>: option contracts and quotes, order intents,
  broker orders, fills, positions, trade candidates and the risk configuration. A field that only
  carries a version number is left out. Dates are days since 1970-01-01.
\<close>

section \<open>Contracts and quotes\<close>

datatype option_type = Call | Put

fun option_type_text :: "option_type \<Rightarrow> string" where
  "option_type_text Call = ''call''"
| "option_type_text Put = ''put''"

record option_contract =
  oc_symbol :: string
  oc_expiration :: int
  oc_strike :: pyfloat
  oc_type :: option_type
  oc_is_0dte :: bool

text \<open>\<open>OptionContract(...)\<close> with its validator.\<close>

definition build_option_contract :: "option_contract \<Rightarrow> py_error + option_contract" where
  "build_option_contract c = (if \<not> oc_is_0dte c then Inl ValidationError else Inr c)"

record candle =
  cn_symbol :: string
  cn_timestamp :: datetime
  cn_open :: pyfloat
  cn_high :: pyfloat
  cn_low :: pyfloat
  cn_close :: pyfloat
  cn_volume :: pyfloat

record option_quote =
  oq_contract :: option_contract
  oq_bid :: pyfloat
  oq_ask :: pyfloat
  oq_last :: "pyfloat option"
  oq_timestamp :: datetime
  oq_source :: string
  oq_classification :: string
  oq_persist_allowed :: bool
  oq_openai_allowed :: bool
  oq_is_synthetic :: bool
  oq_delayed :: bool
  oq_received_at :: "datetime option"

definition quote_mid :: "option_quote \<Rightarrow> pyfloat" where
  "quote_mid q = (oq_bid q + oq_ask q) / 2"

definition quote_spread_pct :: "option_quote \<Rightarrow> pyfloat" where
  "quote_spread_pct q =
     (let mid = quote_mid q in
      if mid \<le> 0 then 100 else (oq_ask q - oq_bid q) / mid * 100)"

record market_snapshot =
  ms_symbol :: string
  ms_timestamp :: datetime
  ms_price :: pyfloat
  ms_bid :: "pyfloat option"
  ms_ask :: "pyfloat option"
  ms_candles :: "candle list"

text \<open>\<open>contract_id_for\<close> of the execution runtime.\<close>

definition contract_id_for :: "option_contract \<Rightarrow> string" where
  "contract_id_for c =
     oc_symbol c @ '':'' @ date_text (oc_expiration c) @ '':'' @ float_text (oc_strike c) @ '':'' @
     option_type_text (oc_type c)"

section \<open>Orders\<close>

datatype order_kind = Limit | Market

fun order_kind_text :: "order_kind \<Rightarrow> string" where
  "order_kind_text Limit = ''limit''"
| "order_kind_text Market = ''market''"

record order_intent =
  oi_intent_id :: string
  oi_candidate_id :: string
  oi_contract :: option_contract
  oi_side :: side
  oi_order_type :: order_kind
  oi_quantity :: int
  oi_limit_price :: "pyfloat option"

datatype broker_status = Pending | Open | Filled | Cancelled | Rejected

fun broker_status_text :: "broker_status \<Rightarrow> string" where
  "broker_status_text Pending = ''pending''"
| "broker_status_text Open = ''open''"
| "broker_status_text Filled = ''filled''"
| "broker_status_text Cancelled = ''cancelled''"
| "broker_status_text Rejected = ''rejected''"

record broker_order =
  bo_order_id :: string
  bo_intent_id :: string
  bo_status :: broker_status
  bo_contract :: option_contract
  bo_side :: side
  bo_quantity :: int
  bo_limit_price :: "pyfloat option"
  bo_submitted_at :: datetime

record fill =
  fl_fill_id :: string
  fl_order_id :: string
  fl_price :: pyfloat
  fl_quantity :: int
  fl_filled_at :: datetime
  fl_slippage_pct :: pyfloat

record position =
  po_position_id :: string
  po_contract :: option_contract
  po_quantity :: int
  po_avg_entry_price :: pyfloat
  po_is_open :: bool
  po_opened_at :: datetime
  po_closed_at :: "datetime option"
  po_realized_pnl_usd :: "pyfloat option"

section \<open>Candidates and risk\<close>

datatype direction = Long_Call | Long_Put

record trade_candidate =
  tc_candidate_id :: string
  tc_run_id :: string
  tc_setup_id :: string
  tc_contract :: option_contract
  tc_quote :: option_quote
  tc_direction :: direction
  tc_entry_limit_price :: pyfloat
  tc_stop_price :: pyfloat
  tc_take_profit_price :: pyfloat
  tc_quantity :: int
  tc_created_at :: datetime

text \<open>The \<open>Field(ge=1, le=100)\<close> check of \<open>TradeCandidate\<close>.\<close>

definition build_trade_candidate :: "trade_candidate \<Rightarrow> py_error + trade_candidate" where
  "build_trade_candidate c =
     (if 1 \<le> tc_quantity c \<and> tc_quantity c \<le> 100 then Inr c else Inl ValidationError)"

datatype risk_policy = Strict | Agent_Led

fun risk_policy_text :: "risk_policy \<Rightarrow> string" where
  "risk_policy_text Strict = ''strict''"
| "risk_policy_text Agent_Led = ''agent_led''"

record risk_config =
  rc_max_daily_loss_usd :: pyfloat
  rc_max_trades_per_day :: int
  rc_max_open_positions :: int
  rc_max_premium_usd :: pyfloat
  rc_max_spread_pct :: pyfloat
  rc_quote_max_age_seconds :: int
  rc_allowed_symbol :: string
  rc_kill_switch :: bool
  rc_allow_delayed_quotes :: bool
  rc_feed_max_silence_seconds :: int
  rc_delayed_quote_max_age_seconds :: int
  rc_policy :: risk_policy
  rc_authorized_capital_usd :: pyfloat
  rc_reserved_capital_usd :: pyfloat

record risk_decision =
  rd_candidate_id :: string
  rd_approved :: bool
  rd_reason_codes :: "string list"
  rd_message :: string
  rd_policy :: string

record daily_state =
  ds_trading_day :: int
  ds_run_id :: string
  ds_mode :: string
  ds_daily_pnl_usd :: pyfloat
  ds_trades_count :: int
  ds_open_positions :: int
  ds_kill_switch :: bool
  ds_playbook_approved :: bool

section \<open>Quotes\<close>

lemma quote_spread_nonneg:
  "0 \<le> oq_bid q \<Longrightarrow> oq_bid q \<le> oq_ask q \<Longrightarrow> 0 \<le> quote_spread_pct q"
  by (simp add: quote_spread_pct_def quote_mid_def Let_def)

end
