(* ===== verification/Paper_Broker.thy ===== *)
theory Paper_Broker
  imports Domain
begin

text \<open>
  The simulated broker of \<open>joker/broker/interface.py\<close>: its cash, orders, fills and positions, and
  one function per method. The ids and clock readings a call draws from \<open>uuid4()\<close> and the system
  clock come from an environment, indexed by a counter in the state. The loop of a sell over the
  open positions is \<open>close_positions\<close>.
\<close>

record paper_env =
  pe_id :: "nat \<Rightarrow> uuid"
  pe_now :: "nat \<Rightarrow> datetime"

record paper_broker =
  pb_initial_balance :: pyfloat
  pb_cash_balance :: pyfloat
  pb_slippage_pct :: pyfloat
  pb_default_spread_pct :: pyfloat
  pb_orders :: "(string, broker_order) dict"
  pb_fills :: "(string, fill) dict"
  pb_positions :: "(string, position) dict"
  pb_daily_pnl :: pyfloat
  pb_used_order_ids :: "string set"
  pb_draws :: nat

definition new_paper_broker :: "pyfloat \<Rightarrow> pyfloat \<Rightarrow> pyfloat \<Rightarrow> paper_broker" where
  "new_paper_broker initial_balance slippage_pct default_spread_pct =
     \<lparr>pb_initial_balance = initial_balance, pb_cash_balance = initial_balance,
      pb_slippage_pct = slippage_pct, pb_default_spread_pct = default_spread_pct, pb_orders = [],
      pb_fills = [], pb_positions = [], pb_daily_pnl = 0, pb_used_order_ids = {}, pb_draws = 0\<rparr>"

text \<open>\<open>intent.limit_price or 1.0\<close>: a price of zero is falsy.\<close>

definition simulate_fill_price :: "paper_broker \<Rightarrow> order_intent \<Rightarrow> pyfloat" where
  "simulate_fill_price b i =
     (let base = (case oi_limit_price i of None \<Rightarrow> 1 | Some p \<Rightarrow> if p = 0 then 1 else p);
          slip = base * (pb_slippage_pct b / 100)
      in if oi_side i = Buy then base + slip else base - slip)"

definition should_fill :: "order_intent \<Rightarrow> pyfloat \<Rightarrow> bool" where
  "should_fill i fill_price =
     (case oi_limit_price i of
        None \<Rightarrow> True
      | Some l \<Rightarrow> if oi_side i = Buy then fill_price \<le> l else l \<le> fill_price)"

fun close_positions ::
  "paper_env \<Rightarrow> option_contract \<Rightarrow> pyfloat \<Rightarrow> int \<Rightarrow> (string, position) dict \<Rightarrow> nat \<Rightarrow>
   (string, position) dict \<times> pyfloat \<times> nat" where
  "close_positions env c fp q [] n = ([], 0, n)"
| "close_positions env c fp q ((k, p) # ps) n =
     (if po_is_open p \<and> po_contract p = c
      then let pnl = (fp - po_avg_entry_price p) * of_int q * 100;
               p' = p\<lparr>po_is_open := False, po_closed_at := Some (pe_now env n), po_realized_pnl_usd := Some pnl\<rparr>;
               (ps', tot, n') = close_positions env c fp q ps (Suc n)
           in ((k, p') # ps', pnl + tot, n')
      else let (ps', tot, n') = close_positions env c fp q ps n in ((k, p) # ps', tot, n'))"

definition apply_fill_broker :: "paper_env \<Rightarrow> broker_order \<Rightarrow> pyfloat \<Rightarrow> paper_broker \<Rightarrow> paper_broker" where
  "apply_fill_broker env ord fill_price b =
     (let n = pb_draws b;
          f = \<lparr>fl_fill_id = pe_id env n, fl_order_id = bo_order_id ord, fl_price = fill_price,
               fl_quantity = bo_quantity ord, fl_filled_at = pe_now env n,
               fl_slippage_pct = pb_slippage_pct b\<rparr>;
          b1 = b\<lparr>pb_fills := dict_set (fl_fill_id f) f (pb_fills b),
                 pb_orders := dict_set (bo_order_id ord) (ord\<lparr>bo_status := Filled\<rparr>) (pb_orders b)\<rparr>;
          cost = fill_price * of_int (bo_quantity ord) * 100
      in if bo_side ord = Buy
         then let pos_id = pe_id env (Suc n);
                  p = \<lparr>po_position_id = pos_id, po_contract = bo_contract ord, po_quantity = bo_quantity ord,
                       po_avg_entry_price = fill_price, po_is_open = True, po_opened_at = pe_now env (Suc n),
                       po_closed_at = None, po_realized_pnl_usd = None\<rparr>
              in b1\<lparr>pb_cash_balance := pb_cash_balance b1 - cost,
                    pb_positions := dict_set pos_id p (pb_positions b1), pb_draws := Suc (Suc n)\<rparr>
         else let (ps, pnl, n') = close_positions env (bo_contract ord) fill_price (bo_quantity ord)
                                    (pb_positions b1) (Suc n)
              in b1\<lparr>pb_cash_balance := pb_cash_balance b1 + cost, pb_positions := ps,
                    pb_daily_pnl := pb_daily_pnl b1 + pnl, pb_draws := n'\<rparr>)"

text \<open>
  \<open>submit_order\<close>. The returned order is the object stored in \<open>_orders\<close>, so it is read back after
  a possible fill.
\<close>

definition submit_order :: "paper_env \<Rightarrow> order_intent \<Rightarrow> (paper_broker, broker_order) run" where
  "submit_order env i b =
     (let order_id = pe_id env (pb_draws b) in
      if order_id \<in> pb_used_order_ids b
      then run_raise (BrokerError (''Duplicate order ID rejected: '' @ order_id)) (b\<lparr>pb_draws := Suc (pb_draws b)\<rparr>)
      else
        let ord = \<lparr>bo_order_id = order_id, bo_intent_id = oi_intent_id i, bo_status = Open,
                   bo_contract = oi_contract i, bo_side = oi_side i, bo_quantity = oi_quantity i,
                   bo_limit_price = oi_limit_price i, bo_submitted_at = pe_now env (pb_draws b)\<rparr>;
            b1 = b\<lparr>pb_used_order_ids := insert order_id (pb_used_order_ids b),
                   pb_orders := dict_set order_id ord (pb_orders b), pb_draws := Suc (pb_draws b)\<rparr>;
            fill_price = simulate_fill_price b1 i
        in if oi_order_type i = Limit \<and> oi_limit_price i \<noteq> None \<and> should_fill i fill_price
           then run_ret (ord\<lparr>bo_status := Filled\<rparr>) (apply_fill_broker env ord fill_price b1)
           else run_ret ord b1)"

definition cancel_order :: "string \<Rightarrow> (paper_broker, broker_order) run" where
  "cancel_order order_id b =
     (case dict_get (pb_orders b) order_id of
        None \<Rightarrow> run_raise (BrokerError (''Order not found: '' @ order_id)) b
      | Some ord \<Rightarrow>
          if bo_status ord = Filled
          then run_raise (BrokerError (''Cannot cancel filled order: '' @ order_id)) b
          else let ord' = ord\<lparr>bo_status := Cancelled\<rparr>
               in run_ret ord' (b\<lparr>pb_orders := dict_set order_id ord' (pb_orders b)\<rparr>))"

definition get_order :: "string \<Rightarrow> paper_broker \<Rightarrow> broker_order option" where
  "get_order order_id b = dict_get (pb_orders b) order_id"

definition list_open_orders :: "paper_broker \<Rightarrow> broker_order list" where
  "list_open_orders b = filter (\<lambda>ord. bo_status ord = Open) (dict_values (pb_orders b))"

definition list_positions :: "paper_broker \<Rightarrow> position list" where
  "list_positions b = dict_values (pb_positions b)"

definition get_account_balance :: "paper_broker \<Rightarrow> pyfloat" where
  "get_account_balance b = pb_cash_balance b"

definition get_daily_pnl_available :: "paper_broker \<Rightarrow> bool \<times> pyfloat option" where
  "get_daily_pnl_available b = (True, Some (pb_daily_pnl b))"

definition get_fill_price :: "string \<Rightarrow> paper_broker \<Rightarrow> pyfloat option" where
  "get_fill_price order_id b =
     map_option fl_price (find (\<lambda>f. fl_order_id f = order_id) (dict_values (pb_fills b)))"

end
