(* ===== verification/Event_Bus.thy ===== *)
theory Event_Bus
  imports Py_Time Ledger_Schemas
begin

text \<open>
  The domain events of \<open>joker/events/schemas.py\<close> and the in-process event bus of
  \<open>joker/events/bus.py\<close>. The bus runs one worker per correlation id, so its behaviour is a step
  relation: a publication, a worker taking the next event of its queue, a worker running the next
  handler of the event it has taken, and a worker finishing it, interleaved in any order. Handlers
  are named by numbers and their outcome (returned, timed out, raised) is a parameter.
\<close>

section \<open>Events\<close>

datatype event_type =
    SESSION_STARTED
  | QUOTE_RECEIVED
  | TRADE_RECEIVED
  | BAR_CLOSED
  | MARKET_SNAPSHOT_CREATED
  | OPTION_SURFACE_CREATED
  | ORDER_SUBMITTED
  | ORDER_ACCEPTED
  | ORDER_PARTIALLY_FILLED
  | ORDER_FILLED
  | ORDER_CANCELLED
  | ORDER_REJECTED
  | EV_POSITION_OPENED
  | POSITION_CHANGED
  | EV_POSITION_CLOSED
  | RECONCILIATION_REQUIRED
  | SESSION_ENDING
  | SESSION_ENDED
  | COGNITIVE_CYCLE_STARTED
  | AGENT_EVIDENCE_CREATED
  | WORLD_MODEL_CREATED
  | HYPOTHESIS_CREATED
  | STRATEGY_CREATED
  | DEBATE_REVIEW_CREATED
  | META_DECISION_CREATED
  | MORE_EVIDENCE_REQUESTED
  | EXECUTION_PROPOSAL_CREATED
  | COGNITIVE_DECISION_STALE
  | COGNITIVE_RUNTIME_DEGRADED
  | POSITION_THESIS_UPDATED
  | POSITION_ACTION_PROPOSED
  | COGNITIVE_CYCLE_COMPLETED

fun event_type_value :: "event_type \<Rightarrow> string" where
  "event_type_value SESSION_STARTED = ''session_started''"
| "event_type_value QUOTE_RECEIVED = ''quote_received''"
| "event_type_value TRADE_RECEIVED = ''trade_received''"
| "event_type_value BAR_CLOSED = ''bar_closed''"
| "event_type_value MARKET_SNAPSHOT_CREATED = ''market_snapshot_created''"
| "event_type_value OPTION_SURFACE_CREATED = ''option_surface_created''"
| "event_type_value ORDER_SUBMITTED = ''order_submitted''"
| "event_type_value ORDER_ACCEPTED = ''order_accepted''"
| "event_type_value ORDER_PARTIALLY_FILLED = ''order_partially_filled''"
| "event_type_value ORDER_FILLED = ''order_filled''"
| "event_type_value ORDER_CANCELLED = ''order_cancelled''"
| "event_type_value ORDER_REJECTED = ''order_rejected''"
| "event_type_value EV_POSITION_OPENED = ''position_opened''"
| "event_type_value POSITION_CHANGED = ''position_changed''"
| "event_type_value EV_POSITION_CLOSED = ''position_closed''"
| "event_type_value RECONCILIATION_REQUIRED = ''reconciliation_required''"
| "event_type_value SESSION_ENDING = ''session_ending''"
| "event_type_value SESSION_ENDED = ''session_ended''"
| "event_type_value COGNITIVE_CYCLE_STARTED = ''cognitive_cycle_started''"
| "event_type_value AGENT_EVIDENCE_CREATED = ''agent_evidence_created''"
| "event_type_value WORLD_MODEL_CREATED = ''world_model_created''"
| "event_type_value HYPOTHESIS_CREATED = ''hypothesis_created''"
| "event_type_value STRATEGY_CREATED = ''strategy_created''"
| "event_type_value DEBATE_REVIEW_CREATED = ''debate_review_created''"
| "event_type_value META_DECISION_CREATED = ''meta_decision_created''"
| "event_type_value MORE_EVIDENCE_REQUESTED = ''more_evidence_requested''"
| "event_type_value EXECUTION_PROPOSAL_CREATED = ''execution_proposal_created''"
| "event_type_value COGNITIVE_DECISION_STALE = ''cognitive_decision_stale''"
| "event_type_value COGNITIVE_RUNTIME_DEGRADED = ''cognitive_runtime_degraded''"
| "event_type_value POSITION_THESIS_UPDATED = ''position_thesis_updated''"
| "event_type_value POSITION_ACTION_PROPOSED = ''position_action_proposed''"
| "event_type_value COGNITIVE_CYCLE_COMPLETED = ''cognitive_cycle_completed''"

record domain_event =
  de_event_id :: uuid
  de_event_type :: event_type
  de_schema_version :: string
  de_correlation_id :: uuid
  de_causation_id :: "uuid option"
  de_session_id :: string
  de_exchange_ts :: datetime
  de_created_ts :: datetime
  de_source :: string
  de_payload :: "(string, meta_val) dict"

definition valid_domain_event :: "domain_event \<Rightarrow> bool" where
  "valid_domain_event e \<longleftrightarrow>
     tz_aware (de_exchange_ts e) \<and> tz_aware (de_created_ts e) \<and>
     nonblank (de_session_id e) \<and> nonblank (de_source e)"

text \<open>
  \<open>make_event\<close> with the arguments the callers pass; \<open>event_id\<close> and \<open>now\<close> are what the field
  defaults draw.
\<close>

definition make_event ::
  "uuid \<Rightarrow> datetime \<Rightarrow> event_type \<Rightarrow> string \<Rightarrow> string \<Rightarrow> datetime \<Rightarrow> (string, meta_val) dict \<Rightarrow> uuid \<Rightarrow>
   py_error + domain_event" where
  "make_event event_id now etype session source ts payload correlation =
     (let e = \<lparr>de_event_id = event_id, de_event_type = etype, de_schema_version = ''1'',
               de_correlation_id = correlation, de_causation_id = None, de_session_id = session,
               de_exchange_ts = ts, de_created_ts = now, de_source = source, de_payload = payload\<rparr>
      in if valid_domain_event e then Inr e else Inl ValidationError)"

section \<open>The bus\<close>

type_synonym handler = nat

datatype handler_outcome = Returned | TimedOut | Raised

text \<open>
  \<open>bus_queues\<close> holds the pending items of each correlation id (\<open>None\<close> is the stop mark of
  \<open>close\<close>), \<open>bus_current\<close> the event a worker is dispatching with the handlers still to run, and
  \<open>bus_log\<close> the handler calls made so far.
\<close>

record event_bus =
  bus_subs :: "(event_type option, handler list) dict"
  bus_seen :: "uuid set"
  bus_queues :: "(uuid, domain_event option list) dict"
  bus_workers :: "uuid set"
  bus_current :: "(uuid, domain_event \<times> handler list) dict"
  bus_log :: "(handler \<times> domain_event \<times> handler_outcome) list"

definition new_bus :: event_bus where
  "new_bus = \<lparr>bus_subs = [], bus_seen = {}, bus_queues = [], bus_workers = {}, bus_current = [], bus_log = []\<rparr>"

definition subs_of :: "event_type option \<Rightarrow> event_bus \<Rightarrow> handler list" where
  "subs_of t b = (case dict_get (bus_subs b) t of None \<Rightarrow> [] | Some hs \<Rightarrow> hs)"

definition subscribe :: "event_type option \<Rightarrow> handler \<Rightarrow> event_bus \<Rightarrow> event_bus" where
  "subscribe t h b = b\<lparr>bus_subs := dict_set t (subs_of t b @ [h]) (bus_subs b)\<rparr>"

definition queue_of :: "uuid \<Rightarrow> event_bus \<Rightarrow> domain_event option list" where
  "queue_of c b = (case dict_get (bus_queues b) c of None \<Rightarrow> [] | Some q \<Rightarrow> q)"

text \<open>\<open>publish\<close>: the lock makes it one step.\<close>

definition publish :: "domain_event \<Rightarrow> event_bus \<Rightarrow> bool \<times> event_bus" where
  "publish e b =
     (if de_event_id e \<in> bus_seen b then (False, b)
      else
        let corr = de_correlation_id e;
            b1 = b\<lparr>bus_seen := insert (de_event_id e) (bus_seen b)\<rparr>;
            b2 = (if dict_get (bus_queues b1) corr = None
                  then b1\<lparr>bus_queues := dict_set corr [] (bus_queues b1),
                          bus_workers := insert corr (bus_workers b1)\<rparr>
                  else b1)
        in (True, b2\<lparr>bus_queues := dict_set corr (queue_of corr b2 @ [Some e]) (bus_queues b2)\<rparr>))"

text \<open>\<open>_dispatch\<close>: the handlers of the type, then those subscribed to every event.\<close>

definition handlers_for :: "domain_event \<Rightarrow> event_bus \<Rightarrow> handler list" where
  "handlers_for e b = subs_of (Some (de_event_type e)) b @ subs_of None b"

text \<open>The worker loop \<open>_run_stream\<close>, one step at a time.\<close>

definition take_next :: "uuid \<Rightarrow> event_bus \<Rightarrow> event_bus option" where
  "take_next c b =
     (if c \<in> bus_workers b \<and> dict_get (bus_current b) c = None
      then (case queue_of c b of
              [] \<Rightarrow> None
            | None # q \<Rightarrow> Some (b\<lparr>bus_queues := dict_set c q (bus_queues b), bus_workers := bus_workers b - {c}\<rparr>)
            | Some e # q \<Rightarrow> Some (b\<lparr>bus_queues := dict_set c q (bus_queues b),
                                    bus_current := dict_set c (e, handlers_for e b) (bus_current b)\<rparr>))
      else None)"

text \<open>
  One handler call: whatever its outcome, an error is logged and the loop goes on with the next.
\<close>

definition run_handler :: "(handler \<Rightarrow> domain_event \<Rightarrow> handler_outcome) \<Rightarrow> uuid \<Rightarrow> event_bus \<Rightarrow> event_bus option" where
  "run_handler outcome c b =
     (case dict_get (bus_current b) c of
        Some (e, h # hs) \<Rightarrow> Some (b\<lparr>bus_current := dict_set c (e, hs) (bus_current b),
                                    bus_log := bus_log b @ [(h, e, outcome h e)]\<rparr>)
      | _ \<Rightarrow> None)"

definition finish_event :: "uuid \<Rightarrow> event_bus \<Rightarrow> event_bus option" where
  "finish_event c b =
     (case dict_get (bus_current b) c of
        Some (e, []) \<Rightarrow> Some (b\<lparr>bus_current := filter (\<lambda>kv. fst kv \<noteq> c) (bus_current b)\<rparr>)
      | _ \<Rightarrow> None)"

text \<open>\<open>is_idle\<close>: nothing is being dispatched and every queue is empty.\<close>

definition is_idle :: "event_bus \<Rightarrow> bool" where
  "is_idle b \<longleftrightarrow> bus_current b = [] \<and> (\<forall>q \<in> set (dict_values (bus_queues b)). q = [])"

text \<open>
  \<open>drain\<close> at its deadline: the work done while it waits is worker steps before it, and work still
  pending is a \<open>TimeoutError\<close>. \<open>close\<close> drains, stops every worker and forgets the queues.
\<close>

definition drain :: "(event_bus, unit) run" where
  "drain b = (if is_idle b then run_ret () b
              else run_raise (OtherError ''TimeoutError'' ''event bus drain timed out with pending work'') b)"

definition close_bus :: "(event_bus, unit) run" where
  "close_bus = run_bind drain (\<lambda>_. run_modify (\<lambda>b. b\<lparr>bus_queues := [], bus_workers := {}\<rparr>))"

definition clear_seen :: "event_bus \<Rightarrow> event_bus" where
  "clear_seen b = b\<lparr>bus_seen := {}\<rparr>"

section \<open>Publishing is idempotent\<close>

lemma publish_seen: "bus_seen (snd (publish e b)) = insert (de_event_id e) (bus_seen b)"
  by (auto simp: publish_def Let_def)

interpretation ebus: idempotent_consumer "\<lambda>e b. Inr (snd (publish e b))" "\<lambda>b e. de_event_id e \<in> bus_seen b"
    "\<lambda>d e. de_event_id d = de_event_id e"
proof unfold_locales
  fix d e :: domain_event and s s' :: event_bus
  show "de_event_id e \<in> bus_seen s \<Longrightarrow> Inr (snd (publish e s)) = Inr s" by (simp add: publish_def)
  show "Inr (snd (publish e s)) = Inr s' \<Longrightarrow> de_event_id e \<in> bus_seen s'"
    using publish_seen [of e s] by (metis Inr_inject insertI1)
  show "Inr (snd (publish d s)) = Inr s' \<Longrightarrow> de_event_id e \<in> bus_seen s \<Longrightarrow> de_event_id e \<in> bus_seen s'"
    using publish_seen [of d s] by (metis Inr_inject insertI2)
qed simp

section \<open>Delivery\<close>

text \<open>
  \<open>bus_run outcome b acc started\<close>: the bus can reach \<open>b\<close>, having accepted the events \<open>acc\<close> in this
  order and having started to dispatch the events \<open>started\<close> in this order.
\<close>

inductive bus_run ::
  "(handler \<Rightarrow> domain_event \<Rightarrow> handler_outcome) \<Rightarrow> event_bus \<Rightarrow> domain_event list \<Rightarrow> domain_event list \<Rightarrow> bool"
  for outcome where
  br_new: "bus_run outcome new_bus [] []"
| br_subscribe: "bus_run outcome b acc started \<Longrightarrow> bus_run outcome (subscribe t h b) acc started"
| br_publish: "bus_run outcome b acc started \<Longrightarrow> publish e b = (True, b') \<Longrightarrow> bus_run outcome b' (acc @ [e]) started"
| br_duplicate: "bus_run outcome b acc started \<Longrightarrow> publish e b = (False, b') \<Longrightarrow> bus_run outcome b' acc started"
| br_take: "bus_run outcome b acc started \<Longrightarrow> take_next c b = Some b' \<Longrightarrow> queue_of c b = Some e # q \<Longrightarrow>
    bus_run outcome b' acc (started @ [e])"
| br_handler: "bus_run outcome b acc started \<Longrightarrow> run_handler outcome c b = Some b' \<Longrightarrow> bus_run outcome b' acc started"
| br_finish: "bus_run outcome b acc started \<Longrightarrow> finish_event c b = Some b' \<Longrightarrow> bus_run outcome b' acc started"

definition of_corr :: "uuid \<Rightarrow> domain_event list \<Rightarrow> domain_event list" where
  "of_corr c es = filter (\<lambda>e. de_correlation_id e = c) es"

text \<open>The invariant: per correlation id, what was accepted is what was started plus what is queued.\<close>

definition bus_inv :: "event_bus \<Rightarrow> domain_event list \<Rightarrow> domain_event list \<Rightarrow> bool" where
  "bus_inv b acc started \<longleftrightarrow>
     de_event_id ` set acc = bus_seen b \<and> distinct (map de_event_id acc) \<and>
     (\<forall>c. map Some (of_corr c acc) = map Some (of_corr c started) @ queue_of c b) \<and>
     (\<forall>c. dict_get (bus_queues b) c \<noteq> None \<longleftrightarrow> c \<in> bus_workers b)"

lemma queue_of_sel [simp]:
  "queue_of c (b\<lparr>bus_queues := dict_set k q (bus_queues b)\<rparr>) = (if c = k then q else queue_of c b)"
  by (simp add: queue_of_def)

lemma publish_True:
  assumes "publish e b = (True, b')"
  shows "de_event_id e \<notin> bus_seen b" "bus_seen b' = insert (de_event_id e) (bus_seen b)"
    "queue_of c b' = (if c = de_correlation_id e then queue_of c b @ [Some e] else queue_of c b)"
    "dict_get (bus_queues b') c \<noteq> None \<longleftrightarrow> c = de_correlation_id e \<or> dict_get (bus_queues b) c \<noteq> None"
    "bus_workers b' = (if dict_get (bus_queues b) (de_correlation_id e) = None
       then insert (de_correlation_id e) (bus_workers b) else bus_workers b)"
  using assms by (auto simp: publish_def Let_def queue_of_def split: if_splits option.splits)

lemma take_next_event:
  assumes "take_next c b = Some b'" "queue_of c b = Some e # q"
  shows "bus_seen b' = bus_seen b" "queue_of k b' = (if k = c then q else queue_of k b)"
    "bus_workers b' = bus_workers b" "dict_get (bus_queues b') k \<noteq> None \<longleftrightarrow> k = c \<or> dict_get (bus_queues b) k \<noteq> None"
    "c \<in> bus_workers b"
  using assms by (auto simp: take_next_def queue_of_def split: if_splits)

lemma bus_run_inv: "bus_run outcome b acc started \<Longrightarrow> bus_inv b acc started"
proof (induction rule: bus_run.induct)
  case br_new
  show ?case by (simp add: bus_inv_def new_bus_def queue_of_def of_corr_def)
next
  case (br_subscribe b acc started t h)
  then show ?case by (simp add: bus_inv_def subscribe_def queue_of_def)
next
  case (br_publish b acc started e b')
  note p = publish_True [OF br_publish.hyps(2)]
  have i: "de_event_id ` set acc = bus_seen b" "distinct (map de_event_id acc)"
    "\<And>c. map Some (of_corr c acc) = map Some (of_corr c started) @ queue_of c b"
    "\<And>c. dict_get (bus_queues b) c \<noteq> None \<longleftrightarrow> c \<in> bus_workers b"
    using br_publish.IH by (simp_all add: bus_inv_def)
  show ?case
    unfolding bus_inv_def
  proof (intro conjI allI)
    show "de_event_id ` set (acc @ [e]) = bus_seen b'" using i(1) p(2) by auto
    show "distinct (map de_event_id (acc @ [e]))" using i(1,2) p(1) by auto
    show "map Some (of_corr c (acc @ [e])) = map Some (of_corr c started) @ queue_of c b'" for c
      using i(3) [of c] p(3) [of c] by (simp add: of_corr_def)
    show "dict_get (bus_queues b') c \<noteq> None \<longleftrightarrow> c \<in> bus_workers b'" for c
      using i(4) p(4,5) by (metis insert_iff)
  qed
next
  case (br_duplicate b acc started e b')
  then show ?case by (auto simp: publish_def Let_def split: if_splits)
next
  case (br_take b acc started c b' e q)
  note t = take_next_event [OF br_take.hyps(2,3)]
  have i: "\<And>c. map Some (of_corr c acc) = map Some (of_corr c started) @ queue_of c b"
    "\<And>c. dict_get (bus_queues b) c \<noteq> None \<longleftrightarrow> c \<in> bus_workers b"
    "de_event_id ` set acc = bus_seen b" "distinct (map de_event_id acc)"
    using br_take.IH by (simp_all add: bus_inv_def)
  have "Some e \<in> set (map Some (of_corr c acc))" using i(1) [of c] br_take.hyps(3) by simp
  then have corr: "de_correlation_id e = c" by (auto simp: of_corr_def)
  show ?case
    unfolding bus_inv_def
  proof (intro conjI allI)
    show "map Some (of_corr k acc) = map Some (of_corr k (started @ [e])) @ queue_of k b'" for k
      using i(1) [of k] t(2) [of k] br_take.hyps(3) corr by (simp add: of_corr_def)
    show "dict_get (bus_queues b') k \<noteq> None \<longleftrightarrow> k \<in> bus_workers b'" for k
      using i(2) t(3-5) by metis
  qed (use i(3,4) t(1) in simp_all)
next
  case (br_handler b acc started c b')
  then have "bus_seen b' = bus_seen b \<and> bus_queues b' = bus_queues b \<and> bus_workers b' = bus_workers b"
    by (auto simp: run_handler_def split: option.splits list.splits)
  then show ?case using br_handler.IH by (simp add: bus_inv_def queue_of_def)
next
  case (br_finish b acc started c b')
  then have "bus_seen b' = bus_seen b \<and> bus_queues b' = bus_queues b \<and> bus_workers b' = bus_workers b"
    by (auto simp: finish_event_def split: option.splits list.splits)
  then show ?case using br_finish.IH by (simp add: bus_inv_def queue_of_def)
qed

text \<open>
  However publications and workers interleave, and whatever the handlers do, events of one
  correlation id are dispatched in the order they were accepted, none twice and none skipped: those
  started are a prefix of those accepted, and the rest is exactly the queue.
\<close>

theorem events_ordered_per_correlation:
  assumes "bus_run outcome b acc started"
  shows "map Some (of_corr c acc) = map Some (of_corr c started) @ queue_of c b \<and> distinct (map de_event_id acc)"
  using bus_run_inv [OF assms] by (simp add: bus_inv_def)

text \<open>
  Publishing is idempotent: after any sequence of publications that contains an event with
  this id, publishing it again changes nothing and reports a duplicate.
\<close>

theorem publish_duplicate_ignored:
  assumes "d \<in> set es" "de_event_id d = de_event_id e"
    and "fold_sum (\<lambda>e b. Inr (snd (publish e b))) es b = Inr b'"
  shows "publish e b' = (False, b')"
proof -
  have "de_event_id d \<in> bus_seen b'" by (rule ebus.fold_marks [OF assms(3,1)])
  then show ?thesis using assms(2) by (simp add: publish_def)
qed

section \<open>A concrete run\<close>

definition demo_event :: "string \<Rightarrow> string \<Rightarrow> domain_event" where
  "demo_event i c = projr (make_event i (at_utc 0) QUOTE_RECEIVED ''s1'' ''demo'' (at_utc 0) [] c)"

definition demo_bus :: event_bus where
  "demo_bus = snd (publish (demo_event ''e2'' ''c1'') (snd (publish (demo_event ''e1'' ''c1'') (subscribe None 7 new_bus))))"

lemma demo_bus_run:
  "bus_run (\<lambda>_ _. Raised) (the (take_next ''c1'' demo_bus)) [demo_event ''e1'' ''c1'', demo_event ''e2'' ''c1''] [demo_event ''e1'' ''c1'']"
proof -
  let ?b0 = "subscribe None 7 new_bus" and ?e1 = "demo_event ''e1'' ''c1''" and ?e2 = "demo_event ''e2'' ''c1''"
  have 0: "bus_run (\<lambda>_ _. Raised) ?b0 [] []" by (rule br_subscribe [OF br_new])
  have "publish ?e1 ?b0 = (True, snd (publish ?e1 ?b0))" by code_simp
  then have 1: "bus_run (\<lambda>_ _. Raised) (snd (publish ?e1 ?b0)) ([] @ [?e1]) []" by (rule br_publish [OF 0])
  have "publish ?e2 (snd (publish ?e1 ?b0)) = (True, demo_bus)" by code_simp
  then have 2: "bus_run (\<lambda>_ _. Raised) demo_bus (([] @ [?e1]) @ [?e2]) []" by (rule br_publish [OF 1])
  have "take_next ''c1'' demo_bus \<noteq> None" by code_simp
  then have t: "take_next ''c1'' demo_bus = Some (the (take_next ''c1'' demo_bus))" by simp
  have q: "queue_of ''c1'' demo_bus = Some ?e1 # [Some ?e2]" by code_simp
  show ?thesis using br_take [OF 2 t q] by simp
qed

theorem events_ordered_per_correlation_witness:
  "map Some (of_corr ''c1'' [demo_event ''e1'' ''c1'', demo_event ''e2'' ''c1'']) =
     map Some (of_corr ''c1'' [demo_event ''e1'' ''c1'']) @ queue_of ''c1'' (the (take_next ''c1'' demo_bus))"
  using events_ordered_per_correlation [OF demo_bus_run] by blast

theorem publish_duplicate_ignored_witness:
  "publish (demo_event ''e1'' ''c9'') demo_bus = (False, demo_bus)"
  by (rule publish_duplicate_ignored [of "demo_event ''e1'' ''c1''" "[demo_event ''e1'' ''c1'', demo_event ''e2'' ''c1'']" _
        "subscribe None 7 new_bus"]) (simp, code_simp, simp add: demo_bus_def)

end
