(* ===== verification/Ledger_Store.thy ===== *)
theory Ledger_Store
  imports Ledger_Schemas "HOL-Library.Multiset"
begin

text \<open>
  The append-only SQLite store of \<open>joker/ledger/store.py\<close>. A table row is kept as the event
  its payload column holds; the other columns are functions of it. The primary key is the event
  id and the idempotency key is unique. Queries filter the rows and order them by the text of the
  exchange timestamp, the text of the creation time and the event id, as the SQL does.
\<close>

record ledger_db =
  db_open :: bool
  db_rows :: "ledger_event list"

definition closed_db :: ledger_db where
  "closed_db = \<lparr>db_open = False, db_rows = []\<rparr>"

text \<open>\<open>initialize\<close> opens the connection and creates the table if it is missing.\<close>

definition initialize :: "ledger_db \<Rightarrow> ledger_db" where
  "initialize db = db\<lparr>db_open := True\<rparr>"

definition close_store :: "ledger_db \<Rightarrow> ledger_db" where
  "close_store db = db\<lparr>db_open := False\<rparr>"

definition require_conn :: "(ledger_db, unit) run" where
  "require_conn db = (if db_open db then run_ret () db else run_raise LedgerError db)"

definition get_by_idempotency_key :: "string \<Rightarrow> ledger_db \<Rightarrow> ledger_event option" where
  "get_by_idempotency_key key db = find (\<lambda>r. le_key r = key) (db_rows db)"

text \<open>Business fields only: the id and both timestamps are ignored.\<close>

definition events_equivalent :: "ledger_event \<Rightarrow> ledger_event \<Rightarrow> bool" where
  "events_equivalent l r \<longleftrightarrow>
     le_account l = le_account r \<and>
     le_client_order_id l = le_client_order_id r \<and>
     le_broker_order_id l = le_broker_order_id r \<and>
     le_contract_id l = le_contract_id r \<and>
     le_side l = le_side r \<and>
     le_quantity l = le_quantity r \<and>
     le_price l = le_price r \<and>
     le_source_event_id l = le_source_event_id r \<and>
     le_key l = le_key r \<and>
     le_type l = le_type r \<and>
     le_fees l = le_fees r \<and>
     dict_eq (le_metadata l) (le_metadata r) \<and>
     le_session_id l = le_session_id r \<and>
     le_position_id l = le_position_id r"

text \<open>
  The \<open>INSERT\<close> of \<open>append\<close> with its error handling: a clash of the primary key or of the unique
  idempotency key rolls back, and the stored row decides between a replay and a conflict. Nothing
  here relies on the look-up that ran before, so it also covers an append that was overtaken by
  another one between the two.
\<close>

definition insert_row :: "ledger_event \<Rightarrow> (ledger_db, bool) run" where
  "insert_row e db =
     (if le_id e \<in> set (map le_id (db_rows db)) \<or> le_key e \<in> set (map le_key (db_rows db))
      then case get_by_idempotency_key (le_key e) db of
             Some existing \<Rightarrow>
               if events_equivalent existing e then run_ret False db
               else run_raise IdempotencyConflict db
           | None \<Rightarrow> run_raise IdempotencyConflict db
      else run_ret True (db\<lparr>db_rows := db_rows db @ [e]\<rparr>))"

definition append_event :: "ledger_event \<Rightarrow> (ledger_db, bool) run" where
  "append_event e =
     run_bind require_conn (\<lambda>_.
     run_bind (run_get (get_by_idempotency_key (le_key e))) (\<lambda>existing.
       case existing of
         Some x \<Rightarrow> if events_equivalent x e then run_ret False else run_raise IdempotencyConflict
       | None \<Rightarrow> insert_row e))"

section \<open>Queries\<close>

definition row_order :: "ledger_event \<Rightarrow> string \<times> string \<times> string" where
  "row_order e = (isoformat (le_exchange_ts e), isoformat (le_created_at e), le_id e)"

definition query_rows :: "(ledger_event \<Rightarrow> bool) \<Rightarrow> (ledger_db, ledger_event list) run" where
  "query_rows p =
     run_bind require_conn (\<lambda>_. run_get (\<lambda>db. sort_key row_order (filter p (db_rows db))))"

definition get_by_session :: "string \<Rightarrow> (ledger_db, ledger_event list) run" where
  "get_by_session session_id = query_rows (\<lambda>e. le_session_id e = session_id)"

definition get_by_order :: "string \<Rightarrow> (ledger_db, ledger_event list) run" where
  "get_by_order client_order_id = query_rows (\<lambda>e. le_client_order_id e = client_order_id)"

definition get_by_contract :: "string \<Rightarrow> (ledger_db, ledger_event list) run" where
  "get_by_contract contract_id = query_rows (\<lambda>e. le_contract_id e = contract_id)"

definition get_by_position :: "string \<Rightarrow> (ledger_db, ledger_event list) run" where
  "get_by_position position_id = query_rows (\<lambda>e. le_position_id e = Some position_id)"

definition all_events :: "(ledger_db, ledger_event list) run" where
  "all_events = query_rows (\<lambda>e. True)"

section \<open>Interface: an append-only log keyed by idempotency key\<close>

text \<open>
  What the execution runtime relies on. \<open>entries\<close> is the stored log, \<open>app\<close> appends; a successful
  append adds exactly the event, any other outcome leaves the log alone, and a refusal
  (\<open>False\<close>) means that an equivalent event with the same key is stored.
\<close>

locale keyed_log =
  fixes app :: "ledger_event \<Rightarrow> ('s, bool) run"
    and entries :: "'s \<Rightarrow> ledger_event list"
    and ok :: "'s \<Rightarrow> bool"
  assumes app_ok: "ok s \<Longrightarrow> ok (snd (app e s))"
    and app_True: "ok s \<Longrightarrow> fst (app e s) = Inr True \<Longrightarrow> entries (snd (app e s)) = entries s @ [e]"
    and app_False: "ok s \<Longrightarrow> fst (app e s) = Inr False \<Longrightarrow>
      entries (snd (app e s)) = entries s \<and> (\<exists>x \<in> set (entries s). le_key x = le_key e \<and> events_equivalent x e)"
    and app_raise: "ok s \<Longrightarrow> fst (app e s) = Inl err \<Longrightarrow> entries (snd (app e s)) = entries s"
    and app_known: "ok s \<Longrightarrow> x \<in> set (entries s) \<Longrightarrow> le_key x = le_key e \<Longrightarrow> events_equivalent x e \<Longrightarrow>
      app e s = (Inr False, s)"
    and ok_keys: "ok s \<Longrightarrow> distinct (map le_key (entries s))"
begin

lemma app_grows: "ok s \<Longrightarrow> \<exists>new. entries (snd (app e s)) = entries s @ new \<and> set new \<subseteq> {e}"
proof (cases "fst (app e s)")
  case (Inl err)
  then show "ok s \<Longrightarrow> ?thesis" by (simp add: app_raise)
next
  case (Inr b)
  then show "ok s \<Longrightarrow> ?thesis" by (cases b) (simp_all add: app_True app_False)
qed

lemma app_stored:
  assumes "ok s" "fst (app e s) = Inr b" "events_equivalent e e"
  shows "\<exists>x \<in> set (entries (snd (app e s))). le_key x = le_key e \<and> events_equivalent x e"
proof (cases b)
  case True
  then show ?thesis using app_True [of s e] assms by auto
next
  case False
  then show ?thesis using app_False [of s e] assms by auto
qed

text \<open>Appending the same fact again, under a new id and new timestamps, is refused without effect.\<close>

lemma app_again:
  assumes "ok s" "fst (app e s) = Inr b" "le_key e' = le_key e"
    and "\<And>x. events_equivalent x e \<Longrightarrow> events_equivalent x e'" "events_equivalent e e"
  shows "app e' (snd (app e s)) = (Inr False, snd (app e s))"
proof -
  obtain x where x: "x \<in> set (entries (snd (app e s)))" "le_key x = le_key e" "events_equivalent x e"
    using app_stored [OF assms(1,2,5)] by auto
  show ?thesis
    using app_known [OF app_ok [OF assms(1)] x(1), of e'] x assms(3,4) by simp
qed

lemma key_decides:
  assumes "ok s" "x \<in> set (entries s)" "y \<in> set (entries s)" "le_key x = le_key y"
  shows "x = y"
  using ok_keys [OF assms(1)] assms(2-4) by (simp add: distinct_map inj_on_def)

end

section \<open>The SQLite store implements it\<close>

definition store_ok :: "ledger_db \<Rightarrow> bool" where
  "store_ok db \<longleftrightarrow> distinct (map le_id (db_rows db)) \<and> distinct (map le_key (db_rows db))"

lemma events_equivalent_refl [simp]: "events_equivalent e e"
  by (simp add: events_equivalent_def)

lemma events_equivalent_trans:
  "events_equivalent a b \<Longrightarrow> events_equivalent b c \<Longrightarrow> events_equivalent a c"
  by (simp add: events_equivalent_def dict_eq_iff)

lemma events_equivalent_sym: "events_equivalent a b \<Longrightarrow> events_equivalent b a"
  by (simp add: events_equivalent_def dict_eq_iff)

lemma events_equivalent_key: "events_equivalent a b \<Longrightarrow> le_key a = le_key b"
  by (simp add: events_equivalent_def)

lemma get_by_key_Some:
  "get_by_idempotency_key k db = Some x \<Longrightarrow> x \<in> set (db_rows db) \<and> le_key x = k"
  by (auto simp: get_by_idempotency_key_def find_Some_iff)

lemma get_by_key_None:
  "get_by_idempotency_key k db = None \<longleftrightarrow> k \<notin> le_key ` set (db_rows db)"
  by (auto simp: get_by_idempotency_key_def find_None_iff)

lemma get_by_key_stored:
  assumes "store_ok db" "x \<in> set (db_rows db)"
  shows "get_by_idempotency_key (le_key x) db = Some x"
proof -
  obtain y where y: "get_by_idempotency_key (le_key x) db = Some y"
    using assms(2) get_by_key_None [of "le_key x" db]
    by (cases "get_by_idempotency_key (le_key x) db") auto
  have "y = x"
    using get_by_key_Some [OF y] assms by (auto simp: store_ok_def distinct_map inj_on_def)
  then show ?thesis using y by simp
qed

text \<open>The four outcomes of an append.\<close>

lemma append_event_cases:
  "append_event e db =
     (if \<not> db_open db then (Inl LedgerError, db)
      else case get_by_idempotency_key (le_key e) db of
             Some x \<Rightarrow> (if events_equivalent x e then Inr False else Inl IdempotencyConflict, db)
           | None \<Rightarrow>
               if le_id e \<in> le_id ` set (db_rows db) then (Inl IdempotencyConflict, db)
               else (Inr True, db\<lparr>db_rows := db_rows db @ [e]\<rparr>))"
  using get_by_key_None [of "le_key e" db]
  by (cases "get_by_idempotency_key (le_key e) db")
     (auto simp: append_event_def require_conn_def run_bind_def run_defs insert_row_def)

lemma append_event_ok: "store_ok db \<Longrightarrow> store_ok (snd (append_event e db))"
  by (auto simp: append_event_cases store_ok_def get_by_key_None split: option.splits)

lemma insert_row_ok: "store_ok db \<Longrightarrow> store_ok (snd (insert_row e db))"
  by (auto simp: insert_row_def store_ok_def run_defs split: option.splits)

interpretation ls: keyed_log append_event db_rows "\<lambda>db. store_ok db \<and> db_open db"
proof unfold_locales
  fix db :: ledger_db and e x :: ledger_event and err
  assume ok: "store_ok db \<and> db_open db"
  show "store_ok (snd (append_event e db)) \<and> db_open (snd (append_event e db))"
    using ok append_event_ok [of db e]
    by (auto simp: append_event_cases [of e db] simp del: append_event_ok split: option.splits)
  show "fst (append_event e db) = Inr True \<Longrightarrow> db_rows (snd (append_event e db)) = db_rows db @ [e]"
    by (auto simp: append_event_cases split: option.splits if_splits)
  show "fst (append_event e db) = Inr False \<Longrightarrow> db_rows (snd (append_event e db)) = db_rows db \<and>
      (\<exists>x \<in> set (db_rows db). le_key x = le_key e \<and> events_equivalent x e)"
    by (auto simp: append_event_cases split: option.splits if_splits dest: get_by_key_Some)
  show "fst (append_event e db) = Inl err \<Longrightarrow> db_rows (snd (append_event e db)) = db_rows db"
    by (auto simp: append_event_cases split: option.splits if_splits)
  show "x \<in> set (db_rows db) \<Longrightarrow> le_key x = le_key e \<Longrightarrow> events_equivalent x e \<Longrightarrow>
      append_event e db = (Inr False, db)"
    using ok get_by_key_stored [of db x] by (simp add: append_event_cases)
  show "distinct (map le_key (db_rows db))"
    using ok by (simp add: store_ok_def)
qed

section \<open>Properties of the store\<close>

text \<open>
  \<open>append\<close> on an open store, by cases. A new key with a new id is stored at the end and
  reported as inserted; a known key with an equivalent event is a replay, a known key with a
  different event or a reused id is an \<open>IdempotencyConflict\<close>, and both leave the store unchanged.
\<close>

theorem append_event_outcomes:
  assumes "store_ok db" "db_open db"
  shows "append_event e db =
    (if \<exists>x \<in> set (db_rows db). le_key x = le_key e \<and> events_equivalent x e then (Inr False, db)
     else if \<exists>x \<in> set (db_rows db). le_key x = le_key e \<or> le_id x = le_id e
     then (Inl IdempotencyConflict, db)
     else (Inr True, db\<lparr>db_rows := db_rows db @ [e]\<rparr>))"
proof (cases "get_by_idempotency_key (le_key e) db")
  case None
  then have "\<forall>x \<in> set (db_rows db). le_key x \<noteq> le_key e" by (metis get_by_key_None image_eqI)
  moreover have "le_id e \<in> le_id ` set (db_rows db) \<longleftrightarrow> (\<exists>x \<in> set (db_rows db). le_id x = le_id e)"
    by (metis image_iff)
  ultimately show ?thesis using None assms by (auto simp: append_event_cases)
next
  case (Some x)
  have "y = x" if "y \<in> set (db_rows db)" "le_key y = le_key e" for y
    using get_by_key_stored [OF assms(1) that(1)] Some that(2) by simp
  then show ?thesis using get_by_key_Some [OF Some] Some assms by (auto simp: append_event_cases)
qed

definition demo_row :: "string \<Rightarrow> string \<Rightarrow> int \<Rightarrow> ledger_event" where
  "demo_row i key t =
     (ledger_event_kwargs FEE_RECORDED ''acct'' ''c1'' ''SPY:c'' Buy 0 (at_utc t) key ''s1'')\<lparr>le_id := i\<rparr>"

definition demo_db :: ledger_db where
  "demo_db = \<lparr>db_open = True, db_rows = [demo_row ''i1'' ''k1'' 0, demo_row ''i2'' ''k2'' 5]\<rparr>"

lemma demo_db_ok: "store_ok demo_db" "db_open demo_db"
  by (simp_all add: demo_db_def store_ok_def demo_row_def ledger_event_kwargs_def)

theorem append_event_outcomes_witness:
  "append_event (demo_row ''i3'' ''k1'' 9) demo_db = (Inr False, demo_db)"
  unfolding append_event_outcomes [OF demo_db_ok]
  by (simp add: demo_db_def demo_row_def ledger_event_kwargs_def events_equivalent_def)

text \<open>A sequence of appends, carrying on after a conflict.\<close>

fun append_all :: "ledger_event list \<Rightarrow> ledger_db \<Rightarrow> ledger_db" where
  "append_all [] db = db"
| "append_all (e # es) db = append_all es (snd (append_event e db))"

lemma append_event_open: "db_open (snd (append_event e db)) = db_open db"
  by (auto simp: append_event_cases split: option.splits)

text \<open>
  History is append-only and its keys stay unique: whatever is appended, replays and
  conflicts included, the earlier rows remain a prefix, the new rows are among the appended events,
  and no two rows share an id or an idempotency key.
\<close>

theorem append_all_keeps_history:
  assumes "store_ok db" "db_open db"
  shows "\<exists>new. db_rows (append_all es db) = db_rows db @ new \<and> set new \<subseteq> set es \<and> store_ok (append_all es db)"
  using assms
proof (induction es arbitrary: db)
  case (Cons e es)
  obtain n1 where n1: "db_rows (snd (append_event e db)) = db_rows db @ n1" "set n1 \<subseteq> {e}"
    using ls.app_grows [of db e] Cons.prems by auto
  obtain n2 where "db_rows (append_all es (snd (append_event e db))) = db_rows (snd (append_event e db)) @ n2"
    "set n2 \<subseteq> set es" "store_ok (append_all es (snd (append_event e db)))"
    using Cons.IH [of "snd (append_event e db)"] Cons.prems append_event_ok append_event_open by auto
  then show ?case using n1 by (intro exI [of _ "n1 @ n2"]) auto
qed simp

theorem append_all_keeps_history_witness:
  "\<exists>new. db_rows (append_all [demo_row ''i3'' ''k3'' 9] demo_db) = db_rows demo_db @ new \<and>
     set new \<subseteq> {demo_row ''i3'' ''k3'' 9} \<and> store_ok (append_all [demo_row ''i3'' ''k3'' 9] demo_db)"
  using append_all_keeps_history [OF demo_db_ok, of "[demo_row ''i3'' ''k3'' 9]"] by simp

lemma query_rows_open:
  "db_open db \<Longrightarrow> query_rows p db = (Inr (sort_key row_order (filter p (db_rows db))), db)"
  by (simp add: query_rows_def require_conn_def run_bind_def run_defs)

text \<open>
  A session query on an open store changes nothing and returns exactly the session's
  rows, each once, ordered by exchange timestamp text, creation text and id.
\<close>

theorem get_by_session_complete:
  assumes "db_open db"
  shows "\<exists>rows. get_by_session sid db = (Inr rows, db) \<and>
    mset rows = mset (filter (\<lambda>e. le_session_id e = sid) (db_rows db)) \<and> sorted (map row_order rows)"
  by (simp add: get_by_session_def query_rows_open [OF assms])

theorem get_by_session_complete_witness:
  "\<exists>rows. get_by_session ''s1'' demo_db = (Inr rows, demo_db) \<and>
    mset rows = mset (filter (\<lambda>e. le_session_id e = ''s1'') (db_rows demo_db)) \<and> sorted (map row_order rows)"
  by (rule get_by_session_complete [OF demo_db_ok(2)])

end
