(* ===== verification/Ledger_Projector.thy ===== *)
theory Ledger_Projector
  imports Ledger_Schemas
begin

text \<open>
  The deterministic projector of \<open>joker/ledger/projector.py\<close>: orders, positions and realised
  P&L folded from ledger events. Mutable order and position objects live in two dictionaries;
  an operation that mutates an object it got from a dictionary is a read, an update and a write
  back under the same key. The only exception of the projection is \<open>Decimal(...)\<close> on the text of
  a malformed correction.
\<close>

section \<open>State\<close>

datatype order_status = SUBMITTED | ACCEPTED | PARTIALLY_FILLED | FILLED | CANCELLED | REJECTED

fun order_status_value :: "order_status \<Rightarrow> string" where
  "order_status_value SUBMITTED = ''submitted''"
| "order_status_value ACCEPTED = ''accepted''"
| "order_status_value PARTIALLY_FILLED = ''partially_filled''"
| "order_status_value FILLED = ''filled''"
| "order_status_value CANCELLED = ''cancelled''"
| "order_status_value REJECTED = ''rejected''"

text \<open>\<open>OrderStatus(text)\<close>; \<open>None\<close> is its \<open>ValueError\<close>.\<close>

definition order_status_of :: "string \<Rightarrow> order_status option" where
  "order_status_of s = map_of
     (map (\<lambda>st. (order_status_value st, st))
        [SUBMITTED, ACCEPTED, PARTIALLY_FILLED, FILLED, CANCELLED, REJECTED]) s"

record order_lifecycle =
  ol_client_order_id :: string
  ol_status :: order_status
  ol_submitted_qty :: decimal
  ol_filled_qty :: decimal
  ol_avg_fill_price :: "decimal option"
  ol_fees :: decimal
  ol_side :: side
  ol_contract_id :: string
  ol_broker_order_id :: "string option"

record position_state =
  ps_contract_id :: string
  ps_quantity :: decimal
  ps_avg_price :: "decimal option"
  ps_realized_pnl :: decimal
  ps_fees :: decimal
  ps_open :: bool
  ps_position_id :: "string option"

record projection_state =
  pr_orders :: "(string, order_lifecycle) dict"
  pr_positions :: "(string, position_state) dict"
  pr_capital_usage :: decimal
  pr_seen_event_ids :: "uuid set"
  pr_seen_keys :: "string set"

record mutable_order =
  mo_client_order_id :: string
  mo_status :: order_status
  mo_submitted_qty :: decimal
  mo_filled_qty :: decimal
  mo_avg_fill_price :: "decimal option"
  mo_fees :: decimal
  mo_side :: side
  mo_contract_id :: string
  mo_broker_order_id :: "string option"

record mutable_position =
  mp_contract_id :: string
  mp_quantity :: decimal
  mp_avg_price :: "decimal option"
  mp_realized_pnl :: decimal
  mp_fees :: decimal
  mp_open :: bool
  mp_position_id :: "string option"

definition new_mutable_order ::
  "string \<Rightarrow> order_status \<Rightarrow> decimal \<Rightarrow> side \<Rightarrow> string \<Rightarrow> string option \<Rightarrow> mutable_order" where
  "new_mutable_order client_order_id status submitted_qty sd contract_id broker_order_id =
     \<lparr>mo_client_order_id = client_order_id, mo_status = status, mo_submitted_qty = submitted_qty,
      mo_filled_qty = 0, mo_avg_fill_price = None, mo_fees = 0, mo_side = sd,
      mo_contract_id = contract_id, mo_broker_order_id = broker_order_id\<rparr>"

definition order_to_model :: "mutable_order \<Rightarrow> order_lifecycle" where
  "order_to_model m =
     \<lparr>ol_client_order_id = mo_client_order_id m, ol_status = mo_status m,
      ol_submitted_qty = mo_submitted_qty m, ol_filled_qty = mo_filled_qty m,
      ol_avg_fill_price = mo_avg_fill_price m, ol_fees = mo_fees m, ol_side = mo_side m,
      ol_contract_id = mo_contract_id m, ol_broker_order_id = mo_broker_order_id m\<rparr>"

definition new_mutable_position :: "string \<Rightarrow> mutable_position" where
  "new_mutable_position contract_id =
     \<lparr>mp_contract_id = contract_id, mp_quantity = 0, mp_avg_price = None, mp_realized_pnl = 0,
      mp_fees = 0, mp_open = False, mp_position_id = None\<rparr>"

definition position_to_model :: "mutable_position \<Rightarrow> position_state" where
  "position_to_model m =
     \<lparr>ps_contract_id = mp_contract_id m, ps_quantity = mp_quantity m, ps_avg_price = mp_avg_price m,
      ps_realized_pnl = mp_realized_pnl m, ps_fees = mp_fees m,
      ps_open = (mp_open m \<and> mp_quantity m \<noteq> 0), ps_position_id = mp_position_id m\<rparr>"

text \<open>The two dictionaries \<open>_apply\<close> works on.\<close>

record ledger_view =
  lv_orders :: "(string, mutable_order) dict"
  lv_positions :: "(string, mutable_position) dict"

definition empty_view :: ledger_view where
  "empty_view = \<lparr>lv_orders = [], lv_positions = []\<rparr>"

definition multiplier :: decimal where
  "multiplier = 100"

definition fill_types :: "ledger_event_type set" where
  "fill_types = {PARTIAL_FILL, FINAL_FILL}"

section \<open>Operations on one order or position\<close>

text \<open>\<open>_accumulate_fill\<close>: the quantity really applied, and the order afterwards.\<close>

definition accumulate_fill ::
  "mutable_order \<Rightarrow> decimal \<Rightarrow> decimal \<Rightarrow> bool \<Rightarrow> decimal \<times> mutable_order" where
  "accumulate_fill m qty price allow_overfill =
     (let prior_qty = mo_filled_qty m;
          clamped = (\<not> allow_overfill \<and> 0 < mo_submitted_qty m);
          remaining = mo_submitted_qty m - prior_qty;
          applied = (if clamped then min qty remaining else qty)
      in if clamped \<and> remaining \<le> 0 then (0, m)
         else if applied \<le> 0 then (0, m)
         else let new_qty = prior_qty + applied in
           (applied,
            m\<lparr>mo_avg_fill_price :=
                 (case mo_avg_fill_price m of
                    None \<Rightarrow> Some price
                  | Some avg \<Rightarrow>
                      if prior_qty \<le> 0 then Some price
                      else Some ((avg * prior_qty + price * applied) / new_qty)),
               mo_filled_qty := new_qty\<rparr>))"

definition resize_position ::
  "mutable_position \<Rightarrow> decimal \<Rightarrow> decimal \<Rightarrow> mutable_position" where
  "resize_position p delta_qty price =
     (let new_qty = mp_quantity p + delta_qty in
      case mp_avg_price p of
        None \<Rightarrow> p\<lparr>mp_quantity := new_qty,
                  mp_avg_price := (if new_qty \<noteq> 0 then Some price else None),
                  mp_open := (new_qty \<noteq> 0)\<rparr>
      | Some avg \<Rightarrow>
          if mp_quantity p = 0
          then p\<lparr>mp_quantity := new_qty,
                 mp_avg_price := (if new_qty \<noteq> 0 then Some price else None),
                 mp_open := (new_qty \<noteq> 0)\<rparr>
          else let abs_prior = \<bar>mp_quantity p\<bar>; abs_delta = \<bar>delta_qty\<bar> in
               p\<lparr>mp_quantity := new_qty,
                 mp_avg_price :=
                   (if new_qty = 0 then None
                    else Some ((avg * abs_prior + price * abs_delta) / (abs_prior + abs_delta))),
                 mp_open := (new_qty \<noteq> 0)\<rparr>)"

definition realize :: "mutable_position \<Rightarrow> decimal \<Rightarrow> decimal \<Rightarrow> mutable_position" where
  "realize p close_qty exit_price =
     (case mp_avg_price p of
        None \<Rightarrow> p
      | Some avg \<Rightarrow>
          if close_qty \<le> 0 then p
          else let pnl = (if 0 < mp_quantity p
                          then (exit_price - avg) * close_qty * multiplier
                          else (avg - exit_price) * close_qty * multiplier)
               in p\<lparr>mp_realized_pnl := mp_realized_pnl p + pnl\<rparr>)"

definition signed_qty :: "side \<Rightarrow> decimal \<Rightarrow> decimal" where
  "signed_qty sd q = (if sd = Buy then q else - q)"

text \<open>
  The body of \<open>_apply_fill_to_position\<close> on the position of the event's contract, for a
  positive applied quantity.
\<close>

definition fill_position ::
  "mutable_position \<Rightarrow> side \<Rightarrow> decimal \<Rightarrow> decimal \<Rightarrow> string option \<Rightarrow> mutable_position" where
  "fill_position p sd applied_qty price position_id =
     (let signed = signed_qty sd applied_qty in
      if mp_quantity p = 0
      then p\<lparr>mp_quantity := signed, mp_avg_price := Some price, mp_open := True,
             mp_position_id :=
               (case position_id of None \<Rightarrow> mp_position_id p
                | Some i \<Rightarrow> if i = [] then mp_position_id p else Some i)\<rparr>
      else if (0 < mp_quantity p \<and> 0 < signed) \<or> (mp_quantity p < 0 \<and> signed < 0)
      then resize_position p signed price
      else
        let close_qty = min \<bar>mp_quantity p\<bar> \<bar>signed\<bar>;
            p1 = (if 0 < close_qty \<and> mp_avg_price p \<noteq> None then realize p close_qty price else p);
            new_qty = (if 0 < mp_quantity p1 then mp_quantity p1 - close_qty
                       else mp_quantity p1 + close_qty)
        in if new_qty = 0 then p1\<lparr>mp_quantity := new_qty, mp_open := False, mp_avg_price := None\<rparr>
           else p1\<lparr>mp_quantity := new_qty, mp_open := True\<rparr>)"

section \<open>Operations on the view\<close>

definition ensure_position :: "string \<Rightarrow> ledger_view \<Rightarrow> mutable_position \<times> ledger_view" where
  "ensure_position contract_id v =
     (case dict_get (lv_positions v) contract_id of
        Some p \<Rightarrow> (p, v)
      | None \<Rightarrow> let p = new_mutable_position contract_id in
                (p, v\<lparr>lv_positions := dict_set contract_id p (lv_positions v)\<rparr>))"

definition ensure_order :: "ledger_event \<Rightarrow> ledger_view \<Rightarrow> mutable_order \<times> ledger_view" where
  "ensure_order e v =
     (case dict_get (lv_orders v) (le_client_order_id e) of
        Some m \<Rightarrow> (m, v)
      | None \<Rightarrow>
          let submitted = (if le_type e = ORDER_SUBMISSION_REQUESTED then le_quantity e
                           else if le_type e \<in> fill_types then le_quantity e else 0);
              m = new_mutable_order (le_client_order_id e) SUBMITTED submitted (le_side e)
                    (le_contract_id e) (le_broker_order_id e)
          in (m, v\<lparr>lv_orders := dict_set (le_client_order_id e) m (lv_orders v)\<rparr>))"

definition put_order :: "string \<Rightarrow> mutable_order \<Rightarrow> ledger_view \<Rightarrow> ledger_view" where
  "put_order k m v = v\<lparr>lv_orders := dict_set k m (lv_orders v)\<rparr>"

definition put_position :: "string \<Rightarrow> mutable_position \<Rightarrow> ledger_view \<Rightarrow> ledger_view" where
  "put_position k p v = v\<lparr>lv_positions := dict_set k p (lv_positions v)\<rparr>"

text \<open>
  \<open>_add_fees\<close>: \<open>charge_order\<close> says whether the caller passed the order of the event (it is
  absent from the dictionary exactly when the caller passed \<open>None\<close> for a missing one).
\<close>

definition add_fees :: "bool \<Rightarrow> ledger_event \<Rightarrow> ledger_view \<Rightarrow> ledger_view" where
  "add_fees charge_order e v =
     (case le_fees e of
        None \<Rightarrow> v
      | Some fees \<Rightarrow>
          if fees = 0 then v
          else
            let v1 = (if charge_order
                      then case dict_get (lv_orders v) (le_client_order_id e) of
                             None \<Rightarrow> v
                           | Some m \<Rightarrow> put_order (le_client_order_id e) (m\<lparr>mo_fees := mo_fees m + fees\<rparr>) v
                      else v)
            in case dict_get (lv_positions v1) (le_contract_id e) of
                 Some p \<Rightarrow> put_position (le_contract_id e) (p\<lparr>mp_fees := mp_fees p + fees\<rparr>) v1
               | None \<Rightarrow>
                   if le_type e \<in> {POSITION_OPENED, POSITION_RESIZED, POSITION_CLOSED, FEE_RECORDED}
                   then case ensure_position (le_contract_id e) v1 of
                          (p, v2) \<Rightarrow> put_position (le_contract_id e) (p\<lparr>mp_fees := mp_fees p + fees\<rparr>) v2
                   else v1)"

definition apply_fill_to_position ::
  "ledger_event \<Rightarrow> decimal \<Rightarrow> decimal \<Rightarrow> ledger_view \<Rightarrow> ledger_view" where
  "apply_fill_to_position e price applied_qty v =
     (if applied_qty \<le> 0 then v
      else case ensure_position (le_contract_id e) v of
             (p, v1) \<Rightarrow> put_position (le_contract_id e)
                          (fill_position p (le_side e) applied_qty price (le_position_id e)) v1)"

text \<open>\<open>if event.broker_order_id: order.broker_order_id = event.broker_order_id\<close>\<close>

definition note_broker_id :: "ledger_event \<Rightarrow> mutable_order \<Rightarrow> mutable_order" where
  "note_broker_id e m =
     (case le_broker_order_id e of
        None \<Rightarrow> m
      | Some b \<Rightarrow> if b = [] then m else m\<lparr>mo_broker_order_id := Some b\<rparr>)"

section \<open>One event (\<open>_apply\<close>)\<close>

definition apply_submission :: "ledger_event \<Rightarrow> ledger_view \<Rightarrow> ledger_view" where
  "apply_submission e v =
     (let k = le_client_order_id e;
          v1 = (case dict_get (lv_orders v) k of
                  None \<Rightarrow> put_order k
                    (new_mutable_order k SUBMITTED (le_quantity e) (le_side e) (le_contract_id e)
                       (le_broker_order_id e)) v
                | Some m \<Rightarrow>
                    let m1 = note_broker_id e
                               (m\<lparr>mo_submitted_qty := le_quantity e, mo_side := le_side e,
                                  mo_contract_id := le_contract_id e\<rparr>);
                        m2 = (if mo_status m1 \<notin> {FILLED, CANCELLED, REJECTED}
                              then m1\<lparr>mo_status := SUBMITTED\<rparr> else m1)
                    in put_order k m2 v)
      in add_fees True e v1)"

definition apply_accepted :: "ledger_event \<Rightarrow> ledger_view \<Rightarrow> ledger_view" where
  "apply_accepted e v =
     (case ensure_order e v of (m, v1) \<Rightarrow>
        let m1 = note_broker_id e m;
            m2 = (if 0 < le_quantity e \<and> mo_submitted_qty m1 = 0
                  then m1\<lparr>mo_submitted_qty := le_quantity e\<rparr> else m1);
            m3 = (if mo_status m2 \<notin> {FILLED, CANCELLED, REJECTED, PARTIALLY_FILLED}
                  then m2\<lparr>mo_status := ACCEPTED\<rparr> else m2)
        in add_fees True e (put_order (le_client_order_id e) m3 v1))"

definition allow_overfill :: "ledger_event \<Rightarrow> bool" where
  "allow_overfill e =
     (case dict_get (le_metadata e) ''allow_overfill'' of None \<Rightarrow> False | Some x \<Rightarrow> meta_truthy x)"

definition apply_fill :: "ledger_event \<Rightarrow> ledger_view \<Rightarrow> ledger_view" where
  "apply_fill e v =
     (case le_price e of
        None \<Rightarrow> v
      | Some price \<Rightarrow>
          if le_quantity e \<le> 0 then v
          else
            case ensure_order e v of (m, v1) \<Rightarrow>
              let m1 = note_broker_id e m;
                  (applied_qty, m2) = accumulate_fill m1 (le_quantity e) price (allow_overfill e)
              in if applied_qty \<le> 0
                 then add_fees True e (put_order (le_client_order_id e) m2 v1)
                 else
                   let m3 = m2\<lparr>mo_status :=
                              (if le_type e = FINAL_FILL \<or>
                                  (0 < mo_submitted_qty m2 \<and> mo_submitted_qty m2 \<le> mo_filled_qty m2)
                               then FILLED else PARTIALLY_FILLED)\<rparr>;
                       v2 = put_order (le_client_order_id e) m3 v1
                   in add_fees True e (apply_fill_to_position e price applied_qty v2))"

definition apply_cancellation :: "ledger_event \<Rightarrow> ledger_view \<Rightarrow> ledger_view" where
  "apply_cancellation e v =
     (case ensure_order e v of (m, v1) \<Rightarrow>
        let m1 = (if mo_status m \<notin> {FILLED, REJECTED} then m\<lparr>mo_status := CANCELLED\<rparr> else m)
        in add_fees True e (put_order (le_client_order_id e) m1 v1))"

definition apply_rejection :: "ledger_event \<Rightarrow> ledger_view \<Rightarrow> ledger_view" where
  "apply_rejection e v =
     (case ensure_order e v of (m, v1) \<Rightarrow>
        let m1 = (if mo_status m \<notin> {FILLED, CANCELLED} then m\<lparr>mo_status := REJECTED\<rparr> else m)
        in add_fees True e (put_order (le_client_order_id e) m1 v1))"

definition correction_kind_is :: "string \<Rightarrow> ledger_event \<Rightarrow> bool" where
  "correction_kind_is k e \<longleftrightarrow> dict_get (le_metadata e) ''correction_kind'' = Some (MText k)"

definition correct_order_status :: "ledger_event \<Rightarrow> ledger_view \<Rightarrow> ledger_view" where
  "correct_order_status e v =
     (case dict_get (lv_orders v) (le_client_order_id e) of
        None \<Rightarrow> v
      | Some m \<Rightarrow>
          (case dict_get (le_metadata e) ''status'' of
             Some (MText s) \<Rightarrow>
               (case order_status_of s of
                  None \<Rightarrow> v
                | Some st \<Rightarrow> put_order (le_client_order_id e) (m\<lparr>mo_status := st\<rparr>) v)
           | _ \<Rightarrow> v))"

definition correct_order_fill_qty :: "ledger_event \<Rightarrow> ledger_view \<Rightarrow> ledger_view" where
  "correct_order_fill_qty e v =
     (case dict_get (lv_orders v) (le_client_order_id e) of
        None \<Rightarrow> v
      | Some m \<Rightarrow>
          let m1 = m\<lparr>mo_filled_qty := le_quantity e\<rparr>;
              m2 = (case le_price e of None \<Rightarrow> m1 | Some p \<Rightarrow> m1\<lparr>mo_avg_fill_price := Some p\<rparr>);
              m3 = (if 0 < mo_submitted_qty m2 \<and> mo_submitted_qty m2 \<le> mo_filled_qty m2
                    then m2\<lparr>mo_status := FILLED\<rparr>
                    else if 0 < mo_filled_qty m2 then m2\<lparr>mo_status := PARTIALLY_FILLED\<rparr> else m2)
          in put_order (le_client_order_id e) m3 v)"

definition correct_position_quantity :: "ledger_event \<Rightarrow> ledger_view \<Rightarrow> py_error + ledger_view" where
  "correct_position_quantity e v =
     (case ensure_position (le_contract_id e) v of (p, v1) \<Rightarrow>
        case (case dict_get (le_metadata e) ''absolute_quantity'' of
                Some x \<Rightarrow> meta_decimal x
              | None \<Rightarrow> Inr (signed_qty (le_side e) (le_quantity e))) of
          Inl err \<Rightarrow> Inl err
        | Inr q \<Rightarrow>
            let p1 = p\<lparr>mp_quantity := q\<rparr>;
                p2 = (case le_price e of None \<Rightarrow> p1 | Some x \<Rightarrow> p1\<lparr>mp_avg_price := Some x\<rparr>);
                p3 = p2\<lparr>mp_open := (mp_quantity p2 \<noteq> 0)\<rparr>;
                p4 = (if mp_quantity p3 = 0 then p3\<lparr>mp_avg_price := None\<rparr> else p3)
            in Inr (put_position (le_contract_id e) p4 v1))"

definition apply_correction :: "ledger_event \<Rightarrow> ledger_view \<Rightarrow> py_error + ledger_view" where
  "apply_correction e v =
     (let v1 = (if correction_kind_is ''order_status'' e then correct_order_status e v else v);
          v2 = (if correction_kind_is ''order_fill_qty'' e then correct_order_fill_qty e v1 else v1);
          r3 = (if correction_kind_is ''position_quantity'' e then correct_position_quantity e v2
                else Inr v2)
      in map_sum id (add_fees True e) r3)"

definition apply_event :: "ledger_event \<Rightarrow> ledger_view \<Rightarrow> py_error + ledger_view" where
  "apply_event e v =
     (case le_type e of
        ORDER_SUBMISSION_REQUESTED \<Rightarrow> Inr (apply_submission e v)
      | BROKER_ORDER_ACCEPTED \<Rightarrow> Inr (apply_accepted e v)
      | PARTIAL_FILL \<Rightarrow> Inr (apply_fill e v)
      | FINAL_FILL \<Rightarrow> Inr (apply_fill e v)
      | CANCELLATION \<Rightarrow> Inr (apply_cancellation e v)
      | REJECTION \<Rightarrow> Inr (apply_rejection e v)
      | FEE_RECORDED \<Rightarrow> Inr (add_fees True e v)
      | POSITION_OPENED \<Rightarrow> Inr (add_fees False e v)
      | POSITION_RESIZED \<Rightarrow> Inr (add_fees False e v)
      | POSITION_CLOSED \<Rightarrow> Inr (add_fees False e v)
      | RECONCILIATION_CORRECTION \<Rightarrow> apply_correction e v)"

section \<open>The projection\<close>

text \<open>The loop state of \<open>project\<close>: seen ids, seen keys and the two dictionaries.\<close>

type_synonym project_loop_state = "uuid set \<times> string set \<times> ledger_view"

definition already_seen :: "project_loop_state \<Rightarrow> ledger_event \<Rightarrow> bool" where
  "already_seen st e \<longleftrightarrow> (case st of (ids, ks, v) \<Rightarrow> le_id e \<in> ids \<or> le_key e \<in> ks)"

definition project_step :: "ledger_event \<Rightarrow> project_loop_state \<Rightarrow> py_error + project_loop_state" where
  "project_step e st =
     (case st of (ids, ks, v) \<Rightarrow>
        if le_id e \<in> ids \<or> le_key e \<in> ks then Inr (ids, ks, v)
        else map_sum id (\<lambda>v'. (insert (le_id e) ids, insert (le_key e) ks, v')) (apply_event e v))"

definition project_loop :: "ledger_event list \<Rightarrow> py_error + project_loop_state" where
  "project_loop es = fold_sum project_step es ({}, {}, empty_view)"

definition capital_of :: "position_state \<Rightarrow> decimal" where
  "capital_of p = (case ps_avg_price p of
     None \<Rightarrow> 0 | Some avg \<Rightarrow> if ps_open p then \<bar>ps_quantity p\<bar> * avg * multiplier else 0)"

definition freeze_view :: "project_loop_state \<Rightarrow> projection_state" where
  "freeze_view r = (case r of (ids, ks, v) \<Rightarrow>
     let orders = map (\<lambda>(k, m). (k, order_to_model m)) (lv_orders v);
         positions = map (\<lambda>(k, p). (k, position_to_model p)) (lv_positions v)
     in \<lparr>pr_orders = orders, pr_positions = positions,
         pr_capital_usage = sum_list (map (\<lambda>kp. capital_of (snd kp)) positions),
         pr_seen_event_ids = ids, pr_seen_keys = ks\<rparr>)"

definition project :: "ledger_event list \<Rightarrow> py_error + projection_state" where
  "project es = map_sum id freeze_view (project_loop es)"

section \<open>The projector as an idempotent consumer\<close>

interpretation pj: idempotent_consumer project_step already_seen
    "\<lambda>d e. le_id d = le_id e \<and> le_key d = le_key e"
proof unfold_locales
  fix d e :: ledger_event and st st' :: project_loop_state
  obtain ids ks v where st: "st = (ids, ks, v)" by (cases st) auto
  show "already_seen st e \<Longrightarrow> project_step e st = Inr st"
    by (simp add: st already_seen_def project_step_def)
  show "project_step e st = Inr st' \<Longrightarrow> already_seen st' e"
    by (cases "apply_event e v") (auto simp: st already_seen_def project_step_def split: if_splits)
  show "project_step d st = Inr st' \<Longrightarrow> already_seen st e \<Longrightarrow> already_seen st' e"
    by (cases "apply_event d v") (auto simp: st already_seen_def project_step_def split: if_splits)
  show "already_seen st d \<Longrightarrow> le_id d = le_id e \<and> le_key d = le_key e \<Longrightarrow> already_seen st e"
    by (simp add: st already_seen_def)
qed

end
