(* ===== verification/Reconciliation.thy ===== *)
theory Reconciliation
  imports Ledger_Projector
begin

text \<open>
  Broker reconciliation, \<open>joker/ledger/reconciliation.py\<close>: the typed findings, the comparison of a
  projection with the broker's open orders and positions, and the correction events built from a
  report.
\<close>

datatype reconciliation_outcome =
    CONSISTENT
  | MISSING_BROKER_ORDER
  | UNKNOWN_BROKER_ORDER
  | QUANTITY_MISMATCH
  | STATUS_MISMATCH
  | MISSING_BROKER_POSITION
  | UNEXPECTED_BROKER_POSITION

fun outcome_value :: "reconciliation_outcome \<Rightarrow> string" where
  "outcome_value CONSISTENT = ''consistent''"
| "outcome_value MISSING_BROKER_ORDER = ''missing_broker_order''"
| "outcome_value UNKNOWN_BROKER_ORDER = ''unknown_broker_order''"
| "outcome_value QUANTITY_MISMATCH = ''quantity_mismatch''"
| "outcome_value STATUS_MISMATCH = ''status_mismatch''"
| "outcome_value MISSING_BROKER_POSITION = ''missing_broker_position''"
| "outcome_value UNEXPECTED_BROKER_POSITION = ''unexpected_broker_position''"

record broker_order_view =
  bv_broker_order_id :: string
  bv_client_order_id :: "string option"
  bv_contract_id :: string
  bv_side :: side
  bv_quantity :: decimal
  bv_filled_qty :: decimal
  bv_status :: string

record broker_position_view =
  bp_contract_id :: string
  bp_quantity :: decimal
  bp_avg_price :: "decimal option"

record finding =
  fi_outcome :: reconciliation_outcome
  fi_entity_type :: string
  fi_entity_id :: string
  fi_detail :: string
  fi_projected_quantity :: "decimal option"
  fi_broker_quantity :: "decimal option"
  fi_projected_status :: "string option"
  fi_broker_status :: "string option"

definition mk_finding :: "reconciliation_outcome \<Rightarrow> string \<Rightarrow> string \<Rightarrow> string \<Rightarrow> finding" where
  "mk_finding out etype eid detail =
     \<lparr>fi_outcome = out, fi_entity_type = etype, fi_entity_id = eid, fi_detail = detail,
      fi_projected_quantity = None, fi_broker_quantity = None, fi_projected_status = None,
      fi_broker_status = None\<rparr>"

record report =
  rp_report_id :: uuid
  rp_session_id :: string
  rp_exchange_ts :: datetime
  rp_findings :: "finding list"
  rp_is_consistent :: bool

section \<open>Corrections\<close>

definition correction_kind :: "finding \<Rightarrow> string" where
  "correction_kind f =
     (if fi_entity_type f = ''position'' then ''position_quantity''
      else if fi_entity_type f = ''order'' then
        (if fi_outcome f = QUANTITY_MISMATCH then ''order_fill_qty'' else ''order_status'')
      else if fi_outcome f = QUANTITY_MISMATCH then ''order_fill_qty''
      else if fi_outcome f \<in> {STATUS_MISMATCH, MISSING_BROKER_ORDER, UNKNOWN_BROKER_ORDER}
        then ''order_status''
      else ''position_quantity'')"

text \<open>\<open>finding.broker_quantity or finding.projected_quantity or Decimal("0")\<close>: zero is falsy.\<close>

definition correction_qty :: "finding \<Rightarrow> decimal" where
  "correction_qty f =
     (case fi_broker_quantity f of
        Some q \<Rightarrow> if q \<noteq> 0 then q
                  else (case fi_projected_quantity f of Some q' \<Rightarrow> if q' \<noteq> 0 then q' else 0 | None \<Rightarrow> 0)
      | None \<Rightarrow> (case fi_projected_quantity f of Some q' \<Rightarrow> if q' \<noteq> 0 then q' else 0 | None \<Rightarrow> 0))"

definition correction_meta :: "finding \<Rightarrow> (string, meta_val) dict" where
  "correction_meta f =
     (let meta = [(''correction_kind'', MText (correction_kind f)),
                  (''outcome'', MText (outcome_value (fi_outcome f))),
                  (''entity_type'', MText (fi_entity_type f)),
                  (''entity_id'', MText (fi_entity_id f)),
                  (''detail'', MText (fi_detail f))];
          meta1 = (case fi_broker_status f of None \<Rightarrow> meta | Some st \<Rightarrow> dict_set ''status'' (MText st) meta)
      in (case fi_broker_quantity f of
            Some q \<Rightarrow> if fi_entity_type f = ''position''
                      then dict_set ''absolute_quantity'' (MNumText q) meta1 else meta1
          | None \<Rightarrow> meta1))"

text \<open>The keyword arguments of the correction of one finding.\<close>

definition correction_kwargs :: "report \<Rightarrow> string \<Rightarrow> uuid option \<Rightarrow> finding \<Rightarrow> ledger_event" where
  "correction_kwargs r account source_event_id f =
     (let q = correction_qty f;
          (sd, qty) = (if q < 0 then (Sell, \<bar>q\<bar>) else (Buy, q));
          client_order_id = (if fi_entity_type f = ''order'' then fi_entity_id f
                             else ''recon-'' @ fi_entity_id f)
      in (ledger_event_kwargs RECONCILIATION_CORRECTION account client_order_id (fi_entity_id f)
            sd qty (rp_exchange_ts r)
            (''recon:'' @ rp_report_id r @ '':'' @ outcome_value (fi_outcome f) @ '':'' @ fi_entity_id f)
            (rp_session_id r))
           \<lparr>le_source_event_id := source_event_id, le_metadata := correction_meta f\<rparr>)"

text \<open>
  \<open>correction_events\<close>; \<open>fresh\<close> gives the id and creation time of the \<open>i\<close>-th event built. The first
  event that fails its checks raises.
\<close>

fun correction_events_from ::
  "(nat \<Rightarrow> uuid \<times> datetime) \<Rightarrow> report \<Rightarrow> string \<Rightarrow> uuid option \<Rightarrow> finding list \<Rightarrow> nat \<Rightarrow>
   py_error + ledger_event list" where
  "correction_events_from fresh r account src [] i = Inr []"
| "correction_events_from fresh r account src (f # fs) i =
     (if fi_outcome f = CONSISTENT then correction_events_from fresh r account src fs i
      else case make_ledger_event (fst (fresh i)) (snd (fresh i)) None None
                  (correction_kwargs r account src f) of
             Inl err \<Rightarrow> Inl err
           | Inr e \<Rightarrow> map_sum id ((#) e) (correction_events_from fresh r account src fs (Suc i)))"

definition correction_events ::
  "(nat \<Rightarrow> uuid \<times> datetime) \<Rightarrow> report \<Rightarrow> string \<Rightarrow> uuid option \<Rightarrow> py_error + ledger_event list" where
  "correction_events fresh r account src = correction_events_from fresh r account src (rp_findings r) 0"

section \<open>Comparison\<close>

definition active_order_statuses :: "order_status set" where
  "active_order_statuses = {SUBMITTED, ACCEPTED, PARTIALLY_FILLED}"

fun status_aliases :: "order_status \<Rightarrow> string set" where
  "status_aliases SUBMITTED = {''submitted'', ''pending'', ''new'', ''open''}"
| "status_aliases ACCEPTED = {''accepted'', ''working'', ''open'', ''new'', ''partially_filled''}"
| "status_aliases PARTIALLY_FILLED = {''partially_filled'', ''partial'', ''open'', ''working''}"
| "status_aliases FILLED = {''filled'', ''complete'', ''completed''}"
| "status_aliases CANCELLED = {''cancelled'', ''canceled''}"
| "status_aliases REJECTED = {''rejected''}"

definition statuses_compatible :: "order_status \<Rightarrow> string \<Rightarrow> bool" where
  "statuses_compatible projected broker_status \<longleftrightarrow>
     py_lower (py_strip broker_status) \<in> status_aliases projected"

definition compare_order :: "order_lifecycle \<Rightarrow> broker_order_view \<Rightarrow> finding list" where
  "compare_order o1 b =
     (let annotate = (\<lambda>f. f\<lparr>fi_projected_quantity := Some (ol_filled_qty o1),
                            fi_broker_quantity := Some (bv_filled_qty b),
                            fi_projected_status := Some (order_status_value (ol_status o1)),
                            fi_broker_status := Some (bv_status b)\<rparr>);
          fs1 = (if ol_filled_qty o1 \<noteq> bv_filled_qty b
                 then [annotate (mk_finding QUANTITY_MISMATCH ''order'' (ol_client_order_id o1)
                                   ''filled/remaining quantity mismatch'')] else []);
          fs2 = (if \<not> statuses_compatible (ol_status o1) (bv_status b)
                 then fs1 @ [annotate (mk_finding STATUS_MISMATCH ''order'' (ol_client_order_id o1)
                                         ''order status mismatch'')] else fs1)
      in if fs2 = []
         then [annotate (mk_finding CONSISTENT ''order'' (ol_client_order_id o1) ''order matches broker'')]
         else fs2)"

text \<open>The two indexes of the broker's open orders; later entries overwrite earlier ones.\<close>

definition broker_by_broker_id :: "broker_order_view list \<Rightarrow> (string, broker_order_view) dict" where
  "broker_by_broker_id bos = fold (\<lambda>b. dict_set (bv_broker_order_id b) b) bos []"

definition broker_by_client :: "broker_order_view list \<Rightarrow> (string, broker_order_view) dict" where
  "broker_by_client bos =
     fold (\<lambda>b d. case bv_client_order_id b of
                   None \<Rightarrow> d | Some c \<Rightarrow> if c = [] then d else dict_set c b d) bos []"

definition find_broker_order :: "broker_order_view list \<Rightarrow> string \<Rightarrow> order_lifecycle \<Rightarrow> broker_order_view option" where
  "find_broker_order bos client_order_id o1 =
     (case dict_get (broker_by_client bos) client_order_id of
        Some b \<Rightarrow> Some b
      | None \<Rightarrow>
          (case ol_broker_order_id o1 of
             None \<Rightarrow> None
           | Some bid \<Rightarrow> if bid = [] then None else dict_get (broker_by_broker_id bos) bid))"

definition check_projected_order ::
  "broker_order_view list \<Rightarrow> string \<times> order_lifecycle \<Rightarrow> finding list" where
  "check_projected_order bos ko =
     (case ko of (client_order_id, o1) \<Rightarrow>
        (case find_broker_order bos client_order_id o1 of
           None \<Rightarrow> [(mk_finding MISSING_BROKER_ORDER ''order'' client_order_id
                       ''projected active order not found at broker'')
                     \<lparr>fi_projected_quantity := Some (ol_submitted_qty o1 - ol_filled_qty o1),
                      fi_projected_status := Some (order_status_value (ol_status o1))\<rparr>]
         | Some b \<Rightarrow> compare_order o1 b))"

definition projected_active :: "projection_state \<Rightarrow> (string, order_lifecycle) dict" where
  "projected_active pr = filter (\<lambda>(k, o1). ol_status o1 \<in> active_order_statuses) (pr_orders pr)"

definition matched_broker_ids :: "projection_state \<Rightarrow> broker_order_view list \<Rightarrow> string set" where
  "matched_broker_ids pr bos =
     set (concat (map (\<lambda>(k, o1). case find_broker_order bos k o1 of
                                   None \<Rightarrow> [] | Some b \<Rightarrow> [bv_broker_order_id b]) (projected_active pr)))"

definition check_broker_order :: "projection_state \<Rightarrow> string set \<Rightarrow> broker_order_view \<Rightarrow> finding list" where
  "check_broker_order pr matched b =
     (if bv_broker_order_id b \<in> matched then []
      else
        let known1 = (case bv_client_order_id b of
                        None \<Rightarrow> False
                      | Some c \<Rightarrow> c \<noteq> [] \<and> dict_get (pr_orders pr) c \<noteq> None);
            known = (known1 \<or>
                     (\<exists>o1 \<in> set (dict_values (pr_orders pr)). ol_broker_order_id o1 = Some (bv_broker_order_id b)))
        in if known then []
           else [(mk_finding UNKNOWN_BROKER_ORDER ''order''
                    (case bv_client_order_id b of
                       None \<Rightarrow> bv_broker_order_id b
                     | Some c \<Rightarrow> if c = [] then bv_broker_order_id b else c)
                    ''broker open order not present in projected ledger'')
                  \<lparr>fi_broker_quantity := Some (bv_quantity b - bv_filled_qty b),
                   fi_broker_status := Some (bv_status b)\<rparr>])"

definition projected_open_positions :: "projection_state \<Rightarrow> (string, position_state) dict" where
  "projected_open_positions pr = filter (\<lambda>(k, p). ps_open p \<and> ps_quantity p \<noteq> 0) (pr_positions pr)"

definition broker_pos_by_contract :: "broker_position_view list \<Rightarrow> (string, broker_position_view) dict" where
  "broker_pos_by_contract bps = fold (\<lambda>b. dict_set (bp_contract_id b) b) bps []"

definition check_projected_position ::
  "broker_position_view list \<Rightarrow> string \<times> position_state \<Rightarrow> finding list" where
  "check_projected_position bps kp =
     (case kp of (contract_id, p) \<Rightarrow>
        (case dict_get (broker_pos_by_contract bps) contract_id of
           None \<Rightarrow> [(mk_finding MISSING_BROKER_POSITION ''position'' contract_id
                       ''projected open position missing at broker'')
                     \<lparr>fi_projected_quantity := Some (ps_quantity p)\<rparr>]
         | Some b \<Rightarrow>
             [(if bp_quantity b \<noteq> ps_quantity p
               then mk_finding QUANTITY_MISMATCH ''position'' contract_id
                      ''position quantity differs between ledger and broker''
               else mk_finding CONSISTENT ''position'' contract_id ''position quantity matches'')
                \<lparr>fi_projected_quantity := Some (ps_quantity p),
                 fi_broker_quantity := Some (bp_quantity b)\<rparr>]))"

definition check_broker_position :: "projection_state \<Rightarrow> broker_position_view \<Rightarrow> finding list" where
  "check_broker_position pr b =
     (if bp_quantity b = 0 then []
      else if dict_get (projected_open_positions pr) (bp_contract_id b) = None
      then [(mk_finding UNEXPECTED_BROKER_POSITION ''position'' (bp_contract_id b)
               ''broker position not open in projected ledger'')
             \<lparr>fi_broker_quantity := Some (bp_quantity b)\<rparr>]
      else [])"

text \<open>
  \<open>reconcile\<close>; \<open>report_id\<close> is the fresh id of the report and \<open>now\<close> the wall clock it falls back to.
\<close>

definition reconcile ::
  "uuid \<Rightarrow> datetime \<Rightarrow> string \<Rightarrow> projection_state \<Rightarrow> broker_order_view list \<Rightarrow>
   broker_position_view list \<Rightarrow> datetime option \<Rightarrow> py_error + report" where
  "reconcile report_id now session_id pr bos bps exchange_timestamp =
     (if \<not> nonblank session_id then Inl ReconciliationError
      else
        let ts = (case exchange_timestamp of None \<Rightarrow> now | Some t \<Rightarrow> t) in
        if \<not> tz_aware ts then Inl ReconciliationError
        else
          let findings =
                concat (map (check_projected_order bos) (projected_active pr)) @
                concat (map (check_broker_order pr (matched_broker_ids pr bos)) bos) @
                concat (map (check_projected_position bps) (projected_open_positions pr)) @
                concat (map (check_broker_position pr) bps)
          in Inr \<lparr>rp_report_id = report_id, rp_session_id = session_id, rp_exchange_ts = ts,
                  rp_findings = findings,
                  rp_is_consistent = (\<forall>f \<in> set findings. fi_outcome f = CONSISTENT)\<rparr>)"

end
