(* ===== verification/Execution_Runtime.thy ===== *)
theory Execution_Runtime
  imports Paper_Broker Event_Bus Ledger_Store Reconciliation
begin

text \<open>
  The execution runtime of \<open>joker/runtime/execution_runtime.py\<close>: explicit broker commands, their
  ledger events, verified fills, domain events from projection deltas, and reconciliation. The
  broker is any implementation of \<open>BrokerClient\<close>, given by the record \<open>broker_ops\<close>; the methods
  and attributes looked up with \<open>getattr\<close> are optional. Ids and clock readings are drawn from the
  configuration by a counter in the state. Events handed to the bus are kept in \<open>xr_published\<close>;
  what the bus does with them is the theory \<open>Event_Bus\<close>.
\<close>

section \<open>Configuration and state\<close>

record 'b broker_ops =
  br_submit :: "order_intent \<Rightarrow> ('b, broker_order) run"
  br_cancel :: "string \<Rightarrow> ('b, broker_order) run"
  br_get :: "string \<Rightarrow> ('b, broker_order option) run"
  br_list_open :: "('b, broker_order list) run"
  br_list_positions :: "('b, position list) run"
  br_daily_pnl :: "('b, bool \<times> pyfloat option) run"
  br_fill_price :: "(string \<Rightarrow> ('b, pyfloat option) run) option"
  br_fills :: "('b \<Rightarrow> fill list) option"
  br_find_by_intent :: "(string \<Rightarrow> ('b, broker_order option) run) option"
  br_orders :: "('b \<Rightarrow> broker_order list) option"

record exec_config =
  xc_session :: string
  xc_account :: string
  xc_correlation :: uuid
  xc_clock :: "nat \<Rightarrow> datetime"
  xc_uuid :: "nat \<Rightarrow> uuid"
  xc_wall :: "nat \<Rightarrow> datetime"

record 'b exec_state =
  xr_broker :: 'b
  xr_ledger :: ledger_db
  xr_published :: "domain_event list"
  xr_client_to_broker :: "(string, string) dict"
  xr_unresolved :: "report option"
  xr_tick :: nat

record exec_command =
  ec_client_order_id :: string
  ec_intent :: order_intent
  ec_account :: string

definition with_broker :: "('b, 'a) run \<Rightarrow> ('b exec_state, 'a) run" where
  "with_broker m s = (case m (xr_broker s) of (r, b) \<Rightarrow> (r, s\<lparr>xr_broker := b\<rparr>))"

definition with_ledger :: "(ledger_db, 'a) run \<Rightarrow> ('b exec_state, 'a) run" where
  "with_ledger m s = (case m (xr_ledger s) of (r, l) \<Rightarrow> (r, s\<lparr>xr_ledger := l\<rparr>))"

definition tick :: "('b exec_state, nat) run" where
  "tick s = run_ret (xr_tick s) (s\<lparr>xr_tick := Suc (xr_tick s)\<rparr>)"

definition exec_now :: "exec_config \<Rightarrow> ('b exec_state, datetime) run" where
  "exec_now cfg = run_bind tick (\<lambda>n. run_ret (xc_clock cfg n))"

definition note_mapping :: "string \<Rightarrow> string \<Rightarrow> ('b exec_state, unit) run" where
  "note_mapping client broker_id =
     run_modify (\<lambda>s. s\<lparr>xr_client_to_broker := dict_set client broker_id (xr_client_to_broker s)\<rparr>)"

definition default_mapping :: "string \<Rightarrow> string \<Rightarrow> ('b exec_state, unit) run" where
  "default_mapping client broker_id =
     run_modify (\<lambda>s. s\<lparr>xr_client_to_broker := dict_setdefault client broker_id (xr_client_to_broker s)\<rparr>)"

definition broker_id_of :: "string \<Rightarrow> ('b exec_state, string option) run" where
  "broker_id_of client = run_get (\<lambda>s. dict_get (xr_client_to_broker s) client)"

section \<open>Events out\<close>

text \<open>\<open>make_ledger_event\<close> with its drawn id and time.\<close>

definition new_ledger_event :: "exec_config \<Rightarrow> ledger_event \<Rightarrow> ('b exec_state, ledger_event) run" where
  "new_ledger_event cfg kw =
     run_bind tick (\<lambda>n. run_lift (make_ledger_event (xc_uuid cfg n) (xc_wall cfg n) None None kw))"

definition publish_event ::
  "exec_config \<Rightarrow> event_type \<Rightarrow> datetime \<Rightarrow> (string, meta_val) dict \<Rightarrow> ('b exec_state, unit) run" where
  "publish_event cfg etype ts payload =
     run_bind tick (\<lambda>n.
     run_bind (run_lift (make_event (xc_uuid cfg n) (xc_wall cfg n) etype (xc_session cfg) ''execution_runtime''
                 ts payload (xc_correlation cfg))) (\<lambda>e.
       run_modify (\<lambda>s. s\<lparr>xr_published := xr_published s @ [e]\<rparr>)))"

definition publish_order_event ::
  "exec_config \<Rightarrow> event_type \<Rightarrow> string \<Rightarrow> datetime \<Rightarrow> (string, meta_val) dict \<Rightarrow> ('b exec_state, unit) run" where
  "publish_order_event cfg etype client ts extra =
     publish_event cfg etype ts (fold (\<lambda>(k, v). dict_set k v) extra [(''client_order_id'', MText client)])"

section \<open>Reading the broker\<close>

definition verified_fill_price :: "'b broker_ops \<Rightarrow> broker_order \<Rightarrow> ('b exec_state, pyfloat option) run" where
  "verified_fill_price ops ord =
     (let from_fills = (case br_fills ops of
            None \<Rightarrow> run_ret None
          | Some fs \<Rightarrow> run_get (\<lambda>s. map_option fl_price (find (\<lambda>f. fl_order_id f = bo_order_id ord) (fs (xr_broker s)))))
      in case br_fill_price ops of
           None \<Rightarrow> from_fills
         | Some getter \<Rightarrow>
             run_bind (with_broker (getter (bo_order_id ord))) (\<lambda>p.
               case p of Some x \<Rightarrow> run_ret (Some x) | None \<Rightarrow> from_fills))"

definition find_broker_order_by_intent :: "'b broker_ops \<Rightarrow> string \<Rightarrow> ('b exec_state, broker_order option) run" where
  "find_broker_order_by_intent ops intent_id =
     (let same = (\<lambda>ord. bo_intent_id ord = intent_id);
          from_map = (case br_orders ops of
            None \<Rightarrow> run_ret None
          | Some os \<Rightarrow> run_get (\<lambda>s. find same (os (xr_broker s))))
      in run_bind (with_broker (br_list_open ops)) (\<lambda>opens.
           case find same opens of
             Some ord \<Rightarrow> run_ret (Some ord)
           | None \<Rightarrow>
               (case br_find_by_intent ops of
                  None \<Rightarrow> from_map
                | Some finder \<Rightarrow>
                    run_bind (with_broker (finder intent_id)) (\<lambda>found.
                      case found of Some ord \<Rightarrow> run_ret (Some ord) | None \<Rightarrow> from_map))))"

section \<open>The client-to-broker map\<close>

definition mapping_from :: "ledger_event list \<Rightarrow> (string, string) dict" where
  "mapping_from events =
     fold (\<lambda>e m. case le_broker_order_id e of
                   None \<Rightarrow> m | Some b \<Rightarrow> if b = [] then m else dict_set (le_client_order_id e) b m) events []"

definition restore_order_mappings :: "exec_config \<Rightarrow> ('b exec_state, unit) run" where
  "restore_order_mappings cfg =
     run_bind (with_ledger (get_by_session (xc_session cfg))) (\<lambda>events.
       run_modify (\<lambda>s. s\<lparr>xr_client_to_broker := mapping_from events\<rparr>))"

definition last_broker_id :: "string \<Rightarrow> ledger_event list \<Rightarrow> string option" where
  "last_broker_id client events =
     fold (\<lambda>e acc. if le_client_order_id e = client
                   then (case le_broker_order_id e of None \<Rightarrow> acc | Some b \<Rightarrow> if b = [] then acc else Some b)
                   else acc) events None"

definition resolve_existing_submission ::
  "exec_config \<Rightarrow> 'b broker_ops \<Rightarrow> string \<Rightarrow> ('b exec_state, broker_order option) run" where
  "resolve_existing_submission cfg ops client =
     (let from_ledger =
            run_bind (with_ledger (get_by_session (xc_session cfg))) (\<lambda>events.
              case last_broker_id client events of
                None \<Rightarrow> run_ret None
              | Some b \<Rightarrow> run_bind (note_mapping client b) (\<lambda>_. with_broker (br_get ops b)))
      in run_bind (broker_id_of client) (\<lambda>mapped.
           case mapped of
             Some b \<Rightarrow>
               if b = [] then from_ledger
               else run_bind (with_broker (br_get ops b)) (\<lambda>found.
                      case found of Some ord \<Rightarrow> run_ret (Some ord) | None \<Rightarrow> from_ledger)
           | None \<Rightarrow> from_ledger))"

section \<open>Projection\<close>

definition project_session :: "exec_config \<Rightarrow> ('b exec_state, projection_state) run" where
  "project_session cfg =
     run_bind (with_ledger (get_by_session (xc_session cfg))) (\<lambda>events. run_lift (project events))"

definition position_qty :: "projection_state \<Rightarrow> string \<Rightarrow> decimal" where
  "position_qty pr c = (case dict_get (pr_positions pr) c of None \<Rightarrow> 0 | Some p \<Rightarrow> ps_quantity p)"

text \<open>
  The \<open>POSITION_*\<close> event of one contract, if its quantity changed. The code iterates over a set of
  contract ids, in no particular order; the model takes the contracts of the earlier projection
  first.
\<close>

definition position_transition ::
  "projection_state \<Rightarrow> projection_state \<Rightarrow> string \<Rightarrow> (event_type \<times> (string, meta_val) dict) option" where
  "position_transition prior later c =
     (let prev = position_qty prior c; curr = position_qty later c in
      if prev = 0 \<and> curr \<noteq> 0
      then Some (EV_POSITION_OPENED, [(''contract_id'', MText c), (''quantity'', MNumText curr)])
      else if prev \<noteq> 0 \<and> curr = 0
      then Some (EV_POSITION_CLOSED, [(''contract_id'', MText c),
             (''realized_pnl'', MNumText (case dict_get (pr_positions later) c of None \<Rightarrow> 0 | Some p \<Rightarrow> ps_realized_pnl p))])
      else if prev \<noteq> curr
      then Some (POSITION_CHANGED, [(''contract_id'', MText c), (''quantity'', MNumText curr), (''prior_quantity'', MNumText prev)])
      else None)"

definition transition_ids :: "projection_state \<Rightarrow> projection_state \<Rightarrow> string list" where
  "transition_ids prior later = remdups (map fst (pr_positions prior) @ map fst (pr_positions later))"

definition publish_position_transitions ::
  "exec_config \<Rightarrow> projection_state \<Rightarrow> projection_state \<Rightarrow> string \<Rightarrow> datetime \<Rightarrow> ('b exec_state, unit) run" where
  "publish_position_transitions cfg prior later client ts =
     run_bind (run_for (\<lambda>c. case position_transition prior later c of
                              None \<Rightarrow> run_ret []
                            | Some (etype, extra) \<Rightarrow>
                                run_bind (publish_order_event cfg etype client ts extra) (\<lambda>_. run_ret []))
                 (transition_ids prior later)) (\<lambda>_ :: unit list. run_ret ())"

section \<open>Fills and broker updates\<close>

definition fill_key :: "string \<Rightarrow> broker_order \<Rightarrow> ledger_event_type \<Rightarrow> int \<Rightarrow> pyfloat \<Rightarrow> string" where
  "fill_key client ord etype qty price =
     ''fill:'' @ client @ '':'' @ bo_order_id ord @ '':'' @ ledger_event_type_value etype @ '':'' @ int_text qty @ '':'' @ float_text price"

definition order_event_kwargs ::
  "exec_config \<Rightarrow> ledger_event_type \<Rightarrow> string \<Rightarrow> broker_order \<Rightarrow> int \<Rightarrow> datetime \<Rightarrow> string \<Rightarrow> ledger_event" where
  "order_event_kwargs cfg etype client ord qty ts key =
     (ledger_event_kwargs etype (xc_account cfg) client (contract_id_for (bo_contract ord)) (bo_side ord) (of_int qty)
        ts key (xc_session cfg))\<lparr>le_broker_order_id := Some (bo_order_id ord)\<rparr>"

text \<open>
  \<open>record_verified_fill\<close>. Both of its callers pass the quantity of the order as an integer and a
  price that is the text of a float, which gives the text of the idempotency key.
\<close>

definition record_verified_fill ::
  "exec_config \<Rightarrow> broker_order \<Rightarrow> string \<Rightarrow> pyfloat \<Rightarrow> int option \<Rightarrow> bool \<Rightarrow> ('b exec_state, ledger_event list) run" where
  "record_verified_fill cfg ord client fill_price fill_qty final =
     run_bind (project_session cfg) (\<lambda>prior.
       let qty = (case fill_qty of Some q \<Rightarrow> q | None \<Rightarrow> bo_quantity ord);
           etype = (if final then FINAL_FILL else PARTIAL_FILL);
           dtype = (if final then ORDER_FILLED else ORDER_PARTIALLY_FILLED)
       in run_bind (exec_now cfg) (\<lambda>now.
          run_bind (default_mapping client (bo_order_id ord)) (\<lambda>_.
          run_bind (new_ledger_event cfg
                      ((order_event_kwargs cfg etype client ord qty now (fill_key client ord etype qty fill_price))
                         \<lparr>le_price := Some fill_price\<rparr>)) (\<lambda>e.
          run_bind (with_ledger (append_event e)) (\<lambda>inserted.
            if inserted
            then run_bind (publish_order_event cfg dtype client now
                             [(''broker_order_id'', MText (bo_order_id ord)), (''price'', MNumText fill_price),
                              (''qty'', MNumText (of_int qty))]) (\<lambda>_.
                 run_bind (project_session cfg) (\<lambda>later.
                 run_bind (publish_position_transitions cfg prior later client now) (\<lambda>_. run_ret [e])))
            else run_ret [])))))"

definition on_broker_update ::
  "exec_config \<Rightarrow> 'b broker_ops \<Rightarrow> broker_order \<Rightarrow> string option \<Rightarrow> ('b exec_state, ledger_event list) run" where
  "on_broker_update cfg ops ord client_order_id =
     (let client = (case client_order_id of None \<Rightarrow> bo_intent_id ord | Some c \<Rightarrow> if c = [] then bo_intent_id ord else c);
          terminal = (\<lambda>etype key dtype now.
            run_bind (new_ledger_event cfg (order_event_kwargs cfg etype client ord (bo_quantity ord) now key)) (\<lambda>e.
            run_bind (with_ledger (append_event e)) (\<lambda>inserted.
              if inserted then run_bind (publish_order_event cfg dtype client now []) (\<lambda>_. run_ret [e])
              else run_ret [])))
      in run_bind (default_mapping client (bo_order_id ord)) (\<lambda>_.
         run_bind (exec_now cfg) (\<lambda>now.
           case bo_status ord of
             Cancelled \<Rightarrow> terminal CANCELLATION (''cancel:'' @ client @ '':'' @ bo_order_id ord) ORDER_CANCELLED now
           | Rejected \<Rightarrow> terminal REJECTION (''reject:'' @ client @ '':'' @ bo_order_id ord) ORDER_REJECTED now
           | Filled \<Rightarrow>
               run_bind (verified_fill_price ops ord) (\<lambda>price.
                 case price of
                   Some x \<Rightarrow> record_verified_fill cfg ord client x (Some (bo_quantity ord)) True
                 | None \<Rightarrow>
                     run_bind (publish_order_event cfg ORDER_FILLED client now
                                 [(''broker_order_id'', MText (bo_order_id ord)), (''fill_price_available'', MBool False)])
                       (\<lambda>_. run_ret []))
           | _ \<Rightarrow> run_ret [])))"

section \<open>Submission\<close>

text \<open>\<open>str(exc)\<close> of an exception that carries its text.\<close>

fun exc_text :: "py_error \<Rightarrow> string" where
  "exc_text (BrokerError t) = t"
| "exc_text (CapitalError t) = t"
| "exc_text (CognitiveValidationError t) = t"
| "exc_text (OptionSelectionError t) = t"
| "exc_text (OtherError _ t) = t"
| "exc_text _ = []"

definition command_account :: "exec_config \<Rightarrow> exec_command \<Rightarrow> string" where
  "command_account cfg cmd = (if ec_account cmd = [] then xc_account cfg else ec_account cmd)"

definition requested_kwargs :: "exec_config \<Rightarrow> exec_command \<Rightarrow> datetime \<Rightarrow> ledger_event" where
  "requested_kwargs cfg cmd now =
     (let i = ec_intent cmd in
      (ledger_event_kwargs ORDER_SUBMISSION_REQUESTED (command_account cfg cmd) (ec_client_order_id cmd)
         (contract_id_for (oi_contract i)) (oi_side i) (of_int (oi_quantity i)) now
         (''submit-req:'' @ ec_client_order_id cmd) (xc_session cfg))
        \<lparr>le_price := oi_limit_price i,
         le_metadata := [(''intent_id'', MText (oi_intent_id i)), (''order_type'', MText (order_kind_text (oi_order_type i)))]\<rparr>)"

definition accepted_kwargs :: "exec_config \<Rightarrow> exec_command \<Rightarrow> broker_order \<Rightarrow> datetime \<Rightarrow> ledger_event" where
  "accepted_kwargs cfg cmd ord now =
     (let i = ec_intent cmd in
      (ledger_event_kwargs BROKER_ORDER_ACCEPTED (command_account cfg cmd) (ec_client_order_id cmd)
         (contract_id_for (oi_contract i)) (oi_side i) (of_int (bo_quantity ord)) now
         (''accept:'' @ ec_client_order_id cmd @ '':'' @ bo_order_id ord) (xc_session cfg))
        \<lparr>le_broker_order_id := Some (bo_order_id ord), le_price := bo_limit_price ord\<rparr>)"

definition rejected_kwargs :: "exec_config \<Rightarrow> exec_command \<Rightarrow> py_error \<Rightarrow> datetime \<Rightarrow> ledger_event" where
  "rejected_kwargs cfg cmd exc now =
     (let i = ec_intent cmd in
      (ledger_event_kwargs REJECTION (command_account cfg cmd) (ec_client_order_id cmd)
         (contract_id_for (oi_contract i)) (oi_side i) (of_int (oi_quantity i)) now
         (''reject:'' @ ec_client_order_id cmd @ '':'' @ exc_name exc) (xc_session cfg))
        \<lparr>le_metadata := [(''error'', MText (exc_text exc))]\<rparr>)"

definition append_new :: "exec_config \<Rightarrow> ledger_event \<Rightarrow> ('b exec_state, bool) run" where
  "append_new cfg kw = run_bind (new_ledger_event cfg kw) (\<lambda>e. with_ledger (append_event e))"

text \<open>The \<open>except\<close> block of a failed submission: record the rejection and raise again.\<close>

definition submit_rejected :: "exec_config \<Rightarrow> exec_command \<Rightarrow> py_error \<Rightarrow> ('b exec_state, broker_order) run" where
  "submit_rejected cfg cmd exc =
     run_bind (exec_now cfg) (\<lambda>now.
     run_bind (append_new cfg (rejected_kwargs cfg cmd exc now)) (\<lambda>_.
     run_bind (exec_now cfg) (\<lambda>now2.
     run_bind (publish_order_event cfg ORDER_REJECTED (ec_client_order_id cmd) now2 [(''error'', MText (exc_text exc))]) (\<lambda>_.
       run_raise exc))))"

text \<open>What follows an accepted submission.\<close>

definition submit_accepted ::
  "exec_config \<Rightarrow> 'b broker_ops \<Rightarrow> exec_command \<Rightarrow> broker_order \<Rightarrow> ('b exec_state, broker_order) run" where
  "submit_accepted cfg ops cmd ord =
     run_bind (note_mapping (ec_client_order_id cmd) (bo_order_id ord)) (\<lambda>_.
     run_bind (exec_now cfg) (\<lambda>now.
     run_bind (append_new cfg (accepted_kwargs cfg cmd ord now)) (\<lambda>_.
     run_bind (exec_now cfg) (\<lambda>now2.
     run_bind (publish_order_event cfg ORDER_ACCEPTED (ec_client_order_id cmd) now2
                 [(''broker_order_id'', MText (bo_order_id ord)), (''status'', MText (broker_status_text (bo_status ord)))]) (\<lambda>_.
       if bo_status ord = Filled
       then run_bind (verified_fill_price ops ord) (\<lambda>price.
              case price of
                None \<Rightarrow> run_ret ord
              | Some x \<Rightarrow> run_bind (record_verified_fill cfg ord (ec_client_order_id cmd) x (Some (bo_quantity ord)) True)
                             (\<lambda>_. run_ret ord))
       else run_ret ord)))))"

text \<open>Crash recovery: the broker already holds an order of this intent.\<close>

definition submit_recovered ::
  "exec_config \<Rightarrow> exec_command \<Rightarrow> broker_order \<Rightarrow> ('b exec_state, broker_order) run" where
  "submit_recovered cfg cmd ord =
     run_bind (note_mapping (ec_client_order_id cmd) (bo_order_id ord)) (\<lambda>_.
     run_bind (exec_now cfg) (\<lambda>now.
     run_bind (append_new cfg (accepted_kwargs cfg cmd ord now)) (\<lambda>_. run_ret ord)))"

definition submit_fresh :: "exec_config \<Rightarrow> 'b broker_ops \<Rightarrow> exec_command \<Rightarrow> ('b exec_state, broker_order) run" where
  "submit_fresh cfg ops cmd =
     run_bind (exec_now cfg) (\<lambda>now.
     run_bind (append_new cfg (requested_kwargs cfg cmd now)) (\<lambda>_.
     run_bind (publish_order_event cfg ORDER_SUBMITTED (ec_client_order_id cmd) now []) (\<lambda>_.
     run_bind (find_broker_order_by_intent ops (oi_intent_id (ec_intent cmd))) (\<lambda>recovered.
       case recovered of
         Some ord \<Rightarrow> submit_recovered cfg cmd ord
       | None \<Rightarrow>
           (\<lambda>s. case with_broker (br_submit ops (ec_intent cmd)) s of
                  (Inl exc, s') \<Rightarrow> submit_rejected cfg cmd exc s'
                | (Inr ord, s') \<Rightarrow> submit_accepted cfg ops cmd ord s')))))"

definition submit_execution_command ::
  "exec_config \<Rightarrow> 'b broker_ops \<Rightarrow> exec_command \<Rightarrow> ('b exec_state, broker_order) run" where
  "submit_execution_command cfg ops cmd =
     run_bind (restore_order_mappings cfg) (\<lambda>_.
     run_bind (resolve_existing_submission cfg ops (ec_client_order_id cmd)) (\<lambda>existing.
       case existing of
         Some ord \<Rightarrow> run_ret ord
       | None \<Rightarrow> submit_fresh cfg ops cmd))"

section \<open>Reconciliation\<close>

definition order_view :: "string \<Rightarrow> broker_order \<Rightarrow> broker_order_view" where
  "order_view client ord =
     \<lparr>bv_broker_order_id = bo_order_id ord, bv_client_order_id = Some client,
      bv_contract_id = contract_id_for (bo_contract ord), bv_side = bo_side ord,
      bv_quantity = of_int (bo_quantity ord),
      bv_filled_qty = (if bo_status ord = Filled then of_int (bo_quantity ord) else 0),
      bv_status = broker_status_text (bo_status ord)\<rparr>"

definition position_view :: "position \<Rightarrow> broker_position_view" where
  "position_view p =
     \<lparr>bp_contract_id = contract_id_for (po_contract p), bp_quantity = of_int (if po_is_open p then po_quantity p else 0),
      bp_avg_price = Some (po_avg_entry_price p)\<rparr>"

text \<open>The loop that adds mapped orders the broker still has open.\<close>

fun add_mapped_orders ::
  "'b broker_ops \<Rightarrow> (string, string) dict \<Rightarrow> broker_order_view list \<Rightarrow> ('b exec_state, broker_order_view list) run" where
  "add_mapped_orders ops [] views = run_ret views"
| "add_mapped_orders ops ((client, broker_id) # m) views =
     run_bind (with_broker (br_get ops broker_id)) (\<lambda>found.
       case found of
         None \<Rightarrow> add_mapped_orders ops m views
       | Some ord \<Rightarrow>
           if \<exists>v \<in> set views. bv_broker_order_id v = broker_id then add_mapped_orders ops m views
           else if bo_status ord = Open then add_mapped_orders ops m (views @ [order_view client ord])
           else add_mapped_orders ops m views)"

definition run_reconciliation :: "exec_config \<Rightarrow> 'b broker_ops \<Rightarrow> ('b exec_state, report) run" where
  "run_reconciliation cfg ops =
     run_bind (project_session cfg) (\<lambda>projection.
     run_bind (with_broker (br_list_open ops)) (\<lambda>opens.
     run_bind (run_get xr_client_to_broker) (\<lambda>mapping.
     run_bind (add_mapped_orders ops mapping (map (\<lambda>ord. order_view (bo_intent_id ord) ord) opens)) (\<lambda>orders.
     run_bind (with_broker (br_list_positions ops)) (\<lambda>positions.
     run_bind (exec_now cfg) (\<lambda>now.
     run_bind tick (\<lambda>n.
     run_bind (run_lift (reconcile (xc_uuid cfg n) (xc_wall cfg n) (xc_session cfg) projection orders
                 (map position_view (filter po_is_open positions)) (Some now))) (\<lambda>r.
       if \<not> rp_is_consistent r
       then run_bind (exec_now cfg) (\<lambda>now2.
            run_bind (publish_event cfg RECONCILIATION_REQUIRED now2
                        [(''report_id'', MText (rp_report_id r)), (''is_consistent'', MBool False),
                         (''finding_count'', MInt (int (length (rp_findings r))))]) (\<lambda>_. run_ret r))
       else run_bind (run_modify (\<lambda>s. s\<lparr>xr_unresolved := None\<rparr>)) (\<lambda>_. run_ret r)))))))))"

definition apply_reconciliation_corrections ::
  "exec_config \<Rightarrow> 'b broker_ops \<Rightarrow> report \<Rightarrow> bool \<Rightarrow> ('b exec_state, ledger_event list) run" where
  "apply_reconciliation_corrections cfg ops r mark_unresolved =
     run_bind (run_get xr_tick) (\<lambda>n.
     run_bind (run_modify (\<lambda>s. s\<lparr>xr_tick := n + length (rp_findings r)\<rparr>)) (\<lambda>_.
     run_bind (run_lift (correction_events (\<lambda>i. (xc_uuid cfg (n + i), xc_wall cfg (n + i))) r (xc_account cfg) None)) (\<lambda>corrections.
     run_bind (run_for (\<lambda>e. run_bind (with_ledger (append_event e)) (\<lambda>ins. run_ret (if ins then [e] else []))) corrections) (\<lambda>written.
       if mark_unresolved
       then run_bind (run_reconciliation cfg ops) (\<lambda>follow_up.
            run_bind (run_modify (\<lambda>s. s\<lparr>xr_unresolved := (if rp_is_consistent follow_up then None else Some follow_up)\<rparr>))
              (\<lambda>_. run_ret written))
       else run_ret written))))"

definition claims_recovery :: "'b exec_state \<Rightarrow> bool" where
  "claims_recovery s \<longleftrightarrow> xr_unresolved s = None"

text \<open>\<open>DailyPnlView\<close> as availability and value.\<close>

definition exec_daily_pnl :: "'b broker_ops \<Rightarrow> ('b exec_state, bool \<times> pyfloat option) run" where
  "exec_daily_pnl ops = with_broker (br_daily_pnl ops)"

section \<open>Cancelling and polling\<close>

definition cancel_client_order :: "exec_config \<Rightarrow> 'b broker_ops \<Rightarrow> string \<Rightarrow> ('b exec_state, broker_order) run" where
  "cancel_client_order cfg ops client =
     run_bind (restore_order_mappings cfg) (\<lambda>_.
     run_bind (broker_id_of client) (\<lambda>mapped.
       case mapped of
         None \<Rightarrow> run_raise RuntimeError
       | Some b \<Rightarrow>
           run_bind (with_broker (br_cancel ops b)) (\<lambda>ord.
           run_bind (on_broker_update cfg ops ord (Some client)) (\<lambda>_.
           run_bind (run_reconciliation cfg ops) (\<lambda>_. run_ret ord)))))"

definition cancel_order_by_broker_id :: "exec_config \<Rightarrow> 'b broker_ops \<Rightarrow> string \<Rightarrow> ('b exec_state, broker_order) run" where
  "cancel_order_by_broker_id cfg ops broker_id =
     run_bind (restore_order_mappings cfg) (\<lambda>_.
     run_bind (run_get (\<lambda>s. map_option fst (find (\<lambda>cb. snd cb = broker_id) (xr_client_to_broker s)))) (\<lambda>client.
       case client of
         Some c \<Rightarrow> cancel_client_order cfg ops c
       | None \<Rightarrow>
           run_bind (with_broker (br_cancel ops broker_id)) (\<lambda>ord.
           run_bind (note_mapping (bo_intent_id ord) broker_id) (\<lambda>_.
           run_bind (on_broker_update cfg ops ord (Some (bo_intent_id ord))) (\<lambda>_.
           run_bind (run_reconciliation cfg ops) (\<lambda>_. run_ret ord))))))"

definition poll_order_status :: "exec_config \<Rightarrow> 'b broker_ops \<Rightarrow> string \<Rightarrow> ('b exec_state, broker_order option) run" where
  "poll_order_status cfg ops client =
     run_bind (broker_id_of client) (\<lambda>mapped0.
     run_bind (case mapped0 of
                 None \<Rightarrow> run_bind (restore_order_mappings cfg) (\<lambda>_. broker_id_of client)
               | Some b \<Rightarrow> run_ret (Some b)) (\<lambda>mapped.
       case mapped of
         None \<Rightarrow> run_ret None
       | Some b \<Rightarrow>
           run_bind (with_broker (br_get ops b)) (\<lambda>found.
             case found of
               None \<Rightarrow> run_ret None
             | Some ord \<Rightarrow> run_bind (on_broker_update cfg ops ord (Some client)) (\<lambda>_. run_ret (Some ord)))))"

section \<open>The simulated broker behind the runtime\<close>

definition paper_ops :: "paper_env \<Rightarrow> paper_broker broker_ops" where
  "paper_ops env =
     \<lparr>br_submit = submit_order env, br_cancel = cancel_order, br_get = (\<lambda>k. run_get (get_order k)),
      br_list_open = run_get list_open_orders, br_list_positions = run_get list_positions,
      br_daily_pnl = run_get get_daily_pnl_available,
      br_fill_price = Some (\<lambda>k. run_get (get_fill_price k)),
      br_fills = Some (\<lambda>b. dict_values (pb_fills b)), br_find_by_intent = None,
      br_orders = Some (\<lambda>b. dict_values (pb_orders b))\<rparr>"

end
