(* ===== verification/Market_Bars.thy ===== *)
theory Market_Bars
  imports Py_Time
begin

text \<open>
  Market observations (\<open>joker/market/observations.py\<close>) and their aggregation into bars
  (\<open>joker/market/bars.py\<close>). The exchange zone is a parameter \<open>ny\<close>, the offset in microseconds of
  America/New_York from UTC at a moment. A \<open>datetime\<close> in that zone is its wall clock in microseconds:
  Python compares two values of one zone by their wall clocks, and the aggregation compares no others.
  A set of flags is a list without repetitions.
\<close>

section \<open>Observations\<close>

text \<open>\<open>Literal["call", "put"]\<close>\<close>

datatype surface_option_type = SCall | SPut

record quote_obs =
  qo_observation_id :: uuid
  qo_symbol :: string
  qo_source_timestamp :: datetime
  qo_received_timestamp :: datetime
  qo_bid :: "decimal option"
  qo_ask :: "decimal option"
  qo_last :: "decimal option"
  qo_bid_size :: "int option"
  qo_ask_size :: "int option"
  qo_last_size :: "int option"
  qo_cumulative_volume :: "int option"
  qo_source :: string

record trade_obs =
  to_observation_id :: uuid
  to_symbol :: string
  to_source_timestamp :: datetime
  to_received_timestamp :: datetime
  to_price :: decimal
  to_size :: int
  to_cumulative_volume :: "int option"
  to_source :: string

record underlying_obs =
  uo_observation_id :: uuid
  uo_symbol :: string
  uo_source_timestamp :: datetime
  uo_received_timestamp :: datetime
  uo_last :: "decimal option"
  uo_bid :: "decimal option"
  uo_ask :: "decimal option"
  uo_bid_size :: "int option"
  uo_ask_size :: "int option"
  uo_cumulative_volume :: "int option"
  uo_source :: string

record option_obs =
  oo_observation_id :: uuid
  oo_underlying_symbol :: string
  oo_contract_symbol :: string
  oo_expiry :: int
  oo_strike :: decimal
  oo_option_type :: surface_option_type
  oo_source_timestamp :: datetime
  oo_received_timestamp :: datetime
  oo_bid :: "decimal option"
  oo_ask :: "decimal option"
  oo_last :: "decimal option"
  oo_bid_size :: "int option"
  oo_ask_size :: "int option"
  oo_volume :: "int option"
  oo_open_interest :: "int option"
  oo_implied_volatility :: "decimal option"
  oo_delta :: "decimal option"
  oo_gamma :: "decimal option"
  oo_theta :: "decimal option"
  oo_vega :: "decimal option"
  oo_source :: string

definition reject_naive :: "datetime \<Rightarrow> py_error + datetime" where
  "reject_naive t = (if dt_off t = None then Inl ValueError else Inr t)"

text \<open>A failing validator makes the constructor raise \<open>ValidationError\<close>.\<close>

definition build_quote_obs :: "quote_obs \<Rightarrow> py_error + quote_obs" where
  "build_quote_obs q =
     (if dt_off (qo_source_timestamp q) = None \<or> dt_off (qo_received_timestamp q) = None
      then Inl ValidationError else Inr q)"

definition build_trade_obs :: "trade_obs \<Rightarrow> py_error + trade_obs" where
  "build_trade_obs t =
     (if dt_off (to_source_timestamp t) = None \<or> dt_off (to_received_timestamp t) = None \<or> to_size t < 0
      then Inl ValidationError else Inr t)"

definition build_underlying_obs :: "underlying_obs \<Rightarrow> py_error + underlying_obs" where
  "build_underlying_obs u =
     (if dt_off (uo_source_timestamp u) = None \<or> dt_off (uo_received_timestamp u) = None
      then Inl ValidationError else Inr u)"

definition build_option_obs :: "option_obs \<Rightarrow> py_error + option_obs" where
  "build_option_obs q =
     (if dt_off (oo_source_timestamp q) = None \<or> dt_off (oo_received_timestamp q) = None
      then Inl ValidationError else Inr q)"

section \<open>Bars\<close>

datatype bar_timeframe = M1 | M5

fun timeframe_value :: "bar_timeframe \<Rightarrow> string" where
  "timeframe_value M1 = ''1m''"
| "timeframe_value M5 = ''5m''"

fun tf_minutes :: "bar_timeframe \<Rightarrow> int" where
  "tf_minutes M1 = 1"
| "tf_minutes M5 = 5"

record market_bar =
  mb_symbol :: string
  mb_timeframe :: bar_timeframe
  mb_start :: int
  mb_end :: int
  mb_open :: decimal
  mb_high :: decimal
  mb_low :: decimal
  mb_close :: decimal
  mb_volume :: int
  mb_quality_flags :: "string list"
  mb_incomplete :: bool
  mb_late_data :: bool
  mb_observation_ids :: "uuid list"

text \<open>The constructor of \<open>MarketBar\<close>; its timestamps are aware by construction here.\<close>

definition build_market_bar :: "market_bar \<Rightarrow> py_error + market_bar" where
  "build_market_bar b = (if mb_volume b < 0 then Inl ValidationError else Inr b)"

record bar_finding =
  bf_code :: string
  bf_symbol :: string
  bf_timeframe :: "string option"
  bf_observation_id :: "uuid option"

definition require_timeframe :: "market_bar list \<Rightarrow> bar_timeframe \<Rightarrow> py_error + market_bar list" where
  "require_timeframe bars expected =
     (if \<exists>b \<in> set bars. mb_timeframe b \<noteq> expected then Inl FeatureTimeframeError else Inr bars)"

abbreviation minute_us :: int where
  "minute_us \<equiv> 60000000"

definition ensure_aware :: "(int \<Rightarrow> int) \<Rightarrow> datetime \<Rightarrow> py_error + int" where
  "ensure_aware ny t = (if dt_off t = None then Inl ValueError else Inr (instant t + ny (instant t)))"

definition floor_wall :: "int \<Rightarrow> bar_timeframe \<Rightarrow> int" where
  "floor_wall w tf =
     (let truncated = w - w mod minute_us;
          minute = truncated div minute_us mod 60;
          floored = minute div tf_minutes tf * tf_minutes tf
      in truncated - minute * minute_us + floored * minute_us)"

definition floor_to_interval :: "(int \<Rightarrow> int) \<Rightarrow> datetime \<Rightarrow> bar_timeframe \<Rightarrow> py_error + int" where
  "floor_to_interval ny t tf = (case ensure_aware ny t of Inl e \<Rightarrow> Inl e | Inr w \<Rightarrow> Inr (floor_wall w tf))"

definition interval_end :: "int \<Rightarrow> bar_timeframe \<Rightarrow> int" where
  "interval_end start tf = start + tf_minutes tf * minute_us"

record open_bar =
  ob_symbol :: string
  ob_timeframe :: bar_timeframe
  ob_start :: int
  ob_end :: int
  ob_open :: decimal
  ob_high :: decimal
  ob_low :: decimal
  ob_close :: decimal
  ob_volume :: int
  ob_late_data :: bool
  ob_incomplete :: bool
  ob_quality_flags :: "string list"
  ob_observation_ids :: "uuid list"
  ob_tick_count :: int

definition set_add :: "'a \<Rightarrow> 'a list \<Rightarrow> 'a list" where
  "set_add x xs = (if x \<in> set xs then xs else xs @ [x])"

definition add_flag :: "string \<Rightarrow> open_bar \<Rightarrow> open_bar" where
  "add_flag f b = b\<lparr>ob_quality_flags := set_add f (ob_quality_flags b)\<rparr>"

definition mark_late :: "open_bar \<Rightarrow> open_bar" where
  "mark_late b = add_flag ''late_data'' (b\<lparr>ob_late_data := True\<rparr>)"

definition apply_price :: "decimal \<Rightarrow> uuid \<Rightarrow> bool \<Rightarrow> open_bar \<Rightarrow> open_bar" where
  "apply_price price oid late b =
     (let b1 = (if ob_tick_count b = 0
                then b\<lparr>ob_open := price, ob_high := price, ob_low := price, ob_close := price\<rparr>
                else b\<lparr>ob_high := (if ob_high b < price then price else ob_high b),
                       ob_low := (if price < ob_low b then price else ob_low b),
                       ob_close := price\<rparr>);
          b2 = b1\<lparr>ob_tick_count := ob_tick_count b1 + 1,
                  ob_observation_ids := set_add oid (ob_observation_ids b1)\<rparr>
      in if late then mark_late b2 else b2)"

definition add_volume :: "int \<Rightarrow> bool \<Rightarrow> open_bar \<Rightarrow> open_bar" where
  "add_volume n questionable b =
     (if n < 0 then add_flag ''negative_volume_ignored'' b
      else let b1 = b\<lparr>ob_volume := ob_volume b + n\<rparr>
           in if questionable then add_flag ''questionable_volume'' b1 else b1)"

definition to_market_bar :: "bool option \<Rightarrow> open_bar \<Rightarrow> py_error + market_bar" where
  "to_market_bar inc b =
     (let flags0 = sort (ob_quality_flags b);
          inc0 = (case inc of None \<Rightarrow> ob_incomplete b | Some i \<Rightarrow> i);
          flags1 = (if inc0 \<and> ''incomplete'' \<notin> set flags0 then flags0 @ [''incomplete''] else flags0);
          empty = (ob_tick_count b = 0);
          flags2 = (if empty \<and> ''empty_interval'' \<notin> set flags1 then flags1 @ [''empty_interval''] else flags1)
      in build_market_bar
           \<lparr>mb_symbol = ob_symbol b, mb_timeframe = ob_timeframe b, mb_start = ob_start b, mb_end = ob_end b,
            mb_open = ob_open b, mb_high = ob_high b, mb_low = ob_low b, mb_close = ob_close b,
            mb_volume = ob_volume b, mb_quality_flags = flags2, mb_incomplete = (inc0 \<or> empty),
            mb_late_data = ob_late_data b, mb_observation_ids = ob_observation_ids b\<rparr>)"

section \<open>The builder\<close>

type_synonym bar_key = "string \<times> bar_timeframe \<times> int"

record bar_builder =
  bb_late_tolerance_seconds :: int
  bb_open :: "(bar_key, open_bar) dict"
  bb_emitted :: "bar_key set"
  bb_last_cum_vol :: "(string, int) dict"
  bb_closed_bars :: "market_bar list"
  bb_findings :: "bar_finding list"
  bb_assigned_obs :: "(uuid \<times> bar_timeframe) set"

definition new_builder :: "int \<Rightarrow> bar_builder" where
  "new_builder tolerance =
     \<lparr>bb_late_tolerance_seconds = tolerance, bb_open = [], bb_emitted = {}, bb_last_cum_vol = [],
      bb_closed_bars = [], bb_findings = [], bb_assigned_obs = {}\<rparr>"

definition add_finding :: "bar_finding \<Rightarrow> (bar_builder, unit) run" where
  "add_finding f = run_modify (\<lambda>bb. bb\<lparr>bb_findings := bb_findings bb @ [f]\<rparr>)"

definition quote_price :: "decimal option \<Rightarrow> decimal option \<Rightarrow> decimal option \<Rightarrow> decimal option" where
  "quote_price bid ask lst =
     (let pos = (\<lambda>x. case x of None \<Rightarrow> False | Some v \<Rightarrow> 0 < v) in
      if pos bid \<and> pos ask \<and> the bid \<le> the ask then Some ((the bid + the ask) / 2)
      else if pos lst then lst
      else if pos bid then bid
      else if pos ask then ask
      else None)"

definition resolve_volume :: "string \<Rightarrow> int option \<Rightarrow> int option \<Rightarrow> (bar_builder, int) run" where
  "resolve_volume symbol cumulative trade_size =
     (let fallback = (case trade_size of None \<Rightarrow> 0 | Some n \<Rightarrow> if 0 < n then n else 0)
      in case cumulative of
           None \<Rightarrow> run_ret fallback
         | Some c \<Rightarrow>
             run_bind (run_get (\<lambda>bb. dict_get (bb_last_cum_vol bb) symbol)) (\<lambda>prev.
             run_bind (run_modify (\<lambda>bb. bb\<lparr>bb_last_cum_vol := dict_set symbol c (bb_last_cum_vol bb)\<rparr>)) (\<lambda>_.
               case prev of
                 None \<Rightarrow> run_ret fallback
               | Some p \<Rightarrow>
                   if 0 \<le> c - p then run_ret (c - p)
                   else run_bind (add_finding \<lparr>bf_code = ''cumulative_volume_regression'', bf_symbol = symbol,
                                               bf_timeframe = None, bf_observation_id = None\<rparr>)
                          (\<lambda>_. run_ret fallback))))"

text \<open>
  \<open>_bar_for\<close> returns the open bar itself, which the caller then changes in place; here it returns
  the key under which that bar is open.
\<close>

definition fresh_bar :: "string \<Rightarrow> bar_timeframe \<Rightarrow> int \<Rightarrow> open_bar" where
  "fresh_bar symbol tf start =
     \<lparr>ob_symbol = symbol, ob_timeframe = tf, ob_start = start, ob_end = interval_end start tf,
      ob_open = 0, ob_high = 0, ob_low = 0, ob_close = 0, ob_volume = 0, ob_late_data = False,
      ob_incomplete = False, ob_quality_flags = [], ob_observation_ids = [], ob_tick_count = 0\<rparr>"

definition update_open :: "bar_key \<Rightarrow> (open_bar \<Rightarrow> open_bar) \<Rightarrow> (bar_builder, unit) run" where
  "update_open key f =
     run_modify (\<lambda>bb. bb\<lparr>bb_open := map (\<lambda>(k, b). (k, if k = key then f b else b)) (bb_open bb)\<rparr>)"

definition mark_gap :: "bar_key \<Rightarrow> bar_key \<times> open_bar \<Rightarrow> bar_key \<times> open_bar" where
  "mark_gap key entry =
     (case (key, entry) of ((symbol, tf, start), (k, b)) \<Rightarrow>
        (k, if fst k = symbol \<and> fst (snd k) = tf \<and> snd (snd k) < start
            then add_flag ''gap_before_next_interval'' (b\<lparr>ob_incomplete := True\<rparr>) else b))"

definition open_new_bar :: "bar_key \<Rightarrow> bool \<Rightarrow> bar_builder \<Rightarrow> bar_builder" where
  "open_new_bar key late bb =
     (case key of (symbol, tf, start) \<Rightarrow>
        let bar = fresh_bar symbol tf start
        in bb\<lparr>bb_open := dict_set key (if late then mark_late bar else bar) (map (mark_gap key) (bb_open bb))\<rparr>)"

definition bar_for ::
  "(int \<Rightarrow> int) \<Rightarrow> string \<Rightarrow> bar_timeframe \<Rightarrow> datetime \<Rightarrow> datetime \<Rightarrow> uuid \<Rightarrow> (bar_builder, bar_key option) run" where
  "bar_for ny symbol tf src rcv oid =
     run_bind (run_lift (floor_to_interval ny src tf)) (\<lambda>start.
     run_bind (run_lift (ensure_aware ny rcv)) (\<lambda>received.
     let stop = interval_end start tf;
         key = (symbol, tf, start);
         drop_obs = (\<lambda>code. run_bind (add_finding \<lparr>bf_code = code, bf_symbol = symbol,
                      bf_timeframe = Some (timeframe_value tf), bf_observation_id = Some oid\<rparr>) (\<lambda>_. run_ret None))
     in run_bind (run_get (\<lambda>bb. (key \<in> bb_emitted bb, bb_late_tolerance_seconds bb, dict_get (bb_open bb) key)))
          (\<lambda>(emitted, tolerance, existing).
            if emitted then drop_obs ''dropped_after_close''
            else if stop + tolerance * usec < received then drop_obs ''dropped_too_late''
            else case existing of
                   Some _ \<Rightarrow>
                     if stop \<le> received then run_bind (update_open key mark_late) (\<lambda>_. run_ret (Some key))
                     else run_ret (Some key)
                 | None \<Rightarrow> run_bind (run_modify (open_new_bar key (stop \<le> received))) (\<lambda>_. run_ret (Some key)))))"

definition tick_bar :: "decimal option \<Rightarrow> int \<Rightarrow> uuid \<Rightarrow> bool \<Rightarrow> open_bar \<Rightarrow> open_bar" where
  "tick_bar price volume oid late b =
     (let b1 = (case price of
                  Some p \<Rightarrow> apply_price p oid late b
                | None \<Rightarrow> if late then mark_late b else b)
      in if 0 < volume then add_volume volume False b1 else b1)"

definition apply_to_timeframe ::
  "(int \<Rightarrow> int) \<Rightarrow> string \<Rightarrow> uuid \<Rightarrow> datetime \<Rightarrow> datetime \<Rightarrow> decimal option \<Rightarrow> int \<Rightarrow> bar_timeframe \<Rightarrow>
   (bar_builder, unit) run" where
  "apply_to_timeframe ny symbol oid src rcv price volume tf =
     run_bind (bar_for ny symbol tf src rcv oid) (\<lambda>found.
       case found of
         None \<Rightarrow> run_ret ()
       | Some key \<Rightarrow>
           run_bind (run_get (\<lambda>bb. (oid, tf) \<in> bb_assigned_obs bb)) (\<lambda>assigned.
             if assigned then run_ret ()
             else run_bind (run_modify (\<lambda>bb. bb\<lparr>bb_assigned_obs := insert (oid, tf) (bb_assigned_obs bb)\<rparr>)) (\<lambda>_.
                  run_bind (run_lift (ensure_aware ny rcv)) (\<lambda>received.
                    update_open key (\<lambda>b. tick_bar price volume oid (ob_end b \<le> received) b)))))"

definition apply_observation ::
  "(int \<Rightarrow> int) \<Rightarrow> string \<Rightarrow> uuid \<Rightarrow> datetime \<Rightarrow> datetime \<Rightarrow> decimal option \<Rightarrow> int \<Rightarrow> (bar_builder, unit) run" where
  "apply_observation ny symbol oid src rcv price volume =
     (if price = None \<and> volume \<le> 0 then run_ret ()
      else run_bind (apply_to_timeframe ny symbol oid src rcv price volume M1)
             (\<lambda>_. apply_to_timeframe ny symbol oid src rcv price volume M5))"

definition ingest_quote :: "(int \<Rightarrow> int) \<Rightarrow> quote_obs \<Rightarrow> (bar_builder, unit) run" where
  "ingest_quote ny q =
     run_bind (resolve_volume (qo_symbol q) (qo_cumulative_volume q) None) (\<lambda>volume.
       apply_observation ny (qo_symbol q) (qo_observation_id q) (qo_source_timestamp q) (qo_received_timestamp q)
         (quote_price (qo_bid q) (qo_ask q) (qo_last q)) volume)"

definition ingest_trade :: "(int \<Rightarrow> int) \<Rightarrow> trade_obs \<Rightarrow> (bar_builder, unit) run" where
  "ingest_trade ny t =
     run_bind (resolve_volume (to_symbol t) (to_cumulative_volume t) (Some (to_size t))) (\<lambda>volume.
       apply_observation ny (to_symbol t) (to_observation_id t) (to_source_timestamp t) (to_received_timestamp t)
         (Some (to_price t)) volume)"

definition ingest_underlying :: "(int \<Rightarrow> int) \<Rightarrow> underlying_obs \<Rightarrow> (bar_builder, unit) run" where
  "ingest_underlying ny u =
     run_bind (resolve_volume (uo_symbol u) (uo_cumulative_volume u) None) (\<lambda>volume.
       apply_observation ny (uo_symbol u) (uo_observation_id u) (uo_source_timestamp u) (uo_received_timestamp u)
         (quote_price (uo_bid u) (uo_ask u) (uo_last u)) volume)"

definition clear_findings :: "bar_builder \<Rightarrow> bar_builder" where
  "clear_findings bb = bb\<lparr>bb_findings := []\<rparr>"

section \<open>Closing\<close>

definition close_one :: "int \<Rightarrow> bar_key \<times> open_bar \<Rightarrow> (bar_builder, (bar_key \<times> market_bar option) list) run" where
  "close_one reference entry =
     (case entry of (key, b) \<Rightarrow>
        let emit_key = (ob_symbol b, ob_timeframe b, ob_start b)
        in run_bind (run_get (\<lambda>bb. (emit_key \<in> bb_emitted bb, bb_late_tolerance_seconds bb))) (\<lambda>(emitted, tolerance).
             if emitted then run_ret [(key, None)]
             else if reference < ob_end b + tolerance * usec then run_ret []
             else let b' = (if ob_late_data b then add_flag ''includes_late_ticks'' b else b)
                  in run_bind (update_open key (\<lambda>_. b')) (\<lambda>_.
                     run_bind (run_lift (to_market_bar (Some (ob_tick_count b = 0 \<or> ob_incomplete b)) b')) (\<lambda>bar.
                     run_bind (run_modify (\<lambda>bb. bb\<lparr>bb_emitted := insert emit_key (bb_emitted bb),
                                                     bb_closed_bars := bb_closed_bars bb @ [bar]\<rparr>))
                       (\<lambda>_. run_ret [(key, Some bar)])))))"

definition close_ready_bars ::
  "(int \<Rightarrow> int) \<Rightarrow> datetime \<Rightarrow> datetime option \<Rightarrow> (bar_builder, market_bar list) run" where
  "close_ready_bars ny clock now =
     run_bind (run_lift (ensure_aware ny (case now of Some t \<Rightarrow> t | None \<Rightarrow> clock))) (\<lambda>reference.
     run_bind (run_get bb_open) (\<lambda>items.
     run_bind (run_for (close_one reference) items) (\<lambda>removed.
     run_bind (run_modify (\<lambda>bb. bb\<lparr>bb_open := filter (\<lambda>(k, _). k \<notin> fst ` set removed) (bb_open bb)\<rparr>)) (\<lambda>_.
       run_ret (sort_key (\<lambda>b. (mb_start b, timeframe_value (mb_timeframe b), mb_symbol b))
                  (List.map_filter snd removed))))))"

fun collect_sums :: "('a \<Rightarrow> py_error + 'b) \<Rightarrow> 'a list \<Rightarrow> py_error + 'b list" where
  "collect_sums f [] = Inr []"
| "collect_sums f (x # xs) =
     (case f x of Inl e \<Rightarrow> Inl e | Inr y \<Rightarrow> (case collect_sums f xs of Inl e \<Rightarrow> Inl e | Inr ys \<Rightarrow> Inr (y # ys)))"

definition open_bars :: "bar_builder \<Rightarrow> py_error + market_bar list" where
  "open_bars bb =
     collect_sums (to_market_bar (Some True))
       (sort_key (\<lambda>b. (ob_start b, timeframe_value (ob_timeframe b))) (dict_values (bb_open bb)))"

section \<open>Interval arithmetic\<close>

lemma five_dvd_sixty: "(5::int) dvd 60"
  by simp

lemma five_minutes: "(m::int) mod 60 div 5 * 5 = m mod 60 - m mod 5"
  by (metis minus_mod_eq_div_mult mod_mod_cancel five_dvd_sixty)

lemma floor_wall_eq: "floor_wall w tf = w - w mod (tf_minutes tf * minute_us)"
proof -
  define m where "m = w div minute_us"
  have trunc: "w - w mod minute_us = m * minute_us" by (simp add: m_def minus_mod_eq_div_mult)
  then have minute: "(w - w mod minute_us) div minute_us = m" by simp
  have "w mod (minute_us * 5) = minute_us * (m mod 5) + w mod minute_us"
    unfolding m_def by (rule zmod_zmult2_eq) simp
  moreover have "m mod 60 div 5 * 300000000 = (m mod 60 - m mod 5) * minute_us"
    unfolding five_minutes [symmetric] by simp
  ultimately show ?thesis
    using trunc by (cases tf) (simp_all add: floor_wall_def Let_def minute algebra_simps)
qed

lemma floor_wall_aligned: "floor_wall w tf mod (tf_minutes tf * minute_us) = 0"
  by (simp add: floor_wall_eq)

lemma floor_wall_bounds: "floor_wall w tf \<le> w" "w < interval_end (floor_wall w tf) tf"
  by (cases tf; simp add: floor_wall_eq interval_end_def)+

section \<open>Well-formed bars\<close>

definition bar_shape :: "bar_timeframe \<Rightarrow> int \<Rightarrow> int \<Rightarrow> bool" where
  "bar_shape tf start stop \<longleftrightarrow> start mod (tf_minutes tf * minute_us) = 0 \<and> stop = interval_end start tf"

definition ohlc_ok :: "decimal \<Rightarrow> decimal \<Rightarrow> decimal \<Rightarrow> decimal \<Rightarrow> bool" where
  "ohlc_ok op hi lo cl \<longleftrightarrow> lo \<le> op \<and> op \<le> hi \<and> lo \<le> cl \<and> cl \<le> hi"

definition open_bar_ok :: "open_bar \<Rightarrow> bool" where
  "open_bar_ok b \<longleftrightarrow>
     bar_shape (ob_timeframe b) (ob_start b) (ob_end b) \<and> 0 \<le> ob_volume b \<and>
     ohlc_ok (ob_open b) (ob_high b) (ob_low b) (ob_close b) \<and> distinct (ob_observation_ids b) \<and>
     0 \<le> ob_tick_count b \<and> (ob_tick_count b = 0 \<or> ob_observation_ids b \<noteq> [])"

definition market_bar_ok :: "market_bar \<Rightarrow> bool" where
  "market_bar_ok b \<longleftrightarrow>
     bar_shape (mb_timeframe b) (mb_start b) (mb_end b) \<and> 0 \<le> mb_volume b \<and>
     ohlc_ok (mb_open b) (mb_high b) (mb_low b) (mb_close b) \<and> distinct (mb_observation_ids b) \<and>
     (mb_incomplete b \<or> mb_observation_ids b \<noteq> [])"

definition open_key :: "open_bar \<Rightarrow> bar_key" where
  "open_key b = (ob_symbol b, ob_timeframe b, ob_start b)"

definition closed_key :: "market_bar \<Rightarrow> bar_key" where
  "closed_key b = (mb_symbol b, mb_timeframe b, mb_start b)"

definition entry_ok :: "bar_key \<times> open_bar \<Rightarrow> bool" where
  "entry_ok entry \<longleftrightarrow> open_key (snd entry) = fst entry \<and> open_bar_ok (snd entry)"

definition builder_ok :: "market_bar list \<Rightarrow> bar_builder \<Rightarrow> bool" where
  "builder_ok before bb \<longleftrightarrow>
     list_all entry_ok (bb_open bb) \<and> list_all market_bar_ok (bb_closed_bars bb) \<and>
     distinct (map closed_key (bb_closed_bars bb)) \<and> closed_key ` set (bb_closed_bars bb) \<subseteq> bb_emitted bb \<and>
     take (length before) (bb_closed_bars bb) = before"

lemma distinct_set_add [simp]: "distinct (set_add x xs) \<longleftrightarrow> distinct xs"
  by (simp add: set_add_def)

lemma set_add_nonempty [simp]: "set_add x xs \<noteq> []"
  by (auto simp: set_add_def)

lemmas bar_edit_defs = apply_price_def add_volume_def mark_late_def add_flag_def tick_bar_def Let_def

definition keeps_bar :: "(open_bar \<Rightarrow> open_bar) \<Rightarrow> bool" where
  "keeps_bar f \<longleftrightarrow> (\<forall>b. open_key (f b) = open_key b \<and> (open_bar_ok b \<longrightarrow> open_bar_ok (f b)))"

lemma keeps_add_flag: "keeps_bar (add_flag fl)"
  by (simp add: keeps_bar_def open_key_def open_bar_ok_def add_flag_def)

lemma keeps_mark_late: "keeps_bar mark_late"
  by (simp add: keeps_bar_def open_key_def open_bar_ok_def add_flag_def mark_late_def)

lemma keeps_incomplete: "keeps_bar (\<lambda>b. b\<lparr>ob_incomplete := True\<rparr>)"
  by (simp add: keeps_bar_def open_key_def open_bar_ok_def)

lemma keeps_comp: "keeps_bar f \<Longrightarrow> keeps_bar g \<Longrightarrow> keeps_bar (\<lambda>b. f (g b))"
  by (simp add: keeps_bar_def)

lemma keeps_if: "keeps_bar f \<Longrightarrow> keeps_bar g \<Longrightarrow> keeps_bar (\<lambda>b. if p b then f b else g b)"
  by (simp add: keeps_bar_def)

lemma keeps_id: "keeps_bar (\<lambda>b. b)"
  by (simp add: keeps_bar_def)

lemma keeps_add_volume: "keeps_bar (add_volume n q)"
  by (auto simp: keeps_bar_def open_key_def open_bar_ok_def add_volume_def add_flag_def Let_def)

lemma keeps_apply_price: "keeps_bar (apply_price p oid late)"
  by (auto simp: keeps_bar_def open_key_def open_bar_ok_def apply_price_def mark_late_def add_flag_def Let_def
      ohlc_ok_def)

lemma keeps_tick: "keeps_bar (\<lambda>b. tick_bar price volume oid (late b) b)"
proof -
  have "keeps_bar (\<lambda>b. apply_price p oid (late b) b)" for p
    using keeps_apply_price by (simp add: keeps_bar_def)
  moreover have "keeps_bar (\<lambda>b. if late b then mark_late b else b)"
    by (intro keeps_if keeps_mark_late keeps_id)
  ultimately have "keeps_bar (\<lambda>b. case price of Some p \<Rightarrow> apply_price p oid (late b) b
                                  | None \<Rightarrow> if late b then mark_late b else b)"
    by (cases price) simp_all
  then show ?thesis
    using keeps_add_volume by (auto simp: tick_bar_def Let_def keeps_bar_def)
qed

lemma entry_ok_edit: "keeps_bar f \<Longrightarrow> entry_ok (k, b) \<Longrightarrow> entry_ok (k, f b)"
  by (simp add: keeps_bar_def entry_ok_def)

lemma fresh_bar_ok: "entry_ok ((s, tf, floor_wall w tf), fresh_bar s tf (floor_wall w tf))"
  by (simp add: entry_ok_def open_key_def open_bar_ok_def fresh_bar_def bar_shape_def floor_wall_aligned ohlc_ok_def)

lemma to_market_bar_ok:
  assumes "open_bar_ok b" "to_market_bar inc b = Inr mb"
  shows "market_bar_ok mb" "closed_key mb = open_key b"
  using assms
  by (auto simp: to_market_bar_def Let_def build_market_bar_def market_bar_ok_def open_bar_ok_def
      closed_key_def open_key_def split: if_splits)

section \<open>Every operation keeps the builder well-formed\<close>

lemma preserves_lift_bind:
  "(\<And>a. r = Inr a \<Longrightarrow> preserves P (f a)) \<Longrightarrow> preserves P (run_bind (run_lift r) f)"
  by (cases r) (auto simp: preserves_def run_bind_def run_lift_def)

lemma preserves_get_bind:
  "(\<And>x. Q x \<Longrightarrow> preserves P (f x)) \<Longrightarrow> (\<And>s. P s \<Longrightarrow> Q (g s)) \<Longrightarrow> preserves P (run_bind (run_get g) f)"
  by (simp add: preserves_def run_bind_def run_get_def)

lemma preserves_for_all:
  "(\<And>x. x \<in> set xs \<Longrightarrow> preserves P (f x)) \<Longrightarrow> preserves P (run_for f xs)"
  by (induction xs) (auto intro: preserve_intros)

lemma builder_ok_with_open:
  "builder_ok before bb \<Longrightarrow> list_all entry_ok d \<Longrightarrow> builder_ok before (bb\<lparr>bb_open := d\<rparr>)"
  by (simp add: builder_ok_def)

lemma builder_ok_update_open:
  "keeps_bar f \<Longrightarrow> preserves (builder_ok before) (update_open key f)"
  unfolding update_open_def
proof (rule preserves_modify)
  fix bb assume f: "keeps_bar f" and ok: "builder_ok before bb"
  have "entry_ok (k, if k = key then f b else b)" if "(k, b) \<in> set (bb_open bb)" for k b
  proof -
    have "entry_ok (k, b)" using ok that by (simp add: builder_ok_def list_all_iff)
    then show ?thesis using entry_ok_edit [OF f, of k b] by (cases "k = key") simp_all
  qed
  then have "list_all entry_ok (map (\<lambda>(k, b). (k, if k = key then f b else b)) (bb_open bb))"
    by (auto simp only: list_all_iff set_map split: prod.splits)
  then show "builder_ok before (bb\<lparr>bb_open := map (\<lambda>(k, b). (k, if k = key then f b else b)) (bb_open bb)\<rparr>)"
    by (rule builder_ok_with_open [OF ok])
qed

lemma builder_ok_finding: "preserves (builder_ok before) (add_finding f)"
  unfolding add_finding_def by (rule preserves_modify) (simp add: builder_ok_def)

lemma mark_gap_ok: "entry_ok e \<Longrightarrow> entry_ok (mark_gap key e)"
  using entry_ok_edit [OF keeps_comp [OF keeps_add_flag keeps_incomplete], of "fst e" "snd e"]
  by (cases e; cases key) (simp add: mark_gap_def)

lemma dict_set_ok: "list_all entry_ok d \<Longrightarrow> entry_ok (k, b) \<Longrightarrow> list_all entry_ok (dict_set k b d)"
  by (auto simp: list_all_iff dest!: dict_set_values)

lemma builder_ok_open_new:
  "preserves (builder_ok before) (run_modify (open_new_bar (s, tf, floor_wall w tf) late))"
proof (rule preserves_modify)
  fix bb assume ok: "builder_ok before bb"
  have "entry_ok ((s, tf, floor_wall w tf), if late then mark_late (fresh_bar s tf (floor_wall w tf))
                                                  else fresh_bar s tf (floor_wall w tf))"
    using fresh_bar_ok entry_ok_edit [OF keeps_mark_late fresh_bar_ok] by simp
  moreover have "list_all entry_ok (map (mark_gap (s, tf, floor_wall w tf)) (bb_open bb))"
    using ok by (auto simp: builder_ok_def list_all_iff intro: mark_gap_ok)
  ultimately show "builder_ok before (open_new_bar (s, tf, floor_wall w tf) late bb)"
    using ok by (auto simp: builder_ok_def open_new_bar_def Let_def intro!: dict_set_ok)
qed

lemma builder_ok_bar_for: "preserves (builder_ok before) (bar_for ny s tf src rcv oid)"
proof -
  have start: "\<exists>w. start = floor_wall w tf" if "floor_to_interval ny src tf = Inr start" for start
    using that by (auto simp: floor_to_interval_def split: sum.splits)
  show ?thesis
    unfolding bar_for_def Let_def
    by (intro preserves_lift_bind preserves_bind [OF preserves_get])
       (auto dest!: start split: prod.splits option.splits
          intro!: preserve_intros builder_ok_finding builder_ok_update_open keeps_mark_late builder_ok_open_new)
qed

lemma builder_ok_timeframe:
  "preserves (builder_ok before) (apply_to_timeframe ny s oid src rcv price volume tf)"
  unfolding apply_to_timeframe_def
  by (intro preserve_intros builder_ok_bar_for builder_ok_update_open keeps_tick preserves_modify)
     (simp add: builder_ok_def)

lemma builder_ok_observation: "preserves (builder_ok before) (apply_observation ny s oid src rcv price volume)"
  unfolding apply_observation_def by (intro preserve_intros builder_ok_timeframe)

lemma builder_ok_volume: "preserves (builder_ok before) (resolve_volume s c t)"
  unfolding resolve_volume_def Let_def
  by (intro preserve_intros builder_ok_finding preserves_modify) (simp add: builder_ok_def)

lemma builder_ok_ingest:
  "preserves (builder_ok before) (ingest_quote ny q)"
  "preserves (builder_ok before) (ingest_trade ny t)"
  "preserves (builder_ok before) (ingest_underlying ny u)"
  unfolding ingest_quote_def ingest_trade_def ingest_underlying_def
  by (intro preserve_intros builder_ok_volume builder_ok_observation)+

lemma builder_ok_emit:
  "builder_ok before bb \<Longrightarrow> market_bar_ok mb \<Longrightarrow> closed_key mb = k \<Longrightarrow>
   k \<notin> closed_key ` set (bb_closed_bars bb) \<Longrightarrow>
   builder_ok before (bb\<lparr>bb_emitted := insert k (bb_emitted bb), bb_closed_bars := bb_closed_bars bb @ [mb]\<rparr>)"
  by (auto simp: builder_ok_def)

lemma builder_ok_close_one:
  assumes entry: "entry_ok entry"
  shows "preserves (builder_ok before) (close_one reference entry)"
proof
  fix bb assume ok: "builder_ok before bb"
  obtain key b where e: "entry = (key, b)" by (cases entry)
  let ?b = "if ob_late_data b then add_flag ''includes_late_ticks'' b else b"
  let ?inc = "ob_tick_count b = 0 \<or> ob_incomplete b"
  have b: "open_bar_ok ?b" "open_key ?b = open_key b"
    using entry keeps_add_flag [of "''includes_late_ticks''"] by (auto simp: e entry_ok_def keeps_bar_def)
  let ?bb = "snd (update_open key (\<lambda>_. ?b) bb)"
  have "entry_ok (key, ?b)" using entry b by (simp add: e entry_ok_def)
  then have ok': "builder_ok before ?bb"
    using ok by (auto simp: builder_ok_def update_open_def run_modify_def list_all_iff)
  have em: "bb_emitted ?bb = bb_emitted bb" by (simp add: update_open_def run_modify_def)
  show "builder_ok before (snd (close_one reference entry bb))"
  proof (cases "open_key b \<in> bb_emitted bb \<or> reference < ob_end b + bb_late_tolerance_seconds bb * usec")
    case True
    then show ?thesis
      using ok by (auto simp: e close_one_def Let_def run_bind_def run_get_def run_ret_def open_key_def)
  next
    case False
    then have run: "close_one reference entry bb =
        run_bind (run_lift (to_market_bar (Some ?inc) ?b)) (\<lambda>bar.
          run_bind (run_modify (\<lambda>bb. bb\<lparr>bb_emitted := insert (open_key b) (bb_emitted bb),
                                         bb_closed_bars := bb_closed_bars bb @ [bar]\<rparr>))
            (\<lambda>_. run_ret [(key, Some bar)])) ?bb"
      by (simp add: e close_one_def Let_def run_bind_def run_get_def open_key_def update_open_def run_modify_def)
    show ?thesis
    proof (cases "to_market_bar (Some ?inc) ?b")
      case (Inl err)
      then show ?thesis using ok' by (simp add: run run_bind_def run_lift_def)
    next
      case (Inr mb)
      have mb: "market_bar_ok mb" "closed_key mb = open_key b"
        using to_market_bar_ok [OF b(1) Inr] b(2) by simp_all
      have sub: "closed_key ` set (bb_closed_bars ?bb) \<subseteq> bb_emitted bb"
        using ok' by (simp only: builder_ok_def em)
      with False have new: "open_key b \<notin> closed_key ` set (bb_closed_bars ?bb)" by blast
      have "snd (close_one reference entry bb) =
          ?bb\<lparr>bb_emitted := insert (open_key b) (bb_emitted bb), bb_closed_bars := bb_closed_bars ?bb @ [mb]\<rparr>"
        by (simp only: run run_bind_def run_lift_def run_modify_def run_ret_def Inr em prod.case sum.case snd_conv)
      then show ?thesis using builder_ok_emit [OF ok' mb] new em by simp
    qed
  qed
qed

lemma builder_ok_close: "preserves (builder_ok before) (close_ready_bars ny clock now)"
  unfolding close_ready_bars_def
  by (intro preserves_lift_bind preserves_get_bind [where Q = "list_all entry_ok"] preserves_bind
        preserves_for_all builder_ok_close_one preserves_modify preserves_ret)
     (auto simp: builder_ok_def list_all_iff)

section \<open>Bars against a reference\<close>

text \<open>The bar the trades \<open>ts\<close> of one interval make, in the order they arrive.\<close>

definition ohlcv_of :: "trade_obs list \<Rightarrow> open_bar \<Rightarrow> bool" where
  "ohlcv_of ts b \<longleftrightarrow>
     ob_open b = to_price (hd ts) \<and> ob_close b = to_price (last ts) \<and>
     ob_high b = Max (to_price ` set ts) \<and> ob_low b = Min (to_price ` set ts) \<and>
     ob_volume b = sum_list (map to_size ts) \<and> ob_tick_count b = int (length ts)"

lemma ohlcv_edit:
  "ohlcv_of ts (add_flag f b) = ohlcv_of ts b" "ohlcv_of ts (mark_late b) = ohlcv_of ts b"
  "ohlcv_of ts (b\<lparr>ob_incomplete := i\<rparr>) = ohlcv_of ts b"
  by (simp_all add: ohlcv_of_def add_flag_def mark_late_def)

lemma ohlcv_first:
  "0 \<le> to_size t \<Longrightarrow> b \<in> {fresh_bar s tf start, mark_late (fresh_bar s tf start)} \<Longrightarrow>
   ohlcv_of [t] (tick_bar (Some (to_price t)) (to_size t) oid late b)"
  by (auto simp: ohlcv_of_def tick_bar_def apply_price_def add_volume_def add_flag_def mark_late_def fresh_bar_def
      Let_def)

lemma max_as_if: "max p h = (if h < p then p else h)" for p :: rat
  by (auto simp: max_def)

lemma min_as_if: "min p l = (if p < l then p else l)" for p :: rat
  by (auto simp: min_def)

lemma extremes_snoc:
  assumes "ts \<noteq> []"
  shows "Max (to_price ` set (ts @ [t])) = (if Max (to_price ` set ts) < to_price t then to_price t else Max (to_price ` set ts))"
    "Min (to_price ` set (ts @ [t])) = (if to_price t < Min (to_price ` set ts) then to_price t else Min (to_price ` set ts))"
proof -
  have ins: "to_price ` set (ts @ [t]) = insert (to_price t) (to_price ` set ts)" by auto
  have fin: "finite (to_price ` set ts)" and ne: "to_price ` set ts \<noteq> {}" using assms by simp_all
  show "Max (to_price ` set (ts @ [t])) = (if Max (to_price ` set ts) < to_price t then to_price t else Max (to_price ` set ts))"
    "Min (to_price ` set (ts @ [t])) = (if to_price t < Min (to_price ` set ts) then to_price t else Min (to_price ` set ts))"
    unfolding ins by (simp_all only: Max_insert [OF fin ne] Min_insert [OF fin ne] max_as_if min_as_if)
qed

lemma tick_bar_fields:
  assumes "ob_tick_count b \<noteq> 0" "0 \<le> n"
  shows "ob_open (tick_bar (Some p) n oid late b) = ob_open b"
    "ob_close (tick_bar (Some p) n oid late b) = p"
    "ob_high (tick_bar (Some p) n oid late b) = (if ob_high b < p then p else ob_high b)"
    "ob_low (tick_bar (Some p) n oid late b) = (if p < ob_low b then p else ob_low b)"
    "ob_volume (tick_bar (Some p) n oid late b) = ob_volume b + n"
    "ob_tick_count (tick_bar (Some p) n oid late b) = ob_tick_count b + 1"
  using assms by (simp_all add: tick_bar_def apply_price_def add_volume_def add_flag_def mark_late_def Let_def)

lemma ohlcv_next:
  assumes "ohlcv_of ts b" "ts \<noteq> []" "0 \<le> to_size t"
  shows "ohlcv_of (ts @ [t]) (tick_bar (Some (to_price t)) (to_size t) oid late b)"
proof -
  have "ob_tick_count b \<noteq> 0" using assms by (simp add: ohlcv_of_def)
  note fields = tick_bar_fields [OF this assms(3)]
  show ?thesis
    using assms(1,2) by (simp add: ohlcv_of_def fields extremes_snoc del: set_append)
qed

text \<open>What the bar open under \<open>key\<close> holds, after the trades \<open>ts\<close>.\<close>

definition bar_holds :: "bar_key \<Rightarrow> trade_obs list \<Rightarrow> bar_builder \<Rightarrow> bool" where
  "bar_holds key ts bb \<longleftrightarrow>
     (if ts = [] then dict_get (bb_open bb) key = None
      else \<exists>b. dict_get (bb_open bb) key = Some b \<and> ohlcv_of ts b)"

lemma get_edited:
  "dict_get (map (\<lambda>(k, b). (k, if k = key then f b else b)) d) k =
     map_option (\<lambda>b. if k = key then f b else b) (dict_get d k)"
  by (induction d) auto

lemma get_gapped: "dict_get (map (mark_gap key) d) k = map_option (\<lambda>b. snd (mark_gap key (k, b))) (dict_get d k)"
  by (induction d) (auto simp: mark_gap_def split: prod.splits)

lemma ohlcv_gap: "ohlcv_of ts (snd (mark_gap key (k, b))) = ohlcv_of ts b"
  by (cases key; cases k) (simp add: mark_gap_def ohlcv_edit)

lemma bar_holds_edit:
  "bar_holds k ts bb \<Longrightarrow> k \<noteq> key \<Longrightarrow>
   bar_holds k ts (bb\<lparr>bb_open := map (\<lambda>(k, b). (k, if k = key then f b else b)) (bb_open bb)\<rparr>)"
  by (auto simp: bar_holds_def get_edited split: if_splits)

lemma bar_holds_new:
  assumes "bar_holds k ts bb" "k \<noteq> key"
  shows "bar_holds k ts (open_new_bar key late bb)"
proof -
  have "dict_get (bb_open (open_new_bar key late bb)) k = dict_get (map (mark_gap key) (bb_open bb)) k"
    using assms(2) by (cases key) (simp add: open_new_bar_def Let_def)
  then show ?thesis using assms(1) by (auto simp: bar_holds_def get_gapped ohlcv_gap split: if_splits)
qed

lemma bar_holds_open:
  "bar_holds k ts (bb\<lparr>bb_assigned_obs := a\<rparr>) = bar_holds k ts bb"
  "bar_holds k ts (bb\<lparr>bb_last_cum_vol := c\<rparr>) = bar_holds k ts bb"
  by (simp_all add: bar_holds_def)

definition same_books :: "bar_key \<Rightarrow> bar_builder \<Rightarrow> bar_builder \<Rightarrow> bool" where
  "same_books key bb bb' \<longleftrightarrow>
     bb_emitted bb' = bb_emitted bb \<and> bb_late_tolerance_seconds bb' = bb_late_tolerance_seconds bb \<and>
     (\<forall>k us. k \<noteq> key \<longrightarrow> bar_holds k us bb \<longrightarrow> bar_holds k us bb')"

definition ready_bar :: "bar_key \<Rightarrow> trade_obs list \<Rightarrow> bar_builder \<Rightarrow> bool" where
  "ready_bar key ts bb \<longleftrightarrow>
     (\<exists>b. dict_get (bb_open bb) key = Some b \<and>
          (if ts = [] then b \<in> {fresh_bar (fst key) (fst (snd key)) (snd (snd key)),
                                mark_late (fresh_bar (fst key) (fst (snd key)) (snd (snd key)))}
           else ohlcv_of ts b))"

lemma same_books_refl: "same_books key bb bb"
  by (simp add: same_books_def)

lemma same_books_edit:
  "same_books key bb bb1 \<Longrightarrow>
   same_books key bb (bb1\<lparr>bb_assigned_obs := a,
                         bb_open := map (\<lambda>(k, b). (k, if k = key then f b else b)) (bb_open (bb1\<lparr>bb_assigned_obs := a\<rparr>))\<rparr>)"
  unfolding same_books_def
  by (intro conjI allI impI bar_holds_edit) (simp_all del: split_paired_All add: bar_holds_open)

lemma bar_for_ready:
  assumes em: "bb_emitted bb = {}" and st: "floor_to_interval ny src tf = Inr st" and w: "ensure_aware ny rcv = Inr w"
    and intime: "w \<le> interval_end st tf + bb_late_tolerance_seconds bb * usec"
    and holds: "bar_holds (s, tf, st) ts bb"
  shows "\<exists>bb1. bar_for ny s tf src rcv oid bb = (Inr (Some (s, tf, st)), bb1) \<and> ready_bar (s, tf, st) ts bb1 \<and>
               bb_assigned_obs bb1 = bb_assigned_obs bb \<and> same_books (s, tf, st) bb bb1"
proof (cases "ts = []")
  case True
  then have none: "dict_get (bb_open bb) (s, tf, st) = None" using holds by (simp add: bar_holds_def)
  let ?late = "interval_end st tf \<le> w"
  let ?bb1 = "open_new_bar (s, tf, st) ?late bb"
  have "bar_for ny s tf src rcv oid bb = (Inr (Some (s, tf, st)), ?bb1)"
    using none em intime by (simp add: bar_for_def st w Let_def run_bind_def run_defs)
  moreover have "ready_bar (s, tf, st) ts ?bb1"
    using True by (simp add: ready_bar_def open_new_bar_def Let_def)
  moreover have "same_books (s, tf, st) bb ?bb1"
    by (simp add: same_books_def bar_holds_new) (simp add: open_new_bar_def Let_def)
  moreover have "bb_assigned_obs ?bb1 = bb_assigned_obs bb" by (simp add: open_new_bar_def Let_def)
  ultimately show ?thesis by blast
next
  case False
  then obtain b where b: "dict_get (bb_open bb) (s, tf, st) = Some b" "ohlcv_of ts b"
    using holds by (auto simp: bar_holds_def)
  show ?thesis
  proof (cases "interval_end st tf \<le> w")
    case True
    let ?bb1 = "bb\<lparr>bb_open := map (\<lambda>(k, b). (k, if k = (s, tf, st) then mark_late b else b)) (bb_open bb)\<rparr>"
    have "bar_for ny s tf src rcv oid bb = (Inr (Some (s, tf, st)), ?bb1)"
      using b True em intime by (simp add: bar_for_def st w Let_def run_bind_def run_defs update_open_def)
    moreover have "ready_bar (s, tf, st) ts ?bb1" using False b by (simp add: ready_bar_def get_edited ohlcv_edit)
    moreover have "same_books (s, tf, st) bb ?bb1" by (simp add: same_books_def bar_holds_edit)
    ultimately show ?thesis by fastforce
  next
    case nlate: False
    have "bar_for ny s tf src rcv oid bb = (Inr (Some (s, tf, st)), bb)"
      using b nlate em intime by (simp add: bar_for_def st w Let_def run_bind_def run_defs)
    moreover have "ready_bar (s, tf, st) ts bb" using False b by (simp add: ready_bar_def)
    ultimately show ?thesis using same_books_refl by blast
  qed
qed

lemma timeframe_step:
  assumes em: "bb_emitted bb = {}" and st: "floor_to_interval ny src tf = Inr st" and w: "ensure_aware ny rcv = Inr w"
    and intime: "w \<le> interval_end st tf + bb_late_tolerance_seconds bb * usec"
    and holds: "bar_holds (s, tf, st) ts bb" and new: "(oid, tf) \<notin> bb_assigned_obs bb" and n: "0 \<le> to_size t"
  shows "\<exists>bb'. apply_to_timeframe ny s oid src rcv (Some (to_price t)) (to_size t) tf bb = (Inr (), bb') \<and>
               bar_holds (s, tf, st) (ts @ [t]) bb' \<and> bb_assigned_obs bb' = insert (oid, tf) (bb_assigned_obs bb) \<and>
               same_books (s, tf, st) bb bb'"
proof -
  obtain bb1 where bb1: "bar_for ny s tf src rcv oid bb = (Inr (Some (s, tf, st)), bb1)"
    and ready: "ready_bar (s, tf, st) ts bb1" and as: "bb_assigned_obs bb1 = bb_assigned_obs bb"
    and same: "same_books (s, tf, st) bb bb1"
    using bar_for_ready [OF em st w intime holds] by blast
  obtain b where b: "dict_get (bb_open bb1) (s, tf, st) = Some b"
    and was: "if ts = [] then b \<in> {fresh_bar s tf st, mark_late (fresh_bar s tf st)} else ohlcv_of ts b"
    using ready unfolding ready_bar_def fst_conv snd_conv by blast
  let ?f = "\<lambda>b. tick_bar (Some (to_price t)) (to_size t) oid (ob_end b \<le> w) b"
  let ?bb2 = "bb1\<lparr>bb_assigned_obs := insert (oid, tf) (bb_assigned_obs bb1)\<rparr>"
  let ?bb' = "?bb2\<lparr>bb_open := map (\<lambda>(k, b). (k, if k = (s, tf, st) then ?f b else b)) (bb_open ?bb2)\<rparr>"
  have "apply_to_timeframe ny s oid src rcv (Some (to_price t)) (to_size t) tf bb = (Inr (), ?bb')"
    using new as by (simp add: apply_to_timeframe_def run_bind_def bb1 run_defs w update_open_def)
  moreover have "ohlcv_of (ts @ [t]) (?f b)"
    using was n by (cases "ts = []") (simp_all add: ohlcv_first ohlcv_next)
  then have "bar_holds (s, tf, st) (ts @ [t]) ?bb'" using b by (simp add: bar_holds_def get_edited)
  moreover have "same_books (s, tf, st) bb ?bb'"
    by (rule same_books_edit [OF same])
  moreover have "bb_assigned_obs ?bb' = insert (oid, tf) (bb_assigned_obs bb)" using as by simp
  ultimately show ?thesis by blast
qed

lemma nested_intervals:
  "floor_wall (floor_wall w M1) tf = floor_wall w tf"
  "interval_end (floor_wall w M1) M1 \<le> interval_end (floor_wall w tf) tf"
proof -
  define q where "q = w div minute_us"
  have one: "w - w mod minute_us = minute_us * q" by (simp add: q_def minus_mod_eq_mult_div)
  have five: "w mod 300000000 = minute_us * (q mod 5) + w mod minute_us"
    unfolding q_def using zmod_zmult2_eq [of 5 w minute_us] by simp
  have nested: "minute_us * q mod 300000000 = minute_us * (q mod 5)"
    using mult_mod_right [of minute_us q 5] by simp
  have "q mod 5 < 5" by simp
  then have le: "minute_us * (q mod 5) + minute_us \<le> 300000000" by simp
  show "floor_wall (floor_wall w M1) tf = floor_wall w tf"
  proof (cases tf)
    case M5
    then show ?thesis using one five nested by (simp add: floor_wall_eq)
  qed (simp add: floor_wall_eq)
  show "interval_end (floor_wall w M1) M1 \<le> interval_end (floor_wall w tf) tf"
  proof (cases tf)
    case M5
    then show ?thesis using one five le by (simp add: floor_wall_eq interval_end_def)
  qed simp
qed

text \<open>A trade of the one-minute interval from \<open>st\<close>, received before the tolerance after its end.\<close>

definition interval_trade :: "(int \<Rightarrow> int) \<Rightarrow> int \<Rightarrow> string \<Rightarrow> int \<Rightarrow> trade_obs \<Rightarrow> bool" where
  "interval_trade ny tol s st t \<longleftrightarrow>
     to_symbol t = s \<and> 0 \<le> to_size t \<and> to_cumulative_volume t = None \<and>
     floor_to_interval ny (to_source_timestamp t) M1 = Inr st \<and>
     (case ensure_aware ny (to_received_timestamp t) of
        Inl _ \<Rightarrow> False | Inr w \<Rightarrow> w \<le> interval_end st M1 + tol * usec)"

definition collected :: "int \<Rightarrow> string \<Rightarrow> int \<Rightarrow> trade_obs list \<Rightarrow> bar_builder \<Rightarrow> bool" where
  "collected tol s st ts bb \<longleftrightarrow>
     bb_emitted bb = {} \<and> bb_late_tolerance_seconds bb = tol \<and>
     (\<forall>tf. bar_holds (s, tf, floor_wall st tf) ts bb) \<and>
     bb_assigned_obs bb \<subseteq> (to_observation_id ` set ts) \<times> UNIV"

lemma trade_volume:
  "to_cumulative_volume t = None \<Longrightarrow> 0 \<le> to_size t \<Longrightarrow>
   resolve_volume s (to_cumulative_volume t) (Some (to_size t)) = run_ret (to_size t)"
  by (auto simp: resolve_volume_def)

lemma collected_step:
  assumes bb: "collected tol s st ts bb" and t: "interval_trade ny tol s st t"
    and new: "to_observation_id t \<notin> to_observation_id ` set ts"
  shows "collected tol s st (ts @ [t]) (snd (ingest_trade ny t bb))"
proof -
  let ?oid = "to_observation_id t" and ?src = "to_source_timestamp t" and ?rcv = "to_received_timestamp t"
  obtain w where w: "ensure_aware ny ?rcv = Inr w" "w \<le> interval_end st M1 + tol * usec"
    using t by (auto simp: interval_trade_def split: sum.splits)
  obtain u where u: "ensure_aware ny ?src = Inr u" "st = floor_wall u M1"
    using t by (auto simp: interval_trade_def floor_to_interval_def split: sum.splits)
  have start: "floor_to_interval ny ?src tf = Inr (floor_wall st tf)" for tf
    by (simp add: floor_to_interval_def u nested_intervals(1))
  have intime: "w \<le> interval_end (floor_wall st tf) tf + tol * usec" for tf
    using w(2) nested_intervals(2) [of u tf] nested_intervals(1) [of u tf] u(2) by simp
  have n: "0 \<le> to_size t" and cum: "to_cumulative_volume t = None" and sym: "to_symbol t = s"
    using t by (simp_all add: interval_trade_def)
  have bb0: "bb_emitted bb = {}" "bb_late_tolerance_seconds bb = tol"
    "bar_holds (s, tf, floor_wall st tf) ts bb" "(?oid, tf) \<notin> bb_assigned_obs bb" for tf
    using bb new by (auto simp: collected_def)
  obtain bb1 where bb1: "apply_to_timeframe ny s ?oid ?src ?rcv (Some (to_price t)) (to_size t) M1 bb = (Inr (), bb1)"
    "bar_holds (s, M1, floor_wall st M1) (ts @ [t]) bb1"
    "bb_assigned_obs bb1 = insert (?oid, M1) (bb_assigned_obs bb)"
    "same_books (s, M1, floor_wall st M1) bb bb1"
    using timeframe_step [OF bb0(1) start w(1) _ bb0(3) bb0(4) n, of M1] intime bb0(2) by auto
  have e1: "bb_emitted bb1 = {}" "bb_late_tolerance_seconds bb1 = tol" "(?oid, M5) \<notin> bb_assigned_obs bb1"
    "bar_holds (s, M5, floor_wall st M5) ts bb1"
    using bb1(3,4) bb0 by (simp_all add: same_books_def)
  obtain bb2 where bb2: "apply_to_timeframe ny s ?oid ?src ?rcv (Some (to_price t)) (to_size t) M5 bb1 = (Inr (), bb2)"
    "bar_holds (s, M5, floor_wall st M5) (ts @ [t]) bb2"
    "bb_assigned_obs bb2 = insert (?oid, M5) (bb_assigned_obs bb1)"
    "same_books (s, M5, floor_wall st M5) bb1 bb2"
    using timeframe_step [OF e1(1) start w(1) _ e1(4) e1(3) n] intime e1(2) by auto
  have run: "ingest_trade ny t bb = (Inr (), bb2)"
    by (simp add: ingest_trade_def trade_volume [OF cum n] apply_observation_def sym run_bind_def bb1(1) bb2(1))
  have "bar_holds (s, M1, floor_wall st M1) (ts @ [t]) bb2"
    using bb2(4) bb1(2) by (simp add: same_books_def)
  then have "bar_holds (s, tf, floor_wall st tf) (ts @ [t]) bb2" for tf
    using bb2(2) by (cases tf) simp_all
  moreover have "bb_emitted bb2 = {}" "bb_late_tolerance_seconds bb2 = tol"
    using bb2(4) e1 by (simp_all add: same_books_def)
  moreover have "bb_assigned_obs bb2 \<subseteq> to_observation_id ` set (ts @ [t]) \<times> UNIV"
    using bb2(3) bb1(3) bb by (auto simp: collected_def)
  ultimately show ?thesis unfolding collected_def run snd_conv by blast
qed

lemma collected_new: "collected tol s st [] (new_builder tol)"
  by (simp add: collected_def new_builder_def bar_holds_def)

lemma collected_all:
  "list_all (interval_trade ny tol s st) ts \<Longrightarrow> distinct (map to_observation_id ts) \<Longrightarrow>
   collected tol s st ts (fold (\<lambda>t bb. snd (ingest_trade ny t bb)) ts (new_builder tol))"
proof (induction ts rule: rev_induct)
  case Nil
  show ?case by (simp add: collected_new)
next
  case (snoc t ts)
  then have "collected tol s st ts (fold (\<lambda>t bb. snd (ingest_trade ny t bb)) ts (new_builder tol))" by simp
  moreover have "interval_trade ny tol s st t" "to_observation_id t \<notin> to_observation_id ` set ts"
    using snoc.prems by auto
  ultimately show ?case using collected_step by simp
qed

section \<open>Properties\<close>

text \<open>Any sequence of calls on a builder, whatever its observations and clock readings are.\<close>

inductive bars_run :: "(int \<Rightarrow> int) \<Rightarrow> bar_builder \<Rightarrow> bar_builder \<Rightarrow> bool" for ny bb0 where
  start: "bars_run ny bb0 bb0"
| quote: "bars_run ny bb0 bb \<Longrightarrow> bars_run ny bb0 (snd (ingest_quote ny q bb))"
| trade: "bars_run ny bb0 bb \<Longrightarrow> bars_run ny bb0 (snd (ingest_trade ny t bb))"
| underlying: "bars_run ny bb0 bb \<Longrightarrow> bars_run ny bb0 (snd (ingest_underlying ny u bb))"
| close: "bars_run ny bb0 bb \<Longrightarrow> bars_run ny bb0 (snd (close_ready_bars ny clock now bb))"
| clear: "bars_run ny bb0 bb \<Longrightarrow> bars_run ny bb0 (clear_findings bb)"

lemma bars_run_ok: "bars_run ny bb0 bb \<Longrightarrow> builder_ok before bb0 \<Longrightarrow> builder_ok before bb"
proof (induction rule: bars_run.induct)
  case clear
  then show ?case by (simp add: builder_ok_def clear_findings_def)
qed (blast intro: preservesD builder_ok_ingest builder_ok_close)+

lemma builder_ok_new: "builder_ok [] (new_builder tol)"
  by (simp add: builder_ok_def new_builder_def)

lemma builder_ok_rebase: "builder_ok before bb \<Longrightarrow> builder_ok (bb_closed_bars bb) bb"
  by (simp add: builder_ok_def)

text \<open>
  However quotes, trades, underlying observations and closing calls arrive, with
  duplicates, late ticks and a clock that may run backwards: every bar the builder ever emits is well
  formed (its start lies on a boundary of its timeframe, its end is one interval later, low and high
  bracket open and close, its volume is not negative, no observation counts twice, and a complete bar
  has at least one observation), at most one bar is emitted for each symbol, timeframe and start, and
  an emitted bar never changes or disappears.
\<close>

theorem emitted_bars_well_formed:
  assumes "bars_run ny (new_builder tol) bb" "bars_run ny bb bb'"
  shows "list_all market_bar_ok (bb_closed_bars bb') \<and> distinct (map closed_key (bb_closed_bars bb')) \<and>
         (\<exists>later. bb_closed_bars bb' = bb_closed_bars bb @ later)"
proof -
  have "builder_ok (bb_closed_bars bb) bb'"
    using bars_run_ok [OF assms(1) builder_ok_new] by (intro bars_run_ok [OF assms(2)] builder_ok_rebase)
  then show ?thesis unfolding builder_ok_def by (metis append_take_drop_id)
qed


section \<open>Witnesses\<close>

definition demo_trade :: "string \<Rightarrow> int \<Rightarrow> decimal \<Rightarrow> int \<Rightarrow> trade_obs" where
  "demo_trade oid second price n =
     \<lparr>to_observation_id = oid, to_symbol = ''SPY'', to_source_timestamp = at_utc (second * usec),
      to_received_timestamp = at_utc (second * usec), to_price = price, to_size = n, to_cumulative_volume = None,
      to_source = ''demo''\<rparr>"

definition utc_zone :: "int \<Rightarrow> int" where
  "utc_zone u = 0"

definition demo_trades :: "trade_obs list" where
  "demo_trades = [demo_trade ''a'' 5 500 10, demo_trade ''b'' 20 502 3, demo_trade ''c'' 50 501 7]"

lemmas demo_bar_defs = demo_trades_def demo_trade_def utc_zone_def interval_trade_def floor_to_interval_def
  ensure_aware_def at_utc_def instant_def floor_wall_eq interval_end_def


theorem emitted_bars_well_formed_witness:
  "\<exists>bb :: bar_builder. bb_closed_bars bb \<noteq> [] \<and> list_all market_bar_ok (bb_closed_bars bb) \<and>
        distinct (map closed_key (bb_closed_bars bb))"
proof -
  let ?collected = "fold (\<lambda>t bb. snd (ingest_trade utc_zone t bb)) demo_trades (new_builder 2)"
  let ?bb = "snd (close_ready_bars utc_zone (at_utc (62 * usec)) None ?collected)"
  have r0: "bars_run utc_zone (new_builder 2) ?collected"
    by (simp only: demo_trades_def fold_simps id_apply comp_apply) (intro bars_run.trade bars_run.start)
  have r: "bars_run utc_zone ?collected ?bb" by (intro bars_run.close bars_run.start)
  have "map mb_start (bb_closed_bars ?bb) = [0]" by code_simp
  then have some: "bb_closed_bars ?bb \<noteq> []" by auto
  note emitted = emitted_bars_well_formed [OF r0 r]
  show ?thesis
    by (intro exI [of _ ?bb] conjI some emitted [THEN conjunct1] emitted [THEN conjunct2, THEN conjunct1])
qed

end
