(* ===== verification/Option_Surface.thy ===== *)
theory Option_Surface
  imports Market_Bars Py_Text
begin

text \<open>
  Option surfaces (\<open>joker/market/option_surface.py\<close>): provider rows, which are dictionaries of
  arbitrary values, are read into typed contract rows with their mid, spread, liquidity score and
  quality flags, and sorted; the repository keeps surfaces by id, append-only. The payload of a
  repository row is the surface itself.
\<close>

section \<open>Values of a provider row\<close>

datatype py_value =
    PNone
  | PBool bool
  | PInt int
  | PNum rat
  | PText string
  | PDate int
  | PTime datetime

type_synonym row = "(string, py_value) dict"

fun truthy :: "py_value \<Rightarrow> bool" where
  "truthy PNone = False"
| "truthy (PBool b) = b"
| "truthy (PInt i) = (i \<noteq> 0)"
| "truthy (PNum x) = (x \<noteq> 0)"
| "truthy (PText t) = (t \<noteq> [])"
| "truthy (PDate _) = True"
| "truthy (PTime _) = True"

definition row_get :: "row \<Rightarrow> string \<Rightarrow> py_value" where
  "row_get r k = (case dict_get r k of None \<Rightarrow> PNone | Some v \<Rightarrow> v)"

text \<open>\<open>a or b or ...\<close>: the first truthy operand, or the last one.\<close>

fun or_else :: "py_value list \<Rightarrow> py_value" where
  "or_else [] = PNone"
| "or_else [v] = v"
| "or_else (v # vs) = (if truthy v then v else or_else vs)"

fun py_str :: "py_value \<Rightarrow> string" where
  "py_str PNone = ''None''"
| "py_str (PBool b) = (if b then ''True'' else ''False'')"
| "py_str (PInt i) = int_text i"
| "py_str (PNum x) = float_text x"
| "py_str (PText t) = t"
| "py_str (PDate d) = date_text d"
| "py_str (PTime t) = map (\<lambda>c. if c = CHR ''T'' then CHR '' '' else c) (isoformat t)"

fun to_decimal :: "py_value \<Rightarrow> decimal option" where
  "to_decimal (PInt i) = Some (of_int i)"
| "to_decimal (PNum x) = Some x"
| "to_decimal (PText t) = parse_number t"
| "to_decimal _ = None"

definition trunc_zero :: "rat \<Rightarrow> int" where
  "trunc_zero x = (if 0 \<le> x then \<lfloor>x\<rfloor> else \<lceil>x\<rceil>)"

fun to_int :: "py_value \<Rightarrow> int option" where
  "to_int (PInt i) = Some i"
| "to_int (PNum x) = Some (trunc_zero x)"
| "to_int (PText t) = parse_int t"
| "to_int (PBool b) = Some (if b then 1 else 0)"
| "to_int _ = None"

section \<open>Derived quantities\<close>

definition valid_bid_ask :: "decimal option \<Rightarrow> decimal option \<Rightarrow> bool" where
  "valid_bid_ask bid ask =
     (case (bid, ask) of (Some b, Some a) \<Rightarrow> 0 \<le> b \<and> 0 \<le> a \<and> b \<le> a | _ \<Rightarrow> False)"

definition compute_mid :: "decimal option \<Rightarrow> decimal option \<Rightarrow> decimal option" where
  "compute_mid bid ask = (if \<not> valid_bid_ask bid ask then None else Some ((the bid + the ask) / 2))"

definition compute_relative_spread :: "decimal option \<Rightarrow> decimal option \<Rightarrow> decimal option" where
  "compute_relative_spread bid ask =
     (case compute_mid bid ask of
        None \<Rightarrow> None
      | Some mid \<Rightarrow> if mid \<le> 0 then None else Some ((the ask - the bid) / mid))"

text \<open>\<open>round(x, n)\<close>: ties go to the even neighbour.\<close>

definition round_half_even :: "nat \<Rightarrow> rat \<Rightarrow> rat" where
  "round_half_even n x =
     (let s = x * 10 ^ n; f = \<lfloor>s\<rfloor>; d = s - of_int f;
          k = (if d < 1 / 2 then f else if 1 / 2 < d then f + 1 else if even f then f else f + 1)
      in of_int k / 10 ^ n)"

definition size_scores :: "int option \<Rightarrow> int option \<Rightarrow> pyfloat list" where
  "size_scores bid_size ask_size =
     (let sizes = filter (\<lambda>s. 0 \<le> s) (List.map_filter id [bid_size, ask_size])
      in if sizes = [] then [] else [min 1 (of_int (Min (set sizes)) / 100)])"

definition volume_scores :: "int option \<Rightarrow> pyfloat list" where
  "volume_scores volume = (case volume of None \<Rightarrow> [] | Some v \<Rightarrow> if 0 \<le> v then [min 1 (of_int v / 1000)] else [])"

definition spread_scores :: "decimal option \<Rightarrow> pyfloat list" where
  "spread_scores spread =
     (case spread of None \<Rightarrow> [] | Some s \<Rightarrow> if 0 \<le> s then [max 0 (1 - min (s / (1 / 10)) 1)] else [])"

definition compute_liquidity_score ::
  "int option \<Rightarrow> int option \<Rightarrow> int option \<Rightarrow> decimal option \<Rightarrow> pyfloat" where
  "compute_liquidity_score bid_size ask_size volume spread =
     (let scores = size_scores bid_size ask_size @ volume_scores volume @ spread_scores spread
      in if scores = [] then 0 else round_half_even 6 (sum_list scores / of_nat (length scores)))"

section \<open>Rows and surfaces\<close>

record contract_row =
  cr_contract_id :: string
  cr_symbol :: string
  cr_expiry :: int
  cr_strike :: decimal
  cr_option_type :: surface_option_type
  cr_bid :: "decimal option"
  cr_ask :: "decimal option"
  cr_mid :: "decimal option"
  cr_last :: "decimal option"
  cr_bid_size :: "int option"
  cr_ask_size :: "int option"
  cr_volume :: "int option"
  cr_open_interest :: "int option"
  cr_implied_volatility :: "decimal option"
  cr_delta :: "decimal option"
  cr_gamma :: "decimal option"
  cr_theta :: "decimal option"
  cr_vega :: "decimal option"
  cr_quote_timestamp :: datetime
  cr_quote_age_ms :: int
  cr_relative_spread :: "decimal option"
  cr_liquidity_score :: pyfloat
  cr_quality_flags :: "string list"

record surface =
  sf_surface_id :: uuid
  sf_exchange_time :: datetime
  sf_trading_date :: int
  sf_underlying_symbol :: string
  sf_underlying_price :: "decimal option"
  sf_contracts :: "contract_row list"
  sf_source :: string

section \<open>Reading a row\<close>

text \<open>
  \<open>datetime.fromisoformat\<close> on \<open>YYYY-MM-DD\<close>, any separator, \<open>HH[:MM[:SS[.fff]]]\<close> and an optional
  \<open>+HH:MM\<close>, as providers print timestamps.
\<close>

definition parse_clock :: "string \<Rightarrow> int option" where
  "parse_clock t =
     (case split_on (CHR ''.'') t of
        hms # fr \<Rightarrow>
          (let fields = map parse_nat (split_on (CHR '':'') hms);
               micros = (case fr of
                   [] \<Rightarrow> Some 0
                 | [f] \<Rightarrow> if list_all is_digit f \<and> f \<noteq> [] \<and> length (split_on (CHR '':'') hms) = 3
                          then Some (digits_value (take 6 (f @ ''00000''))) else None
                 | _ \<Rightarrow> None)
           in if \<not> list_all (\<lambda>t. length t = 2) (split_on (CHR '':'') hms) then None
              else case (fields, micros) of
                ([Some h], Some u) \<Rightarrow> if h < 24 then Some (int h * 3600 * usec + int u) else None
              | ([Some h, Some m], Some u) \<Rightarrow>
                  if h < 24 \<and> m < 60 then Some ((int h * 3600 + int m * 60) * usec + int u) else None
              | ([Some h, Some m, Some s], Some u) \<Rightarrow>
                  if h < 24 \<and> m < 60 \<and> s < 60 then Some ((int h * 3600 + int m * 60 + int s) * usec + int u) else None
              | _ \<Rightarrow> None)
      | [] \<Rightarrow> None)"

definition parse_offset :: "string \<Rightarrow> int option" where
  "parse_offset t =
     (case t of
        [] \<Rightarrow> None
      | c # r \<Rightarrow>
          (case parse_clock r of
             None \<Rightarrow> None
           | Some z \<Rightarrow> if c = CHR ''+'' then Some z else if c = CHR ''-'' then Some (- z) else None))"

definition parse_datetime :: "string \<Rightarrow> datetime option" where
  "parse_datetime t =
     (case parse_date (take 10 t) of
        None \<Rightarrow> None
      | Some d \<Rightarrow>
          (let rest = drop 11 t;
               clock = takeWhile (\<lambda>c. c \<noteq> CHR ''+'' \<and> c \<noteq> CHR ''-'') rest;
               zone = drop (length clock) rest;
               wall = (\<lambda>u. d * 86400 * usec + u)
           in if length t = 10 then Some \<lparr>dt_wall = wall 0, dt_off = None\<rparr>
              else case parse_clock clock of
                     None \<Rightarrow> None
                   | Some u \<Rightarrow>
                       if zone = [] then Some \<lparr>dt_wall = wall u, dt_off = None\<rparr>
                       else map_option (\<lambda>z. \<lparr>dt_wall = wall u, dt_off = Some z\<rparr>) (parse_offset zone)))"

definition row_expiry :: "row \<Rightarrow> py_error + int option" where
  "row_expiry r =
     (case or_else [row_get r ''expiry'', row_get r ''expiration'', row_get r ''expire_date''] of
        PNone \<Rightarrow> Inr None
      | PDate d \<Rightarrow> Inr (Some d)
      | PTime t \<Rightarrow> Inr (Some (dt_wall t div (86400 * usec)))
      | v \<Rightarrow> (case parse_date (take 10 (py_str v)) of None \<Rightarrow> Inl ValueError | Some d \<Rightarrow> Inr (Some d)))"

definition row_option_type :: "row \<Rightarrow> surface_option_type option" where
  "row_option_type r =
     (let raw = py_lower (py_str (or_else [row_get r ''option_type'', row_get r ''type'', row_get r ''direction'', PText '''']))
      in if raw = ''c'' \<or> raw = ''call'' then Some SCall
         else if raw = ''p'' \<or> raw = ''put'' then Some SPut else None)"

definition row_quote_time :: "row \<Rightarrow> datetime \<Rightarrow> py_error + datetime" where
  "row_quote_time r exchange_time =
     (case or_else [row_get r ''quote_timestamp'', row_get r ''quote_time'', row_get r ''timestamp'', row_get r ''quoteTime''] of
        PTime t \<Rightarrow> reject_naive t
      | PNone \<Rightarrow> Inr exchange_time
      | v \<Rightarrow>
          (case parse_datetime (concat (map (\<lambda>c. if c = CHR ''Z'' then ''+00:00'' else [c]) (py_str v))) of
             None \<Rightarrow> Inl MarketDataError
           | Some t \<Rightarrow> if dt_off t = None then Inl MarketDataError else Inr t))"

definition flag_list :: "(bool \<times> string) list \<Rightarrow> string list" where
  "flag_list fs = map snd (filter fst fs)"

definition row_flags :: "contract_row \<Rightarrow> string list" where
  "row_flags c =
     flag_list
       [(cr_bid c = None, ''missing_bid''), (cr_ask c = None, ''missing_ask''),
        (cr_bid c \<noteq> None \<and> cr_ask c \<noteq> None \<and> the (cr_ask c) < the (cr_bid c), ''crossed_market''),
        (cr_bid c \<noteq> None \<and> cr_ask c \<noteq> None \<and> the (cr_ask c) = the (cr_bid c), ''locked_market''),
        (cr_last c = None, ''missing_last''), (cr_volume c = None, ''missing_volume''),
        (cr_open_interest c = None, ''missing_open_interest''), (cr_implied_volatility c = None, ''missing_iv''),
        (cr_delta c = None, ''missing_delta''), (cr_gamma c = None, ''missing_gamma''),
        (cr_theta c = None, ''missing_theta''), (cr_vega c = None, ''missing_vega''),
        (cr_mid c = None, ''mid_unavailable'')]"

definition fill_row :: "row \<Rightarrow> datetime \<Rightarrow> string \<Rightarrow> string \<Rightarrow> int \<Rightarrow> decimal \<Rightarrow> surface_option_type \<Rightarrow> datetime \<Rightarrow> contract_row" where
  "fill_row r exchange_time cid symbol expiry strike otype quote_ts =
     (let bid = to_decimal (row_get r ''bid''); ask = to_decimal (row_get r ''ask'');
          bid_size = to_int (or_else [row_get r ''bid_size'', row_get r ''bidSize'']);
          ask_size = to_int (or_else [row_get r ''ask_size'', row_get r ''askSize'']);
          volume = to_int (row_get r ''volume'');
          spread = compute_relative_spread bid ask;
          c = \<lparr>cr_contract_id = cid, cr_symbol = symbol, cr_expiry = expiry, cr_strike = strike, cr_option_type = otype,
               cr_bid = bid, cr_ask = ask, cr_mid = compute_mid bid ask,
               cr_last = to_decimal (or_else [row_get r ''last'', row_get r ''latestPrice'']),
               cr_bid_size = bid_size, cr_ask_size = ask_size, cr_volume = volume,
               cr_open_interest = to_int (or_else [row_get r ''open_interest'', row_get r ''openInterest'']),
               cr_implied_volatility =
                 to_decimal (or_else [row_get r ''implied_volatility'', row_get r ''impliedVolatility'', row_get r ''iv'']),
               cr_delta = to_decimal (row_get r ''delta''), cr_gamma = to_decimal (row_get r ''gamma''),
               cr_theta = to_decimal (row_get r ''theta''), cr_vega = to_decimal (row_get r ''vega''),
               cr_quote_timestamp = quote_ts,
               cr_quote_age_ms = max 0 (trunc_zero (of_int (instant exchange_time - instant quote_ts) / 1000)),
               cr_relative_spread = spread,
               cr_liquidity_score = compute_liquidity_score bid_size ask_size volume spread,
               cr_quality_flags = []\<rparr>
      in c\<lparr>cr_quality_flags := row_flags c\<rparr>)"

text \<open>\<open>_row_to_contract\<close>: \<open>Inr None\<close> is a row that is skipped.\<close>

definition row_to_contract :: "row \<Rightarrow> datetime \<Rightarrow> py_error + contract_row option" where
  "row_to_contract r exchange_time =
     (let cid = py_strip (py_str (or_else [row_get r ''contract_id'', row_get r ''symbol'', row_get r ''ticker'', PText '''']));
          symbol = py_strip (py_str (or_else [row_get r ''symbol'', row_get r ''ticker'', PText cid]))
      in if cid = [] \<or> symbol = [] then Inr None
         else case row_expiry r of
           Inl e \<Rightarrow> Inl e
         | Inr None \<Rightarrow> Inr None
         | Inr (Some expiry) \<Rightarrow>
             (case to_decimal (row_get r ''strike'') of
                None \<Rightarrow> Inr None
              | Some strike \<Rightarrow>
                  (case row_option_type r of
                     None \<Rightarrow> Inr None
                   | Some otype \<Rightarrow>
                       (case row_quote_time r exchange_time of
                          Inl e \<Rightarrow> Inl e
                        | Inr quote_ts \<Rightarrow> Inr (Some (fill_row r exchange_time cid symbol expiry strike otype quote_ts))))))"

definition row_key :: "contract_row \<Rightarrow> int \<times> nat \<times> decimal \<times> string" where
  "row_key c = (cr_expiry c, if cr_option_type c = SCall then 0 else 1, cr_strike c, cr_contract_id c)"

definition from_provider_rows ::
  "row list \<Rightarrow> datetime \<Rightarrow> int \<Rightarrow> string \<Rightarrow> decimal option \<Rightarrow> string \<Rightarrow> uuid \<Rightarrow> py_error + surface" where
  "from_provider_rows rows exchange_time trading_date underlying price source sid =
     (case reject_naive exchange_time of
        Inl e \<Rightarrow> Inl e
      | Inr ts \<Rightarrow>
          (case collect_sums (\<lambda>r. row_to_contract r ts) rows of
             Inl e \<Rightarrow> Inl e
           | Inr built \<Rightarrow>
               Inr \<lparr>sf_surface_id = sid, sf_exchange_time = ts, sf_trading_date = trading_date,
                    sf_underlying_symbol = underlying, sf_underlying_price = price,
                    sf_contracts = sort_key row_key (List.map_filter id built), sf_source = source\<rparr>))"

section \<open>The repository\<close>

type_synonym surface_db = "surface list"

definition save_surface :: "surface \<Rightarrow> (surface_db, uuid) run" where
  "save_surface sf db =
     (if sf_surface_id sf \<in> sf_surface_id ` set db then (Inl SnapshotError, db)
      else (Inr (sf_surface_id sf), db @ [sf]))"

definition surface_by_id :: "uuid \<Rightarrow> surface_db \<Rightarrow> surface option" where
  "surface_by_id sid db = find (\<lambda>sf. sf_surface_id sf = sid) db"

definition surfaces_on :: "int \<Rightarrow> surface_db \<Rightarrow> surface list" where
  "surfaces_on day db =
     sort_key (\<lambda>sf. isoformat (sf_exchange_time sf)) (filter (\<lambda>sf. date_text (sf_trading_date sf) = date_text day) db)"

section \<open>Well-formed surfaces\<close>

definition contract_row_ok :: "contract_row \<Rightarrow> bool" where
  "contract_row_ok c \<longleftrightarrow>
     (case cr_mid c of
        None \<Rightarrow> ''mid_unavailable'' \<in> set (cr_quality_flags c) \<and> cr_relative_spread c = None
      | Some m \<Rightarrow>
          (case (cr_bid c, cr_ask c) of
             (Some b, Some a) \<Rightarrow> 0 \<le> b \<and> b \<le> m \<and> m \<le> a
           | _ \<Rightarrow> False)) \<and>
     (case cr_relative_spread c of None \<Rightarrow> True | Some s \<Rightarrow> 0 \<le> s \<and> s \<le> 2) \<and>
     0 \<le> cr_quote_age_ms c \<and> 0 \<le> cr_liquidity_score c \<and> cr_liquidity_score c \<le> 1"

lemma valid_bid_ask_Some:
  "valid_bid_ask bid ask \<Longrightarrow> \<exists>b a. bid = Some b \<and> ask = Some a \<and> 0 \<le> b \<and> b \<le> a"
  by (auto simp: valid_bid_ask_def split: option.splits)

lemma compute_mid_Some:
  "compute_mid bid ask = Some m \<Longrightarrow>
   \<exists>b a. bid = Some b \<and> ask = Some a \<and> 0 \<le> b \<and> b \<le> m \<and> m \<le> a \<and> 2 * m = b + a"
  by (auto simp: compute_mid_def split: if_splits dest!: valid_bid_ask_Some)

lemma relative_spread_bounds:
  assumes "compute_relative_spread bid ask = Some s"
  shows "0 \<le> s" "s \<le> 2" "compute_mid bid ask \<noteq> None"
proof -
  obtain m where m: "compute_mid bid ask = Some m" "0 < m" "s = (the ask - the bid) / m"
    using assms by (auto simp: compute_relative_spread_def split: option.splits if_splits)
  obtain b a where ba: "bid = Some b" "ask = Some a" "0 \<le> b" "b \<le> m" "m \<le> a" "2 * m = b + a"
    using compute_mid_Some [OF m(1)] by blast
  show "0 \<le> s" "s \<le> 2" using m(2,3) ba by (simp_all add: pos_divide_le_eq)
  show "compute_mid bid ask \<noteq> None" using m(1) by simp
qed

lemma round_half_even_unit:
  assumes "0 \<le> x" "x \<le> 1"
  shows "0 \<le> round_half_even n x" "round_half_even n x \<le> 1"
proof -
  define s where "s = x * 10 ^ n"
  define f where "f = \<lfloor>s\<rfloor>"
  define k where "k = (if s - of_int f < 1 / 2 then f else if 1 / 2 < s - of_int f then f + 1
                       else if even f then f else f + 1)"
  have s: "0 \<le> s" "s \<le> 10 ^ n" using assms by (simp_all add: s_def mult_left_le_one_le)
  have f: "0 \<le> f" using s by (simp add: f_def)
  have "k \<le> 10 ^ n"
  proof (cases "s = 10 ^ n")
    case True
    then have "f = 10 ^ n" by (simp add: f_def floor_eq_iff)
    then show ?thesis using True by (simp add: k_def)
  next
    case False
    then have "s < of_int (10 ^ n)" using s by simp
    then have "f < 10 ^ n" unfolding f_def by (simp only: floor_less_iff)
    then show ?thesis by (simp add: k_def)
  qed
  then have "rat_of_int k \<le> of_int (10 ^ n)" by (simp only: of_int_le_iff)
  moreover have "0 \<le> k" using f by (simp add: k_def)
  moreover have "round_half_even n x = of_int k / 10 ^ n"
    by (simp add: round_half_even_def Let_def s_def [symmetric] f_def [symmetric] k_def)
  ultimately show "0 \<le> round_half_even n x" "round_half_even n x \<le> 1" by simp_all
qed

lemma mean_of_units:
  fixes xs :: "rat list"
  assumes "\<forall>x \<in> set xs. 0 \<le> x \<and> x \<le> 1" "xs \<noteq> []"
  shows "0 \<le> sum_list xs / of_nat (length xs)" "sum_list xs / of_nat (length xs) \<le> 1"
proof -
  have "0 \<le> sum_list xs \<and> sum_list xs \<le> of_nat (length xs)"
    using assms(1) by (induction xs) auto
  then show "0 \<le> sum_list xs / of_nat (length xs)" "sum_list xs / of_nat (length xs) \<le> 1"
    using assms(2) by (simp_all add: pos_divide_le_eq)
qed

lemma size_scores_unit: "\<forall>x \<in> set (size_scores b a). 0 \<le> x \<and> x \<le> 1"
proof -
  define sizes where "sizes = filter (\<lambda>s. 0 \<le> s) (List.map_filter id [b, a])"
  have pos: "\<forall>s \<in> set sizes. 0 \<le> s" by (simp add: sizes_def)
  have "0 \<le> Min (set sizes)" if "sizes \<noteq> []"
    using Min_in [of "set sizes"] that pos by simp
  then show ?thesis unfolding size_scores_def Let_def sizes_def [symmetric] by simp
qed

lemma liquidity_unit:
  "0 \<le> compute_liquidity_score b a v s" "compute_liquidity_score b a v s \<le> 1"
proof -
  define xs where "xs = size_scores b a @ volume_scores v @ spread_scores s"
  have unit: "\<forall>x \<in> set xs. 0 \<le> x \<and> x \<le> 1"
    using size_scores_unit by (auto simp: xs_def volume_scores_def spread_scores_def split: option.splits if_splits)
  show "0 \<le> compute_liquidity_score b a v s" "compute_liquidity_score b a v s \<le> 1"
    using mean_of_units [OF unit] round_half_even_unit
    by (auto simp: compute_liquidity_score_def Let_def xs_def)
qed

lemma flag_raised: "(True, f) \<in> set fs \<Longrightarrow> f \<in> set (flag_list fs)"
  by (force simp: flag_list_def)

lemma flags_mid: "cr_mid c = None \<Longrightarrow> ''mid_unavailable'' \<in> set (row_flags c)"
  unfolding row_flags_def by (rule flag_raised) simp

lemma fill_row_parts:
  "\<exists>c. fill_row r ts cid symbol expiry strike otype q = c\<lparr>cr_quality_flags := row_flags c\<rparr> \<and>
       cr_mid c = compute_mid (cr_bid c) (cr_ask c) \<and>
       cr_relative_spread c = compute_relative_spread (cr_bid c) (cr_ask c) \<and> 0 \<le> cr_quote_age_ms c \<and>
       0 \<le> cr_liquidity_score c \<and> cr_liquidity_score c \<le> 1"
  unfolding fill_row_def Let_def by (rule exI, intro conjI, rule refl) (simp_all add: liquidity_unit)

lemma fill_row_ok: "contract_row_ok (fill_row r ts cid symbol expiry strike otype q)"
proof -
  obtain c where c: "fill_row r ts cid symbol expiry strike otype q = c\<lparr>cr_quality_flags := row_flags c\<rparr>"
    and mid: "cr_mid c = compute_mid (cr_bid c) (cr_ask c)"
    and spread: "cr_relative_spread c = compute_relative_spread (cr_bid c) (cr_ask c)"
    and age: "0 \<le> cr_quote_age_ms c" and liq: "0 \<le> cr_liquidity_score c" "cr_liquidity_score c \<le> 1"
    using fill_row_parts by metis
  have none: "compute_mid bid ask = None \<Longrightarrow> compute_relative_spread bid ask = None" for bid ask
    by (simp add: compute_relative_spread_def)
  show ?thesis
  proof (cases "compute_mid (cr_bid c) (cr_ask c)")
    case None
    then show ?thesis using age liq flags_mid [of c] by (simp add: c contract_row_ok_def mid spread none)
  next
    case (Some m)
    then obtain b a where ba: "cr_bid c = Some b" "cr_ask c = Some a" "0 \<le> b" "b \<le> m" "m \<le> a"
      using compute_mid_Some by blast
    have "case cr_relative_spread c of None \<Rightarrow> True | Some s \<Rightarrow> 0 \<le> s \<and> s \<le> 2"
      using relative_spread_bounds [of "cr_bid c" "cr_ask c"] by (simp add: spread split: option.split)
    moreover have "cr_mid c = Some m" using Some mid by simp
    ultimately show ?thesis using age liq ba by (simp add: c contract_row_ok_def)
  qed
qed

lemma row_to_contract_ok: "row_to_contract r ts = Inr (Some c) \<Longrightarrow> contract_row_ok c"
  by (auto simp: row_to_contract_def Let_def fill_row_ok split: if_splits sum.splits option.splits)

lemma collect_sums_mem: "collect_sums f xs = Inr ys \<Longrightarrow> y \<in> set ys \<Longrightarrow> \<exists>x \<in> set xs. f x = Inr y"
  by (induction xs arbitrary: ys) (auto split: sum.splits)

text \<open>
  A surface built from provider rows, whatever the rows hold, lists its contracts in
  order of expiry, calls before puts, strike and id; every contract comes from a row; and every
  contract is truthful: a mid is there only for a bid and an ask that are not crossed and lies
  between them (without one the row is flagged and has no spread), a relative spread lies between 0
  and 2, the liquidity score between 0 and 1, and the quote age is not negative.
\<close>

theorem surface_contracts_truthful:
  assumes "from_provider_rows rows ts day underlying price source sid = Inr sf"
  shows "sorted (map row_key (sf_contracts sf)) \<and>
         (\<forall>c \<in> set (sf_contracts sf). contract_row_ok c \<and> (\<exists>r \<in> set rows. row_to_contract r ts = Inr (Some c)))"
proof -
  obtain built where built: "collect_sums (\<lambda>r. row_to_contract r ts) rows = Inr built"
    and sf: "sf_contracts sf = sort_key row_key (List.map_filter id built)"
    using assms by (auto simp: from_provider_rows_def reject_naive_def split: sum.splits if_splits)
  have "\<exists>r \<in> set rows. row_to_contract r ts = Inr (Some c)" if "c \<in> set (sf_contracts sf)" for c
  proof -
    have "Some c \<in> set built" using that by (auto simp: sf map_filter_def)
    then show ?thesis using collect_sums_mem [OF built] by blast
  qed
  then show ?thesis using row_to_contract_ok by (fastforce simp: sf)
qed

section \<open>The repository\<close>

lemma find_none: "sid \<notin> g ` set xs \<Longrightarrow> find (\<lambda>x. g x = sid) xs = None"
  by (induction xs) auto

lemma find_snoc:
  "find p (xs @ [y]) = (case find p xs of Some x \<Rightarrow> Some x | None \<Rightarrow> if p y then Some y else None)"
  by (induction xs) auto

interpretation surfaces: append_only_table save_surface surface_by_id sf_surface_id
proof unfold_locales
  fix sf sf' :: surface and db :: surface_db and sid :: uuid
  have known: "surface_by_id sid db = None \<longleftrightarrow> sid \<notin> sf_surface_id ` set db" for sid
    by (auto simp: surface_by_id_def find_None_iff)
  show "surface_by_id (sf_surface_id sf) db = None \<Longrightarrow>
      fst (save_surface sf db) = Inr (sf_surface_id sf) \<and>
      surface_by_id sid (snd (save_surface sf db)) = (if sid = sf_surface_id sf then Some sf else surface_by_id sid db)"
    unfolding known by (auto simp: save_surface_def surface_by_id_def find_snoc find_none split: option.splits)
  show "surface_by_id (sf_surface_id sf) db = Some sf' \<Longrightarrow> \<exists>e. save_surface sf db = (Inl e, db)"
    using known [of "sf_surface_id sf"] by (auto simp: save_surface_def)
qed

section \<open>Witnesses\<close>

definition demo_row :: "string \<Rightarrow> row" where
  "demo_row cid =
     [(''contract_id'', PText cid), (''symbol'', PText ''SPY''), (''expiry'', PDate 20000), (''strike'', PInt 500),
      (''type'', PText ''C''), (''bid'', PText ''1.20''), (''ask'', PText ''1.30''), (''volume'', PInt 400)]"

theorem surface_contracts_truthful_witness:
  "\<exists>sf. from_provider_rows [demo_row ''b'', demo_row ''a''] (at_utc 0) 20000 ''SPY'' None ''demo'' ''s'' = Inr sf \<and>
        map cr_contract_id (sf_contracts sf) = [''a'', ''b''] \<and>
        sorted (map row_key (sf_contracts sf)) \<and> (\<forall>c \<in> set (sf_contracts sf). contract_row_ok c)"
proof -
  have "case from_provider_rows [demo_row ''b'', demo_row ''a''] (at_utc 0) 20000 ''SPY'' None ''demo'' ''s'' of
          Inl _ \<Rightarrow> False | Inr sf \<Rightarrow> map cr_contract_id (sf_contracts sf) = [''a'', ''b'']"
    by code_simp
  then obtain sf where sf: "from_provider_rows [demo_row ''b'', demo_row ''a''] (at_utc 0) 20000 ''SPY'' None ''demo'' ''s'' = Inr sf"
    "map cr_contract_id (sf_contracts sf) = [''a'', ''b'']"
    by (auto split: sum.splits)
  note truthful = surface_contracts_truthful [OF sf(1)]
  show ?thesis
    by (intro exI [of _ sf] conjI sf truthful [THEN conjunct1]) (simp add: truthful)
qed

end
