(* ===== verification/Data_Quality.thy ===== *)
theory Data_Quality
  imports Option_Surface
begin

text \<open>
  Market snapshots (\<open>joker/market/snapshots.py\<close>), the evaluation of their data quality
  (\<open>joker/market/quality.py\<close>) and the store of quality reports (\<open>joker/market/data_quality_store.py\<close>).
  A finding keeps its code, severity and symbol; its message and details are only shown. Ages are
  differences of moments. The checks append to one list of findings; here each returns what it appends.
\<close>

section \<open>Snapshots\<close>

record underlying_snapshot =
  us_symbol :: string
  us_exchange_time :: datetime
  us_last :: "decimal option"
  us_bid :: "decimal option"
  us_ask :: "decimal option"
  us_mid :: "decimal option"
  us_bid_size :: "int option"
  us_ask_size :: "int option"
  us_cumulative_volume :: "int option"
  us_source :: string

definition build_underlying_snapshot :: "underlying_snapshot \<Rightarrow> py_error + underlying_snapshot" where
  "build_underlying_snapshot u = (if dt_off (us_exchange_time u) = None then Inl ValidationError else Inr u)"

record market_state =
  mk_snapshot_id :: uuid
  mk_exchange_time :: datetime
  mk_trading_date :: int
  mk_underlying :: underlying_snapshot
  mk_bars_1m :: "market_bar list"
  mk_bars_5m :: "market_bar list"
  mk_feature_snapshot_id :: "uuid option"
  mk_option_surface_id :: "uuid option"
  mk_data_quality_id :: uuid
  mk_source_event_ids :: "uuid list"

definition build_market_state :: "market_state \<Rightarrow> py_error + market_state" where
  "build_market_state m = (if dt_off (mk_exchange_time m) = None then Inl ValidationError else Inr m)"

type_synonym snapshot_db = "market_state list"

definition save_snapshot :: "market_state \<Rightarrow> (snapshot_db, uuid) run" where
  "save_snapshot m db =
     (if mk_snapshot_id m \<in> mk_snapshot_id ` set db then (Inl SnapshotError, db)
      else (Inr (mk_snapshot_id m), db @ [m]))"

definition snapshot_by_id :: "uuid \<Rightarrow> snapshot_db \<Rightarrow> market_state option" where
  "snapshot_by_id sid db = find (\<lambda>m. mk_snapshot_id m = sid) db"

text \<open>\<open>ORDER BY exchange_time DESC LIMIT 1\<close>, the column being the text of the time; among equal
  texts the model takes the row saved last.\<close>

definition latest_snapshot :: "snapshot_db \<Rightarrow> market_state option" where
  "latest_snapshot db =
     (case sort_key (\<lambda>m. isoformat (mk_exchange_time m)) db of [] \<Rightarrow> None | ms \<Rightarrow> Some (last ms))"

definition snapshots_on :: "int \<Rightarrow> snapshot_db \<Rightarrow> market_state list" where
  "snapshots_on day db =
     sort_key (\<lambda>m. isoformat (mk_exchange_time m)) (filter (\<lambda>m. date_text (mk_trading_date m) = date_text day) db)"

interpretation snapshots: append_only_table save_snapshot snapshot_by_id mk_snapshot_id
proof unfold_locales
  fix m m' :: market_state and db :: snapshot_db and sid :: uuid
  have known: "snapshot_by_id sid db = None \<longleftrightarrow> sid \<notin> mk_snapshot_id ` set db" for sid
    by (auto simp: snapshot_by_id_def find_None_iff)
  show "snapshot_by_id (mk_snapshot_id m) db = None \<Longrightarrow>
      fst (save_snapshot m db) = Inr (mk_snapshot_id m) \<and>
      snapshot_by_id sid (snd (save_snapshot m db)) = (if sid = mk_snapshot_id m then Some m else snapshot_by_id sid db)"
    unfolding known by (auto simp: save_snapshot_def snapshot_by_id_def find_snoc find_none split: option.splits)
  show "snapshot_by_id (mk_snapshot_id m) db = Some m' \<Longrightarrow> \<exists>e. save_snapshot m db = (Inl e, db)"
    using known [of "mk_snapshot_id m"] by (auto simp: save_snapshot_def)
qed

section \<open>Findings and reports\<close>

datatype severity = SevOk | SevInfo | SevWarning | SevError | SevCritical

fun severity_rank :: "severity \<Rightarrow> nat" where
  "severity_rank SevOk = 0"
| "severity_rank SevInfo = 1"
| "severity_rank SevWarning = 2"
| "severity_rank SevError = 3"
| "severity_rank SevCritical = 4"

fun severity_value :: "severity \<Rightarrow> string" where
  "severity_value SevOk = ''ok''"
| "severity_value SevInfo = ''info''"
| "severity_value SevWarning = ''warning''"
| "severity_value SevError = ''error''"
| "severity_value SevCritical = ''critical''"

datatype quality_code =
    STALE_UNDERLYING | STALE_OPTION | CROSSED_MARKET | LOCKED_MARKET | MISSING_BID | MISSING_ASK
  | NEGATIVE_PRICE | EXTREME_SPREAD | MISSING_INTERVAL | INCOMPLETE_BAR | CLOCK_SKEW | DUPLICATE_OBSERVATION
  | CUMULATIVE_VOLUME_REGRESSION | INSUFFICIENT_OPTION_SURFACE | PARTIAL_OPTION_SURFACE
  | OPTION_SURFACE_UNAVAILABLE | REPORT_UNAVAILABLE

record quality_finding =
  qf_code :: quality_code
  qf_severity :: severity
  qf_symbol :: "string option"

record quality_report =
  qr_report_id :: uuid
  qr_snapshot_id :: "uuid option"
  qr_severity :: severity
  qr_findings :: "quality_finding list"
  qr_usable_for_reasoning :: bool
  qr_usable_for_execution :: bool

record quality_config =
  qc_underlying_max_age_seconds :: pyfloat
  qc_option_max_age_seconds :: pyfloat
  qc_max_relative_spread :: pyfloat
  qc_max_clock_skew_seconds :: pyfloat
  qc_min_option_contracts :: int
  qc_expected_1m_intervals :: "int option"

definition default_quality_config :: quality_config where
  "default_quality_config =
     \<lparr>qc_underlying_max_age_seconds = 30, qc_option_max_age_seconds = 60, qc_max_relative_spread = 1 / 4,
      qc_max_clock_skew_seconds = 5, qc_min_option_contracts = 1, qc_expected_1m_intervals = None\<rparr>"

definition mk_finding :: "quality_code \<Rightarrow> severity \<Rightarrow> string option \<Rightarrow> quality_finding" where
  "mk_finding code sev sm = \<lparr>qf_code = code, qf_severity = sev, qf_symbol = sm\<rparr>"

definition found :: "bool \<Rightarrow> quality_code \<Rightarrow> severity \<Rightarrow> string option \<Rightarrow> quality_finding list" where
  "found b code sev sm = (if b then [mk_finding code sev sm] else [])"

text \<open>\<open>max(findings, key=rank)\<close> returns the first finding of the highest rank.\<close>

definition max_severity :: "quality_finding list \<Rightarrow> severity" where
  "max_severity fs =
     (case fs of
        [] \<Rightarrow> SevOk
      | f # rest \<Rightarrow>
          foldl (\<lambda>best g. if severity_rank best < severity_rank (qf_severity g) then qf_severity g else best)
            (qf_severity f) rest)"

definition age_seconds :: "datetime \<Rightarrow> datetime \<Rightarrow> py_error + pyfloat" where
  "age_seconds ts now =
     (if dt_off ts = None \<or> dt_off now = None then Inl ValueError else Inr (seconds_between now ts))"

section \<open>The checks\<close>

datatype underlying_input = In_Snapshot underlying_snapshot | In_Observation underlying_obs | In_Quote quote_obs

fun in_symbol :: "underlying_input \<Rightarrow> string" where
  "in_symbol (In_Snapshot u) = us_symbol u"
| "in_symbol (In_Observation u) = uo_symbol u"
| "in_symbol (In_Quote q) = qo_symbol q"

fun in_time :: "underlying_input \<Rightarrow> datetime" where
  "in_time (In_Snapshot u) = us_exchange_time u"
| "in_time (In_Observation u) = uo_source_timestamp u"
| "in_time (In_Quote q) = qo_source_timestamp q"

fun in_book :: "underlying_input \<Rightarrow> decimal option \<times> decimal option \<times> decimal option" where
  "in_book (In_Snapshot u) = (us_bid u, us_ask u, us_last u)"
| "in_book (In_Observation u) = (uo_bid u, uo_ask u, uo_last u)"
| "in_book (In_Quote q) = (qo_bid q, qo_ask q, qo_last q)"

fun in_received :: "underlying_input \<Rightarrow> datetime option" where
  "in_received (In_Snapshot u) = None"
| "in_received (In_Observation u) = Some (uo_received_timestamp u)"
| "in_received (In_Quote q) = Some (qo_received_timestamp q)"

definition negative :: "decimal option \<Rightarrow> bool" where
  "negative p = (case p of None \<Rightarrow> False | Some x \<Rightarrow> x < 0)"

definition check_book ::
  "string \<Rightarrow> decimal option \<times> decimal option \<times> decimal option \<Rightarrow> pyfloat \<Rightarrow> quality_finding list" where
  "check_book symbol book max_spread =
     (case book of (bid, ask, lst) \<Rightarrow>
        found (bid = None) MISSING_BID SevWarning (Some symbol)
        @ found (ask = None) MISSING_ASK SevWarning (Some symbol)
        @ found (negative bid) NEGATIVE_PRICE SevCritical (Some symbol)
        @ found (negative ask) NEGATIVE_PRICE SevCritical (Some symbol)
        @ found (negative lst) NEGATIVE_PRICE SevCritical (Some symbol)
        @ (case (bid, ask) of
             (Some b, Some a) \<Rightarrow>
               if a < b then [mk_finding CROSSED_MARKET SevError (Some symbol)]
               else if a = b then [mk_finding LOCKED_MARKET SevInfo (Some symbol)]
               else let mid = (b + a) / 2
                    in found (0 < mid \<and> max_spread < (a - b) / mid) EXTREME_SPREAD SevWarning (Some symbol)
           | _ \<Rightarrow> []))"

text \<open>The underlying is checked against the default spread limit of \<open>_check_book\<close>, not the configured one.\<close>

definition check_underlying ::
  "underlying_input option \<Rightarrow> datetime \<Rightarrow> quality_config \<Rightarrow> py_error + quality_finding list" where
  "check_underlying u now cfg =
     (case u of
        None \<Rightarrow> Inr []
      | Some x \<Rightarrow>
          (case age_seconds (in_time x) now of
             Inl e \<Rightarrow> Inl e
           | Inr age \<Rightarrow>
               Inr (found (qc_underlying_max_age_seconds cfg < age) STALE_UNDERLYING SevError (Some (in_symbol x))
                    @ check_book (in_symbol x) (in_book x) (1 / 4))))"

definition check_option_quote :: "datetime \<Rightarrow> quality_config \<Rightarrow> option_obs \<Rightarrow> py_error + quality_finding list" where
  "check_option_quote now cfg q =
     (case age_seconds (oo_source_timestamp q) now of
        Inl e \<Rightarrow> Inl e
      | Inr age \<Rightarrow>
          Inr (found (qc_option_max_age_seconds cfg < age) STALE_OPTION SevWarning (Some (oo_contract_symbol q))
               @ check_book (oo_contract_symbol q) (oo_bid q, oo_ask q, oo_last q) (qc_max_relative_spread cfg)))"

definition check_option_quotes ::
  "option_obs list \<Rightarrow> datetime \<Rightarrow> quality_config \<Rightarrow> py_error + quality_finding list" where
  "check_option_quotes qs now cfg =
     (case collect_sums (check_option_quote now cfg) qs of Inl e \<Rightarrow> Inl e | Inr fss \<Rightarrow> Inr (concat fss))"

definition check_contract_book :: "contract_row \<Rightarrow> quality_config \<Rightarrow> quality_finding list" where
  "check_contract_book c cfg =
     check_book (cr_contract_id c) (cr_bid c, cr_ask c, cr_last c) (qc_max_relative_spread cfg)"

definition check_surface_contract :: "quality_config \<Rightarrow> contract_row \<Rightarrow> quality_finding list" where
  "check_surface_contract cfg c =
     found (qc_option_max_age_seconds cfg < of_int (cr_quote_age_ms c) / 1000) STALE_OPTION SevWarning (Some (cr_contract_id c))
     @ check_contract_book c cfg"

definition check_option_surface :: "surface option \<Rightarrow> quality_config \<Rightarrow> quality_finding list" where
  "check_option_surface sf cfg =
     (case sf of
        None \<Rightarrow> []
      | Some s \<Rightarrow>
          if int (length (sf_contracts s)) < qc_min_option_contracts cfg
          then [mk_finding INSUFFICIENT_OPTION_SURFACE SevError (Some (sf_underlying_symbol s))]
          else concat (map (check_surface_contract cfg) (sf_contracts s)))"

fun bar_gaps :: "market_bar list \<Rightarrow> quality_finding list" where
  "bar_gaps (p # c # bars) =
     found (mb_end p < mb_start c) MISSING_INTERVAL SevWarning (Some (mb_symbol c)) @ bar_gaps (c # bars)"
| "bar_gaps _ = []"

definition incomplete_bars :: "market_bar list \<Rightarrow> quality_finding list" where
  "incomplete_bars bars = map (\<lambda>b. mk_finding INCOMPLETE_BAR SevWarning (Some (mb_symbol b))) (filter mb_incomplete bars)"

definition check_bars :: "market_bar list \<Rightarrow> market_bar list \<Rightarrow> quality_config \<Rightarrow> quality_finding list" where
  "check_bars bars_1m bars_5m cfg =
     (let m1 = sort_key mb_start bars_1m; m5 = sort_key mb_start bars_5m
      in (if m1 = [] then []
          else incomplete_bars m1
               @ (case qc_expected_1m_intervals cfg of
                    None \<Rightarrow> []
                  | Some n \<Rightarrow> found (int (length m1) < n) MISSING_INTERVAL SevWarning (Some (mb_symbol (hd m1))))
               @ bar_gaps m1)
         @ incomplete_bars m5)"

definition skew_times :: "underlying_input option \<Rightarrow> option_obs list \<Rightarrow> surface option \<Rightarrow> (string \<times> datetime) list" where
  "skew_times u qs sf =
     (case u of
        None \<Rightarrow> []
      | Some x \<Rightarrow> (in_symbol x, in_time x) # (case in_received x of None \<Rightarrow> [] | Some t \<Rightarrow> [(in_symbol x, t)]))
     @ concat (map (\<lambda>q. [(oo_contract_symbol q, oo_source_timestamp q), (oo_contract_symbol q, oo_received_timestamp q)]) qs)
     @ (case sf of None \<Rightarrow> [] | Some s \<Rightarrow> [(sf_underlying_symbol s, sf_exchange_time s)])"

definition check_skew :: "datetime \<Rightarrow> quality_config \<Rightarrow> string \<times> datetime \<Rightarrow> py_error + quality_finding list" where
  "check_skew now cfg st =
     (case st of (symbol, ts) \<Rightarrow>
        (case age_seconds ts now of
           Inl e \<Rightarrow> Inl e
         | Inr age \<Rightarrow> Inr (found (qc_max_clock_skew_seconds cfg < seconds_between ts now) CLOCK_SKEW SevError (Some symbol))))"

definition check_clock_skew ::
  "underlying_input option \<Rightarrow> option_obs list \<Rightarrow> surface option \<Rightarrow> datetime \<Rightarrow> quality_config \<Rightarrow>
   py_error + quality_finding list" where
  "check_clock_skew u qs sf now cfg =
     (case collect_sums (check_skew now cfg) (skew_times u qs sf) of Inl e \<Rightarrow> Inl e | Inr fss \<Rightarrow> Inr (concat fss))"

fun check_duplicates :: "uuid list \<Rightarrow> uuid set \<Rightarrow> quality_finding list" where
  "check_duplicates [] seen = []"
| "check_duplicates (i # js) seen =
     (if i \<in> seen then mk_finding DUPLICATE_OBSERVATION SevWarning None # check_duplicates js seen
      else check_duplicates js (insert i seen))"

definition check_cum_vol :: "int option \<Rightarrow> int option \<Rightarrow> quality_finding list" where
  "check_cum_vol prior cur =
     (case (prior, cur) of
        (Some p, Some c) \<Rightarrow> found (c < p) CUMULATIVE_VOLUME_REGRESSION SevError None
      | _ \<Rightarrow> [])"

definition check_trades :: "trade_obs list \<Rightarrow> quality_finding list" where
  "check_trades ts = concat (map (\<lambda>t. found (to_price t < 0) NEGATIVE_PRICE SevCritical (Some (to_symbol t))) ts)"

record quality_input =
  qi_underlying :: "underlying_input option"
  qi_option_quotes :: "option_obs list"
  qi_option_surface :: "surface option"
  qi_bars_1m :: "market_bar list"
  qi_bars_5m :: "market_bar list"
  qi_trades :: "trade_obs list"
  qi_observation_ids :: "uuid list"
  qi_prior_cumulative_volume :: "int option"
  qi_current_cumulative_volume :: "int option"
  qi_snapshot_id :: "uuid option"

definition quality_findings :: "datetime \<Rightarrow> quality_input \<Rightarrow> quality_config \<Rightarrow> py_error + quality_finding list" where
  "quality_findings now inp cfg =
     (case check_underlying (qi_underlying inp) now cfg of
        Inl e \<Rightarrow> Inl e
      | Inr f1 \<Rightarrow>
     (case check_option_quotes (qi_option_quotes inp) now cfg of
        Inl e \<Rightarrow> Inl e
      | Inr f2 \<Rightarrow>
     (case check_clock_skew (qi_underlying inp) (qi_option_quotes inp) (qi_option_surface inp) now cfg of
        Inl e \<Rightarrow> Inl e
      | Inr f5 \<Rightarrow>
          Inr (f1 @ f2 @ check_option_surface (qi_option_surface inp) cfg
               @ check_bars (qi_bars_1m inp) (qi_bars_5m inp) cfg @ f5 @ check_duplicates (qi_observation_ids inp) {}
               @ check_cum_vol (qi_prior_cumulative_volume inp) (qi_current_cumulative_volume inp)
               @ check_trades (qi_trades inp)))))"

definition blocks_execution :: "quality_finding \<Rightarrow> bool" where
  "blocks_execution f \<longleftrightarrow>
     qf_code f \<in> {STALE_UNDERLYING, CROSSED_MARKET, NEGATIVE_PRICE, INSUFFICIENT_OPTION_SURFACE}"

definition evaluate_data_quality ::
  "uuid \<Rightarrow> datetime \<Rightarrow> quality_input \<Rightarrow> quality_config \<Rightarrow> py_error + quality_report" where
  "evaluate_data_quality rid now inp cfg =
     (if dt_off now = None then Inl ValueError
      else case quality_findings now inp cfg of
             Inl e \<Rightarrow> Inl e
           | Inr fs \<Rightarrow>
               (let sev = max_severity fs
                in Inr \<lparr>qr_report_id = rid, qr_snapshot_id = qi_snapshot_id inp, qr_severity = sev, qr_findings = fs,
                        qr_usable_for_reasoning = (sev \<noteq> SevCritical),
                        qr_usable_for_execution =
                          (sev \<noteq> SevError \<and> sev \<noteq> SevCritical \<and> \<not> list_ex blocks_execution fs)\<rparr>))"

section \<open>The store of reports\<close>

type_synonym quality_db = "(uuid, quality_report) dict"

definition save_report :: "quality_report \<Rightarrow> quality_db \<Rightarrow> quality_db" where
  "save_report r db = dict_set (qr_report_id r) r db"

definition report_by_id :: "uuid \<Rightarrow> quality_db \<Rightarrow> quality_report option" where
  "report_by_id rid db = dict_get db rid"

definition unavailable_report :: "uuid \<Rightarrow> uuid option \<Rightarrow> quality_report" where
  "unavailable_report rid sid =
     \<lparr>qr_report_id = rid, qr_snapshot_id = sid, qr_severity = SevCritical,
      qr_findings = [mk_finding REPORT_UNAVAILABLE SevCritical None],
      qr_usable_for_reasoning = False, qr_usable_for_execution = False\<rparr>"

section \<open>When data are usable\<close>

lemma foldl_severity:
  "n \<le> severity_rank (foldl (\<lambda>best g. if severity_rank best < severity_rank (qf_severity g) then qf_severity g else best) s fs)
     \<longleftrightarrow> n \<le> severity_rank s \<or> (\<exists>f \<in> set fs. n \<le> severity_rank (qf_severity f))"
  by (induction fs arbitrary: s) auto

lemma max_severity_rank:
  "0 < n \<Longrightarrow> n \<le> severity_rank (max_severity fs) \<longleftrightarrow> (\<exists>f \<in> set fs. n \<le> severity_rank (qf_severity f))"
  by (cases fs) (simp_all add: max_severity_def foldl_severity)

lemma severity_ranks:
  "s \<noteq> SevCritical \<longleftrightarrow> \<not> 4 \<le> severity_rank s" "s \<noteq> SevError \<and> s \<noteq> SevCritical \<longleftrightarrow> \<not> 3 \<le> severity_rank s"
  by (cases s; simp)+

text \<open>Findings that do not block execution, and findings that do not block reasoning.\<close>

definition calm :: "quality_finding \<Rightarrow> bool" where
  "calm f \<longleftrightarrow> severity_rank (qf_severity f) < 3 \<and> \<not> blocks_execution f"

definition harmless :: "quality_finding list \<Rightarrow> bool" where
  "harmless fs \<longleftrightarrow> (\<forall>f \<in> set fs. calm f)"

definition uncritical :: "quality_finding list \<Rightarrow> bool" where
  "uncritical fs \<longleftrightarrow> (\<forall>f \<in> set fs. severity_rank (qf_severity f) < 4)"

named_theorems quality_simps

lemma usable_iff_findings:
  assumes "evaluate_data_quality rid now inp cfg = Inr rep"
  shows "\<exists>fs. quality_findings now inp cfg = Inr fs \<and> (qr_usable_for_execution rep \<longleftrightarrow> harmless fs) \<and>
              (qr_usable_for_reasoning rep \<longleftrightarrow> uncritical fs)"
proof -
  obtain fs where fs: "quality_findings now inp cfg = Inr fs"
    and rep: "qr_usable_for_execution rep \<longleftrightarrow>
        max_severity fs \<noteq> SevError \<and> max_severity fs \<noteq> SevCritical \<and> \<not> list_ex blocks_execution fs"
      "qr_usable_for_reasoning rep \<longleftrightarrow> max_severity fs \<noteq> SevCritical"
    using assms by (auto simp: evaluate_data_quality_def Let_def split: if_splits sum.splits)
  have "qr_usable_for_execution rep \<longleftrightarrow> \<not> 3 \<le> severity_rank (max_severity fs) \<and> \<not> list_ex blocks_execution fs"
    unfolding rep severity_ranks(2) [symmetric] by blast
  then have "qr_usable_for_execution rep \<longleftrightarrow> harmless fs"
    using max_severity_rank [of 3 fs] by (auto simp: harmless_def calm_def list_ex_iff not_le)
  moreover have "qr_usable_for_reasoning rep \<longleftrightarrow> uncritical fs"
    unfolding rep severity_ranks(1) using max_severity_rank [of 4 fs] by (auto simp: uncritical_def not_le)
  ultimately show ?thesis using fs by blast
qed

lemma harmless_simps [quality_simps]:
  "harmless []" "harmless (f # fs) \<longleftrightarrow> calm f \<and> harmless fs"
  "harmless (fs @ gs) \<longleftrightarrow> harmless fs \<and> harmless gs"
  "harmless (concat fss) \<longleftrightarrow> (\<forall>fs \<in> set fss. harmless fs)"
  "harmless (found b code sev sm) \<longleftrightarrow> (b \<longrightarrow> calm (mk_finding code sev sm))"
  by (auto simp: harmless_def found_def)

lemma harmless_finding [quality_simps]:
  "calm (mk_finding code sev sm) \<longleftrightarrow> severity_rank sev < 3 \<and>
     code \<notin> {STALE_UNDERLYING, CROSSED_MARKET, NEGATIVE_PRICE, INSUFFICIENT_OPTION_SURFACE}"
  by (simp add: calm_def mk_finding_def blocks_execution_def)

lemma uncritical_simps [quality_simps]:
  "uncritical []" "uncritical (f # fs) \<longleftrightarrow> severity_rank (qf_severity f) < 4 \<and> uncritical fs"
  "uncritical (fs @ gs) \<longleftrightarrow> uncritical fs \<and> uncritical gs"
  "uncritical (concat fss) \<longleftrightarrow> (\<forall>fs \<in> set fss. uncritical fs)"
  "uncritical (found b code sev sm) \<longleftrightarrow> (b \<longrightarrow> severity_rank sev < 4)"
  "qf_severity (mk_finding code sev sm) = sev"
  by (auto simp: uncritical_def found_def mk_finding_def)

text \<open>A book without negative prices whose ask is not below its bid.\<close>

definition no_negative :: "decimal option \<times> decimal option \<times> decimal option \<Rightarrow> bool" where
  "no_negative book = (case book of (bid, ask, lst) \<Rightarrow> \<not> negative bid \<and> \<not> negative ask \<and> \<not> negative lst)"

definition book_sound :: "decimal option \<times> decimal option \<times> decimal option \<Rightarrow> bool" where
  "book_sound book \<longleftrightarrow> no_negative book \<and>
     (case book of (Some b, Some a, _) \<Rightarrow> b \<le> a | _ \<Rightarrow> True)"

lemma check_book_harmless [quality_simps]: "harmless (check_book symbol book limit) \<longleftrightarrow> book_sound book"
  by (cases book)
     (auto simp: check_book_def book_sound_def no_negative_def quality_simps Let_def split: option.splits)

lemma check_book_uncritical [quality_simps]: "uncritical (check_book symbol book limit) \<longleftrightarrow> no_negative book"
  by (cases book)
     (auto simp: check_book_def no_negative_def quality_simps Let_def split: option.splits)

lemma collect_sums_set: "collect_sums f xs = Inr ys \<Longrightarrow> set ys = {y. \<exists>x \<in> set xs. f x = Inr y}"
  by (induction xs arbitrary: ys) (auto split: sum.splits)

lemma collect_sums_all:
  "collect_sums f xs = Inr ys \<Longrightarrow> (\<forall>x \<in> set xs. \<exists>y. f x = Inr y)"
  by (induction xs arbitrary: ys) (auto split: sum.splits)

lemma age_seconds_Inr: "age_seconds ts now = Inr a \<Longrightarrow> a = seconds_between now ts"
  by (simp add: age_seconds_def split: if_splits)

lemma check_underlying_iff:
  "check_underlying u now cfg = Inr fs \<Longrightarrow>
   (harmless fs \<longleftrightarrow> (\<forall>x. u = Some x \<longrightarrow> seconds_between now (in_time x) \<le> qc_underlying_max_age_seconds cfg \<and>
                                   book_sound (in_book x))) \<and>
   (uncritical fs \<longleftrightarrow> (\<forall>x. u = Some x \<longrightarrow> no_negative (in_book x)))"
  by (auto simp: check_underlying_def quality_simps dest!: age_seconds_Inr split: option.splits sum.splits)

lemma check_option_quotes_iff:
  assumes "check_option_quotes qs now cfg = Inr fs"
  shows "harmless fs \<longleftrightarrow> (\<forall>q \<in> set qs. book_sound (oo_bid q, oo_ask q, oo_last q))"
    "uncritical fs \<longleftrightarrow> (\<forall>q \<in> set qs. no_negative (oo_bid q, oo_ask q, oo_last q))"
proof -
  obtain fss where fss: "collect_sums (check_option_quote now cfg) qs = Inr fss" and fs: "fs = concat fss"
    using assms by (auto simp: check_option_quotes_def split: sum.splits)
  have one: "\<exists>f. check_option_quote now cfg q = Inr f" if "q \<in> set qs" for q
    using collect_sums_all [OF fss] that by blast
  have iffs: "(harmless f \<longleftrightarrow> book_sound (oo_bid q, oo_ask q, oo_last q)) \<and>
        (uncritical f \<longleftrightarrow> no_negative (oo_bid q, oo_ask q, oo_last q))"
    if "check_option_quote now cfg q = Inr f" for q f
    using that by (auto simp: check_option_quote_def quality_simps split: sum.splits)
  show "harmless fs \<longleftrightarrow> (\<forall>q \<in> set qs. book_sound (oo_bid q, oo_ask q, oo_last q))"
    "uncritical fs \<longleftrightarrow> (\<forall>q \<in> set qs. no_negative (oo_bid q, oo_ask q, oo_last q))"
    unfolding fs quality_simps collect_sums_set [OF fss] using one iffs by blast+
qed

lemma check_option_surface_iff:
  "harmless (check_option_surface sf cfg) \<longleftrightarrow>
     (\<forall>s. sf = Some s \<longrightarrow> qc_min_option_contracts cfg \<le> int (length (sf_contracts s)) \<and>
          (\<forall>c \<in> set (sf_contracts s). book_sound (cr_bid c, cr_ask c, cr_last c)))"
  "uncritical (check_option_surface sf cfg) \<longleftrightarrow>
     (\<forall>s. sf = Some s \<longrightarrow> int (length (sf_contracts s)) < qc_min_option_contracts cfg \<or>
          (\<forall>c \<in> set (sf_contracts s). no_negative (cr_bid c, cr_ask c, cr_last c)))"
  by (auto simp: check_option_surface_def check_surface_contract_def check_contract_book_def quality_simps
      split: option.splits)

lemma check_clock_skew_iff:
  assumes "check_clock_skew u qs sf now cfg = Inr fs"
  shows "harmless fs \<longleftrightarrow>
      (\<forall>st \<in> set (skew_times u qs sf). seconds_between (snd st) now \<le> qc_max_clock_skew_seconds cfg)"
    "uncritical fs"
proof -
  obtain fss where fss: "collect_sums (check_skew now cfg) (skew_times u qs sf) = Inr fss" and fs: "fs = concat fss"
    using assms by (auto simp: check_clock_skew_def split: sum.splits)
  have one: "\<exists>f. check_skew now cfg st = Inr f" if "st \<in> set (skew_times u qs sf)" for st
    using collect_sums_all [OF fss] that by blast
  have iffs: "(harmless f \<longleftrightarrow> seconds_between (snd st) now \<le> qc_max_clock_skew_seconds cfg) \<and> uncritical f"
    if "check_skew now cfg st = Inr f" for st f
    using that by (auto simp: check_skew_def quality_simps split: sum.splits prod.splits)
  show "harmless fs \<longleftrightarrow>
      (\<forall>st \<in> set (skew_times u qs sf). seconds_between (snd st) now \<le> qc_max_clock_skew_seconds cfg)" "uncritical fs"
    unfolding fs quality_simps collect_sums_set [OF fss] using one iffs by blast+
qed

lemma bar_gaps_harmless: "harmless (bar_gaps bars) \<and> uncritical (bar_gaps bars)"
  by (induction bars rule: bar_gaps.induct) (simp_all add: quality_simps)

lemma check_bars_harmless [quality_simps]:
  "harmless (check_bars b1 b5 cfg)" "uncritical (check_bars b1 b5 cfg)"
proof -
  have "harmless (incomplete_bars bs) \<and> uncritical (incomplete_bars bs)" for bs
    by (auto simp: incomplete_bars_def harmless_def uncritical_def calm_def mk_finding_def blocks_execution_def)
  then show "harmless (check_bars b1 b5 cfg)" "uncritical (check_bars b1 b5 cfg)"
    using bar_gaps_harmless by (simp_all add: check_bars_def Let_def quality_simps split: option.split)
qed

lemma check_duplicates_harmless [quality_simps]: "harmless (check_duplicates is seen)" "uncritical (check_duplicates is seen)"
  by (induction "is" seen rule: check_duplicates.induct) (simp_all add: quality_simps)

section \<open>Properties\<close>

text \<open>The books the evaluation looks at, options and underlying.\<close>

definition all_books :: "quality_input \<Rightarrow> (decimal option \<times> decimal option \<times> decimal option) list" where
  "all_books inp =
     (case qi_underlying inp of None \<Rightarrow> [] | Some x \<Rightarrow> [in_book x])
     @ map (\<lambda>q. (oo_bid q, oo_ask q, oo_last q)) (qi_option_quotes inp)
     @ (case qi_option_surface inp of None \<Rightarrow> []
        | Some s \<Rightarrow> map (\<lambda>c. (cr_bid c, cr_ask c, cr_last c)) (sf_contracts s))"

lemma quality_findings_parts:
  assumes "quality_findings now inp cfg = Inr fs"
  obtains f1 f2 f5 where
    "check_underlying (qi_underlying inp) now cfg = Inr f1"
    "check_option_quotes (qi_option_quotes inp) now cfg = Inr f2"
    "check_clock_skew (qi_underlying inp) (qi_option_quotes inp) (qi_option_surface inp) now cfg = Inr f5"
    "fs = f1 @ f2 @ check_option_surface (qi_option_surface inp) cfg
               @ check_bars (qi_bars_1m inp) (qi_bars_5m inp) cfg @ f5 @ check_duplicates (qi_observation_ids inp) {}
               @ check_cum_vol (qi_prior_cumulative_volume inp) (qi_current_cumulative_volume inp)
               @ check_trades (qi_trades inp)"
  using assms by (auto simp: quality_findings_def split: sum.splits)

lemma check_cum_vol_iff [quality_simps]:
  "harmless (check_cum_vol p c) \<longleftrightarrow> (\<forall>x y. p = Some x \<longrightarrow> c = Some y \<longrightarrow> x \<le> y)"
  "uncritical (check_cum_vol p c)"
  by (auto simp: check_cum_vol_def quality_simps split: option.splits)

lemma check_trades_iff [quality_simps]:
  "harmless (check_trades ts) \<longleftrightarrow> (\<forall>t \<in> set ts. 0 \<le> to_price t)"
  "uncritical (check_trades ts) \<longleftrightarrow> (\<forall>t \<in> set ts. 0 \<le> to_price t)"
  by (auto simp: check_trades_def quality_simps not_less)

text \<open>
  A report that is evaluated without an error declares the data usable for execution
  exactly when: the underlying, if there is one, is no older than its limit; no book (underlying, option
  quote or surface contract) has a negative price or an ask below its bid; a surface, if there is
  one, has the minimum number of contracts; no timestamp lies ahead of the clock by more than the
  allowed skew; the cumulative volume has not fallen; and no trade has a negative price. Stale option
  quotes, wide spreads, missing sides, incomplete or missing bars and duplicate observations never
  block execution.
\<close>

theorem usable_for_execution_iff:
  assumes "evaluate_data_quality rid now inp cfg = Inr rep"
  shows "qr_usable_for_execution rep \<longleftrightarrow>
     (\<forall>x. qi_underlying inp = Some x \<longrightarrow> seconds_between now (in_time x) \<le> qc_underlying_max_age_seconds cfg) \<and>
     (\<forall>book \<in> set (all_books inp). book_sound book) \<and>
     (\<forall>s. qi_option_surface inp = Some s \<longrightarrow> qc_min_option_contracts cfg \<le> int (length (sf_contracts s))) \<and>
     (\<forall>st \<in> set (skew_times (qi_underlying inp) (qi_option_quotes inp) (qi_option_surface inp)).
        seconds_between (snd st) now \<le> qc_max_clock_skew_seconds cfg) \<and>
     (\<forall>p c. qi_prior_cumulative_volume inp = Some p \<longrightarrow> qi_current_cumulative_volume inp = Some c \<longrightarrow> p \<le> c) \<and>
     (\<forall>t \<in> set (qi_trades inp). 0 \<le> to_price t)"
proof -
  obtain fs where fs: "quality_findings now inp cfg = Inr fs" and usable: "qr_usable_for_execution rep \<longleftrightarrow> harmless fs"
    using usable_iff_findings [OF assms] by blast
  obtain f1 f2 f5 where
    parts: "check_underlying (qi_underlying inp) now cfg = Inr f1"
    "check_option_quotes (qi_option_quotes inp) now cfg = Inr f2"
    "check_clock_skew (qi_underlying inp) (qi_option_quotes inp) (qi_option_surface inp) now cfg = Inr f5"
    and eq: "fs = f1 @ f2 @ check_option_surface (qi_option_surface inp) cfg
               @ check_bars (qi_bars_1m inp) (qi_bars_5m inp) cfg @ f5 @ check_duplicates (qi_observation_ids inp) {}
               @ check_cum_vol (qi_prior_cumulative_volume inp) (qi_current_cumulative_volume inp)
               @ check_trades (qi_trades inp)"
    using quality_findings_parts [OF fs] by blast
  have books: "(\<forall>book \<in> set (all_books inp). book_sound book) \<longleftrightarrow>
      (\<forall>x. qi_underlying inp = Some x \<longrightarrow> book_sound (in_book x)) \<and>
      (\<forall>q \<in> set (qi_option_quotes inp). book_sound (oo_bid q, oo_ask q, oo_last q)) \<and>
      (\<forall>s. qi_option_surface inp = Some s \<longrightarrow> (\<forall>c \<in> set (sf_contracts s). book_sound (cr_bid c, cr_ask c, cr_last c)))"
    by (cases "qi_underlying inp"; cases "qi_option_surface inp") (auto simp: all_books_def)
  show ?thesis
    unfolding usable eq quality_simps books check_option_surface_iff check_option_quotes_iff [OF parts(2)]
      check_clock_skew_iff [OF parts(3)] check_underlying_iff [OF parts(1), THEN conjunct1]
    using check_bars_harmless(1) [of "qi_bars_1m inp" "qi_bars_5m inp" cfg]
      check_duplicates_harmless(1) [of "qi_observation_ids inp" "{}"]
    by blast
qed

section \<open>Witnesses\<close>

definition demo_underlying :: underlying_snapshot where
  "demo_underlying = \<lparr>us_symbol = ''SPY'', us_exchange_time = at_utc 0, us_last = Some 500, us_bid = Some 499, us_ask = Some 501,
     us_mid = Some 500, us_bid_size = None, us_ask_size = None, us_cumulative_volume = None, us_source = ''demo''\<rparr>"

definition demo_quality :: quality_input where
  "demo_quality = \<lparr>qi_underlying = Some (In_Snapshot demo_underlying), qi_option_quotes = [], qi_option_surface = None,
     qi_bars_1m = [], qi_bars_5m = [], qi_trades = [], qi_observation_ids = [''o'', ''o''],
     qi_prior_cumulative_volume = Some 10, qi_current_cumulative_volume = Some 12, qi_snapshot_id = None\<rparr>"

theorem usable_for_execution_iff_witness:
  "case evaluate_data_quality ''r'' (at_utc (10 * usec)) demo_quality default_quality_config of
     Inl _ \<Rightarrow> False
   | Inr rep \<Rightarrow> qr_usable_for_execution rep \<and> qr_severity rep = SevWarning"
proof -
  have ok: "case evaluate_data_quality ''r'' (at_utc (10 * usec)) demo_quality default_quality_config of
      Inl _ \<Rightarrow> False | Inr rep \<Rightarrow> qr_severity rep = SevWarning"
    by code_simp
  then obtain rep where rep: "evaluate_data_quality ''r'' (at_utc (10 * usec)) demo_quality default_quality_config = Inr rep"
    "qr_severity rep = SevWarning"
    by (auto split: sum.splits)
  have "qr_usable_for_execution rep"
    unfolding usable_for_execution_iff [OF rep(1)]
    by (simp add: demo_quality_def demo_underlying_def default_quality_config_def all_books_def skew_times_def
        book_sound_def no_negative_def negative_def seconds_between_def)
  then show ?thesis using rep by simp
qed

end
