(* ===== verification/Order_Gateway.thy ===== *)
theory Order_Gateway
  imports Execution_Runtime Data_Quality
begin

text \<open>
  The order-action gateway (\<open>joker/runtime/order_action_gateway.py\<close>), the only path by which an
  agent's action becomes an order: it reloads the snapshot, its quality report and option surface
  (\<open>load_snapshot_truth\<close> of \<open>joker/graph/context_hydrate.py\<close>) and the ledger projection, validates
  the action against them, compiles an execution command and submits it through the execution
  runtime. \<open>parse_contract_id\<close> is from \<open>joker/agents/cognitive/execution.py\<close>. The texts of the
  validation errors are kept, because the gateway looks for words in them. The projection is the
  ledger's own, so the branches for dictionaries and foreign objects do not arise.
\<close>

section \<open>Contract ids\<close>

definition py_repr :: "string \<Rightarrow> string" where
  "py_repr t = CHR 0x27 # t @ [CHR 0x27]"

definition cognitive_error :: "string \<Rightarrow> py_error + 'a" where
  "cognitive_error msg = Inl (CognitiveValidationError msg)"

definition read_option_type :: "string \<Rightarrow> option_type option" where
  "read_option_type t = (if t = ''call'' then Some Call else if t = ''put'' then Some Put else None)"

definition parse_contract_id :: "string \<Rightarrow> int option \<Rightarrow> py_error + option_contract" where
  "parse_contract_id contract_id trading_date =
     (case split_on (CHR '':'') contract_id of
        [symbol, expiry_raw, strike_raw, otype] \<Rightarrow>
          (case read_option_type otype of
             None \<Rightarrow> cognitive_error (''invalid option_type in contract_id: '' @ py_repr contract_id)
           | Some ot \<Rightarrow>
               (case (parse_date expiry_raw, parse_number strike_raw) of
                  (Some expiry, Some strike) \<Rightarrow>
                    (case trading_date of
                       None \<Rightarrow> cognitive_error ''trading_date is required to derive 0DTE status for contract_id''
                     | Some day \<Rightarrow>
                         if expiry \<noteq> day
                         then cognitive_error
                                (''contract expiry must equal the snapshot exchange trading date (expiry='' @ date_text expiry
                                 @ '', trading_date='' @ date_text day @ ''); only 0DTE contracts are supported'')
                         else Inr \<lparr>oc_symbol = symbol, oc_expiration = expiry, oc_strike = strike, oc_type = ot,
                                   oc_is_0dte = True\<rparr>)
                | _ \<Rightarrow> cognitive_error (''invalid contract_id: '' @ py_repr contract_id)))
      | _ \<Rightarrow> cognitive_error (''unsupported contract_id format: '' @ py_repr contract_id @ ''; expected SYMBOL:date:strike:type''))"

section \<open>Requests and results\<close>

datatype order_action_kind = ENTRY | PROBE | ADD | REDUCE | EXIT | REPLACE

fun action_value :: "order_action_kind \<Rightarrow> string" where
  "action_value ENTRY = ''entry''"
| "action_value PROBE = ''probe''"
| "action_value ADD = ''add''"
| "action_value REDUCE = ''reduce''"
| "action_value EXIT = ''exit''"
| "action_value REPLACE = ''replace''"

record working_order =
  wo_client_order_id :: string
  wo_contract_id :: string
  wo_side :: side
  wo_requested_quantity :: int
  wo_filled_quantity :: int
  wo_remaining_quantity :: int
  wo_status :: string
  wo_proposal_id :: "string option"

record action_request =
  rq_action :: order_action_kind
  rq_snapshot_id :: string
  rq_contract_id :: string
  rq_side :: side
  rq_quantity :: int
  rq_client_order_id :: string
  rq_limit_price :: "pyfloat option"
  rq_order_type :: order_kind
  rq_max_quote_age_seconds :: "int option"
  rq_proposal_id :: "string option"
  rq_decision_id :: "string option"
  rq_strategy_id :: "string option"
  rq_cycle_id :: "string option"
  rq_replace_of :: "string option"
  rq_allow_degraded_exit :: bool
  rq_degraded_exit_reason :: "string option"
  rq_evidence_ids :: "string list"
  rq_broker_account_id :: string

record action_result =
  rs_submitted :: bool
  rs_client_order_id :: string
  rs_broker_order :: "broker_order option"
  rs_blocked_reason :: "string option"
  rs_degraded_exit :: bool
  rs_degraded_exit_reason :: "string option"
  rs_command :: "exec_command option"
  rs_working_orders :: "working_order list"

definition blocked :: "string \<Rightarrow> string \<Rightarrow> working_order list \<Rightarrow> action_result" where
  "blocked client reason working =
     \<lparr>rs_submitted = False, rs_client_order_id = client, rs_broker_order = None, rs_blocked_reason = Some reason,
      rs_degraded_exit = False, rs_degraded_exit_reason = None, rs_command = None, rs_working_orders = working\<rparr>"

definition submitted_result :: "exec_command \<Rightarrow> broker_order \<Rightarrow> string option \<Rightarrow> working_order list \<Rightarrow> action_result" where
  "submitted_result cmd ord degraded working =
     \<lparr>rs_submitted = True, rs_client_order_id = ec_client_order_id cmd, rs_broker_order = Some ord,
      rs_blocked_reason = None, rs_degraded_exit = (degraded \<noteq> None), rs_degraded_exit_reason = degraded,
      rs_command = Some cmd, rs_working_orders = working\<rparr>"

section \<open>Truth from the projection\<close>

definition working_statuses :: "string set" where
  "working_statuses = {''submitted'', ''accepted'', ''partially_filled'', ''open'', ''WORKING'', ''working''}"

definition working_of :: "(string, string) dict \<Rightarrow> order_lifecycle \<Rightarrow> working_order option" where
  "working_of proposals ord =
     (let status = order_status_value (ol_status ord);
          client = ol_client_order_id ord;
          requested = trunc_zero (ol_submitted_qty ord);
          filled = trunc_zero (ol_filled_qty ord)
      in if status \<notin> working_statuses \<or> client = [] then None
         else Some \<lparr>wo_client_order_id = client, wo_contract_id = ol_contract_id ord, wo_side = ol_side ord,
                   wo_requested_quantity = requested, wo_filled_quantity = filled,
                   wo_remaining_quantity = max 0 (requested - filled), wo_status = status,
                   wo_proposal_id = dict_get proposals client\<rparr>)"

definition working_orders_from_projection ::
  "projection_state option \<Rightarrow> (string, string) dict \<Rightarrow> working_order list" where
  "working_orders_from_projection projection proposals =
     (case projection of
        None \<Rightarrow> []
      | Some p \<Rightarrow> List.map_filter (working_of proposals) (dict_values (pr_orders p)))"

definition open_positions_from_projection :: "projection_state option \<Rightarrow> (string, position_state) dict" where
  "open_positions_from_projection projection =
     (case projection of
        None \<Rightarrow> []
      | Some p \<Rightarrow>
          foldl (\<lambda>d (key, pos).
              let cid = (if ps_contract_id pos = [] then key else ps_contract_id pos)
              in if ps_quantity pos = 0 \<or> cid = [] then d else dict_set cid pos d)
            [] (pr_positions p))"

definition has_working_entry_order :: "working_order list \<Rightarrow> bool" where
  "has_working_entry_order working \<longleftrightarrow> list_ex (\<lambda>w. wo_side w = Buy \<and> 0 < wo_remaining_quantity w) working"

section \<open>Validation\<close>

text \<open>A sequence of \<open>if condition: raise CognitiveValidationError(text)\<close>.\<close>

fun guard_all :: "(bool \<times> string) list \<Rightarrow> 'a \<Rightarrow> py_error + 'a" where
  "guard_all [] a = Inr a"
| "guard_all ((bad, msg) # cs) a = (if bad then cognitive_error msg else guard_all cs a)"

definition opt_truthy :: "string option \<Rightarrow> bool" where
  "opt_truthy t = (case t of None \<Rightarrow> False | Some s \<Rightarrow> s \<noteq> [])"

fun first_nonempty :: "string option list \<Rightarrow> string \<Rightarrow> string" where
  "first_nonempty [] dflt = dflt"
| "first_nonempty (t # ts) dflt = (case t of None \<Rightarrow> first_nonempty ts dflt
                                        | Some s \<Rightarrow> if s = [] then first_nonempty ts dflt else s)"

definition validate_quote_age :: "int option \<Rightarrow> contract_row \<Rightarrow> py_error + unit" where
  "validate_quote_age limit row =
     (case limit of
        None \<Rightarrow> Inr ()
      | Some s \<Rightarrow>
          if s * 1000 < cr_quote_age_ms row
          then cognitive_error (''quote age '' @ int_text (cr_quote_age_ms row) @ ''ms exceeds proposal limit '' @ int_text s @ ''s'')
          else Inr ())"

definition quality_guard :: "order_action_kind \<Rightarrow> quality_report option \<Rightarrow> (bool \<times> string) list" where
  "quality_guard action quality =
     (if action \<in> {ENTRY, PROBE, ADD, REPLACE}
      then [(case quality of None \<Rightarrow> True | Some q \<Rightarrow> \<not> qr_usable_for_execution q,
             ''data quality does not permit execution'' @
             (case quality of None \<Rightarrow> '' (missing)'' | Some q \<Rightarrow> '' (severity='' @ severity_value (qr_severity q) @ '')''))]
      else [])"

definition entry_guard :: "action_request \<Rightarrow> string set \<Rightarrow> working_order list \<Rightarrow> (string, position_state) dict \<Rightarrow> (bool \<times> string) list" where
  "entry_guard rq submitted working positions =
     (if rq_action rq \<in> {ENTRY, PROBE}
      then [(has_working_entry_order working, ''conflicting working entry order exists; no additional entry''),
            (opt_truthy (rq_proposal_id rq) \<and> the (rq_proposal_id rq) \<in> submitted, ''proposal/decision has already been submitted''),
            (opt_truthy (rq_proposal_id rq) \<and> list_ex (\<lambda>w. wo_proposal_id w = rq_proposal_id rq) working,
             ''conflicting active order exists for proposal''),
            (dict_get positions (rq_contract_id rq) \<noteq> None \<and> rq_action rq = ENTRY, ''conflicting active position exists for contract''),
            (rq_side rq \<noteq> Buy, ''entry/probe requires buy side'')]
      else [])"

definition add_guard :: "action_request \<Rightarrow> working_order list \<Rightarrow> (string, position_state) dict \<Rightarrow> (bool \<times> string) list" where
  "add_guard rq working positions =
     (if rq_action rq = ADD
      then [(rq_side rq \<noteq> Buy, ''ADD requires buy side''),
            (dict_get positions (rq_contract_id rq) = None, ''ADD requires an authoritative open position''),
            (has_working_entry_order (filter (\<lambda>w. wo_contract_id w = rq_contract_id rq) working),
             ''conflicting working order exists for ADD contract'')]
      else [])"

definition open_quantity :: "(string, position_state) dict \<Rightarrow> string \<Rightarrow> int" where
  "open_quantity positions cid =
     (case dict_get positions cid of None \<Rightarrow> 0 | Some pos \<Rightarrow> trunc_zero (ps_quantity pos))"

definition close_guard :: "action_request \<Rightarrow> working_order list \<Rightarrow> (string, position_state) dict \<Rightarrow> (bool \<times> string) list" where
  "close_guard rq working positions =
     (if rq_action rq \<in> {REDUCE, EXIT}
      then [(dict_get positions (rq_contract_id rq) = None, ''REDUCE/EXIT requires an authoritative open position''),
            (rq_side rq \<noteq> Sell, ''REDUCE/EXIT requires sell side''),
            (open_quantity positions (rq_contract_id rq) < rq_quantity rq,
             ''sell quantity '' @ int_text (rq_quantity rq) @ '' exceeds open quantity '' @
             int_text (open_quantity positions (rq_contract_id rq))),
            (list_ex (\<lambda>w. wo_client_order_id w = rq_client_order_id rq) working, ''duplicate closing command'')]
      else [])"

definition replace_match :: "action_request \<Rightarrow> working_order list \<Rightarrow> working_order option" where
  "replace_match rq working = find (\<lambda>w. Some (wo_client_order_id w) = rq_replace_of rq) working"

definition replace_guard :: "action_request \<Rightarrow> working_order list \<Rightarrow> (bool \<times> string) list" where
  "replace_guard rq working =
     (if rq_action rq = REPLACE
      then let match = the (replace_match rq working)
           in [(\<not> opt_truthy (rq_replace_of rq), ''replace requires replace_of_client_order_id''),
               (replace_match rq working = None, ''original order is not cancellable / not working''),
               (wo_remaining_quantity match \<le> 0, ''no remaining quantity to replace''),
               (wo_contract_id match \<noteq> rq_contract_id rq, ''replacement contract must match original lifecycle''),
               (wo_side match \<noteq> rq_side rq, ''replacement side must match original lifecycle''),
               (wo_remaining_quantity match < rq_quantity rq, ''replacement quantity exceeds remaining authoritative quantity'')]
      else [])"

definition compile_command :: "action_request \<Rightarrow> string \<Rightarrow> option_contract \<Rightarrow> side \<Rightarrow> int \<Rightarrow> exec_command" where
  "compile_command rq candidate contract sd qty =
     \<lparr>ec_client_order_id = rq_client_order_id rq,
      ec_intent = \<lparr>oi_intent_id = rq_client_order_id rq, oi_candidate_id = candidate, oi_contract = contract,
                   oi_side = sd, oi_order_type = rq_order_type rq, oi_quantity = qty,
                   oi_limit_price = rq_limit_price rq\<rparr>,
      ec_account = rq_broker_account_id rq\<rparr>"

definition surface_guard :: "market_state \<Rightarrow> surface option \<Rightarrow> (bool \<times> string) list" where
  "surface_guard snapshot sf =
     [(sf = None, ''referenced option surface does not exist''),
      (case (mk_option_surface_id snapshot, sf) of
         (Some sid, Some s) \<Rightarrow> sf_surface_id s \<noteq> sid | _ \<Rightarrow> False,
       ''option surface id does not match snapshot.option_surface_id'')]"

definition contract_guard :: "option_contract \<Rightarrow> market_state \<Rightarrow> (bool \<times> string) list" where
  "contract_guard contract snapshot =
     [(oc_symbol contract \<noteq> ''SPY'', ''only SPY contracts are supported''),
      (oc_expiration contract \<noteq> mk_trading_date snapshot, ''contract expiry must equal the snapshot exchange trading date'')]"

definition quantity_guard :: "action_request \<Rightarrow> int \<Rightarrow> (bool \<times> string) list" where
  "quantity_guard rq max_quantity =
     [(rq_quantity rq \<le> 0, ''quantity must be positive''),
      (max_quantity < rq_quantity rq,
       ''quantity '' @ int_text (rq_quantity rq) @ '' exceeds max_quantity='' @ int_text max_quantity)]"

text \<open>A later row of the surface wins over an earlier one with the same id.\<close>

definition surface_row :: "surface \<Rightarrow> string \<Rightarrow> contract_row option" where
  "surface_row sf cid = find (\<lambda>c. cr_contract_id c = cid) (rev (sf_contracts sf))"

definition validate_and_compile ::
  "int \<Rightarrow> string set \<Rightarrow> action_request \<Rightarrow> market_state \<Rightarrow> quality_report option \<Rightarrow> surface option \<Rightarrow>
   working_order list \<Rightarrow> (string, position_state) dict \<Rightarrow> py_error + exec_command" where
  "validate_and_compile max_quantity submitted rq snapshot quality sf working positions =
     sum_then (guard_all (quality_guard (rq_action rq) quality @ surface_guard snapshot sf) ()) (\<lambda>_.
     sum_then (parse_contract_id (rq_contract_id rq) (Some (mk_trading_date snapshot))) (\<lambda>contract.
     sum_then (guard_all (contract_guard contract snapshot) ()) (\<lambda>_.
     sum_then (case surface_row (the sf) (rq_contract_id rq) of
                 None \<Rightarrow> cognitive_error (''contract_id '' @ py_repr (rq_contract_id rq) @ '' is absent from the option surface'')
               | Some row \<Rightarrow> validate_quote_age (rq_max_quote_age_seconds rq) row) (\<lambda>_.
       guard_all (quantity_guard rq max_quantity @ entry_guard rq submitted working positions @ add_guard rq working positions
                  @ close_guard rq working positions @ replace_guard rq working)
         (compile_command rq (first_nonempty [rq_proposal_id rq, rq_decision_id rq] (rq_client_order_id rq)) contract
            (rq_side rq) (rq_quantity rq))))))"

definition compile_degraded_close ::
  "action_request \<Rightarrow> market_state \<Rightarrow> (string, position_state) dict \<Rightarrow> py_error + exec_command" where
  "compile_degraded_close rq snapshot positions =
     (let qty = min (rq_quantity rq) (open_quantity positions (rq_contract_id rq))
      in sum_then (guard_all
             [(dict_get positions (rq_contract_id rq) = None, ''degraded exit blocked: no authoritative open position''),
              (qty \<le> 0, ''degraded exit blocked: zero open quantity'')] ()) (\<lambda>_.
         sum_then (parse_contract_id (rq_contract_id rq) (Some (mk_trading_date snapshot))) (\<lambda>contract.
         sum_then (build_option_contract (contract\<lparr>oc_is_0dte := (oc_expiration contract = mk_trading_date snapshot)\<rparr>)) (\<lambda>c.
           Inr (compile_command rq (first_nonempty [rq_decision_id rq] (rq_client_order_id rq)) c Sell qty)))))"

section \<open>Loading the truth of a snapshot\<close>

text \<open>\<open>UUID(text)\<close>: 32 hexadecimal digits, with or without hyphens and braces; its canonical text.\<close>

definition is_hex :: "char \<Rightarrow> bool" where
  "is_hex c \<longleftrightarrow> is_digit c \<or> (let n = (of_char (char_lower c) :: nat) in 97 \<le> n \<and> n \<le> 102)"

definition parse_uuid :: "string \<Rightarrow> uuid option" where
  "parse_uuid t =
     (let h = py_lower (filter (\<lambda>c. c \<noteq> CHR ''-'' \<and> c \<noteq> CHR 0x7B \<and> c \<noteq> CHR 0x7D) t)
      in if length h = 32 \<and> list_all is_hex h
         then Some (take 8 h @ ''-'' @ take 4 (drop 8 h) @ ''-'' @ take 4 (drop 12 h) @ ''-'' @ take 4 (drop 16 h) @ ''-'' @ drop 20 h)
         else None)"

record 'b gateway_deps =
  gd_config :: exec_config
  gd_ops :: "'b broker_ops"
  gd_has_runtime :: bool
  gd_snapshots :: "snapshot_db option"
  gd_surfaces :: "surface_db option"
  gd_quality_loader :: "(uuid \<Rightarrow> market_state \<Rightarrow> quality_report option) option"
  gd_quality_repo :: "quality_db option"
  gd_quality_disk :: "quality_db option"
  gd_projection_loader :: "('b exec_state, projection_state option) run option"
  gd_has_provenance :: bool
  gd_max_quantity :: int

definition load_quality :: "'b gateway_deps \<Rightarrow> market_state \<Rightarrow> quality_report" where
  "load_quality d snapshot =
     (let rid = mk_data_quality_id snapshot;
          q1 = (case gd_quality_loader d of None \<Rightarrow> None | Some f \<Rightarrow> f rid snapshot);
          q2 = (case (q1, gd_quality_repo d) of (None, Some db) \<Rightarrow> report_by_id rid db | _ \<Rightarrow> q1);
          q3 = (case (q2, gd_quality_disk d) of (None, Some db) \<Rightarrow> report_by_id rid db | _ \<Rightarrow> q2)
      in case q3 of Some q \<Rightarrow> q | None \<Rightarrow> unavailable_report rid (Some (mk_snapshot_id snapshot)))"

definition load_surface :: "'b gateway_deps \<Rightarrow> market_state \<Rightarrow> surface option" where
  "load_surface d snapshot =
     (case (mk_option_surface_id snapshot, gd_surfaces d) of
        (Some sid, Some db) \<Rightarrow> surface_by_id sid db | _ \<Rightarrow> None)"

definition load_snapshot_truth :: "'b gateway_deps \<Rightarrow> string \<Rightarrow> py_error + (market_state \<times> quality_report \<times> surface option)" where
  "load_snapshot_truth d snapshot_id =
     (case gd_snapshots d of
        None \<Rightarrow> Inl RuntimeError
      | Some db \<Rightarrow>
          (case parse_uuid snapshot_id of
             None \<Rightarrow> Inl ValueError
           | Some sid \<Rightarrow>
               (case snapshot_by_id sid db of
                  None \<Rightarrow> Inl RuntimeError
                | Some snapshot \<Rightarrow> Inr (snapshot, load_quality d snapshot, load_surface d snapshot))))"

section \<open>Submitting\<close>

record provenance =
  pv_client_order_id :: string
  pv_proposal_id :: "string option"
  pv_decision_id :: "string option"
  pv_strategy_id :: "string option"
  pv_cycle_id :: "string option"
  pv_snapshot_id :: string
  pv_contract_id :: string
  pv_session_id :: string
  pv_kind :: string
  pv_degraded_reason :: "string option"
  pv_replace_of :: "string option"

record 'b gateway_state =
  gs_exec :: "'b exec_state"
  gs_submitted_proposals :: "string set"
  gs_provenance :: "(string, provenance) dict"

definition on_exec :: "('b exec_state, 'a) run \<Rightarrow> ('b gateway_state, 'a) run" where
  "on_exec m s = (case m (gs_exec s) of (r, x) \<Rightarrow> (r, s\<lparr>gs_exec := x\<rparr>))"

text \<open>\<open>INSERT OR REPLACE\<close>: the row of the key is removed and a new one inserted.\<close>

definition insert_or_replace :: "'k \<Rightarrow> 'v \<Rightarrow> ('k, 'v) dict \<Rightarrow> ('k, 'v) dict" where
  "insert_or_replace k v d = filter (\<lambda>kv. fst kv \<noteq> k) d @ [(k, v)]"

definition record_provenance :: "'b gateway_deps \<Rightarrow> action_request \<Rightarrow> exec_command \<Rightarrow> string option \<Rightarrow> ('b gateway_state, unit) run" where
  "record_provenance d rq cmd degraded =
     (if \<not> gd_has_provenance d then run_ret ()
      else run_modify (\<lambda>s. s\<lparr>gs_provenance := insert_or_replace (ec_client_order_id cmd)
             \<lparr>pv_client_order_id = ec_client_order_id cmd, pv_proposal_id = rq_proposal_id rq,
              pv_decision_id = rq_decision_id rq, pv_strategy_id = rq_strategy_id rq, pv_cycle_id = rq_cycle_id rq,
              pv_snapshot_id = rq_snapshot_id rq, pv_contract_id = rq_contract_id rq, pv_session_id = xc_session (gd_config d),
              pv_kind = action_value (rq_action rq), pv_degraded_reason = degraded,
              pv_replace_of = (if degraded = None then rq_replace_of rq else None)\<rparr> (gs_provenance s)\<rparr>))"

definition degraded_tokens :: "string list" where
  "degraded_tokens = [''data quality'', ''quote age'', ''option surface'', ''usable'']"

definition allows_degraded :: "action_request \<Rightarrow> string \<Rightarrow> bool" where
  "allows_degraded rq msg \<longleftrightarrow>
     rq_action rq \<in> {EXIT, REDUCE} \<and> rq_allow_degraded_exit rq \<and>
     list_ex (\<lambda>tok. contains_text tok (py_lower msg)) degraded_tokens"

definition submit_degraded ::
  "'b gateway_deps \<Rightarrow> action_request \<Rightarrow> market_state \<Rightarrow> (string, position_state) dict \<Rightarrow> string \<Rightarrow> working_order list \<Rightarrow>
   ('b gateway_state, action_result) run" where
  "submit_degraded d rq snapshot positions msg working =
     (let reason = first_nonempty [rq_degraded_exit_reason rq] msg
      in run_bind (run_lift (compile_degraded_close rq snapshot positions)) (\<lambda>cmd.
         run_bind (on_exec (submit_execution_command (gd_config d) (gd_ops d) cmd)) (\<lambda>ord.
         run_bind (record_provenance d rq cmd (Some reason)) (\<lambda>_.
           run_ret (submitted_result cmd ord (Some reason) working)))))"

definition submit_validated ::
  "'b gateway_deps \<Rightarrow> action_request \<Rightarrow> exec_command \<Rightarrow> working_order list \<Rightarrow> ('b gateway_state, action_result) run" where
  "submit_validated d rq cmd working =
     run_bind (if rq_action rq = REPLACE
               then run_bind (on_exec (cancel_client_order (gd_config d) (gd_ops d) (the (rq_replace_of rq)))) (\<lambda>_. run_ret ())
               else run_ret ()) (\<lambda>_.
     run_bind (on_exec (submit_execution_command (gd_config d) (gd_ops d) cmd)) (\<lambda>ord.
     run_bind (record_provenance d rq cmd None) (\<lambda>_.
     run_bind (if opt_truthy (rq_proposal_id rq)
               then run_modify (\<lambda>s. s\<lparr>gs_submitted_proposals := insert (the (rq_proposal_id rq)) (gs_submitted_proposals s)\<rparr>)
               else run_ret ()) (\<lambda>_.
       run_ret (submitted_result cmd ord None working)))))"

text \<open>The part of \<open>submit\<close> after the projection is loaded.\<close>

definition act_on_truth ::
  "'b gateway_deps \<Rightarrow> action_request \<Rightarrow> market_state \<Rightarrow> quality_report \<Rightarrow> surface option \<Rightarrow> projection_state option \<Rightarrow>
   ('b gateway_state, action_result) run" where
  "act_on_truth d rq snapshot quality sf projection s =
     (let working = working_orders_from_projection projection [];
          positions = open_positions_from_projection projection
      in case validate_and_compile (gd_max_quantity d) (gs_submitted_proposals s) rq snapshot (Some quality) sf working positions of
           Inr cmd \<Rightarrow> submit_validated d rq cmd working s
         | Inl (CognitiveValidationError msg) \<Rightarrow>
             if allows_degraded rq msg then submit_degraded d rq snapshot positions msg working s
             else run_ret (blocked (rq_client_order_id rq) msg working) s
         | Inl e \<Rightarrow> run_raise e s)"

definition load_projection :: "'b gateway_deps \<Rightarrow> ('b gateway_state, projection_state option) run" where
  "load_projection d = (case gd_projection_loader d of None \<Rightarrow> run_ret None | Some m \<Rightarrow> on_exec m)"

definition gateway_submit :: "'b gateway_deps \<Rightarrow> action_request \<Rightarrow> ('b gateway_state, action_result) run" where
  "gateway_submit d rq =
     (if \<not> gd_has_runtime d then run_ret (blocked (rq_client_order_id rq) ''ExecutionRuntime unavailable'' [])
      else run_bind (run_lift (load_snapshot_truth d (rq_snapshot_id rq))) (\<lambda>(snapshot, quality, sf).
           run_bind (load_projection d) (act_on_truth d rq snapshot quality sf)))"

record provenanced_command =
  pc_command :: exec_command
  pc_decision_id :: string
  pc_strategy_id :: string
  pc_proposal_id :: string
  pc_snapshot_id :: string
  pc_cycle_id :: string
  pc_evidence_ids :: "string list"
  pc_max_quote_age_seconds :: "int option"

definition provenanced_to_action_request :: "provenanced_command \<Rightarrow> order_action_kind \<Rightarrow> action_request" where
  "provenanced_to_action_request p action =
     (let intent = ec_intent (pc_command p)
      in \<lparr>rq_action = action, rq_snapshot_id = pc_snapshot_id p, rq_contract_id = contract_id_for (oi_contract intent),
          rq_side = oi_side intent, rq_quantity = oi_quantity intent,
          rq_client_order_id = ec_client_order_id (pc_command p), rq_limit_price = oi_limit_price intent,
          rq_order_type = oi_order_type intent, rq_max_quote_age_seconds = pc_max_quote_age_seconds p,
          rq_proposal_id = Some (pc_proposal_id p), rq_decision_id = Some (pc_decision_id p),
          rq_strategy_id = Some (pc_strategy_id p), rq_cycle_id = Some (pc_cycle_id p), rq_replace_of = None,
          rq_allow_degraded_exit = True, rq_degraded_exit_reason = None, rq_evidence_ids = pc_evidence_ids p,
          rq_broker_account_id = ec_account (pc_command p)\<rparr>)"

end
