(* ===== verification/Ledger_Invariants.thy ===== *)
theory Ledger_Invariants
  imports Ledger_Projector
begin

text \<open>
  What the projector guarantees: the frame of the fee bookkeeping, the well-formedness of every
  projected position, the clamp on fills, the order life cycle, and the refinement of the
  position arithmetic to a cash account.
\<close>

named_theorems frame_simps

lemma put_order_sel [frame_simps, simp]:
  "lv_orders (put_order k m v) = dict_set k m (lv_orders v)"
  "lv_positions (put_order k m v) = lv_positions v"
  by (simp_all add: put_order_def)

lemma put_position_sel [frame_simps, simp]:
  "lv_positions (put_position k p v) = dict_set k p (lv_positions v)"
  "lv_orders (put_position k p v) = lv_orders v"
  by (simp_all add: put_position_def)

lemma new_position_sel [simp]:
  "mp_contract_id (new_mutable_position c) = c" "mp_quantity (new_mutable_position c) = 0"
  "mp_avg_price (new_mutable_position c) = None" "mp_realized_pnl (new_mutable_position c) = 0"
  "mp_fees (new_mutable_position c) = 0" "mp_open (new_mutable_position c) = False"
  by (simp_all add: new_mutable_position_def)

lemma note_broker_id_sel [simp]:
  "mo_client_order_id (note_broker_id e m) = mo_client_order_id m"
  "mo_status (note_broker_id e m) = mo_status m"
  "mo_submitted_qty (note_broker_id e m) = mo_submitted_qty m"
  "mo_filled_qty (note_broker_id e m) = mo_filled_qty m"
  "mo_avg_fill_price (note_broker_id e m) = mo_avg_fill_price m"
  by (auto simp: note_broker_id_def split: option.splits)

section \<open>Reading a view\<close>

text \<open>What matters of a position and of an order, fees apart; a missing position is a flat one.\<close>

primrec core_of :: "mutable_position option \<Rightarrow> decimal \<times> decimal option \<times> decimal \<times> bool" where
  "core_of None = (0, None, 0, False)"
| "core_of (Some p) = (mp_quantity p, mp_avg_price p, mp_realized_pnl p, mp_open p)"

definition pos_core :: "ledger_view \<Rightarrow> string \<Rightarrow> decimal \<times> decimal option \<times> decimal \<times> bool" where
  "pos_core v c = core_of (dict_get (lv_positions v) c)"

definition order_core :: "ledger_view \<Rightarrow> string \<Rightarrow> mutable_order option" where
  "order_core v k = map_option (\<lambda>m. m\<lparr>mo_fees := 0\<rparr>) (dict_get (lv_orders v) k)"

lemma pos_core_put_order [frame_simps, simp]: "pos_core (put_order k m v) c = pos_core v c"
  by (simp add: pos_core_def)

lemma pos_core_put_position [frame_simps]:
  "pos_core (put_position k p v) c =
     (if c = k then core_of (Some p) else pos_core v c)"
  by (simp add: pos_core_def)

lemma pos_core_ensure_order [frame_simps, simp]:
  "pos_core (snd (ensure_order e v)) c = pos_core v c"
  by (simp add: ensure_order_def pos_core_def Let_def split: option.splits)

lemma ensure_position_core [frame_simps, simp]:
  "pos_core (snd (ensure_position k v)) c = pos_core v c"
  "lv_orders (snd (ensure_position k v)) = lv_orders v"
  by (auto simp: ensure_position_def pos_core_def Let_def split: option.splits)

lemma ensure_position_fst:
  "fst (ensure_position k v) =
     (case dict_get (lv_positions v) k of None \<Rightarrow> new_mutable_position k | Some p \<Rightarrow> p)"
  by (simp add: ensure_position_def Let_def split: option.splits)

lemma core_of_ensure_position: "core_of (Some (fst (ensure_position k v))) = pos_core v k"
  by (simp add: ensure_position_fst pos_core_def split: option.splits)

lemma core_of_fees [simp]: "core_of (Some (p\<lparr>mp_fees := f\<rparr>)) = core_of (Some p)"
  by simp

lemma add_fees_pos_core [frame_simps, simp]: "pos_core (add_fees b e v) c = pos_core v c"
proof -
  have touched: "pos_core (put_position k (p\<lparr>mp_fees := f\<rparr>) w) c = pos_core w c"
    if "core_of (Some p) = pos_core w k" for k p f w
    using that by (simp add: pos_core_put_position)
  have known: "pos_core (put_position k (p\<lparr>mp_fees := f\<rparr>) w) c = pos_core w c"
    if "dict_get (lv_positions w) k = Some p" for k p f w
    using that by (intro touched) (simp add: pos_core_def)
  show ?thesis
    by (auto simp add: add_fees_def Let_def case_prod_beta touched core_of_ensure_position known
        simp del: core_of.simps split: option.splits)
qed

lemma order_core_put_order [frame_simps]:
  "order_core (put_order k m v) j = (if j = k then Some (m\<lparr>mo_fees := 0\<rparr>) else order_core v j)"
  by (simp add: order_core_def)

lemma order_core_put_position [frame_simps, simp]: "order_core (put_position k p v) j = order_core v j"
  by (simp add: order_core_def)

lemma order_core_ensure_position [frame_simps, simp]:
  "order_core (snd (ensure_position k v)) j = order_core v j"
  by (simp add: order_core_def)

lemma add_fees_order_core [frame_simps, simp]: "order_core (add_fees b e v) k = order_core v k"
  by (auto simp: add_fees_def Let_def case_prod_beta order_core_def split: option.splits)

lemma pos_core_apply_fill_to_position:
  "pos_core (apply_fill_to_position e price a v) c =
     (if 0 < a \<and> c = le_contract_id e
      then core_of (Some (fill_position (fst (ensure_position c v)) (le_side e) a price (le_position_id e)))
      else pos_core v c)"
  by (simp add: apply_fill_to_position_def case_prod_beta pos_core_put_position del: core_of.simps)

section \<open>Only fills and corrections move a position\<close>

definition fill_of :: "ledger_event \<Rightarrow> ledger_view \<Rightarrow> (decimal \<times> decimal) option" where
  "fill_of e v =
     (if le_type e \<in> fill_types then
        (case le_price e of
           None \<Rightarrow> None
         | Some price \<Rightarrow>
             if le_quantity e \<le> 0 then None
             else let a = fst (accumulate_fill (note_broker_id e (fst (ensure_order e v)))
                                 (le_quantity e) price (allow_overfill e))
                  in if a \<le> 0 then None else Some (a, price))
      else None)"

lemma pos_core_apply_fill:
  assumes "le_type e \<in> fill_types"
  shows "pos_core (apply_fill e v) c =
     (case fill_of e v of
        None \<Rightarrow> pos_core v c
      | Some (a, price) \<Rightarrow>
          if c = le_contract_id e
          then core_of (Some (fill_position (fst (ensure_position c v)) (le_side e) a price (le_position_id e)))
          else pos_core v c)"
proof -
  obtain m v1 where eo: "ensure_order e v = (m, v1)" by (cases "ensure_order e v") auto
  have pos1: "lv_positions v1 = lv_positions v"
    using eo by (auto simp: ensure_order_def Let_def split: option.splits)
  have ep: "fst (ensure_position c (put_order k x v1)) = fst (ensure_position c v)" for c k x
    by (simp add: ensure_position_def pos1 Let_def split: option.splits)
  have pc: "pos_core v1 c = pos_core v c" for c
    by (simp add: pos_core_def pos1)
  show ?thesis
    using assms eo
    by (auto simp: apply_fill_def fill_of_def Let_def pos_core_apply_fill_to_position ep pc
        split: option.splits prod.splits)
qed

lemma pos_core_apply_event_other:
  assumes "le_type e \<notin> fill_types" "le_type e \<noteq> RECONCILIATION_CORRECTION"
    and "apply_event e v = Inr v'"
  shows "pos_core v' c = pos_core v c"
proof -
  have eo: "pos_core v1 c = pos_core v c" if "ensure_order e v = (m, v1)" for m v1
    using pos_core_ensure_order [of e v c] that by simp
  show ?thesis
    using assms eo
    by (cases "le_type e")
       (auto simp: apply_event_def fill_types_def apply_submission_def apply_accepted_def
         apply_cancellation_def apply_rejection_def Let_def split: prod.splits option.splits)
qed

text \<open>
  Only fills and reconciliation corrections change a position: applying any other
  ledger event (submission, acceptance, cancellation, rejection, fees, and the legacy
  POSITION_OPENED / RESIZED / CLOSED events) leaves the quantity, the average price, the
  realised P&L and the open flag of every contract as they were.
\<close>

theorem non_fill_events_keep_positions:
  assumes "le_type e \<notin> {PARTIAL_FILL, FINAL_FILL, RECONCILIATION_CORRECTION}"
    and "apply_event e v = Inr v'"
  shows "pos_core v' c = pos_core v c"
  using pos_core_apply_event_other [OF _ _ assms(2)] assms(1) by (simp add: fill_types_def)


section \<open>One fill on one position\<close>

definition position_wf :: "decimal \<times> decimal option \<times> decimal \<times> bool \<Rightarrow> bool" where
  "position_wf x \<longleftrightarrow> (case x of (q, avg, pnl, opn) \<Rightarrow> (opn \<longleftrightarrow> q \<noteq> 0) \<and> (q = 0 \<longrightarrow> avg = None))"

definition position_costed :: "decimal \<times> decimal option \<times> decimal \<times> bool \<Rightarrow> bool" where
  "position_costed x \<longleftrightarrow> (case x of (q, avg, pnl, opn) \<Rightarrow> q \<noteq> 0 \<longrightarrow> avg \<noteq> None)"

lemma fill_position_wf:
  assumes "position_wf (core_of (Some p))" "0 < a"
  shows "position_wf (core_of (Some (fill_position p sd a price i)))"
  using assms
  by (cases sd) (auto simp: position_wf_def fill_position_def signed_qty_def resize_position_def
      realize_def Let_def split: option.splits)

lemma fill_position_costed:
  assumes "position_costed (core_of (Some p))" "0 < a"
  shows "position_costed (core_of (Some (fill_position p sd a price i)))"
  using assms
  by (cases sd) (auto simp: position_costed_def fill_position_def signed_qty_def resize_position_def
      realize_def Let_def split: option.splits)

text \<open>
  The abstract account: a signed quantity and a cash balance. A fill moves the quantity towards
  its sign, never through zero, and pays for exactly the quantity it moved.
\<close>

definition spec_fill :: "decimal \<Rightarrow> decimal \<Rightarrow> decimal \<times> decimal \<Rightarrow> decimal \<times> decimal" where
  "spec_fill signed price acc = (case acc of (q, cash) \<Rightarrow>
     let q' = (if 0 \<le> q * signed then q + signed
               else if \<bar>q\<bar> \<le> \<bar>signed\<bar> then 0 else q + signed)
     in (q', cash - 100 * (q' - q) * price))"

definition cost_price :: "decimal option \<Rightarrow> decimal" where
  "cost_price avg = (case avg of None \<Rightarrow> 0 | Some a \<Rightarrow> a)"

definition account_of :: "decimal \<times> decimal option \<times> decimal \<times> bool \<Rightarrow> decimal \<times> decimal" where
  "account_of x = (case x of (q, avg, pnl, opn) \<Rightarrow> (q, pnl - 100 * q * cost_price avg))"

lemma fill_position_refines_open:
  assumes "mp_quantity p = 0" "0 < a"
  shows "account_of (core_of (Some (fill_position p sd a price i))) =
         spec_fill (signed_qty sd a) price (account_of (core_of (Some p)))"
  using assms
  by (cases sd) (auto simp: account_of_def spec_fill_def fill_position_def signed_qty_def
      cost_price_def Let_def algebra_simps)

lemma resize_mean:
  fixes q s avg price :: decimal
  assumes "0 < q * s"
  shows "(q + s) * ((avg * \<bar>q\<bar> + price * \<bar>s\<bar>) / (\<bar>q\<bar> + \<bar>s\<bar>)) = avg * q + price * s"
proof -
  have "0 < \<bar>q\<bar>" using assms by auto
  then have nz: "\<bar>q\<bar> + \<bar>s\<bar> \<noteq> 0" by linarith
  consider "0 < q" "0 < s" | "q < 0" "s < 0" using assms by (auto simp: zero_less_mult_iff)
  then have "(q + s) * (avg * \<bar>q\<bar> + price * \<bar>s\<bar>) = (avg * q + price * s) * (\<bar>q\<bar> + \<bar>s\<bar>)"
    by cases (simp_all add: algebra_simps)
  then show ?thesis using nz by (simp add: field_simps)
qed

lemma fill_position_refines_grow:
  assumes "mp_avg_price p = Some avg" "0 < mp_quantity p * signed_qty sd a" "0 < a"
  shows "account_of (core_of (Some (fill_position p sd a price i))) =
         spec_fill (signed_qty sd a) price (account_of (core_of (Some p)))"
proof -
  let ?q = "mp_quantity p" and ?s = "signed_qty sd a"
  have same: "(0 < ?q \<and> 0 < ?s) \<or> (?q < 0 \<and> ?s < 0)" and nz: "?q \<noteq> 0" "?q + ?s \<noteq> 0"
    using assms(2) by (auto simp: zero_less_mult_iff)
  have fp: "fill_position p sd a price i = resize_position p ?s price"
    using same nz by (auto simp: fill_position_def Let_def)
  have "account_of (core_of (Some (fill_position p sd a price i))) =
        (?q + ?s, mp_realized_pnl p - 100 * ((?q + ?s) * ((avg * \<bar>?q\<bar> + price * \<bar>?s\<bar>) / (\<bar>?q\<bar> + \<bar>?s\<bar>))))"
    using assms(1) nz by (simp add: fp resize_position_def account_of_def cost_price_def Let_def mult.assoc)
  also have "\<dots> = (?q + ?s, mp_realized_pnl p - 100 * (avg * ?q + price * ?s))"
    by (simp only: resize_mean [OF assms(2)])
  finally show ?thesis
    using assms by (simp add: spec_fill_def account_of_def cost_price_def Let_def algebra_simps)
qed

lemma fill_position_refines_close:
  assumes "mp_avg_price p = Some avg" "mp_quantity p * signed_qty sd a < 0" "0 < a"
  shows "account_of (core_of (Some (fill_position p sd a price i))) =
         spec_fill (signed_qty sd a) price (account_of (core_of (Some p)))"
proof -
  let ?q = "mp_quantity p" and ?s = "signed_qty sd a"
  consider "0 < ?q" "?s < 0" | "?q < 0" "0 < ?s"
    using assms(2) by (auto simp: mult_less_0_iff)
  then show ?thesis
    using assms(1)
    by cases
       (auto simp: fill_position_def realize_def multiplier_def account_of_def spec_fill_def
         cost_price_def Let_def min_def algebra_simps mult_less_0_iff zero_le_mult_iff)
qed

lemma fill_position_refines:
  assumes "position_costed (core_of (Some p))" "0 < a"
  shows "account_of (core_of (Some (fill_position p sd a price i))) =
         spec_fill (signed_qty sd a) price (account_of (core_of (Some p)))"
proof (cases "mp_quantity p = 0")
  case True
  then show ?thesis using assms(2) by (rule fill_position_refines_open)
next
  case False
  then obtain avg where avg: "mp_avg_price p = Some avg"
    using assms(1) by (auto simp: position_costed_def)
  have "mp_quantity p * signed_qty sd a \<noteq> 0"
    using False assms(2) by (cases sd) (auto simp: signed_qty_def)
  then consider "0 < mp_quantity p * signed_qty sd a" | "mp_quantity p * signed_qty sd a < 0"
    by linarith
  then show ?thesis
    by cases (rule fill_position_refines_grow [OF avg _ assms(2)],
      assumption, rule fill_position_refines_close [OF avg _ assms(2)], assumption)
qed

lemma realize_sel [simp]: "mp_quantity (realize p c x) = mp_quantity p"
  by (simp add: realize_def Let_def split: option.splits)

lemma resize_position_quantity: "mp_quantity (resize_position p d x) = mp_quantity p + d"
  by (simp add: resize_position_def Let_def split: option.splits)

lemma fill_position_quantity:
  assumes "0 < a"
  shows "mp_quantity (fill_position p sd a price i) =
    fst (spec_fill (signed_qty sd a) price (mp_quantity p, 0))"
proof -
  let ?q = "mp_quantity p" and ?s = "signed_qty sd a"
  have s: "?s \<noteq> 0" using assms by (cases sd) (auto simp: signed_qty_def)
  consider "?q = 0" | "0 < ?q" "0 < ?s" | "?q < 0" "?s < 0" | "0 < ?q" "?s < 0" | "?q < 0" "0 < ?s"
    using s by linarith
  then show ?thesis
    by cases (simp_all add: fill_position_def spec_fill_def Let_def resize_position_quantity
        mult_pos_pos mult_neg_neg zero_le_mult_iff min_def)
qed

text \<open>
  A fill never carries a position through zero: a long position stays long or becomes
  flat, a short one stays short or becomes flat, and an opposite fill changes the quantity by
  exactly the smaller of the two sizes.
\<close>

theorem fill_never_flips_position:
  assumes "0 < a"
  shows "(0 < mp_quantity p \<longrightarrow> 0 \<le> mp_quantity (fill_position p sd a price i)) \<and>
    (mp_quantity p < 0 \<longrightarrow> mp_quantity (fill_position p sd a price i) \<le> 0) \<and>
    (mp_quantity p * signed_qty sd a < 0 \<longrightarrow>
      \<bar>mp_quantity (fill_position p sd a price i) - mp_quantity p\<bar> = min \<bar>mp_quantity p\<bar> a)"
proof -
  let ?q = "mp_quantity p" and ?s = "signed_qty sd a"
  have s: "\<bar>?s\<bar> = a" using assms by (cases sd) (auto simp: signed_qty_def)
  consider "?q = 0" | "0 < ?q" "0 < ?s" | "?q < 0" "?s < 0" | "0 < ?q" "?s < 0" | "?q < 0" "0 < ?s"
    using s assms by linarith
  then show ?thesis
    using s by cases (auto simp: fill_position_quantity [OF assms] spec_fill_def Let_def
        zero_le_mult_iff mult_less_0_iff min_def)
qed

theorem fill_never_flips_position_witness:
  "0 \<le> mp_quantity (fill_position ((new_mutable_position ''c'')\<lparr>mp_quantity := 2\<rparr>) Sell 5 3 None)"
  using fill_never_flips_position [of 5 "(new_mutable_position ''c'')\<lparr>mp_quantity := 2\<rparr>" Sell 3 None]
  by simp

section \<open>Whole projections\<close>

lemma pos_core_apply_correction:
  assumes "apply_correction e v = Inr v'"
  shows "pos_core v' c =
     (if correction_kind_is ''position_quantity'' e \<and> c = le_contract_id e
      then (let q = (case dict_get (le_metadata e) ''absolute_quantity'' of
                       Some x \<Rightarrow> projr (meta_decimal x)
                     | None \<Rightarrow> signed_qty (le_side e) (le_quantity e));
                (q0, avg0, pnl0, opn0) = pos_core v c
            in (q, if q = 0 then None else case le_price e of None \<Rightarrow> avg0 | Some x \<Rightarrow> Some x,
                pnl0, q \<noteq> 0))
      else pos_core v c)"
proof -
  define w where "w = (let v1 = (if correction_kind_is ''order_status'' e then correct_order_status e v else v)
    in if correction_kind_is ''order_fill_qty'' e then correct_order_fill_qty e v1 else v1)"
  have w: "pos_core w c = pos_core v c" for c
    by (simp add: w_def correct_order_status_def correct_order_fill_qty_def Let_def
        split: option.splits meta_val.splits)
  show ?thesis
  proof (cases "correction_kind_is ''position_quantity'' e")
    case False
    then have "v' = add_fees True e w"
      using assms by (simp add: apply_correction_def w_def Let_def)
    then show ?thesis using False by (simp add: w)
  next
    case True
    let ?r = "case dict_get (le_metadata e) ''absolute_quantity'' of Some x \<Rightarrow> meta_decimal x
      | None \<Rightarrow> Inr (signed_qty (le_side e) (le_quantity e))"
    obtain w' where w': "correct_position_quantity e w = Inr w'" "v' = add_fees True e w'"
      using assms True
      by (cases "correct_position_quantity e w") (auto simp: apply_correction_def w_def Let_def)
    obtain q where q: "?r = Inr q"
      using w'(1) by (cases ?r) (auto simp: correct_position_quantity_def case_prod_beta)
    have q': "(case dict_get (le_metadata e) ''absolute_quantity'' of
                       Some x \<Rightarrow> projr (meta_decimal x)
                     | None \<Rightarrow> signed_qty (le_side e) (le_quantity e)) = q"
      using q by (auto split: option.splits)
    have "pos_core v (le_contract_id e) = core_of (Some (fst (ensure_position (le_contract_id e) w)))"
      by (simp only: core_of_ensure_position w)
    then show ?thesis
      using w' q True
      by (auto simp: q' correct_position_quantity_def case_prod_beta Let_def pos_core_put_position w
          split: option.splits)
  qed
qed

lemma apply_event_wf:
  assumes "\<And>c. position_wf (pos_core v c)" "apply_event e v = Inr v'"
  shows "position_wf (pos_core v' c)"
proof -
  consider "le_type e \<in> fill_types" | "le_type e = RECONCILIATION_CORRECTION"
    | "le_type e \<notin> fill_types" "le_type e \<noteq> RECONCILIATION_CORRECTION" by blast
  then show ?thesis
  proof cases
    case 1
    then have "v' = apply_fill e v" using assms(2) by (auto simp: apply_event_def fill_types_def)
    then show ?thesis
      using assms(1) by (auto simp: pos_core_apply_fill [OF 1] fill_of_def Let_def core_of_ensure_position
          simp del: core_of.simps intro!: fill_position_wf split: option.splits if_splits)
  next
    case 2
    then have "apply_correction e v = Inr v'" using assms(2) by (simp add: apply_event_def)
    then show ?thesis
      using assms(1) [of c]
      by (auto simp: pos_core_apply_correction position_wf_def Let_def split: prod.splits option.splits)
  next
    case 3
    then show ?thesis using assms by (simp add: pos_core_apply_event_other)
  qed
qed

lemma apply_event_costed:
  assumes "\<And>c. position_costed (pos_core v c)" "apply_event e v = Inr v'"
    and "le_type e \<noteq> RECONCILIATION_CORRECTION"
  shows "position_costed (pos_core v' c)"
proof (cases "le_type e \<in> fill_types")
  case True
  then have "v' = apply_fill e v" using assms(2) by (auto simp: apply_event_def fill_types_def)
  then show ?thesis
    using assms(1) by (auto simp: pos_core_apply_fill [OF True] fill_of_def Let_def core_of_ensure_position
        simp del: core_of.simps intro!: fill_position_costed split: option.splits if_splits)
next
  case False
  then show ?thesis using assms by (simp add: pos_core_apply_event_other)
qed

abbreviation view_of :: "project_loop_state \<Rightarrow> ledger_view" where
  "view_of st \<equiv> snd (snd st)"

lemma project_step_view:
  assumes "project_step e st = Inr st'"
  shows "(already_seen st e \<and> st' = st) \<or> (\<not> already_seen st e \<and> apply_event e (view_of st) = Inr (view_of st'))"
  using assms
  by (cases "apply_event e (view_of st)")
     (auto simp: project_step_def already_seen_def case_prod_beta split: if_splits)

lemma pos_core_empty_view [simp]: "pos_core empty_view c = (0, None, 0, False)"
  by (simp add: empty_view_def pos_core_def)

lemma project_loop_invariant:
  assumes "project_loop es = Inr st" and "P empty_view"
    and "\<And>e v v'. e \<in> set es \<Longrightarrow> P v \<Longrightarrow> apply_event e v = Inr v' \<Longrightarrow> P v'"
  shows "P (view_of st)"
  using assms(1) unfolding project_loop_def
  by (rule fold_sum_invariant [where P = "\<lambda>st. P (view_of st)", rotated 2])
     (use assms(2,3) in \<open>auto dest!: project_step_view\<close>)

lemma project_loop_wf:
  assumes "project_loop es = Inr st"
  shows "position_wf (pos_core (view_of st) c)"
  using project_loop_invariant [OF assms, where P = "\<lambda>v. \<forall>c. position_wf (pos_core v c)"]
  by (simp add: position_wf_def [of "(0, None, 0, False)"]) (blast intro: apply_event_wf)

lemma project_Inr:
  assumes "project es = Inr s"
  obtains st where "project_loop es = Inr st" "s = freeze_view st"
  using assms by (cases "project_loop es") (auto simp: project_def)

lemma freeze_view_get:
  "dict_get (pr_positions (freeze_view st)) c = map_option position_to_model (dict_get (lv_positions (view_of st)) c)"
  "dict_get (pr_orders (freeze_view st)) k = map_option order_to_model (dict_get (lv_orders (view_of st)) k)"
  by (cases st; simp add: freeze_view_def Let_def dict_get_map_values)+

lemma freeze_view_core:
  assumes "dict_get (pr_positions (freeze_view st)) c = Some p"
  shows "\<exists>opn. pos_core (view_of st) c = (ps_quantity p, ps_avg_price p, ps_realized_pnl p, opn) \<and>
    ps_open p = (opn \<and> ps_quantity p \<noteq> 0)"
  using assms by (auto simp: freeze_view_get pos_core_def position_to_model_def)

text \<open>
  Claim C28. Whatever events the ledger holds, every projected position is well formed: it is
  open exactly when its quantity is not zero, and a flat position has no average price.
\<close>

theorem projected_positions_well_formed:
  assumes "project es = Inr s" "dict_get (pr_positions s) c = Some p"
  shows "ps_open p = (ps_quantity p \<noteq> 0) \<and> (ps_quantity p = 0 \<longrightarrow> ps_avg_price p = None)"
proof -
  obtain st where st: "project_loop es = Inr st" "s = freeze_view st"
    using assms(1) by (rule project_Inr)
  show ?thesis
    using freeze_view_core [of st c p] assms(2) project_loop_wf [OF st(1), of c] st(2)
    by (auto simp: position_wf_def)
qed

text \<open>
  Claim C30. Replaying events the ledger has already delivered changes nothing: if every event of
  \<open>fs\<close> has the id and the idempotency key of some event of \<open>es\<close>, projecting \<open>es\<close> followed by
  \<open>fs\<close> gives the projection of \<open>es\<close>.
\<close>

theorem project_replay_idempotent:
  assumes "\<And>e. e \<in> set fs \<Longrightarrow> \<exists>d \<in> set es. le_id d = le_id e \<and> le_key d = le_key e"
  shows "project (es @ fs) = project es"
  using pj.replay_all [OF assms] by (simp add: project_def project_loop_def)

section \<open>Realised P&L is the cash of the applied fills\<close>

text \<open>One applied fill: client order, contract, signed quantity, price.\<close>

type_synonym fill_entry = "string \<times> string \<times> decimal \<times> decimal"

definition log_entry :: "ledger_event \<Rightarrow> project_loop_state \<Rightarrow> fill_entry list" where
  "log_entry e st =
     (if already_seen st e then []
      else case fill_of e (view_of st) of
             None \<Rightarrow> []
           | Some (a, price) \<Rightarrow> [(le_client_order_id e, le_contract_id e, signed_qty (le_side e) a, price)])"

fun fill_log_from :: "ledger_event list \<Rightarrow> project_loop_state \<Rightarrow> fill_entry list" where
  "fill_log_from [] st = []"
| "fill_log_from (e # es) st =
     (case project_step e st of Inl _ \<Rightarrow> [] | Inr st' \<Rightarrow> log_entry e st @ fill_log_from es st')"

definition fill_log :: "ledger_event list \<Rightarrow> fill_entry list" where
  "fill_log es = fill_log_from es ({}, {}, empty_view)"

definition account_run :: "string \<Rightarrow> fill_entry list \<Rightarrow> decimal \<times> decimal \<Rightarrow> decimal \<times> decimal" where
  "account_run c entries acc =
     fold (\<lambda>(k, c', signed, price) acc. if c' = c then spec_fill signed price acc else acc) entries acc"

lemma account_run_append:
  "account_run c (xs @ ys) acc = account_run c ys (account_run c xs acc)"
  by (simp add: account_run_def)

lemma fill_of_Some:
  "fill_of e v = Some (a, price) \<Longrightarrow> 0 < a \<and> le_type e \<in> fill_types \<and> le_price e = Some price"
  by (auto simp: fill_of_def Let_def split: if_splits option.splits)

lemma account_apply_event:
  assumes "\<And>c. position_costed (pos_core v c)" "apply_event e v = Inr v'"
    and "le_type e \<noteq> RECONCILIATION_CORRECTION"
  shows "account_of (pos_core v' c) =
    (case fill_of e v of
       Some (a, price) \<Rightarrow>
         if le_contract_id e = c then spec_fill (signed_qty (le_side e) a) price (account_of (pos_core v c))
         else account_of (pos_core v c)
     | None \<Rightarrow> account_of (pos_core v c))"
proof (cases "le_type e \<in> fill_types")
  case True
  then have v': "v' = apply_fill e v" using assms(2) by (auto simp: apply_event_def fill_types_def)
  have "account_of (core_of (Some (fill_position (fst (ensure_position c v)) sd a price i))) =
      spec_fill (signed_qty sd a) price (account_of (pos_core v c))" if "0 < a" for sd a price i
    using fill_position_refines [of "fst (ensure_position c v)" a sd price i] that assms(1)
    by (simp only: core_of_ensure_position)
  then show ?thesis
    by (auto simp: v' pos_core_apply_fill [OF True] simp del: core_of.simps
        dest!: fill_of_Some split: option.splits)
next
  case False
  then show ?thesis using assms by (simp add: pos_core_apply_event_other fill_of_def)
qed

lemma account_fold:
  assumes "\<And>c. position_costed (pos_core (view_of st) c)"
    and "fold_sum project_step es st = Inr st'"
    and "\<And>e. e \<in> set es \<Longrightarrow> le_type e \<noteq> RECONCILIATION_CORRECTION"
  shows "account_of (pos_core (view_of st') c) =
    account_run c (fill_log_from es st) (account_of (pos_core (view_of st) c))"
  using assms
proof (induction es arbitrary: st)
  case Nil
  then show ?case by (simp add: account_run_def)
next
  case (Cons e es)
  obtain st1 where st1: "project_step e st = Inr st1" "fold_sum project_step es st1 = Inr st'"
    using Cons.prems(2) by (auto split: sum.splits)
  have ne: "le_type e \<noteq> RECONCILIATION_CORRECTION" using Cons.prems(3) by simp
  have step: "account_of (pos_core (view_of st1) c) =
      account_run c (log_entry e st) (account_of (pos_core (view_of st) c))"
    using project_step_view [OF st1(1)] account_apply_event [OF Cons.prems(1) _ ne]
    by (auto simp: log_entry_def account_run_def split: option.splits)
  have "position_costed (pos_core (view_of st1) c)" for c
    using project_step_view [OF st1(1)] apply_event_costed [OF Cons.prems(1) _ ne] Cons.prems(1) by auto
  then show ?case
    using Cons.IH [OF _ st1(2)] Cons.prems(3) step st1(1) by (simp add: account_run_append)
qed

text \<open>
  Claim C2. Without corrections, the projection refines a cash account: for every contract, the
  projected quantity and the realised P&L less the cost of what is still held are what the abstract
  account computes from the fills that were applied, each paying price times 100 for exactly the
  quantity it moved. In particular a flat position's realised P&L is its net cash.
\<close>

theorem projected_pnl_is_cash_of_fills:
  assumes "project es = Inr s"
    and "\<And>e. e \<in> set es \<Longrightarrow> le_type e \<noteq> RECONCILIATION_CORRECTION"
    and "dict_get (pr_positions s) c = Some p"
  shows "(ps_quantity p, ps_realized_pnl p - 100 * ps_quantity p * cost_price (ps_avg_price p)) =
    account_run c (fill_log es) (0, 0)"
proof -
  obtain st where st: "project_loop es = Inr st" "s = freeze_view st"
    using assms(1) by (rule project_Inr)
  have "account_of (pos_core (view_of st) c) = account_run c (fill_log es) (0, 0)"
    using account_fold [of "({}, {}, empty_view)" es st c] st(1) assms(2)
    by (simp add: project_loop_def fill_log_def position_costed_def account_of_def)
  then show ?thesis
    using freeze_view_core [of st c p] assms(3) st(2) by (auto simp: account_of_def)
qed

section \<open>Orders\<close>

lemma ensure_order_orders:
  "lv_orders (snd (ensure_order e v)) =
     (case dict_get (lv_orders v) (le_client_order_id e) of
        Some m \<Rightarrow> lv_orders v
      | None \<Rightarrow> dict_set (le_client_order_id e) (fst (ensure_order e v)) (lv_orders v))"
  by (simp add: ensure_order_def Let_def split: option.splits)

lemma ensure_order_fst:
  "fst (ensure_order e v) =
     (case dict_get (lv_orders v) (le_client_order_id e) of
        Some m \<Rightarrow> m
      | None \<Rightarrow> new_mutable_order (le_client_order_id e) SUBMITTED
          (if le_type e = ORDER_SUBMISSION_REQUESTED \<or> le_type e \<in> fill_types then le_quantity e else 0)
          (le_side e) (le_contract_id e) (le_broker_order_id e))"
  by (simp add: ensure_order_def Let_def split: option.splits)

lemma order_core_ensure_order:
  "order_core (put_order (le_client_order_id e) m (snd (ensure_order e v))) k =
     (if k = le_client_order_id e then Some (m\<lparr>mo_fees := 0\<rparr>) else order_core v k)"
  by (simp add: order_core_put_order) (simp add: order_core_def ensure_order_orders split: option.splits)

lemma ensure_order_absent:
  "order_core v (le_client_order_id e) = None \<Longrightarrow>
   mo_filled_qty (fst (ensure_order e v)) = 0 \<and> mo_avg_fill_price (fst (ensure_order e v)) = None \<and>
   mo_status (fst (ensure_order e v)) = SUBMITTED"
  by (simp add: order_core_def ensure_order_fst new_mutable_order_def)

lemma order_core_ensure_snd [simp]:
  "k \<noteq> le_client_order_id e \<Longrightarrow> order_core (snd (ensure_order e v)) k = order_core v k"
  by (simp add: order_core_def ensure_order_orders split: option.splits)

lemma new_order_sel [simp]:
  "mo_status (new_mutable_order k st q sd c b) = st"
  "mo_submitted_qty (new_mutable_order k st q sd c b) = q"
  "mo_filled_qty (new_mutable_order k st q sd c b) = 0"
  "mo_avg_fill_price (new_mutable_order k st q sd c b) = None"
  by (simp_all add: new_mutable_order_def)

lemma accumulate_fill_sel:
  "mo_submitted_qty (snd (accumulate_fill m q x b)) = mo_submitted_qty m"
  "mo_filled_qty (snd (accumulate_fill m q x b)) = mo_filled_qty m + fst (accumulate_fill m q x b)"
  "mo_status (snd (accumulate_fill m q x b)) = mo_status m"
  "0 \<le> fst (accumulate_fill m q x b)"
  by (auto simp: accumulate_fill_def Let_def)

lemma accumulate_fill_clamped:
  "0 < mo_submitted_qty m \<Longrightarrow> mo_filled_qty m \<le> mo_submitted_qty m \<Longrightarrow>
   mo_filled_qty m + fst (accumulate_fill m q x False) \<le> mo_submitted_qty m"
  by (auto simp: accumulate_fill_def Let_def)

lemma order_core_apply_fill_to_position [simp]:
  "order_core (apply_fill_to_position e price a v) k = order_core v k"
  by (simp add: apply_fill_to_position_def case_prod_beta)

text \<open>The order of a fill event after it.\<close>

definition filled_order :: "ledger_event \<Rightarrow> ledger_view \<Rightarrow> decimal \<Rightarrow> mutable_order" where
  "filled_order e v price =
     (let (a, m) = accumulate_fill (note_broker_id e (fst (ensure_order e v))) (le_quantity e) price
                     (allow_overfill e)
      in if a \<le> 0 then m
         else m\<lparr>mo_status := (if le_type e = FINAL_FILL \<or>
                  (0 < mo_submitted_qty m \<and> mo_submitted_qty m \<le> mo_filled_qty m)
                then FILLED else PARTIALLY_FILLED)\<rparr>)"

lemma order_core_apply_fill:
  "order_core (apply_fill e v) k =
     (case le_price e of
        None \<Rightarrow> order_core v k
      | Some price \<Rightarrow>
          if 0 < le_quantity e \<and> k = le_client_order_id e
          then Some ((filled_order e v price)\<lparr>mo_fees := 0\<rparr>) else order_core v k)"
  by (simp add: apply_fill_def filled_order_def Let_def case_prod_beta order_core_ensure_order
      split: option.split)

text \<open>An event that is neither a fill nor a correction, on the orders.\<close>

lemma order_core_apply_other:
  assumes "apply_event e v = Inr v'" "le_type e \<notin> fill_types" "le_type e \<noteq> RECONCILIATION_CORRECTION"
    and "order_core v' k = Some m'"
  shows "order_core v k = Some m' \<or>
    (k = le_client_order_id e \<and> (\<exists>m.
      m = (case order_core v k of Some m \<Rightarrow> m | None \<Rightarrow> (fst (ensure_order e v))\<lparr>mo_fees := 0\<rparr>) \<and>
      mo_filled_qty m' = mo_filled_qty m \<and> mo_avg_fill_price m' = mo_avg_fill_price m \<and>
      (mo_status m \<in> {FILLED, CANCELLED, REJECTED} \<longrightarrow> mo_status m' = mo_status m) \<and>
      mo_submitted_qty m' =
        (if le_type e = ORDER_SUBMISSION_REQUESTED then le_quantity e
         else if le_type e = BROKER_ORDER_ACCEPTED \<and> 0 < le_quantity e \<and> mo_submitted_qty m = 0
         then le_quantity e else mo_submitted_qty m)))"
proof (cases "k = le_client_order_id e")
  case False
  then have "order_core v' k = order_core v k"
    using assms(1-3)
    by (cases "le_type e") (auto simp: apply_event_def fill_types_def apply_submission_def
        apply_accepted_def apply_cancellation_def apply_rejection_def Let_def case_prod_beta
        order_core_ensure_order order_core_put_order split: option.splits)
  then show ?thesis using assms(4) by simp
next
  case True
  show ?thesis
  proof (cases "le_type e = ORDER_SUBMISSION_REQUESTED")
    case sub: True
    then show ?thesis
      using True assms
      by (auto simp: apply_event_def apply_submission_def Let_def order_core_put_order ensure_order_fst
          order_core_def [of v] split: option.splits if_splits)
  next
    case False
    then show ?thesis
      using True assms
      by (cases "le_type e") (auto simp: apply_event_def fill_types_def
          apply_accepted_def apply_cancellation_def apply_rejection_def Let_def case_prod_beta
          order_core_ensure_order ensure_order_fst order_core_def [of v] split: option.splits if_splits)
  qed
qed

lemma order_core_apply_fill_event:
  assumes "apply_event e v = Inr v'" "le_type e \<in> fill_types" "order_core v' k = Some m'"
  shows "order_core v k = Some m' \<or>
    (k = le_client_order_id e \<and> 0 < le_quantity e \<and>
     (\<exists>price. le_price e = Some price \<and> m' = (filled_order e v price)\<lparr>mo_fees := 0\<rparr>))"
  using assms
  by (auto simp: apply_event_def fill_types_def order_core_apply_fill split: option.splits if_splits)

subsection \<open>Filled quantity and average fill price\<close>

definition order_priced :: "mutable_order \<Rightarrow> bool" where
  "order_priced m \<longleftrightarrow> 0 \<le> mo_filled_qty m \<and> (0 < mo_filled_qty m \<longrightarrow> mo_avg_fill_price m \<noteq> None)"

definition order_account :: "mutable_order option \<Rightarrow> decimal \<times> decimal" where
  "order_account x = (case x of None \<Rightarrow> (0, 0)
     | Some m \<Rightarrow> (mo_filled_qty m, mo_filled_qty m * cost_price (mo_avg_fill_price m)))"

lemma accumulate_fill_account:
  assumes "order_priced m" "accumulate_fill m q x b = (a, m')"
  shows "order_priced m' \<and> mo_filled_qty m' = mo_filled_qty m + a \<and>
    mo_filled_qty m' * cost_price (mo_avg_fill_price m') =
      mo_filled_qty m * cost_price (mo_avg_fill_price m) + a * x"
proof (cases "a = 0")
  case True
  then have "m' = m" using assms(2) by (auto simp: accumulate_fill_def Let_def split: if_splits)
  then show ?thesis using True assms(1) by simp
next
  case False
  then have a: "0 < a" using accumulate_fill_sel(4) [of m q x b] assms(2) by simp
  have m': "m' = m\<lparr>mo_avg_fill_price :=
                 (case mo_avg_fill_price m of None \<Rightarrow> Some x
                  | Some avg \<Rightarrow> if mo_filled_qty m \<le> 0 then Some x
                      else Some ((avg * mo_filled_qty m + x * a) / (mo_filled_qty m + a))),
               mo_filled_qty := mo_filled_qty m + a\<rparr>"
    using assms(2) False by (auto simp: accumulate_fill_def Let_def split: if_splits)
  have nz: "mo_filled_qty m + a \<noteq> 0" and pos: "0 \<le> mo_filled_qty m + a"
    using assms(1) a by (auto simp: order_priced_def)
  have mean: "(mo_filled_qty m + a) * ((avg * mo_filled_qty m + x * a) / (mo_filled_qty m + a)) =
      avg * mo_filled_qty m + x * a" for avg
    using nz by simp
  show ?thesis
    using assms(1) a pos
    by (auto simp: m' order_priced_def cost_price_def mean simp del: times_divide_eq_right
        split: option.splits)
qed

definition entry_sums :: "string \<Rightarrow> fill_entry list \<Rightarrow> decimal \<times> decimal" where
  "entry_sums k entries =
     (sum_list (map (\<lambda>(k', c, s, x). if k' = k then \<bar>s\<bar> else 0) entries),
      sum_list (map (\<lambda>(k', c, s, x). if k' = k then \<bar>s\<bar> * x else 0) entries))"

lemma entry_sums_append:
  "entry_sums k (xs @ ys) = (fst (entry_sums k xs) + fst (entry_sums k ys), snd (entry_sums k xs) + snd (entry_sums k ys))"
  by (simp add: entry_sums_def)

abbreviation all_priced :: "ledger_view \<Rightarrow> bool" where
  "all_priced v \<equiv> \<forall>k m. order_core v k = Some m \<longrightarrow> order_priced m"

lemma ensure_order_priced:
  assumes "all_priced v"
  shows "order_priced (note_broker_id e (fst (ensure_order e v)))"
    and "order_account (order_core v (le_client_order_id e)) =
      (mo_filled_qty (fst (ensure_order e v)),
       mo_filled_qty (fst (ensure_order e v)) * cost_price (mo_avg_fill_price (fst (ensure_order e v))))"
proof -
  have "order_priced (fst (ensure_order e v))"
  proof (cases "dict_get (lv_orders v) (le_client_order_id e)")
    case (Some m)
    then have "order_core v (le_client_order_id e) = Some (m\<lparr>mo_fees := 0\<rparr>)"
      by (simp add: order_core_def)
    then have "order_priced (m\<lparr>mo_fees := 0\<rparr>)" using assms by blast
    then show ?thesis by (simp add: Some ensure_order_fst order_priced_def)
  qed (simp add: ensure_order_fst order_priced_def)
  then show "order_priced (note_broker_id e (fst (ensure_order e v)))"
    by (simp add: order_priced_def)
  show "order_account (order_core v (le_client_order_id e)) =
      (mo_filled_qty (fst (ensure_order e v)),
       mo_filled_qty (fst (ensure_order e v)) * cost_price (mo_avg_fill_price (fst (ensure_order e v))))"
    by (simp add: order_account_def order_core_def ensure_order_fst split: option.splits)
qed

lemma order_account_apply_event:
  assumes "all_priced v" "apply_event e v = Inr v'" "le_type e \<noteq> RECONCILIATION_CORRECTION"
  shows "all_priced v' \<and>
    order_account (order_core v' k) =
     (case fill_of e v of
        Some (a, x) \<Rightarrow>
          if le_client_order_id e = k
          then (fst (order_account (order_core v k)) + a, snd (order_account (order_core v k)) + a * x)
          else order_account (order_core v k)
      | None \<Rightarrow> order_account (order_core v k))"
proof (cases "le_type e \<in> fill_types")
  case False
  have eq: "order_account (order_core v' j) = order_account (order_core v j) \<and>
    (\<forall>m. order_core v' j = Some m \<longrightarrow> order_priced m)" for j
  proof (cases "order_core v' j")
    case None
    have "order_core v j = None"
      using None assms(2,3) False
      by (cases "le_type e") (auto simp: apply_event_def fill_types_def apply_submission_def
        apply_accepted_def apply_cancellation_def apply_rejection_def Let_def case_prod_beta
        order_core_ensure_order order_core_put_order split: option.splits if_splits)
    then show ?thesis using None by simp
  next
    case (Some m')
    then show ?thesis
      using order_core_apply_other [OF assms(2) False assms(3) Some] assms(1)
      by (cases "order_core v j") (auto simp: order_account_def order_priced_def ensure_order_absent)
  qed
  then show ?thesis using False by (auto simp: fill_of_def)
next
  case True
  then have v': "v' = apply_fill e v" using assms(2) by (auto simp: apply_event_def fill_types_def)
  show ?thesis
  proof (cases "le_price e")
    case None
    then show ?thesis using assms(1) by (simp add: v' apply_fill_def fill_of_def)
  next
    case (Some x)
    let ?m = "note_broker_id e (fst (ensure_order e v))"
    obtain a m' where am: "accumulate_fill ?m (le_quantity e) x (allow_overfill e) = (a, m')"
      by (cases "accumulate_fill ?m (le_quantity e) x (allow_overfill e)") auto
    note acc = accumulate_fill_account [OF ensure_order_priced(1) [OF assms(1)] am]
    have a: "0 \<le> a" using accumulate_fill_sel(4) [of ?m "le_quantity e" x "allow_overfill e"] am by simp
    have fo_sel: "mo_filled_qty (filled_order e v x) = mo_filled_qty m'"
      "mo_avg_fill_price (filled_order e v x) = mo_avg_fill_price m'"
      by (simp_all add: filled_order_def am)
    show ?thesis
      using acc a assms(1) True ensure_order_priced(2) [OF assms(1), of e]
      by (auto simp: v' order_core_apply_fill Some fill_of_def am Let_def order_account_def fo_sel
          order_priced_def)
  qed
qed

lemma order_account_fold:
  assumes "all_priced (view_of st)" "fold_sum project_step es st = Inr st'"
    and "\<And>e. e \<in> set es \<Longrightarrow> le_type e \<noteq> RECONCILIATION_CORRECTION"
  shows "order_account (order_core (view_of st') k) =
    (fst (order_account (order_core (view_of st) k)) + fst (entry_sums k (fill_log_from es st)),
     snd (order_account (order_core (view_of st) k)) + snd (entry_sums k (fill_log_from es st)))"
  using assms
proof (induction es arbitrary: st)
  case Nil
  then show ?case by (simp add: entry_sums_def)
next
  case (Cons e es)
  obtain st1 where st1: "project_step e st = Inr st1" "fold_sum project_step es st1 = Inr st'"
    using Cons.prems(2) by (auto split: sum.splits)
  have ne: "le_type e \<noteq> RECONCILIATION_CORRECTION" using Cons.prems(3) by simp
  have abs_signed: "0 < a \<Longrightarrow> \<bar>signed_qty sd a\<bar> = a" for sd a by (cases sd) (simp_all add: signed_qty_def)
  have step: "order_account (order_core (view_of st1) k) =
     (fst (order_account (order_core (view_of st) k)) + fst (entry_sums k (log_entry e st)),
      snd (order_account (order_core (view_of st) k)) + snd (entry_sums k (log_entry e st)))"
    and pr: "all_priced (view_of st1)"
    using project_step_view [OF st1(1)] order_account_apply_event [OF Cons.prems(1) _ ne, of "view_of st1" k]
      Cons.prems(1) fill_of_Some [of e "view_of st"]
    by (cases "fill_of e (view_of st)"; auto simp: log_entry_def entry_sums_def abs_signed)+
  show ?case
    using Cons.IH [OF pr st1(2)] Cons.prems(3) step st1(1) by (simp add: entry_sums_append)
qed

text \<open>
  Without corrections, an order's projected filled quantity is the sum of the fills
  applied to it, and its average fill price is their quantity-weighted mean: filled quantity times
  average price is the sum of quantity times price over those fills.
\<close>

theorem projected_order_fills:
  assumes "project es = Inr s"
    and "\<And>e. e \<in> set es \<Longrightarrow> le_type e \<noteq> RECONCILIATION_CORRECTION"
    and "dict_get (pr_orders s) k = Some m"
  shows "(ol_filled_qty m, ol_filled_qty m * cost_price (ol_avg_fill_price m)) = entry_sums k (fill_log es)"
proof -
  obtain st where st: "project_loop es = Inr st" "s = freeze_view st"
    using assms(1) by (rule project_Inr)
  have "order_account (order_core (view_of st) k) = entry_sums k (fill_log es)"
    using order_account_fold [of "({}, {}, empty_view)" es st k] st(1) assms(2)
    by (simp add: project_loop_def fill_log_def order_core_def empty_view_def order_account_def)
  then show ?thesis
    using assms(3) by (auto simp: st(2) freeze_view_get order_core_def order_account_def order_to_model_def)
qed

subsection \<open>The clamp on fills\<close>

text \<open>
  An orderly event: an order enters the ledger through one submission request (or an acceptance)
  of a positive quantity, before anything else about it, and no fill asks for an overfill.
\<close>

definition orderly :: "ledger_event \<Rightarrow> ledger_view \<Rightarrow> bool" where
  "orderly e v \<longleftrightarrow>
     (let known = (order_core v (le_client_order_id e) \<noteq> None) in
      case le_type e of
        ORDER_SUBMISSION_REQUESTED \<Rightarrow> \<not> known \<and> 0 < le_quantity e
      | BROKER_ORDER_ACCEPTED \<Rightarrow> known \<or> 0 < le_quantity e
      | CANCELLATION \<Rightarrow> known
      | REJECTION \<Rightarrow> known
      | PARTIAL_FILL \<Rightarrow> \<not> allow_overfill e
      | FINAL_FILL \<Rightarrow> \<not> allow_overfill e
      | RECONCILIATION_CORRECTION \<Rightarrow> False
      | _ \<Rightarrow> True)"

fun orderly_from :: "ledger_event list \<Rightarrow> project_loop_state \<Rightarrow> bool" where
  "orderly_from [] st = True"
| "orderly_from (e # es) st =
     ((already_seen st e \<or> orderly e (view_of st)) \<and>
      (case project_step e st of Inl _ \<Rightarrow> True | Inr st' \<Rightarrow> orderly_from es st'))"

definition orderly_ledger :: "ledger_event list \<Rightarrow> bool" where
  "orderly_ledger es = orderly_from es ({}, {}, empty_view)"

definition order_bounded :: "mutable_order \<Rightarrow> bool" where
  "order_bounded m \<longleftrightarrow> 0 < mo_submitted_qty m \<and> 0 \<le> mo_filled_qty m \<and> mo_filled_qty m \<le> mo_submitted_qty m"

abbreviation all_bounded :: "ledger_view \<Rightarrow> bool" where
  "all_bounded v \<equiv> \<forall>k m. order_core v k = Some m \<longrightarrow> order_bounded m"

lemma filled_order_bounded:
  assumes "order_bounded (fst (ensure_order e v))" "\<not> allow_overfill e"
  shows "order_bounded (filled_order e v price)"
proof -
  let ?m = "note_broker_id e (fst (ensure_order e v))"
  obtain a m' where am: "accumulate_fill ?m (le_quantity e) price False = (a, m')"
    by (cases "accumulate_fill ?m (le_quantity e) price False") auto
  have "order_bounded m'"
    using assms(1) accumulate_fill_sel(1,2,4) [of ?m "le_quantity e" price False]
      accumulate_fill_clamped [of ?m "le_quantity e" price] am
    by (simp add: order_bounded_def)
  then show ?thesis using assms(2) am by (auto simp: filled_order_def order_bounded_def)
qed

lemma apply_event_bounded:
  assumes "all_bounded v" "orderly e v" "apply_event e v = Inr v'" "order_core v' k = Some m'"
  shows "order_bounded m'"
proof (cases "le_type e \<in> fill_types")
  case True
  have ov: "\<not> allow_overfill e"
    using True assms(2) by (auto simp: orderly_def fill_types_def)
  have ens: "order_bounded (fst (ensure_order e v))" if "0 < le_quantity e"
  proof (cases "dict_get (lv_orders v) (le_client_order_id e)")
    case None
    then show ?thesis using True that by (simp add: ensure_order_fst order_bounded_def)
  next
    case (Some m)
    then have "order_core v (le_client_order_id e) = Some (m\<lparr>mo_fees := 0\<rparr>)" by (simp add: order_core_def)
    then have "order_bounded (m\<lparr>mo_fees := 0\<rparr>)" using assms(1) by blast
    then show ?thesis by (simp add: Some ensure_order_fst order_bounded_def)
  qed
  show ?thesis
    using order_core_apply_fill_event [OF assms(3) True assms(4)] assms(1)
      filled_order_bounded [OF ens ov]
    by (auto simp: order_bounded_def)
next
  case False
  have ne: "le_type e \<noteq> RECONCILIATION_CORRECTION" using assms(2) by (auto simp: orderly_def)
  show ?thesis
  proof (cases "order_core v (le_client_order_id e)")
    case None
    have "le_type e = ORDER_SUBMISSION_REQUESTED \<or> le_type e = BROKER_ORDER_ACCEPTED \<or>
        order_core v' k = order_core v k"
      using None assms(2,3) False
      by (cases "le_type e") (auto simp: orderly_def apply_event_def fill_types_def)
    moreover have "mo_submitted_qty (fst (ensure_order e v)) = (if le_type e = ORDER_SUBMISSION_REQUESTED then le_quantity e else 0)"
      using None False by (simp add: ensure_order_fst order_core_def)
    ultimately show ?thesis
      using order_core_apply_other [OF assms(3) False ne assms(4)] assms(1,2,4) None
        ensure_order_absent [OF None]
      by (auto simp: order_bounded_def orderly_def)
  next
    case (Some m)
    then have "le_type e \<noteq> ORDER_SUBMISSION_REQUESTED" "order_bounded m"
      using assms(1,2) by (auto simp: orderly_def)
    then show ?thesis
      using order_core_apply_other [OF assms(3) False ne assms(4)] Some spec [OF assms(1), of k]
      by (elim disjE) (auto simp: order_bounded_def)
  qed
qed

lemma orderly_fold_bounded:
  assumes "orderly_from es st" "all_bounded (view_of st)" "fold_sum project_step es st = Inr st'"
  shows "all_bounded (view_of st')"
  using assms
proof (induction es arbitrary: st)
  case (Cons e es)
  obtain st1 where st1: "project_step e st = Inr st1" "fold_sum project_step es st1 = Inr st'"
    using Cons.prems(3) by (auto split: sum.splits)
  have "all_bounded (view_of st1)"
    using project_step_view [OF st1(1)] Cons.prems(1,2) apply_event_bounded [OF Cons.prems(2)]
    by auto
  then show ?case using Cons.IH [OF _ _ st1(2)] Cons.prems(1) st1(1) by simp
qed simp


subsection \<open>Life cycle\<close>

text \<open>
  FILLED, CANCELLED and REJECTED are final for every event but a fill that applies a
  positive quantity and an explicit correction: after any other event the order keeps that status
  (a late acceptance, cancellation, rejection or resubmission cannot reopen it).
\<close>

theorem terminal_status_absorbs:
  assumes "dict_get (lv_orders v) k = Some m" "mo_status m \<in> {FILLED, CANCELLED, REJECTED}"
    and "apply_event e v = Inr v'" "le_type e \<noteq> RECONCILIATION_CORRECTION" "fill_of e v = None"
  shows "\<exists>m'. dict_get (lv_orders v') k = Some m' \<and> mo_status m' = mo_status m"
proof -
  have core: "order_core v k = Some (m\<lparr>mo_fees := 0\<rparr>)" using assms(1) by (simp add: order_core_def)
  have ex: "order_core v' k \<noteq> None"
    using core assms(3,4)
    by (cases "le_type e") (auto simp: apply_event_def apply_submission_def apply_accepted_def
        apply_cancellation_def apply_rejection_def Let_def case_prod_beta order_core_ensure_order
        order_core_put_order order_core_apply_fill split: option.splits if_splits)
  then obtain m1 where m1: "order_core v' k = Some m1" by blast
  have "mo_status m1 = mo_status m"
  proof (cases "le_type e \<in> fill_types")
    case False
    then show ?thesis
      using order_core_apply_other [OF assms(3) False assms(4) m1] core assms(2) by auto
  next
    case True
    have eo: "fst (ensure_order e v) = m" if "k = le_client_order_id e"
      using assms(1) that by (simp add: ensure_order_fst)
    have "mo_status (filled_order e v price) = mo_status m"
      if "k = le_client_order_id e" "0 < le_quantity e" "le_price e = Some price" for price
      using assms(5) True that eo accumulate_fill_sel(3) [of "note_broker_id e m" "le_quantity e" price "allow_overfill e"]
      by (auto simp: filled_order_def fill_of_def Let_def case_prod_beta split: if_splits)
    then show ?thesis
      using order_core_apply_fill_event [OF assms(3) True m1] core by auto
  qed
  then show ?thesis using m1 by (auto simp: order_core_def)
qed

section \<open>Concrete ledgers\<close>

text \<open>Events of one session at one moment, with their key as id, for the closed instances below.\<close>

definition sample_event ::
  "ledger_event_type \<Rightarrow> string \<Rightarrow> string \<Rightarrow> side \<Rightarrow> decimal \<Rightarrow> decimal option \<Rightarrow> ledger_event" where
  "sample_event etype key client sd qty price =
     (ledger_event_kwargs etype ''acct'' client ''SPY:c'' sd qty (at_utc 0) key ''s1'')
       \<lparr>le_id := key, le_price := price\<rparr>"

definition round_trip :: "ledger_event list" where
  "round_trip =
     [sample_event ORDER_SUBMISSION_REQUESTED ''s1'' ''c1'' Buy 3 None,
      sample_event PARTIAL_FILL ''f1'' ''c1'' Buy 1 (Some 2),
      sample_event FINAL_FILL ''f2'' ''c1'' Buy 2 (Some 5),
      sample_event ORDER_SUBMISSION_REQUESTED ''s2'' ''c2'' Sell 3 None,
      sample_event FINAL_FILL ''f3'' ''c2'' Sell 3 (Some 6)]"

definition round_trip_state :: projection_state where
  "round_trip_state = projr (project round_trip)"

lemma round_trip_projects: "project round_trip = Inr round_trip_state"
proof -
  have "\<not> isl (project round_trip)" by code_simp
  then show ?thesis by (simp add: round_trip_state_def)
qed

lemma round_trip_position:
  "dict_get (pr_positions round_trip_state) ''SPY:c'' =
     Some \<lparr>ps_contract_id = ''SPY:c'', ps_quantity = 0, ps_avg_price = None, ps_realized_pnl = 600,
           ps_fees = 0, ps_open = False, ps_position_id = None\<rparr>"
  by code_simp

lemma round_trip_order:
  "dict_get (pr_orders round_trip_state) ''c1'' =
     Some \<lparr>ol_client_order_id = ''c1'', ol_status = FILLED, ol_submitted_qty = 3, ol_filled_qty = 3,
           ol_avg_fill_price = Some 4, ol_fees = 0, ol_side = Buy, ol_contract_id = ''SPY:c'',
           ol_broker_order_id = None\<rparr>"
  by code_simp

lemma round_trip_no_corrections: "e \<in> set round_trip \<Longrightarrow> le_type e \<noteq> RECONCILIATION_CORRECTION"
  by (auto simp: round_trip_def sample_event_def ledger_event_kwargs_def)

theorem projected_positions_well_formed_witness:
  "\<exists>p. dict_get (pr_positions round_trip_state) ''SPY:c'' = Some p \<and> \<not> ps_open p \<and> ps_quantity p = 0"
  using projected_positions_well_formed [OF round_trip_projects round_trip_position] round_trip_position
  by simp

theorem project_replay_idempotent_witness: "project (round_trip @ round_trip) = Inr round_trip_state"
  using project_replay_idempotent [of round_trip round_trip] round_trip_projects by fastforce

theorem projected_pnl_is_cash_of_fills_witness:
  "(0, 600) = account_run ''SPY:c'' (fill_log round_trip) (0, 0)"
  using projected_pnl_is_cash_of_fills [OF round_trip_projects round_trip_no_corrections round_trip_position]
  by simp

theorem projected_order_fills_witness: "(3, 12) = entry_sums ''c1'' (fill_log round_trip)"
  using projected_order_fills [OF round_trip_projects round_trip_no_corrections round_trip_order]
  by (simp add: cost_price_def)


definition filled_view :: ledger_view where
  "filled_view = view_of (projr (project_loop round_trip))"

theorem terminal_status_absorbs_witness:
  "\<exists>m'. dict_get (lv_orders (projr (apply_event (sample_event CANCELLATION ''x'' ''c1'' Buy 0 None) filled_view))) ''c1'' = Some m' \<and> mo_status m' = FILLED"
proof -
  let ?e = "sample_event CANCELLATION ''x'' ''c1'' Buy 0 None"
  have m: "dict_get (lv_orders filled_view) ''c1'' = Some (the (dict_get (lv_orders filled_view) ''c1''))"
    by code_simp
  have st: "mo_status (the (dict_get (lv_orders filled_view) ''c1'')) = FILLED" by code_simp
  have "\<not> isl (apply_event ?e filled_view)" by code_simp
  then have ap: "apply_event ?e filled_view = Inr (projr (apply_event ?e filled_view))" by simp
  show ?thesis
    using terminal_status_absorbs [OF m _ ap] st
    by (simp add: sample_event_def ledger_event_kwargs_def fill_of_def fill_types_def)
qed

text \<open>A fill that reaches the ledger before its submission request.\<close>

definition early_fill :: "ledger_event list" where
  "early_fill =
     [sample_event PARTIAL_FILL ''f1'' ''c1'' Buy 5 (Some 2),
      sample_event ORDER_SUBMISSION_REQUESTED ''s1'' ''c1'' Buy 1 None]"

text \<open>
  The clamp needs the order of events: when a fill of 5 is projected before the
  submission request of 1 (ledger rows are read back in timestamp order), the order ends with a
  filled quantity of 5 above its submitted quantity of 1, without any correction or overfill flag.
\<close>

theorem early_fill_exceeds_submitted:
  "\<exists>s m. project early_fill = Inr s \<and> dict_get (pr_orders s) ''c1'' = Some m \<and>
     ol_submitted_qty m = 1 \<and> ol_filled_qty m = 5"
proof -
  let ?s = "projr (project early_fill)" and ?m = "the (dict_get (pr_orders (projr (project early_fill))) ''c1'')"
  have "\<not> isl (project early_fill)" by code_simp
  moreover have "dict_get (pr_orders ?s) ''c1'' = Some ?m" by code_simp
  moreover have "ol_submitted_qty ?m = 1" "ol_filled_qty ?m = 5" by code_simp+
  ultimately show ?thesis by (metis sum.collapse(2))
qed

theorem non_fill_events_keep_positions_witness:
  "pos_core (projr (apply_event (sample_event POSITION_OPENED ''x'' ''c1'' Buy 7 (Some 2)) filled_view)) ''SPY:c'' =
   pos_core filled_view ''SPY:c''"
  by (rule non_fill_events_keep_positions [of "sample_event POSITION_OPENED ''x'' ''c1'' Buy 7 (Some 2)"])
     (simp_all add: sample_event_def ledger_event_kwargs_def apply_event_def)

end
