(* ===== verification/Reconciliation_Props.thy ===== *)
theory Reconciliation_Props
  imports Reconciliation Ledger_Invariants
begin

text \<open>
  What a reconciliation report says and what its corrections do: a consistent report means that
  ledger and broker agree, and a correction applied to the ledger repairs a wrong position. The
  last section records the two kinds of finding whose correction repairs nothing.
\<close>

lemma map_sum_Inr: "map_sum id f x = Inr y \<longleftrightarrow> (\<exists>z. x = Inr z \<and> y = f z)"
  by (cases x) auto

section \<open>The broker's indexes\<close>

lemma find_rev_Some: "find P (rev bs) = Some b \<Longrightarrow> b \<in> set bs \<and> P b"
  by (metis find_Some_iff nth_mem set_rev)

text \<open>A dictionary filled in a loop answers with the last entry of the key.\<close>

lemma fold_dict_set_get:
  "dict_get (fold (\<lambda>b. dict_set (key b) b) bs d) k =
     (case find (\<lambda>b. key b = k) (rev bs) of Some b \<Rightarrow> Some b | None \<Rightarrow> dict_get d k)"
proof (induction bs rule: rev_induct)
  case (snoc b bs)
  then show ?case by simp
qed simp

lemma fold_dict_set_opt_get:
  "k \<noteq> [] \<Longrightarrow> dict_get (fold (\<lambda>b d. case ckey b of None \<Rightarrow> d | Some c \<Rightarrow> if c = [] then d else dict_set c b d) bs d) k =
     (case find (\<lambda>b. ckey b = Some k) (rev bs) of Some b \<Rightarrow> Some b | None \<Rightarrow> dict_get d k)"
  by (induction bs rule: rev_induct) (auto split: option.splits)

text \<open>The broker's quantity of a contract: its last listed position, zero when it lists none.\<close>

definition broker_quantity :: "broker_position_view list \<Rightarrow> string \<Rightarrow> decimal" where
  "broker_quantity bps c = (case find (\<lambda>b. bp_contract_id b = c) (rev bps) of None \<Rightarrow> 0 | Some b \<Rightarrow> bp_quantity b)"

text \<open>The ledger's quantity of a contract.\<close>

definition ledger_quantity :: "projection_state \<Rightarrow> string \<Rightarrow> decimal" where
  "ledger_quantity pr c =
     (case dict_get (pr_positions pr) c of None \<Rightarrow> 0 | Some p \<Rightarrow> if ps_open p then ps_quantity p else 0)"

lemma broker_pos_get:
  "dict_get (broker_pos_by_contract bps) c = find (\<lambda>b. bp_contract_id b = c) (rev bps)"
  by (simp add: broker_pos_by_contract_def fold_dict_set_get split: option.splits)

lemma map_of_filter_value:
  "dict_ok d \<Longrightarrow> map_of (filter (\<lambda>(k, v). P v) d) k = (case map_of d k of Some v \<Rightarrow> if P v then Some v else None | None \<Rightarrow> None)"
  by (induction d) (auto split: option.splits simp: map_of_eq_None_iff dest: map_of_SomeD)

lemma projected_open_get:
  "dict_ok (pr_positions pr) \<Longrightarrow> dict_get (projected_open_positions pr) c =
     (case dict_get (pr_positions pr) c of
        Some p \<Rightarrow> if ps_open p \<and> ps_quantity p \<noteq> 0 then Some p else None | None \<Rightarrow> None)"
  unfolding projected_open_positions_def by (rule map_of_filter_value)

lemma projected_active_get:
  "dict_ok (pr_orders pr) \<Longrightarrow> dict_get (projected_active pr) k =
     (case dict_get (pr_orders pr) k of
        Some o1 \<Rightarrow> if ol_status o1 \<in> active_order_statuses then Some o1 else None | None \<Rightarrow> None)"
  unfolding projected_active_def by (rule map_of_filter_value)

lemma dict_all_iff: "dict_ok d \<Longrightarrow> (\<forall>kv \<in> set d. P (fst kv) (snd kv)) \<longleftrightarrow> (\<forall>k v. dict_get d k = Some v \<longrightarrow> P k v)"
  by (force dest: map_of_SomeD)

lemma dict_ok_filter: "dict_ok d \<Longrightarrow> dict_ok (filter P d)"
  by (induction d) auto

section \<open>When the findings are all consistent\<close>

abbreviation all_consistent :: "finding list \<Rightarrow> bool" where
  "all_consistent fs \<equiv> \<forall>f \<in> set fs. fi_outcome f = CONSISTENT"

lemma mk_finding_sel [simp]:
  "fi_outcome (mk_finding out t i d) = out" "fi_entity_type (mk_finding out t i d) = t"
  "fi_entity_id (mk_finding out t i d) = i" "fi_broker_quantity (mk_finding out t i d) = None"
  "fi_projected_quantity (mk_finding out t i d) = None" "fi_broker_status (mk_finding out t i d) = None"
  by (simp_all add: mk_finding_def)

lemma compare_order_consistent:
  "all_consistent (compare_order o1 b) \<longleftrightarrow>
     ol_filled_qty o1 = bv_filled_qty b \<and> statuses_compatible (ol_status o1) (bv_status b)"
  by (auto simp: compare_order_def Let_def)

lemma check_projected_order_consistent:
  "all_consistent (check_projected_order bos (k, o1)) \<longleftrightarrow>
     (\<exists>b. find_broker_order bos k o1 = Some b \<and>
          ol_filled_qty o1 = bv_filled_qty b \<and> statuses_compatible (ol_status o1) (bv_status b))"
  by (auto simp: check_projected_order_def compare_order_consistent split: option.splits)

lemma check_projected_position_consistent:
  "all_consistent (check_projected_position bps (c, p)) \<longleftrightarrow>
     (\<exists>b. dict_get (broker_pos_by_contract bps) c = Some b \<and> bp_quantity b = ps_quantity p)"
  by (auto simp: check_projected_position_def split: option.splits)

lemma check_broker_position_consistent:
  "all_consistent (check_broker_position pr b) \<longleftrightarrow>
     bp_quantity b = 0 \<or> dict_get (projected_open_positions pr) (bp_contract_id b) \<noteq> None"
  by (simp add: check_broker_position_def)

text \<open>An order the ledger knows under the broker's client id or broker id.\<close>

definition ledger_knows :: "projection_state \<Rightarrow> broker_order_view \<Rightarrow> bool" where
  "ledger_knows pr b \<longleftrightarrow>
     (\<exists>c. bv_client_order_id b = Some c \<and> c \<noteq> [] \<and> dict_get (pr_orders pr) c \<noteq> None) \<or>
     (\<exists>o1 \<in> set (dict_values (pr_orders pr)). ol_broker_order_id o1 = Some (bv_broker_order_id b))"

lemma check_broker_order_consistent:
  "all_consistent (check_broker_order pr m b) \<longleftrightarrow> bv_broker_order_id b \<in> m \<or> ledger_knows pr b"
  by (auto simp: check_broker_order_def ledger_knows_def Let_def split: option.splits)

lemma find_broker_order_Some:
  assumes "find_broker_order bos k o1 = Some b" "k \<noteq> []"
  shows "b \<in> set bos \<and> (bv_client_order_id b = Some k \<or> ol_broker_order_id o1 = Some (bv_broker_order_id b))"
proof -
  have cl: "dict_get (broker_by_client bos) k = find (\<lambda>b. bv_client_order_id b = Some k) (rev bos)"
    using fold_dict_set_opt_get [OF assms(2), of bv_client_order_id bos "[]"]
    by (simp add: broker_by_client_def split: option.splits)
  have br: "dict_get (broker_by_broker_id bos) i = find (\<lambda>b. bv_broker_order_id b = i) (rev bos)" for i
    by (simp add: broker_by_broker_id_def fold_dict_set_get split: option.splits)
  show ?thesis
    using assms(1) by (auto simp: find_broker_order_def cl br split: option.splits if_splits dest!: find_rev_Some)
qed

lemma matched_known:
  assumes "distinct (map bv_broker_order_id bos)" "dict_ok (pr_orders pr)"
    and "dict_get (pr_orders pr) [] = None" "b \<in> set bos" "bv_broker_order_id b \<in> matched_broker_ids pr bos"
  shows "ledger_knows pr b"
proof -
  obtain k o1 b' where ko: "(k, o1) \<in> set (projected_active pr)"
    and b': "find_broker_order bos k o1 = Some b'" "bv_broker_order_id b' = bv_broker_order_id b"
    using assms(5) by (auto simp: matched_broker_ids_def split: option.splits) metis
  have o1: "dict_get (pr_orders pr) k = Some o1"
    using ko assms(2) by (auto simp: projected_active_def)
  with assms(3) have k: "k \<noteq> []" by auto
  have "b' = b"
    using find_broker_order_Some [OF b'(1) k] b'(2) assms(1,4) by (auto simp: distinct_map inj_on_def)
  then show ?thesis
    using find_broker_order_Some [OF b'(1) k] o1 k dict_get_in_values [OF o1]
    by (auto simp: ledger_knows_def)
qed

lemma positions_agree:
  assumes "dict_ok (pr_positions pr)" "distinct (map bp_contract_id bps)"
  shows "(\<forall>kp \<in> set (projected_open_positions pr). all_consistent (check_projected_position bps kp)) \<and>
     (\<forall>b \<in> set bps. all_consistent (check_broker_position pr b)) \<longleftrightarrow>
     (\<forall>c. ledger_quantity pr c = broker_quantity bps c)" (is "?L \<longleftrightarrow> ?R")
proof -
  define f where "f c = find (\<lambda>b. bp_contract_id b = c) (rev bps)" for c
  have fset: "b \<in> set bps \<and> bp_contract_id b = c" if "f c = Some b" for b c
    using that unfolding f_def by (rule find_rev_Some)
  have fin: "f (bp_contract_id b) = Some b" if "b \<in> set bps" for b
  proof (cases "f (bp_contract_id b)")
    case None
    then show ?thesis using that by (auto simp: f_def find_None_iff)
  next
    case (Some b')
    then show ?thesis using fset [OF Some] that assms(2) by (auto simp: distinct_map inj_on_def)
  qed
  have ok: "dict_ok (projected_open_positions pr)"
    unfolding projected_open_positions_def using assms(1) by (rule dict_ok_filter)
  have mem: "(c, p) \<in> set (projected_open_positions pr) \<longleftrightarrow> dict_get (projected_open_positions pr) c = Some p" for c p
    using ok by simp
  have lq: "ledger_quantity pr c = (case dict_get (projected_open_positions pr) c of None \<Rightarrow> 0 | Some p \<Rightarrow> ps_quantity p)" for c
    by (simp add: ledger_quantity_def projected_open_get [OF assms(1)] split: option.splits)
  have nz: "dict_get (projected_open_positions pr) c = Some p \<Longrightarrow> ps_quantity p \<noteq> 0" for c p
    by (auto simp: projected_open_get [OF assms(1)] split: option.splits if_splits)
  have e: "all_consistent (check_projected_position bps kp) \<longleftrightarrow>
      (\<exists>b. f (fst kp) = Some b \<and> bp_quantity b = ps_quantity (snd kp))" for kp
    by (cases kp) (simp add: check_projected_position_consistent broker_pos_get f_def)
  have L: "?L \<longleftrightarrow> (\<forall>c p. dict_get (projected_open_positions pr) c = Some p \<longrightarrow>
        (\<exists>b. f c = Some b \<and> bp_quantity b = ps_quantity p)) \<and>
      (\<forall>b \<in> set bps. bp_quantity b = 0 \<or> dict_get (projected_open_positions pr) (bp_contract_id b) \<noteq> None)"
    unfolding e check_broker_position_consistent
      dict_all_iff [OF ok, of "\<lambda>c p. \<exists>b. f c = Some b \<and> bp_quantity b = ps_quantity p"] by (rule refl)
  have R: "?R \<longleftrightarrow> (\<forall>c. (case dict_get (projected_open_positions pr) c of None \<Rightarrow> 0 | Some p \<Rightarrow> ps_quantity p) =
      (case f c of None \<Rightarrow> 0 | Some b \<Rightarrow> bp_quantity b))"
    by (simp add: lq broker_quantity_def f_def)
  show ?thesis
    unfolding L R
  proof (intro iffI conjI allI ballI impI)
    fix c
    assume l: "(\<forall>c p. dict_get (projected_open_positions pr) c = Some p \<longrightarrow>
        (\<exists>b. f c = Some b \<and> bp_quantity b = ps_quantity p)) \<and>
      (\<forall>b \<in> set bps. bp_quantity b = 0 \<or> dict_get (projected_open_positions pr) (bp_contract_id b) \<noteq> None)"
    show "(case dict_get (projected_open_positions pr) c of None \<Rightarrow> 0 | Some p \<Rightarrow> ps_quantity p) =
      (case f c of None \<Rightarrow> 0 | Some b \<Rightarrow> bp_quantity b)"
      using l fset [of c] by (fastforce split: option.splits)
  next
    fix c p
    assume r: "\<forall>c. (case dict_get (projected_open_positions pr) c of None \<Rightarrow> 0 | Some p \<Rightarrow> ps_quantity p) =
      (case f c of None \<Rightarrow> 0 | Some b \<Rightarrow> bp_quantity b)"
      and p: "dict_get (projected_open_positions pr) c = Some p"
    show "\<exists>b. f c = Some b \<and> bp_quantity b = ps_quantity p"
      using spec [OF r, of c] p nz [OF p] by (auto split: option.splits)
  next
    fix b
    assume r: "\<forall>c. (case dict_get (projected_open_positions pr) c of None \<Rightarrow> 0 | Some p \<Rightarrow> ps_quantity p) =
      (case f c of None \<Rightarrow> 0 | Some b \<Rightarrow> bp_quantity b)"
      and b: "b \<in> set bps"
    show "bp_quantity b = 0 \<or> dict_get (projected_open_positions pr) (bp_contract_id b) \<noteq> None"
      using spec [OF r, of "bp_contract_id b"] fin [OF b] by (auto split: option.splits)
  qed
qed

lemma reconcile_Inr:
  assumes "reconcile rid now sid pr bos bps ts = Inr r"
  shows "rp_findings r =
      concat (map (check_projected_order bos) (projected_active pr)) @
      concat (map (check_broker_order pr (matched_broker_ids pr bos)) bos) @
      concat (map (check_projected_position bps) (projected_open_positions pr)) @
      concat (map (check_broker_position pr) bps)"
    "rp_is_consistent r \<longleftrightarrow> all_consistent (rp_findings r)"
    "rp_report_id r = rid" "rp_session_id r = sid"
  using assms by (auto simp: reconcile_def Let_def split: if_splits)


section \<open>What a correction does to the ledger\<close>

text \<open>A projection has one order per client id and one position per contract.\<close>

definition view_keys_ok :: "ledger_view \<Rightarrow> bool" where
  "view_keys_ok v \<longleftrightarrow> dict_ok (lv_orders v) \<and> dict_ok (lv_positions v)"

lemma view_keys_put [simp]:
  "view_keys_ok v \<Longrightarrow> view_keys_ok (put_order k m v)" "view_keys_ok v \<Longrightarrow> view_keys_ok (put_position k p v)"
  "view_keys_ok v \<Longrightarrow> view_keys_ok (snd (ensure_order e v))"
  "view_keys_ok v \<Longrightarrow> view_keys_ok (snd (ensure_position c v))"
  by (auto simp: view_keys_ok_def ensure_order_def ensure_position_def Let_def split: option.splits)

lemma view_keys_add_fees [simp]: "view_keys_ok v \<Longrightarrow> view_keys_ok (add_fees b e v)"
  by (auto simp: add_fees_def Let_def case_prod_beta split: option.splits)

lemma view_keys_apply_event:
  assumes "view_keys_ok v" "apply_event e v = Inr v'"
  shows "view_keys_ok v'"
proof -
  have fill: "view_keys_ok (apply_fill e v)"
    using assms(1) by (simp add: apply_fill_def apply_fill_to_position_def Let_def case_prod_beta split: option.splits)
  have corr: "view_keys_ok v'" if "apply_correction e v = Inr v'"
  proof -
    have s: "view_keys_ok w \<Longrightarrow> view_keys_ok (correct_order_status e w)" for w
      by (simp add: correct_order_status_def split: option.splits meta_val.splits)
    have q: "view_keys_ok w \<Longrightarrow> view_keys_ok (correct_order_fill_qty e w)" for w
      by (simp add: correct_order_fill_qty_def Let_def split: option.splits)
    have p: "view_keys_ok w \<Longrightarrow> correct_position_quantity e w = Inr w' \<Longrightarrow> view_keys_ok w'" for w w'
      by (auto simp: correct_position_quantity_def Let_def case_prod_beta split: option.splits sum.splits)
    define w where "w = (let v1 = (if correction_kind_is ''order_status'' e then correct_order_status e v else v)
      in if correction_kind_is ''order_fill_qty'' e then correct_order_fill_qty e v1 else v1)"
    have w: "view_keys_ok w" using assms(1) s q by (simp add: w_def Let_def)
    have v': "map_sum id (add_fees True e) (if correction_kind_is ''position_quantity'' e
        then correct_position_quantity e w else Inr w) = Inr v'"
      using that unfolding apply_correction_def w_def Let_def .
    show ?thesis
    proof (cases "correction_kind_is ''position_quantity'' e")
      case True
      then obtain w' where "correct_position_quantity e w = Inr w'" "v' = add_fees True e w'"
        using v' by (auto simp: map_sum_Inr)
      then show ?thesis using p [OF w] by simp
    qed (use v' w in auto)
  qed
  show ?thesis
    using assms fill corr
    by (auto simp: apply_event_def apply_submission_def apply_accepted_def apply_cancellation_def apply_rejection_def
        Let_def case_prod_beta split: ledger_event_type.splits option.splits)
qed

lemma empty_view_keys: "view_keys_ok empty_view"
  by (simp add: view_keys_ok_def empty_view_def)

lemma project_keys_distinct:
  assumes "project es = Inr pr"
  shows "dict_ok (pr_orders pr)" "dict_ok (pr_positions pr)"
proof -
  obtain st where st: "project_loop es = Inr st" "pr = freeze_view st"
    using project_Inr [OF assms] by blast
  have "view_keys_ok (view_of st)"
    using project_loop_invariant [OF st(1), where P = view_keys_ok] view_keys_apply_event
    by (metis empty_view_keys)
  then show "dict_ok (pr_orders pr)" "dict_ok (pr_positions pr)"
    by (auto simp: st(2) freeze_view_def case_prod_beta Let_def view_keys_ok_def comp_def)
qed

text \<open>The correction built for one finding.\<close>

definition correction_of :: "uuid \<Rightarrow> datetime \<Rightarrow> report \<Rightarrow> string \<Rightarrow> uuid option \<Rightarrow> finding \<Rightarrow> py_error + ledger_event" where
  "correction_of i t r account src f = make_ledger_event i t None None (correction_kwargs r account src f)"

lemma correction_kwargs_sel:
  "le_type (correction_kwargs r a src f) = RECONCILIATION_CORRECTION"
  "le_contract_id (correction_kwargs r a src f) = fi_entity_id f"
  "le_metadata (correction_kwargs r a src f) = correction_meta f"
  "le_price (correction_kwargs r a src f) = None" "le_fees (correction_kwargs r a src f) = None"
  "le_client_order_id (correction_kwargs r a src f) =
     (if fi_entity_type f = ''order'' then fi_entity_id f else ''recon-'' @ fi_entity_id f)"
  "signed_qty (le_side (correction_kwargs r a src f)) \<bar>correction_qty f\<bar> = correction_qty f"
  "le_quantity (correction_kwargs r a src f) = \<bar>correction_qty f\<bar>"
  by (auto simp: correction_kwargs_def ledger_event_kwargs_def signed_qty_def Let_def)

lemma correction_meta_get:
  "dict_get (correction_meta f) ''correction_kind'' = Some (MText (correction_kind f))"
  "dict_get (correction_meta f) ''absolute_quantity'' =
     (if fi_entity_type f = ''position'' then map_option MNumText (fi_broker_quantity f) else None)"
  by (simp_all add: correction_meta_def Let_def split: option.splits)

lemma position_correction_effect:
  assumes "correction_of i t r a src f = Inr e" "fi_entity_type f = ''position''" "apply_event e v = Inr v'"
  shows "pos_core v' c =
    (let q = (case fi_broker_quantity f of Some q \<Rightarrow> q | None \<Rightarrow> correction_qty f);
         (q0, avg0, pnl0, opn0) = pos_core v c
     in if c = fi_entity_id f then (q, if q = 0 then None else avg0, pnl0, q \<noteq> 0) else pos_core v c)"
proof -
  note fields = make_ledger_event_fields [OF assms(1) [unfolded correction_of_def]]
  have kind: "correction_kind_is ''position_quantity'' e"
    using assms(2) by (simp add: correction_kind_is_def fields correction_kwargs_sel correction_meta_get correction_kind_def)
  have "apply_correction e v = Inr v'"
    using assms(3) by (simp add: apply_event_def fields correction_kwargs_sel)
  from pos_core_apply_correction [OF this, of c] show ?thesis
    using kind assms(2)
    by (auto simp: fields correction_kwargs_sel correction_meta_get Let_def split: option.splits prod.splits)
qed

lemma finding_cases:
  assumes "reconcile rid now sid pr bos bps ts = Inr r" "f \<in> set (rp_findings r)" "fi_entity_type f = ''position''"
  shows "(fi_outcome f = MISSING_BROKER_POSITION \<and> fi_broker_quantity f = None \<and>
      (\<exists>p. (fi_entity_id f, p) \<in> set (projected_open_positions pr) \<and> fi_projected_quantity f = Some (ps_quantity p))) \<or>
    (fi_outcome f \<noteq> MISSING_BROKER_POSITION \<and>
     (\<exists>b \<in> set bps. bp_contract_id b = fi_entity_id f \<and> fi_broker_quantity f = Some (bp_quantity b)))"
proof -
  have order: "f \<notin> set (check_projected_order bos ko)" "f \<notin> set (check_broker_order pr m b)" for ko m b
    using assms(3) by (auto simp: check_projected_order_def compare_order_def check_broker_order_def Let_def
        split: option.splits if_splits prod.splits)
  consider kp where "kp \<in> set (projected_open_positions pr)" "f \<in> set (check_projected_position bps kp)"
    | b where "b \<in> set bps" "f \<in> set (check_broker_position pr b)"
    using assms(2) order unfolding reconcile_Inr(1) [OF assms(1)] by auto
  then show ?thesis
  proof cases
    case 1
    obtain c p where kp: "kp = (c, p)" by (cases kp)
    show ?thesis
    proof (cases "find (\<lambda>b. bp_contract_id b = c) (rev bps)")
      case None
      then have "f = (mk_finding MISSING_BROKER_POSITION ''position'' c ''projected open position missing at broker'')
          \<lparr>fi_projected_quantity := Some (ps_quantity p)\<rparr>"
        using 1(2) by (simp add: kp check_projected_position_def broker_pos_get)
      then show ?thesis using 1(1) kp by auto
    next
      case (Some b)
      then have "fi_entity_id f = c \<and> fi_broker_quantity f = Some (bp_quantity b) \<and> fi_outcome f \<noteq> MISSING_BROKER_POSITION"
        using 1(2) by (simp add: kp check_projected_position_def broker_pos_get)
      then show ?thesis using find_rev_Some [OF Some] by auto
    qed
  next
    case 2
    then show ?thesis by (auto simp: check_broker_position_def split: if_splits)
  qed
qed

text \<open>
  The correction of a position finding that names a broker quantity (a quantity mismatch
  or an unexpected broker position) makes the ledger agree with the broker: after it the contract's
  quantity is the quantity of a position the broker listed, it is open exactly when that is not
  zero, and realised P&L and every other contract are untouched.
\<close>

theorem position_correction_restores_broker:
  assumes "reconcile rid now sid pr bos bps ts = Inr r" "f \<in> set (rp_findings r)"
    and "fi_entity_type f = ''position''" "fi_outcome f \<noteq> MISSING_BROKER_POSITION"
    and "correction_of i t r a src f = Inr e" "apply_event e v = Inr v'"
  shows "\<exists>b \<in> set bps. bp_contract_id b = fi_entity_id f \<and>
    (\<forall>c. case (pos_core v c, pos_core v' c) of ((q, avg, pnl, opn), (q', avg', pnl', opn')) \<Rightarrow>
       pnl' = pnl \<and>
       (if c = fi_entity_id f then q' = bp_quantity b \<and> opn' = (bp_quantity b \<noteq> 0) else (q', avg', opn') = (q, avg, opn)))"
proof -
  obtain b where b: "b \<in> set bps" "bp_contract_id b = fi_entity_id f" "fi_broker_quantity f = Some (bp_quantity b)"
    using finding_cases [OF assms(1-3)] assms(4) by auto
  have "case (pos_core v c, pos_core v' c) of ((q, avg, pnl, opn), (q', avg', pnl', opn')) \<Rightarrow>
       pnl' = pnl \<and>
       (if c = fi_entity_id f then q' = bp_quantity b \<and> opn' = (bp_quantity b \<noteq> 0) else (q', avg', opn') = (q, avg, opn))" for c
    using position_correction_effect [OF assms(5,3,6), of c] b(3)
    by (cases "pos_core v c") (auto simp: Let_def)
  then show ?thesis using b by blast
qed

text \<open>
  The correction of a position the broker does not hold repairs nothing: it sets the
  ledger's quantity to the quantity the ledger already has, so the position the broker lacks stays
  open with its quantity and price.
\<close>

theorem missing_position_correction_keeps_position:
  assumes "project es = Inr pr" "reconcile rid now sid pr bos bps ts = Inr r" "f \<in> set (rp_findings r)"
    and "fi_outcome f = MISSING_BROKER_POSITION" "fi_entity_type f = ''position''"
    and "correction_of i t r a src f = Inr e" "apply_event e (view_of (projr (project_loop es))) = Inr v'"
  shows "pos_core v' (fi_entity_id f) = pos_core (view_of (projr (project_loop es))) (fi_entity_id f) \<and>
    fst (pos_core v' (fi_entity_id f)) \<noteq> 0"
proof -
  obtain st where st: "project_loop es = Inr st" "pr = freeze_view st"
    using project_Inr [OF assms(1)] by blast
  obtain p where mem: "(fi_entity_id f, p) \<in> set (projected_open_positions pr)"
    and q: "fi_projected_quantity f = Some (ps_quantity p)" "fi_broker_quantity f = None"
    using finding_cases [OF assms(2,3,5)] assms(4) by auto
  have get: "dict_get (pr_positions pr) (fi_entity_id f) = Some p" and p: "ps_open p" "ps_quantity p \<noteq> 0"
    using mem project_keys_distinct [OF assms(1)] by (auto simp: projected_open_positions_def)
  obtain opn where core: "pos_core (view_of st) (fi_entity_id f) = (ps_quantity p, ps_avg_price p, ps_realized_pnl p, opn)"
    "opn"
    using freeze_view_core [of st "fi_entity_id f" p] get st(2) p(1) by auto
  show ?thesis
    using position_correction_effect [OF assms(6,5,7), of "fi_entity_id f"] core p q
    by (simp add: st(1) correction_qty_def)
qed

text \<open>
  The correction of a filled-quantity mismatch sets the ledger's filled quantity to the
  broker's, unless the broker reports no fill at all: zero is falsy in \<open>broker_quantity or
  projected_quantity\<close>, so the ledger keeps the wrong quantity it had.
\<close>

theorem order_fill_correction_effect:
  assumes "f \<in> set (compare_order o1 b)" "fi_outcome f = QUANTITY_MISMATCH"
    and "0 \<le> ol_filled_qty o1" "0 \<le> bv_filled_qty b"
    and "correction_of i t r a src f = Inr e" "apply_event e v = Inr v'"
    and "order_core v (ol_client_order_id o1) \<noteq> None"
  shows "map_option mo_filled_qty (order_core v' (ol_client_order_id o1)) =
    Some (if bv_filled_qty b = 0 then ol_filled_qty o1 else bv_filled_qty b)"
proof -
  note fields = make_ledger_event_fields [OF assms(5) [unfolded correction_of_def]]
  have f: "fi_entity_type f = ''order''" "fi_entity_id f = ol_client_order_id o1"
    "fi_broker_quantity f = Some (bv_filled_qty b)" "fi_projected_quantity f = Some (ol_filled_qty o1)"
    using assms(1,2) by (auto simp: compare_order_def Let_def split: if_splits)
  have q: "\<bar>correction_qty f\<bar> = (if bv_filled_qty b = 0 then ol_filled_qty o1 else bv_filled_qty b)"
    using assms(3,4) f by (simp add: correction_qty_def)
  have kinds: "correction_kind_is ''order_fill_qty'' e" "\<not> correction_kind_is ''order_status'' e"
    "\<not> correction_kind_is ''position_quantity'' e"
    using assms(2) f by (simp_all add: correction_kind_is_def fields correction_kwargs_sel correction_meta_get correction_kind_def)
  have v': "v' = add_fees True e (correct_order_fill_qty e v)"
    using assms(6) kinds by (simp add: apply_event_def apply_correction_def fields correction_kwargs_sel)
  obtain m where m: "dict_get (lv_orders v) (ol_client_order_id o1) = Some m"
    using assms(7) by (auto simp: order_core_def)
  show ?thesis
    using m f q by (simp add: v' correct_order_fill_qty_def fields correction_kwargs_sel Let_def order_core_put_order)
qed

section \<open>Concrete reconciliations\<close>

definition bought :: "ledger_event list" where
  "bought = take 3 round_trip"

definition held_state :: projection_state where
  "held_state = projr (project bought)"

definition held_broker :: "decimal \<Rightarrow> broker_position_view" where
  "held_broker q = \<lparr>bp_contract_id = ''SPY:c'', bp_quantity = q, bp_avg_price = Some 4\<rparr>"

definition held_report :: "broker_position_view list \<Rightarrow> report" where
  "held_report bps = projr (reconcile ''r1'' (at_utc 0) ''s1'' held_state [] bps None)"

lemma held_state_projects: "project bought = Inr held_state"
proof -
  have "\<not> isl (project bought)" by code_simp
  then show ?thesis by (simp add: held_state_def)
qed

lemma held_report_ok: "reconcile ''r1'' (at_utc 0) ''s1'' held_state [] bps None = Inr (held_report bps)"
proof -
  have "\<not> isl (reconcile ''r1'' (at_utc 0) ''s1'' held_state [] bps None)"
    by (simp add: reconcile_def nonblank_def is_space_def Let_def)
  then show ?thesis by (simp add: held_report_def)
qed


definition demo_correction :: "broker_position_view list \<Rightarrow> ledger_event" where
  "demo_correction bps =
     projr (correction_of ''x1'' (at_utc 0) (held_report bps) ''acct'' None (last (rp_findings (held_report bps))))"

lemma demo_correction_ok:
  "correction_of ''x1'' (at_utc 0) (held_report [held_broker 2]) ''acct'' None (last (rp_findings (held_report [held_broker 2]))) =
     Inr (demo_correction [held_broker 2])"
  "correction_of ''x1'' (at_utc 0) (held_report []) ''acct'' None (last (rp_findings (held_report []))) =
     Inr (demo_correction [])"
proof -
  have "\<not> isl (correction_of ''x1'' (at_utc 0) (held_report [held_broker 2]) ''acct'' None (last (rp_findings (held_report [held_broker 2]))))"
    "\<not> isl (correction_of ''x1'' (at_utc 0) (held_report []) ''acct'' None (last (rp_findings (held_report []))))"
    by code_simp+
  then show
    "correction_of ''x1'' (at_utc 0) (held_report [held_broker 2]) ''acct'' None (last (rp_findings (held_report [held_broker 2]))) =
       Inr (demo_correction [held_broker 2])"
    "correction_of ''x1'' (at_utc 0) (held_report []) ''acct'' None (last (rp_findings (held_report []))) =
       Inr (demo_correction [])"
    by (simp_all add: demo_correction_def)
qed

definition held_view :: ledger_view where
  "held_view = view_of (projr (project_loop bought))"

theorem position_correction_restores_broker_witness:
  "fst (pos_core (projr (apply_event (demo_correction [held_broker 2]) held_view)) ''SPY:c'') = 2"
proof -
  let ?r = "held_report [held_broker 2]" and ?e = "demo_correction [held_broker 2]"
  let ?f = "last (rp_findings ?r)"
  have f: "rp_findings ?r \<noteq> []" "fi_entity_type ?f = ''position''" "fi_outcome ?f \<noteq> MISSING_BROKER_POSITION"
    "fi_entity_id ?f = ''SPY:c''"
    by code_simp+
  have "\<not> isl (apply_event ?e held_view)" by code_simp
  then have ap: "apply_event ?e held_view = Inr (projr (apply_event ?e held_view))" by simp
  from position_correction_restores_broker [OF held_report_ok last_in_set [OF f(1)] f(2,3) demo_correction_ok(1) ap]
  obtain b where b: "b \<in> set [held_broker 2]"
    and all: "\<forall>c. case (pos_core held_view c, pos_core (projr (apply_event ?e held_view)) c) of
        ((q, avg, pnl, opn), (q', avg', pnl', opn')) \<Rightarrow> pnl' = pnl \<and>
        (if c = fi_entity_id ?f then q' = bp_quantity b \<and> opn' = (bp_quantity b \<noteq> 0) else (q', avg', opn') = (q, avg, opn))"
    by blast
  have "bp_quantity b = 2" using b by (simp add: held_broker_def)
  with spec [OF all, of "''SPY:c''"] show ?thesis
    unfolding f(4) by (simp split: prod.splits)
qed

theorem missing_position_correction_keeps_position_witness:
  "fst (pos_core (projr (apply_event (demo_correction []) held_view)) ''SPY:c'') \<noteq> 0"
proof -
  let ?r = "held_report []" and ?e = "demo_correction []"
  let ?f = "last (rp_findings ?r)"
  have f: "rp_findings ?r \<noteq> []" "fi_outcome ?f = MISSING_BROKER_POSITION" "fi_entity_type ?f = ''position''"
    "fi_entity_id ?f = ''SPY:c''"
    by code_simp+
  have "\<not> isl (apply_event ?e held_view)" by code_simp
  then have ap: "apply_event ?e (view_of (projr (project_loop bought))) = Inr (projr (apply_event ?e held_view))"
    by (simp add: held_view_def)
  from missing_position_correction_keeps_position [OF held_state_projects held_report_ok last_in_set [OF f(1)] f(2,3)
      demo_correction_ok(2) ap]
  show ?thesis unfolding f(4) by (rule conjunct2)
qed

definition stale_order :: order_lifecycle where
  "stale_order = the (dict_get (pr_orders held_state) ''c1'')"

definition unfilled_at_broker :: broker_order_view where
  "unfilled_at_broker =
     \<lparr>bv_broker_order_id = ''b1'', bv_client_order_id = Some ''c1'', bv_contract_id = ''SPY:c'', bv_side = Buy,
      bv_quantity = 3, bv_filled_qty = 0, bv_status = ''filled''\<rparr>"

definition fill_correction :: ledger_event where
  "fill_correction =
     projr (correction_of ''x1'' (at_utc 0) (held_report []) ''acct'' None (hd (compare_order stale_order unfilled_at_broker)))"

theorem order_fill_correction_effect_witness:
  "map_option mo_filled_qty (order_core (projr (apply_event fill_correction held_view)) ''c1'') = Some 3"
proof -
  let ?f = "hd (compare_order stale_order unfilled_at_broker)"
  have f: "compare_order stale_order unfilled_at_broker \<noteq> []" "fi_outcome ?f = QUANTITY_MISMATCH"
    "0 \<le> ol_filled_qty stale_order" "0 \<le> bv_filled_qty unfilled_at_broker"
    "ol_client_order_id stale_order = ''c1''" "ol_filled_qty stale_order = 3" "bv_filled_qty unfilled_at_broker = 0"
    "order_core held_view (ol_client_order_id stale_order) \<noteq> None"
    by code_simp+
  have "\<not> isl (correction_of ''x1'' (at_utc 0) (held_report []) ''acct'' None ?f)"
    "\<not> isl (apply_event fill_correction held_view)" by code_simp+
  then have e: "correction_of ''x1'' (at_utc 0) (held_report []) ''acct'' None ?f = Inr fill_correction"
    and ap: "apply_event fill_correction held_view = Inr (projr (apply_event fill_correction held_view))"
    by (simp_all add: fill_correction_def)
  show ?thesis
    using order_fill_correction_effect [OF hd_in_set [OF f(1)] f(2-4) e ap f(8)] by (simp add: f)
qed

end
