(* ===== verification/Paper_Broker_Props.thy ===== *)
theory Paper_Broker_Props
  imports Paper_Broker
begin

text \<open>
  What the simulated broker guarantees in every reachable state: its bookkeeping invariant, the
  cash and P&L accounts as sums over the recorded fills and closed positions, when a limit order
  fills, and what a sell does to the positions of its contract.
\<close>

lemma dict_set_new: "k \<notin> fst ` set d \<Longrightarrow> dict_set k v d = d @ [(k, v)]"
  by (induction d) auto

lemma dict_get_None_keys: "dict_get d k = None \<longleftrightarrow> k \<notin> fst ` set d"
  by (simp add: map_of_eq_None_iff)

section \<open>Closing positions\<close>

definition closes :: "option_contract \<Rightarrow> string \<times> position \<Rightarrow> bool" where
  "closes c kp \<longleftrightarrow> po_is_open (snd kp) \<and> po_contract (snd kp) = c"

definition close_gain :: "pyfloat \<Rightarrow> int \<Rightarrow> position \<Rightarrow> pyfloat" where
  "close_gain fp q p = (fp - po_avg_entry_price p) * of_int q * 100"

definition after_sell :: "option_contract \<Rightarrow> pyfloat \<Rightarrow> int \<Rightarrow> string \<times> position \<Rightarrow> string \<times> position \<Rightarrow> bool" where
  "after_sell c fp q kp kp' \<longleftrightarrow> fst kp' = fst kp \<and>
     (if closes c kp
      then (\<exists>t. snd kp' = (snd kp)\<lparr>po_is_open := False, po_closed_at := Some t, po_realized_pnl_usd := Some (close_gain fp q (snd kp))\<rparr>)
      else snd kp' = snd kp)"

lemma close_positions_spec:
  assumes "close_positions env c fp q ps n = (ps', tot, n')"
  shows "map fst ps' = map fst ps \<and> n \<le> n' \<and> list_all2 (after_sell c fp q) ps ps' \<and>
    tot = sum_list (map (\<lambda>kp. if closes c kp then close_gain fp q (snd kp) else 0) ps)"
  using assms
proof (induction ps arbitrary: ps' tot n n')
  case (Cons kp ps)
  obtain k p where kp: "kp = (k, p)" by (cases kp)
  show ?case
  proof (cases "closes c kp")
    case True
    then have c: "po_is_open p \<and> po_contract p = c" by (simp add: closes_def kp)
    obtain qs s m where r: "close_positions env c fp q ps (Suc n) = (qs, s, m)" by (metis prod.collapse)
    have "after_sell c fp q kp (k, p\<lparr>po_is_open := False, po_closed_at := Some (pe_now env n),
        po_realized_pnl_usd := Some (close_gain fp q p)\<rparr>)" (is "after_sell c fp q kp ?h")
      using True by (auto simp: after_sell_def kp)
    moreover have "ps' = ?h # qs" "tot = close_gain fp q p + s" "n' = m"
      using Cons.prems c by (auto simp: kp r Let_def close_gain_def)
    ultimately show ?thesis using Cons.IH [OF r] True by (simp add: kp)
  next
    case False
    then have c: "\<not> (po_is_open p \<and> po_contract p = c)" by (simp add: closes_def kp)
    obtain qs s m where r: "close_positions env c fp q ps n = (qs, s, m)" by (metis prod.collapse)
    have "after_sell c fp q kp kp" using False by (simp add: after_sell_def)
    moreover have "ps' = kp # qs" "tot = s" "n' = m"
      using Cons.prems c by (auto simp: kp r Let_def)
    ultimately show ?thesis using Cons.IH [OF r] False by simp
  qed
qed simp

section \<open>The invariant\<close>

definition cash_flow :: "(string, broker_order) dict \<Rightarrow> fill \<Rightarrow> pyfloat" where
  "cash_flow orders f =
     (case dict_get orders (fl_order_id f) of
        None \<Rightarrow> 0
      | Some ord \<Rightarrow> (if bo_side ord = Buy then - 1 else 1) * (fl_price f * of_int (fl_quantity f) * 100))"

definition realized_of :: "position \<Rightarrow> pyfloat" where
  "realized_of p = (case po_realized_pnl_usd p of None \<Rightarrow> 0 | Some x \<Rightarrow> x)"

definition broker_ids_ok :: "paper_env \<Rightarrow> paper_broker \<Rightarrow> bool" where
  "broker_ids_ok env b \<longleftrightarrow>
     dict_ok (pb_orders b) \<and> dict_ok (pb_fills b) \<and> dict_ok (pb_positions b) \<and>
     fst ` set (pb_orders b) = pb_used_order_ids b \<and>
     pb_used_order_ids b \<union> fst ` set (pb_fills b) \<union> fst ` set (pb_positions b) \<subseteq> pe_id env ` {..<pb_draws b}"

definition order_entry_ok :: "(string, fill) dict \<Rightarrow> string \<times> broker_order \<Rightarrow> bool" where
  "order_entry_ok fills kord \<longleftrightarrow>
     bo_order_id (snd kord) = fst kord \<and> bo_status (snd kord) \<in> {Open, Filled, Cancelled} \<and>
     (bo_status (snd kord) = Filled \<longleftrightarrow> fst kord \<in> fl_order_id ` set (dict_values fills))"

definition broker_orders_ok :: "paper_broker \<Rightarrow> bool" where
  "broker_orders_ok b \<longleftrightarrow>
     (\<forall>kord \<in> set (pb_orders b). order_entry_ok (pb_fills b) kord) \<and>
     (\<forall>f \<in> set (dict_values (pb_fills b)). \<exists>ord. dict_get (pb_orders b) (fl_order_id f) = Some ord \<and> fl_quantity f = bo_quantity ord) \<and>
     distinct (map fl_order_id (dict_values (pb_fills b)))"

definition broker_money_ok :: "paper_broker \<Rightarrow> bool" where
  "broker_money_ok b \<longleftrightarrow>
     pb_cash_balance b = pb_initial_balance b + sum_list (map (cash_flow (pb_orders b)) (dict_values (pb_fills b))) \<and>
     pb_daily_pnl b = sum_list (map realized_of (dict_values (pb_positions b))) \<and>
     (\<forall>p \<in> set (dict_values (pb_positions b)). po_is_open p \<longleftrightarrow> po_realized_pnl_usd p = None)"

definition broker_ok :: "paper_env \<Rightarrow> paper_broker \<Rightarrow> bool" where
  "broker_ok env b \<longleftrightarrow> broker_ids_ok env b \<and> broker_orders_ok b \<and> broker_money_ok b"

inductive paper_reachable :: "paper_env \<Rightarrow> paper_broker \<Rightarrow> bool" for env where
  reach_new: "paper_reachable env (new_paper_broker bal slip spread)"
| reach_submit: "paper_reachable env b \<Longrightarrow> paper_reachable env (snd (submit_order env i b))"
| reach_cancel: "paper_reachable env b \<Longrightarrow> paper_reachable env (snd (cancel_order k b))"

text \<open>A submission is an open order, possibly followed by its fill.\<close>

definition opened_order :: "paper_env \<Rightarrow> order_intent \<Rightarrow> paper_broker \<Rightarrow> broker_order" where
  "opened_order env i b =
     \<lparr>bo_order_id = pe_id env (pb_draws b), bo_intent_id = oi_intent_id i, bo_status = Open,
      bo_contract = oi_contract i, bo_side = oi_side i, bo_quantity = oi_quantity i,
      bo_limit_price = oi_limit_price i, bo_submitted_at = pe_now env (pb_draws b)\<rparr>"

definition with_opened :: "paper_env \<Rightarrow> order_intent \<Rightarrow> paper_broker \<Rightarrow> paper_broker" where
  "with_opened env i b =
     b\<lparr>pb_used_order_ids := insert (pe_id env (pb_draws b)) (pb_used_order_ids b),
       pb_orders := dict_set (pe_id env (pb_draws b)) (opened_order env i b) (pb_orders b),
       pb_draws := Suc (pb_draws b)\<rparr>"

definition fills_now :: "paper_broker \<Rightarrow> order_intent \<Rightarrow> bool" where
  "fills_now b i \<longleftrightarrow> oi_order_type i = Limit \<and> oi_limit_price i \<noteq> None \<and> should_fill i (simulate_fill_price b i)"

lemma simulate_fill_price_with_opened [simp]:
  "simulate_fill_price (with_opened env i b) j = simulate_fill_price b j"
  by (simp add: simulate_fill_price_def with_opened_def)

lemma submit_order_cases:
  "submit_order env i b =
     (if pe_id env (pb_draws b) \<in> pb_used_order_ids b
      then (Inl (BrokerError (''Duplicate order ID rejected: '' @ pe_id env (pb_draws b))), b\<lparr>pb_draws := Suc (pb_draws b)\<rparr>)
      else if fills_now b i
      then (Inr ((opened_order env i b)\<lparr>bo_status := Filled\<rparr>),
            apply_fill_broker env (opened_order env i b) (simulate_fill_price b i) (with_opened env i b))
      else (Inr (opened_order env i b), with_opened env i b))"
  using simulate_fill_price_with_opened [of env i b i]
  by (auto simp: submit_order_def opened_order_def [symmetric] with_opened_def [symmetric] fills_now_def run_defs Let_def)

lemma fresh_id:
  assumes "inj (pe_id env)" "broker_ok env b" "pb_draws b \<le> m"
  shows "pe_id env m \<notin> pb_used_order_ids b" "pe_id env m \<notin> fst ` set (pb_orders b)"
    "pe_id env m \<notin> fst ` set (pb_fills b)" "pe_id env m \<notin> fst ` set (pb_positions b)"
proof -
  have "pe_id env m \<notin> pe_id env ` {..<pb_draws b}"
    using assms(1,3) by (auto dest: injD)
  then show "pe_id env m \<notin> pb_used_order_ids b" "pe_id env m \<notin> fst ` set (pb_orders b)"
    "pe_id env m \<notin> fst ` set (pb_fills b)" "pe_id env m \<notin> fst ` set (pb_positions b)"
    using assms(2) by (auto simp: broker_ok_def broker_ids_ok_def)
qed


text \<open>The state after a fill, the two sides apart.\<close>

definition recorded_fill :: "paper_env \<Rightarrow> broker_order \<Rightarrow> pyfloat \<Rightarrow> paper_broker \<Rightarrow> fill" where
  "recorded_fill env ord x b =
     \<lparr>fl_fill_id = pe_id env (pb_draws b), fl_order_id = bo_order_id ord, fl_price = x,
      fl_quantity = bo_quantity ord, fl_filled_at = pe_now env (pb_draws b), fl_slippage_pct = pb_slippage_pct b\<rparr>"

definition bought_position :: "paper_env \<Rightarrow> broker_order \<Rightarrow> pyfloat \<Rightarrow> paper_broker \<Rightarrow> position" where
  "bought_position env ord x b =
     \<lparr>po_position_id = pe_id env (Suc (pb_draws b)), po_contract = bo_contract ord, po_quantity = bo_quantity ord,
      po_avg_entry_price = x, po_is_open = True, po_opened_at = pe_now env (Suc (pb_draws b)),
      po_closed_at = None, po_realized_pnl_usd = None\<rparr>"

lemma apply_fill_sel:
  "pb_orders (apply_fill_broker env ord x b) = dict_set (bo_order_id ord) (ord\<lparr>bo_status := Filled\<rparr>) (pb_orders b)"
  "pb_fills (apply_fill_broker env ord x b) = dict_set (pe_id env (pb_draws b)) (recorded_fill env ord x b) (pb_fills b)"
  "pb_used_order_ids (apply_fill_broker env ord x b) = pb_used_order_ids b"
  "pb_initial_balance (apply_fill_broker env ord x b) = pb_initial_balance b"
  "pb_cash_balance (apply_fill_broker env ord x b) =
     pb_cash_balance b + (if bo_side ord = Buy then - 1 else 1) * (x * of_int (bo_quantity ord) * 100)"
  "pb_slippage_pct (apply_fill_broker env ord x b) = pb_slippage_pct b"
  by (simp_all add: apply_fill_broker_def recorded_fill_def Let_def split: prod.splits)

lemma apply_fill_buy:
  assumes "bo_side ord = Buy"
  shows "pb_positions (apply_fill_broker env ord x b) =
      dict_set (pe_id env (Suc (pb_draws b))) (bought_position env ord x b) (pb_positions b)"
    "pb_daily_pnl (apply_fill_broker env ord x b) = pb_daily_pnl b"
    "pb_draws (apply_fill_broker env ord x b) = Suc (Suc (pb_draws b))"
  using assms by (simp_all add: apply_fill_broker_def bought_position_def Let_def)

lemma apply_fill_sell:
  assumes "bo_side ord = Sell"
  shows "list_all2 (after_sell (bo_contract ord) x (bo_quantity ord)) (pb_positions b) (pb_positions (apply_fill_broker env ord x b))"
    "map fst (pb_positions (apply_fill_broker env ord x b)) = map fst (pb_positions b)"
    "pb_daily_pnl (apply_fill_broker env ord x b) = pb_daily_pnl b +
       sum_list (map (\<lambda>kp. if closes (bo_contract ord) kp then close_gain x (bo_quantity ord) (snd kp) else 0) (pb_positions b))"
    "Suc (pb_draws b) \<le> pb_draws (apply_fill_broker env ord x b)"
proof -
  obtain ps tot n where r: "close_positions env (bo_contract ord) x (bo_quantity ord) (pb_positions b) (Suc (pb_draws b)) = (ps, tot, n)"
    by (metis prod.collapse)
  have f: "pb_positions (apply_fill_broker env ord x b) = ps" "pb_draws (apply_fill_broker env ord x b) = n"
    "pb_daily_pnl (apply_fill_broker env ord x b) = pb_daily_pnl b + tot"
    using assms by (simp_all add: apply_fill_broker_def r Let_def)
  show "list_all2 (after_sell (bo_contract ord) x (bo_quantity ord)) (pb_positions b) (pb_positions (apply_fill_broker env ord x b))"
    "map fst (pb_positions (apply_fill_broker env ord x b)) = map fst (pb_positions b)"
    "pb_daily_pnl (apply_fill_broker env ord x b) = pb_daily_pnl b +
       sum_list (map (\<lambda>kp. if closes (bo_contract ord) kp then close_gain x (bo_quantity ord) (snd kp) else 0) (pb_positions b))"
    "Suc (pb_draws b) \<le> pb_draws (apply_fill_broker env ord x b)"
    using close_positions_spec [OF r] by (simp_all add: f)
qed

lemma image_lessThan_mono: "m \<le> n \<Longrightarrow> x \<in> f ` {..<m} \<Longrightarrow> x \<in> f ` {..<n :: nat}"
  by auto

lemma with_opened_sel:
  "pb_orders (with_opened env i b) = dict_set (pe_id env (pb_draws b)) (opened_order env i b) (pb_orders b)"
  "pb_fills (with_opened env i b) = pb_fills b" "pb_positions (with_opened env i b) = pb_positions b"
  "pb_used_order_ids (with_opened env i b) = insert (pe_id env (pb_draws b)) (pb_used_order_ids b)"
  "pb_draws (with_opened env i b) = Suc (pb_draws b)" "pb_cash_balance (with_opened env i b) = pb_cash_balance b"
  "pb_initial_balance (with_opened env i b) = pb_initial_balance b" "pb_daily_pnl (with_opened env i b) = pb_daily_pnl b"
  "pb_slippage_pct (with_opened env i b) = pb_slippage_pct b"
  by (simp_all add: with_opened_def)

lemma opened_order_sel [simp]:
  "bo_order_id (opened_order env i b) = pe_id env (pb_draws b)" "bo_status (opened_order env i b) = Open"
  "bo_side (opened_order env i b) = oi_side i" "bo_quantity (opened_order env i b) = oi_quantity i"
  "bo_contract (opened_order env i b) = oi_contract i" "bo_intent_id (opened_order env i b) = oi_intent_id i"
  "bo_limit_price (opened_order env i b) = oi_limit_price i"
  by (simp_all add: opened_order_def)

lemma broker_okD:
  assumes "broker_ok env b"
  shows "dict_ok (pb_orders b)" "dict_ok (pb_fills b)" "dict_ok (pb_positions b)"
    "fst ` set (pb_orders b) = pb_used_order_ids b" "pb_used_order_ids b \<subseteq> pe_id env ` {..<pb_draws b}"
    "fst ` set (pb_fills b) \<subseteq> pe_id env ` {..<pb_draws b}" "fst ` set (pb_positions b) \<subseteq> pe_id env ` {..<pb_draws b}"
    "\<forall>kord \<in> set (pb_orders b). order_entry_ok (pb_fills b) kord"
    "distinct (map fl_order_id (dict_values (pb_fills b)))" "broker_money_ok b"
  using assms unfolding broker_ok_def broker_ids_ok_def broker_orders_ok_def by simp_all

lemma broker_ok_fill:
  "broker_ok env b \<Longrightarrow> f \<in> set (dict_values (pb_fills b)) \<Longrightarrow>
   \<exists>ord. dict_get (pb_orders b) (fl_order_id f) = Some ord \<and> fl_quantity f = bo_quantity ord"
  unfolding broker_ok_def broker_orders_ok_def by (elim conjE) (erule bspec, assumption)

lemma broker_okI:
  assumes "dict_ok (pb_orders b)" "dict_ok (pb_fills b)" "dict_ok (pb_positions b)"
    "fst ` set (pb_orders b) = pb_used_order_ids b" "pb_used_order_ids b \<subseteq> pe_id env ` {..<pb_draws b}"
    "fst ` set (pb_fills b) \<subseteq> pe_id env ` {..<pb_draws b}" "fst ` set (pb_positions b) \<subseteq> pe_id env ` {..<pb_draws b}"
    "\<forall>kord \<in> set (pb_orders b). order_entry_ok (pb_fills b) kord"
    "\<And>f. f \<in> set (dict_values (pb_fills b)) \<Longrightarrow> \<exists>ord. dict_get (pb_orders b) (fl_order_id f) = Some ord \<and> fl_quantity f = bo_quantity ord"
    "distinct (map fl_order_id (dict_values (pb_fills b)))" "broker_money_ok b"
  shows "broker_ok env b"
  unfolding broker_ok_def broker_ids_ok_def broker_orders_ok_def
  by (intro conjI Un_least) (rule assms | (rule ballI, rule assms(9), assumption))+

lemma draws_mono: "m \<le> n \<Longrightarrow> A \<subseteq> f ` {..<m :: nat} \<Longrightarrow> A \<subseteq> f ` {..<n}"
  by (rule order_trans) auto

lemma draws_Suc: "A \<subseteq> f ` {..<m :: nat} \<Longrightarrow> A \<subseteq> f ` {..<Suc m}"
  by (rule draws_mono) auto

lemma draws_insert: "m < n \<Longrightarrow> A \<subseteq> f ` {..<m :: nat} \<Longrightarrow> insert (f m) A \<subseteq> f ` {..<n}"
  using draws_mono [of m n A f] by auto

lemma with_opened_ok:
  assumes "inj (pe_id env)" "broker_ok env b"
  shows "broker_ok env (with_opened env i b)"
proof (rule broker_okI)
  note fresh = fresh_id [OF assms order_refl]
  note ok = broker_okD [OF assms(2)]
  have fresh_none: "dict_get (pb_orders b) (pe_id env (pb_draws b)) = None"
    using fresh(2) by (simp add: dict_get_None_keys)
  have known: "fl_order_id f \<noteq> pe_id env (pb_draws b)" if "f \<in> set (dict_values (pb_fills b))" for f
    using broker_ok_fill [OF assms(2) that] fresh_none by auto
  have flow: "cash_flow (pb_orders (with_opened env i b)) f = cash_flow (pb_orders b) f"
    if "f \<in> set (dict_values (pb_fills b))" for f
    using known [OF that] by (simp add: cash_flow_def with_opened_sel)
  have new: "pe_id env (pb_draws b) \<notin> fl_order_id ` set (dict_values (pb_fills b))"
    by (rule notI, erule imageE) (metis known)
  show "\<forall>kord \<in> set (pb_orders (with_opened env i b)). order_entry_ok (pb_fills (with_opened env i b)) kord"
    using ok(8) new by (auto simp: with_opened_sel dict_set_new [OF fresh(2)] order_entry_ok_def [of _ "(_, opened_order _ _ _)"])
  show "\<exists>ord. dict_get (pb_orders (with_opened env i b)) (fl_order_id f) = Some ord \<and> fl_quantity f = bo_quantity ord"
    if "f \<in> set (dict_values (pb_fills (with_opened env i b)))" for f
    using that broker_ok_fill [OF assms(2), of f] known [of f] by (simp add: with_opened_sel)
  have "sum_list (map (cash_flow (pb_orders (with_opened env i b))) (dict_values (pb_fills b))) =
      sum_list (map (cash_flow (pb_orders b)) (dict_values (pb_fills b)))"
    using flow by (metis (no_types, lifting) map_eq_conv)
  then show "broker_money_ok (with_opened env i b)"
    using ok(10) by (simp add: broker_money_ok_def with_opened_sel)
qed (use broker_okD [OF assms(2)] in \<open>simp_all add: with_opened_sel dict_set_keys draws_Suc\<close>)


lemma dict_set_entry: "dict_ok d \<Longrightarrow> x \<in> set (dict_set k v d) \<Longrightarrow> x = (k, v) \<or> (x \<in> set d \<and> fst x \<noteq> k)"
  by (induction d) (auto split: if_splits)

text \<open>Selling realises the gain of each position it closes.\<close>

lemma after_sell_sums:
  assumes "list_all2 (after_sell c x q) ps ps'"
    and "\<forall>p \<in> set (map snd ps). po_is_open p \<longleftrightarrow> po_realized_pnl_usd p = None"
  shows "sum_list (map realized_of (map snd ps')) = sum_list (map realized_of (map snd ps)) +
      sum_list (map (\<lambda>kp. if closes c kp then close_gain x q (snd kp) else 0) ps) \<and>
    (\<forall>p \<in> set (map snd ps'). po_is_open p \<longleftrightarrow> po_realized_pnl_usd p = None)"
  using assms
proof (induction rule: list_all2_induct)
  case (Cons kp ps kp' ps')
  have open_kp: "po_is_open (snd kp) \<longleftrightarrow> po_realized_pnl_usd (snd kp) = None" using Cons.prems by simp
  have tail: "sum_list (map realized_of (map snd ps')) = sum_list (map realized_of (map snd ps)) +
      sum_list (map (\<lambda>kp. if closes c kp then close_gain x q (snd kp) else 0) ps) \<and>
    (\<forall>p \<in> set (map snd ps'). po_is_open p \<longleftrightarrow> po_realized_pnl_usd p = None)"
    by (rule Cons.IH) (use Cons.prems in simp)
  have "realized_of (snd kp') = realized_of (snd kp) + (if closes c kp then close_gain x q (snd kp) else 0) \<and>
    (po_is_open (snd kp') \<longleftrightarrow> po_realized_pnl_usd (snd kp') = None)"
  proof (cases "closes c kp")
    case True
    then obtain t where "snd kp' = (snd kp)\<lparr>po_is_open := False, po_closed_at := Some t,
        po_realized_pnl_usd := Some (close_gain x q (snd kp))\<rparr>"
      using Cons.hyps(1) by (auto simp: after_sell_def)
    then show ?thesis using True open_kp by (simp add: closes_def realized_of_def)
  next
    case False
    then show ?thesis using Cons.hyps(1) open_kp by (simp add: after_sell_def)
  qed
  then show ?case using tail by simp
qed simp

lemma apply_fill_money:
  assumes "inj (pe_id env)" "broker_ok env b" "dict_get (pb_orders b) (bo_order_id ord) = Some ord"
  shows "broker_money_ok (apply_fill_broker env ord x b)"
proof -
  note fresh = fresh_id [OF assms(1,2)]
  have money: "broker_money_ok b" using assms(2) by (simp add: broker_ok_def)
  have flow: "cash_flow (pb_orders (apply_fill_broker env ord x b)) = cash_flow (pb_orders b)"
    by (rule ext) (use assms(3) in \<open>simp add: cash_flow_def apply_fill_sel\<close>)
  have new: "cash_flow (pb_orders b) (recorded_fill env ord x b) =
      (if bo_side ord = Buy then - 1 else 1) * (x * of_int (bo_quantity ord) * 100)"
    using assms(3) by (simp add: cash_flow_def recorded_fill_def)
  have fills: "dict_values (pb_fills (apply_fill_broker env ord x b)) = dict_values (pb_fills b) @ [recorded_fill env ord x b]"
    by (simp add: apply_fill_sel dict_set_new [OF fresh(3) [OF order_refl]])
  have cash: "pb_cash_balance (apply_fill_broker env ord x b) = pb_initial_balance b +
      sum_list (map (cash_flow (pb_orders (apply_fill_broker env ord x b))) (dict_values (pb_fills (apply_fill_broker env ord x b))))"
    unfolding flow fills using money by (simp only: map_append sum_list_append list.map sum_list.Cons sum_list.Nil
        new apply_fill_sel(5) broker_money_ok_def add_0_right add.assoc)
  show ?thesis
  proof (cases "bo_side ord = Buy")
    case True
    then show ?thesis
      using money cash by (simp add: broker_money_ok_def apply_fill_sel(4) apply_fill_buy dict_set_new [OF fresh(4)]
          bought_position_def realized_of_def)
  next
    case False
    then have sell: "bo_side ord = Sell" by (cases "bo_side ord") simp_all
    show ?thesis
      using after_sell_sums [OF apply_fill_sell(1) [OF sell, of x b env]] money cash
      by (simp add: broker_money_ok_def apply_fill_sel(4) apply_fill_sell(3) [OF sell])
  qed
qed

lemma apply_fill_ok:
  assumes "inj (pe_id env)" "broker_ok env b" "dict_get (pb_orders b) (bo_order_id ord) = Some ord" "bo_status ord = Open"
  shows "broker_ok env (apply_fill_broker env ord x b)"
proof (rule broker_okI)
  let ?b = "apply_fill_broker env ord x b" and ?k = "bo_order_id ord"
  note ok = broker_okD [OF assms(2)]
  note fresh = fresh_id [OF assms(1,2)]
  have fills: "pb_fills ?b = pb_fills b @ [(pe_id env (pb_draws b), recorded_fill env ord x b)]"
    by (simp add: apply_fill_sel dict_set_new [OF fresh(3) [OF order_refl]])
  have rf: "fl_order_id (recorded_fill env ord x b) = ?k" "fl_quantity (recorded_fill env ord x b) = bo_quantity ord"
    by (simp_all add: recorded_fill_def)
  have "order_entry_ok (pb_fills b) (?k, ord)"
    using bspec [OF ok(8) map_of_SomeD [OF assms(3)]] .
  then have unfilled: "?k \<notin> fl_order_id ` set (dict_values (pb_fills b))"
    using assms(4) by (simp add: order_entry_ok_def)
  have unused: "fl_order_id f \<noteq> ?k" if "f \<in> set (dict_values (pb_fills b))" for f
    using unfilled that by (metis imageI)
  show "\<forall>kord \<in> set (pb_orders ?b). order_entry_ok (pb_fills ?b) kord"
  proof
    fix kord
    assume "kord \<in> set (pb_orders ?b)"
    then have "kord = (?k, ord\<lparr>bo_status := Filled\<rparr>) \<or> (kord \<in> set (pb_orders b) \<and> fst kord \<noteq> ?k)"
      unfolding apply_fill_sel by (rule dict_set_entry [OF ok(1)])
    then show "order_entry_ok (pb_fills ?b) kord"
    proof
      assume "kord = (?k, ord\<lparr>bo_status := Filled\<rparr>)"
      then show ?thesis by (simp add: order_entry_ok_def fills rf)
    next
      assume old: "kord \<in> set (pb_orders b) \<and> fst kord \<noteq> ?k"
      then have "order_entry_ok (pb_fills b) kord" using ok(8) by simp
      then show ?thesis using old by (auto simp: order_entry_ok_def fills rf)
    qed
  qed
  show "\<exists>ord'. dict_get (pb_orders ?b) (fl_order_id f) = Some ord' \<and> fl_quantity f = bo_quantity ord'"
    if "f \<in> set (dict_values (pb_fills ?b))" for f
  proof (cases "f = recorded_fill env ord x b")
    case True
    then show ?thesis by (simp add: apply_fill_sel rf)
  next
    case False
    then have f: "f \<in> set (dict_values (pb_fills b))" using that by (auto simp: fills)
    show ?thesis using broker_ok_fill [OF assms(2) f] unused [OF f] by (simp add: apply_fill_sel)
  qed
  show "distinct (map fl_order_id (dict_values (pb_fills ?b)))"
    using ok(9) unfilled by (simp add: fills rf image_image)
  show "broker_money_ok ?b" by (rule apply_fill_money [OF assms(1-3)])
  have k: "?k \<in> fst ` set (pb_orders b)" using map_of_SomeD [OF assms(3)] by force
  then show "fst ` set (pb_orders ?b) = pb_used_order_ids ?b"
    using ok(4) by (simp add: apply_fill_sel dict_set_keys insert_absorb)
  have draws: "pb_draws b < pb_draws ?b"
    using apply_fill_sell(4) [of ord b env x] by (cases "bo_side ord") (auto simp: apply_fill_buy)
  have keys: "map fst (pb_positions ?b) = map fst (pb_positions b) \<or>
      (pb_positions ?b = pb_positions b @ [(pe_id env (Suc (pb_draws b)), bought_position env ord x b)] \<and>
       pb_draws ?b = Suc (Suc (pb_draws b)))"
    by (cases "bo_side ord") (simp_all add: apply_fill_sell(2) apply_fill_buy dict_set_new [OF fresh(4)])
  have pos: "dict_ok (pb_positions ?b)" "fst ` set (pb_positions ?b) \<subseteq> pe_id env ` {..<pb_draws ?b}"
    using keys
  proof (atomize (full), elim disjE)
    assume eq: "map fst (pb_positions ?b) = map fst (pb_positions b)"
    then have "fst ` set (pb_positions ?b) = fst ` set (pb_positions b)" by (metis list.set_map)
    then show "dict_ok (pb_positions ?b) \<and> fst ` set (pb_positions ?b) \<subseteq> pe_id env ` {..<pb_draws ?b}"
      using eq ok(3,7) draws by (simp add: draws_mono [OF less_imp_le])
  next
    assume new: "pb_positions ?b = pb_positions b @ [(pe_id env (Suc (pb_draws b)), bought_position env ord x b)] \<and>
       pb_draws ?b = Suc (Suc (pb_draws b))"
    then show "dict_ok (pb_positions ?b) \<and> fst ` set (pb_positions ?b) \<subseteq> pe_id env ` {..<pb_draws ?b}"
      using ok(3) fresh(4) [of "Suc (pb_draws b)"] draws_insert [OF lessI draws_Suc [OF ok(7)]] by simp
  qed
  show "dict_ok (pb_positions ?b)" "fst ` set (pb_positions ?b) \<subseteq> pe_id env ` {..<pb_draws ?b}" by (fact pos)+
  show "pb_used_order_ids ?b \<subseteq> pe_id env ` {..<pb_draws ?b}"
    using ok(5) draws by (simp add: apply_fill_sel draws_mono [OF less_imp_le])
  show "fst ` set (pb_fills ?b) \<subseteq> pe_id env ` {..<pb_draws ?b}"
    using draws_insert [OF draws ok(6)] by (simp add: fills)
  show "dict_ok (pb_orders ?b)" "dict_ok (pb_fills ?b)"
    using ok by (simp_all add: apply_fill_sel)
qed


lemma draw_ok: "broker_ok env b \<Longrightarrow> broker_ok env (b\<lparr>pb_draws := Suc (pb_draws b)\<rparr>)"
  using broker_okD [of env b] broker_ok_fill [of env b]
  by (intro broker_okI) (simp_all add: draws_Suc broker_money_ok_def)

lemma submit_order_ok:
  assumes "inj (pe_id env)" "broker_ok env b"
  shows "broker_ok env (snd (submit_order env i b))"
proof -
  have "broker_ok env (apply_fill_broker env (opened_order env i b) x (with_opened env i b))" for x
    by (rule apply_fill_ok [OF assms(1) with_opened_ok [OF assms]]) (simp_all add: with_opened_sel)
  then show ?thesis
    using draw_ok [OF assms(2)] with_opened_ok [OF assms] by (simp add: submit_order_cases)
qed

lemma cancel_order_ok:
  assumes "broker_ok env b"
  shows "broker_ok env (snd (cancel_order k b))"
proof (cases "dict_get (pb_orders b) k")
  case None
  then show ?thesis using assms by (simp add: cancel_order_def run_defs)
next
  case (Some ord)
  note ok = broker_okD [OF assms]
  have entry: "order_entry_ok (pb_fills b) (k, ord)" using bspec [OF ok(8) map_of_SomeD [OF Some]] .
  show ?thesis
  proof (cases "bo_status ord = Filled")
    case True
    then show ?thesis using Some assms by (simp add: cancel_order_def run_defs)
  next
    case False
    let ?b = "b\<lparr>pb_orders := dict_set k (ord\<lparr>bo_status := Cancelled\<rparr>) (pb_orders b)\<rparr>"
    have flow: "cash_flow (pb_orders ?b) = cash_flow (pb_orders b)"
      by (rule ext) (use Some in \<open>simp add: cash_flow_def\<close>)
    have "broker_ok env ?b"
    proof (rule broker_okI)
      show "\<forall>kord \<in> set (pb_orders ?b). order_entry_ok (pb_fills ?b) kord"
      proof
        fix kord
        assume "kord \<in> set (pb_orders ?b)"
        then have "kord = (k, ord\<lparr>bo_status := Cancelled\<rparr>) \<or> (kord \<in> set (pb_orders b) \<and> fst kord \<noteq> k)"
          using dict_set_entry [OF ok(1)] by simp
        then show "order_entry_ok (pb_fills ?b) kord"
        proof
          assume "kord = (k, ord\<lparr>bo_status := Cancelled\<rparr>)"
          then show ?thesis using entry False by (simp add: order_entry_ok_def)
        qed (use ok(8) in simp)
      qed
      show "broker_money_ok ?b" using ok(10) flow by (simp add: broker_money_ok_def)
      show "\<exists>o'. dict_get (pb_orders ?b) (fl_order_id f) = Some o' \<and> fl_quantity f = bo_quantity o'"
        if "f \<in> set (dict_values (pb_fills ?b))" for f
        using broker_ok_fill [OF assms, of f] that Some by auto
      have "k \<in> fst ` set (pb_orders b)" using map_of_SomeD [OF Some] by force
      then show "fst ` set (pb_orders ?b) = pb_used_order_ids ?b"
        using ok(4) by (simp add: dict_set_keys insert_absorb)
    qed (use ok in simp_all)
    then show ?thesis using Some False by (simp add: cancel_order_def run_defs Let_def)
  qed
qed

lemma paper_reachable_ok:
  assumes "paper_reachable env b" "inj (pe_id env)"
  shows "broker_ok env b"
  using assms
proof (induction rule: paper_reachable.induct)
  case (reach_new bal slip spread)
  show ?case by (rule broker_okI) (simp_all add: new_paper_broker_def broker_money_ok_def)
qed (simp_all add: submit_order_ok cancel_order_ok)

section \<open>Properties of the simulated broker\<close>

text \<open>
  Claim C37. In every reachable state of the simulated broker the accounts balance: cash is the initial
  balance less what was bought plus what was sold over the recorded fills, the daily P&L is the sum
  of the realised P&L of its positions, and an order is filled exactly when one fill records it.
\<close>

theorem paper_accounts_balance:
  assumes "paper_reachable env b" "inj (pe_id env)"
  shows "pb_cash_balance b = pb_initial_balance b + sum_list (map (cash_flow (pb_orders b)) (dict_values (pb_fills b))) \<and>
    pb_daily_pnl b = sum_list (map realized_of (dict_values (pb_positions b))) \<and>
    distinct (map fl_order_id (dict_values (pb_fills b))) \<and>
    (\<forall>(k, ord) \<in> set (pb_orders b). bo_status ord = Filled \<longleftrightarrow> k \<in> fl_order_id ` set (dict_values (pb_fills b)))"
proof (intro conjI)
  note ok = broker_okD [OF paper_reachable_ok [OF assms]]
  show "pb_cash_balance b = pb_initial_balance b + sum_list (map (cash_flow (pb_orders b)) (dict_values (pb_fills b)))"
    "pb_daily_pnl b = sum_list (map realized_of (dict_values (pb_positions b)))"
    using ok(10) unfolding broker_money_ok_def by blast+
  show "distinct (map fl_order_id (dict_values (pb_fills b)))" by (rule ok(9))
  show "\<forall>(k, ord) \<in> set (pb_orders b). bo_status ord = Filled \<longleftrightarrow> k \<in> fl_order_id ` set (dict_values (pb_fills b))"
    using ok(8) by (auto simp: order_entry_ok_def simp del: set_map dest!: bspec)
qed

text \<open>
  A limit order at a positive price fills if and only if the configured slippage is not
  positive: the price tested against the limit is the limit itself moved against the trader by the
  slippage. With the configured slippage of 2 percent no limit order ever fills.
\<close>

theorem limit_order_fills_iff_no_slippage:
  assumes "oi_order_type i = Limit" "oi_limit_price i = Some p" "0 < p"
    and "pe_id env (pb_draws b) \<notin> pb_used_order_ids b"
  shows "\<exists>ord. fst (submit_order env i b) = Inr ord \<and>
    bo_status ord = (if pb_slippage_pct b \<le> 0 then Filled else Open)"
proof -
  have "should_fill i (simulate_fill_price b i) \<longleftrightarrow> p * (pb_slippage_pct b / 100) \<le> 0"
    using assms(2,3) by (cases "oi_side i") (simp_all add: should_fill_def simulate_fill_price_def Let_def)
  also have "\<dots> \<longleftrightarrow> pb_slippage_pct b \<le> 0"
    using assms(3) by (simp add: mult_le_0_iff)
  finally show ?thesis using assms by (simp add: submit_order_cases fills_now_def)
qed

text \<open>
  A filled sell of any quantity closes every open position of its contract, and each of
  them realises the price difference times the quantity of the order, whatever quantity the
  position had: no open position of the contract is left after a partial sell.
\<close>

theorem sell_closes_whole_contract:
  assumes "fst (submit_order env i b) = Inr ord" "bo_status ord = Filled" "oi_side i = Sell"
    and "dict_ok (pb_positions b)" "dict_get (pb_positions b) k = Some p" "po_is_open p" "po_contract p = oi_contract i"
  shows "\<exists>p'. dict_get (pb_positions (snd (submit_order env i b))) k = Some p' \<and> \<not> po_is_open p' \<and>
    po_realized_pnl_usd p' = Some ((simulate_fill_price b i - po_avg_entry_price p) * of_int (oi_quantity i) * 100) \<and>
    po_quantity p' = po_quantity p"
proof -
  let ?x = "simulate_fill_price b i" and ?b = "snd (submit_order env i b)"
  have post: "?b = apply_fill_broker env (opened_order env i b) ?x (with_opened env i b)"
    using assms(1,2) by (auto simp: submit_order_cases split: if_splits)
  have rel: "list_all2 (after_sell (oi_contract i) ?x (oi_quantity i)) (pb_positions b) (pb_positions ?b)"
    using apply_fill_sell(1) [of "opened_order env i b" ?x "with_opened env i b" env] assms(3)
    by (simp add: post with_opened_sel)
  have keys: "map fst (pb_positions ?b) = map fst (pb_positions b)"
    using apply_fill_sell(2) [of "opened_order env i b" env ?x "with_opened env i b"] assms(3)
    by (simp add: post with_opened_sel)
  obtain n where n: "n < length (pb_positions b)" "pb_positions b ! n = (k, p)"
    using map_of_SomeD [OF assms(5)] by (auto simp: in_set_conv_nth)
  have n': "n < length (pb_positions ?b)" using n(1) rel by (simp add: list_all2_lengthD)
  obtain k' p' where kp': "pb_positions ?b ! n = (k', p')" by (cases "pb_positions ?b ! n")
  have as: "after_sell (oi_contract i) ?x (oi_quantity i) (k, p) (k', p')"
    using list_all2_nthD [OF rel n(1)] n(2) kp' by simp
  have "dict_get (pb_positions ?b) k = Some p'"
    using n' kp' as keys assms(4) by (intro dict_ok_get) (auto simp: after_sell_def in_set_conv_nth)
  then show ?thesis
    using as assms(6,7) by (auto simp: after_sell_def closes_def close_gain_def)
qed


section \<open>A concrete session\<close>

definition demo_env :: paper_env where
  "demo_env = \<lparr>pe_id = (\<lambda>n. replicate (Suc n) CHR ''i''), pe_now = (\<lambda>n. at_utc (int n))\<rparr>"

lemma demo_env_inj: "inj (pe_id demo_env)"
  by (auto simp: demo_env_def inj_def dest: arg_cong [where f = length])

definition demo_contract :: option_contract where
  "demo_contract = \<lparr>oc_symbol = ''SPY'', oc_expiration = 20000, oc_strike = 600, oc_type = Call, oc_is_0dte = True\<rparr>"

definition demo_intent :: "string \<Rightarrow> side \<Rightarrow> int \<Rightarrow> pyfloat \<Rightarrow> order_intent" where
  "demo_intent iid sd q price =
     \<lparr>oi_intent_id = iid, oi_candidate_id = ''c'', oi_contract = demo_contract, oi_side = sd, oi_order_type = Limit,
      oi_quantity = q, oi_limit_price = Some price\<rparr>"

definition bought_broker :: paper_broker where
  "bought_broker = snd (submit_order demo_env (demo_intent ''b1'' Buy 3 2) (new_paper_broker 1000 0 5))"

theorem paper_accounts_balance_witness:
  "pb_cash_balance bought_broker = 1000 - 3 * 2 * 100 \<and> length (pb_fills bought_broker) = 1 \<and>
   pb_cash_balance bought_broker = 1000 + sum_list (map (cash_flow (pb_orders bought_broker)) (dict_values (pb_fills bought_broker)))"
proof -
  have "paper_reachable demo_env bought_broker"
    unfolding bought_broker_def by (rule reach_submit [OF reach_new])
  moreover have "pb_cash_balance bought_broker = 1000 - 3 * 2 * 100" "length (pb_fills bought_broker) = 1"
    "pb_initial_balance bought_broker = 1000" by code_simp+
  ultimately show ?thesis using paper_accounts_balance [OF _ demo_env_inj] by simp
qed

theorem limit_order_fills_iff_no_slippage_witness:
  "\<exists>ord. fst (submit_order demo_env (demo_intent ''b1'' Buy 3 2) (new_paper_broker 25000 2 5)) = Inr ord \<and> bo_status ord = Open"
  using limit_order_fills_iff_no_slippage [of "demo_intent ''b1'' Buy 3 2" 2 demo_env "new_paper_broker 25000 2 5"]
  by (simp add: demo_intent_def new_paper_broker_def)

theorem sell_closes_whole_contract_witness:
  "\<exists>p'. dict_get (pb_positions (snd (submit_order demo_env (demo_intent ''s1'' Sell 1 5) bought_broker))) ''iii'' = Some p' \<and>
    \<not> po_is_open p' \<and> po_realized_pnl_usd p' = Some 300 \<and> po_quantity p' = 3"
proof -
  let ?i = "demo_intent ''s1'' Sell 1 5"
  let ?ord = "projr (fst (submit_order demo_env ?i bought_broker))"
  let ?p = "the (dict_get (pb_positions bought_broker) ''iii'')"
  have "\<not> isl (fst (submit_order demo_env ?i bought_broker))" by code_simp
  then have s: "fst (submit_order demo_env ?i bought_broker) = Inr ?ord" by simp
  have f: "bo_status ?ord = Filled" "dict_ok (pb_positions bought_broker)"
    "dict_get (pb_positions bought_broker) ''iii'' = Some ?p" "po_is_open ?p" "po_contract ?p = oi_contract ?i"
    "simulate_fill_price bought_broker ?i = 5" "po_avg_entry_price ?p = 2" "po_quantity ?p = 3"
    by code_simp+
  show ?thesis
    using sell_closes_whole_contract [OF s f(1) _ f(2-5)] by (simp add: f(6-8)) (simp add: demo_intent_def)
qed

end
