(* ===== verification/Execution_Props.thy ===== *)
theory Execution_Props
  imports Execution_Runtime Reconciliation_Props Paper_Broker_Props
begin

text \<open>
  What the execution runtime guarantees: its ledger history is append-only whatever it does and
  whatever the broker does, a command is submitted to the broker once, a broker update recorded once,
  and an unresolved reconciliation blocks the recovery claim. The last section is about brokers that
  hold several lots of one contract.
\<close>

section \<open>The ledger only grows\<close>

definition ledger_from :: "ledger_event list \<Rightarrow> 'b exec_state \<Rightarrow> bool" where
  "ledger_from rows s \<longleftrightarrow> store_ok (xr_ledger s) \<and> db_open (xr_ledger s) \<and> (\<exists>new. db_rows (xr_ledger s) = rows @ new)"

lemma preserves_with_broker [preserve_intros]: "preserves (ledger_from rows) (with_broker m)"
  by (auto simp: preserves_def ledger_from_def with_broker_def split: prod.splits)

lemma get_by_session_state: "snd (get_by_session sid db) = db"
  by (auto simp: get_by_session_def query_rows_def require_conn_def run_bind_def run_defs)

lemma preserves_get_by_session [preserve_intros]: "preserves (ledger_from rows) (with_ledger (get_by_session sid))"
  by (rule preservesI) (simp add: with_ledger_def case_prod_beta get_by_session_state ledger_from_def)

lemma preserves_append [preserve_intros]: "preserves (ledger_from rows) (with_ledger (append_event e))"
proof (rule preservesI)
  fix s :: "'a exec_state"
  assume "ledger_from rows s"
  then have ok: "store_ok (xr_ledger s) \<and> db_open (xr_ledger s)" and "\<exists>new. db_rows (xr_ledger s) = rows @ new"
    by (auto simp: ledger_from_def)
  then obtain new new' where "db_rows (xr_ledger s) = rows @ new"
    "db_rows (snd (append_event e (xr_ledger s))) = (rows @ new) @ new'"
    using ls.app_grows [OF ok, of e] by auto
  then show "ledger_from rows (snd (with_ledger (append_event e) s))"
    using ls.app_ok [OF ok, of e]
    by (auto simp: ledger_from_def with_ledger_def split: prod.splits)
qed

lemma preserves_tick [preserve_intros]: "preserves (ledger_from rows) tick"
  by (simp add: preserves_def tick_def ledger_from_def run_ret_def)

lemma preserves_field_updates [preserve_intros]:
  "preserves (ledger_from rows) (note_mapping c b)" "preserves (ledger_from rows) (default_mapping c b)"
  "preserves (ledger_from rows) (run_modify (\<lambda>s. s\<lparr>xr_client_to_broker := m\<rparr>))"
  "preserves (ledger_from rows) (run_modify (\<lambda>s. s\<lparr>xr_published := f s\<rparr>))"
  "preserves (ledger_from rows) (run_modify (\<lambda>s. s\<lparr>xr_unresolved := u\<rparr>))"
  "preserves (ledger_from rows) (run_modify (\<lambda>s. s\<lparr>xr_tick := n\<rparr>))"
  by (simp_all add: note_mapping_def default_mapping_def preserves_def run_modify_def ledger_from_def)

lemma preserves_exec_basic [preserve_intros]:
  "preserves (ledger_from rows) (exec_now cfg)" "preserves (ledger_from rows) (broker_id_of c)"
  "preserves (ledger_from rows) (new_ledger_event cfg kw)" "preserves (ledger_from rows) (publish_event cfg t ts pl)"
  "preserves (ledger_from rows) (publish_order_event cfg t c ts ex)" "preserves (ledger_from rows) (project_session cfg)"
  "preserves (ledger_from rows) (restore_order_mappings cfg)" "preserves (ledger_from rows) (append_new cfg kw)"
  unfolding exec_now_def broker_id_of_def new_ledger_event_def publish_event_def publish_order_event_def
    project_session_def restore_order_mappings_def append_new_def
  by (intro preserve_intros)+

lemma preserves_verified_fill_price [preserve_intros]: "preserves (ledger_from rows) (verified_fill_price ops ord)"
  unfolding verified_fill_price_def Let_def by (intro preserve_intros)

lemma preserves_find_by_intent [preserve_intros]: "preserves (ledger_from rows) (find_broker_order_by_intent ops i)"
  unfolding find_broker_order_by_intent_def Let_def by (intro preserve_intros)

lemma preserves_resolve [preserve_intros]: "preserves (ledger_from rows) (resolve_existing_submission cfg ops c)"
  unfolding resolve_existing_submission_def Let_def by (intro preserve_intros)

lemma preserves_transitions [preserve_intros]:
  "preserves (ledger_from rows) (publish_position_transitions cfg b a c ts)"
  unfolding publish_position_transitions_def
  by (intro preserve_intros) (auto split: option.splits prod.splits intro: preserve_intros)

lemma preserves_record_fill [preserve_intros]:
  "preserves (ledger_from rows) (record_verified_fill cfg ord c x q fin)"
  unfolding record_verified_fill_def Let_def by (intro preserve_intros)

lemma preserves_status_case:
  "preserves P a \<Longrightarrow> preserves P b \<Longrightarrow> preserves P c \<Longrightarrow> preserves P d \<Longrightarrow> preserves P e \<Longrightarrow>
   preserves P (case st of Pending \<Rightarrow> a | Open \<Rightarrow> b | Filled \<Rightarrow> c | Cancelled \<Rightarrow> d | Rejected \<Rightarrow> e)"
  by (cases st) simp_all

lemma preserves_broker_update [preserve_intros]: "preserves (ledger_from rows) (on_broker_update cfg ops ord c)"
  unfolding on_broker_update_def Let_def by (intro preserve_intros preserves_status_case)

lemma preserves_submit_parts [preserve_intros]:
  "preserves (ledger_from rows) (submit_rejected cfg cmd exc)" "preserves (ledger_from rows) (submit_accepted cfg ops cmd ord)"
  "preserves (ledger_from rows) (submit_recovered cfg cmd ord)"
  unfolding submit_rejected_def submit_accepted_def submit_recovered_def by (intro preserve_intros)+

lemma preserves_try:
  assumes "preserves P m" "\<And>e. preserves P (h e)" "\<And>a. preserves P (f a)"
  shows "preserves P (\<lambda>s. case m s of (Inl e, s') \<Rightarrow> h e s' | (Inr a, s') \<Rightarrow> f a s')"
  using assms by (fastforce simp: preserves_def split: prod.splits sum.splits)

lemma preserves_submit [preserve_intros]: "preserves (ledger_from rows) (submit_execution_command cfg ops cmd)"
  unfolding submit_execution_command_def submit_fresh_def by (intro preserve_intros preserves_try)

lemma preserves_add_mapped [preserve_intros]: "preserves (ledger_from rows) (add_mapped_orders ops m vs)"
  by (induction m arbitrary: vs) (auto intro!: preserve_intros)

lemma preserves_reconciliation [preserve_intros]:
  "preserves (ledger_from rows) (run_reconciliation cfg ops)"
  "preserves (ledger_from rows) (apply_reconciliation_corrections cfg ops r mark)"
  unfolding apply_reconciliation_corrections_def run_reconciliation_def by (intro preserve_intros)+

lemma preserves_cancel_poll [preserve_intros]:
  "preserves (ledger_from rows) (cancel_client_order cfg ops c)"
  "preserves (ledger_from rows) (cancel_order_by_broker_id cfg ops b)"
  "preserves (ledger_from rows) (poll_order_status cfg ops c)"
  unfolding cancel_order_by_broker_id_def cancel_client_order_def poll_order_status_def by (intro preserve_intros)+

text \<open>The states the runtime can reach, whatever its broker answers.\<close>

inductive exec_reachable :: "exec_config \<Rightarrow> 'b broker_ops \<Rightarrow> 'b exec_state \<Rightarrow> 'b exec_state \<Rightarrow> bool"
  for cfg ops s0 where
  er_start: "exec_reachable cfg ops s0 s0"
| er_submit: "exec_reachable cfg ops s0 s \<Longrightarrow> exec_reachable cfg ops s0 (snd (submit_execution_command cfg ops cmd s))"
| er_cancel: "exec_reachable cfg ops s0 s \<Longrightarrow> exec_reachable cfg ops s0 (snd (cancel_client_order cfg ops c s))"
| er_cancel_id: "exec_reachable cfg ops s0 s \<Longrightarrow> exec_reachable cfg ops s0 (snd (cancel_order_by_broker_id cfg ops b s))"
| er_poll: "exec_reachable cfg ops s0 s \<Longrightarrow> exec_reachable cfg ops s0 (snd (poll_order_status cfg ops c s))"
| er_update: "exec_reachable cfg ops s0 s \<Longrightarrow> exec_reachable cfg ops s0 (snd (on_broker_update cfg ops ord co s))"
| er_reconcile: "exec_reachable cfg ops s0 s \<Longrightarrow> exec_reachable cfg ops s0 (snd (run_reconciliation cfg ops s))"
| er_correct: "exec_reachable cfg ops s0 s \<Longrightarrow>
    exec_reachable cfg ops s0 (snd (apply_reconciliation_corrections cfg ops r mark s))"

text \<open>
  Whatever sequence of operations the runtime performs, with any broker behind it and with
  operations that raise half way included, the ledger history it started from stays in place as a
  prefix, and no idempotency key is ever recorded twice.
\<close>

theorem runtime_history_append_only:
  assumes "exec_reachable cfg ops s0 s" "store_ok (xr_ledger s0)" "db_open (xr_ledger s0)"
  shows "\<exists>new. db_rows (xr_ledger s) = db_rows (xr_ledger s0) @ new \<and> distinct (map le_key (db_rows (xr_ledger s)))"
proof -
  have "ledger_from (db_rows (xr_ledger s0)) s"
    using assms
  proof (induction rule: exec_reachable.induct)
    case er_start
    then show ?case by (simp add: ledger_from_def)
  qed (auto intro: preservesD preserve_intros)
  then show ?thesis by (auto simp: ledger_from_def store_ok_def)
qed

section \<open>A command is submitted once\<close>

text \<open>What a step of the runtime leaves alone: the ledger and the broker.\<close>

definition core :: "(ledger_db \<Rightarrow> 'b \<Rightarrow> bool) \<Rightarrow> 'b exec_state \<Rightarrow> bool" where
  "core Q s \<longleftrightarrow> Q (xr_ledger s) (xr_broker s)"

named_theorems core_intros

lemma core_tick [core_intros]: "preserves (core Q) tick"
  by (simp add: preserves_def core_def tick_def run_ret_def)

lemma core_modify [core_intros]:
  "preserves (core Q) (note_mapping c b)" "preserves (core Q) (default_mapping c b)"
  "preserves (core Q) (run_modify (\<lambda>s. s\<lparr>xr_client_to_broker := m\<rparr>))"
  "preserves (core Q) (run_modify (\<lambda>s. s\<lparr>xr_published := f s\<rparr>))"
  by (simp_all add: note_mapping_def default_mapping_def preserves_def run_modify_def core_def)

lemma core_get_by_session [core_intros]: "preserves (core Q) (with_ledger (get_by_session sid))"
  by (rule preservesI) (simp add: with_ledger_def case_prod_beta get_by_session_state core_def)

lemma core_basic [core_intros]:
  "preserves (core Q) (exec_now cfg)" "preserves (core Q) (new_ledger_event cfg kw)"
  "preserves (core Q) (publish_event cfg t ts pl)" "preserves (core Q) (publish_order_event cfg t c ts ex)"
  "preserves (core Q) (project_session cfg)"
  unfolding exec_now_def new_ledger_event_def publish_event_def publish_order_event_def project_session_def
  by (intro preserve_intros core_intros)+

lemma core_transitions [core_intros]: "preserves (core Q) (publish_position_transitions cfg b a c ts)"
  unfolding publish_position_transitions_def
  by (intro preserve_intros) (auto split: option.splits prod.splits intro: preserve_intros core_intros)

lemma core_read_broker [core_intros]: "preserves (core Q) (with_broker (run_get f))"
  by (simp add: preserves_def core_def with_broker_def run_get_def)

lemma core_paper_reads [core_intros]:
  "preserves (core Q) (verified_fill_price (paper_ops env) ord)"
  "preserves (core Q) (find_broker_order_by_intent (paper_ops env) i)"
  unfolding verified_fill_price_def find_broker_order_by_intent_def Let_def paper_ops_def
  by (simp cong: option.case_cong; intro preserve_intros core_intros)+

text \<open>Whose broker orders the session's rows of a client order name.\<close>

definition client_rows :: "exec_config \<Rightarrow> string \<Rightarrow> ledger_db \<Rightarrow> ledger_event set" where
  "client_rows cfg c db = {e \<in> set (db_rows db). le_session_id e = xc_session cfg \<and> le_client_order_id e = c}"

definition names_order :: "ledger_event \<Rightarrow> string \<Rightarrow> bool" where
  "names_order e b \<longleftrightarrow> le_broker_order_id e = Some b \<and> b \<noteq> []"

definition unbound :: "exec_config \<Rightarrow> string \<Rightarrow> ledger_db \<Rightarrow> bool" where
  "unbound cfg c db \<longleftrightarrow> store_ok db \<and> db_open db \<and> (\<forall>e \<in> client_rows cfg c db. \<forall>b. \<not> names_order e b)"

definition bound_to :: "exec_config \<Rightarrow> string \<Rightarrow> string \<Rightarrow> ledger_db \<Rightarrow> bool" where
  "bound_to cfg c b db \<longleftrightarrow> store_ok db \<and> db_open db \<and> (\<exists>e \<in> client_rows cfg c db. names_order e b) \<and>
     (\<forall>e \<in> client_rows cfg c db. \<forall>b'. names_order e b' \<longrightarrow> b' = b)"

lemma mapping_from_get: "dict_get (mapping_from es) c = last_broker_id c es"
  unfolding mapping_from_def last_broker_id_def
  by (induction es rule: rev_induct) (auto split: option.splits)

lemma last_broker_id_named:
  "last_broker_id c es = Some b \<Longrightarrow> \<exists>e \<in> set es. le_client_order_id e = c \<and> names_order e b"
  unfolding last_broker_id_def
  by (induction es rule: rev_induct) (auto simp: names_order_def split: option.splits if_splits)

lemma last_broker_id_None:
  "last_broker_id c es = None \<Longrightarrow> e \<in> set es \<Longrightarrow> le_client_order_id e = c \<Longrightarrow> \<not> names_order e b"
  unfolding last_broker_id_def
  by (induction es rule: rev_induct) (auto simp: names_order_def split: option.splits if_splits)

lemma client_rows_append: "client_rows cfg c (db\<lparr>db_rows := db_rows db @ [e]\<rparr>) =
   client_rows cfg c db \<union> (if le_session_id e = xc_session cfg \<and> le_client_order_id e = c then {e} else {})"
  by (auto simp: client_rows_def)

text \<open>An append leaves a closed book of cases: stored at the end, or already there.\<close>

lemma append_event_result:
  assumes "store_ok db" "db_open db" "fst (append_event e db) = Inr ins"
  shows "store_ok (snd (append_event e db))" "db_open (snd (append_event e db))"
    "(snd (append_event e db) = db\<lparr>db_rows := db_rows db @ [e]\<rparr> \<and> ins) \<or>
     (snd (append_event e db) = db \<and> \<not> ins \<and> (\<exists>x \<in> set (db_rows db). events_equivalent x e))"
  using append_event_ok [OF assms(1), of e] append_event_open [of e db] assms(2,3)
  by (auto simp: append_event_cases split: option.splits if_splits dest!: get_by_key_Some)

lemma append_rows:
  assumes "store_ok db" "db_open db" "fst (append_event e db) = Inr ins"
  shows "client_rows cfg c (snd (append_event e db)) \<subseteq> insert e (client_rows cfg c db)"
    "client_rows cfg c db \<subseteq> client_rows cfg c (snd (append_event e db))"
proof -
  consider "snd (append_event e db) = db\<lparr>db_rows := db_rows db @ [e]\<rparr>" | "snd (append_event e db) = db"
    using append_event_result(3) [OF assms] by blast
  then have "client_rows cfg c (snd (append_event e db)) \<subseteq> insert e (client_rows cfg c db) \<and>
    client_rows cfg c db \<subseteq> client_rows cfg c (snd (append_event e db))"
  proof cases
    case 1
    show ?thesis unfolding 1 client_rows_append by auto
  next
    case 2
    show ?thesis unfolding 2 by auto
  qed
  then show "client_rows cfg c (snd (append_event e db)) \<subseteq> insert e (client_rows cfg c db)"
    "client_rows cfg c db \<subseteq> client_rows cfg c (snd (append_event e db))" by auto
qed

lemma unboundD: "unbound cfg c db \<Longrightarrow> x \<in> client_rows cfg c db \<Longrightarrow> \<not> names_order x b"
  by (simp add: unbound_def)

lemma append_unbound:
  assumes "unbound cfg c db" "fst (append_event e db) = Inr ins" "\<And>b. \<not> names_order e b"
  shows "unbound cfg c (snd (append_event e db))"
proof -
  have ok: "store_ok db" "db_open db" using assms(1) by (simp_all add: unbound_def)
  have "\<not> names_order x b" if "x \<in> client_rows cfg c (snd (append_event e db))" for x b
  proof -
    have "x = e \<or> x \<in> client_rows cfg c db" using append_rows(1) [OF ok assms(2)] that by (meson insertE subsetD)
    then show ?thesis
    proof
      assume "x \<in> client_rows cfg c db"
      then show ?thesis by (rule unboundD [OF assms(1)])
    qed (simp only: assms(3) not_False_eq_True)
  qed
  then show ?thesis
    unfolding unbound_def using append_event_result(1,2) [OF ok assms(2)] by (intro conjI ballI allI)
qed

lemma append_bound:
  assumes "bound_to cfg c b db" "fst (append_event e db) = Inr ins" "\<And>b'. names_order e b' \<Longrightarrow> b' = b"
  shows "bound_to cfg c b (snd (append_event e db))"
proof -
  have ok: "store_ok db" "db_open db" using assms(1) by (simp_all add: bound_to_def)
  obtain x where x: "x \<in> client_rows cfg c db" "names_order x b" using assms(1) unfolding bound_to_def by blast
  have only: "y \<in> client_rows cfg c db \<Longrightarrow> names_order y b' \<Longrightarrow> b' = b" for y b'
    using assms(1) unfolding bound_to_def by blast
  have "b' = b" if "y \<in> client_rows cfg c (snd (append_event e db))" "names_order y b'" for y b'
  proof -
    have "y = e \<or> y \<in> client_rows cfg c db" using append_rows(1) [OF ok assms(2)] that(1) by (meson insertE subsetD)
    then show ?thesis
    proof
      assume "y = e"
      then show ?thesis using that(2) by (simp only: assms(3))
    qed (rule only [OF _ that(2)])
  qed
  moreover have "x \<in> client_rows cfg c (snd (append_event e db))" using append_rows(2) [OF ok assms(2)] x(1) by (rule subsetD)
  ultimately show ?thesis
    unfolding bound_to_def using append_event_result(1,2) [OF ok assms(2)] x(2) by (intro conjI ballI allI impI bexI)
qed

lemma append_binds:
  assumes "unbound cfg c db" "fst (append_event e db) = Inr ins" "names_order e b"
    and "le_session_id e = xc_session cfg" "le_client_order_id e = c"
  shows "bound_to cfg c b (snd (append_event e db))"
proof -
  have ok: "store_ok db" "db_open db" using assms(1) by (simp_all add: unbound_def)
  have "\<not> (\<exists>x \<in> set (db_rows db). events_equivalent x e)"
  proof
    assume "\<exists>x \<in> set (db_rows db). events_equivalent x e"
    then obtain x where "x \<in> set (db_rows db)" "events_equivalent x e" by blast
    then have "x \<in> client_rows cfg c db" "names_order x b"
      using assms(3-5) by (auto simp: client_rows_def names_order_def events_equivalent_def)
    then show False using assms(1) by (auto simp: unbound_def)
  qed
  then have eq: "snd (append_event e db) = db\<lparr>db_rows := db_rows db @ [e]\<rparr>"
    using append_event_result(3) [OF ok assms(2)] by blast
  have same: "b' = b" if "names_order e b'" for b'
    using that assms(3) by (simp add: names_order_def)
  have rows: "client_rows cfg c (snd (append_event e db)) = insert e (client_rows cfg c db)"
    unfolding eq client_rows_append using assms(4,5) by auto
  have only: "b' = b" if "y \<in> insert e (client_rows cfg c db)" "names_order y b'" for y b'
    using that same unboundD [OF assms(1)] by (cases "y = e") simp_all
  show ?thesis
    unfolding bound_to_def rows
    using append_event_result(1,2) [OF ok assms(2)] assms(3) only by (intro conjI ballI allI impI bexI [of _ e] insertI1)
qed

definition same_order :: "ledger_event \<Rightarrow> ledger_event \<Rightarrow> bool" where
  "same_order e kw \<longleftrightarrow> le_broker_order_id e = le_broker_order_id kw \<and> le_session_id e = le_session_id kw \<and>
     le_client_order_id e = le_client_order_id kw"

lemma returns_new_ledger_event:
  "returns (core Q) (new_ledger_event cfg kw) (\<lambda>e s. core Q s \<and> same_order e kw)"
proof (rule returnsI)
  fix s e s1
  assume pre: "core Q s" and e: "new_ledger_event cfg kw s = (Inr e, s1)"
  obtain i n where "make_ledger_event i n None None kw = Inr e"
    using e by (auto simp: new_ledger_event_def run_bind_Inr run_lift_def)
  note f = make_ledger_event_fields [OF this]
  show "core Q s1 \<and> same_order e kw"
    using preservesD [OF core_basic(2) pre, of cfg kw] e f by (simp add: same_order_def)
qed

definition append_leads :: "ledger_event \<Rightarrow> (ledger_db \<Rightarrow> 'b \<Rightarrow> bool) \<Rightarrow> (ledger_db \<Rightarrow> 'b \<Rightarrow> bool) \<Rightarrow> bool" where
  "append_leads kw Q Q' \<longleftrightarrow> (\<forall>db b e ins. Q db b \<longrightarrow> same_order e kw \<longrightarrow> fst (append_event e db) = Inr ins \<longrightarrow>
     Q' (snd (append_event e db)) b)"

lemma returns_append:
  assumes "append_leads kw Q Q'"
  shows "returns (\<lambda>s. core Q s \<and> same_order e kw) (with_ledger (append_event e)) (\<lambda>_. core Q')"
proof (rule returnsI)
  fix s a s'
  assume pre: "core Q s \<and> same_order e kw" and ap: "with_ledger (append_event e) s = (Inr a, s')"
  have "fst (append_event e (xr_ledger s)) = Inr a" "xr_ledger s' = snd (append_event e (xr_ledger s))"
    "xr_broker s' = xr_broker s"
    using ap by (auto simp: with_ledger_def split: prod.splits)
  then show "core Q' s'"
    using assms pre unfolding append_leads_def by (simp add: core_def)
qed

lemma returns_append_new:
  assumes "append_leads kw Q Q'"
  shows "returns (core Q) (append_new cfg kw) (\<lambda>_. core Q')"
  unfolding append_new_def by (rule returns_bind [OF returns_new_ledger_event returns_append [OF assms]])

lemma returns_core:
  "preserves (core Q) m \<Longrightarrow> (\<And>a. returns (core Q) (f a) R) \<Longrightarrow> returns (core Q) (run_bind m f) R"
  by (rule returns_bind [OF returns_preserves])

text \<open>Before the broker accepts, nothing names an order; afterwards everything names this one.\<close>

definition not_yet :: "exec_config \<Rightarrow> paper_env \<Rightarrow> string \<Rightarrow> ledger_db \<Rightarrow> paper_broker \<Rightarrow> bool" where
  "not_yet cfg env c db pb \<longleftrightarrow> unbound cfg c db \<and> broker_ok env pb"

definition held_order :: "exec_config \<Rightarrow> paper_env \<Rightarrow> string \<Rightarrow> string \<Rightarrow> ledger_db \<Rightarrow> paper_broker \<Rightarrow> bool" where
  "held_order cfg env c b db pb \<longleftrightarrow> unbound cfg c db \<and> broker_ok env pb \<and> b \<noteq> [] \<and> get_order b pb \<noteq> None"

definition placed :: "exec_config \<Rightarrow> paper_env \<Rightarrow> string \<Rightarrow> string \<Rightarrow> ledger_db \<Rightarrow> paper_broker \<Rightarrow> bool" where
  "placed cfg env c b db pb \<longleftrightarrow> bound_to cfg c b db \<and> broker_ok env pb \<and> get_order b pb \<noteq> None"

lemma append_accept_places:
  "append_leads (accepted_kwargs cfg cmd ord t) (held_order cfg env (ec_client_order_id cmd) (bo_order_id ord))
     (placed cfg env (ec_client_order_id cmd) (bo_order_id ord))"
  unfolding append_leads_def
proof (intro allI impI)
  fix db pb e ins
  assume "held_order cfg env (ec_client_order_id cmd) (bo_order_id ord) db pb"
    and "same_order e (accepted_kwargs cfg cmd ord t)" "fst (append_event e db) = Inr ins"
  then show "placed cfg env (ec_client_order_id cmd) (bo_order_id ord) (snd (append_event e db)) pb"
    using append_binds [of cfg "ec_client_order_id cmd" db e ins "bo_order_id ord"]
    by (simp add: held_order_def placed_def same_order_def accepted_kwargs_def ledger_event_kwargs_def names_order_def Let_def)
qed

lemma append_keeps_placed:
  assumes "le_broker_order_id kw = Some b"
  shows "append_leads kw (placed cfg env c b) (placed cfg env c b)"
  unfolding append_leads_def
proof (intro allI impI)
  fix db pb e ins
  assume pl: "placed cfg env c b db pb" and e: "same_order e kw" and ap: "fst (append_event e db) = Inr ins"
  have "b' = b" if "names_order e b'" for b'
    using that assms e by (simp add: names_order_def same_order_def)
  then show "placed cfg env c b (snd (append_event e db)) pb"
    using append_bound [OF _ ap, of cfg c b] pl by (simp add: placed_def)
qed

lemma append_keeps_unbound:
  assumes "le_broker_order_id kw = None"
  shows "append_leads kw (not_yet cfg env c) (not_yet cfg env c)"
  unfolding append_leads_def
proof (intro allI impI)
  fix db pb e ins
  assume "not_yet cfg env c db pb" "same_order e kw" "fst (append_event e db) = Inr ins"
  then show "not_yet cfg env c (snd (append_event e db)) pb"
    using append_unbound [of cfg c db e ins] assms by (simp add: not_yet_def same_order_def names_order_def)
qed

lemma returns_recovered:
  "returns (core (held_order cfg env (ec_client_order_id cmd) (bo_order_id ord))) (submit_recovered cfg cmd ord)
     (\<lambda>r s. r = ord \<and> core (placed cfg env (ec_client_order_id cmd) (bo_order_id ord)) s)"
  unfolding submit_recovered_def
  by (rule returns_core [OF core_modify(1)], rule returns_core [OF core_basic(1)],
      rule returns_bind [OF returns_append_new [OF append_accept_places]], rule returns_ret, simp)

lemma returns_record_fill:
  "returns (core (placed cfg env c (bo_order_id ord))) (record_verified_fill cfg ord c x q fin)
     (\<lambda>_. core (placed cfg env c (bo_order_id ord)))"
proof -
  have kw: "le_broker_order_id ((order_event_kwargs cfg etype c ord qty now key)\<lparr>le_price := y\<rparr>) = Some (bo_order_id ord)"
    for etype qty now key y by (simp add: order_event_kwargs_def)
  show ?thesis
    unfolding record_verified_fill_def Let_def
    apply (rule returns_core [OF core_basic(5)], rule returns_core [OF core_basic(1)], rule returns_core [OF core_modify(2)])
    apply (rule returns_bind [OF returns_new_ledger_event])
    apply (rule returns_bind [OF returns_append [OF append_keeps_placed [OF kw]]])
    apply (rule returns_preserves)
    apply (intro preserve_intros core_intros)
    done
qed

lemma returns_accepted:
  "returns (core (held_order cfg env (ec_client_order_id cmd) (bo_order_id ord))) (submit_accepted cfg (paper_ops env) cmd ord)
     (\<lambda>r s. r = ord \<and> core (placed cfg env (ec_client_order_id cmd) (bo_order_id ord)) s)"
proof -
  let ?pl = "placed cfg env (ec_client_order_id cmd) (bo_order_id ord)"
  have finish: "returns (core ?pl) (run_ret ord) (\<lambda>r s. r = ord \<and> core ?pl s)" by (rule returns_ret) simp
  have fill: "returns (core ?pl) (run_bind (record_verified_fill cfg ord (ec_client_order_id cmd) x q f) (\<lambda>_. run_ret ord))
      (\<lambda>r s. r = ord \<and> core ?pl s)" for x q f
    by (rule returns_bind [OF returns_record_fill finish])
  have price: "returns (core ?pl) (case p of None \<Rightarrow> run_ret ord
      | Some x \<Rightarrow> run_bind (record_verified_fill cfg ord (ec_client_order_id cmd) x (Some (bo_quantity ord)) True) (\<lambda>_. run_ret ord))
      (\<lambda>r s. r = ord \<and> core ?pl s)" for p
    by (cases p) (simp_all add: finish fill)
  have tail: "returns (core ?pl) (if bo_status ord = Filled
       then run_bind (verified_fill_price (paper_ops env) ord) (\<lambda>price. case price of
                None \<Rightarrow> run_ret ord
              | Some x \<Rightarrow> run_bind (record_verified_fill cfg ord (ec_client_order_id cmd) x (Some (bo_quantity ord)) True) (\<lambda>_. run_ret ord))
       else run_ret ord) (\<lambda>r s. r = ord \<and> core ?pl s)"
    using finish returns_core [OF core_paper_reads(1) price] by simp
  show ?thesis
    unfolding submit_accepted_def
    by (rule returns_core [OF core_modify(1)], rule returns_core [OF core_basic(1)],
        rule returns_bind [OF returns_append_new [OF append_accept_places]],
        rule returns_core [OF core_basic(1)], rule returns_core [OF core_basic(4)], rule tail)
qed

lemma stored_order:
  assumes "broker_ok env pb" "ord \<in> set (dict_values (pb_orders pb))"
  shows "get_order (bo_order_id ord) pb = Some ord" "\<exists>n. bo_order_id ord = pe_id env n"
proof -
  note ok = broker_okD [OF assms(1)]
  obtain k where k: "(k, ord) \<in> set (pb_orders pb)" using assms(2) by auto
  then have "bo_order_id ord = k" using bspec [OF ok(8) k] by (simp add: order_entry_ok_def)
  then show "get_order (bo_order_id ord) pb = Some ord" using dict_ok_get [OF ok(1) k] by (simp add: get_order_def)
  have "k \<in> fst ` set (pb_orders pb)" using k by (rule rev_image_eqI) simp
  then show "\<exists>n. bo_order_id ord = pe_id env n" using ok(4,5) \<open>bo_order_id ord = k\<close> by blast
qed

lemma find_in_set: "find P xs = Some x \<Longrightarrow> x \<in> set xs"
  using find_rev_Some [of P "rev xs" x] by simp

lemma find_by_intent_paper:
  assumes "find_broker_order_by_intent (paper_ops env) i s = (Inr r, s')"
  shows "s' = s \<and> (\<forall>ord. r = Some ord \<longrightarrow> ord \<in> set (dict_values (pb_orders (xr_broker s))))"
proof -
  let ?opens = "list_open_orders (xr_broker s)" and ?all = "dict_values (pb_orders (xr_broker s))"
  have same: "s\<lparr>xr_broker := xr_broker s\<rparr> = s" by simp
  have "r = (case find (\<lambda>ord. bo_intent_id ord = i) ?opens of Some ord \<Rightarrow> Some ord
      | None \<Rightarrow> find (\<lambda>ord. bo_intent_id ord = i) ?all) \<and> s' = s"
    using assms by (auto simp: find_broker_order_by_intent_def paper_ops_def run_bind_Inr with_broker_def run_get_def
        run_ret_def same Let_def split: option.splits)
  then show ?thesis by (auto simp: list_open_orders_def split: option.splits dest!: find_in_set)
qed

lemma submit_paper_held:
  assumes "not_yet cfg env c db pb" "submit_order env i pb = (Inr ord, pb')" "inj (pe_id env)" "\<And>n. pe_id env n \<noteq> []"
  shows "held_order cfg env c (bo_order_id ord) db pb'"
proof -
  have ok: "broker_ok env pb" using assms(1) by (simp add: not_yet_def)
  have ok': "broker_ok env pb'" using submit_order_ok [OF assms(3) ok, of i] assms(2) by simp
  have "bo_order_id ord = pe_id env (pb_draws pb)" "get_order (pe_id env (pb_draws pb)) pb' \<noteq> None"
    using assms(2) by (auto simp: submit_order_cases get_order_def apply_fill_sel with_opened_sel split: if_splits)
  then show ?thesis using assms(1,4) ok' by (simp add: held_order_def not_yet_def)
qed

lemma returns_fresh:
  assumes "inj (pe_id env)" "\<And>n. pe_id env n \<noteq> []"
  shows "returns (core (not_yet cfg env (ec_client_order_id cmd))) (submit_fresh cfg (paper_ops env) cmd)
     (\<lambda>r s. core (placed cfg env (ec_client_order_id cmd) (bo_order_id r)) s)"
proof -
  let ?c = "ec_client_order_id cmd"
  have req: "le_broker_order_id (requested_kwargs cfg cmd t) = None" for t
    by (simp add: requested_kwargs_def ledger_event_kwargs_def Let_def)
  have tail: "returns (core (not_yet cfg env ?c)) (run_bind (find_broker_order_by_intent (paper_ops env) j) (\<lambda>recovered.
       case recovered of
         Some ord \<Rightarrow> submit_recovered cfg cmd ord
       | None \<Rightarrow>
           (\<lambda>s. case with_broker (br_submit (paper_ops env) (ec_intent cmd)) s of
                  (Inl exc, s') \<Rightarrow> submit_rejected cfg cmd exc s'
                | (Inr ord, s') \<Rightarrow> submit_accepted cfg (paper_ops env) cmd ord s')))
     (\<lambda>r s. core (placed cfg env ?c (bo_order_id r)) s)" for j
  proof (rule returnsI)
    fix s r s'
    assume pre: "core (not_yet cfg env ?c) s"
      and "run_bind (find_broker_order_by_intent (paper_ops env) j) (\<lambda>recovered.
       case recovered of
         Some ord \<Rightarrow> submit_recovered cfg cmd ord
       | None \<Rightarrow>
           (\<lambda>s. case with_broker (br_submit (paper_ops env) (ec_intent cmd)) s of
                  (Inl exc, s') \<Rightarrow> submit_rejected cfg cmd exc s'
                | (Inr ord, s') \<Rightarrow> submit_accepted cfg (paper_ops env) cmd ord s')) s = (Inr r, s')"
    then obtain rec s1 where f: "find_broker_order_by_intent (paper_ops env) j s = (Inr rec, s1)"
      and k: "(case rec of
         Some ord \<Rightarrow> submit_recovered cfg cmd ord
       | None \<Rightarrow>
           (\<lambda>s. case with_broker (br_submit (paper_ops env) (ec_intent cmd)) s of
                  (Inl exc, s') \<Rightarrow> submit_rejected cfg cmd exc s'
                | (Inr ord, s') \<Rightarrow> submit_accepted cfg (paper_ops env) cmd ord s')) s1 = (Inr r, s')"
      unfolding run_bind_Inr by blast
    have s1: "s1 = s" and rec: "\<And>ord. rec = Some ord \<Longrightarrow> ord \<in> set (dict_values (pb_orders (xr_broker s)))"
      using find_by_intent_paper [OF f] by auto
    have ok: "broker_ok env (xr_broker s)" using pre by (simp add: core_def not_yet_def)
    show "core (placed cfg env ?c (bo_order_id r)) s'"
    proof (cases rec)
      case (Some ord)
      have "bo_order_id ord \<noteq> []" using stored_order(2) [OF ok rec [OF Some]] assms(2) by metis
      then have "core (held_order cfg env ?c (bo_order_id ord)) s"
        using pre stored_order(1) [OF ok rec [OF Some]] by (simp add: core_def held_order_def not_yet_def)
      then show ?thesis using returnsD [OF returns_recovered, of cfg env cmd ord s r s'] k Some s1 by auto
    next
      case None
      show ?thesis
      proof (cases "submit_order env (ec_intent cmd) (xr_broker s)")
        case (Pair res pb')
        show ?thesis
        proof (cases res)
          case (Inl exc)
          have "fst (submit_rejected cfg cmd exc (s\<lparr>xr_broker := pb'\<rparr>)) \<noteq> Inr r"
            by (auto simp: submit_rejected_def run_bind_def run_raise_def split: prod.splits sum.splits)
          then show ?thesis using k None s1 Pair Inl by (auto simp: with_broker_def paper_ops_def)
        next
          case (Inr ord)
          have "held_order cfg env ?c (bo_order_id ord) (xr_ledger s) pb'"
            using submit_paper_held [OF _ Pair [unfolded Inr] assms(1), of cfg ?c "xr_ledger s"] assms(2) pre
            by (simp add: core_def)
          then have "core (held_order cfg env ?c (bo_order_id ord)) (s\<lparr>xr_broker := pb'\<rparr>)" by (simp add: core_def)
          moreover have "submit_accepted cfg (paper_ops env) cmd ord (s\<lparr>xr_broker := pb'\<rparr>) = (Inr r, s')"
            using k None s1 Pair Inr by (simp add: with_broker_def paper_ops_def)
          ultimately show ?thesis using returnsD [OF returns_accepted, of cfg env cmd ord _ r s'] by auto
        qed
      qed
    qed
  qed
  show ?thesis
    unfolding submit_fresh_def
    by (rule returns_core [OF core_basic(1)],
        rule returns_bind [OF returns_append_new [OF append_keeps_unbound [OF req]]],
        rule returns_core [OF core_basic(4)], rule tail)
qed

definition session_rows :: "exec_config \<Rightarrow> ledger_db \<Rightarrow> ledger_event list" where
  "session_rows cfg db = sort_key row_order (filter (\<lambda>e. le_session_id e = xc_session cfg) (db_rows db))"

lemma session_rows_client:
  "e \<in> set (session_rows cfg db) \<and> le_client_order_id e = c \<longleftrightarrow> e \<in> client_rows cfg c db"
  by (auto simp: session_rows_def client_rows_def)

lemma bound_last:
  assumes "bound_to cfg c b db"
  shows "last_broker_id c (session_rows cfg db) = Some b"
proof -
  obtain x where x: "x \<in> client_rows cfg c db" "names_order x b"
    and only: "\<And>y b'. y \<in> client_rows cfg c db \<Longrightarrow> names_order y b' \<Longrightarrow> b' = b"
    using assms unfolding bound_to_def by blast
  show ?thesis
  proof (cases "last_broker_id c (session_rows cfg db)")
    case None
    then show ?thesis using last_broker_id_None [OF None, of x b] x session_rows_client [of x cfg db c] by auto
  next
    case (Some b')
    then obtain y where "y \<in> client_rows cfg c db" "names_order y b'"
      using last_broker_id_named [OF Some] session_rows_client by blast
    then show ?thesis using only Some by auto
  qed
qed

lemma get_by_session_rows: "db_open db \<Longrightarrow> get_by_session (xc_session cfg) db = (Inr (session_rows cfg db), db)"
  by (simp add: get_by_session_def query_rows_open session_rows_def)

lemma paper_get: "with_broker (br_get (paper_ops env) b) s = (Inr (get_order b (xr_broker s)), s)"
  by (simp add: with_broker_def paper_ops_def run_get_def)

lemma submit_command_known:
  assumes "db_open (xr_ledger s)" "last_broker_id (ec_client_order_id cmd) (session_rows cfg (xr_ledger s)) = Some b"
    and "get_order b (xr_broker s) = Some ord" "b \<noteq> []"
  shows "submit_execution_command cfg (paper_ops env) cmd s =
    (Inr ord, s\<lparr>xr_client_to_broker := mapping_from (session_rows cfg (xr_ledger s))\<rparr>)"
  using assms
  by (simp add: submit_execution_command_def restore_order_mappings_def resolve_existing_submission_def broker_id_of_def
      run_bind_def with_ledger_def get_by_session_rows run_modify_def run_get_def mapping_from_get paper_get run_ret_def Let_def)

lemma submit_command_new:
  assumes "db_open (xr_ledger s)" "last_broker_id (ec_client_order_id cmd) (session_rows cfg (xr_ledger s)) = None"
  shows "submit_execution_command cfg (paper_ops env) cmd s =
    submit_fresh cfg (paper_ops env) cmd (s\<lparr>xr_client_to_broker := mapping_from (session_rows cfg (xr_ledger s))\<rparr>)"
  using assms
  by (simp add: submit_execution_command_def restore_order_mappings_def resolve_existing_submission_def broker_id_of_def
      run_bind_def with_ledger_def get_by_session_rows run_modify_def run_get_def mapping_from_get run_ret_def Let_def)

text \<open>The broker still knows every order the session's ledger names.\<close>

definition orders_known :: "exec_config \<Rightarrow> paper_broker exec_state \<Rightarrow> bool" where
  "orders_known cfg s \<longleftrightarrow> (\<forall>e \<in> set (db_rows (xr_ledger s)). \<forall>b.
     le_session_id e = xc_session cfg \<and> names_order e b \<longrightarrow> get_order b (xr_broker s) \<noteq> None)"


section \<open>A broker update is recorded once\<close>

definition recorded :: "ledger_event \<Rightarrow> ledger_db \<Rightarrow> bool" where
  "recorded kw db \<longleftrightarrow> store_ok db \<and> db_open db \<and> (\<exists>x \<in> set (db_rows db). events_equivalent x kw)"

definition ledger_up :: "ledger_db \<Rightarrow> bool" where
  "ledger_up db \<longleftrightarrow> store_ok db \<and> db_open db"

lemma made_equivalent: "make_ledger_event i n None None kw = Inr e \<Longrightarrow> events_equivalent e kw"
  using make_ledger_event_fields [of i n kw e] by (simp add: events_equivalent_def)

lemma append_recorded:
  assumes "recorded kw db" "events_equivalent e kw"
  shows "append_event e db = (Inr False, db)"
proof -
  have ok: "store_ok db \<and> db_open db" using assms(1) by (simp add: recorded_def)
  obtain x where x: "x \<in> set (db_rows db)" "events_equivalent x kw" using assms(1) unfolding recorded_def by blast
  have eq: "events_equivalent x e"
    using events_equivalent_trans [OF x(2) events_equivalent_sym [OF assms(2)]] .
  show ?thesis using ls.app_known [OF ok x(1) events_equivalent_key [OF eq] eq] .
qed

lemma append_records:
  assumes "ledger_up db" "fst (append_event e db) = Inr ins" "events_equivalent e kw"
  shows "recorded kw (snd (append_event e db))"
proof -
  have ok: "store_ok db \<and> db_open db" using assms(1) by (simp add: ledger_up_def)
  obtain x where "x \<in> set (db_rows (snd (append_event e db)))" "events_equivalent x e"
    using ls.app_stored [OF ok assms(2)] by auto
  then show ?thesis
    using ls.app_ok [OF ok, of e] events_equivalent_trans [OF _ assms(3)] unfolding recorded_def by blast
qed

lemma returns_made_event:
  "returns (core Q) (new_ledger_event cfg kw) (\<lambda>e s. core Q s \<and> events_equivalent e kw)"
proof (rule returnsI)
  fix s e s1
  assume pre: "core Q s" and e: "new_ledger_event cfg kw s = (Inr e, s1)"
  obtain i n where "make_ledger_event i n None None kw = Inr e"
    using e by (auto simp: new_ledger_event_def run_bind_Inr run_lift_def)
  then show "core Q s1 \<and> events_equivalent e kw"
    using preservesD [OF core_basic(2) pre, of cfg kw] e made_equivalent by simp
qed

lemma returns_append_records:
  assumes "events_equivalent kw kw0"
  shows "returns (\<lambda>s. core (\<lambda>db _. ledger_up db) s \<and> events_equivalent e kw) (with_ledger (append_event e))
    (\<lambda>_. core (\<lambda>db _. recorded kw0 db))"
proof (rule returnsI)
  fix s a s'
  assume pre: "core (\<lambda>db _. ledger_up db) s \<and> events_equivalent e kw" and ap: "with_ledger (append_event e) s = (Inr a, s')"
  have "fst (append_event e (xr_ledger s)) = Inr a" "xr_ledger s' = snd (append_event e (xr_ledger s))"
    using ap by (auto simp: with_ledger_def split: prod.splits)
  then show "core (\<lambda>db _. recorded kw0 db) s'"
    using append_records [of "xr_ledger s" e a kw0] pre events_equivalent_trans [OF _ assms] by (simp add: core_def)
qed

text \<open>Building an event and appending it leaves the ledger alone once it is recorded.\<close>

lemma preserves_recorded_append:
  assumes "events_equivalent kw kw0" "\<And>e ins. preserves (core (\<lambda>db b. recorded kw0 db \<and> db = L \<and> b = B)) (f e ins)"
  shows "preserves (core (\<lambda>db b. recorded kw0 db \<and> db = L \<and> b = B))
    (run_bind (new_ledger_event cfg kw) (\<lambda>e. run_bind (with_ledger (append_event e)) (f e)))"
    (is "preserves ?P _")
proof (rule preservesI)
  fix s
  assume pre: "?P s"
  show "?P (snd (run_bind (new_ledger_event cfg kw) (\<lambda>e. run_bind (with_ledger (append_event e)) (f e)) s))"
  proof (cases "new_ledger_event cfg kw s")
    case (Pair r s1)
    have s1: "?P s1" using preservesD [OF core_basic(2) pre, of cfg kw] Pair by simp
    show ?thesis
    proof (cases r)
      case (Inl err)
      then show ?thesis using s1 Pair by (simp add: run_bind_def)
    next
      case (Inr e)
      have "events_equivalent e kw0"
        using returnsD [OF returns_made_event pre] Pair Inr events_equivalent_trans [OF _ assms(1)] by blast
      then have "with_ledger (append_event e) s1 = (Inr False, s1)"
        using append_recorded [of kw0 "xr_ledger s1" e] s1 by (auto simp: with_ledger_def core_def)
      then show ?thesis using preservesD [OF assms(2) s1, of e False] Pair Inr by (simp add: run_bind_def)
    qed
  qed
qed

lemma verified_fill_price_paper:
  "verified_fill_price (paper_ops env) ord s = (Inr (get_fill_price (bo_order_id ord) (xr_broker s)), s)"
  by (simp add: verified_fill_price_def paper_ops_def run_bind_def with_broker_def run_get_def run_ret_def get_fill_price_def
      split: option.splits)

lemma returns_record_once:
  assumes "events_equivalent kw kw0" "\<And>e ins. preserves (core (\<lambda>db _. recorded kw0 db)) (f e ins)"
  shows "returns (core (\<lambda>db _. ledger_up db))
    (run_bind (new_ledger_event cfg kw) (\<lambda>e. run_bind (with_ledger (append_event e)) (f e)))
    (\<lambda>_. core (\<lambda>db _. recorded kw0 db))"
  by (rule returns_bind [OF returns_made_event], rule returns_bind [OF returns_append_records [OF assms(1)]],
      rule returns_preserves, rule assms(2))

lemma order_kwargs_equivalent:
  "events_equivalent (order_event_kwargs cfg etype c ord q t key) (order_event_kwargs cfg etype c ord q t' key)"
  "events_equivalent ((order_event_kwargs cfg etype c ord q t key)\<lparr>le_price := p\<rparr>)
     ((order_event_kwargs cfg etype c ord q t' key)\<lparr>le_price := p\<rparr>)"
  by (simp_all add: events_equivalent_def order_event_kwargs_def ledger_event_kwargs_def)

text \<open>The event that records an update: the time apart, it is the same for every report of it.\<close>

definition update_client :: "broker_order \<Rightarrow> string option \<Rightarrow> string" where
  "update_client ord co = (case co of None \<Rightarrow> bo_intent_id ord | Some c \<Rightarrow> if c = [] then bo_intent_id ord else c)"

definition terminal_event :: "exec_config \<Rightarrow> broker_order \<Rightarrow> string \<Rightarrow> ledger_event_type \<Rightarrow> string \<Rightarrow> ledger_event" where
  "terminal_event cfg ord c etype tag =
     order_event_kwargs cfg etype c ord (bo_quantity ord) (at_utc 0) (tag @ c @ '':'' @ bo_order_id ord)"

definition fill_event :: "exec_config \<Rightarrow> broker_order \<Rightarrow> string \<Rightarrow> pyfloat \<Rightarrow> ledger_event" where
  "fill_event cfg ord c x =
     (order_event_kwargs cfg FINAL_FILL c ord (bo_quantity ord) (at_utc 0) (fill_key c ord FINAL_FILL (bo_quantity ord) x))
       \<lparr>le_price := Some x\<rparr>"

definition update_event :: "exec_config \<Rightarrow> broker_order \<Rightarrow> string \<Rightarrow> paper_broker \<Rightarrow> ledger_event option" where
  "update_event cfg ord c pb =
     (case bo_status ord of
        Cancelled \<Rightarrow> Some (terminal_event cfg ord c CANCELLATION ''cancel:'')
      | Rejected \<Rightarrow> Some (terminal_event cfg ord c REJECTION ''reject:'')
      | Filled \<Rightarrow> map_option (fill_event cfg ord c) (get_fill_price (bo_order_id ord) pb)
      | _ \<Rightarrow> None)"

lemma core_const: "core (\<lambda>db b. Q db b \<and> R) s \<longleftrightarrow> core Q s \<and> R"
  by (simp add: core_def)

text \<open>What follows the two opening steps of an update.\<close>

definition terminal_step ::
  "exec_config \<Rightarrow> broker_order \<Rightarrow> string \<Rightarrow> datetime \<Rightarrow> ledger_event_type \<Rightarrow> string \<Rightarrow> event_type \<Rightarrow>
   ('b exec_state, ledger_event list) run" where
  "terminal_step cfg ord c now etype tag dtype =
     run_bind (new_ledger_event cfg (order_event_kwargs cfg etype c ord (bo_quantity ord) now (tag @ c @ '':'' @ bo_order_id ord))) (\<lambda>e.
        run_bind (with_ledger (append_event e)) (\<lambda>inserted.
          if inserted then run_bind (publish_order_event cfg dtype c now []) (\<lambda>_. run_ret [e]) else run_ret []))"

definition update_tail :: "exec_config \<Rightarrow> paper_env \<Rightarrow> broker_order \<Rightarrow> string \<Rightarrow> datetime \<Rightarrow> (paper_broker exec_state, ledger_event list) run" where
  "update_tail cfg env ord c now =
     (case bo_status ord of
           Cancelled \<Rightarrow> terminal_step cfg ord c now CANCELLATION ''cancel:'' ORDER_CANCELLED
         | Rejected \<Rightarrow> terminal_step cfg ord c now REJECTION ''reject:'' ORDER_REJECTED
         | Filled \<Rightarrow>
             run_bind (verified_fill_price (paper_ops env) ord) (\<lambda>price. case price of
                 Some x \<Rightarrow> record_verified_fill cfg ord c x (Some (bo_quantity ord)) True
               | None \<Rightarrow> run_bind (publish_order_event cfg ORDER_FILLED c now
                     [(''broker_order_id'', MText (bo_order_id ord)), (''fill_price_available'', MBool False)]) (\<lambda>_. run_ret []))
         | _ \<Rightarrow> run_ret [])"

lemma on_broker_update_tail:
  "on_broker_update cfg (paper_ops env) ord co =
     run_bind (default_mapping (update_client ord co) (bo_order_id ord)) (\<lambda>_.
     run_bind (exec_now cfg) (\<lambda>now. update_tail cfg env ord (update_client ord co) now))"
  by (cases "bo_status ord")
     (simp_all add: on_broker_update_def update_tail_def terminal_step_def update_client_def Let_def cong: option.case_cong)

lemma record_fill_first:
  "returns (core (\<lambda>db _. ledger_up db)) (record_verified_fill cfg ord c x (Some (bo_quantity ord)) True)
     (\<lambda>_. core (\<lambda>db _. recorded (fill_event cfg ord c x) db))"
  unfolding record_verified_fill_def fill_event_def Let_def option.case if_True
  by (rule returns_core [OF core_basic(5)], rule returns_core [OF core_basic(1)], rule returns_core [OF core_modify(2)],
      rule returns_record_once [OF order_kwargs_equivalent(2)]) (intro preserve_intros core_intros)

lemma record_fill_again:
  "preserves (core (\<lambda>db b. recorded (fill_event cfg ord c x) db \<and> db = L \<and> b = B))
     (record_verified_fill cfg ord c x (Some (bo_quantity ord)) True)"
  unfolding record_verified_fill_def fill_event_def Let_def option.case if_True
  by (rule preserves_bind [OF core_basic(5)], rule preserves_bind [OF core_basic(1)], rule preserves_bind [OF core_modify(2)],
      rule preserves_recorded_append [OF order_kwargs_equivalent(2)]) (intro preserve_intros core_intros)

lemma update_tail_filled:
  assumes "bo_status ord = Filled"
  shows "update_tail cfg env ord c now s =
    (case get_fill_price (bo_order_id ord) (xr_broker s) of
       Some x \<Rightarrow> record_verified_fill cfg ord c x (Some (bo_quantity ord)) True
     | None \<Rightarrow> run_bind (publish_order_event cfg ORDER_FILLED c now
         [(''broker_order_id'', MText (bo_order_id ord)), (''fill_price_available'', MBool False)]) (\<lambda>_. run_ret [])) s"
  using assms by (simp add: update_tail_def run_bind_def [of "verified_fill_price _ _"] verified_fill_price_paper)

lemma update_tail_first:
  assumes "update_event cfg ord c B = Some kw0" "update_tail cfg env ord c now s = (Inr w, s')"
    and "ledger_up (xr_ledger s)" "xr_broker s = B"
  shows "recorded kw0 (xr_ledger s')"
proof -
  have up: "core (\<lambda>db _. ledger_up db) s" using assms(3) by (simp add: core_def)
  have terminal_rec: "recorded (terminal_event cfg ord c etype tag) (xr_ledger s')"
    if "terminal_step cfg ord c now etype tag dtype s = (Inr w, s')"
    for etype tag dtype
  proof -
    have "core (\<lambda>db _. recorded (terminal_event cfg ord c etype tag) db) s'"
      by (rule returnsD [OF returns_record_once up that [unfolded terminal_step_def]])
         (simp add: terminal_event_def order_kwargs_equivalent, intro preserve_intros core_intros)
    then show ?thesis by (simp add: core_def)
  qed
  show ?thesis
  proof (cases "bo_status ord")
    case Filled
    then obtain x where x: "get_fill_price (bo_order_id ord) B = Some x" "kw0 = fill_event cfg ord c x"
      using assms(1) by (auto simp: update_event_def)
    have "record_verified_fill cfg ord c x (Some (bo_quantity ord)) True s = (Inr w, s')"
      using assms(2,4) x by (simp add: update_tail_filled [OF Filled])
    from returnsD [OF record_fill_first up this] show ?thesis by (simp add: core_def x)
  next
    case Cancelled
    then show ?thesis using assms(1,2) by (auto simp: update_event_def update_tail_def intro: terminal_rec)
  next
    case Rejected
    then show ?thesis using assms(1,2) by (auto simp: update_event_def update_tail_def intro: terminal_rec)
  qed (use assms(1) in \<open>simp_all add: update_event_def\<close>)
qed

lemma update_tail_again:
  assumes "case update_event cfg ord c B of None \<Rightarrow> True | Some kw0 \<Rightarrow> recorded kw0 L"
    and "xr_ledger s = L" "xr_broker s = B"
  shows "xr_ledger (snd (update_tail cfg env ord c now s)) = L"
proof -
  have terminal_rec: "xr_ledger (snd (terminal_step cfg ord c now etype tag dtype s)) = L"
    if rec: "recorded (terminal_event cfg ord c etype tag) L" for etype tag dtype
  proof -
    let ?P = "core (\<lambda>db b. recorded (terminal_event cfg ord c etype tag) db \<and> db = L \<and> b = B)"
    have "?P s" using assms(2,3) rec by (simp add: core_def)
    then have "?P (snd (terminal_step cfg ord c now etype tag dtype s))"
      unfolding terminal_step_def
      by (rule preservesD [OF preserves_recorded_append, rotated 2])
         (simp add: terminal_event_def order_kwargs_equivalent, intro preserve_intros core_intros)
    then show ?thesis by (simp add: core_def)
  qed
  show ?thesis
  proof (cases "bo_status ord")
    case Filled
    show ?thesis
    proof (cases "get_fill_price (bo_order_id ord) B")
      case None
      have "core (\<lambda>db _. db = L) s" using assms(2) by (simp add: core_def)
      then have "core (\<lambda>db _. db = L) (snd (run_bind (publish_order_event cfg ORDER_FILLED c now
         [(''broker_order_id'', MText (bo_order_id ord)), (''fill_price_available'', MBool False)]) (\<lambda>_. run_ret []) s))"
        by (rule preservesD [rotated]) (intro preserve_intros core_intros)
      then show ?thesis using None assms(3) by (simp add: update_tail_filled [OF Filled] core_def)
    next
      case (Some x)
      then have "recorded (fill_event cfg ord c x) L" using assms(1) Filled by (simp add: update_event_def)
      then have "core (\<lambda>db b. recorded (fill_event cfg ord c x) db \<and> db = L \<and> b = B) s" using assms(2,3) by (simp add: core_def)
      from preservesD [OF record_fill_again this] show ?thesis
        using Some assms(3) by (simp add: update_tail_filled [OF Filled] core_def)
    qed
  next
    case Cancelled
    then show ?thesis using assms(1) by (auto simp: update_event_def update_tail_def intro: terminal_rec)
  next
    case Rejected
    then show ?thesis using assms(1) by (auto simp: update_event_def update_tail_def intro: terminal_rec)
  qed (use assms(2) in \<open>simp_all add: update_tail_def run_ret_def\<close>)
qed

text \<open>
  A broker update is recorded once: after an update of an order was processed, processing the
  same update again, at any later time and with the same broker and ledger, leaves the ledger as it
  is, so a filled order polled twice is booked once.
\<close>

theorem repeated_update_writes_nothing:
  assumes "store_ok (xr_ledger s)" "db_open (xr_ledger s)"
    and "on_broker_update cfg (paper_ops env) ord co s = (Inr w, s1)"
    and "xr_ledger s2 = xr_ledger s1" "xr_broker s2 = xr_broker s"
  shows "xr_ledger (snd (on_broker_update cfg (paper_ops env) ord co s2)) = xr_ledger s1"
proof -
  let ?c = "update_client ord co"
  let ?s = "\<lambda>s. s\<lparr>xr_client_to_broker := dict_setdefault ?c (bo_order_id ord) (xr_client_to_broker s), xr_tick := Suc (xr_tick s)\<rparr>"
  have step: "on_broker_update cfg (paper_ops env) ord co s = update_tail cfg env ord ?c (xc_clock cfg (xr_tick s)) (?s s)"
    for s by (simp add: on_broker_update_tail run_bind_def default_mapping_def run_modify_def exec_now_def tick_def run_ret_def)
  have "case update_event cfg ord ?c (xr_broker s) of None \<Rightarrow> True | Some kw0 \<Rightarrow> recorded kw0 (xr_ledger s1)"
  proof (cases "update_event cfg ord ?c (xr_broker s)")
    case (Some kw0)
    have "recorded kw0 (xr_ledger s1)"
      by (rule update_tail_first [OF Some, of env "xc_clock cfg (xr_tick s)" "?s s" w s1])
         (use assms(1-3) step [of s] in \<open>simp_all add: ledger_up_def\<close>)
    then show ?thesis using Some by simp
  qed simp
  then show ?thesis
    unfolding step by (rule update_tail_again) (use assms(4,5) in simp_all)
qed

section \<open>Several lots of one contract\<close>

lemma find_rev_last: "filter P xs \<noteq> [] \<Longrightarrow> find P (rev xs) = Some (last (filter P xs))"
  by (induction xs rule: rev_induct) auto

definition open_lots :: "string \<Rightarrow> position list \<Rightarrow> position list" where
  "open_lots c ps = filter (\<lambda>p. po_is_open p \<and> contract_id_for (po_contract p) = c) ps"

lemma broker_quantity_lots:
  assumes "open_lots c ps \<noteq> []"
  shows "find (\<lambda>b. bp_contract_id b = c) (rev (map position_view (filter po_is_open ps))) = Some (position_view (last (open_lots c ps)))"
proof -
  let ?vs = "map position_view (filter po_is_open ps)"
  have "filter (\<lambda>b. bp_contract_id b = c) ?vs = map position_view (open_lots c ps)"
    by (induction ps) (auto simp: open_lots_def position_view_def)
  then show ?thesis using find_rev_last [of "\<lambda>b. bp_contract_id b = c" ?vs] assms by (simp add: last_map)
qed

text \<open>
  When a broker holds several open lots of a contract, as the simulated broker does after two
  buys, and the ledger holds exactly their sum, reconciliation still reports a mismatch unless the
  last lot alone has the whole quantity: the broker's positions are indexed by contract and each lot
  overwrites the one before.
\<close>

theorem split_lots_reported_inconsistent:
  assumes "project es = Inr pr" "dict_get (pr_positions pr) c = Some p" "ps_open p"
    and "ps_quantity p = of_int (sum_list (map po_quantity (open_lots c ps)))" "ps_quantity p \<noteq> 0"
    and "open_lots c ps \<noteq> []" "po_quantity (last (open_lots c ps)) \<noteq> sum_list (map po_quantity (open_lots c ps))"
    and "reconcile rid now sid pr bos (map position_view (filter po_is_open ps)) ts = Inr r"
  shows "\<not> rp_is_consistent r"
proof -
  let ?bps = "map position_view (filter po_is_open ps)"
  have open_last: "po_is_open (last (open_lots c ps))"
    using last_in_set [OF assms(6)] by (simp add: open_lots_def)
  have pos: "dict_get (projected_open_positions pr) c = Some p"
    using assms(2,3,5) by (simp add: projected_open_get [OF project_keys_distinct(2) [OF assms(1)]])
  have bq: "dict_get (broker_pos_by_contract ?bps) c = Some (position_view (last (open_lots c ps)))"
    using broker_quantity_lots [OF assms(6)] by (simp add: broker_pos_get)
  have "bp_quantity (position_view (last (open_lots c ps))) \<noteq> ps_quantity p"
    using assms(4,7) open_last by (simp add: position_view_def)
  then have "\<not> all_consistent (check_projected_position ?bps (c, p))"
    using bq by (simp add: check_projected_position_consistent)
  moreover have "(c, p) \<in> set (projected_open_positions pr)" using map_of_SomeD [OF pos] .
  ultimately show ?thesis
    unfolding reconcile_Inr(2) [OF assms(8)] reconcile_Inr(1) [OF assms(8)] by auto
qed

section \<open>A concrete session\<close>

definition demo_cfg :: exec_config where
  "demo_cfg = \<lparr>xc_session = ''s1'', xc_account = ''acct'', xc_correlation = ''corr'', xc_clock = (\<lambda>n. at_utc (int n * usec)),
     xc_uuid = (\<lambda>n. replicate (Suc n) CHR ''u''), xc_wall = (\<lambda>n. at_utc (int n * usec))\<rparr>"

definition demo_start :: "pyfloat \<Rightarrow> paper_broker exec_state" where
  "demo_start slip =
     \<lparr>xr_broker = new_paper_broker 1000 slip 5, xr_ledger = \<lparr>db_open = True, db_rows = []\<rparr>, xr_published = [],
      xr_client_to_broker = [], xr_unresolved = None, xr_tick = 0\<rparr>"

definition demo_cmd :: "string \<Rightarrow> string \<Rightarrow> int \<Rightarrow> exec_command" where
  "demo_cmd c iid q = \<lparr>ec_client_order_id = c, ec_intent = demo_intent iid Buy q 2, ec_account = []\<rparr>"

definition demo_bought :: "paper_broker exec_state" where
  "demo_bought = snd (submit_execution_command demo_cfg (paper_ops demo_env) (demo_cmd ''c1'' ''b1'' 3) (demo_start 2))"

lemma demo_env_ids: "pe_id demo_env n \<noteq> []"
  by (simp add: demo_env_def)

lemma demo_start_ok: "store_ok (xr_ledger (demo_start x))" "db_open (xr_ledger (demo_start x))"
  "paper_reachable demo_env (xr_broker (demo_start x))" "orders_known demo_cfg (demo_start x)"
  by (simp_all add: demo_start_def store_ok_def reach_new orders_known_def)

theorem runtime_history_append_only_witness:
  "\<exists>new. db_rows (xr_ledger demo_bought) = db_rows (xr_ledger (demo_start 2)) @ new \<and>
     distinct (map le_key (db_rows (xr_ledger demo_bought)))"
  by (rule runtime_history_append_only [of demo_cfg "paper_ops demo_env"])
     (simp_all add: demo_bought_def demo_start_ok er_submit er_start)


definition cancelled_order :: broker_order where
  "cancelled_order = (opened_order demo_env (demo_intent ''b1'' Buy 3 2) (new_paper_broker 1000 2 5))\<lparr>bo_status := Cancelled\<rparr>"

definition demo_cancelled :: "paper_broker exec_state" where
  "demo_cancelled = snd (on_broker_update demo_cfg (paper_ops demo_env) cancelled_order (Some ''c1'') (demo_start 2))"

theorem repeated_update_writes_nothing_witness:
  "length (db_rows (xr_ledger (snd (on_broker_update demo_cfg (paper_ops demo_env) cancelled_order (Some ''c1'')
     (demo_cancelled\<lparr>xr_broker := xr_broker (demo_start 2)\<rparr>))))) = 1"
proof -
  let ?run = "on_broker_update demo_cfg (paper_ops demo_env) cancelled_order (Some ''c1'') (demo_start 2)"
  have "\<not> isl (fst ?run)" by code_simp
  then have run: "?run = (Inr (projr (fst ?run)), demo_cancelled)" by (simp add: demo_cancelled_def prod_eq_iff)
  have "length (db_rows (xr_ledger demo_cancelled)) = 1" by code_simp
  then show ?thesis
    using repeated_update_writes_nothing [OF demo_start_ok(1,2) run, of "demo_cancelled\<lparr>xr_broker := xr_broker (demo_start 2)\<rparr>"]
    by simp
qed

abbreviation demo_contract_id :: string where
  "demo_contract_id \<equiv> ''SPY:2024-10-04:600.0:call''"

lemma demo_contract_id: "contract_id_for demo_contract = demo_contract_id"
  by code_simp

definition two_buys :: "ledger_event list" where
  "two_buys = [(sample_event FINAL_FILL ''f1'' ''c1'' Buy 1 (Some 2))\<lparr>le_contract_id := demo_contract_id\<rparr>,
               (sample_event FINAL_FILL ''f2'' ''c2'' Buy 2 (Some 3))\<lparr>le_contract_id := demo_contract_id\<rparr>]"

definition demo_lot :: "string \<Rightarrow> int \<Rightarrow> pyfloat \<Rightarrow> position" where
  "demo_lot i q x = \<lparr>po_position_id = i, po_contract = demo_contract, po_quantity = q, po_avg_entry_price = x, po_is_open = True,
     po_opened_at = at_utc 0, po_closed_at = None, po_realized_pnl_usd = None\<rparr>"

theorem split_lots_reported_inconsistent_witness:
  "\<not> rp_is_consistent (projr (reconcile ''r'' (at_utc 0) ''s1'' (projr (project two_buys)) []
      (map position_view (filter po_is_open [demo_lot ''p1'' 1 2, demo_lot ''p2'' 2 3])) None))"
proof -
  let ?ps = "[demo_lot ''p1'' 1 2, demo_lot ''p2'' 2 3]" and ?pr = "projr (project two_buys)"
  let ?r = "reconcile ''r'' (at_utc 0) ''s1'' ?pr [] (map position_view (filter po_is_open ?ps)) None"
  let ?p = "the (dict_get (pr_positions ?pr) demo_contract_id)"
  have "\<not> isl (project two_buys)" by code_simp
  then have pr: "project two_buys = Inr ?pr" by simp
  have lots: "open_lots demo_contract_id ?ps = ?ps" by (simp add: open_lots_def demo_lot_def demo_contract_id)
  have r: "?r = Inr (projr ?r)"
    by (simp add: reconcile_def nonblank_def is_space_def Let_def)
  have p: "dict_get (pr_positions ?pr) demo_contract_id = Some ?p" "ps_open ?p" "ps_quantity ?p = 3"
    by code_simp+
  show ?thesis
    by (rule split_lots_reported_inconsistent [OF pr p(1,2) _ _ _ _ r]) (simp_all add: lots p(3), simp_all add: demo_lot_def)
qed

end
