(* ===== verification/Order_Gateway_Props.thy ===== *)
theory Order_Gateway_Props
  imports Order_Gateway Execution_Props
begin

text \<open>
  What the order-action gateway guarantees: the conditions under which an opening action passes, the
  size of a closing order, the effect of a blocked request, the part of the working orders a closing
  action is checked against, and the round trip of contract ids.
\<close>

section \<open>What passes validation\<close>

named_theorems guard_simps

lemma guard_all_Inr [guard_simps]: "guard_all cs a = Inr b \<longleftrightarrow> b = a \<and> \<not> list_ex fst cs"
  by (induction cs a rule: guard_all.induct) (auto simp: cognitive_error_def)

lemma guard_all_Inl: "guard_all cs a = Inl e \<Longrightarrow> \<exists>msg. e = CognitiveValidationError msg"
  by (induction cs a rule: guard_all.induct) (auto simp: cognitive_error_def split: if_splits)

lemmas sum_then_guards [guard_simps] = sum_then_Inr

lemma find_member: "find p xs = Some x \<Longrightarrow> x \<in> set xs \<and> p x"
  by (induction xs) (auto split: if_splits)

lemma validated:
  assumes "validate_and_compile maxq submitted rq snapshot quality sf working positions = Inr cmd"
  obtains contract s row where
    "parse_contract_id (rq_contract_id rq) (Some (mk_trading_date snapshot)) = Inr contract"
    "sf = Some s" "surface_row s (rq_contract_id rq) = Some row"
    "validate_quote_age (rq_max_quote_age_seconds rq) row = Inr ()"
    "\<not> list_ex fst (quality_guard (rq_action rq) quality @ surface_guard snapshot sf)"
    "\<not> list_ex fst (contract_guard contract snapshot)"
    "\<not> list_ex fst (quantity_guard rq maxq @ entry_guard rq submitted working positions @ add_guard rq working positions
                    @ close_guard rq working positions @ replace_guard rq working)"
    "cmd = compile_command rq (first_nonempty [rq_proposal_id rq, rq_decision_id rq] (rq_client_order_id rq)) contract
             (rq_side rq) (rq_quantity rq)"
proof -
  obtain contract u where 1: "parse_contract_id (rq_contract_id rq) (Some (mk_trading_date snapshot)) = Inr contract"
    and 2: "\<not> list_ex fst (quality_guard (rq_action rq) quality @ surface_guard snapshot sf)"
    and 3: "\<not> list_ex fst (contract_guard contract snapshot)"
    and 4: "(case surface_row (the sf) (rq_contract_id rq) of
               None \<Rightarrow> cognitive_error (''contract_id '' @ py_repr (rq_contract_id rq) @ '' is absent from the option surface'')
             | Some row \<Rightarrow> validate_quote_age (rq_max_quote_age_seconds rq) row) = Inr u"
    and 5: "\<not> list_ex fst (quantity_guard rq maxq @ entry_guard rq submitted working positions @ add_guard rq working positions
                    @ close_guard rq working positions @ replace_guard rq working)"
    and 6: "cmd = compile_command rq (first_nonempty [rq_proposal_id rq, rq_decision_id rq] (rq_client_order_id rq)) contract
             (rq_side rq) (rq_quantity rq)"
    using assms unfolding validate_and_compile_def
    by (elim sum_thenE, unfold guard_all_Inr, elim conjE) (rule that, assumption+)
  obtain s where s: "sf = Some s" using 2 by (cases sf) (simp_all add: surface_guard_def)
  obtain row where "surface_row s (rq_contract_id rq) = Some row"
    "validate_quote_age (rq_max_quote_age_seconds rq) row = Inr ()"
    using 4 s by (auto simp: cognitive_error_def split: option.splits)
  with 1 2 3 5 6 s that show thesis by blast
qed

lemma compile_command_fields [simp]:
  "ec_client_order_id (compile_command rq cand c sd q) = rq_client_order_id rq"
  "oi_side (ec_intent (compile_command rq cand c sd q)) = sd"
  "oi_quantity (ec_intent (compile_command rq cand c sd q)) = q"
  "oi_contract (ec_intent (compile_command rq cand c sd q)) = c"
  by (simp_all add: compile_command_def)

text \<open>
  Claim C4. An action that opens or increases exposure (entry, probe, add) and passes validation: the
  snapshot's quality report declares the data usable for execution, the surface is the one the
  snapshot names, the contract is a same-day SPY contract listed on it with a quote that is not too
  old, the order is a buy of 1 to the maximum quantity; an entry or probe finds no working buy order
  and a proposal that was not submitted before, an entry no open position in the contract, an add one.
\<close>

theorem opening_action_gate:
  assumes ok: "validate_and_compile maxq submitted rq snapshot quality sf working positions = Inr cmd"
    and action: "rq_action rq \<in> {ENTRY, PROBE, ADD}"
  shows "(\<exists>q. quality = Some q \<and> qr_usable_for_execution q) \<and>
    (\<exists>s row. sf = Some s \<and> row \<in> set (sf_contracts s) \<and> cr_contract_id row = rq_contract_id rq \<and>
        (mk_option_surface_id snapshot = None \<or> mk_option_surface_id snapshot = Some (sf_surface_id s)) \<and>
        (rq_max_quote_age_seconds rq = None \<or> cr_quote_age_ms row \<le> the (rq_max_quote_age_seconds rq) * 1000)) \<and>
    oc_symbol (oi_contract (ec_intent cmd)) = ''SPY'' \<and>
    oc_expiration (oi_contract (ec_intent cmd)) = mk_trading_date snapshot \<and>
    oi_side (ec_intent cmd) = Buy \<and> 1 \<le> oi_quantity (ec_intent cmd) \<and> oi_quantity (ec_intent cmd) \<le> maxq \<and>
    (rq_action rq \<noteq> ADD \<longrightarrow> \<not> has_working_entry_order working \<and>
       (\<forall>p. rq_proposal_id rq = Some p \<longrightarrow> p = [] \<or> p \<notin> submitted)) \<and>
    (rq_action rq = ENTRY \<longrightarrow> dict_get positions (rq_contract_id rq) = None) \<and>
    (rq_action rq = ADD \<longrightarrow> dict_get positions (rq_contract_id rq) \<noteq> None)"
proof -
  obtain contract s row where
    p: "parse_contract_id (rq_contract_id rq) (Some (mk_trading_date snapshot)) = Inr contract"
    and sf: "sf = Some s" "surface_row s (rq_contract_id rq) = Some row"
    and age: "validate_quote_age (rq_max_quote_age_seconds rq) row = Inr ()"
    and g1: "\<not> list_ex fst (quality_guard (rq_action rq) quality @ surface_guard snapshot sf)"
    and g2: "\<not> list_ex fst (contract_guard contract snapshot)"
    and g3: "\<not> list_ex fst (quantity_guard rq maxq @ entry_guard rq submitted working positions @ add_guard rq working positions
                    @ close_guard rq working positions @ replace_guard rq working)"
    and cmd: "cmd = compile_command rq (first_nonempty [rq_proposal_id rq, rq_decision_id rq] (rq_client_order_id rq)) contract
             (rq_side rq) (rq_quantity rq)"
    by (rule validated [OF ok])
  have usable: "\<exists>q. quality = Some q \<and> qr_usable_for_execution q"
    using g1 action by (cases quality) (auto simp: quality_guard_def)
  have row: "row \<in> set (sf_contracts s)" "cr_contract_id row = rq_contract_id rq"
    using find_member [OF sf(2) [unfolded surface_row_def]] by simp_all
  have named: "mk_option_surface_id snapshot = None \<or> mk_option_surface_id snapshot = Some (sf_surface_id s)"
    using g1 sf(1) by (auto simp: surface_guard_def split: option.splits)
  have fresh: "rq_max_quote_age_seconds rq = None \<or> cr_quote_age_ms row \<le> the (rq_max_quote_age_seconds rq) * 1000"
    using age by (auto simp: validate_quote_age_def cognitive_error_def split: option.splits if_splits)
  have contract: "oc_symbol contract = ''SPY''" "oc_expiration contract = mk_trading_date snapshot"
    using g2 by (simp_all add: contract_guard_def)
  have qty: "1 \<le> rq_quantity rq" "rq_quantity rq \<le> maxq" using g3 by (auto simp: quantity_guard_def)
  have rest: "rq_side rq = Buy"
    "rq_action rq \<noteq> ADD \<longrightarrow> \<not> has_working_entry_order working \<and>
       (\<forall>p. rq_proposal_id rq = Some p \<longrightarrow> p = [] \<or> p \<notin> submitted)"
    "rq_action rq = ENTRY \<longrightarrow> dict_get positions (rq_contract_id rq) = None"
    "rq_action rq = ADD \<longrightarrow> dict_get positions (rq_contract_id rq) \<noteq> None"
    using g3 action by (auto simp: entry_guard_def add_guard_def opt_truthy_def)
  show ?thesis using usable sf(1) row named fresh contract qty rest by (auto simp: cmd)
qed

section \<open>The gateway as a whole\<close>

text \<open>The projection a submission works with, and the runtime state after loading it.\<close>

definition loaded_projection ::
  "'b gateway_deps \<Rightarrow> 'b exec_state \<Rightarrow> projection_state option \<Rightarrow> 'b exec_state \<Rightarrow> bool" where
  "loaded_projection d x projection x' \<longleftrightarrow>
     (case gd_projection_loader d of
        None \<Rightarrow> projection = None \<and> x' = x
      | Some m \<Rightarrow> m x = (Inr projection, x'))"

lemma gateway_submit_returns:
  assumes "gateway_submit d rq s = (Inr res, s')"
  shows "(\<not> gd_has_runtime d \<and> res = blocked (rq_client_order_id rq) ''ExecutionRuntime unavailable'' [] \<and> s' = s) \<or>
         (\<exists>snapshot quality sf projection x.
            load_snapshot_truth d (rq_snapshot_id rq) = Inr (snapshot, quality, sf) \<and>
            loaded_projection d (gs_exec s) projection x \<and>
            act_on_truth d rq snapshot quality sf projection (s\<lparr>gs_exec := x\<rparr>) = (Inr res, s'))"
proof (cases "gd_has_runtime d")
  case False
  then show ?thesis using assms by (simp add: gateway_submit_def run_ret_def)
next
  case True
  then obtain snapshot quality sf projection s1 where load: "load_snapshot_truth d (rq_snapshot_id rq) = Inr (snapshot, quality, sf)"
    and l: "load_projection d s = (Inr projection, s1)"
    and rest: "act_on_truth d rq snapshot quality sf projection s1 = (Inr res, s')"
    using assms by (auto simp: gateway_submit_def run_bind_Inr run_lift_def)
  have "\<exists>x. loaded_projection d (gs_exec s) projection x \<and> s1 = s\<lparr>gs_exec := x\<rparr>"
    using l by (auto simp: load_projection_def loaded_projection_def run_ret_def on_exec_def split: option.splits prod.splits)
  then show ?thesis using load rest by blast
qed

lemma on_exec_Inr: "on_exec m s = (Inr a, s') \<longleftrightarrow> (\<exists>x. m (gs_exec s) = (Inr a, x) \<and> s' = s\<lparr>gs_exec := x\<rparr>)"
  by (auto simp: on_exec_def split: prod.splits)

lemma submit_validated_result:
  "submit_validated d rq cmd working s = (Inr res, s') \<Longrightarrow> \<exists>ord. res = submitted_result cmd ord None working"
  unfolding submit_validated_def run_bind_Inr by (auto simp: run_ret_def)

lemma submit_degraded_result:
  "submit_degraded d rq snapshot positions msg working s = (Inr res, s') \<Longrightarrow>
   \<exists>cmd ord reason. compile_degraded_close rq snapshot positions = Inr cmd \<and>
                    res = submitted_result cmd ord (Some reason) working"
  unfolding submit_degraded_def Let_def run_bind_Inr by (auto simp: run_ret_def run_lift_def)

lemma acted_submitted:
  assumes "act_on_truth d rq snapshot quality sf projection s = (Inr res, s')" "rs_submitted res"
  shows "\<exists>cmd. rs_command res = Some cmd \<and>
     (validate_and_compile (gd_max_quantity d) (gs_submitted_proposals s) rq snapshot (Some quality) sf
        (working_orders_from_projection projection []) (open_positions_from_projection projection) = Inr cmd \<or>
      rq_action rq \<in> {EXIT, REDUCE} \<and>
      compile_degraded_close rq snapshot (open_positions_from_projection projection) = Inr cmd)"
  using assms
  by (auto simp: act_on_truth_def Let_def blocked_def submitted_result_def run_ret_def run_raise_def allows_degraded_def
      dest!: submit_validated_result submit_degraded_result split: sum.splits py_error.splits if_splits)

lemma degraded_close_bound:
  assumes "compile_degraded_close rq snapshot positions = Inr cmd"
  shows "\<exists>pos. dict_get positions (rq_contract_id rq) = Some pos \<and> oi_side (ec_intent cmd) = Sell \<and>
    1 \<le> oi_quantity (ec_intent cmd) \<and> oi_quantity (ec_intent cmd) \<le> trunc_zero (ps_quantity pos)"
proof -
  obtain c where ok: "\<not> list_ex fst
             [(dict_get positions (rq_contract_id rq) = None, ''degraded exit blocked: no authoritative open position''),
              (min (rq_quantity rq) (open_quantity positions (rq_contract_id rq)) \<le> 0, ''degraded exit blocked: zero open quantity'')]"
    and cmd: "cmd = compile_command rq (first_nonempty [rq_decision_id rq] (rq_client_order_id rq)) c Sell
                      (min (rq_quantity rq) (open_quantity positions (rq_contract_id rq)))"
    using assms unfolding compile_degraded_close_def Let_def
    by (elim sum_thenE, unfold guard_all_Inr, elim conjE) (rule that, assumption, erule sum.inject(2) [THEN iffD1, symmetric])
  then obtain pos where pos: "dict_get positions (rq_contract_id rq) = Some pos" by auto
  then have "1 \<le> min (rq_quantity rq) (trunc_zero (ps_quantity pos))" using ok by (auto simp: open_quantity_def not_le)
  then show ?thesis using pos by (simp add: cmd open_quantity_def)
qed

lemma validated_close_bound:
  assumes "validate_and_compile maxq submitted rq snapshot quality sf working positions = Inr cmd"
    and "rq_action rq \<in> {EXIT, REDUCE}"
  shows "\<exists>pos. dict_get positions (rq_contract_id rq) = Some pos \<and> oi_side (ec_intent cmd) = Sell \<and>
    1 \<le> oi_quantity (ec_intent cmd) \<and> oi_quantity (ec_intent cmd) \<le> trunc_zero (ps_quantity pos)"
  by (rule validated [OF assms(1)])
     (use assms(2) in \<open>auto simp: quantity_guard_def close_guard_def open_quantity_def not_less not_le\<close>)

text \<open>
  Claim C5. Whatever the snapshot, the quality of its data and the request hold, a closing action
  (exit, reduce) the gateway submits, degraded or not, is a sell order of at least 1 and at most the
  whole open quantity of a position that the loaded projection has in that contract.
\<close>

theorem closing_never_exceeds_position:
  assumes run: "gateway_submit d rq s = (Inr res, s')" and sub: "rs_submitted res"
    and action: "rq_action rq \<in> {EXIT, REDUCE}"
  shows "\<exists>projection x pos cmd. loaded_projection d (gs_exec s) projection x \<and> rs_command res = Some cmd \<and>
    dict_get (open_positions_from_projection projection) (rq_contract_id rq) = Some pos \<and>
    oi_side (ec_intent cmd) = Sell \<and> 1 \<le> oi_quantity (ec_intent cmd) \<and>
    oi_quantity (ec_intent cmd) \<le> trunc_zero (ps_quantity pos)"
proof -
  obtain snapshot quality sf projection x where l: "loaded_projection d (gs_exec s) projection x"
    and rest: "act_on_truth d rq snapshot quality sf projection (s\<lparr>gs_exec := x\<rparr>) = (Inr res, s')"
    using gateway_submit_returns [OF run] sub by (auto simp: blocked_def)
  show ?thesis
    using acted_submitted [OF rest sub] degraded_close_bound validated_close_bound [OF _ action] l by metis
qed

text \<open>
  A blocked request has no effect: when the gateway does not submit (and loading the
  projection only reads), it returns a reason, no command and no broker order, and nothing of the
  state has changed - ledger, broker, event bus, submitted proposals and provenance are as before.
\<close>

theorem blocked_changes_nothing:
  assumes run: "gateway_submit d rq s = (Inr res, s')" and blocked: "\<not> rs_submitted res"
    and reads: "\<forall>m x. gd_projection_loader d = Some m \<longrightarrow> snd (m x) = x"
  shows "s' = s \<and> (\<exists>reason. rs_blocked_reason res = Some reason) \<and> rs_command res = None \<and> rs_broker_order res = None"
proof -
  consider "res = blocked (rq_client_order_id rq) ''ExecutionRuntime unavailable'' []" "s' = s"
    | snapshot quality sf projection x where "loaded_projection d (gs_exec s) projection x"
        "act_on_truth d rq snapshot quality sf projection (s\<lparr>gs_exec := x\<rparr>) = (Inr res, s')"
    using gateway_submit_returns [OF run] by blast
  then show ?thesis
  proof cases
    case 2
    have "x = gs_exec s"
      using 2(1) reads by (auto simp: loaded_projection_def split: option.splits dest: arg_cong [where f = snd])
    then have "act_on_truth d rq snapshot quality sf projection s = (Inr res, s')" using 2(2) by simp
    then show ?thesis
      using blocked
      by (auto simp: act_on_truth_def Let_def blocked_def submitted_result_def run_ret_def run_raise_def
          dest!: submit_validated_result submit_degraded_result split: sum.splits py_error.splits if_splits)
  qed (simp add: blocked_def)
qed

text \<open>
  A closing action is checked against the open position alone: working orders under other
  client order ids - sell orders for the same contract included - never change the outcome. The
  quantity already being sold is not deducted, so a second full-size exit passes while the first
  is still working.
\<close>

theorem exit_ignores_other_working_orders:
  assumes action: "rq_action rq \<in> {EXIT, REDUCE}"
    and others: "\<forall>w \<in> set others. wo_client_order_id w \<noteq> rq_client_order_id rq"
  shows "validate_and_compile maxq submitted rq snapshot quality sf (working @ others) positions =
         validate_and_compile maxq submitted rq snapshot quality sf working positions"
proof -
  have "close_guard rq (working @ others) positions = close_guard rq working positions"
    using others by (auto simp: close_guard_def list_ex_iff)
  moreover have "entry_guard rq submitted ws positions = []" "add_guard rq ws positions = []" "replace_guard rq ws = []" for ws
    using action by (auto simp: entry_guard_def add_guard_def replace_guard_def)
  ultimately show ?thesis by (simp add: validate_and_compile_def)
qed

section \<open>Contract ids\<close>

lemma date_text_plain: "CHR '':'' \<notin> set (date_text z)"
  using pad_text_digits digits_avoid [of _ "CHR '':''"]
  by (auto simp: date_text_def is_digit_def split: prod.splits)

lemma contract_id_fields:
  assumes "CHR '':'' \<notin> set (oc_symbol c)" "short_decimal (oc_strike c)"
  shows "split_on (CHR '':'') (contract_id_for c) =
         [oc_symbol c, date_text (oc_expiration c), float_text (oc_strike c), option_type_text (oc_type c)]"
proof -
  have "CHR '':'' \<notin> set (float_text (oc_strike c))"
    using parse_number_float_text(2) [OF assms(2)] by (auto simp: number_char_def is_digit_def)
  moreover have "CHR '':'' \<notin> set (option_type_text (oc_type c))" by (cases "oc_type c") simp_all
  ultimately show ?thesis
    using assms(1) date_text_plain by (simp add: contract_id_for_def split_on_field split_on_last)
qed

text \<open>
  Claim C32. The contract id the execution runtime prints is read back to the very contract on its
  expiration day, and is refused with a validation error on every other trading day.
\<close>

theorem contract_id_round_trip:
  assumes "CHR '':'' \<notin> set (oc_symbol c)" "in_calendar (oc_expiration c)" "short_decimal (oc_strike c)" "oc_is_0dte c"
  shows "parse_contract_id (contract_id_for c) (Some day) =
         (if day = oc_expiration c then Inr c
          else cognitive_error (''contract expiry must equal the snapshot exchange trading date (expiry='' @
                 date_text (oc_expiration c) @ '', trading_date='' @ date_text day @ ''); only 0DTE contracts are supported''))"
proof -
  have "read_option_type (option_type_text (oc_type c)) = Some (oc_type c)"
    by (cases "oc_type c") (simp_all add: read_option_type_def)
  moreover have "\<lparr>oc_symbol = oc_symbol c, oc_expiration = oc_expiration c, oc_strike = oc_strike c, oc_type = oc_type c,
      oc_is_0dte = True\<rparr> = c"
    using assms(4) by simp
  ultimately show ?thesis
    using contract_id_fields [OF assms(1,3)] parse_date_text(1) [OF assms(2)] parse_number_float_text(1) [OF assms(3)]
    by (auto simp: parse_contract_id_def)
qed

section \<open>Witnesses\<close>

definition demo_quote_row :: contract_row where
  "demo_quote_row = fill_row [] (at_utc 0) demo_contract_id ''SPY'' 20000 600 SCall (at_utc 0)"

definition demo_truth_surface :: surface where
  "demo_truth_surface = \<lparr>sf_surface_id = ''sf1'', sf_exchange_time = at_utc 0, sf_trading_date = 20000,
     sf_underlying_symbol = ''SPY'', sf_underlying_price = None, sf_contracts = [demo_quote_row], sf_source = ''demo''\<rparr>"

definition demo_snapshot_id :: string where
  "demo_snapshot_id = ''00000000-0000-0000-0000-00000000000a''"

definition demo_market :: market_state where
  "demo_market = \<lparr>mk_snapshot_id = demo_snapshot_id, mk_exchange_time = at_utc 0, mk_trading_date = 20000,
     mk_underlying = demo_underlying, mk_bars_1m = [], mk_bars_5m = [], mk_feature_snapshot_id = None,
     mk_option_surface_id = Some ''sf1'', mk_data_quality_id = ''dq1'', mk_source_event_ids = []\<rparr>"

definition demo_report :: "bool \<Rightarrow> quality_report" where
  "demo_report ok = \<lparr>qr_report_id = ''dq1'', qr_snapshot_id = Some demo_snapshot_id, qr_severity = (if ok then SevOk else SevError),
     qr_findings = [], qr_usable_for_reasoning = True, qr_usable_for_execution = ok\<rparr>"

definition demo_request :: "order_action_kind \<Rightarrow> side \<Rightarrow> int \<Rightarrow> action_request" where
  "demo_request a sd q = \<lparr>rq_action = a, rq_snapshot_id = demo_snapshot_id, rq_contract_id = demo_contract_id, rq_side = sd,
     rq_quantity = q, rq_client_order_id = ''c9'', rq_limit_price = Some 2, rq_order_type = Limit,
     rq_max_quote_age_seconds = Some 60, rq_proposal_id = Some ''p9'', rq_decision_id = None, rq_strategy_id = None,
     rq_cycle_id = None, rq_replace_of = None, rq_allow_degraded_exit = True, rq_degraded_exit_reason = None,
     rq_evidence_ids = [], rq_broker_account_id = ''default''\<rparr>"

definition holding_three :: projection_state where
  "holding_three = \<lparr>pr_orders = [],
     pr_positions = [(demo_contract_id, \<lparr>ps_contract_id = demo_contract_id, ps_quantity = 3, ps_avg_price = Some 2,
       ps_realized_pnl = 0, ps_fees = 0, ps_open = True, ps_position_id = None\<rparr>)],
     pr_capital_usage = 600, pr_seen_event_ids = {}, pr_seen_keys = {}\<rparr>"

definition demo_deps :: "bool \<Rightarrow> projection_state option \<Rightarrow> paper_broker gateway_deps" where
  "demo_deps ok pr = \<lparr>gd_config = demo_cfg, gd_ops = paper_ops demo_env, gd_has_runtime = True,
     gd_snapshots = Some [demo_market], gd_surfaces = Some [demo_truth_surface], gd_quality_loader = None,
     gd_quality_repo = Some [(''dq1'', demo_report ok)], gd_quality_disk = None,
     gd_projection_loader = Some (run_ret pr), gd_has_provenance = True, gd_max_quantity = 20\<rparr>"

definition demo_gateway :: "paper_broker gateway_state" where
  "demo_gateway = \<lparr>gs_exec = demo_start 2, gs_submitted_proposals = {}, gs_provenance = []\<rparr>"

lemma demo_quote_row: "cr_contract_id demo_quote_row = demo_contract_id" "cr_quote_age_ms demo_quote_row = 0"
  by (simp_all add: demo_quote_row_def fill_row_def Let_def trunc_zero_def)

lemma demo_fields [simp]:
  "gd_has_runtime (demo_deps ok pr)" "gd_projection_loader (demo_deps ok pr) = Some (run_ret pr)"
  "gd_max_quantity (demo_deps ok pr) = 20" "gd_config (demo_deps ok pr) = demo_cfg" "gd_ops (demo_deps ok pr) = paper_ops demo_env"
  "gs_submitted_proposals demo_gateway = {}" "gs_exec demo_gateway = demo_start 2"
  by (simp_all add: demo_deps_def demo_gateway_def)

lemma demo_request_fields [simp]:
  "rq_snapshot_id (demo_request a sd q) = demo_snapshot_id" "rq_action (demo_request a sd q) = a"
  "rq_client_order_id (demo_request a sd q) = ''c9''" "rq_allow_degraded_exit (demo_request a sd q)"
  by (simp_all add: demo_request_def)

lemma demo_parsed: "parse_contract_id demo_contract_id (Some 20000) = Inr demo_contract"
  by code_simp

lemma demo_truth:
  "load_snapshot_truth (demo_deps ok pr) demo_snapshot_id = Inr (demo_market, demo_report ok, Some demo_truth_surface)"
proof -
  have "parse_uuid demo_snapshot_id = Some demo_snapshot_id" by code_simp
  then show ?thesis
    by (simp add: load_snapshot_truth_def demo_deps_def snapshot_by_id_def demo_market_def load_quality_def load_surface_def
        report_by_id_def surface_by_id_def demo_truth_surface_def)
qed

lemmas demo_validation = validate_and_compile_def demo_truth_surface_def demo_market_def demo_request_def demo_report_def
  surface_guard_def surface_row_def demo_quote_row sum_then_def demo_parsed contract_guard_def demo_contract_def
  validate_quote_age_def quality_guard_def quantity_guard_def entry_guard_def add_guard_def close_guard_def replace_guard_def
  has_working_entry_order_def opt_truthy_def cognitive_error_def

theorem opening_action_gate_witness:
  "\<exists>cmd. validate_and_compile 20 {} (demo_request PROBE Buy 2) demo_market (Some (demo_report True)) (Some demo_truth_surface) [] []
           = Inr cmd \<and>
         oi_side (ec_intent cmd) = Buy \<and> oi_quantity (ec_intent cmd) \<le> 20"
proof -
  let ?v = "validate_and_compile 20 {} (demo_request PROBE Buy 2) demo_market (Some (demo_report True)) (Some demo_truth_surface) [] []"
  have "\<exists>cmd. ?v = Inr cmd" by (simp add: demo_validation)
  then obtain cmd where v: "?v = Inr cmd" ..
  have "rq_action (demo_request PROBE Buy 2) \<in> {ENTRY, PROBE, ADD}" by (simp add: demo_request_def)
  from opening_action_gate [OF v this] v show ?thesis by blast
qed

definition stale_exit :: "int \<Rightarrow> action_request" where
  "stale_exit q = (demo_request EXIT Sell q)\<lparr>rq_max_quote_age_seconds := Some (- 1)\<rparr>"

lemma stale_exit_fields [simp]:
  "rq_snapshot_id (stale_exit q) = demo_snapshot_id" "rq_action (stale_exit q) = EXIT" "rq_allow_degraded_exit (stale_exit q)"
  by (simp_all add: stale_exit_def)

lemma stale_exit_refused:
  "validate_and_compile 20 {} (stale_exit q) demo_market quality (Some demo_truth_surface) ws ps =
   Inl (CognitiveValidationError ''quote age 0ms exceeds proposal limit -1s'')"
proof -
  have "int_text 0 = ''0''" "int_text (- 1) = ''-1''" by code_simp+
  then show ?thesis by (simp add: demo_validation stale_exit_def)
qed

lemma stale_exit_degraded:
  "compile_degraded_close (stale_exit 5) demo_market (open_positions_from_projection (Some holding_three)) =
   Inr (compile_command (stale_exit 5) ''c9'' demo_contract Sell 3)"
  by (simp add: Let_def compile_degraded_close_def stale_exit_def demo_request_def demo_market_def holding_three_def open_quantity_def
      open_positions_from_projection_def sum_then_def demo_parsed trunc_zero_def
      build_option_contract_def demo_contract_def)

theorem closing_never_exceeds_position_witness:
  "\<exists>res cmd s'. gateway_submit (demo_deps True (Some holding_three)) (stale_exit 5) demo_gateway = (Inr res, s') \<and>
     rs_degraded_exit res \<and> rs_command res = Some cmd \<and> oi_side (ec_intent cmd) = Sell \<and> 1 \<le> oi_quantity (ec_intent cmd)"
proof -
  let ?d = "demo_deps True (Some holding_three)" and ?cmd = "compile_command (stale_exit 5) ''c9'' demo_contract Sell 3"
  have "case submit_execution_command demo_cfg (paper_ops demo_env) ?cmd (demo_start 2) of (Inl _, _) \<Rightarrow> False | (Inr _, _) \<Rightarrow> True"
    by code_simp
  then obtain ord x where sub: "submit_execution_command demo_cfg (paper_ops demo_env) ?cmd (demo_start 2) = (Inr ord, x)"
    by (auto split: prod.splits sum.splits)
  have tok: "list_ex (\<lambda>tok. contains_text tok (py_lower ''quote age 0ms exceeds proposal limit -1s'')) degraded_tokens" by code_simp
  have "\<exists>res s'. gateway_submit ?d (stale_exit 5) demo_gateway = (Inr res, s') \<and> rs_submitted res \<and> rs_degraded_exit res"
    using sub tok stale_exit_degraded
    by (simp add: gateway_submit_def run_bind_def run_defs demo_truth load_projection_def act_on_truth_def Let_def
        stale_exit_refused allows_degraded_def submit_degraded_def on_exec_def record_provenance_def submitted_result_def)
  then obtain res s' where run: "gateway_submit ?d (stale_exit 5) demo_gateway = (Inr res, s')"
    "rs_submitted res" "rs_degraded_exit res"
    by blast
  have "rq_action (stale_exit 5) \<in> {EXIT, REDUCE}" by (simp add: stale_exit_def demo_request_def)
  from closing_never_exceeds_position [OF run(1,2) this] run show ?thesis by blast
qed

theorem blocked_changes_nothing_witness:
  "\<exists>res. gateway_submit (demo_deps False None) (demo_request ENTRY Buy 3) demo_gateway = (Inr res, demo_gateway) \<and>
     rs_blocked_reason res = Some ''data quality does not permit execution (severity=error)''"
proof -
  let ?d = "demo_deps False None"
  have "\<exists>res s'. gateway_submit ?d (demo_request ENTRY Buy 3) demo_gateway = (Inr res, s') \<and> \<not> rs_submitted res \<and>
      rs_blocked_reason res = Some ''data quality does not permit execution (severity=error)''"
    by (simp add: gateway_submit_def run_bind_def run_defs load_projection_def act_on_truth_def Let_def demo_truth
        on_exec_def allows_degraded_def blocked_def validate_and_compile_def quality_guard_def sum_then_def demo_report_def
        cognitive_error_def)
  then obtain res s' where run: "gateway_submit ?d (demo_request ENTRY Buy 3) demo_gateway = (Inr res, s')" "\<not> rs_submitted res"
    "rs_blocked_reason res = Some ''data quality does not permit execution (severity=error)''"
    by blast
  have "\<forall>m x. gd_projection_loader ?d = Some m \<longrightarrow> snd (m x) = x" by (simp add: demo_deps_def run_ret_def)
  from blocked_changes_nothing [OF run(1,2) this] run show ?thesis by simp
qed

definition selling_order :: working_order where
  "selling_order = \<lparr>wo_client_order_id = ''c8'', wo_contract_id = demo_contract_id, wo_side = Sell, wo_requested_quantity = 3,
     wo_filled_quantity = 0, wo_remaining_quantity = 3, wo_status = ''accepted'', wo_proposal_id = None\<rparr>"

theorem exit_ignores_other_working_orders_witness:
  "\<exists>cmd. validate_and_compile 20 {} (demo_request EXIT Sell 3) demo_market None (Some demo_truth_surface) [selling_order]
           (open_positions_from_projection (Some holding_three)) = Inr cmd"
proof -
  let ?ps = "open_positions_from_projection (Some holding_three)"
  have "\<exists>cmd. validate_and_compile 20 {} (demo_request EXIT Sell 3) demo_market None (Some demo_truth_surface) [] ?ps = Inr cmd"
    by (simp add: demo_validation open_quantity_def open_positions_from_projection_def holding_three_def
        Let_def trunc_zero_def)
  then show ?thesis
    using exit_ignores_other_working_orders [of "demo_request EXIT Sell 3" "[selling_order]" 20 "{}" demo_market None
        "Some demo_truth_surface" "[]" ?ps]
    by (simp add: demo_request_def selling_order_def)
qed

theorem contract_id_round_trip_witness:
  "parse_contract_id (contract_id_for demo_contract) (Some 20000) = Inr demo_contract"
proof -
  have "CHR '':'' \<notin> set (oc_symbol demo_contract)" "oc_is_0dte demo_contract" "oc_expiration demo_contract = 20000"
    by (simp_all add: demo_contract_def)
  moreover have "in_calendar 20000" by code_simp
  moreover have "short_decimal (oc_strike demo_contract)" by (simp add: demo_contract_def short_decimal_def)
  ultimately show ?thesis using contract_id_round_trip [of demo_contract 20000] by simp
qed

end
