(* ===== verification/Live_Bridge.thy ===== *)
theory Live_Bridge
  imports Execution_Props
begin

text \<open>
  The compatibility layer between the trading loop and the execution runtime
  (\<open>joker/runtime/compatibility.py\<close>): the health of the market truth layer (\<open>Task1RuntimeHealth\<close>), the
  bridge's calls into the execution runtime, and \<open>ExecutionDelegatingBroker\<close>, the \<open>BrokerClient\<close>
  that the loop sees, as an operations record over the bridge's state. A call into the market runtime is
  given by its outcome: the text of its exception, or whether a snapshot was persisted. Clock
  readings of the health record are left out. Starting and stopping the session supervisor is not modelled:
  \<open>bs_started\<close> says whether the runtimes exist.
\<close>

section \<open>Health\<close>

record health =
  he_consecutive_failures :: int
  he_degraded :: bool
  he_last_error :: "string option"
  he_failure_threshold :: int
  he_history :: "(string \<times> int) list"

definition new_health :: "int \<Rightarrow> health" where
  "new_health threshold =
     \<lparr>he_consecutive_failures = 0, he_degraded = False, he_last_error = None, he_failure_threshold = threshold,
      he_history = []\<rparr>"

definition allows_execution :: "health \<Rightarrow> bool" where
  "allows_execution h \<longleftrightarrow> \<not> he_degraded h"

definition record_success :: "health \<Rightarrow> health" where
  "record_success h = h\<lparr>he_consecutive_failures := 0, he_degraded := False, he_last_error := None\<rparr>"

definition record_failure :: "string \<Rightarrow> health \<Rightarrow> health" where
  "record_failure reason h =
     (let n = he_consecutive_failures h + 1
      in h\<lparr>he_consecutive_failures := n, he_last_error := Some reason, he_history := he_history h @ [(reason, n)],
           he_degraded := (if he_failure_threshold h \<le> n then True else he_degraded h)\<rparr>)"

section \<open>The bridge\<close>

record 'c bridge_state =
  bs_started :: bool
  bs_exec :: "'c exec_state"
  bs_health :: health
  bs_graph_errors :: "(string \<times> string) list"

definition degraded_code :: string where
  "degraded_code = ''task1_truth_degraded''"

text \<open>\<open>_sync_health_to_graph\<close>: the graph's errors as code and message.\<close>

definition sync_health_to_graph :: "('c bridge_state, unit) run" where
  "sync_health_to_graph =
     run_modify (\<lambda>s. s\<lparr>bs_graph_errors :=
        filter (\<lambda>e. fst e \<noteq> degraded_code) (bs_graph_errors s) @
        (if he_degraded (bs_health s)
         then [(degraded_code, case he_last_error (bs_health s) of
                                 None \<Rightarrow> ''Task 1 market runtime unhealthy''
                               | Some t \<Rightarrow> if t = [] then ''Task 1 market runtime unhealthy'' else t)]
         else [])\<rparr>)"

definition ingest_ok :: "('c bridge_state, unit) run" where
  "ingest_ok =
     run_bind (run_get (\<lambda>s. he_degraded (bs_health s))) (\<lambda>was_degraded.
     run_bind (run_modify (\<lambda>s. s\<lparr>bs_health := record_success (bs_health s)\<rparr>)) (\<lambda>_.
       if was_degraded then sync_health_to_graph else run_ret ()))"

definition ingest_fail :: "string \<Rightarrow> ('c bridge_state, unit) run" where
  "ingest_fail reason =
     run_bind (run_modify (\<lambda>s. s\<lparr>bs_health := record_failure reason (bs_health s)\<rparr>)) (\<lambda>_. sync_health_to_graph)"

text \<open>
  The outcome of a call into the market runtime: it raised, or it returned, with or without a persisted
  snapshot. Only \<open>tick\<close> looks at the snapshot; the ingest calls never restore health.
\<close>

datatype market_outcome = Raised string | Returned bool

definition require_started :: "('c bridge_state, unit) run" where
  "require_started = run_bind (run_get bs_started) (\<lambda>ok. if ok then run_ret () else run_raise RuntimeError)"

definition bridge_ingest :: "market_outcome \<Rightarrow> ('c bridge_state, unit) run" where
  "bridge_ingest r =
     run_bind require_started (\<lambda>_.
       case r of
         Raised reason \<Rightarrow> run_bind (ingest_fail reason) (\<lambda>_. run_raise (OtherError ''Exception'' reason))
       | Returned _ \<Rightarrow> run_ret ())"

definition bridge_tick :: "market_outcome \<Rightarrow> ('c bridge_state, unit) run" where
  "bridge_tick r =
     run_bind require_started (\<lambda>_.
       case r of
         Raised reason \<Rightarrow> run_bind (ingest_fail reason) (\<lambda>_. run_raise (OtherError ''Exception'' reason))
       | Returned persisted \<Rightarrow> if persisted then ingest_ok else run_ret ())"

definition on_execution :: "('c exec_state, 'a) run \<Rightarrow> ('c bridge_state, 'a) run" where
  "on_execution m s = (case m (bs_exec s) of (r, x) \<Rightarrow> (r, s\<lparr>bs_exec := x\<rparr>))"

definition blocked_order :: "string \<Rightarrow> order_intent \<Rightarrow> datetime \<Rightarrow> broker_order" where
  "blocked_order client i now =
     \<lparr>bo_order_id = ''blocked-'' @ client, bo_intent_id = client, bo_status = Rejected, bo_contract = oi_contract i,
      bo_side = oi_side i, bo_quantity = oi_quantity i, bo_limit_price = oi_limit_price i, bo_submitted_at = now\<rparr>"

definition bridge_submit ::
  "exec_config \<Rightarrow> 'c broker_ops \<Rightarrow> exec_command \<Rightarrow> ('c bridge_state, broker_order) run" where
  "bridge_submit cfg ops cmd =
     run_bind (run_get (\<lambda>s. allows_execution (bs_health s))) (\<lambda>allowed.
       if \<not> allowed
       then run_bind (on_execution tick) (\<lambda>n.
              run_ret (blocked_order (ec_client_order_id cmd) (ec_intent cmd) (xc_wall cfg n)))
       else run_bind require_started (\<lambda>_. on_execution (submit_execution_command cfg ops cmd)))"

definition bridge_cancel_client :: "exec_config \<Rightarrow> 'c broker_ops \<Rightarrow> string \<Rightarrow> ('c bridge_state, broker_order) run" where
  "bridge_cancel_client cfg ops client =
     run_bind require_started (\<lambda>_. on_execution (cancel_client_order cfg ops client))"

definition bridge_cancel_broker :: "exec_config \<Rightarrow> 'c broker_ops \<Rightarrow> string \<Rightarrow> ('c bridge_state, broker_order) run" where
  "bridge_cancel_broker cfg ops broker_id =
     run_bind require_started (\<lambda>_. on_execution (cancel_order_by_broker_id cfg ops broker_id))"

definition bridge_poll :: "exec_config \<Rightarrow> 'c broker_ops \<Rightarrow> string \<Rightarrow> ('c bridge_state, broker_order option) run" where
  "bridge_poll cfg ops client = run_bind require_started (\<lambda>_. on_execution (poll_order_status cfg ops client))"

definition bridge_project :: "exec_config \<Rightarrow> ('c bridge_state, projection_state) run" where
  "bridge_project cfg = run_bind require_started (\<lambda>_. on_execution (project_session cfg))"

section \<open>The delegating broker\<close>

definition on_inner :: "('c, 'a) run \<Rightarrow> ('c bridge_state, 'a) run" where
  "on_inner m = on_execution (with_broker m)"

definition delegate_submit ::
  "exec_config \<Rightarrow> 'c broker_ops \<Rightarrow> string \<Rightarrow> order_intent \<Rightarrow> ('c bridge_state, broker_order) run" where
  "delegate_submit cfg ops account i =
     run_bind (run_get (\<lambda>s. allows_execution (bs_health s))) (\<lambda>allowed.
       if \<not> allowed
       then run_bind (on_execution tick) (\<lambda>n. run_ret (blocked_order (oi_intent_id i) i (xc_wall cfg n)))
       else bridge_submit cfg ops \<lparr>ec_client_order_id = oi_intent_id i, ec_intent = i, ec_account = account\<rparr>)"

definition delegating_ops :: "exec_config \<Rightarrow> 'c broker_ops \<Rightarrow> string \<Rightarrow> 'c bridge_state broker_ops" where
  "delegating_ops cfg ops account =
     \<lparr>br_submit = delegate_submit cfg ops account, br_cancel = bridge_cancel_broker cfg ops,
      br_get = (\<lambda>k. on_inner (br_get ops k)), br_list_open = on_inner (br_list_open ops),
      br_list_positions = on_inner (br_list_positions ops), br_daily_pnl = on_inner (br_daily_pnl ops),
      br_fill_price = Some (\<lambda>k. case br_fill_price ops of None \<Rightarrow> run_ret None | Some f \<Rightarrow> on_inner (f k)),
      br_fills = None, br_find_by_intent = None, br_orders = None\<rparr>"

section \<open>Properties\<close>

text \<open>The outcomes of the market calls that count for health: failures, and ticks that persisted a snapshot.\<close>

fun health_after :: "health \<Rightarrow> market_outcome \<Rightarrow> health" where
  "health_after h (Raised reason) = record_failure reason h"
| "health_after h (Returned persisted) = (if persisted then record_success h else h)"

lemma tick_health: "bs_started s \<Longrightarrow> bs_health (snd (bridge_tick r s)) = health_after (bs_health s) r"
  by (cases r) (simp_all add: bridge_tick_def require_started_def run_bind_def run_defs ingest_fail_def ingest_ok_def
      sync_health_to_graph_def)

definition failures_since_success :: "market_outcome list \<Rightarrow> int" where
  "failures_since_success rs =
     int (length (filter (\<lambda>r. \<exists>t. r = Raised t) (takeWhile (\<lambda>r. r \<noteq> Returned True) (rev rs))))"

lemma outcome_cases:
  obtains t where "r = Raised t" | "r = Returned True" | "r = Returned False"
  by (cases r) auto

lemma failures_snoc:
  "failures_since_success [] = 0"
  "failures_since_success (rs @ [Raised t]) = failures_since_success rs + 1"
  "failures_since_success (rs @ [Returned True]) = 0"
  "failures_since_success (rs @ [Returned False]) = failures_since_success rs"
  by (simp_all add: failures_since_success_def)

text \<open>
  The health of the truth layer is what its contract says: after any sequence of market calls it
  counts the failures since the last persisted snapshot, and it is degraded exactly while that count has
  reached the threshold - a call that merely succeeds never restores it.
\<close>

theorem degraded_iff_failures:
  assumes "1 \<le> threshold"
  shows "he_consecutive_failures (foldl health_after (new_health threshold) rs) = failures_since_success rs \<and>
    (he_degraded (foldl health_after (new_health threshold) rs) \<longleftrightarrow> threshold \<le> failures_since_success rs)"
proof -
  have "he_failure_threshold (foldl health_after (new_health threshold) rs) = threshold \<and>
    he_consecutive_failures (foldl health_after (new_health threshold) rs) = failures_since_success rs \<and>
    (he_degraded (foldl health_after (new_health threshold) rs) \<longleftrightarrow> threshold \<le> failures_since_success rs)"
  proof (induction rs rule: rev_induct)
    case Nil
    then show ?case using assms by (simp add: new_health_def failures_snoc)
  next
    case (snoc r rs)
    then show ?case using assms
      by (cases r rule: outcome_cases) (auto simp: record_failure_def record_success_def Let_def failures_snoc)
  qed
  then show ?thesis by simp
qed

text \<open>
  While the truth layer is degraded no order leaves the process: a submission through the
  delegating broker - a closing sell included - returns a rejected order, and neither the broker nor the ledger nor the
  published events change; submissions resume with the next tick that persists a snapshot.
\<close>

theorem degraded_blocks_orders:
  assumes "he_degraded (bs_health s)" "bs_started s"
  shows "\<exists>ord. br_submit (delegating_ops cfg ops account) i s =
        (Inr ord, s\<lparr>bs_exec := (bs_exec s)\<lparr>xr_tick := Suc (xr_tick (bs_exec s))\<rparr>\<rparr>) \<and>
      bo_status ord = Rejected \<and> bo_intent_id ord = oi_intent_id i \<and>
    allows_execution (bs_health (snd (bridge_tick (Returned True) s))) \<and>
    \<not> allows_execution (bs_health (snd (bridge_tick (Returned False) s))) \<and>
    \<not> allows_execution (bs_health (snd (bridge_ingest (Returned b) s)))"
  using assms
  by (simp add: tick_health record_success_def allows_execution_def bridge_ingest_def require_started_def
      delegating_ops_def delegate_submit_def run_bind_def run_defs on_execution_def tick_def blocked_order_def)

text \<open>A healthy bridge hands the order to the execution runtime under the intent's id.\<close>

lemma healthy_delegates:
  assumes "\<not> he_degraded (bs_health s)" "bs_started s"
  shows "br_submit (delegating_ops cfg ops account) i s =
    on_execution (submit_execution_command cfg ops
      \<lparr>ec_client_order_id = oi_intent_id i, ec_intent = i, ec_account = account\<rparr>) s"
  using assms
  by (simp add: delegating_ops_def delegate_submit_def bridge_submit_def run_bind_def run_defs allows_execution_def
      require_started_def)

section \<open>Witnesses\<close>

theorem degraded_iff_failures_witness:
  "he_degraded (foldl health_after (new_health 2) [Raised ''a'', Returned False, Raised ''b'']) \<and>
   \<not> he_degraded (foldl health_after (new_health 2) [Raised ''a'', Returned True, Raised ''b''])"
proof -
  have "he_degraded (foldl health_after (new_health 2) rs) \<longleftrightarrow> 2 \<le> failures_since_success rs" for rs
    by (rule degraded_iff_failures [THEN conjunct2]) simp
  note counts = this [of "[Raised ''a'', Returned False, Raised ''b'']"] this [of "[Raised ''a'', Returned True, Raised ''b'']"]
  show ?thesis unfolding counts by (simp add: failures_since_success_def)
qed

definition demo_bridge :: "paper_broker bridge_state" where
  "demo_bridge = \<lparr>bs_started = True, bs_exec = demo_start 0, bs_health = record_failure ''feed down'' (new_health 1),
     bs_graph_errors = []\<rparr>"

theorem degraded_blocks_orders_witness:
  "\<exists>ord s'. br_submit (delegating_ops demo_cfg (paper_ops demo_env) ''acct'') (demo_intent ''b1'' Buy 3 2) demo_bridge = (Inr ord, s') \<and>
     bo_status ord = Rejected \<and> xr_broker (bs_exec s') = xr_broker (bs_exec demo_bridge)"
proof -
  have "he_degraded (bs_health demo_bridge)" "bs_started demo_bridge"
    by (simp_all add: demo_bridge_def record_failure_def new_health_def Let_def)
  note degraded_blocks_orders [OF this, of demo_cfg "paper_ops demo_env" "''acct''" "demo_intent ''b1'' Buy 3 2" True]
  then show ?thesis by (elim exE conjE) (intro exI conjI, assumption, assumption, simp)
qed

end
