(* ===== verification/Playbooks.thy ===== *)
theory Playbooks
  imports Domain
begin

text \<open>
  Playbooks and the rules on them: the features, setups, playbooks and patches of
  \<open>joker/schemas/domain.py\<close>, the matching of a setup against the features
  (\<open>joker/strategy/signal_rules.py\<close>), the cheap filter before the decision agent
  (\<open>joker/strategy/edge_prefilter.py\<close>), the trimming of a playbook
  (\<open>trim_playbook_enabled_setups\<close> of \<open>joker/strategy/playbook_quality.py\<close>) and the application of a
  patch (\<open>joker/strategy/playbook_patch.py\<close>). The label fields are texts, as in the code. The fields of the
  features that no modelled rule reads are left out.
\<close>

section \<open>Data\<close>

record features =
  ft_symbol :: string
  ft_vwap :: "pyfloat option"
  ft_momentum_5m :: "pyfloat option"
  ft_momentum_15m :: "pyfloat option"
  ft_distance_from_vwap_pct :: "pyfloat option"
  ft_trend_label :: string
  ft_extension_label :: string
  ft_is_stale :: bool
  ft_candle_count :: int
  ft_distance_from_or_high_pct :: "pyfloat option"
  ft_distance_from_or_low_pct :: "pyfloat option"
  ft_minutes_to_close :: "pyfloat option"

record playbook_setup =
  st_setup_id :: string
  st_name :: string
  st_direction :: direction
  st_enabled :: bool
  st_entry_conditions :: "string list"
  st_stop_rule :: string
  st_take_profit_rule :: string
  st_require_trend :: string
  st_vwap_side :: string
  st_min_vwap_distance_pct :: pyfloat
  st_min_momentum_pct :: pyfloat
  st_max_momentum_pct :: "pyfloat option"
  st_stop_pct :: pyfloat
  st_take_profit_pct :: pyfloat
  st_time_stop_minutes :: int

text \<open>The \<open>Literal\<close> and \<open>Field(ge=..., le=...)\<close> checks of \<open>PlaybookSetup\<close>.\<close>

definition build_setup :: "playbook_setup \<Rightarrow> py_error + playbook_setup" where
  "build_setup s =
     (if st_require_trend s \<in> {''trend_up'', ''trend_down'', ''chop'', ''any''} \<and>
         st_vwap_side s \<in> {''above'', ''below'', ''either''} \<and>
         5 / 100 \<le> st_stop_pct s \<and> st_stop_pct s \<le> 95 / 100 \<and>
         1 / 10 \<le> st_take_profit_pct s \<and> st_take_profit_pct s \<le> 5 \<and>
         1 \<le> st_time_stop_minutes s \<and> st_time_stop_minutes s \<le> 390
      then Inr s else Inl ValidationError)"

record playbook =
  pk_playbook_id :: string
  pk_trading_day :: int
  pk_title :: string
  pk_summary :: string
  pk_setups :: "playbook_setup list"
  pk_approved :: bool

record playbook_patch =
  pp_patch_id :: string
  pp_playbook_id :: string
  pp_author_agent :: string
  pp_reason :: string
  pp_disable_setup_ids :: "string list"
  pp_enable_setup_ids :: "string list"
  pp_expires_at :: "datetime option"

section \<open>Signals\<close>

text \<open>\<open>x if x is not None else 0.0\<close>\<close>

definition or_zero :: "pyfloat option \<Rightarrow> pyfloat" where
  "or_zero x = (case x of None \<Rightarrow> 0 | Some y \<Rightarrow> y)"

definition vwap_side_ok :: "playbook_setup \<Rightarrow> pyfloat \<Rightarrow> bool" where
  "vwap_side_ok s away \<longleftrightarrow>
     \<not> (st_vwap_side s = ''above'' \<and> away < st_min_vwap_distance_pct s) \<and>
     \<not> (st_vwap_side s = ''below'' \<and> - \<bar>st_min_vwap_distance_pct s\<bar> < away) \<and>
     \<not> (st_vwap_side s = ''either'' \<and> 0 < st_min_vwap_distance_pct s \<and> \<bar>away\<bar> < st_min_vwap_distance_pct s)"

definition put_threshold :: "playbook_setup \<Rightarrow> pyfloat" where
  "put_threshold s =
     (let t = st_min_momentum_pct s in if 0 \<le> t then if 0 < t then - \<bar>t\<bar> else - (1 / 10) else t)"

definition momentum_ok :: "playbook_setup \<Rightarrow> pyfloat \<Rightarrow> bool" where
  "momentum_ok s mom \<longleftrightarrow>
     (case st_direction s of
        Long_Call \<Rightarrow>
          st_min_momentum_pct s \<le> mom \<and> (case st_max_momentum_pct s of None \<Rightarrow> True | Some m \<Rightarrow> mom \<le> m)
      | Long_Put \<Rightarrow>
          mom \<le> put_threshold s \<and> (case st_max_momentum_pct s of None \<Rightarrow> True | Some m \<Rightarrow> m \<le> mom))"

text \<open>\<open>features.trend_label or "unknown"\<close>\<close>

definition trend_of :: "features \<Rightarrow> string" where
  "trend_of f = (if ft_trend_label f = [] then ''unknown'' else ft_trend_label f)"

definition setup_matches_features :: "playbook_setup \<Rightarrow> features \<Rightarrow> bool" where
  "setup_matches_features s f \<longleftrightarrow>
     st_enabled s \<and> (st_require_trend s = ''any'' \<or> trend_of f = st_require_trend s) \<and>
     vwap_side_ok s (or_zero (ft_distance_from_vwap_pct f)) \<and> momentum_ok s (or_zero (ft_momentum_5m f))"

definition detect_setup_from_playbook :: "playbook \<Rightarrow> features \<Rightarrow> string set \<Rightarrow> playbook_setup option" where
  "detect_setup_from_playbook pb f signaled =
     find (\<lambda>s. st_setup_id s \<notin> signaled \<and> setup_matches_features s f) (pk_setups pb)"

section \<open>The prefilter\<close>

record prefilter_result =
  pf_candidate :: bool
  pf_direction :: "direction option"
  pf_reason :: string

definition no_edge :: "string \<Rightarrow> prefilter_result" where
  "no_edge reason = \<lparr>pf_candidate = False, pf_direction = None, pf_reason = reason\<rparr>"

definition edge :: "direction \<Rightarrow> string \<Rightarrow> prefilter_result" where
  "edge d reason = \<lparr>pf_candidate = True, pf_direction = Some d, pf_reason = reason\<rparr>"

definition momentum_of :: "features \<Rightarrow> pyfloat option" where
  "momentum_of f = (case ft_momentum_5m f of None \<Rightarrow> ft_momentum_15m f | Some m \<Rightarrow> Some m)"

definition missing_edge :: "features \<Rightarrow> prefilter_result" where
  "missing_edge f =
     (if ft_candle_count f < 6 then no_edge ''warming_up_features''
      else if momentum_of f = None \<and> ft_distance_from_vwap_pct f = None then no_edge ''missing_momentum_and_vwap''
      else if momentum_of f = None then no_edge ''missing_momentum''
      else no_edge ''missing_vwap'')"

definition up_edge :: "features \<Rightarrow> pyfloat \<Rightarrow> pyfloat \<Rightarrow> pyfloat \<Rightarrow> pyfloat \<Rightarrow> bool" where
  "up_edge f min_mom min_dist mom away \<longleftrightarrow>
     min_mom \<le> mom \<and>
     (min_dist \<le> away \<or> (case ft_distance_from_or_high_pct f of None \<Rightarrow> False | Some h \<Rightarrow> 0 \<le> h \<and> 0 < mom) \<or>
      ft_extension_label f \<in> {''near_vwap'', ''extended_up''} \<and> ft_trend_label f = ''trend_up'')"

definition down_edge :: "features \<Rightarrow> pyfloat \<Rightarrow> pyfloat \<Rightarrow> pyfloat \<Rightarrow> pyfloat \<Rightarrow> bool" where
  "down_edge f min_mom min_dist mom away \<longleftrightarrow>
     mom \<le> - min_mom \<and>
     (away \<le> - min_dist \<or> (case ft_distance_from_or_low_pct f of None \<Rightarrow> False | Some l \<Rightarrow> l \<le> 0 \<and> mom < 0) \<or>
      ft_extension_label f \<in> {''near_vwap'', ''extended_down''} \<and> ft_trend_label f = ''trend_down'')"

definition edge_prefilter :: "features \<Rightarrow> bool \<Rightarrow> pyfloat \<Rightarrow> pyfloat \<Rightarrow> prefilter_result" where
  "edge_prefilter f goal_met min_mom min_dist =
     (if goal_met then no_edge ''goal_met''
      else if ft_is_stale f then no_edge ''stale_features''
      else if (case ft_minutes_to_close f of None \<Rightarrow> False | Some m \<Rightarrow> m < 10) then no_edge ''too_close_to_eod''
      else case (momentum_of f, ft_distance_from_vwap_pct f) of
             (Some mom, Some away) \<Rightarrow>
               if up_edge f min_mom min_dist mom away then edge Long_Call ''momentum_up_vwap_or_or''
               else if down_edge f min_mom min_dist mom away then edge Long_Put ''momentum_down_vwap_or_or''
               else if min_mom * (3 / 2) \<le> \<bar>mom\<bar> \<and> min_dist * 2 \<le> \<bar>away\<bar>
                    then edge (if 0 < mom then Long_Call else Long_Put) ''strong_extension''
               else no_edge ''no_edge''
           | _ \<Rightarrow> missing_edge f)"

section \<open>Trimming\<close>

definition max_enabled_playbook_setups :: "risk_config option \<Rightarrow> int" where
  "max_enabled_playbook_setups cfg = (case cfg of None \<Rightarrow> 2 | Some c \<Rightarrow> max 2 (rc_max_trades_per_day c))"

text \<open>The enabled setups beyond the first \<open>n\<close> are disabled.\<close>

fun disable_beyond :: "nat \<Rightarrow> playbook_setup list \<Rightarrow> playbook_setup list" where
  "disable_beyond n [] = []"
| "disable_beyond n (s # ss) =
     (if \<not> st_enabled s then s # disable_beyond n ss
      else case n of 0 \<Rightarrow> s\<lparr>st_enabled := False\<rparr> # disable_beyond 0 ss | Suc k \<Rightarrow> s # disable_beyond k ss)"

definition trim_playbook_enabled_setups :: "playbook \<Rightarrow> risk_config option \<Rightarrow> playbook" where
  "trim_playbook_enabled_setups pb cfg =
     (let limit = max_enabled_playbook_setups cfg
      in if int (length (filter st_enabled (pk_setups pb))) \<le> limit then pb
         else pb\<lparr>pk_setups := disable_beyond (nat limit) (pk_setups pb)\<rparr>)"

section \<open>Patches\<close>

definition patch_error :: "string \<Rightarrow> py_error + 'a" where
  "patch_error msg = Inl (OtherError ''PatchError'' msg)"

text \<open>
  The code looks for the keys in the JSON text of the patch. They consist of letters and
  underscores, which JSON does not escape, and no field name holds one, so the text has a key exactly
  when one of the field texts has it.
\<close>

definition patch_texts :: "playbook_patch \<Rightarrow> string list" where
  "patch_texts p =
     [pp_patch_id p, pp_playbook_id p, pp_author_agent p, pp_reason p] @ pp_disable_setup_ids p @ pp_enable_setup_ids p"

definition forbidden_keys :: "string list" where
  "forbidden_keys = [''max_loss'', ''max_trades'', ''kill_switch'', ''live_trading'', ''max_daily_loss'', ''max_premium'']"

definition patch_loosens_risk :: "playbook_patch \<Rightarrow> bool" where
  "patch_loosens_risk p \<longleftrightarrow> list_ex (\<lambda>k. list_ex (\<lambda>t. contains_text k (py_lower t)) (patch_texts p)) forbidden_keys"

definition forbidden_phrases :: "string list" where
  "forbidden_phrases = [''disable kill'', ''kill switch off'', ''bypass risk'', ''approve trade'']"

definition validate_patch_safe :: "playbook_patch \<Rightarrow> py_error + unit" where
  "validate_patch_safe p =
     (if patch_loosens_risk p then patch_error ''Patch cannot modify hard risk limits or kill switch''
      else if list_ex (\<lambda>t. contains_text t (py_lower (pp_reason p))) forbidden_phrases
           then patch_error ''Patch reason indicates forbidden risk modification''
      else Inr ())"

definition patch_setup :: "playbook_patch \<Rightarrow> playbook_setup \<Rightarrow> playbook_setup" where
  "patch_setup p s =
     (let s1 = (if st_setup_id s \<in> set (pp_disable_setup_ids p) then s\<lparr>st_enabled := False\<rparr> else s)
      in if st_setup_id s \<in> set (pp_enable_setup_ids p) then s1\<lparr>st_enabled := True\<rparr> else s1)"

text \<open>\<open>expires_at.replace(tzinfo=utc) < now\<close>: the offset of the expiry is dropped, its wall clock read as UTC.\<close>

definition patch_expired :: "playbook_patch \<Rightarrow> datetime \<Rightarrow> bool" where
  "patch_expired p now = (case pp_expires_at p of None \<Rightarrow> False | Some t \<Rightarrow> dt_wall t < instant now)"

definition apply_patch :: "playbook \<Rightarrow> playbook_patch \<Rightarrow> datetime \<Rightarrow> py_error + playbook" where
  "apply_patch pb p now =
     (case validate_patch_safe p of
        Inl e \<Rightarrow> Inl e
      | Inr _ \<Rightarrow>
          if pp_playbook_id p \<noteq> pk_playbook_id pb then patch_error ''Patch playbook_id mismatch''
          else if patch_expired p now then patch_error ''Patch expired''
          else Inr (pb\<lparr>pk_setups := map (patch_setup p) (pk_setups pb)\<rparr>))"

section \<open>Properties\<close>

definition same_rules :: "playbook_setup \<Rightarrow> playbook_setup \<Rightarrow> bool" where
  "same_rules s s' \<longleftrightarrow> s\<lparr>st_enabled := True\<rparr> = s'\<lparr>st_enabled := True\<rparr>"

lemma same_rules_refl [simp]: "same_rules s s" "same_rules s (s\<lparr>st_enabled := b\<rparr>)"
  by (simp_all add: same_rules_def)

lemma disable_beyond_enabled: "filter st_enabled (disable_beyond n ss) = take n (filter st_enabled ss)"
  by (induction n ss rule: disable_beyond.induct) (auto split: nat.splits)

lemma disable_beyond_rules: "list_all2 same_rules ss (disable_beyond n ss)"
  by (induction n ss rule: disable_beyond.induct) (auto split: nat.splits)

lemma list_all2_map_same: "(\<And>s. R s (f s)) \<Longrightarrow> list_all2 R ss (map f ss)"
  by (simp add: list_all2_map2 list_all2_refl list.rel_refl)

text \<open>
  Trimming a playbook keeps exactly the first enabled setups up to the limit - the larger of
  two and the trades allowed per day - enabled, in their order, and changes nothing else: every setup stays
  at its place with all of its rules, and the playbook's other fields are as before.
\<close>

theorem trim_keeps_first_enabled:
  "filter st_enabled (pk_setups (trim_playbook_enabled_setups pb cfg)) =
     take (nat (max_enabled_playbook_setups cfg)) (filter st_enabled (pk_setups pb)) \<and>
   list_all2 same_rules (pk_setups pb) (pk_setups (trim_playbook_enabled_setups pb cfg)) \<and>
   (trim_playbook_enabled_setups pb cfg)\<lparr>pk_setups := []\<rparr> = pb\<lparr>pk_setups := []\<rparr>"
proof (cases "int (length (filter st_enabled (pk_setups pb))) \<le> max_enabled_playbook_setups cfg")
  case True
  then have "length (filter st_enabled (pk_setups pb)) \<le> nat (max_enabled_playbook_setups cfg)" by linarith
  with True show ?thesis by (simp add: trim_playbook_enabled_setups_def list.rel_refl)
qed (simp add: trim_playbook_enabled_setups_def disable_beyond_enabled disable_beyond_rules)

text \<open>
  The rules never see a call and a put signal in the same features, as long as the call setup
  asks for a momentum of at least zero: a put setup fires on falling momentum only, whatever threshold it
  states.
\<close>

theorem call_and_put_never_both_match:
  assumes "st_direction c = Long_Call" "0 \<le> st_min_momentum_pct c" "st_direction p = Long_Put"
    and "setup_matches_features c f"
  shows "\<not> setup_matches_features p f"
proof -
  have "put_threshold p < 0" by (simp add: put_threshold_def Let_def)
  then show ?thesis using assms by (auto simp: setup_matches_features_def momentum_ok_def)
qed

text \<open>
  An applied patch only switches setups on and off: it is addressed to this playbook, its
  texts name no risk limit, every setup keeps its rules, and a setup is enabled afterwards exactly if
  the patch enables it, or it was enabled and the patch does not disable it.
\<close>

theorem patch_only_toggles_setups:
  assumes "apply_patch pb p now = Inr pb'"
  shows "pp_playbook_id p = pk_playbook_id pb \<and> \<not> patch_loosens_risk p \<and>
    list_all2 same_rules (pk_setups pb) (pk_setups pb') \<and>
    map st_enabled (pk_setups pb') =
      map (\<lambda>s. st_setup_id s \<in> set (pp_enable_setup_ids p) \<or>
               st_enabled s \<and> st_setup_id s \<notin> set (pp_disable_setup_ids p)) (pk_setups pb) \<and>
    pb'\<lparr>pk_setups := []\<rparr> = pb\<lparr>pk_setups := []\<rparr>"
proof -
  have safe: "validate_patch_safe p = Inr ()" and id: "pp_playbook_id p = pk_playbook_id pb"
    and pb': "pb' = pb\<lparr>pk_setups := map (patch_setup p) (pk_setups pb)\<rparr>"
    using assms by (auto simp: apply_patch_def patch_error_def split: sum.splits if_splits)
  have "same_rules s (patch_setup p s)" for s by (simp add: patch_setup_def Let_def same_rules_def)
  moreover have "st_enabled (patch_setup p s) =
      (st_setup_id s \<in> set (pp_enable_setup_ids p) \<or> st_enabled s \<and> st_setup_id s \<notin> set (pp_disable_setup_ids p))" for s
    by (simp add: patch_setup_def Let_def)
  ultimately show ?thesis
    using safe id by (auto simp: pb' list_all2_map_same validate_patch_safe_def patch_error_def split: if_splits)
qed

text \<open>
  A prefilter that asks for positive momentum never points against the momentum of the features.
\<close>

lemma prefilter_follows_momentum:
  assumes "0 < min_mom" "pf_direction (edge_prefilter f goal_met min_mom min_away) = Some d"
  shows "\<exists>m. momentum_of f = Some m \<and> (if d = Long_Call then 0 < m else m < 0) \<and> min_mom \<le> \<bar>m\<bar>"
  using assms
  by (auto simp: edge_prefilter_def no_edge_def edge_def missing_edge_def up_edge_def down_edge_def split: option.splits if_splits)

section \<open>Witnesses\<close>

definition demo_setup :: "string \<Rightarrow> direction \<Rightarrow> playbook_setup" where
  "demo_setup i d = \<lparr>st_setup_id = i, st_name = i, st_direction = d, st_enabled = True, st_entry_conditions = [''VWAP''],
     st_stop_rule = ''50%'', st_take_profit_rule = ''100%'', st_require_trend = ''any'', st_vwap_side = ''either'',
     st_min_vwap_distance_pct = 0, st_min_momentum_pct = 0, st_max_momentum_pct = None, st_stop_pct = 1 / 2,
     st_take_profit_pct = 1, st_time_stop_minutes = 30\<rparr>"

definition demo_playbook :: playbook where
  "demo_playbook = \<lparr>pk_playbook_id = ''pb'', pk_trading_day = 20000, pk_title = ''SPY'', pk_summary = ''demo'',
     pk_setups = [demo_setup ''call'' Long_Call, demo_setup ''put'' Long_Put], pk_approved = True\<rparr>"

definition demo_features :: features where
  "demo_features = \<lparr>ft_symbol = ''SPY'', ft_vwap = Some 500, ft_momentum_5m = Some (1 / 5), ft_momentum_15m = None,
     ft_distance_from_vwap_pct = Some (1 / 10), ft_trend_label = ''trend_up'', ft_extension_label = ''near_vwap'',
     ft_is_stale = False, ft_candle_count = 10, ft_distance_from_or_high_pct = None, ft_distance_from_or_low_pct = None,
     ft_minutes_to_close = Some 100\<rparr>"

definition demo_patch :: playbook_patch where
  "demo_patch = \<lparr>pp_patch_id = ''p1'', pp_playbook_id = ''pb'', pp_author_agent = ''a'', pp_reason = ''chop'',
     pp_disable_setup_ids = [''call''], pp_enable_setup_ids = [], pp_expires_at = None\<rparr>"

theorem call_and_put_never_both_match_witness:
  "\<not> setup_matches_features (demo_setup ''put'' Long_Put) demo_features"
proof -
  have "setup_matches_features (demo_setup ''call'' Long_Call) demo_features" by code_simp
  then show ?thesis
    by (intro call_and_put_never_both_match [of "demo_setup ''call'' Long_Call"]) (simp_all add: demo_setup_def)
qed

lemma demo_patch_fields:
  "st_setup_id (demo_setup i d) = i" "st_enabled (demo_setup i d)" "pp_enable_setup_ids demo_patch = []"
  "pp_disable_setup_ids demo_patch = [''call'']" "pp_expires_at demo_patch = None"
  "pk_playbook_id demo_playbook = pp_playbook_id demo_patch" "py_lower (pp_reason demo_patch) = ''chop''"
  "pk_setups demo_playbook = [demo_setup ''call'' Long_Call, demo_setup ''put'' Long_Put]"
  "map py_lower (patch_texts demo_patch) = [''p1'', ''pb'', ''a'', ''chop'', ''call'']"
  by (simp_all add: demo_setup_def demo_patch_def demo_playbook_def patch_texts_def py_lower_def char_lower_def)

theorem patch_only_toggles_setups_witness:
  "\<exists>pb'. apply_patch demo_playbook demo_patch (at_utc 0) = Inr pb' \<and> map st_enabled (pk_setups pb') = [False, True]"
proof -
  have "\<not> list_ex (\<lambda>k. list_ex (contains_text k) (map py_lower (patch_texts demo_patch))) forbidden_keys"
    unfolding demo_patch_fields by (simp add: forbidden_keys_def)
  then have "\<not> patch_loosens_risk demo_patch" by (simp add: patch_loosens_risk_def list_ex_iff)
  then have "validate_patch_safe demo_patch = Inr ()"
    by (simp add: validate_patch_safe_def demo_patch_fields forbidden_phrases_def)
  then have "\<exists>pb'. apply_patch demo_playbook demo_patch (at_utc 0) = Inr pb'"
    by (simp add: apply_patch_def patch_expired_def demo_patch_fields)
  then obtain pb' where pb': "apply_patch demo_playbook demo_patch (at_utc 0) = Inr pb'" ..
  note patch_only_toggles_setups [OF pb', THEN conjunct2, THEN conjunct2, THEN conjunct2, THEN conjunct1]
  also have "map (\<lambda>s. st_setup_id s \<in> set (pp_enable_setup_ids demo_patch) \<or>
      st_enabled s \<and> st_setup_id s \<notin> set (pp_disable_setup_ids demo_patch)) (pk_setups demo_playbook) = [False, True]"
    by (simp add: demo_patch_fields)
  finally show ?thesis using pb' by (intro exI conjI)
qed

end
