(* ===== verification/Exit_Manager.thy ===== *)
theory Exit_Manager
  imports Playbooks
begin

text \<open>
  The exit manager of \<open>joker/execution/exit_manager.py\<close>: the state of an open trade, the trailing
  stop, the effective stop and the exit decision. Its time zone is the offset from UTC at a moment, as a
  function; the manager's \<open>tz\<close> is one zone object, so Python compares and subtracts two of its values
  by their wall clocks.
\<close>

section \<open>State\<close>

record open_trade =
  ot_position_id :: string
  ot_entry_price :: pyfloat
  ot_stop_price :: pyfloat
  ot_take_profit_price :: pyfloat
  ot_entry_time :: datetime
  ot_time_stop_minutes :: "int option"
  ot_invalidated :: bool
  ot_quantity :: int
  ot_reserved_notional_usd :: pyfloat
  ot_peak_premium :: "pyfloat option"
  ot_trail_active :: bool
  ot_trail_stop_price :: "pyfloat option"

type_synonym zone = "int \<Rightarrow> int"

record exit_manager =
  em_eod_time :: int
  em_tz :: zone
  em_trail_activate_mfe_pct :: pyfloat
  em_trail_giveback_pct :: pyfloat
  em_late_day_tighten_minutes :: pyfloat
  em_late_day_stop_floor_pct :: pyfloat

text \<open>
  The zone a manager takes: the one given, else the clock's \<open>tz\<close>, its \<open>timezone\<close> or the zone of its
  \<open>now()\<close>, else New York.
\<close>

record clock_zones =
  cz_tz :: "zone option"
  cz_timezone :: "zone option"
  cz_now :: "zone option"

definition resolve_zone :: "zone \<Rightarrow> zone option \<Rightarrow> clock_zones option \<Rightarrow> zone" where
  "resolve_zone ny given clock =
     (case given of
        Some z \<Rightarrow> z
      | None \<Rightarrow>
          (case clock of
             None \<Rightarrow> ny
           | Some c \<Rightarrow>
               (case (cz_tz c, cz_timezone c, cz_now c) of
                  (Some z, _, _) \<Rightarrow> z
                | (None, Some z, _) \<Rightarrow> z
                | (None, None, Some z) \<Rightarrow> z
                | (None, None, None) \<Rightarrow> ny)))"

definition new_exit_manager :: "zone \<Rightarrow> zone option \<Rightarrow> clock_zones option \<Rightarrow> exit_manager" where
  "new_exit_manager ny given clock =
     \<lparr>em_eod_time = (15 * 60 + 55) * 60 * usec, em_tz = resolve_zone ny given clock, em_trail_activate_mfe_pct = 35 / 100,
      em_trail_giveback_pct = 20 / 100, em_late_day_tighten_minutes = 45, em_late_day_stop_floor_pct = 35 / 100\<rparr>"

text \<open>\<open>_as_tz(value)\<close>, as the wall clock it has in the manager's zone.\<close>

definition local_wall :: "exit_manager \<Rightarrow> datetime \<Rightarrow> int" where
  "local_wall m t = instant t + em_tz m (instant t)"

definition time_of_day :: "int \<Rightarrow> int" where
  "time_of_day w = w mod (86400 * usec)"

definition minute_of_day :: "int \<Rightarrow> int" where
  "minute_of_day w = time_of_day w div (60 * usec)"

section \<open>The trailing stop\<close>

definition new_peak :: "open_trade \<Rightarrow> pyfloat \<Rightarrow> pyfloat" where
  "new_peak t premium = max (case ot_peak_premium t of None \<Rightarrow> ot_entry_price t | Some p \<Rightarrow> p) premium"

definition trail_reached :: "exit_manager \<Rightarrow> open_trade \<Rightarrow> pyfloat \<Rightarrow> bool" where
  "trail_reached m t peak \<longleftrightarrow>
     0 < ot_entry_price t \<and> em_trail_activate_mfe_pct m \<le> (peak - ot_entry_price t) / ot_entry_price t"

definition raise_stop :: "pyfloat option \<Rightarrow> pyfloat \<Rightarrow> pyfloat option" where
  "raise_stop old new_floor =
     (case old of None \<Rightarrow> Some new_floor | Some x \<Rightarrow> if x < new_floor then Some new_floor else Some x)"

definition update_trailing :: "exit_manager \<Rightarrow> open_trade \<Rightarrow> pyfloat \<Rightarrow> open_trade" where
  "update_trailing m t premium =
     (let peak = new_peak t premium;
          reached = trail_reached m t peak;
          floor_price = max (ot_stop_price t) (peak * (1 - em_trail_giveback_pct m))
      in t\<lparr>ot_peak_premium := Some peak,
           ot_trail_active := (if reached then True else ot_trail_active t),
           ot_trail_stop_price := (if reached then raise_stop (ot_trail_stop_price t) floor_price else ot_trail_stop_price t)\<rparr>)"

section \<open>Exit decisions\<close>

definition trailing_stop :: "open_trade \<Rightarrow> pyfloat" where
  "trailing_stop t =
     (case (ot_trail_active t, ot_trail_stop_price t) of
        (True, Some x) \<Rightarrow> max (ot_stop_price t) x | _ \<Rightarrow> ot_stop_price t)"

definition effective_stop :: "exit_manager \<Rightarrow> open_trade \<Rightarrow> datetime \<Rightarrow> pyfloat" where
  "effective_stop m t now =
     (let stop = trailing_stop t;
          minutes_to_close = (of_int (16 * 60 - minute_of_day (local_wall m now)) :: pyfloat)
      in if 0 \<le> minutes_to_close \<and> minutes_to_close \<le> em_late_day_tighten_minutes m \<and> 0 < ot_entry_price t
         then max stop (ot_entry_price t * (1 - em_late_day_stop_floor_pct m))
         else stop)"

datatype exit_reason = STOP_LOSS | TAKE_PROFIT | TIME_STOP | INVALIDATION | END_OF_DAY

fun exit_reason_value :: "exit_reason \<Rightarrow> string" where
  "exit_reason_value STOP_LOSS = ''stop_loss''"
| "exit_reason_value TAKE_PROFIT = ''take_profit''"
| "exit_reason_value TIME_STOP = ''time_stop''"
| "exit_reason_value INVALIDATION = ''invalidation''"
| "exit_reason_value END_OF_DAY = ''end_of_day''"

record exit_decision =
  ed_position_id :: string
  ed_reason :: exit_reason
  ed_exit_price :: pyfloat
  ed_message :: string

definition exit_for :: "open_trade \<Rightarrow> exit_reason \<Rightarrow> pyfloat \<Rightarrow> string \<Rightarrow> exit_decision option" where
  "exit_for t reason premium msg =
     Some \<lparr>ed_position_id = ot_position_id t, ed_reason = reason, ed_exit_price = premium, ed_message = msg\<rparr>"

definition stop_message :: "open_trade \<Rightarrow> pyfloat \<Rightarrow> string" where
  "stop_message t stop =
     (case (ot_trail_active t, ot_trail_stop_price t) of
        (True, Some x) \<Rightarrow> (if x - 1 / 10 ^ 9 \<le> stop then ''Trailing stop at '' else ''Premium stop at '') @ float_text stop
      | _ \<Rightarrow> ''Premium stop at '' @ float_text stop)"

definition elapsed_minutes :: "exit_manager \<Rightarrow> open_trade \<Rightarrow> datetime \<Rightarrow> pyfloat" where
  "elapsed_minutes m t now = of_int (local_wall m now - local_wall m (ot_entry_time t)) / 1000000 / 60"

definition time_stop_reached :: "exit_manager \<Rightarrow> open_trade \<Rightarrow> datetime \<Rightarrow> bool" where
  "time_stop_reached m t now =
     (case ot_time_stop_minutes t of None \<Rightarrow> False | Some k \<Rightarrow> of_int k \<le> elapsed_minutes m t now)"

definition check_exit :: "exit_manager \<Rightarrow> open_trade \<Rightarrow> pyfloat \<Rightarrow> datetime \<Rightarrow> exit_decision option" where
  "check_exit m t premium now =
     (if ot_invalidated t then exit_for t INVALIDATION premium ''Setup invalidation triggered''
      else let stop = effective_stop m t now
      in if premium \<le> stop then exit_for t STOP_LOSS premium (stop_message t stop)
      else if ot_take_profit_price t \<le> premium
           then exit_for t TAKE_PROFIT premium (''Take profit at '' @ float_text (ot_take_profit_price t))
      else if time_stop_reached m t now
           then exit_for t TIME_STOP premium
                  (''Time stop after '' @ int_text (the (ot_time_stop_minutes t)) @ '' minutes'')
      else if em_eod_time m \<le> time_of_day (local_wall m now)
           then exit_for t END_OF_DAY premium ''End-of-day forced exit (America/New_York)''
      else None)"

definition stop_from_entry :: "pyfloat \<Rightarrow> pyfloat \<Rightarrow> pyfloat" where
  "stop_from_entry entry pct = max (1 / 100) (entry * (1 - pct))"

definition target_from_entry :: "pyfloat \<Rightarrow> pyfloat \<Rightarrow> pyfloat" where
  "target_from_entry entry pct = entry * (1 + pct)"

section \<open>The stop only rises\<close>

lemma update_trailing_fields [simp]:
  "ot_entry_price (update_trailing m t p) = ot_entry_price t" "ot_stop_price (update_trailing m t p) = ot_stop_price t"
  "ot_peak_premium (update_trailing m t p) = Some (new_peak t p)"
  "ot_position_id (update_trailing m t p) = ot_position_id t" "ot_quantity (update_trailing m t p) = ot_quantity t"
  "ot_reserved_notional_usd (update_trailing m t p) = ot_reserved_notional_usd t"
  "ot_take_profit_price (update_trailing m t p) = ot_take_profit_price t" "ot_invalidated (update_trailing m t p) = ot_invalidated t"
  "ot_entry_time (update_trailing m t p) = ot_entry_time t" "ot_time_stop_minutes (update_trailing m t p) = ot_time_stop_minutes t"
  by (simp_all add: update_trailing_def Let_def)

lemma trailing_stop_rises: "trailing_stop t \<le> trailing_stop (update_trailing m t p)"
  by (auto simp: trailing_stop_def update_trailing_def raise_stop_def Let_def split: bool.splits option.splits)

lemma effective_stop_rises: "effective_stop m t now \<le> effective_stop m (update_trailing m t p) now"
  using trailing_stop_rises [of t m p] by (auto simp: effective_stop_def Let_def)

lemma trailing_stop_floor: "ot_stop_price t \<le> trailing_stop t"
  by (auto simp: trailing_stop_def split: bool.splits option.splits)

text \<open>
  No premium ever lowers the stop of an open trade: after any series of quotes the effective
  stop at a moment is at least what it was before them, and never below the stop the trade was opened
  with.
\<close>

theorem stop_never_loosens:
  "effective_stop m t now \<le> effective_stop m (foldl (update_trailing m) t premiums) now \<and>
   ot_stop_price t \<le> effective_stop m t now"
proof -
  have "effective_stop m t now \<le> effective_stop m (foldl (update_trailing m) t premiums) now"
    by (induction premiums arbitrary: t) (auto intro: order_trans effective_stop_rises)
  then show ?thesis using trailing_stop_floor [of t] by (auto simp: effective_stop_def Let_def)
qed

text \<open>The trailing stop in closed form, from the highest premium seen.\<close>

definition fresh_trade :: "open_trade \<Rightarrow> bool" where
  "fresh_trade t \<longleftrightarrow> ot_peak_premium t = None \<and> \<not> ot_trail_active t \<and> ot_trail_stop_price t = None"

definition trailed :: "exit_manager \<Rightarrow> open_trade \<Rightarrow> pyfloat \<Rightarrow> open_trade" where
  "trailed m t peak =
     t\<lparr>ot_peak_premium := Some peak, ot_trail_active := trail_reached m t peak,
       ot_trail_stop_price := (if trail_reached m t peak
                               then Some (max (ot_stop_price t) (peak * (1 - em_trail_giveback_pct m))) else None)\<rparr>"

lemma update_fresh: "fresh_trade t \<Longrightarrow> update_trailing m t p = trailed m t (max (ot_entry_price t) p)"
  by (simp add: fresh_trade_def update_trailing_def trailed_def new_peak_def raise_stop_def Let_def)

lemma reached_mono: "trail_reached m t a \<Longrightarrow> a \<le> b \<Longrightarrow> trail_reached m t b"
  by (auto simp: trail_reached_def elim!: order_trans intro: divide_right_mono)

lemma raise_stop_max: "x \<le> y \<Longrightarrow> raise_stop (Some (max a x)) (max a y) = Some (max a y)"
  by (auto simp: raise_stop_def max_def)

lemma update_trailed:
  assumes "em_trail_giveback_pct m \<le> 1"
  shows "update_trailing m (trailed m t peak) p = trailed m t (max peak p)"
proof -
  have reached: "trail_reached m (trailed m t peak) q = trail_reached m t q" for q
    by (simp add: trail_reached_def trailed_def)
  have rises: "peak * (1 - em_trail_giveback_pct m) \<le> max peak p * (1 - em_trail_giveback_pct m)"
    using assms by (intro mult_right_mono) auto
  show ?thesis
  proof (cases "trail_reached m t peak")
    case True
    then have "trail_reached m t (max peak p)" by (rule reached_mono) simp
    then show ?thesis
      unfolding update_trailing_def Let_def reached using True raise_stop_max [OF rises]
      by (simp add: trailed_def new_peak_def)
  next
    case False
    then show ?thesis
      unfolding update_trailing_def Let_def reached
      by (cases "trail_reached m t (max peak p)") (simp_all add: trailed_def new_peak_def raise_stop_def)
  qed
qed

lemma foldl_max: "foldl max (a :: pyfloat) ps = Max (set (a # ps))"
proof -
  have "foldl max a ps = fold max ps a" by (induction ps arbitrary: a) (simp_all add: max.commute)
  then show ?thesis by (simp only: Max.set_eq_fold)
qed

text \<open>
  The stateful trailing stop computes a closed form: after any non-empty series of premiums
  a fresh trade's peak is the maximum of its entry price and all premiums, the trail is active exactly
  if that peak reached the activation gain, and the trailing stop is then the peak less the give-back,
  but never below the initial stop.
\<close>

theorem trailing_stop_closed_form:
  assumes "fresh_trade t" "em_trail_giveback_pct m \<le> 1" "premiums \<noteq> []"
  shows "foldl (update_trailing m) t premiums = trailed m t (Max (set (ot_entry_price t # premiums)))"
proof -
  obtain p ps where ps: "premiums = p # ps" using assms(3) by (cases premiums) auto
  have "foldl (update_trailing m) (trailed m t a) ps = trailed m t (foldl max a ps)" for a
    by (induction ps arbitrary: a) (simp_all add: update_trailed [OF assms(2)])
  then have "foldl (update_trailing m) t premiums = trailed m t (foldl max (ot_entry_price t) premiums)"
    using update_fresh [OF assms(1)] by (simp add: ps)
  then show ?thesis by (simp only: foldl_max)
qed

section \<open>When a trade is held\<close>

lemma no_exit_iff:
  "check_exit m t premium now = None \<longleftrightarrow>
     \<not> ot_invalidated t \<and> effective_stop m t now < premium \<and> premium < ot_take_profit_price t \<and>
     \<not> time_stop_reached m t now \<and> time_of_day (local_wall m now) < em_eod_time m"
  by (auto simp: check_exit_def exit_for_def Let_def)

lemma exit_price: "check_exit m t premium now = Some d \<Longrightarrow> ed_exit_price d = premium \<and> ed_position_id d = ot_position_id t"
  by (auto simp: check_exit_def exit_for_def Let_def split: if_splits)

text \<open>
  The quotes an open trade is watched with, as \<open>handle_event\<close> does it: each one first moves the trailing
  stop and is then checked.
\<close>

fun watch :: "exit_manager \<Rightarrow> open_trade \<Rightarrow> (pyfloat \<times> datetime) list \<Rightarrow> exit_decision option" where
  "watch m t [] = None"
| "watch m t ((premium, now) # ticks) =
     (case check_exit m (update_trailing m t premium) premium now of
        Some d \<Rightarrow> Some d
      | None \<Rightarrow> watch m (update_trailing m t premium) ticks)"

text \<open>
  Claim C13. A trade that is still held after any series of quotes has, at every one of them, traded
  strictly above the stop it started with (as tightened late in the day) and strictly below its target, inside its time stop and before the
  end-of-day time: the first quote that leaves these bounds closes it.
\<close>

theorem held_trade_within_bounds:
  assumes "watch m t ticks = None" "(premium, now) \<in> set ticks"
  shows "effective_stop m t now < premium \<and> premium < ot_take_profit_price t \<and> \<not> ot_invalidated t \<and>
    \<not> time_stop_reached m t now \<and> time_of_day (local_wall m now) < em_eod_time m"
  using assms
proof (induction m t ticks rule: watch.induct)
  case (2 m t p t0 ticks)
  let ?t = "update_trailing m t p"
  have now_ok: "check_exit m ?t p t0 = None" and later: "watch m ?t ticks = None"
    using "2.prems"(1) by (auto split: option.splits)
  have kept: "time_stop_reached m ?t u = time_stop_reached m t u" for u
    by (simp add: time_stop_reached_def elapsed_minutes_def split: option.split)
  show ?case
  proof (cases "(premium, now) = (p, t0)")
    case True
    then show ?thesis
      using now_ok effective_stop_rises [of m t t0 p] by (auto simp: no_exit_iff kept)
  next
    case False
    then have "(premium, now) \<in> set ticks" using "2.prems"(2) by auto
    from "2.IH" [OF now_ok later this] show ?thesis
      using effective_stop_rises [of m t now p] by (auto simp: kept)
  qed
qed simp

text \<open>
  The stop a trade is opened with is positive and below its entry price, and its target above
  it, for every stop and target fraction a setup may have and every premium above one cent; a premium of
  a cent or less is given a stop at or above the entry, so that the first quote at the entry price closes
  it.
\<close>

theorem opening_levels:
  assumes "build_setup s = Inr s"
  shows "0 < stop_from_entry entry (st_stop_pct s) \<and>
    (stop_from_entry entry (st_stop_pct s) < entry \<longleftrightarrow> 1 / 100 < entry) \<and>
    (0 < entry \<longrightarrow> entry < target_from_entry entry (st_take_profit_pct s))"
proof -
  have p: "0 < st_stop_pct s" "0 < st_take_profit_pct s" using assms by (auto simp: build_setup_def split: if_splits)
  have "entry * (1 - st_stop_pct s) < entry \<longleftrightarrow> 0 < entry" using p by (simp add: algebra_simps zero_less_mult_iff)
  moreover have "0 < entry \<Longrightarrow> entry < entry * (1 + st_take_profit_pct s)" using p by (simp add: algebra_simps)
  ultimately show ?thesis by (auto simp: stop_from_entry_def target_from_entry_def)
qed

section \<open>Witnesses\<close>

definition demo_exits :: exit_manager where
  "demo_exits = new_exit_manager (\<lambda>u. 0) None None"

definition demo_trade :: open_trade where
  "demo_trade = \<lparr>ot_position_id = ''p'', ot_entry_price = 2, ot_stop_price = 1, ot_take_profit_price = 4, ot_entry_time = at_utc 0,
     ot_time_stop_minutes = Some 30, ot_invalidated = False, ot_quantity = 1, ot_reserved_notional_usd = 200,
     ot_peak_premium = None, ot_trail_active = False, ot_trail_stop_price = None\<rparr>"

theorem trailing_stop_closed_form_witness:
  "ot_trail_stop_price (foldl (update_trailing demo_exits) demo_trade [2, 3, 5 / 2]) = Some (12 / 5)"
proof -
  have "fresh_trade demo_trade" "em_trail_giveback_pct demo_exits \<le> 1"
    by (simp_all add: fresh_trade_def demo_trade_def demo_exits_def new_exit_manager_def)
  then have "foldl (update_trailing demo_exits) demo_trade [2, 3, 5 / 2] =
      trailed demo_exits demo_trade (Max (set [ot_entry_price demo_trade, 2, 3, 5 / 2]))"
    by (rule trailing_stop_closed_form) simp
  also have "Max (set [ot_entry_price demo_trade, 2, 3, 5 / 2]) = 3" by (simp add: demo_trade_def)
  finally show ?thesis
    by (simp add: trailed_def trail_reached_def demo_trade_def demo_exits_def new_exit_manager_def)
qed

theorem held_trade_within_bounds_witness:
  "effective_stop demo_exits demo_trade (at_utc (60 * usec)) < 3"
proof -
  have "watch demo_exits demo_trade [(2, at_utc 0), (3, at_utc (60 * usec))] = None" by code_simp
  then show ?thesis by (rule held_trade_within_bounds [THEN conjunct1]) simp
qed

theorem opening_levels_witness:
  "stop_from_entry (3 / 2) (st_stop_pct (demo_setup ''s'' Long_Call)) < 3 / 2"
proof -
  have "build_setup (demo_setup ''s'' Long_Call) = Inr (demo_setup ''s'' Long_Call)"
    by (simp add: build_setup_def demo_setup_def)
  from opening_levels [OF this, of "3 / 2"] show ?thesis by simp
qed

end
