(* ===== verification/Risk_Governor.thy ===== *)
theory Risk_Governor
  imports Domain
begin

text \<open>
  Pre-trade risk: the safety modes of \<open>joker/app/safety.py\<close>, the quote freshness policy of
  \<open>joker/data/freshness.py\<close> and the risk governor of \<open>joker/risk/governor.py\<close>, whose state is the
  set of candidates it has approved. The evaluation time of a decision is left out.
\<close>

section \<open>Safety modes\<close>

datatype safety_mode = Paper | Shadow | Live_Gated

fun safety_mode_value :: "safety_mode \<Rightarrow> string" where
  "safety_mode_value Paper = ''PAPER''"
| "safety_mode_value Shadow = ''SHADOW''"
| "safety_mode_value Live_Gated = ''LIVE_GATED''"

definition safety_mode_from_string :: "string \<Rightarrow> py_error + safety_mode" where
  "safety_mode_from_string value =
     (case find (\<lambda>m. safety_mode_value m = py_upper (py_strip value)) [Paper, Shadow, Live_Gated] of
        None \<Rightarrow> Inl ValueError | Some m \<Rightarrow> Inr m)"

definition allows_broker_submit :: "safety_mode \<Rightarrow> bool \<Rightarrow> bool" where
  "allows_broker_submit m live_trading_enabled \<longleftrightarrow> m = Live_Gated \<and> live_trading_enabled"

definition allows_paper_execution :: "safety_mode \<Rightarrow> bool" where
  "allows_paper_execution m \<longleftrightarrow> m = Paper"

definition records_shadow_candidates :: "safety_mode \<Rightarrow> bool" where
  "records_shadow_candidates m \<longleftrightarrow> m = Shadow"

section \<open>Quote freshness\<close>

record freshness_config =
  fc_quote_max_age_seconds :: int
  fc_feed_max_silence_seconds :: int
  fc_delayed_quote_max_age_seconds :: int
  fc_allow_delayed_quotes :: bool

record freshness_verdict =
  fv_ok :: bool
  fv_reason :: "string option"
  fv_exchange_age_seconds :: "pyfloat option"
  fv_receive_age_seconds :: "pyfloat option"
  fv_delayed :: bool

text \<open>\<open>seconds_between\<close> already reads a naive value as UTC, as \<open>_aware\<close> does.\<close>

definition evaluate_quote_freshness ::
  "datetime \<Rightarrow> datetime \<Rightarrow> bool \<Rightarrow> datetime option \<Rightarrow> freshness_config \<Rightarrow> freshness_verdict" where
  "evaluate_quote_freshness quote_timestamp reference_time delayed received_at cfg =
     (let exchange_age = seconds_between reference_time quote_timestamp;
          receive_age = map_option (seconds_between reference_time) received_at;
          verdict = (\<lambda>ok reason d. \<lparr>fv_ok = ok, fv_reason = reason, fv_exchange_age_seconds = Some exchange_age,
                                      fv_receive_age_seconds = receive_age, fv_delayed = d\<rparr>)
      in if delayed \<and> \<not> fc_allow_delayed_quotes cfg then verdict False (Some ''DELAYED_NOT_ALLOWED'') True
         else if delayed \<and> fc_allow_delayed_quotes cfg
         then if (case receive_age of None \<Rightarrow> False | Some a \<Rightarrow> of_int (fc_feed_max_silence_seconds cfg) < a)
              then verdict False (Some ''FEED_SILENT'') True
              else if of_int (fc_delayed_quote_max_age_seconds cfg) < exchange_age
              then verdict False (Some ''STALE_QUOTE'') True
              else verdict True None True
         else if of_int (fc_quote_max_age_seconds cfg) < exchange_age then verdict False (Some ''STALE_QUOTE'') False
         else verdict True None False)"

definition feed_health_from_received :: "datetime option \<Rightarrow> datetime \<Rightarrow> int \<Rightarrow> bool \<Rightarrow> string" where
  "feed_health_from_received last_received_at now feed_max_silence_seconds last_error =
     (if last_error then ''ERROR''
      else case last_received_at of
             None \<Rightarrow> ''ERROR''
           | Some t \<Rightarrow> if of_int feed_max_silence_seconds < seconds_between now t then ''STALE'' else ''OK'')"

section \<open>The governor\<close>

record governor =
  gv_config :: risk_config
  gv_mode :: safety_mode
  gv_live_enabled :: bool
  gv_seen :: "string set"

definition governor_freshness :: "governor \<Rightarrow> trade_candidate \<Rightarrow> datetime \<Rightarrow> freshness_verdict" where
  "governor_freshness g c now =
     (let q = tc_quote c; cfg = gv_config g in
      evaluate_quote_freshness (oq_timestamp q) now (oq_delayed q) (oq_received_at q)
        \<lparr>fc_quote_max_age_seconds = rc_quote_max_age_seconds cfg,
         fc_feed_max_silence_seconds = rc_feed_max_silence_seconds cfg,
         fc_delayed_quote_max_age_seconds = rc_delayed_quote_max_age_seconds cfg,
         fc_allow_delayed_quotes = rc_allow_delayed_quotes cfg\<rparr>)"

definition flag_if :: "bool \<Rightarrow> string \<Rightarrow> string list" where
  "flag_if b code = (if b then [code] else [])"

definition freshness_reasons :: "bool \<Rightarrow> freshness_verdict \<Rightarrow> string list" where
  "freshness_reasons agent_led v =
     (if fv_ok v then []
      else if fv_reason v = Some ''FEED_SILENT'' then [''FEED_SILENT'']
      else if \<not> agent_led
      then (if fv_reason v = Some ''DELAYED_NOT_ALLOWED'' then [''DELAYED_NOT_ALLOWED''] else [''STALE_QUOTE''])
      else [])"

definition candidate_notional :: "trade_candidate \<Rightarrow> pyfloat" where
  "candidate_notional c = tc_entry_limit_price c * 100 * of_int (max 1 (tc_quantity c))"

definition capital_reasons :: "risk_config \<Rightarrow> trade_candidate \<Rightarrow> string list" where
  "capital_reasons cfg c =
     (if 0 < rc_authorized_capital_usd cfg
      then flag_if (max 0 (rc_authorized_capital_usd cfg - rc_reserved_capital_usd cfg) + 1 / 1000000 < candidate_notional c)
             ''CAPITAL_EXCEEDED''
      else [])"

definition soft_reasons :: "risk_config \<Rightarrow> trade_candidate \<Rightarrow> daily_state \<Rightarrow> string list" where
  "soft_reasons cfg c d =
     flag_if (rc_max_spread_pct cfg < quote_spread_pct (tc_quote c)) ''WIDE_SPREAD'' @
     flag_if (rc_max_premium_usd cfg < tc_entry_limit_price c * 100) ''MAX_PREMIUM'' @
     flag_if (ds_daily_pnl_usd d \<le> - rc_max_daily_loss_usd cfg) ''MAX_DAILY_LOSS'' @
     flag_if (rc_max_trades_per_day cfg \<le> ds_trades_count d) ''MAX_TRADES'' @
     flag_if (rc_max_open_positions cfg \<le> ds_open_positions d) ''MAX_OPEN_POSITIONS''"

text \<open>
  The reasons collected by \<open>evaluate\<close>, in the order the code appends them. The check of the
  candidate's direction cannot fail: its two values are the two the type allows.
\<close>

definition evaluate_reasons :: "governor \<Rightarrow> trade_candidate \<Rightarrow> daily_state \<Rightarrow> bool \<Rightarrow> datetime \<Rightarrow> string list" where
  "evaluate_reasons g c d has_unresolved_order now =
     (let cfg = gv_config g; agent_led = (rc_policy cfg = Agent_Led) in
      flag_if (rc_kill_switch cfg \<or> ds_kill_switch d) ''KILL_SWITCH'' @
      flag_if (gv_mode g = Live_Gated \<and> \<not> gv_live_enabled g) ''MODE_BLOCKED'' @
      flag_if (oc_symbol (tc_contract c) \<noteq> rc_allowed_symbol cfg) ''WRONG_SYMBOL'' @
      flag_if (\<not> oc_is_0dte (tc_contract c)) ''NOT_0DTE'' @
      freshness_reasons agent_led (governor_freshness g c now) @
      flag_if (tc_stop_price c \<le> 0) ''NO_STOP'' @
      flag_if (tc_take_profit_price c \<le> 0) ''NO_TAKE_PROFIT'' @
      flag_if has_unresolved_order ''UNRESOLVED_ORDER'' @
      flag_if (tc_candidate_id c \<in> gv_seen g) ''DUPLICATE_ORDER'' @
      capital_reasons cfg c @
      (if agent_led then [] else soft_reasons cfg c d))"

fun join_text :: "string \<Rightarrow> string list \<Rightarrow> string" where
  "join_text sep [] = []"
| "join_text sep [x] = x"
| "join_text sep (x # y # xs) = x @ sep @ join_text sep (y # xs)"

definition evaluate :: "trade_candidate \<Rightarrow> daily_state \<Rightarrow> bool \<Rightarrow> datetime \<Rightarrow> governor \<Rightarrow> risk_decision \<times> governor" where
  "evaluate c d has_unresolved_order now g =
     (let reasons = evaluate_reasons g c d has_unresolved_order now;
          approved = (reasons = [])
      in (\<lparr>rd_candidate_id = tc_candidate_id c, rd_approved = approved, rd_reason_codes = reasons,
           rd_message = (if approved then ''approved'' else ''rejected: '' @ join_text '', '' reasons),
           rd_policy = risk_policy_text (rc_policy (gv_config g))\<rparr>,
          if approved then g\<lparr>gv_seen := insert (tc_candidate_id c) (gv_seen g)\<rparr> else g))"

section \<open>Properties\<close>

lemma flag_if_Nil [simp]: "flag_if b code = [] \<longleftrightarrow> \<not> b"
  by (simp add: flag_if_def)

text \<open>
  Claim C10. What an approval certifies. The governor approves a candidate exactly when every hard floor
  holds (no kill switch, an enabled mode, the allowed symbol, a same-day contract, a stop and a take
  profit, no unresolved order, not approved before, within the session capital), the quote is fresh,
  or at least the feed is not silent when the agents lead, and, under the strict policy only, the
  spread, premium, loss, trade and position limits hold.
\<close>

theorem evaluate_approves_iff:
  "rd_approved (fst (evaluate c d unresolved now g)) \<longleftrightarrow>
     (let cfg = gv_config g; v = governor_freshness g c now in
      \<not> rc_kill_switch cfg \<and> \<not> ds_kill_switch d \<and> (gv_mode g = Live_Gated \<longrightarrow> gv_live_enabled g) \<and>
      oc_symbol (tc_contract c) = rc_allowed_symbol cfg \<and> oc_is_0dte (tc_contract c) \<and>
      0 < tc_stop_price c \<and> 0 < tc_take_profit_price c \<and> \<not> unresolved \<and> tc_candidate_id c \<notin> gv_seen g \<and>
      (0 < rc_authorized_capital_usd cfg \<longrightarrow>
         candidate_notional c \<le> max 0 (rc_authorized_capital_usd cfg - rc_reserved_capital_usd cfg) + 1 / 1000000) \<and>
      (fv_ok v \<or> (rc_policy cfg = Agent_Led \<and> fv_reason v \<noteq> Some ''FEED_SILENT'')) \<and>
      (rc_policy cfg = Strict \<longrightarrow>
         quote_spread_pct (tc_quote c) \<le> rc_max_spread_pct cfg \<and> tc_entry_limit_price c * 100 \<le> rc_max_premium_usd cfg \<and>
         - rc_max_daily_loss_usd cfg < ds_daily_pnl_usd d \<and> ds_trades_count d < rc_max_trades_per_day cfg \<and>
         ds_open_positions d < rc_max_open_positions cfg))"
  by (cases "rc_policy (gv_config g)")
     (auto simp: evaluate_def evaluate_reasons_def freshness_reasons_def capital_reasons_def soft_reasons_def Let_def
        not_less not_le)

text \<open>A sequence of evaluations with the same governor.\<close>

fun evaluate_all :: "(trade_candidate \<times> daily_state \<times> bool \<times> datetime) list \<Rightarrow> governor \<Rightarrow> risk_decision list \<times> governor" where
  "evaluate_all [] g = ([], g)"
| "evaluate_all ((c, d, u, t) # xs) g =
     (case evaluate c d u t g of (r, g1) \<Rightarrow> case evaluate_all xs g1 of (rs, g2) \<Rightarrow> (r # rs, g2))"

lemma evaluate_seen:
  "gv_seen (snd (evaluate c d u t g)) =
     (if rd_approved (fst (evaluate c d u t g)) then insert (tc_candidate_id c) (gv_seen g) else gv_seen g)"
  by (simp add: evaluate_def Let_def)

lemma evaluate_seen_not_approved:
  "tc_candidate_id c \<in> gv_seen g \<Longrightarrow> \<not> rd_approved (fst (evaluate c d u t g))"
  by (simp add: evaluate_def evaluate_reasons_def Let_def)

lemma evaluate_all_distinct:
  "distinct (map rd_candidate_id (filter rd_approved (fst (evaluate_all xs g)))) \<and>
   rd_candidate_id ` set (filter rd_approved (fst (evaluate_all xs g))) \<inter> gv_seen g = {}"
proof (induction xs arbitrary: g)
  case (Cons x xs)
  obtain c d u t where x: "x = (c, d, u, t)" by (cases x)
  obtain r g1 where r: "evaluate c d u t g = (r, g1)" by (cases "evaluate c d u t g")
  obtain rs g2 where rs: "evaluate_all xs g1 = (rs, g2)" by (cases "evaluate_all xs g1")
  have id: "rd_candidate_id r = tc_candidate_id c" using r by (auto simp: evaluate_def Let_def)
  have seen: "gv_seen g1 = (if rd_approved r then insert (tc_candidate_id c) (gv_seen g) else gv_seen g)"
    using evaluate_seen [of c d u t g] r by simp
  have new: "rd_approved r \<Longrightarrow> tc_candidate_id c \<notin> gv_seen g"
    using evaluate_seen_not_approved [of c g d u t] r by auto
  show ?case
    using Cons [of g1] seen new id by (auto simp: x r rs)
qed simp

text \<open>
  Over any sequence of evaluations no candidate is approved twice, whatever the market, the day
  and the other candidates do in between.
\<close>

theorem governor_approves_once:
  "distinct (map rd_candidate_id (filter rd_approved (fst (evaluate_all xs g))))"
  using evaluate_all_distinct by blast

text \<open>
  The agent-led policy only drops objections: for the same state and candidate its reasons are
  among those of the strict policy, and it keeps every hard floor.
\<close>

theorem agent_led_reasons_subset:
  "set (evaluate_reasons (g\<lparr>gv_config := (gv_config g)\<lparr>rc_policy := Agent_Led\<rparr>\<rparr>) c d u t) =
   set (evaluate_reasons (g\<lparr>gv_config := (gv_config g)\<lparr>rc_policy := Strict\<rparr>\<rparr>) c d u t) -
     {''WIDE_SPREAD'', ''MAX_PREMIUM'', ''MAX_DAILY_LOSS'', ''MAX_TRADES'', ''MAX_OPEN_POSITIONS'', ''STALE_QUOTE'', ''DELAYED_NOT_ALLOWED''}"
  by (auto simp: evaluate_reasons_def freshness_reasons_def governor_freshness_def capital_reasons_def soft_reasons_def
      flag_if_def Let_def)

section \<open>A concrete decision\<close>

definition risk_contract :: option_contract where
  "risk_contract = \<lparr>oc_symbol = ''SPY'', oc_expiration = 20000, oc_strike = 600, oc_type = Call, oc_is_0dte = True\<rparr>"

definition risk_candidate :: trade_candidate where
  "risk_candidate =
     \<lparr>tc_candidate_id = ''c1'', tc_run_id = ''r'', tc_setup_id = ''s'', tc_contract = risk_contract,
      tc_quote = \<lparr>oq_contract = risk_contract, oq_bid = 99 / 100, oq_ask = 101 / 100, oq_last = None, oq_timestamp = at_utc 0,
        oq_source = ''demo'', oq_classification = ''SYNTHETIC_DATA'', oq_persist_allowed = True, oq_openai_allowed = True,
        oq_is_synthetic = True, oq_delayed = False, oq_received_at = None\<rparr>,
      tc_direction = Long_Call, tc_entry_limit_price = 1, tc_stop_price = 1 / 2, tc_take_profit_price = 2, tc_quantity = 1,
      tc_created_at = at_utc 0\<rparr>"

definition risk_governor :: governor where
  "risk_governor =
     \<lparr>gv_config = \<lparr>rc_max_daily_loss_usd = 100, rc_max_trades_per_day = 1, rc_max_open_positions = 1, rc_max_premium_usd = 100,
        rc_max_spread_pct = 15, rc_quote_max_age_seconds = 30, rc_allowed_symbol = ''SPY'', rc_kill_switch = False,
        rc_allow_delayed_quotes = True, rc_feed_max_silence_seconds = 60, rc_delayed_quote_max_age_seconds = 900,
        rc_policy = Strict, rc_authorized_capital_usd = 500, rc_reserved_capital_usd = 0\<rparr>,
      gv_mode = Paper, gv_live_enabled = False, gv_seen = {}\<rparr>"

definition quiet_day :: daily_state where
  "quiet_day = \<lparr>ds_trading_day = 20000, ds_run_id = ''r'', ds_mode = ''PAPER'', ds_daily_pnl_usd = 0, ds_trades_count = 0,
     ds_open_positions = 0, ds_kill_switch = False, ds_playbook_approved = True\<rparr>"

theorem evaluate_approves_iff_witness:
  "rd_approved (fst (evaluate risk_candidate quiet_day False (at_utc (10 * usec)) risk_governor))"
  unfolding evaluate_approves_iff by code_simp

end
