(* ===== verification/Option_Selector.thy ===== *)
theory Option_Selector
  imports Option_Surface Risk_Governor
begin

text \<open>
  The choice of the option contract (\<open>joker/execution/option_selector.py\<close>) from quote events
  (\<open>OptionQuoteEvent\<close> of \<open>joker/schemas/replay.py\<close>) or from an option surface. A raised
  \<open>OptionSelectionError\<close> is the left value of the result. The advisories of a call, which the
  selector keeps in \<open>last_advisories\<close>, are returned beside its result.
\<close>

section \<open>Quote events\<close>

record quote_event =
  qe_symbol :: string
  qe_source :: string
  qe_contract_id :: string
  qe_expiration :: int
  qe_strike :: pyfloat
  qe_option_type :: option_type
  qe_bid :: pyfloat
  qe_ask :: pyfloat
  qe_mid :: pyfloat
  qe_spread_pct :: pyfloat
  qe_quote_timestamp :: datetime
  qe_classification :: string
  qe_persist_allowed :: bool
  qe_openai_allowed :: bool
  qe_is_synthetic :: bool
  qe_delayed :: bool
  qe_received_at :: "datetime option"

record selector_config =
  sc_max_spread_pct :: pyfloat
  sc_max_premium_usd :: pyfloat
  sc_quote_max_age_seconds :: int
  sc_allowed_symbol :: string
  sc_allow_delayed_quotes :: bool
  sc_feed_max_silence_seconds :: int
  sc_delayed_quote_max_age_seconds :: int
  sc_soft_liquidity_advisory :: bool

record selected_contract =
  sl_contract_id :: string
  sl_contract :: option_contract
  sl_quote :: option_quote
  sl_selection_reason :: string
  sl_underlying_price :: pyfloat

definition selector_freshness :: "selector_config \<Rightarrow> freshness_config" where
  "selector_freshness cfg =
     \<lparr>fc_quote_max_age_seconds = sc_quote_max_age_seconds cfg, fc_feed_max_silence_seconds = sc_feed_max_silence_seconds cfg,
      fc_delayed_quote_max_age_seconds = sc_delayed_quote_max_age_seconds cfg,
      fc_allow_delayed_quotes = sc_allow_delayed_quotes cfg\<rparr>"

definition select_error :: "string \<Rightarrow> py_error + 'a" where
  "select_error reason = Inl (OptionSelectionError reason)"

text \<open>\<open>f"{x:.1f}"\<close>\<close>

definition one_decimal :: "pyfloat \<Rightarrow> string" where
  "one_decimal x = float_text (round_half_even 1 x)"

definition event_verdict :: "selector_config \<Rightarrow> quote_event \<Rightarrow> datetime \<Rightarrow> freshness_verdict" where
  "event_verdict cfg e now =
     evaluate_quote_freshness (qe_quote_timestamp e) now (qe_delayed e) (qe_received_at e) (selector_freshness cfg)"

definition stale_reason :: "freshness_verdict \<Rightarrow> string" where
  "stale_reason v =
     (if fv_reason v = Some ''DELAYED_NOT_ALLOWED'' then ''DELAYED_NOT_ALLOWED''
      else if fv_reason v = Some ''FEED_SILENT'' then ''FEED_SILENT'' else ''STALE_QUOTE'')"

definition too_wide :: "selector_config \<Rightarrow> quote_event \<Rightarrow> bool" where
  "too_wide cfg e \<longleftrightarrow> sc_max_spread_pct cfg < qe_spread_pct e"

definition too_expensive :: "selector_config \<Rightarrow> quote_event \<Rightarrow> bool" where
  "too_expensive cfg e \<longleftrightarrow> sc_max_premium_usd cfg < qe_mid e * 100"

definition validate_quote :: "selector_config \<Rightarrow> quote_event \<Rightarrow> datetime \<Rightarrow> py_error + string list" where
  "validate_quote cfg e now =
     (let soft = sc_soft_liquidity_advisory cfg
      in if qe_symbol e \<noteq> sc_allowed_symbol cfg then select_error (''Wrong symbol: '' @ qe_symbol e)
      else if qe_bid e \<le> 0 \<or> qe_ask e \<le> 0 then select_error ''MISSING_QUOTE''
      else if \<not> fv_ok (event_verdict cfg e now) then select_error (stale_reason (event_verdict cfg e now))
      else if too_wide cfg e \<and> \<not> soft then select_error ''WIDE_SPREAD''
      else if too_expensive cfg e \<and> \<not> soft then select_error ''MAX_PREMIUM''
      else Inr ((if too_wide cfg e then [''WIDE_SPREAD:'' @ one_decimal (qe_spread_pct e)] else []) @
                (if too_expensive cfg e then [''MAX_PREMIUM:'' @ one_decimal (qe_mid e * 100)] else [])))"

definition event_contract :: "quote_event \<Rightarrow> option_contract" where
  "event_contract e =
     \<lparr>oc_symbol = qe_symbol e, oc_expiration = qe_expiration e, oc_strike = qe_strike e, oc_type = qe_option_type e,
      oc_is_0dte = True\<rparr>"

definition event_quote :: "quote_event \<Rightarrow> option_quote" where
  "event_quote e =
     \<lparr>oq_contract = event_contract e, oq_bid = qe_bid e, oq_ask = qe_ask e, oq_last = Some (qe_mid e),
      oq_timestamp = qe_quote_timestamp e, oq_source = qe_source e, oq_classification = qe_classification e,
      oq_persist_allowed = qe_persist_allowed e, oq_openai_allowed = qe_openai_allowed e,
      oq_is_synthetic = qe_is_synthetic e, oq_delayed = qe_delayed e, oq_received_at = qe_received_at e\<rparr>"

definition selected_from :: "quote_event \<Rightarrow> string list \<Rightarrow> pyfloat \<Rightarrow> selected_contract" where
  "selected_from e advisories price =
     \<lparr>sl_contract_id = qe_contract_id e, sl_contract = event_contract e, sl_quote = event_quote e,
      sl_selection_reason =
        ''near-ATM '' @ option_type_text (qe_option_type e) @ '' strike '' @ float_text (qe_strike e) @
        (if advisories = [] then [] else '' advisory='' @ join_text '','' advisories),
      sl_underlying_price = price\<rparr>"

section \<open>Selection\<close>

text \<open>The first event that validates; when none does, the error of the last.\<close>

fun first_valid ::
  "selector_config \<Rightarrow> datetime \<Rightarrow> pyfloat \<Rightarrow> py_error \<Rightarrow> quote_event list \<Rightarrow> string list \<times> (py_error + selected_contract)" where
  "first_valid cfg now price err [] = ([], Inl err)"
| "first_valid cfg now price err (e # es) =
     (case validate_quote cfg e now of
        Inl err' \<Rightarrow> first_valid cfg now price err' es
      | Inr advisories \<Rightarrow> (advisories, Inr (selected_from e advisories price)))"

definition wanted_type :: "direction \<Rightarrow> option_type" where
  "wanted_type d = (case d of Long_Call \<Rightarrow> Call | Long_Put \<Rightarrow> Put)"

definition away_from :: "pyfloat \<Rightarrow> quote_event \<Rightarrow> pyfloat" where
  "away_from price e = \<bar>qe_strike e - price\<bar>"

definition select_from_events ::
  "selector_config \<Rightarrow> quote_event list \<Rightarrow> direction \<Rightarrow> pyfloat \<Rightarrow> datetime \<Rightarrow>
   string list \<times> (py_error + selected_contract)" where
  "select_from_events cfg quotes d price now =
     first_valid cfg now price (OptionSelectionError ''MISSING_QUOTE'')
       (sort_key (away_from price) (filter (\<lambda>q. qe_option_type q = wanted_type d) quotes))"

text \<open>A surface row as a quote event; the fields not set take the defaults of \<open>OptionQuoteEvent\<close>.\<close>

definition surface_type :: "surface_option_type \<Rightarrow> option_type" where
  "surface_type t = (case t of SCall \<Rightarrow> Call | SPut \<Rightarrow> Put)"

definition event_of_row :: "contract_row \<Rightarrow> pyfloat \<Rightarrow> pyfloat \<Rightarrow> quote_event" where
  "event_of_row c bid ask =
     (let mid = (case cr_mid c of Some m \<Rightarrow> m | None \<Rightarrow> (bid + ask) / 2)
      in \<lparr>qe_symbol = ''SPY'', qe_source = ''option_surface'', qe_contract_id = cr_contract_id c,
          qe_expiration = cr_expiry c, qe_strike = cr_strike c, qe_option_type = surface_type (cr_option_type c),
          qe_bid = bid, qe_ask = ask, qe_mid = mid,
          qe_spread_pct = (if 0 < mid then (ask - bid) / mid * 100 else 0),
          qe_quote_timestamp = cr_quote_timestamp c, qe_classification = ''SYNTHETIC_DATA'', qe_persist_allowed = True,
          qe_openai_allowed = True, qe_is_synthetic = True, qe_delayed = False, qe_received_at = None\<rparr>)"

definition events_of_surface :: "surface \<Rightarrow> direction \<Rightarrow> quote_event list" where
  "events_of_surface sf d =
     List.map_filter (\<lambda>c. if surface_type (cr_option_type c) \<noteq> wanted_type d then None
                          else case (cr_bid c, cr_ask c) of
                                 (Some b, Some a) \<Rightarrow> Some (event_of_row c b a) | _ \<Rightarrow> None) (sf_contracts sf)"

definition select_from_surface ::
  "selector_config \<Rightarrow> surface \<Rightarrow> direction \<Rightarrow> pyfloat \<Rightarrow> datetime \<Rightarrow> string list \<times> (py_error + selected_contract)" where
  "select_from_surface cfg sf d price now = select_from_events cfg (events_of_surface sf d) d price now"

section \<open>What is selected\<close>

definition acceptable :: "selector_config \<Rightarrow> quote_event \<Rightarrow> datetime \<Rightarrow> bool" where
  "acceptable cfg e now \<longleftrightarrow>
     qe_symbol e = sc_allowed_symbol cfg \<and> 0 < qe_bid e \<and> 0 < qe_ask e \<and> fv_ok (event_verdict cfg e now) \<and>
     (sc_soft_liquidity_advisory cfg \<or> \<not> too_wide cfg e \<and> \<not> too_expensive cfg e)"

lemma validate_quote_Inr: "(\<exists>a. validate_quote cfg e now = Inr a) \<longleftrightarrow> acceptable cfg e now"
  by (auto simp: validate_quote_def acceptable_def select_error_def Let_def not_less)

lemma validate_quote_Inl: "validate_quote cfg e now = Inl err \<Longrightarrow> \<exists>reason. err = OptionSelectionError reason"
  by (auto simp: validate_quote_def select_error_def Let_def split: if_splits)

lemma first_valid_Inr:
  "first_valid cfg now price err es = (adv, Inr s) \<Longrightarrow>
     \<exists>pre e post. es = pre @ e # post \<and> (\<forall>x \<in> set pre. \<not> acceptable cfg x now) \<and>
        validate_quote cfg e now = Inr adv \<and> s = selected_from e adv price"
proof (induction es arbitrary: err)
  case (Cons e es)
  show ?case
  proof (cases "validate_quote cfg e now")
    case (Inl err')
    then have bad: "\<not> acceptable cfg e now" by (simp flip: validate_quote_Inr)
    have "first_valid cfg now price err' es = (adv, Inr s)" using Cons.prems Inl by simp
    from Cons.IH [OF this] obtain pre x post where "es = pre @ x # post" "\<forall>y \<in> set pre. \<not> acceptable cfg y now"
      "validate_quote cfg x now = Inr adv" "s = selected_from x adv price"
      by blast
    with bad show ?thesis by (auto intro: exI [of _ "e # pre"])
  next
    case (Inr a)
    with Cons.prems show ?thesis by (auto intro: exI [of _ "[]"])
  qed
qed simp

lemma first_valid_Inl:
  "first_valid cfg now price err es = (adv, Inl err') \<Longrightarrow>
     adv = [] \<and> (\<forall>x \<in> set es. \<not> acceptable cfg x now) \<and> (err' = err \<or> (\<exists>reason. err' = OptionSelectionError reason))"
  by (induction es arbitrary: err)
     (auto split: sum.splits dest: validate_quote_Inl simp flip: validate_quote_Inr)

text \<open>
  Claim C15. The selector returns the nearest acceptable strike: the event it picks is of the wanted
  type, of the allowed symbol, has a positive bid and ask, a quote that is fresh, and - unless liquidity
  is advisory - a spread and premium within the limits; no acceptable event of that type is
  strictly closer to the underlying price; contract and quote are the event's.
\<close>

theorem selection_is_nearest_acceptable:
  assumes "select_from_events cfg quotes d price now = (adv, Inr s)"
  shows "\<exists>e \<in> set quotes. qe_option_type e = wanted_type d \<and> acceptable cfg e now \<and>
    s = selected_from e adv price \<and> (sc_soft_liquidity_advisory cfg \<or> adv = []) \<and>
    (\<forall>x \<in> set quotes. qe_option_type x = wanted_type d \<and> acceptable cfg x now \<longrightarrow> away_from price e \<le> away_from price x)"
proof -
  let ?c = "sort_key (away_from price) (filter (\<lambda>q. qe_option_type q = wanted_type d) quotes)"
  obtain pre e post where c: "?c = pre @ e # post" and pre: "\<forall>x \<in> set pre. \<not> acceptable cfg x now"
    and v: "validate_quote cfg e now = Inr adv" and s: "s = selected_from e adv price"
    using first_valid_Inr [OF assms [unfolded select_from_events_def]] by blast
  have mem: "set ?c = {q \<in> set quotes. qe_option_type q = wanted_type d}" by simp
  have "sorted (map (away_from price) (pre @ e # post))" using sorted_sort_key [of "away_from price"] unfolding c [symmetric] by blast
  then have near: "\<forall>x \<in> set post. away_from price e \<le> away_from price x" by (simp add: sorted_append)
  have ok: "acceptable cfg e now" using v by (simp flip: validate_quote_Inr)
  have "adv = []" if "\<not> sc_soft_liquidity_advisory cfg"
    using v that by (auto simp: validate_quote_def select_error_def Let_def split: if_splits)
  moreover have "e \<in> set quotes" "qe_option_type e = wanted_type d" using mem unfolding c by auto
  moreover have "away_from price e \<le> away_from price x"
    if "x \<in> set quotes" "qe_option_type x = wanted_type d" "acceptable cfg x now" for x
  proof -
    have "x \<in> set (pre @ e # post)" using that mem unfolding c by blast
    then show ?thesis using pre near that(3) by auto
  qed
  ultimately show ?thesis using ok s by blast
qed

text \<open>
  The selector fails exactly when no event of the wanted type is acceptable, always with an
  \<open>OptionSelectionError\<close>, and then leaves no advisories behind.
\<close>

theorem selection_fails_iff:
  "(\<exists>reason. select_from_events cfg quotes d price now = ([], Inl (OptionSelectionError reason))) \<longleftrightarrow>
     filter (\<lambda>e. qe_option_type e = wanted_type d \<and> acceptable cfg e now) quotes = []"
  (is "?fails \<longleftrightarrow> ?none")
proof
  assume ?fails
  then obtain reason where "select_from_events cfg quotes d price now = ([], Inl (OptionSelectionError reason))" ..
  from first_valid_Inl [OF this [unfolded select_from_events_def]] show ?none by (simp add: filter_empty_conv)
next
  assume none: ?none
  obtain adv r where run: "select_from_events cfg quotes d price now = (adv, r)" by fastforce
  show ?fails
  proof (cases r)
    case (Inl err)
    from first_valid_Inl [OF run [unfolded select_from_events_def Inl]] show ?thesis using run Inl by blast
  next
    case (Inr s)
    then obtain pre e post where
      c: "sort_key (away_from price) (filter (\<lambda>q. qe_option_type q = wanted_type d) quotes) = pre @ e # post"
      and v: "validate_quote cfg e now = Inr adv"
      using first_valid_Inr run unfolding select_from_events_def by blast
    have "e \<in> set (sort_key (away_from price) (filter (\<lambda>q. qe_option_type q = wanted_type d) quotes))" unfolding c by simp
    then show ?thesis using none v by (auto simp: filter_empty_conv simp flip: validate_quote_Inr)
  qed
qed

text \<open>
  A contract picked from an option surface is always labelled as a same-day contract and its
  quote as synthetic, undelayed data that may be sent to the model provider, whatever the surface's
  source and the row's expiry are.
\<close>

theorem surface_selection_labels:
  assumes "select_from_surface cfg sf d price now = (adv, Inr s)"
  shows "oc_is_0dte (sl_contract s) \<and> oq_is_synthetic (sl_quote s) \<and> oq_classification (sl_quote s) = ''SYNTHETIC_DATA'' \<and>
    oq_openai_allowed (sl_quote s) \<and> \<not> oq_delayed (sl_quote s) \<and>
    (\<exists>c \<in> set (sf_contracts sf). sl_contract_id s = cr_contract_id c \<and> oc_expiration (sl_contract s) = cr_expiry c)"
proof -
  obtain pre e post where
    c: "sort_key (away_from price) (filter (\<lambda>q. qe_option_type q = wanted_type d) (events_of_surface sf d)) = pre @ e # post"
    and s: "s = selected_from e adv price"
    using first_valid_Inr [OF assms [unfolded select_from_surface_def select_from_events_def]] by blast
  have "e \<in> set (sort_key (away_from price) (filter (\<lambda>q. qe_option_type q = wanted_type d) (events_of_surface sf d)))"
    unfolding c by simp
  then obtain r b a where "r \<in> set (sf_contracts sf)" "e = event_of_row r b a"
    by (auto simp: events_of_surface_def map_filter_def split: if_splits option.splits)
  then show ?thesis
    by (auto simp: s selected_from_def event_quote_def event_contract_def event_of_row_def Let_def)
qed

section \<open>Witnesses\<close>

definition demo_selector :: selector_config where
  "demo_selector = \<lparr>sc_max_spread_pct = 15, sc_max_premium_usd = 200, sc_quote_max_age_seconds = 30, sc_allowed_symbol = ''SPY'',
     sc_allow_delayed_quotes = True, sc_feed_max_silence_seconds = 60, sc_delayed_quote_max_age_seconds = 900,
     sc_soft_liquidity_advisory = False\<rparr>"

definition demo_event :: "string \<Rightarrow> pyfloat \<Rightarrow> pyfloat \<Rightarrow> quote_event" where
  "demo_event cid strike bid =
     \<lparr>qe_symbol = ''SPY'', qe_source = ''demo'', qe_contract_id = cid, qe_expiration = 20000, qe_strike = strike,
      qe_option_type = Call, qe_bid = bid, qe_ask = bid + 1 / 10, qe_mid = bid + 1 / 20, qe_spread_pct = 5,
      qe_quote_timestamp = at_utc 0, qe_classification = ''SYNTHETIC_DATA'', qe_persist_allowed = True,
      qe_openai_allowed = True, qe_is_synthetic = True, qe_delayed = False, qe_received_at = None\<rparr>"

definition demo_events :: "quote_event list" where
  "demo_events = [demo_event ''far'' 610 1, demo_event ''dear'' 600 4, demo_event ''near'' 602 1]"

theorem selection_is_nearest_acceptable_witness:
  "\<exists>adv s. select_from_events demo_selector demo_events Long_Call 600 (at_utc usec) = (adv, Inr s) \<and>
     sl_contract_id s = ''near'' \<and> (\<exists>e \<in> set demo_events. acceptable demo_selector e (at_utc usec) \<and> s = selected_from e adv 600)"
proof -
  have "case select_from_events demo_selector demo_events Long_Call 600 (at_utc usec) of
          (_, Inl _) \<Rightarrow> False | (_, Inr s) \<Rightarrow> sl_contract_id s = ''near''"
    by code_simp
  then obtain adv s where sel: "select_from_events demo_selector demo_events Long_Call 600 (at_utc usec) = (adv, Inr s)"
    and near: "sl_contract_id s = ''near''"
    by (auto split: prod.splits sum.splits)
  obtain e where "e \<in> set demo_events" "acceptable demo_selector e (at_utc usec)" "s = selected_from e adv 600"
    using selection_is_nearest_acceptable [OF sel] by blast
  then show ?thesis using sel near by (intro exI conjI bexI [of _ e])
qed

definition demo_expiring_surface :: "int \<Rightarrow> surface" where
  "demo_expiring_surface expiry = \<lparr>sf_surface_id = ''s'', sf_exchange_time = at_utc 0, sf_trading_date = 20000,
     sf_underlying_symbol = ''SPY'', sf_underlying_price = None,
     sf_contracts = [fill_row [(''bid'', PInt 1), (''ask'', PNum (11 / 10))] (at_utc 0) ''c'' ''SPY'' expiry 600 SCall (at_utc 0)],
     sf_source = ''live''\<rparr>"

text \<open>The contract below expires a day after the surface's trading date.\<close>

theorem surface_selection_labels_witness:
  "\<exists>adv s. select_from_surface demo_selector (demo_expiring_surface 20001) Long_Call 600 (at_utc usec) = (adv, Inr s) \<and>
     oc_is_0dte (sl_contract s) \<and> oq_is_synthetic (sl_quote s)"
proof -
  have "case select_from_surface demo_selector (demo_expiring_surface 20001) Long_Call 600 (at_utc usec) of
          (_, Inl _) \<Rightarrow> False | (_, Inr _) \<Rightarrow> True"
    by code_simp
  then obtain adv s where sel: "select_from_surface demo_selector (demo_expiring_surface 20001) Long_Call 600 (at_utc usec) = (adv, Inr s)"
    by (auto split: prod.splits sum.splits)
  note labels = surface_selection_labels [OF sel]
  show ?thesis by (intro exI conjI, rule sel) (use labels in blast)+
qed

end
