(* ===== verification/Reactive_Engine.thy ===== *)
theory Reactive_Engine
  imports Playbooks Risk_Governor Execution_Runtime Paper_Broker_Props
begin

text \<open>
  The reactive trading state machine of \<open>joker/runtime/reactive_engine.py\<close>. The engine shares its risk
  governor and its broker with its owner; both are fields of its state, the broker being any
  \<open>BrokerClient\<close>, given by the operations record of the execution runtime. No caller in the
  repository passes an \<open>on_transition\<close> callback, so it is left out. The intent id that \<open>uuid4()\<close>
  draws and the clock that the governor reads come from an environment, indexed by a counter in the state.
\<close>

section \<open>States and transitions\<close>

datatype trading_state =
    IDLE | WATCHING | SETUP_ARMED | SIGNAL_DETECTED | RISK_CHECK | ENTERING | OPEN_POSITION | MANAGING_EXIT
  | EXITED | COOLDOWN | LOCKED

fun valid_transitions :: "trading_state \<Rightarrow> trading_state set" where
  "valid_transitions IDLE = {WATCHING, LOCKED}"
| "valid_transitions WATCHING = {SETUP_ARMED, SIGNAL_DETECTED, LOCKED}"
| "valid_transitions SETUP_ARMED = {SIGNAL_DETECTED, WATCHING, LOCKED}"
| "valid_transitions SIGNAL_DETECTED = {RISK_CHECK, WATCHING}"
| "valid_transitions RISK_CHECK = {ENTERING, WATCHING, COOLDOWN}"
| "valid_transitions ENTERING = {OPEN_POSITION, WATCHING}"
| "valid_transitions OPEN_POSITION = {MANAGING_EXIT, EXITED}"
| "valid_transitions MANAGING_EXIT = {EXITED, OPEN_POSITION}"
| "valid_transitions EXITED = {COOLDOWN, WATCHING}"
| "valid_transitions COOLDOWN = {WATCHING, IDLE}"
| "valid_transitions LOCKED = {IDLE}"

record log_entry =
  lg_from :: trading_state
  lg_to :: trading_state
  lg_payload :: "(string, string list) dict"

record engine_env =
  ee_uuid :: "nat \<Rightarrow> string"
  ee_now :: "nat \<Rightarrow> datetime"

record 'b engine =
  re_governor :: governor
  re_broker :: 'b
  re_state :: trading_state
  re_playbook :: "playbook option"
  re_log :: "log_entry list"
  re_last_order :: "broker_order option"
  re_draws :: nat

definition new_engine :: "governor \<Rightarrow> 'b \<Rightarrow> 'b engine" where
  "new_engine g b =
     \<lparr>re_governor = g, re_broker = b, re_state = IDLE, re_playbook = None, re_log = [], re_last_order = None, re_draws = 0\<rparr>"

definition transition :: "trading_state \<Rightarrow> (string, string list) dict \<Rightarrow> ('b engine, unit) run" where
  "transition new payload s =
     (if new \<notin> valid_transitions (re_state s) \<and> re_state s \<noteq> new then run_raise StateMachineError s
      else run_ret ()
             (s\<lparr>re_state := new,
                re_log := re_log s @ [\<lparr>lg_from = re_state s, lg_to = new, lg_payload = payload\<rparr>]\<rparr>))"

definition arm_playbook :: "playbook \<Rightarrow> ('b engine, unit) run" where
  "arm_playbook pb =
     (if \<not> pk_approved pb then run_raise StateMachineError
      else run_bind (run_modify (\<lambda>s. s\<lparr>re_playbook := Some pb\<rparr>)) (\<lambda>_. transition WATCHING []))"

section \<open>Signals and entries\<close>

definition on_broker :: "('b, 'a) run \<Rightarrow> ('b engine, 'a) run" where
  "on_broker m s = (case m (re_broker s) of (r, b) \<Rightarrow> (r, s\<lparr>re_broker := b\<rparr>))"

definition draw :: "('b engine, nat) run" where
  "draw s = run_ret (re_draws s) (s\<lparr>re_draws := Suc (re_draws s)\<rparr>)"

definition on_governor :: "(governor \<Rightarrow> 'a \<times> governor) \<Rightarrow> ('b engine, 'a) run" where
  "on_governor f s = (case f (re_governor s) of (a, g) \<Rightarrow> run_ret a (s\<lparr>re_governor := g\<rparr>))"

definition judge :: "engine_env \<Rightarrow> 'b broker_ops \<Rightarrow> trade_candidate \<Rightarrow> daily_state \<Rightarrow> ('b engine, risk_decision) run" where
  "judge env ops c d =
     run_bind (on_broker (br_list_open ops)) (\<lambda>opens.
     run_bind draw (\<lambda>n. on_governor (evaluate c d (opens \<noteq> []) (ee_now env n))))"

definition evaluate_signal ::
  "engine_env \<Rightarrow> 'b broker_ops \<Rightarrow> trade_candidate \<Rightarrow> daily_state \<Rightarrow> ('b engine, risk_decision) run" where
  "evaluate_signal env ops c d =
     run_bind (transition SIGNAL_DETECTED [(''candidate_id'', [tc_candidate_id c])]) (\<lambda>_.
     run_bind (transition RISK_CHECK []) (\<lambda>_.
     run_bind (judge env ops c d) (\<lambda>decision.
       if rd_approved decision then run_ret decision
       else run_bind (transition WATCHING [(''rejected'', rd_reason_codes decision)]) (\<lambda>_. run_ret decision))))"

definition entry_intent :: "engine_env \<Rightarrow> nat \<Rightarrow> trade_candidate \<Rightarrow> order_intent" where
  "entry_intent env n c =
     \<lparr>oi_intent_id = ee_uuid env n, oi_candidate_id = tc_candidate_id c, oi_contract = tc_contract c, oi_side = Buy,
      oi_order_type = Limit, oi_quantity = max 1 (tc_quantity c), oi_limit_price = Some (tc_entry_limit_price c)\<rparr>"

definition bool_text :: "bool \<Rightarrow> string" where
  "bool_text b = (if b then ''True'' else ''False'')"

definition submit_entry :: "engine_env \<Rightarrow> 'b broker_ops \<Rightarrow> trade_candidate \<Rightarrow> ('b engine, broker_order) run" where
  "submit_entry env ops c =
     run_bind (transition ENTERING []) (\<lambda>_.
     run_bind draw (\<lambda>n.
     run_bind (on_broker (br_submit ops (entry_intent env n c))) (\<lambda>ord.
     run_bind (run_modify (\<lambda>s. s\<lparr>re_last_order := Some ord\<rparr>)) (\<lambda>_.
       if bo_status ord = Rejected
       then run_bind (transition WATCHING [(''order_rejected'', [bo_order_id ord])]) (\<lambda>_. run_ret ord)
       else run_bind (transition OPEN_POSITION
                        [(''order_id'', [bo_order_id ord]), (''order_status'', [broker_status_text (bo_status ord)]),
                         (''pending_fill'', [bool_text (bo_status ord \<in> {Open, Pending})])]) (\<lambda>_. run_ret ord)))))"

definition on_signal ::
  "engine_env \<Rightarrow> 'b broker_ops \<Rightarrow> trade_candidate \<Rightarrow> daily_state \<Rightarrow> ('b engine, risk_decision) run" where
  "on_signal env ops c d =
     run_bind (evaluate_signal env ops c d) (\<lambda>decision.
       if \<not> rd_approved decision then run_ret decision
       else run_bind (submit_entry env ops c) (\<lambda>_. run_ret decision))"

section \<open>The machine as a step relation\<close>

text \<open>One call of a method of the engine by its owner.\<close>

inductive engine_step :: "engine_env \<Rightarrow> 'b broker_ops \<Rightarrow> 'b engine \<Rightarrow> 'b engine \<Rightarrow> bool"
  for env :: engine_env and ops :: "'b broker_ops" where
  move: "engine_step env ops s (snd (transition new payload s))"
| arm: "engine_step env ops s (snd (arm_playbook pb s))"
| assess: "engine_step env ops s (snd (evaluate_signal env ops c d s))"
| enter: "engine_step env ops s (snd (submit_entry env ops c s))"
| signal: "engine_step env ops s (snd (on_signal env ops c d s))"

inductive_simps engine_step_simps: "engine_step env ops s s'"

inductive engine_run :: "engine_env \<Rightarrow> 'b broker_ops \<Rightarrow> 'b engine \<Rightarrow> 'b engine \<Rightarrow> bool"
  for env :: engine_env and ops :: "'b broker_ops" where
  start: "engine_run env ops (new_engine g b) (new_engine g b)"
| step: "engine_run env ops s0 s \<Longrightarrow> engine_step env ops s s' \<Longrightarrow> engine_run env ops s0 s'"

text \<open>The log is a path of the transition table from \<open>IDLE\<close> to the present state.\<close>

definition allowed :: "log_entry \<Rightarrow> bool" where
  "allowed e \<longleftrightarrow> lg_to e = lg_from e \<or> lg_to e \<in> valid_transitions (lg_from e)"

fun path_between :: "trading_state \<Rightarrow> log_entry list \<Rightarrow> trading_state \<Rightarrow> bool" where
  "path_between a [] b \<longleftrightarrow> a = b"
| "path_between a (e # es) b \<longleftrightarrow> lg_from e = a \<and> allowed e \<and> path_between (lg_to e) es b"

lemma path_between_snoc:
  "path_between a (es @ [e]) b \<longleftrightarrow> path_between a es (lg_from e) \<and> allowed e \<and> lg_to e = b"
  by (induction es arbitrary: a) auto

definition engine_ok :: "'b engine \<Rightarrow> bool" where
  "engine_ok s \<longleftrightarrow> path_between IDLE (re_log s) (re_state s) \<and> (\<forall>pb. re_playbook s = Some pb \<longrightarrow> pk_approved pb)"

lemma transition_ok [preserve_intros]: "preserves engine_ok (transition new payload)"
  by (rule preservesI) (auto simp: engine_ok_def transition_def run_raise_def run_ret_def path_between_snoc allowed_def)

lemma on_broker_ok [preserve_intros]: "preserves engine_ok (on_broker m)"
  by (rule preservesI) (auto simp: engine_ok_def on_broker_def split: prod.splits)

lemma engine_draw_ok [preserve_intros]: "preserves engine_ok draw"
  by (rule preservesI) (simp add: engine_ok_def draw_def run_ret_def)

lemma on_governor_ok [preserve_intros]: "preserves engine_ok (on_governor f)"
  by (rule preservesI) (auto simp: engine_ok_def on_governor_def run_ret_def split: prod.splits)

lemma engine_ops_ok:
  "preserves engine_ok (arm_playbook pb)" "preserves engine_ok (evaluate_signal env ops c d)"
  "preserves engine_ok (submit_entry env ops c)" "preserves engine_ok (on_signal env ops c d)"
proof -
  show arm: "preserves engine_ok (arm_playbook pb)"
    unfolding arm_playbook_def
    by (cases "pk_approved pb") (auto intro!: preserve_intros preserves_modify simp: engine_ok_def)
  show assess: "preserves engine_ok (evaluate_signal env ops c d)"
    unfolding evaluate_signal_def judge_def by (intro preserve_intros)
  show enter: "preserves engine_ok (submit_entry env ops c)"
    unfolding submit_entry_def by (intro preserve_intros preserves_modify) (simp add: engine_ok_def)
  show "preserves engine_ok (on_signal env ops c d)"
    unfolding on_signal_def by (intro preserve_intros assess enter)
qed

lemma engine_step_ok: "engine_step env ops s s' \<Longrightarrow> engine_ok s \<Longrightarrow> engine_ok s'"
  by (erule engine_step.cases) (auto intro: preservesD transition_ok engine_ops_ok)


section \<open>The outcome of a signal\<close>

lemma transition_Inr:
  "transition new payload s = (Inr u, s') \<longleftrightarrow>
     (new \<in> valid_transitions (re_state s) \<or> re_state s = new) \<and>
     s' = s\<lparr>re_state := new, re_log := re_log s @ [\<lparr>lg_from = re_state s, lg_to = new, lg_payload = payload\<rparr>]\<rparr>"
  by (auto simp: transition_def run_raise_def run_ret_def)

lemma on_broker_Inr: "on_broker m s = (Inr a, s') \<longleftrightarrow> (\<exists>b. m (re_broker s) = (Inr a, b) \<and> s' = s\<lparr>re_broker := b\<rparr>)"
  by (auto simp: on_broker_def split: prod.splits)

lemma draw_Inr: "draw s = (Inr n, s') \<longleftrightarrow> n = re_draws s \<and> s' = s\<lparr>re_draws := Suc n\<rparr>"
  by (auto simp: draw_def run_ret_def)

lemma on_governor_Inr:
  "on_governor f s = (Inr a, s') \<longleftrightarrow> a = fst (f (re_governor s)) \<and> s' = s\<lparr>re_governor := snd (f (re_governor s))\<rparr>"
  by (auto simp: on_governor_def run_ret_def split: prod.splits)

lemma run_unit_Inr:
  "run_ret a s = (Inr b, s') \<longleftrightarrow> b = a \<and> s' = s" "run_modify f s = (Inr u, s') \<longleftrightarrow> s' = f s"
  by (auto simp: run_ret_def run_modify_def)

lemmas engine_op_simps = run_bind_Inr transition_Inr on_broker_Inr draw_Inr on_governor_Inr run_unit_Inr

lemma evaluate_verdict:
  "rd_approved (fst (evaluate c d unresolved now g)) \<longleftrightarrow> evaluate_reasons g c d unresolved now = []"
  "rd_reason_codes (fst (evaluate c d unresolved now g)) = evaluate_reasons g c d unresolved now"
  by (simp_all add: evaluate_def Let_def)

lemma judge_Inr:
  "judge env ops c d s = (Inr dec, s') \<longleftrightarrow>
     (\<exists>opens b. br_list_open ops (re_broker s) = (Inr opens, b) \<and>
        dec = fst (evaluate c d (opens \<noteq> []) (ee_now env (re_draws s)) (re_governor s)) \<and>
        s' = s\<lparr>re_broker := b, re_draws := Suc (re_draws s),
               re_governor := snd (evaluate c d (opens \<noteq> []) (ee_now env (re_draws s)) (re_governor s))\<rparr>)"
  by (auto simp: judge_def engine_op_simps)

lemma evaluate_signal_returns:
  assumes "evaluate_signal env ops c d s = (Inr dec, s')"
  shows "\<exists>opens b n. br_list_open ops (re_broker s) = (Inr opens, b) \<and>
    dec = fst (evaluate c d (opens \<noteq> []) (ee_now env n) (re_governor s)) \<and>
    re_governor s' = snd (evaluate c d (opens \<noteq> []) (ee_now env n) (re_governor s)) \<and>
    re_broker s' = b \<and> re_last_order s' = re_last_order s \<and> re_playbook s' = re_playbook s \<and>
    re_state s' = (if rd_approved dec then RISK_CHECK else WATCHING)"
proof -
  obtain s1 s2 dec' s3 where t: "transition SIGNAL_DETECTED [(''candidate_id'', [tc_candidate_id c])] s = (Inr (), s1)"
      "transition RISK_CHECK [] s1 = (Inr (), s2)"
    and j: "judge env ops c d s2 = (Inr dec', s3)"
    and fin: "(if rd_approved dec' then run_ret dec'
               else run_bind (transition WATCHING [(''rejected'', rd_reason_codes dec')]) (\<lambda>_. run_ret dec')) s3 = (Inr dec, s')"
    using assms unfolding evaluate_signal_def run_bind_Inr by auto
  have s2: "re_broker s2 = re_broker s" "re_governor s2 = re_governor s" "re_last_order s2 = re_last_order s"
    "re_playbook s2 = re_playbook s" "re_state s2 = RISK_CHECK"
    using t by (auto simp: transition_Inr)
  have "dec' = dec" "re_state s' = (if rd_approved dec then re_state s3 else WATCHING)" "re_broker s' = re_broker s3"
    "re_governor s' = re_governor s3" "re_last_order s' = re_last_order s3" "re_playbook s' = re_playbook s3"
    using fin by (auto simp: engine_op_simps split: if_splits)
  with j s2 show ?thesis unfolding judge_Inr by auto
qed

lemma submit_entry_returns:
  assumes "submit_entry env ops c s = (Inr ord, s')"
  shows "\<exists>n b. br_submit ops (entry_intent env n c) (re_broker s) = (Inr ord, b) \<and> re_broker s' = b \<and>
    re_governor s' = re_governor s \<and> re_playbook s' = re_playbook s \<and> re_last_order s' = Some ord \<and>
    re_state s' = (if bo_status ord = Rejected then WATCHING else OPEN_POSITION)"
proof -
  obtain s1 b ord' s4 where t: "transition ENTERING [] s = (Inr (), s1)"
    and sub: "br_submit ops (entry_intent env (re_draws s1) c) (re_broker s1) = (Inr ord', b)"
    and s4: "s4 = s1\<lparr>re_draws := Suc (re_draws s1), re_broker := b, re_last_order := Some ord'\<rparr>"
    and fin: "(if bo_status ord' = Rejected
               then run_bind (transition WATCHING [(''order_rejected'', [bo_order_id ord'])]) (\<lambda>_. run_ret ord')
               else run_bind (transition OPEN_POSITION
                      [(''order_id'', [bo_order_id ord']), (''order_status'', [broker_status_text (bo_status ord')]),
                       (''pending_fill'', [bool_text (bo_status ord' \<in> {Open, Pending})])]) (\<lambda>_. run_ret ord')) s4 = (Inr ord, s')"
    using assms unfolding submit_entry_def run_bind_Inr [where m = "transition ENTERING []"] run_bind_Inr [where m = draw]
      run_bind_Inr [where m = "on_broker m" for m] run_bind_Inr [where m = "run_modify f" for f] on_broker_Inr draw_Inr run_unit_Inr
    by auto
  have s1: "re_broker s1 = re_broker s" "re_governor s1 = re_governor s" "re_playbook s1 = re_playbook s"
    using t by (auto simp: transition_Inr)
  have "ord' = ord" "re_state s' = (if bo_status ord = Rejected then WATCHING else OPEN_POSITION)" "re_broker s' = b"
    "re_governor s' = re_governor s1" "re_last_order s' = Some ord" "re_playbook s' = re_playbook s1"
    using fin by (auto simp: engine_op_simps s4 split: if_splits)
  with sub s1 show ?thesis by auto
qed

lemma unresolved_blocks: "evaluate_reasons g c d True now \<noteq> []"
  by (simp add: evaluate_reasons_def flag_if_def Let_def)

text \<open>
  A signal sends at most one order and only past the governor: a rejected signal names a
  reason, leaves the engine watching and touches the broker only to list its open orders; an approved
  one found no open order at the broker, was not approved before, and submitted one limit buy of the
  candidate at its entry price, after which the engine is in a position unless the broker rejected it.
\<close>

theorem signal_outcome:
  assumes "on_signal env ops c d s = (Inr dec, s')"
  shows "\<exists>opens b. br_list_open ops (re_broker s) = (Inr opens, b) \<and>
    (\<not> rd_approved dec \<longrightarrow>
       rd_reason_codes dec \<noteq> [] \<and> re_state s' = WATCHING \<and> re_broker s' = b \<and> re_last_order s' = re_last_order s \<and>
       re_governor s' = re_governor s) \<and>
    (rd_approved dec \<longrightarrow>
       opens = [] \<and> tc_candidate_id c \<notin> gv_seen (re_governor s) \<and> tc_candidate_id c \<in> gv_seen (re_governor s') \<and>
       (\<exists>n ord. br_submit ops (entry_intent env n c) b = (Inr ord, re_broker s') \<and> re_last_order s' = Some ord \<and>
          re_state s' = (if bo_status ord = Rejected then WATCHING else OPEN_POSITION)))"
proof -
  obtain s1 where ev: "evaluate_signal env ops c d s = (Inr dec, s1)"
    and rest: "(if \<not> rd_approved dec then run_ret dec else run_bind (submit_entry env ops c) (\<lambda>_. run_ret dec)) s1 = (Inr dec, s')"
    using assms unfolding on_signal_def run_bind_Inr by (auto simp: run_bind_Inr run_ret_def split: if_splits)
  obtain opens b n where o: "br_list_open ops (re_broker s) = (Inr opens, b)" "re_broker s1 = b"
    and dec: "dec = fst (evaluate c d (opens \<noteq> []) (ee_now env n) (re_governor s))"
    and gov: "re_governor s1 = snd (evaluate c d (opens \<noteq> []) (ee_now env n) (re_governor s))"
    and kept: "re_last_order s1 = re_last_order s" and st: "re_state s1 = (if rd_approved dec then RISK_CHECK else WATCHING)"
    using evaluate_signal_returns [OF ev] by blast
  show ?thesis
  proof (cases "rd_approved dec")
    case False
    then have "evaluate_reasons (re_governor s) c d (opens \<noteq> []) (ee_now env n) \<noteq> []" by (simp add: dec evaluate_verdict)
    then have "rd_reason_codes dec \<noteq> []" "re_governor s1 = re_governor s"
      by (simp_all add: dec gov evaluate_verdict) (simp add: evaluate_def Let_def)
    then show ?thesis using False rest o kept st by (auto simp: run_ret_def)
  next
    case True
    then have clear: "evaluate_reasons (re_governor s) c d (opens \<noteq> []) (ee_now env n) = []" by (simp add: dec evaluate_verdict)
    have none: "opens = []"
    proof (rule ccontr)
      assume "opens \<noteq> []"
      then show False using clear unresolved_blocks [of "re_governor s" c d "ee_now env n"] by simp
    qed
    have fresh: "tc_candidate_id c \<notin> gv_seen (re_governor s)"
      using clear by (simp add: evaluate_reasons_def flag_if_def Let_def split: if_splits)
    obtain ord where "submit_entry env ops c s1 = (Inr ord, s')"
      using True rest by (auto simp: run_bind_Inr run_ret_def)
    note sub = submit_entry_returns [OF this]
    have "tc_candidate_id c \<in> gv_seen (re_governor s1)"
      using clear by (simp add: gov evaluate_def Let_def)
    then show ?thesis using True none fresh o sub by auto
  qed
qed

text \<open>
  The engine judges signals only while it is watching: from every state but \<open>WATCHING\<close>,
  \<open>SETUP_ARMED\<close> and \<open>SIGNAL_DETECTED\<close> a signal raises \<open>StateMachineError\<close> and changes nothing, the
  cool-down after an exit included.
\<close>

theorem signal_needs_watching:
  assumes "re_state s \<notin> {WATCHING, SETUP_ARMED, SIGNAL_DETECTED}"
  shows "on_signal env ops c d s = (Inl StateMachineError, s) \<and> evaluate_signal env ops c d s = (Inl StateMachineError, s)"
proof -
  have "SIGNAL_DETECTED \<notin> valid_transitions (re_state s)" using assms by (cases "re_state s") simp_all
  then have "evaluate_signal env ops c d s = (Inl StateMachineError, s)"
    using assms by (auto simp: evaluate_signal_def run_bind_def transition_def run_raise_def)
  then show ?thesis by (simp add: on_signal_def run_bind_def)
qed

text \<open>
  An entry whose order the broker fails to take (its \<open>submit_order\<close> raises) leaves the
  engine in \<open>ENTERING\<close>, with the error passed on: it is neither back to watching nor in a position, and
  no later signal is accepted.
\<close>

theorem failed_submission_leaves_entering:
  assumes "re_state s = RISK_CHECK" "\<And>i b. \<exists>b'. br_submit ops i b = (Inl e, b')"
  shows "\<exists>s'. submit_entry env ops c s = (Inl e, s') \<and> re_state s' = ENTERING \<and> re_last_order s' = re_last_order s \<and>
    (\<forall>c' d. on_signal env ops c' d s' = (Inl StateMachineError, s'))"
proof -
  obtain s1 where t: "transition ENTERING [] s = (Inr (), s1)" "re_state s1 = ENTERING" "re_last_order s1 = re_last_order s"
    using assms(1) by (simp add: transition_def run_ret_def)
  obtain b' where b': "br_submit ops (entry_intent env (re_draws s1) c) (re_broker s1) = (Inl e, b')" using assms(2) by blast
  let ?s' = "s1\<lparr>re_draws := Suc (re_draws s1), re_broker := b'\<rparr>"
  have "submit_entry env ops c s = (Inl e, ?s')"
    using b' by (simp add: submit_entry_def run_bind_def t draw_def run_ret_def on_broker_def)
  moreover have "SIGNAL_DETECTED \<notin> valid_transitions (re_state ?s')" "re_state ?s' \<noteq> SIGNAL_DETECTED" using t by simp_all
  then have "on_signal env ops c' d ?s' = (Inl StateMachineError, ?s')" for c' d
    by (simp add: on_signal_def evaluate_signal_def run_bind_def transition_def run_raise_def)
  ultimately show ?thesis using t by (intro exI [of _ ?s']) simp
qed

section \<open>Witnesses\<close>

definition demo_engine_env :: engine_env where
  "demo_engine_env = \<lparr>ee_uuid = (\<lambda>n. ''u''), ee_now = (\<lambda>n. at_utc (10 * usec))\<rparr>"

definition demo_engine :: "paper_broker engine" where
  "demo_engine = snd (arm_playbook demo_playbook (new_engine risk_governor (new_paper_broker 1000 0 5)))"

lemma demo_engine_run: "engine_run demo_engine_env ops (new_engine risk_governor (new_paper_broker 1000 0 5)) demo_engine"
  unfolding demo_engine_def by (intro engine_run.step [OF engine_run.start] engine_step.arm)


theorem signal_outcome_witness:
  "\<exists>dec s'. on_signal demo_engine_env (paper_ops demo_env) risk_candidate quiet_day demo_engine = (Inr dec, s') \<and>
     rd_approved dec \<and> tc_candidate_id risk_candidate \<in> gv_seen (re_governor s') \<and> re_state s' = OPEN_POSITION"
proof -
  let ?r = "on_signal demo_engine_env (paper_ops demo_env) risk_candidate quiet_day demo_engine"
  have "case ?r of (Inl _, _) \<Rightarrow> False | (Inr dec, s') \<Rightarrow> rd_approved dec \<and> re_state s' = OPEN_POSITION"
    by code_simp
  then obtain dec s' where r: "?r = (Inr dec, s')" "rd_approved dec" "re_state s' = OPEN_POSITION"
    by (auto split: prod.splits sum.splits)
  have "tc_candidate_id risk_candidate \<in> gv_seen (re_governor s')" using signal_outcome [OF r(1)] r(2) by blast
  with r show ?thesis by (intro exI conjI)
qed

theorem signal_needs_watching_witness:
  "on_signal demo_engine_env (paper_ops demo_env) risk_candidate quiet_day (demo_engine\<lparr>re_state := COOLDOWN\<rparr>) =
     (Inl StateMachineError, demo_engine\<lparr>re_state := COOLDOWN\<rparr>)"
  by (rule signal_needs_watching [THEN conjunct1]) simp

theorem failed_submission_leaves_entering_witness:
  "\<exists>s'. submit_entry demo_engine_env ((paper_ops demo_env)\<lparr>br_submit := \<lambda>i. run_raise RuntimeError\<rparr>) risk_candidate
          (demo_engine\<lparr>re_state := RISK_CHECK\<rparr>) = (Inl RuntimeError, s') \<and> re_state s' = ENTERING"
  using failed_submission_leaves_entering [of "demo_engine\<lparr>re_state := RISK_CHECK\<rparr>"
      "(paper_ops demo_env)\<lparr>br_submit := \<lambda>i. run_raise RuntimeError\<rparr>" RuntimeError demo_engine_env risk_candidate]
  by (auto simp: run_raise_def)

end
