(* ===== verification/Capital.thy ===== *)
theory Capital
  imports Domain
begin

text \<open>
  The session capital budget of \<open>joker/risk/capital.py\<close>: the confirmed plan with its checks, the
  budget's mutable fields, the goal-adaptive aggression cap, the deterministic sizing \<open>allocate\<close> and
  the reservation ledger. Numbers printed inside error messages are left out of the messages.
\<close>

section \<open>Plan\<close>

record capital_plan =
  cp_authorized_usd :: pyfloat
  cp_target_profit_pct :: pyfloat
  cp_max_concurrent_positions :: int
  cp_max_contracts_per_trade :: int
  cp_min_contracts_per_trade :: int
  cp_goal_label :: string
  cp_confirmed_at :: datetime
  cp_aggression_mode :: string
  cp_max_kelly_fraction :: pyfloat
  cp_min_win_probability :: pyfloat
  cp_behind_goal_boost :: pyfloat
  cp_ahead_goal_dampen :: pyfloat

definition build_capital_plan :: "capital_plan \<Rightarrow> py_error + capital_plan" where
  "build_capital_plan p =
     (if cp_authorized_usd p \<le> 0 then Inl (CapitalError ''authorized_usd must be > 0'')
      else if cp_target_profit_pct p < 0 then Inl (CapitalError ''target_profit_pct must be >= 0'')
      else if cp_max_concurrent_positions p < 1 then Inl (CapitalError ''max_concurrent_positions must be >= 1'')
      else if cp_max_contracts_per_trade p < 1 then Inl (CapitalError ''max_contracts_per_trade must be >= 1'')
      else if cp_min_contracts_per_trade p < 1 then Inl (CapitalError ''min_contracts_per_trade must be >= 1'')
      else if cp_max_contracts_per_trade p < cp_min_contracts_per_trade p
      then Inl (CapitalError ''min_contracts_per_trade > max_contracts_per_trade'')
      else Inr p)"

definition plan_target_profit_usd :: "capital_plan \<Rightarrow> pyfloat" where
  "plan_target_profit_usd p = cp_authorized_usd p * (cp_target_profit_pct p / 100)"

section \<open>Budget\<close>

record capital_budget =
  cb_plan :: capital_plan
  cb_reserved_usd :: pyfloat
  cb_realized_pnl_usd :: pyfloat
  cb_trades_opened :: int
  cb_open_positions :: int

definition new_budget :: "capital_plan \<Rightarrow> capital_budget" where
  "new_budget p = \<lparr>cb_plan = p, cb_reserved_usd = 0, cb_realized_pnl_usd = 0, cb_trades_opened = 0, cb_open_positions = 0\<rparr>"

definition available_usd :: "capital_budget \<Rightarrow> pyfloat" where
  "available_usd b = max 0 (cp_authorized_usd (cb_plan b) - cb_reserved_usd b)"

definition progress_to_goal_pct :: "capital_budget \<Rightarrow> pyfloat" where
  "progress_to_goal_pct b =
     (let goal = plan_target_profit_usd (cb_plan b) in
      if goal \<le> 0 then (if 0 \<le> cb_realized_pnl_usd b then 100 else 0)
      else max 0 (min 200 (cb_realized_pnl_usd b / goal * 100)))"

definition goal_met :: "capital_budget \<Rightarrow> bool" where
  "goal_met b \<longleftrightarrow> plan_target_profit_usd (cb_plan b) \<le> cb_realized_pnl_usd b"

definition goal_gap_pct :: "capital_budget \<Rightarrow> pyfloat" where
  "goal_gap_pct b = 100 - progress_to_goal_pct b"

definition aggression_cap :: "pyfloat option \<Rightarrow> capital_budget \<Rightarrow> pyfloat" where
  "aggression_cap minutes_to_close b =
     (let base = cp_max_kelly_fraction (cb_plan b) in
      if cp_aggression_mode (cb_plan b) \<noteq> ''goal_adaptive'' then base
      else
        let progress = progress_to_goal_pct b;
            cap1 = (if progress < 50
                    then min (85 / 100) (base + cp_behind_goal_boost (cb_plan b) * ((50 - progress) / 50))
                    else if 100 \<le> progress then min base (15 / 100)
                    else if 80 \<le> progress then max (15 / 100) (base - cp_ahead_goal_dampen (cb_plan b))
                    else base);
            cap2 = (case minutes_to_close of
                      None \<Rightarrow> cap1
                    | Some m \<Rightarrow> if m < 30 then min cap1 (25 / 100)
                                else if m < 60 then min cap1 (max (2 / 10) base) else cap1)
        in max (5 / 100) (min (85 / 100) cap2))"

text \<open>The stance \<open>prompt_dict\<close> reports to the agents.\<close>

definition prompt_stance :: "capital_budget \<Rightarrow> string" where
  "prompt_stance b =
     (if goal_met b then ''defend_pause''
      else if 80 \<le> progress_to_goal_pct b then ''defend''
      else if progress_to_goal_pct b < 40 then ''hunt_aggressive''
      else ''hunt'')"

definition can_open_position :: "capital_budget \<Rightarrow> bool" where
  "can_open_position b \<longleftrightarrow> cb_open_positions b < cp_max_concurrent_positions (cb_plan b)"

definition premium_cost_usd :: "pyfloat \<Rightarrow> int \<Rightarrow> pyfloat" where
  "premium_cost_usd premium quantity = max 0 premium * 100 * of_int (max 0 quantity)"

definition max_affordable_contracts :: "pyfloat \<Rightarrow> capital_budget \<Rightarrow> int" where
  "max_affordable_contracts premium b =
     (if premium \<le> 0 then 0
      else max 0 (min \<lfloor>available_usd b / (premium * 100)\<rfloor> (cp_max_contracts_per_trade (cb_plan b))))"

section \<open>Sizing\<close>

datatype allocation_style = Style_Auto | Style_Aggressive | Style_Split | Style_Conservative

record allocation_request =
  ar_premium_per_contract :: pyfloat
  ar_capital_fraction :: "pyfloat option"
  ar_target_contracts :: "int option"
  ar_confidence :: pyfloat
  ar_style :: allocation_style
  ar_win_probability :: "pyfloat option"
  ar_expected_value_usd :: "pyfloat option"
  ar_expected_r :: "pyfloat option"
  ar_minutes_to_close :: "pyfloat option"

record allocation_result =
  al_quantity :: int
  al_notional_usd :: pyfloat
  al_remaining_after_usd :: pyfloat
  al_reason :: string
  al_capital_fraction_used :: pyfloat
  al_aggression_cap :: pyfloat
  al_ev_gate :: string

definition no_allocation :: "capital_budget \<Rightarrow> pyfloat \<Rightarrow> string \<Rightarrow> string \<Rightarrow> allocation_result" where
  "no_allocation b agg reason gate =
     \<lparr>al_quantity = 0, al_notional_usd = 0, al_remaining_after_usd = available_usd b, al_reason = reason,
      al_capital_fraction_used = 0, al_aggression_cap = agg, al_ev_gate = gate\<rparr>"

definition base_fraction :: "allocation_request \<Rightarrow> pyfloat" where
  "base_fraction r =
     (case ar_capital_fraction r of
        Some f \<Rightarrow> max 0 (min 1 f)
      | None \<Rightarrow>
          (case ar_style r of
             Style_Aggressive \<Rightarrow> min 1 (7 / 10 + 3 / 10 * ar_confidence r)
           | Style_Conservative \<Rightarrow> min (35 / 100) (15 / 100 + 25 / 100 * ar_confidence r)
           | Style_Split \<Rightarrow> min (55 / 100) (25 / 100 + 4 / 10 * ar_confidence r)
           | Style_Auto \<Rightarrow> min (85 / 100) (2 / 10 + 7 / 10 * ar_confidence r)))"

definition scaled_fraction :: "allocation_request \<Rightarrow> pyfloat \<Rightarrow> pyfloat" where
  "scaled_fraction r frac0 =
     (let frac1 = (case ar_expected_r r of
                     Some er \<Rightarrow> if 0 < er then min 1 (frac0 * min (15 / 10) (5 / 10 + er / 2)) else frac0
                   | None \<Rightarrow> frac0)
      in case ar_win_probability r of
           None \<Rightarrow> frac1
         | Some p \<Rightarrow>
             (case ar_expected_r r of
                Some er \<Rightarrow>
                  if 0 < er
                  then let kelly = max 0 (p - (1 - p) / max er (1 / 10)) in min frac1 (max (5 / 100) kelly)
                  else frac1 * (5 / 10 + 5 / 10 * p)
              | None \<Rightarrow> frac1 * (5 / 10 + 5 / 10 * p)))"

definition allocate :: "allocation_request \<Rightarrow> capital_budget \<Rightarrow> allocation_result" where
  "allocate r b =
     (let agg = aggression_cap (ar_minutes_to_close r) b;
          premium = ar_premium_per_contract r;
          minc = cp_min_contracts_per_trade (cb_plan b)
      in if \<not> can_open_position b then no_allocation b agg ''max_concurrent_positions'' []
         else if premium \<le> 0 then no_allocation b agg ''invalid_premium'' []
         else if (case ar_expected_value_usd r of None \<Rightarrow> False | Some ev \<Rightarrow> ev \<le> 0)
         then no_allocation b agg ''ev_non_positive'' ''ev<=0''
         else if (case ar_win_probability r of None \<Rightarrow> False | Some p \<Rightarrow> p < cp_min_win_probability (cb_plan b))
         then no_allocation b agg ''win_probability_low'' (''p_win<'' @ float_text (cp_min_win_probability (cb_plan b)))
         else
           let max_qty = max_affordable_contracts premium b in
           if max_qty < minc then no_allocation b agg ''insufficient_capital'' []
           else
             let frac = min (scaled_fraction r (base_fraction r)) agg;
                 desired = (case ar_target_contracts r of
                              Some n \<Rightarrow> n
                            | None \<Rightarrow> \<lfloor>available_usd b * frac / (premium * 100)\<rfloor>);
                 qty0 = max 0 (min desired max_qty)
             in if qty0 < minc \<and> \<not> (0 < frac \<and> minc \<le> max_qty) then no_allocation b agg ''qty_below_min'' []
                else
                  let qty = (if qty0 < minc then minc else qty0);
                      notional = premium_cost_usd premium qty
                  in if available_usd b + 1 / 1000000 < notional then no_allocation b agg ''capital_exceeded'' []
                     else \<lparr>al_quantity = qty, al_notional_usd = notional,
                           al_remaining_after_usd = available_usd b - notional, al_reason = ''ok'',
                           al_capital_fraction_used = (if 0 < available_usd b then notional / available_usd b else 0),
                           al_aggression_cap = agg, al_ev_gate = ''ok''\<rparr>)"

section \<open>Reservations\<close>

definition reserve :: "pyfloat \<Rightarrow> (capital_budget, unit) run" where
  "reserve notional b =
     (if notional < 0 then run_raise (CapitalError ''cannot reserve negative notional'') b
      else if available_usd b + 1 / 1000000 < notional
      then run_raise (CapitalError ''reserve exceeds available'') b
      else run_ret () (b\<lparr>cb_reserved_usd := cb_reserved_usd b + notional,
                         cb_open_positions := cb_open_positions b + 1,
                         cb_trades_opened := cb_trades_opened b + 1\<rparr>))"

definition release :: "pyfloat \<Rightarrow> pyfloat \<Rightarrow> capital_budget \<Rightarrow> capital_budget" where
  "release notional realized b =
     b\<lparr>cb_reserved_usd := max 0 (cb_reserved_usd b - max 0 notional),
       cb_open_positions := max 0 (cb_open_positions b - 1),
       cb_realized_pnl_usd := cb_realized_pnl_usd b + realized\<rparr>"

section \<open>Properties\<close>

definition plan_ok :: "capital_plan \<Rightarrow> bool" where
  "plan_ok p \<longleftrightarrow> (\<exists>q. build_capital_plan q = Inr p)"

lemma plan_ok_sel:
  assumes "plan_ok p"
  shows "0 < cp_authorized_usd p" "0 \<le> cp_target_profit_pct p" "1 \<le> cp_max_concurrent_positions p"
    "1 \<le> cp_min_contracts_per_trade p" "cp_min_contracts_per_trade p \<le> cp_max_contracts_per_trade p"
  using assms by (auto simp: plan_ok_def build_capital_plan_def split: if_splits)

lemma affordable_cost:
  assumes "0 < premium" "0 \<le> q" "q \<le> max_affordable_contracts premium b"
  shows "premium_cost_usd premium q \<le> available_usd b"
proof (cases "q = 0")
  case True
  then show ?thesis by (simp add: premium_cost_usd_def available_usd_def)
next
  case False
  then have "q \<le> \<lfloor>available_usd b / (premium * 100)\<rfloor>"
    using assms by (auto simp: max_affordable_contracts_def)
  then have "of_int q \<le> available_usd b / (premium * 100)" by (simp add: le_floor_iff)
  then have "of_int q * (premium * 100) \<le> available_usd b" using assms(1) by (simp add: pos_le_divide_eq)
  then show ?thesis using assms(1,2) by (simp add: premium_cost_usd_def mult.commute mult.left_commute)
qed

text \<open>The two kinds of result.\<close>

lemma allocate_cases:
  assumes "1 \<le> cp_min_contracts_per_trade (cb_plan b)"
  obtains (refused) agg reason gate where "allocate r b = no_allocation b agg reason gate" "reason \<noteq> ''ok''"
  | (sized) qty where "can_open_position b" "0 < ar_premium_per_contract r"
      "cp_min_contracts_per_trade (cb_plan b) \<le> qty" "qty \<le> max_affordable_contracts (ar_premium_per_contract r) b"
      "al_quantity (allocate r b) = qty" "al_reason (allocate r b) = ''ok''"
      "al_notional_usd (allocate r b) = premium_cost_usd (ar_premium_per_contract r) qty"
      "al_remaining_after_usd (allocate r b) = available_usd b - premium_cost_usd (ar_premium_per_contract r) qty"
proof -
  let ?prem = "ar_premium_per_contract r" and ?minc = "cp_min_contracts_per_trade (cb_plan b)"
  let ?max = "max_affordable_contracts ?prem b" and ?agg = "aggression_cap (ar_minutes_to_close r) b"
  define frac where "frac = min (scaled_fraction r (base_fraction r)) ?agg"
  define desired where "desired = (case ar_target_contracts r of
      Some n \<Rightarrow> n | None \<Rightarrow> \<lfloor>available_usd b * frac / (?prem * 100)\<rfloor>)"
  define qty0 where "qty0 = max 0 (min desired ?max)"
  define qty where "qty = (if qty0 < ?minc then ?minc else qty0)"
  define evbad where "evbad = (case ar_expected_value_usd r of None \<Rightarrow> False | Some ev \<Rightarrow> ev \<le> 0)"
  define wpbad where "wpbad = (case ar_win_probability r of None \<Rightarrow> False | Some p \<Rightarrow> p < cp_min_win_probability (cb_plan b))"
  note defs = allocate_def Let_def frac_def [symmetric] desired_def [symmetric] qty0_def [symmetric] qty_def [symmetric]
    evbad_def [symmetric] wpbad_def [symmetric]
  consider "\<not> can_open_position b" | "can_open_position b" "?prem \<le> 0"
    | "can_open_position b" "0 < ?prem" "evbad" | "can_open_position b" "0 < ?prem" "\<not> evbad" "wpbad"
    | "can_open_position b" "0 < ?prem" "\<not> evbad" "\<not> wpbad" "?max < ?minc"
    | "can_open_position b" "0 < ?prem" "\<not> evbad" "\<not> wpbad" "?minc \<le> ?max" "qty0 < ?minc" "\<not> 0 < frac"
    | "can_open_position b" "0 < ?prem" "\<not> evbad" "\<not> wpbad" "?minc \<le> ?max" "\<not> (qty0 < ?minc \<and> \<not> 0 < frac)"
    by linarith
  then show thesis
  proof cases
    case 6
    have "\<not> ?max < ?minc" "\<not> ?prem \<le> 0" using 6 by simp_all
    then have "allocate r b = no_allocation b ?agg ''qty_below_min'' []"
      unfolding defs using 6 by simp
    then show thesis by (rule refused) simp
  next
    case 7
    have max0: "0 \<le> ?max" using 7(5) assms by simp
    have q: "?minc \<le> qty" "qty \<le> ?max" using 7(5) max0 by (auto simp: qty_def qty0_def)
    have fits: "\<not> available_usd b + 1 / 1000000 < premium_cost_usd ?prem qty"
      using affordable_cost [of ?prem qty b] q assms 7(2) by simp
    have guard: "\<not> (qty0 < ?minc \<and> \<not> (0 < frac \<and> ?minc \<le> ?max))" using 7 by auto
    have eq: "allocate r b = \<lparr>al_quantity = qty, al_notional_usd = premium_cost_usd ?prem qty,
        al_remaining_after_usd = available_usd b - premium_cost_usd ?prem qty, al_reason = ''ok'',
        al_capital_fraction_used = (if 0 < available_usd b then premium_cost_usd ?prem qty / available_usd b else 0),
        al_aggression_cap = ?agg, al_ev_gate = ''ok''\<rparr>"
      unfolding defs using 7(1-5) guard fits by (simp only: if_False if_True not_le not_less simp_thms) simp
    show thesis by (rule sized [OF 7(1,2) q]) (simp_all add: eq)
  qed (rule refused, simp add: defs, simp)+
qed

lemma allocation_cost:
  assumes "plan_ok (cb_plan b)" "al_reason (allocate r b) = ''ok''"
  shows "al_notional_usd (allocate r b) \<le> available_usd b"
proof (rule allocate_cases [OF plan_ok_sel(4) [OF assms(1)], of r])
  fix agg reason gate
  assume "allocate r b = no_allocation b agg reason gate" "reason \<noteq> ''ok''"
  then show ?thesis using assms(2) by (simp add: no_allocation_def)
next
  fix qty
  assume q: "0 < ar_premium_per_contract r" "cp_min_contracts_per_trade (cb_plan b) \<le> qty"
    "qty \<le> max_affordable_contracts (ar_premium_per_contract r) b"
    "al_notional_usd (allocate r b) = premium_cost_usd (ar_premium_per_contract r) qty"
  then show ?thesis using affordable_cost [OF q(1) _ q(3)] plan_ok_sel(4) [OF assms(1)] by simp
qed

text \<open>
  Claim C8. A sizing decision never exceeds the capital that is left: under a validated plan it is either
  a refusal, with quantity and cost zero, or it lies between the plan's bounds on contracts and
  costs, at the stated premium, no more than the available capital.
\<close>

theorem allocation_within_budget:
  assumes "plan_ok (cb_plan b)" "allocate r b = a"
  shows "(al_reason a \<noteq> ''ok'' \<and> al_quantity a = 0 \<and> al_notional_usd a = 0 \<and> al_remaining_after_usd a = available_usd b) \<or>
    (al_reason a = ''ok'' \<and> cp_min_contracts_per_trade (cb_plan b) \<le> al_quantity a \<and>
     al_quantity a \<le> cp_max_contracts_per_trade (cb_plan b) \<and>
     al_notional_usd a = ar_premium_per_contract r * 100 * of_int (al_quantity a) \<and>
     al_notional_usd a \<le> available_usd b \<and>
     al_remaining_after_usd a = available_usd b - al_notional_usd a \<and> can_open_position b)"
proof (rule allocate_cases [of b r])
  show "1 \<le> cp_min_contracts_per_trade (cb_plan b)" by (rule plan_ok_sel [OF assms(1)])
next
  fix agg reason gate
  assume "allocate r b = no_allocation b agg reason gate" "reason \<noteq> ''ok''"
  then show ?thesis using assms(2) by (auto simp: no_allocation_def)
next
  fix qty
  assume q: "can_open_position b" "0 < ar_premium_per_contract r" "cp_min_contracts_per_trade (cb_plan b) \<le> qty"
    "qty \<le> max_affordable_contracts (ar_premium_per_contract r) b" "al_quantity (allocate r b) = qty"
    "al_reason (allocate r b) = ''ok''" "al_notional_usd (allocate r b) = premium_cost_usd (ar_premium_per_contract r) qty"
    "al_remaining_after_usd (allocate r b) = available_usd b - premium_cost_usd (ar_premium_per_contract r) qty"
  have "0 \<le> qty" using plan_ok_sel(4) [OF assms(1)] q(3) by simp
  then have "premium_cost_usd (ar_premium_per_contract r) qty \<le> available_usd b"
    using affordable_cost [OF q(2) _ q(4)] by simp
  moreover have "qty \<le> cp_max_contracts_per_trade (cb_plan b)"
    using q(2,4) plan_ok_sel(4,5) [OF assms(1)] by (auto simp: max_affordable_contracts_def)
  ultimately show ?thesis
    using q \<open>0 \<le> qty\<close> assms(2) by (auto simp: premium_cost_usd_def)
qed

text \<open>
  A target number of contracts is not subject to the aggression cap: once the gates are passed,
  every affordable target from the plan's minimum on is granted in full, whatever fraction of the
  available capital it uses.
\<close>

theorem target_contracts_bypass_aggression_cap:
  assumes "plan_ok (cb_plan b)" "can_open_position b" "0 < ar_premium_per_contract r"
    and "\<And>ev. ar_expected_value_usd r = Some ev \<Longrightarrow> 0 < ev"
    and "\<And>p. ar_win_probability r = Some p \<Longrightarrow> cp_min_win_probability (cb_plan b) \<le> p"
    and "ar_target_contracts r = Some n" "cp_min_contracts_per_trade (cb_plan b) \<le> n"
    and "n \<le> max_affordable_contracts (ar_premium_per_contract r) b"
  shows "al_quantity (allocate r b) = n \<and>
    al_capital_fraction_used (allocate r b) = ar_premium_per_contract r * 100 * of_int n / available_usd b"
proof -
  let ?prem = "ar_premium_per_contract r" and ?minc = "cp_min_contracts_per_trade (cb_plan b)"
  let ?max = "max_affordable_contracts ?prem b"
  have n: "1 \<le> n" using plan_ok_sel(4) [OF assms(1)] assms(7) by simp
  have cost: "premium_cost_usd ?prem n = ?prem * 100 * of_int n" using n assms(3) by (simp add: premium_cost_usd_def)
  have le: "premium_cost_usd ?prem n \<le> available_usd b" using affordable_cost [OF assms(3) _ assms(8)] n by simp
  moreover have "0 < premium_cost_usd ?prem n" using n assms(3) by (simp add: cost)
  ultimately have avail: "0 < available_usd b" by simp
  have ev: "(case ar_expected_value_usd r of None \<Rightarrow> False | Some ev \<Rightarrow> ev \<le> 0) = False"
    using assms(4) by (auto split: option.splits simp: not_le)
  have wp: "(case ar_win_probability r of None \<Rightarrow> False | Some p \<Rightarrow> p < cp_min_win_probability (cb_plan b)) = False"
    using assms(5) by (auto split: option.splits simp: not_less)
  have max: "\<not> ?max < ?minc" "\<not> ?prem \<le> 0" using assms(3,7,8) by simp_all
  have desired: "max 0 (min n ?max) = n" "\<not> n < ?minc" using n assms(7,8) by simp_all
  have fits: "\<not> available_usd b + 1 / 1000000 < premium_cost_usd ?prem n" using le by simp
  show ?thesis
    unfolding allocate_def Let_def ev wp assms(6) option.case desired
    using assms(2) max desired fits avail cost by simp
qed

lemma max_min_bounds: "(lo :: pyfloat) \<le> hi \<Longrightarrow> lo \<le> max lo (min hi x) \<and> max lo (min hi x) \<le> hi"
  by (auto simp: max_def min_def)

text \<open>
  In the goal-adaptive mode the aggression cap always lies between 5 and 85 percent; it is at
  most 15 percent once the goal is reached with the plan's base fraction at least that, and at most
  25 percent in the last half hour.
\<close>

theorem aggression_cap_bounds:
  assumes "cp_aggression_mode (cb_plan b) = ''goal_adaptive''"
  shows "5 / 100 \<le> aggression_cap m b \<and> aggression_cap m b \<le> 85 / 100 \<and>
    (100 \<le> progress_to_goal_pct b \<longrightarrow> aggression_cap m b \<le> 15 / 100) \<and>
    (\<forall>t. m = Some t \<and> t < 30 \<longrightarrow> aggression_cap m b \<le> 25 / 100)"
proof -
  define base where "base = cp_max_kelly_fraction (cb_plan b)"
  define cap1 where "cap1 = (if progress_to_goal_pct b < 50
        then min (85 / 100) (base + cp_behind_goal_boost (cb_plan b) * ((50 - progress_to_goal_pct b) / 50))
        else if 100 \<le> progress_to_goal_pct b then min base (15 / 100)
        else if 80 \<le> progress_to_goal_pct b then max (15 / 100) (base - cp_ahead_goal_dampen (cb_plan b)) else base)"
  define cap2 where "cap2 = (case m of None \<Rightarrow> cap1
        | Some t \<Rightarrow> if t < 30 then min cap1 (25 / 100) else if t < 60 then min cap1 (max (2 / 10) base) else cap1)"
  have eq: "aggression_cap m b = max (5 / 100) (min (85 / 100) cap2)"
    unfolding aggression_cap_def Let_def base_def [symmetric] cap1_def [symmetric] cap2_def [symmetric]
    by (simp add: assms)
  have "cap2 \<le> cap1" by (auto simp: cap2_def split: option.splits)
  then have late: "cap2 \<le> 15 / 100" if "100 \<le> progress_to_goal_pct b" using that by (simp add: cap1_def)
  have "cap2 \<le> 25 / 100" if "m = Some t" "t < 30" for t using that by (simp add: cap2_def)
  then show ?thesis
    using max_min_bounds [of "5 / 100" "85 / 100" cap2] late unfolding eq by (auto simp: max_def min_def)
qed

section \<open>The budget over a session\<close>

text \<open>
  The states of a budget: positions are opened with what \<open>allocate\<close> grants and closed with any
  release.
\<close>

inductive budget_reachable :: "capital_plan \<Rightarrow> capital_budget \<Rightarrow> bool" for p where
  bu_new: "budget_reachable p (new_budget p)"
| bu_open: "budget_reachable p b \<Longrightarrow> al_reason (allocate r b) = ''ok'' \<Longrightarrow>
    budget_reachable p (snd (reserve (al_notional_usd (allocate r b)) b))"
| bu_close: "budget_reachable p b \<Longrightarrow> budget_reachable p (release notional realized b)"

text \<open>
  Claim C9. Over any session of granted openings and releases the reserved capital stays between zero and
  the authorised capital, the number of open positions between zero and the plan's maximum, and every
  granted reservation succeeds.
\<close>

theorem budget_never_overcommitted:
  assumes "budget_reachable p b" "plan_ok p"
  shows "cb_plan b = p \<and> 0 \<le> cb_reserved_usd b \<and> cb_reserved_usd b \<le> cp_authorized_usd p \<and>
    0 \<le> cb_open_positions b \<and> cb_open_positions b \<le> cp_max_concurrent_positions p \<and>
    (\<forall>r. al_reason (allocate r b) = ''ok'' \<longrightarrow> fst (reserve (al_notional_usd (allocate r b)) b) = Inr ())"
proof -
  have grant: "0 \<le> al_notional_usd (allocate r b) \<and> al_notional_usd (allocate r b) \<le> available_usd b \<and> can_open_position b"
    if pl: "cb_plan b = p" and granted: "al_reason (allocate r b) = ''ok''" for r b
  proof -
    have ok: "plan_ok (cb_plan b)" using pl assms(2) by simp
    have "can_open_position b \<and> (\<exists>qty. al_notional_usd (allocate r b) = premium_cost_usd (ar_premium_per_contract r) qty)"
      by (rule allocate_cases [OF plan_ok_sel(4) [OF ok], of r]) (use granted in \<open>auto simp: no_allocation_def\<close>)
    moreover have "0 \<le> premium_cost_usd x n" for x n by (simp add: premium_cost_usd_def)
    ultimately show ?thesis using allocation_cost [OF ok granted] by auto
  qed
  have "cb_plan b = p \<and> 0 \<le> cb_reserved_usd b \<and> cb_reserved_usd b \<le> cp_authorized_usd p \<and>
    0 \<le> cb_open_positions b \<and> cb_open_positions b \<le> cp_max_concurrent_positions p"
    using assms(1)
  proof (induction rule: budget_reachable.induct)
    case bu_new
    then show ?case using plan_ok_sel [OF assms(2)] by (simp add: new_budget_def)
  next
    case (bu_open b r)
    have "al_notional_usd (allocate r b) \<le> cp_authorized_usd p - cb_reserved_usd b"
      using grant [of b r] bu_open by (auto simp: available_usd_def max_def split: if_splits)
    then show ?case using bu_open grant [of b r] by (auto simp: reserve_def run_defs can_open_position_def)
  next
    case (bu_close b notional realized)
    then show ?case by (auto simp: release_def)
  qed
  moreover have "fst (reserve (al_notional_usd (allocate r b)) b) = Inr ()"
    if "cb_plan b = p" "al_reason (allocate r b) = ''ok''" for r
    using grant [OF that] by (simp add: reserve_def run_defs)
  ultimately show ?thesis by blast
qed

section \<open>Concrete sizings\<close>

definition demo_plan :: capital_plan where
  "demo_plan = \<lparr>cp_authorized_usd = 1000, cp_target_profit_pct = 20, cp_max_concurrent_positions = 2,
     cp_max_contracts_per_trade = 20, cp_min_contracts_per_trade = 1, cp_goal_label = ''goal'', cp_confirmed_at = at_utc 0,
     cp_aggression_mode = ''goal_adaptive'', cp_max_kelly_fraction = 35 / 100, cp_min_win_probability = 45 / 100,
     cp_behind_goal_boost = 15 / 100, cp_ahead_goal_dampen = 15 / 100\<rparr>"

definition demo_request :: "int option \<Rightarrow> allocation_request" where
  "demo_request target = \<lparr>ar_premium_per_contract = 1, ar_capital_fraction = None, ar_target_contracts = target,
     ar_confidence = 1 / 2, ar_style = Style_Auto, ar_win_probability = None, ar_expected_value_usd = None,
     ar_expected_r = None, ar_minutes_to_close = None\<rparr>"

lemma demo_plan_ok: "plan_ok demo_plan"
  unfolding plan_ok_def by (rule exI [of _ demo_plan]) (simp add: build_capital_plan_def demo_plan_def)

theorem allocation_within_budget_witness:
  "al_quantity (allocate (demo_request None) (new_budget demo_plan)) \<le> 20 \<and>
   al_notional_usd (allocate (demo_request None) (new_budget demo_plan)) \<le> 1000 \<and>
   al_quantity (allocate (demo_request None) (new_budget demo_plan)) = 5"
proof -
  have "al_quantity (allocate (demo_request None) (new_budget demo_plan)) = 5" by code_simp
  then show ?thesis
    using allocation_within_budget [of "new_budget demo_plan" "demo_request None", OF _ refl] demo_plan_ok
    by (simp add: new_budget_def available_usd_def) (simp add: demo_plan_def)
qed

theorem target_contracts_bypass_aggression_cap_witness:
  "al_quantity (allocate (demo_request (Some 10)) (new_budget demo_plan)) = 10 \<and>
   al_capital_fraction_used (allocate (demo_request (Some 10)) (new_budget demo_plan)) = 1 \<and>
   aggression_cap None (new_budget demo_plan) = 1 / 2"
proof -
  have "aggression_cap None (new_budget demo_plan) = 1 / 2" "available_usd (new_budget demo_plan) = 1000"
    "max_affordable_contracts 1 (new_budget demo_plan) = 10" by code_simp+
  then show ?thesis
    using target_contracts_bypass_aggression_cap [of "new_budget demo_plan" "demo_request (Some 10)" 10] demo_plan_ok
    by (simp add: new_budget_def demo_request_def can_open_position_def) (simp add: demo_plan_def)
qed

theorem aggression_cap_bounds_witness:
  "aggression_cap (Some 20) (new_budget demo_plan) \<le> 25 / 100"
  using aggression_cap_bounds [of "new_budget demo_plan" "Some 20"] by (simp add: new_budget_def demo_plan_def)

theorem budget_never_overcommitted_witness:
  "cb_reserved_usd (snd (reserve (al_notional_usd (allocate (demo_request None) (new_budget demo_plan))) (new_budget demo_plan))) \<le> 1000"
proof -
  have "al_reason (allocate (demo_request None) (new_budget demo_plan)) = ''ok''" by code_simp
  then have "budget_reachable demo_plan
      (snd (reserve (al_notional_usd (allocate (demo_request None) (new_budget demo_plan))) (new_budget demo_plan)))"
    by (rule bu_open [OF bu_new])
  then show ?thesis using budget_never_overcommitted [OF _ demo_plan_ok] by (simp add: demo_plan_def)
qed

end
