(* ===== verification/Market_Handler.thy ===== *)
theory Market_Handler
  imports Live_Bridge Exit_Manager Option_Selector Reactive_Engine Capital
begin

text \<open>
  The market event handler (\<open>joker/runtime/market_handler.py\<close>), which connects the feed to the engine, the
  selector, the capital budget, the broker and the exit manager, and the shadow recorder
  (\<open>joker/runtime/shadow.py\<close>) it uses in shadow mode.

  The handler's collaborators are those of the other theories: the engine (with the governor and the
  broker it shares with the handler) is a field of the state; the broker is any \<open>BrokerClient\<close>, and the
  bridge to the execution runtime, when there is one, is a record of its calls over the broker's state -
  in a live session the broker is the delegating broker of \<open>Live_Bridge\<close> and both act on the bridge's
  state. What an event finds at the provider, the feature engine and the options provider is an input, the
  record \<open>market_view\<close>. The log keeps the types of the logged events without their payloads. Left out are
  the \<open>on_trade_outcome\<close> callback, whose exceptions the code swallows, and the texts kept for display
  (\<open>last_event_type\<close>, \<open>last_risk_decision\<close>, \<open>last_exit_reason\<close>).
\<close>

section \<open>Inputs\<close>

datatype market_event = Spy_Quote pyfloat | Spy_Candle | Option_Quote quote_event | Option_Chain

text \<open>
  The provider's clock, latest snapshot and quote events; the outcome of the feature computation; the
  outcome of asking the options provider (absent or not available, an exception's text, no snapshots, or the
  quote events); and the minutes to close of the second feature computation.
\<close>

record market_view =
  mv_now :: datetime
  mv_snapshot :: "market_snapshot option"
  mv_features :: "py_error + features"
  mv_quotes :: "quote_event list"
  mv_options :: "(string + quote_event list option) option"
  mv_minutes_to_close :: "pyfloat option"

record intraday_decision =
  id_action :: string
  id_direction :: "direction option"
  id_setup_id :: "string option"
  id_confidence :: pyfloat
  id_stop_pct :: pyfloat
  id_take_profit_pct :: pyfloat
  id_capital_fraction :: "pyfloat option"
  id_target_contracts :: "int option"
  id_allocation_style :: allocation_style
  id_win_probability :: "pyfloat option"
  id_expected_value_usd :: "pyfloat option"
  id_expected_r :: "pyfloat option"

record trade_proposal =
  tp_setup_id :: string
  tp_direction :: direction
  tp_propose_entry :: bool
  tp_confidence :: pyfloat
  tp_stop_pct :: pyfloat
  tp_take_profit_pct :: pyfloat

section \<open>State\<close>

record pending_entry =
  pe_order_id :: string
  pe_client_order_id :: string
  pe_candidate :: trade_candidate
  pe_setup :: playbook_setup
  pe_source :: string

record pending_exit =
  px_client_order_id :: string
  px_broker_order_id :: string
  px_position_id :: string
  px_contract_id :: string
  px_requested_quantity :: int
  px_reason :: exit_reason
  px_submitted_at :: datetime
  px_realized_pnl_before :: decimal

record exit_record =
  xd_reason :: exit_reason
  xd_exit_price :: pyfloat
  xd_entry_price :: pyfloat
  xd_quantity :: int
  xd_trade_pnl_usd :: pyfloat

record shadow_record =
  sr_candidate :: trade_candidate
  sr_decision :: risk_decision
  sr_simulated_entry :: pyfloat
  sr_simulated_exit :: "pyfloat option"
  sr_simulated_pnl :: "pyfloat option"
  sr_label :: "string option"
  sr_bucket :: "string option"

record allocation =
  aq_notional_usd :: pyfloat
  aq_quantity :: int

record 'b bridge_ops =
  bg_poll :: "string \<Rightarrow> ('b, broker_order option) run"
  bg_project :: "('b, projection_state) run"
  bg_reconcile :: "('b, unit) run"

record 'b handler_config =
  hc_mode :: safety_mode
  hc_run_id :: string
  hc_env :: engine_env
  hc_ops :: "'b broker_ops"
  hc_bridge :: "'b bridge_ops option"
  hc_selector :: selector_config
  hc_exits :: exit_manager
  hc_rules_auto_entry :: bool
  hc_pause_when_goal_met :: bool

record 'b handler =
  mh_engine :: "'b engine"
  mh_daily_state :: daily_state
  mh_budget :: "capital_budget option"
  mh_pending_allocation :: "allocation option"
  mh_shadow :: "shadow_record list"
  mh_advisories :: "string list"
  mh_open_trade :: "open_trade option"
  mh_pending_entry :: "pending_entry option"
  mh_pending_exit :: "pending_exit option"
  mh_signaled :: "string set"
  mh_features_updated :: nat
  mh_signals_detected :: nat
  mh_trades_entered :: nat
  mh_trades_exited :: nat
  mh_risk_rejections :: nat
  mh_selector_rejections :: nat
  mh_missing_data :: nat
  mh_stale_quotes :: nat
  mh_wide_spreads :: nat
  mh_exits_by_reason :: "(exit_reason, nat) dict"
  mh_exit_records :: "exit_record list"
  mh_durations :: "pyfloat list"
  mh_mae :: "pyfloat option"
  mh_mfe :: "pyfloat option"
  mh_latest_spy :: "pyfloat option"
  mh_latest_mid :: "pyfloat option"
  mh_log :: "string list"

definition log_event :: "string \<Rightarrow> ('b handler, unit) run" where
  "log_event name = run_modify (\<lambda>s. s\<lparr>mh_log := mh_log s @ [name]\<rparr>)"

definition on_engine :: "('b engine, 'a) run \<Rightarrow> ('b handler, 'a) run" where
  "on_engine m s = (case m (mh_engine s) of (r, e) \<Rightarrow> (r, s\<lparr>mh_engine := e\<rparr>))"

definition broker_call :: "('b, 'a) run \<Rightarrow> ('b handler, 'a) run" where
  "broker_call m = on_engine (on_broker m)"

definition engine_state :: "('b handler, trading_state) run" where
  "engine_state = run_get (\<lambda>s. re_state (mh_engine s))"

text \<open>A fresh \<open>uuid4()\<close>.\<close>

definition new_uuid :: "'b handler_config \<Rightarrow> ('b handler, string) run" where
  "new_uuid cfg = run_bind (on_engine draw) (\<lambda>n. run_ret (ee_uuid (hc_env cfg) n))"

section \<open>Capital and the open trade\<close>

definition with_capital :: "capital_budget \<Rightarrow> governor \<Rightarrow> governor" where
  "with_capital b g =
     g\<lparr>gv_config := (gv_config g)\<lparr>rc_authorized_capital_usd := cp_authorized_usd (cb_plan b),
                                 rc_reserved_capital_usd := cb_reserved_usd b,
                                 rc_max_open_positions := cp_max_concurrent_positions (cb_plan b)\<rparr>\<rparr>"

definition sync_risk_capital :: "('b handler, unit) run" where
  "sync_risk_capital =
     run_modify (\<lambda>s. case mh_budget s of
                       None \<Rightarrow> s
                     | Some b \<Rightarrow> s\<lparr>mh_engine := (mh_engine s)\<lparr>re_governor := with_capital b (re_governor (mh_engine s))\<rparr>\<rparr>)"

definition entry_cost :: "pyfloat \<Rightarrow> int \<Rightarrow> allocation option \<Rightarrow> pyfloat" where
  "entry_cost entry_price quantity alloc =
     (let own = entry_price * 100 * of_int (max 1 quantity)
      in case alloc of None \<Rightarrow> own | Some a \<Rightarrow> if aq_notional_usd a = 0 then own else aq_notional_usd a)"

definition opened_trade ::
  "datetime \<Rightarrow> string \<Rightarrow> pyfloat \<Rightarrow> trade_candidate \<Rightarrow> playbook_setup \<Rightarrow> allocation option \<Rightarrow> open_trade" where
  "opened_trade now position_id entry_price c st alloc =
     \<lparr>ot_position_id = position_id, ot_entry_price = entry_price, ot_stop_price = tc_stop_price c,
      ot_take_profit_price = tc_take_profit_price c, ot_entry_time = now,
      ot_time_stop_minutes = Some (st_time_stop_minutes st), ot_invalidated = False, ot_quantity = max 1 (tc_quantity c),
      ot_reserved_notional_usd = entry_cost entry_price (tc_quantity c) alloc,
      ot_peak_premium = None, ot_trail_active = False, ot_trail_stop_price = None\<rparr>"

definition attach_open_trade ::
  "market_view \<Rightarrow> string \<Rightarrow> pyfloat \<Rightarrow> trade_candidate \<Rightarrow> playbook_setup \<Rightarrow> ('b handler, unit) run" where
  "attach_open_trade v position_id entry_price c st =
     run_bind (run_modify (\<lambda>s. s\<lparr>mh_open_trade := Some (opened_trade (mv_now v) position_id entry_price c st (mh_pending_allocation s)),
                                 mh_pending_allocation := None\<rparr>)) (\<lambda>_.
     run_bind engine_state (\<lambda>est.
     run_bind (if est = OPEN_POSITION then on_engine (transition MANAGING_EXIT []) else run_ret ()) (\<lambda>_.
       log_event ''order.filled'')))"

definition release_allocation :: "('b handler, unit) run" where
  "release_allocation =
     run_bind (run_get (\<lambda>s. (mh_budget s, mh_pending_allocation s))) (\<lambda>z.
       case z of
         (Some b, Some a) \<Rightarrow>
           run_bind (run_modify (\<lambda>s. s\<lparr>mh_budget := Some (release (aq_notional_usd a) 0 b), mh_pending_allocation := None\<rparr>)) (\<lambda>_.
             sync_risk_capital)
       | _ \<Rightarrow> run_ret ())"

text \<open>
  \<open>transition(WATCHING)\<close> after an order that came to nothing; when the table forbids it, the code assigns
  the state behind the engine's back.
\<close>

definition force_watching :: "string \<Rightarrow> ('b handler, unit) run" where
  "force_watching status =
     run_bind engine_state (\<lambda>est.
       if est \<in> {OPEN_POSITION, ENTERING, MANAGING_EXIT}
       then run_catch (on_engine (transition WATCHING [(''order_gone'', [status])]))
              (\<lambda>e. run_modify (\<lambda>s. s\<lparr>mh_engine := (mh_engine s)\<lparr>re_state := WATCHING\<rparr>\<rparr>))
       else run_ret ())"

section \<open>Pending entries\<close>

definition drop_pending_entry :: "('b handler, unit) run" where
  "drop_pending_entry = run_modify (\<lambda>s. s\<lparr>mh_pending_entry := None\<rparr>)"

definition entry_failed :: "bool \<Rightarrow> string \<Rightarrow> ('b handler, unit) run" where
  "entry_failed releases status =
     run_bind (log_event ''order.failed'') (\<lambda>_.
     run_bind drop_pending_entry (\<lambda>_.
     run_bind (if releases then release_allocation else run_ret ()) (\<lambda>_. force_watching status)))"

definition verified_position :: "projection_state \<Rightarrow> string \<Rightarrow> (position_state \<times> decimal) option" where
  "verified_position pr cid =
     (case dict_get (pr_positions pr) cid of
        None \<Rightarrow> None
      | Some p \<Rightarrow>
          (case ps_avg_price p of
             Some avg \<Rightarrow> if ps_open p \<and> 0 < ps_quantity p then Some (p, avg) else None
           | None \<Rightarrow> None))"

definition await_fill :: "'b handler_config \<Rightarrow> 'b bridge_ops \<Rightarrow> pending_entry \<Rightarrow> ('b handler, unit) run" where
  "await_fill cfg bg p =
     run_bind (broker_call (br_get (hc_ops cfg) (pe_order_id p))) (\<lambda>ord.
       if (case ord of None \<Rightarrow> False | Some x \<Rightarrow> bo_status x = Filled)
       then run_bind (log_event ''entry.awaiting_verified_fill'') (\<lambda>_.
              run_catch (broker_call (bg_reconcile bg)) (\<lambda>e. log_event ''entry.reconciliation_failed''))
       else run_ret ())"

text \<open>\<open>poll_order_status\<close> and \<open>project_session\<close>, \<open>None\<close> when either raises.\<close>

definition poll_and_project ::
  "'b bridge_ops \<Rightarrow> string \<Rightarrow> string \<Rightarrow> ('b handler, (broker_order option \<times> projection_state) option) run" where
  "poll_and_project bg client failure =
     run_catch
       (run_bind (broker_call (bg_poll bg client)) (\<lambda>ord.
        run_bind (broker_call (bg_project bg)) (\<lambda>pr. run_ret (Some (ord, pr)))))
       (\<lambda>e. run_bind (log_event failure) (\<lambda>_. run_ret None))"

definition order_dead :: "projection_state \<Rightarrow> string \<Rightarrow> string option" where
  "order_dead pr client =
     (case dict_get (pr_orders pr) client of
        None \<Rightarrow> None
      | Some ol \<Rightarrow> if ol_status ol \<in> {CANCELLED, REJECTED} then Some (order_status_value (ol_status ol)) else None)"

definition reconcile_entry_ledger ::
  "'b handler_config \<Rightarrow> market_view \<Rightarrow> 'b bridge_ops \<Rightarrow> pending_entry \<Rightarrow> ('b handler, unit) run" where
  "reconcile_entry_ledger cfg v bg p =
     run_bind (poll_and_project bg (pe_client_order_id p) ''entry.reconcile_failed'') (\<lambda>got.
       case got of
         None \<Rightarrow> run_ret ()
       | Some (_, pr) \<Rightarrow>
           (case order_dead pr (pe_client_order_id p) of
              Some status \<Rightarrow> entry_failed True status
            | None \<Rightarrow>
                (case verified_position pr (contract_id_for (tc_contract (pe_candidate p))) of
                   Some (pos, avg) \<Rightarrow>
                     run_bind drop_pending_entry (\<lambda>_.
                       attach_open_trade v
                         (case ps_position_id pos of None \<Rightarrow> pe_order_id p | Some i \<Rightarrow> if i = [] then pe_order_id p else i)
                         avg ((pe_candidate p)\<lparr>tc_quantity := max 1 (trunc_zero (ps_quantity pos))\<rparr>) (pe_setup p))
                 | None \<Rightarrow> await_fill cfg bg p)))"

definition reconcile_entry_legacy :: "'b handler_config \<Rightarrow> market_view \<Rightarrow> pending_entry \<Rightarrow> ('b handler, unit) run" where
  "reconcile_entry_legacy cfg v p =
     run_bind (broker_call (br_list_positions (hc_ops cfg))) (\<lambda>ps.
       case filter po_is_open ps of
         q # qs \<Rightarrow>
           run_bind drop_pending_entry (\<lambda>_.
             attach_open_trade v (po_position_id (last (q # qs))) (po_avg_entry_price (last (q # qs))) (pe_candidate p) (pe_setup p))
       | [] \<Rightarrow>
           run_bind (broker_call (br_get (hc_ops cfg) (pe_order_id p))) (\<lambda>ord.
             case ord of
               None \<Rightarrow> run_ret ()
             | Some x \<Rightarrow>
                 if bo_status x = Filled then log_event ''entry.awaiting_verified_fill''
                 else if bo_status x \<in> {Cancelled, Rejected} then entry_failed False (broker_status_text (bo_status x))
                 else run_ret ()))"

definition reconcile_pending_entry :: "'b handler_config \<Rightarrow> market_view \<Rightarrow> ('b handler, unit) run" where
  "reconcile_pending_entry cfg v =
     run_bind (run_get (\<lambda>s. (mh_pending_entry s, mh_open_trade s))) (\<lambda>z.
       case z of
         (Some p, None) \<Rightarrow>
           (case hc_bridge cfg of
              Some bg \<Rightarrow> reconcile_entry_ledger cfg v bg p
            | None \<Rightarrow> reconcile_entry_legacy cfg v p)
       | _ \<Rightarrow> run_ret ())"

section \<open>Exits\<close>

definition clear_pending_exit :: "('b handler, unit) run" where
  "clear_pending_exit = run_modify (\<lambda>s. s\<lparr>mh_pending_exit := None\<rparr>)"

definition count_exit :: "exit_reason \<Rightarrow> (exit_reason, nat) dict \<Rightarrow> (exit_reason, nat) dict" where
  "count_exit r d = dict_set r (Suc (case dict_get d r of None \<Rightarrow> 0 | Some n \<Rightarrow> n)) d"

definition release_trade :: "open_trade \<Rightarrow> pyfloat \<Rightarrow> ('b handler, unit) run" where
  "release_trade t pnl =
     run_bind (run_get mh_budget) (\<lambda>b.
       case b of
         None \<Rightarrow> run_ret ()
       | Some b \<Rightarrow>
           if 0 < ot_reserved_notional_usd t
           then run_bind (run_modify (\<lambda>s. s\<lparr>mh_budget := Some (release (ot_reserved_notional_usd t) pnl b)\<rparr>)) (\<lambda>_. sync_risk_capital)
           else run_ret ())"

definition closing_transitions :: "exit_reason \<Rightarrow> ('b handler, unit) run" where
  "closing_transitions reason =
     run_bind engine_state (\<lambda>est.
       if est \<in> {OPEN_POSITION, MANAGING_EXIT}
       then on_engine (run_bind (transition EXITED [(''reason'', [exit_reason_value reason])]) (\<lambda>_.
                       run_bind (transition COOLDOWN []) (\<lambda>_. transition WATCHING [])))
       else run_ret ())"

definition finalize_exit ::
  "market_view \<Rightarrow> pending_exit \<Rightarrow> open_trade \<Rightarrow> pyfloat \<Rightarrow> pyfloat \<Rightarrow> ('b handler, unit) run" where
  "finalize_exit v p t exit_price pnl =
     run_bind (release_trade t pnl) (\<lambda>_.
     run_bind (run_modify (\<lambda>s. s\<lparr>mh_open_trade := None, mh_pending_exit := None, mh_trades_exited := Suc (mh_trades_exited s),
                                 mh_exits_by_reason := count_exit (px_reason p) (mh_exits_by_reason s),
                                 mh_durations := mh_durations s @ [seconds_between (mv_now v) (ot_entry_time t) / 60]\<rparr>)) (\<lambda>_.
     run_bind (closing_transitions (px_reason p)) (\<lambda>_.
     run_bind (run_modify (\<lambda>s. s\<lparr>mh_exit_records := mh_exit_records s @
                 [\<lparr>xd_reason = px_reason p, xd_exit_price = exit_price, xd_entry_price = ot_entry_price t,
                   xd_quantity = px_requested_quantity p, xd_trade_pnl_usd = pnl\<rparr>]\<rparr>)) (\<lambda>_.
     run_bind (log_event ''exit.executed'') (\<lambda>_.
       run_modify (\<lambda>s. s\<lparr>mh_mae := None, mh_mfe := None\<rparr>))))))"

definition remaining_quantity :: "projection_state \<Rightarrow> string \<Rightarrow> decimal" where
  "remaining_quantity pr cid = (case dict_get (pr_positions pr) cid of None \<Rightarrow> 0 | Some p \<Rightarrow> ps_quantity p)"

definition exit_price_of :: "projection_state \<Rightarrow> string \<Rightarrow> open_trade \<Rightarrow> pyfloat" where
  "exit_price_of pr client t =
     (case dict_get (pr_orders pr) client of
        None \<Rightarrow> ot_entry_price t
      | Some ol \<Rightarrow> (case ol_avg_fill_price ol of None \<Rightarrow> ot_entry_price t
                   | Some x \<Rightarrow> if x = 0 then ot_entry_price t else x))"

definition note_partial_exit :: "open_trade \<Rightarrow> decimal \<Rightarrow> ('b handler, unit) run" where
  "note_partial_exit t remaining =
     (if 0 < remaining \<and> 0 < max 0 (ot_quantity t - trunc_zero remaining)
      then run_bind (run_modify (\<lambda>s. s\<lparr>mh_open_trade := Some (t\<lparr>ot_quantity := trunc_zero remaining\<rparr>)\<rparr>)) (\<lambda>_.
             log_event ''exit.partial_fill'')
      else run_ret ())"

definition settle_exit ::
  "market_view \<Rightarrow> pending_exit \<Rightarrow> open_trade \<Rightarrow> projection_state \<Rightarrow> ('b handler, unit) run" where
  "settle_exit v p t pr =
     (let remaining = remaining_quantity pr (px_contract_id p)
      in run_bind (note_partial_exit t remaining) (\<lambda>_.
           case dict_get (pr_positions pr) (px_contract_id p) of
             Some pos \<Rightarrow>
               if remaining = 0
               then finalize_exit v p t (exit_price_of pr (px_client_order_id p) t)
                      (ps_realized_pnl pos - px_realized_pnl_before p)
               else if (case dict_get (pr_orders pr) (px_client_order_id p) of None \<Rightarrow> False | Some ol \<Rightarrow> ol_status ol = FILLED)
                       \<and> 0 < remaining
               then run_bind clear_pending_exit (\<lambda>_. log_event ''exit.partial_complete'')
               else run_ret ()
           | None \<Rightarrow> run_ret ()))"

definition reconcile_pending_exit :: "'b handler_config \<Rightarrow> market_view \<Rightarrow> ('b handler, unit) run" where
  "reconcile_pending_exit cfg v =
     run_bind (run_get (\<lambda>s. (mh_pending_exit s, mh_open_trade s))) (\<lambda>z.
       case (z, hc_bridge cfg) of
         ((Some p, Some t), Some bg) \<Rightarrow>
           run_bind (poll_and_project bg (px_client_order_id p) ''exit.reconcile_failed'') (\<lambda>got.
             case got of
               None \<Rightarrow> run_ret ()
             | Some (ord, pr) \<Rightarrow>
                 if (case ord of None \<Rightarrow> False | Some x \<Rightarrow> bo_status x \<in> {Cancelled, Rejected})
                    \<or> order_dead pr (px_client_order_id p) \<noteq> None
                 then run_bind (log_event ''exit.order_failed'') (\<lambda>_. clear_pending_exit)
                 else settle_exit v p t pr)
       | _ \<Rightarrow> run_ret ())"

text \<open>\<open>ShadowRuntime.simulate_outcome\<close>\<close>

definition simulate_outcome :: "shadow_record \<Rightarrow> pyfloat \<Rightarrow> shadow_record" where
  "simulate_outcome r exit_price =
     (let pnl = (exit_price - sr_simulated_entry r) * 100
      in r\<lparr>sr_simulated_exit := Some exit_price, sr_simulated_pnl := Some pnl,
           sr_label := Some (if 0 < pnl then ''WIN'' else if pnl < 0 then ''LOSS'' else ''FLAT''),
           sr_bucket := Some (if 0 < pnl then (if sr_simulated_entry r * 100 < pnl then ''>1R'' else ''0-1R'')
                              else if pnl < 0 then ''<0R'' else ''0-1R'')\<rparr>)"

definition simulate_last :: "pyfloat \<Rightarrow> shadow_record list \<Rightarrow> shadow_record list" where
  "simulate_last price rs = (if rs = [] then [] else butlast rs @ [simulate_outcome (last rs) price])"

text \<open>The contract's realized profit before the exit, zero without a bridge or when the projection fails.\<close>

definition exit_baseline :: "'b handler_config \<Rightarrow> string \<Rightarrow> ('b handler, decimal) run" where
  "exit_baseline cfg cid =
     (case hc_bridge cfg of
        None \<Rightarrow> run_ret 0
      | Some bg \<Rightarrow>
          run_catch
            (run_bind (broker_call (bg_project bg)) (\<lambda>pr.
               run_ret (case dict_get (pr_positions pr) cid of None \<Rightarrow> 0 | Some p \<Rightarrow> ps_realized_pnl p)))
            (\<lambda>e. run_bind (log_event ''exit.baseline_failed'') (\<lambda>_. run_ret 0)))"

definition exit_intent :: "open_trade \<Rightarrow> position \<Rightarrow> exit_decision \<Rightarrow> string \<Rightarrow> string \<Rightarrow> order_intent" where
  "exit_intent t pos d candidate iid =
     \<lparr>oi_intent_id = iid, oi_candidate_id = candidate, oi_contract = po_contract pos, oi_side = Sell, oi_order_type = Limit,
      oi_quantity = max 1 (ot_quantity t), oi_limit_price = Some (ed_exit_price d)\<rparr>"

definition submit_exit ::
  "'b handler_config \<Rightarrow> market_view \<Rightarrow> open_trade \<Rightarrow> position \<Rightarrow> exit_decision \<Rightarrow> ('b handler, exit_decision option) run" where
  "submit_exit cfg v t pos d =
     run_bind (new_uuid cfg) (\<lambda>candidate.
     run_bind (new_uuid cfg) (\<lambda>iid.
     let cid = contract_id_for (po_contract pos)
     in run_bind (exit_baseline cfg cid) (\<lambda>baseline.
        run_bind (run_catch
                    (run_bind (broker_call (br_submit (hc_ops cfg) (exit_intent t pos d candidate iid))) (\<lambda>ord. run_ret (Some ord)))
                    (\<lambda>e. run_bind (log_event ''exit.submit_failed'') (\<lambda>_. run_ret None))) (\<lambda>submitted.
          case submitted of
            None \<Rightarrow> run_ret None
          | Some ord \<Rightarrow>
              if bo_status ord \<in> {Rejected, Cancelled}
              then run_bind (log_event ''exit.order_failed'') (\<lambda>_. run_ret None)
              else
                run_bind (run_modify (\<lambda>s. s\<lparr>mh_pending_exit := Some
                    \<lparr>px_client_order_id = iid, px_broker_order_id = bo_order_id ord, px_position_id = ot_position_id t,
                     px_contract_id = cid, px_requested_quantity = max 1 (ot_quantity t), px_reason = ed_reason d,
                     px_submitted_at = mv_now v, px_realized_pnl_before = baseline\<rparr>\<rparr>)) (\<lambda>_.
                run_bind (log_event ''exit.order_submitted'') (\<lambda>_.
                run_bind (reconcile_pending_exit cfg v) (\<lambda>_. run_ret (Some d))))))))"

definition try_exit :: "'b handler_config \<Rightarrow> market_view \<Rightarrow> quote_event \<Rightarrow> ('b handler, exit_decision option) run" where
  "try_exit cfg v e =
     run_bind (run_get (\<lambda>s. (mh_open_trade s, mh_pending_exit s))) (\<lambda>z.
       case z of
         (None, _) \<Rightarrow> run_ret None
       | (Some t, Some p) \<Rightarrow> run_bind (reconcile_pending_exit cfg v) (\<lambda>_. run_ret None)
       | (Some t, None) \<Rightarrow>
           (case check_exit (hc_exits cfg) t (qe_mid e) (mv_now v) of
              None \<Rightarrow> run_ret None
            | Some d \<Rightarrow>
                if hc_mode cfg = Shadow
                then run_bind (run_modify (\<lambda>s. s\<lparr>mh_shadow := simulate_last (qe_mid e) (mh_shadow s)\<rparr>)) (\<lambda>_.
                     run_bind (log_event ''exit.shadow'') (\<lambda>_. run_ret (Some d)))
                else run_bind (broker_call (br_list_positions (hc_ops cfg))) (\<lambda>ps.
                       case filter po_is_open ps of
                         [] \<Rightarrow> run_ret None
                       | pos # _ \<Rightarrow> submit_exit cfg v t pos d)))"

section \<open>Entries\<close>

text \<open>The keyword arguments of \<open>_attempt_entry\<close>, with their defaults.\<close>

record entry_options =
  eo_stop_pct :: "pyfloat option"
  eo_take_profit_pct :: "pyfloat option"
  eo_source :: string
  eo_capital_fraction :: "pyfloat option"
  eo_target_contracts :: "int option"
  eo_confidence :: pyfloat
  eo_allocation_style :: allocation_style
  eo_win_probability :: "pyfloat option"
  eo_expected_value_usd :: "pyfloat option"
  eo_expected_r :: "pyfloat option"

definition default_options :: entry_options where
  "default_options =
     \<lparr>eo_stop_pct = None, eo_take_profit_pct = None, eo_source = ''structured_signal'', eo_capital_fraction = None,
      eo_target_contracts = None, eo_confidence = 1 / 2, eo_allocation_style = Style_Auto, eo_win_probability = None,
      eo_expected_value_usd = None, eo_expected_r = None\<rparr>"

definition broker_busy :: "'b handler_config \<Rightarrow> ('b handler, bool) run" where
  "broker_busy cfg =
     run_bind (broker_call (br_list_open (hc_ops cfg))) (\<lambda>opens.
       if opens \<noteq> [] then run_ret True
       else run_bind (broker_call (br_list_positions (hc_ops cfg))) (\<lambda>ps. run_ret (list_ex po_is_open ps)))"

text \<open>The engine states in which an entry is tried, with an active playbook.\<close>

definition may_enter :: "'b engine \<Rightarrow> bool" where
  "may_enter e \<longleftrightarrow> re_playbook e \<noteq> None \<and> re_state e \<in> {WATCHING, SETUP_ARMED, COOLDOWN}"

definition flat :: "'b handler \<Rightarrow> bool" where
  "flat s \<longleftrightarrow> mh_open_trade s = None \<and> mh_pending_entry s = None"

text \<open>The guards that need no broker, in the order of \<open>_attempt_entry\<close> after the broker has been asked.\<close>

definition already_signaled :: "playbook_setup \<Rightarrow> string \<Rightarrow> 'b handler \<Rightarrow> bool" where
  "already_signaled st source s \<longleftrightarrow> st_setup_id st \<in> mh_signaled s \<and> source = ''structured_signal''"

definition goal_pause :: "'b handler_config \<Rightarrow> 'b handler \<Rightarrow> bool" where
  "goal_pause cfg s \<longleftrightarrow> (case mh_budget s of None \<Rightarrow> False | Some b \<Rightarrow> goal_met b) \<and> hc_pause_when_goal_met cfg"

definition missing_data :: "('b handler, unit) run" where
  "missing_data = run_modify (\<lambda>s. s\<lparr>mh_missing_data := Suc (mh_missing_data s)\<rparr>)"

definition gather_quotes :: "market_view \<Rightarrow> ('b handler, quote_event list option) run" where
  "gather_quotes v =
     (if mv_quotes v \<noteq> [] then run_ret (Some (mv_quotes v))
      else case mv_options v of
             None \<Rightarrow> run_ret (Some [])
           | Some (Inl reason) \<Rightarrow> run_bind (log_event ''options.unavailable'') (\<lambda>_. run_bind missing_data (\<lambda>_. run_ret None))
           | Some (Inr None) \<Rightarrow> run_ret (Some [])
           | Some (Inr (Some qs)) \<Rightarrow> run_bind (log_event ''options.quotes_loaded'') (\<lambda>_. run_ret (Some qs)))"

text \<open>\<open>str(exc)\<close>; the selector raises no other error (\<open>first_valid_Inl\<close>).\<close>

definition error_text :: "py_error \<Rightarrow> string" where
  "error_text e = (case e of OptionSelectionError reason \<Rightarrow> reason | _ \<Rightarrow> [])"

definition count_rejection :: "string \<Rightarrow> 'b handler \<Rightarrow> 'b handler" where
  "count_rejection reason s =
     (let s1 = (if contains_text ''STALE'' reason \<or> contains_text ''FEED_SILENT'' reason
                then s\<lparr>mh_stale_quotes := Suc (mh_stale_quotes s)\<rparr>
                else if contains_text ''WIDE'' reason then s\<lparr>mh_wide_spreads := Suc (mh_wide_spreads s)\<rparr>
                else if contains_text ''MISSING'' reason then s\<lparr>mh_missing_data := Suc (mh_missing_data s)\<rparr>
                else s)
      in s1\<lparr>mh_selector_rejections := Suc (mh_selector_rejections s1)\<rparr>)"

definition choose_contract ::
  "'b handler_config \<Rightarrow> market_view \<Rightarrow> quote_event list \<Rightarrow> direction \<Rightarrow> pyfloat \<Rightarrow> ('b handler, selected_contract option) run" where
  "choose_contract cfg v quotes d price =
     (case select_from_events (hc_selector cfg) quotes d price (mv_now v) of
        (advisories, picked) \<Rightarrow>
          run_bind (run_modify (\<lambda>s. s\<lparr>mh_advisories := advisories\<rparr>)) (\<lambda>_.
            case picked of
              Inl e \<Rightarrow>
                run_bind (run_modify (count_rejection (error_text e))) (\<lambda>_.
                run_bind (log_event ''option.rejected'') (\<lambda>_. run_ret None))
            | Inr s \<Rightarrow> run_ret (Some s)))"

definition sizing_request :: "entry_options \<Rightarrow> pyfloat \<Rightarrow> pyfloat option \<Rightarrow> allocation_request" where
  "sizing_request opt premium minutes =
     \<lparr>ar_premium_per_contract = premium, ar_capital_fraction = eo_capital_fraction opt,
      ar_target_contracts = eo_target_contracts opt, ar_confidence = eo_confidence opt, ar_style = eo_allocation_style opt,
      ar_win_probability = eo_win_probability opt, ar_expected_value_usd = eo_expected_value_usd opt,
      ar_expected_r = eo_expected_r opt, ar_minutes_to_close = minutes\<rparr>"

definition size_for_entry :: "entry_options \<Rightarrow> pyfloat \<Rightarrow> pyfloat option \<Rightarrow> ('b handler, int \<times> pyfloat) run" where
  "size_for_entry opt premium minutes =
     run_bind (run_get mh_budget) (\<lambda>b.
       case b of
         None \<Rightarrow> run_ret (1, premium * 100)
       | Some b \<Rightarrow>
           let r = allocate (sizing_request opt premium minutes) b
           in if al_quantity r < 1 then run_bind (log_event ''capital.rejected'') (\<lambda>_. run_ret (0, 0))
              else run_bind (log_event ''capital.sized'') (\<lambda>_. run_ret (al_quantity r, al_notional_usd r)))"

definition candidate_of ::
  "'b handler_config \<Rightarrow> market_view \<Rightarrow> playbook_setup \<Rightarrow> selected_contract \<Rightarrow> entry_options \<Rightarrow> int \<Rightarrow> string \<Rightarrow> trade_candidate" where
  "candidate_of cfg v st sel opt quantity cid =
     (let entry = oq_ask (sl_quote sel);
          sp = (case eo_stop_pct opt of Some x \<Rightarrow> x | None \<Rightarrow> st_stop_pct st);
          tp = (case eo_take_profit_pct opt of Some x \<Rightarrow> x | None \<Rightarrow> st_take_profit_pct st)
      in \<lparr>tc_candidate_id = cid, tc_run_id = hc_run_id cfg, tc_setup_id = st_setup_id st, tc_contract = sl_contract sel,
          tc_quote = sl_quote sel, tc_direction = st_direction st, tc_entry_limit_price = entry,
          tc_stop_price = stop_from_entry entry sp, tc_take_profit_price = target_from_entry entry tp,
          tc_quantity = max 1 quantity, tc_created_at = mv_now v\<rparr>)"

definition build_candidate ::
  "'b handler_config \<Rightarrow> market_view \<Rightarrow> playbook_setup \<Rightarrow> selected_contract \<Rightarrow> entry_options \<Rightarrow> int \<Rightarrow>
   ('b handler, trade_candidate) run" where
  "build_candidate cfg v st sel opt quantity =
     run_bind (new_uuid cfg) (\<lambda>cid. run_lift (build_trade_candidate (candidate_of cfg v st sel opt quantity cid)))"

definition mark_signaled :: "playbook_setup \<Rightarrow> ('b handler, unit) run" where
  "mark_signaled st = run_modify (\<lambda>s. s\<lparr>mh_signaled := insert (st_setup_id st) (mh_signaled s)\<rparr>)"

definition count_risk_rejection :: "('b handler, unit) run" where
  "count_risk_rejection = run_modify (\<lambda>s. s\<lparr>mh_risk_rejections := Suc (mh_risk_rejections s)\<rparr>)"

text \<open>The shadow branch: the governor is asked directly, with no unresolved order, and the candidate recorded.\<close>

definition shadow_entry ::
  "'b handler_config \<Rightarrow> playbook_setup \<Rightarrow> trade_candidate \<Rightarrow> ('b handler, bool) run" where
  "shadow_entry cfg st c =
     run_bind (run_get mh_daily_state) (\<lambda>d.
     run_bind (on_engine draw) (\<lambda>n.
     run_bind (on_engine (on_governor (evaluate c d False (ee_now (hc_env cfg) n)))) (\<lambda>decision.
     run_bind (broker_call (br_list_open (hc_ops cfg))) (\<lambda>_.
     run_bind (run_modify (\<lambda>s. s\<lparr>mh_shadow := mh_shadow s @
                 [\<lparr>sr_candidate = c, sr_decision = decision, sr_simulated_entry = tc_entry_limit_price c,
                   sr_simulated_exit = None, sr_simulated_pnl = None, sr_label = None, sr_bucket = None\<rparr>]\<rparr>)) (\<lambda>_.
     run_bind (if rd_approved decision then run_ret () else count_risk_rejection) (\<lambda>_.
     run_bind (log_event ''risk.decision'') (\<lambda>_.
     run_bind (log_event ''shadow.candidate'') (\<lambda>_.
     run_bind (mark_signaled st) (\<lambda>_. run_ret (rd_approved decision))))))))))"

text \<open>The reservation; without a budget there is none to make.\<close>

definition reserve_capital :: "pyfloat \<Rightarrow> int \<Rightarrow> ('b handler, bool) run" where
  "reserve_capital notional quantity =
     run_bind (run_get mh_budget) (\<lambda>b.
       case b of
         None \<Rightarrow> run_ret True
       | Some b \<Rightarrow>
           (case reserve notional b of
              (Inl e, _) \<Rightarrow> run_bind (log_event ''capital.reserve_failed'') (\<lambda>_. run_bind count_risk_rejection (\<lambda>_. run_ret False))
            | (Inr _, b') \<Rightarrow>
                run_bind (run_modify (\<lambda>s. s\<lparr>mh_budget := Some b',
                            mh_pending_allocation := Some \<lparr>aq_notional_usd = notional, aq_quantity = quantity\<rparr>\<rparr>)) (\<lambda>_.
                run_bind sync_risk_capital (\<lambda>_.
                run_bind (log_event ''capital.reserved'') (\<lambda>_. run_ret True)))))"

definition refund_rejected :: "pyfloat \<Rightarrow> ('b handler, unit) run" where
  "refund_rejected notional =
     run_bind (run_get mh_budget) (\<lambda>b.
       case b of
         None \<Rightarrow> run_ret ()
       | Some b \<Rightarrow>
           run_bind (run_modify (\<lambda>s. s\<lparr>mh_budget := Some (release notional 0 b), mh_pending_allocation := None\<rparr>)) (\<lambda>_.
             sync_risk_capital))"

text \<open>After the governor's approval: reserve, submit, and wait for the verified fill.\<close>

definition place_entry ::
  "'b handler_config \<Rightarrow> market_view \<Rightarrow> playbook_setup \<Rightarrow> trade_candidate \<Rightarrow> string \<Rightarrow> pyfloat \<Rightarrow> int \<Rightarrow> ('b handler, bool) run" where
  "place_entry cfg v st c source notional quantity =
     run_bind (reserve_capital notional quantity) (\<lambda>reserved.
       if \<not> reserved then run_ret False
       else
         run_bind (on_engine (submit_entry (hc_env cfg) (hc_ops cfg) c)) (\<lambda>ord.
         run_bind (log_event ''order.submitted'') (\<lambda>_.
           if bo_status ord = Rejected
           then run_bind (refund_rejected notional) (\<lambda>_.
                run_bind count_risk_rejection (\<lambda>_.
                run_bind (mark_signaled st) (\<lambda>_. run_ret False)))
           else
             run_bind (run_modify (\<lambda>s. s\<lparr>mh_trades_entered := Suc (mh_trades_entered s),
                         mh_pending_entry := Some \<lparr>pe_order_id = bo_order_id ord, pe_client_order_id = bo_intent_id ord,
                                                   pe_candidate = c, pe_setup = st, pe_source = source\<rparr>\<rparr>)) (\<lambda>_.
             run_bind (log_event ''order.pending_fill'') (\<lambda>_.
             run_bind (reconcile_pending_entry cfg v) (\<lambda>_.
             run_bind (mark_signaled st) (\<lambda>_. run_ret True)))))))"

definition judge_and_place ::
  "'b handler_config \<Rightarrow> market_view \<Rightarrow> playbook_setup \<Rightarrow> trade_candidate \<Rightarrow> string \<Rightarrow> pyfloat \<Rightarrow> int \<Rightarrow> ('b handler, bool) run" where
  "judge_and_place cfg v st c source notional quantity =
     (if hc_mode cfg = Shadow then shadow_entry cfg st c
      else
        run_bind (run_get mh_daily_state) (\<lambda>d.
        run_bind (on_engine (evaluate_signal (hc_env cfg) (hc_ops cfg) c d)) (\<lambda>decision.
        run_bind (log_event ''risk.decision'') (\<lambda>_.
          if \<not> rd_approved decision
          then run_bind count_risk_rejection (\<lambda>_. run_bind (mark_signaled st) (\<lambda>_. run_ret False))
          else place_entry cfg v st c source notional quantity))))"

text \<open>From the selected contract to the candidate: sizing, the advisory log, the candidate, the signal.\<close>

definition enter_selected ::
  "'b handler_config \<Rightarrow> market_view \<Rightarrow> playbook_setup \<Rightarrow> entry_options \<Rightarrow> selected_contract \<Rightarrow> ('b handler, bool) run" where
  "enter_selected cfg v st opt sel =
     run_bind (size_for_entry opt (oq_ask (sl_quote sel)) (mv_minutes_to_close v)) (\<lambda>(quantity, notional).
       if quantity < 1 then run_ret False
       else
         run_bind (run_get mh_advisories) (\<lambda>advisories.
         run_bind (if advisories \<noteq> [] then log_event ''option.advisory'' else run_ret ()) (\<lambda>_.
         run_bind (log_event ''option.selected'') (\<lambda>_.
         run_bind (build_candidate cfg v st sel opt quantity) (\<lambda>c.
         run_bind sync_risk_capital (\<lambda>_.
         run_bind (run_modify (\<lambda>s. s\<lparr>mh_signals_detected := Suc (mh_signals_detected s)\<rparr>)) (\<lambda>_.
         run_bind (log_event ''signal.detected'') (\<lambda>_.
           judge_and_place cfg v st c (eo_source opt) notional quantity))))))))"

definition attempt_entry ::
  "'b handler_config \<Rightarrow> market_view \<Rightarrow> playbook_setup \<Rightarrow> market_snapshot \<Rightarrow> entry_options \<Rightarrow> ('b handler, bool) run" where
  "attempt_entry cfg v st snap opt =
     run_bind (run_get flat) (\<lambda>is_flat.
     if \<not> is_flat then run_ret False else
     run_bind (broker_busy cfg) (\<lambda>busy.
     if busy then run_ret False else
     run_bind (run_get (already_signaled st (eo_source opt))) (\<lambda>known.
     if known then run_ret False else
     run_bind (run_get (goal_pause cfg)) (\<lambda>paused.
     if paused then run_bind (log_event ''capital.goal_met_pause'') (\<lambda>_. run_ret False) else
     run_bind (run_get (\<lambda>s. may_enter (mh_engine s))) (\<lambda>ready.
     if \<not> ready then run_ret False else
     run_bind (gather_quotes v) (\<lambda>got.
       case got of
         None \<Rightarrow> run_ret False
       | Some quotes \<Rightarrow>
           if quotes = [] then run_ret False
           else run_bind (choose_contract cfg v quotes (st_direction st) (ms_price snap)) (\<lambda>picked.
                  case picked of None \<Rightarrow> run_ret False | Some sel \<Rightarrow> enter_selected cfg v st opt sel)))))))"

section \<open>Agent decisions and proposals\<close>

definition direction_value :: "direction \<Rightarrow> string" where
  "direction_value d = (case d of Long_Call \<Rightarrow> ''long_call'' | Long_Put \<Rightarrow> ''long_put'')"

definition agent_setup :: "string \<Rightarrow> string \<Rightarrow> direction \<Rightarrow> pyfloat \<Rightarrow> pyfloat \<Rightarrow> playbook_setup" where
  "agent_setup sid name d stop target =
     \<lparr>st_setup_id = sid, st_name = name, st_direction = d, st_enabled = True, st_entry_conditions = [],
      st_stop_rule = ''agent'', st_take_profit_rule = ''agent'', st_require_trend = ''any'', st_vwap_side = ''either'',
      st_min_vwap_distance_pct = 0, st_min_momentum_pct = 0, st_max_momentum_pct = None, st_stop_pct = stop,
      st_take_profit_pct = target, st_time_stop_minutes = 30\<rparr>"

text \<open>The setup a decision names, else the first enabled one of its direction, else one made up for it.\<close>

definition setup_for_decision :: "playbook option \<Rightarrow> intraday_decision \<Rightarrow> direction \<Rightarrow> py_error + playbook_setup" where
  "setup_for_decision pb x d =
     (let named = (case (pb, id_setup_id x) of
                     (Some p, Some sid) \<Rightarrow> if sid = [] then None else find (\<lambda>s. st_setup_id s = sid) (pk_setups p)
                   | _ \<Rightarrow> None);
          similar = (case pb of None \<Rightarrow> None | Some p \<Rightarrow> find (\<lambda>s. st_enabled s \<and> st_direction s = d) (pk_setups p))
      in case named of
           Some s \<Rightarrow> Inr s
         | None \<Rightarrow>
             (case similar of
                Some s \<Rightarrow> Inr s
              | None \<Rightarrow>
                  let invented = ''agent_'' @ direction_value d;
                      sid = (case id_setup_id x of None \<Rightarrow> invented | Some i \<Rightarrow> if i = [] then invented else i)
                  in build_setup (agent_setup sid invented d (id_stop_pct x) (id_take_profit_pct x))))"

definition decision_options :: "intraday_decision \<Rightarrow> entry_options" where
  "decision_options x =
     \<lparr>eo_stop_pct = Some (id_stop_pct x), eo_take_profit_pct = Some (id_take_profit_pct x), eo_source = ''agent_decision'',
      eo_capital_fraction = id_capital_fraction x, eo_target_contracts = id_target_contracts x,
      eo_confidence = id_confidence x, eo_allocation_style = id_allocation_style x,
      eo_win_probability = id_win_probability x, eo_expected_value_usd = id_expected_value_usd x,
      eo_expected_r = id_expected_r x\<rparr>"

definition try_enter_from_decision ::
  "'b handler_config \<Rightarrow> market_view \<Rightarrow> intraday_decision \<Rightarrow> pyfloat \<Rightarrow> ('b handler, bool) run" where
  "try_enter_from_decision cfg v x min_confidence =
     (if id_action x \<notin> {''enter'', ''confirm''} then run_ret False
      else case id_direction x of
        None \<Rightarrow> run_bind (log_event ''agent.decision_invalid'') (\<lambda>_. run_ret False)
      | Some d \<Rightarrow>
          if id_confidence x < min_confidence then run_bind (log_event ''agent.decision_low_confidence'') (\<lambda>_. run_ret False)
          else
            run_bind (run_get (\<lambda>s. re_playbook (mh_engine s))) (\<lambda>pb.
            run_bind (run_lift (setup_for_decision pb x d)) (\<lambda>st.
              case mv_snapshot v of
                None \<Rightarrow> run_ret False
              | Some snap \<Rightarrow>
                  run_bind (log_event ''agent.execute'') (\<lambda>_. attempt_entry cfg v st snap (decision_options x)))))"

datatype setup_verdict = Use_Setup playbook_setup | Refused string

definition setup_for_proposal :: "bool \<Rightarrow> playbook \<Rightarrow> trade_proposal \<Rightarrow> py_error + setup_verdict" where
  "setup_for_proposal agent_led p x =
     (let invented = map_sum id Use_Setup (build_setup
                       (agent_setup (tp_setup_id x) (tp_setup_id x) (tp_direction x) (tp_stop_pct x) (tp_take_profit_pct x)))
      in case find (\<lambda>s. st_setup_id s = tp_setup_id x) (pk_setups p) of
           None \<Rightarrow> if agent_led then invented else Inr (Refused ''proposal.unknown_setup'')
         | Some s \<Rightarrow>
             if \<not> st_enabled s then (if agent_led then invented else Inr (Refused ''proposal.unknown_setup''))
             else if st_direction s \<noteq> tp_direction x then Inr (Refused ''proposal.direction_mismatch'')
             else Inr (Use_Setup s))"

definition try_enter_from_proposal ::
  "'b handler_config \<Rightarrow> market_view \<Rightarrow> trade_proposal \<Rightarrow> pyfloat \<Rightarrow> ('b handler, bool) run" where
  "try_enter_from_proposal cfg v x min_confidence =
     (if \<not> tp_propose_entry x then run_ret False
      else if tp_confidence x < min_confidence
      then run_bind (log_event ''proposal.rejected_low_confidence'') (\<lambda>_. run_ret False)
      else
        run_bind (run_get mh_engine) (\<lambda>e.
          case re_playbook e of
            None \<Rightarrow> run_ret False
          | Some p \<Rightarrow>
              run_bind (run_lift (setup_for_proposal (rc_policy (gv_config (re_governor e)) = Agent_Led) p x)) (\<lambda>verdict.
                case verdict of
                  Refused name \<Rightarrow> run_bind (log_event name) (\<lambda>_. run_ret False)
                | Use_Setup st \<Rightarrow>
                    (case mv_snapshot v of
                       None \<Rightarrow> run_ret False
                     | Some snap \<Rightarrow>
                         attempt_entry cfg v st snap
                           (default_options\<lparr>eo_stop_pct := Some (tp_stop_pct x), eo_take_profit_pct := Some (tp_take_profit_pct x),
                                            eo_source := ''agent_proposal''\<rparr>)))))"

section \<open>Events\<close>

definition note_price :: "market_event \<Rightarrow> ('b handler, unit) run" where
  "note_price ev =
     (case ev of
        Spy_Quote p \<Rightarrow> run_modify (\<lambda>s. s\<lparr>mh_latest_spy := Some p\<rparr>)
      | _ \<Rightarrow> run_ret ())"

definition worse_of :: "pyfloat option \<Rightarrow> pyfloat \<Rightarrow> pyfloat option" where
  "worse_of old x = (case old of None \<Rightarrow> Some x | Some y \<Rightarrow> Some (if y < x then x else y))"

text \<open>An option quote marks the open trade: the excursions and the trailing stop.\<close>

definition mark_trade :: "exit_manager \<Rightarrow> pyfloat \<Rightarrow> 'b handler \<Rightarrow> 'b handler" where
  "mark_trade m mid s =
     (case mh_open_trade s of
        None \<Rightarrow> s\<lparr>mh_latest_mid := Some mid\<rparr>
      | Some t \<Rightarrow>
          s\<lparr>mh_latest_mid := Some mid, mh_mae := worse_of (mh_mae s) (ot_entry_price t - mid),
            mh_mfe := worse_of (mh_mfe s) (mid - ot_entry_price t),
            mh_open_trade := Some (update_trailing m t mid)\<rparr>)"

definition on_option_quote :: "'b handler_config \<Rightarrow> market_view \<Rightarrow> market_event \<Rightarrow> ('b handler, exit_decision option) run" where
  "on_option_quote cfg v ev =
     (case ev of
        Option_Quote e \<Rightarrow> run_bind (run_modify (mark_trade (hc_exits cfg) (qe_mid e))) (\<lambda>_. try_exit cfg v e)
      | _ \<Rightarrow> run_ret None)"

definition detect_entry ::
  "'b handler_config \<Rightarrow> market_view \<Rightarrow> market_snapshot \<Rightarrow> features \<Rightarrow> ('b handler, unit) run" where
  "detect_entry cfg v snap f =
     run_bind (run_get (\<lambda>s. if may_enter (mh_engine s) then re_playbook (mh_engine s) else None)) (\<lambda>pb.
       case pb of
         None \<Rightarrow> run_ret ()
       | Some p \<Rightarrow>
           run_bind (run_get flat) (\<lambda>is_flat.
           if \<not> is_flat then run_ret () else
           run_bind (broker_busy cfg) (\<lambda>busy.
           if busy \<or> \<not> hc_rules_auto_entry cfg then run_ret ()
           else
             run_bind (run_get mh_signaled) (\<lambda>signaled.
               case detect_setup_from_playbook p f signaled of
                 None \<Rightarrow> run_ret ()
               | Some st \<Rightarrow> run_bind (attempt_entry cfg v st snap default_options) (\<lambda>_. run_ret ())))))"

definition handle_event :: "'b handler_config \<Rightarrow> market_view \<Rightarrow> market_event \<Rightarrow> ('b handler, unit) run" where
  "handle_event cfg v ev =
     run_bind (reconcile_pending_entry cfg v) (\<lambda>_.
     run_bind (reconcile_pending_exit cfg v) (\<lambda>_.
     run_bind (log_event ''market.event_received'') (\<lambda>_.
     run_bind (note_price ev) (\<lambda>_.
       case mv_snapshot v of
         None \<Rightarrow> missing_data
       | Some snap \<Rightarrow>
           run_bind (run_lift (mv_features v)) (\<lambda>f.
           run_bind (run_modify (\<lambda>s. s\<lparr>mh_features_updated := Suc (mh_features_updated s)\<rparr>)) (\<lambda>_.
           run_bind (log_event ''feature.updated'') (\<lambda>_.
           run_bind (on_option_quote cfg v ev) (\<lambda>exited.
             if exited \<noteq> None then run_ret () else detect_entry cfg v snap f))))))))"

section \<open>The handler as a step relation\<close>

inductive handler_step :: "'b handler_config \<Rightarrow> 'b handler \<Rightarrow> 'b handler \<Rightarrow> bool" for cfg :: "'b handler_config" where
  event: "handler_step cfg s (snd (handle_event cfg v ev s))"
| decision: "handler_step cfg s (snd (try_enter_from_decision cfg v x c s))"
| proposal: "handler_step cfg s (snd (try_enter_from_proposal cfg v p c s))"

inductive handler_run :: "'b handler_config \<Rightarrow> 'b handler \<Rightarrow> 'b handler \<Rightarrow> bool" for cfg :: "'b handler_config" where
  start: "handler_run cfg s s"
| step: "handler_run cfg s0 s \<Longrightarrow> handler_step cfg s s' \<Longrightarrow> handler_run cfg s0 s'"

end
