(* ===== verification/Market_Handler_Props.thy ===== *)
theory Market_Handler_Props
  imports Market_Handler
begin

text \<open>
  Properties of the market event handler: what no event and no agent decision can change, what an entry
  presupposes, and how fills at the broker become trades. The operations are long compositions that touch few
  fields, so the proofs go through one interface: a predicate that depends on the trade fields only
  (\<open>trade_core\<close>) is kept by every operation that leaves them alone (locale \<open>handler_frame\<close>), and
  one that also ignores what happens to the trade is kept by the whole handler (locale
  \<open>handler_blind\<close>).
\<close>

section \<open>Frames\<close>

lemma preserves_sum [preserve_intros]:
  "(\<And>x. preserves P (f x)) \<Longrightarrow> (\<And>y. preserves P (g y)) \<Longrightarrow> preserves P (case z of Inl x \<Rightarrow> f x | Inr y \<Rightarrow> g y)"
  by (cases z) simp_all

lemma preserves_list [preserve_intros]:
  "preserves P m \<Longrightarrow> (\<And>x xs. preserves P (f x xs)) \<Longrightarrow> preserves P (case z of [] \<Rightarrow> m | x # xs \<Rightarrow> f x xs)"
  by (cases z) simp_all

lemma preserves_prod [preserve_intros]:
  "(\<And>x y. preserves P (f x y)) \<Longrightarrow> preserves P (case z of (x, y) \<Rightarrow> f x y)"
  by (cases z) simp

lemma preserves_Let [preserve_intros]: "(\<And>x. preserves P (f x)) \<Longrightarrow> preserves P (Let z f)"
  by (simp add: Let_def)

definition trade_core ::
  "'b handler \<Rightarrow> daily_state \<times> open_trade option \<times> pending_entry option \<times> pending_exit option \<times> nat \<times> nat \<times>
     exit_record list \<times> 'b" where
  "trade_core s = (mh_daily_state s, mh_open_trade s, mh_pending_entry s, mh_pending_exit s, mh_trades_entered s,
                   mh_trades_exited s, mh_exit_records s, re_broker (mh_engine s))"

text \<open>An engine operation that leaves the broker alone.\<close>

definition quiet :: "('b engine, 'a) run \<Rightarrow> bool" where
  "quiet m \<longleftrightarrow> (\<forall>e. re_broker (snd (m e)) = re_broker e)"

lemma quiet_bind: "quiet m \<Longrightarrow> (\<And>a. quiet (f a)) \<Longrightarrow> quiet (run_bind m f)"
  by (auto simp: quiet_def run_bind_def split: prod.splits sum.splits) (metis snd_conv)+

lemma quiet_ops: "quiet (transition new payload)" "quiet draw" "quiet (on_governor f)" "quiet (run_ret a)"
  by (auto simp: quiet_def transition_def draw_def on_governor_def run_ret_def run_raise_def split: prod.splits)

lemma quiet_modify: "(\<And>e. re_broker (f e) = re_broker e) \<Longrightarrow> quiet (run_modify f)"
  by (simp add: quiet_def run_modify_def)

lemma quiet_if: "quiet m \<Longrightarrow> quiet n \<Longrightarrow> quiet (if b then m else n)"
  by simp

lemma preserves_cond: "(b \<Longrightarrow> preserves P m) \<Longrightarrow> (\<not> b \<Longrightarrow> preserves P n) \<Longrightarrow> preserves P (if b then m else n)"
  by simp

lemma preserves_case_option:
  "(z = None \<Longrightarrow> preserves P m) \<Longrightarrow> (\<And>x. z = Some x \<Longrightarrow> preserves P (f x)) \<Longrightarrow>
   preserves P (case z of None \<Rightarrow> m | Some x \<Rightarrow> f x)"
  by (cases z) simp_all

locale handler_frame =
  fixes cfg :: "'b handler_config" and P :: "'b handler \<Rightarrow> bool"
  assumes core: "trade_core s' = trade_core s \<Longrightarrow> P s \<Longrightarrow> P s'"
    and list_open: "preserves P (broker_call (br_list_open (hc_ops cfg)))"
    and list_positions: "preserves P (broker_call (br_list_positions (hc_ops cfg)))"
    and get_order: "preserves P (broker_call (br_get (hc_ops cfg) i))"
    and poll: "hc_bridge cfg = Some bg \<Longrightarrow> preserves P (broker_call (bg_poll bg c))"
    and project: "hc_bridge cfg = Some bg \<Longrightarrow> preserves P (broker_call (bg_project bg))"
    and reconcile: "hc_bridge cfg = Some bg \<Longrightarrow> preserves P (broker_call (bg_reconcile bg))"
begin

lemma modify_core: "(\<And>s. trade_core (f s) = trade_core s) \<Longrightarrow> preserves P (run_modify f)"
  by (rule preserves_modify) (rule core)

lemma quiet_engine:
  assumes "quiet m"
  shows "preserves P (on_engine m)"
proof (rule preservesI)
  fix s assume P: "P s"
  obtain r e where m: "m (mh_engine s) = (r, e)" by fastforce
  then have "re_broker e = re_broker (mh_engine s)" using assms unfolding quiet_def by (metis snd_conv)
  then have "trade_core (s\<lparr>mh_engine := e\<rparr>) = trade_core s" by (simp add: trade_core_def)
  then show "P (snd (on_engine m s))" using P core by (simp add: on_engine_def m)
qed

lemmas reads = list_open list_positions get_order poll project reconcile

lemma log_ok: "preserves P (log_event name)"
  unfolding log_event_def by (rule modify_core) (simp add: trade_core_def)

lemma engine_state_ok: "preserves P engine_state"
  unfolding engine_state_def by (rule preserves_get)

lemma transition_step: "preserves P (on_engine (transition new payload))"
  by (rule quiet_engine) (rule quiet_ops)

lemma uuid_ok: "preserves P (new_uuid cfg)"
  unfolding new_uuid_def by (intro preserve_intros quiet_engine quiet_ops)

lemma sync_ok: "preserves P sync_risk_capital"
  unfolding sync_risk_capital_def by (rule modify_core) (simp add: trade_core_def split: option.split)

lemma release_ok: "preserves P release_allocation"
  unfolding release_allocation_def
  by (intro preserve_intros sync_ok modify_core) (simp_all add: trade_core_def)

lemma force_watching_ok: "preserves P (force_watching status)"
  unfolding force_watching_def
  by (intro preserve_intros transition_step engine_state_ok modify_core) (simp_all add: trade_core_def)

lemma await_fill_ok: "hc_bridge cfg = Some bg \<Longrightarrow> preserves P (await_fill cfg bg p)"
  unfolding await_fill_def by (intro preserve_intros reads log_ok)

lemma poll_and_project_ok: "hc_bridge cfg = Some bg \<Longrightarrow> preserves P (poll_and_project bg c name)"
  unfolding poll_and_project_def by (intro preserve_intros reads log_ok)

lemma busy_ok: "preserves P (broker_busy cfg)"
  unfolding broker_busy_def by (intro preserve_intros reads)

lemma gather_ok: "preserves P (gather_quotes v)"
  unfolding gather_quotes_def missing_data_def
  by (intro preserve_intros log_ok modify_core) (simp_all add: trade_core_def)

lemma choose_ok: "preserves P (choose_contract cfg v quotes d price)"
  unfolding choose_contract_def
  by (intro preserve_intros log_ok modify_core) (simp_all add: trade_core_def count_rejection_def Let_def)

lemma size_ok: "preserves P (size_for_entry opt premium minutes)"
  unfolding size_for_entry_def by (intro preserve_intros log_ok)

lemma candidate_ok: "preserves P (build_candidate cfg v st sel opt quantity)"
  unfolding build_candidate_def by (intro preserve_intros uuid_ok)

lemma count_ok: "preserves P count_risk_rejection"
  unfolding count_risk_rejection_def by (rule modify_core) (simp add: trade_core_def)

lemma mark_ok: "preserves P (mark_signaled st)"
  unfolding mark_signaled_def by (rule modify_core) (simp add: trade_core_def)

lemma shadow_entry_ok: "preserves P (shadow_entry cfg st c)"
  unfolding shadow_entry_def
  by (intro preserve_intros log_ok mark_ok count_ok reads quiet_engine quiet_ops modify_core) (simp add: trade_core_def)

lemma reserve_ok: "preserves P (reserve_capital notional quantity)"
  unfolding reserve_capital_def
  by (intro preserve_intros log_ok count_ok sync_ok modify_core) (simp add: trade_core_def)

lemma refund_ok: "preserves P (refund_rejected notional)"
  unfolding refund_rejected_def
  by (intro preserve_intros sync_ok modify_core) (simp add: trade_core_def)

lemma judge_step: "preserves P (on_engine (judge env (hc_ops cfg) c d))"
proof -
  have "on_engine (judge env (hc_ops cfg) c d) =
      run_bind (broker_call (br_list_open (hc_ops cfg))) (\<lambda>opens.
        on_engine (run_bind draw (\<lambda>n. on_governor (evaluate c d (opens \<noteq> []) (ee_now env n)))))"
    by (auto simp: on_engine_def judge_def broker_call_def run_bind_def fun_eq_iff split: prod.splits sum.splits)
  then show ?thesis by (simp add: preserves_bind list_open quiet_engine quiet_bind quiet_ops)
qed

lemma evaluate_step: "preserves P (on_engine (evaluate_signal env (hc_ops cfg) c d))"
proof -
  have split_run: "on_engine (run_bind m f) = run_bind (on_engine m) (\<lambda>a. on_engine (f a))" for m :: "('b engine, 'c) run" and f :: "'c \<Rightarrow> ('b engine, 'd) run"
    by (auto simp: on_engine_def run_bind_def fun_eq_iff split: prod.splits sum.splits)
  show ?thesis
    unfolding evaluate_signal_def split_run
    by (intro preserve_intros transition_step judge_step quiet_engine)
       (auto intro: quiet_ops quiet_bind)
qed

lemma baseline_ok: "preserves P (exit_baseline cfg cid)"
  unfolding exit_baseline_def
  by (cases "hc_bridge cfg") (auto intro!: preserve_intros reads log_ok)

lemma release_trade_ok: "preserves P (release_trade t pnl)"
  unfolding release_trade_def by (intro preserve_intros sync_ok modify_core) (simp add: trade_core_def)

lemma closing_ok: "preserves P (closing_transitions reason)"
  unfolding closing_transitions_def
  by (intro preserve_intros engine_state_ok quiet_engine quiet_bind quiet_ops)

lemma missing_ok: "preserves P missing_data"
  unfolding missing_data_def by (rule modify_core) (simp add: trade_core_def)

lemma note_price_ok: "preserves P (note_price ev)"
  unfolding note_price_def by (cases ev) (auto intro!: preserve_intros modify_core simp: trade_core_def)

lemma counted_ok: "preserves P (run_modify (\<lambda>s. s\<lparr>mh_features_updated := Suc (mh_features_updated s)\<rparr>))"
  by (rule modify_core) (simp add: trade_core_def)

text \<open>What \<open>_attempt_entry\<close> runs before the governor is asked.\<close>

lemma enter_selected_ok:
  assumes "\<And>c notional quantity. preserves P (judge_and_place cfg v st c (eo_source opt) notional quantity)"
  shows "preserves P (enter_selected cfg v st opt sel)"
  unfolding enter_selected_def
  by (intro preserve_intros size_ok log_ok candidate_ok sync_ok modify_core assms) (simp add: trade_core_def)

lemma attempt_entry_ok:
  assumes "\<And>sel. preserves P (enter_selected cfg v st opt sel)"
  shows "preserves P (attempt_entry cfg v st snap opt)"
  unfolding attempt_entry_def
  by (intro preserve_intros busy_ok log_ok gather_ok choose_ok assms)

text \<open>The callers of \<open>_attempt_entry\<close>, and the event handler, add nothing of their own.\<close>

lemma decision_ok:
  assumes "\<And>st snap opt. preserves P (attempt_entry cfg v st snap opt)"
  shows "preserves P (try_enter_from_decision cfg v x c)"
  unfolding try_enter_from_decision_def by (intro preserve_intros log_ok assms)

lemma preserves_verdict: "(\<And>st. preserves P (f st)) \<Longrightarrow> (\<And>n. preserves P (g n)) \<Longrightarrow>
    preserves P (case z of Use_Setup st \<Rightarrow> f st | Refused n \<Rightarrow> g n)"
  by (cases z) simp_all

lemma proposal_ok:
  assumes "\<And>st snap opt. preserves P (attempt_entry cfg v st snap opt)"
  shows "preserves P (try_enter_from_proposal cfg v x c)"
  unfolding try_enter_from_proposal_def by (intro preserve_intros preserves_verdict log_ok assms)

lemma event_ok:
  assumes "preserves P (reconcile_pending_entry cfg v)" "preserves P (reconcile_pending_exit cfg v)"
    "preserves P (on_option_quote cfg v ev)" "\<And>st snap opt. preserves P (attempt_entry cfg v st snap opt)"
  shows "preserves P (handle_event cfg v ev)"
  unfolding handle_event_def detect_entry_def
  by (intro preserve_intros log_ok note_price_ok missing_ok counted_ok busy_ok assms)

end

section \<open>Predicates blind to the trade\<close>

locale handler_blind = handler_frame cfg P
  for cfg :: "'b handler_config" and P :: "'b handler \<Rightarrow> bool" +
  assumes blind: "mh_daily_state s' = mh_daily_state s \<Longrightarrow> re_broker (mh_engine s') = re_broker (mh_engine s) \<Longrightarrow> P s \<Longrightarrow> P s'"
    and submits: "hc_mode cfg \<noteq> Shadow \<Longrightarrow> preserves P (broker_call (br_submit (hc_ops cfg) i))"
begin

lemma modify_blind:
  "(\<And>s. mh_daily_state (f s) = mh_daily_state s) \<Longrightarrow> (\<And>s. re_broker (mh_engine (f s)) = re_broker (mh_engine s)) \<Longrightarrow>
   preserves P (run_modify f)"
  by (rule preserves_modify) (rule blind, simp_all)

lemma attach_ok: "preserves P (attach_open_trade v pid price c st)"
  unfolding attach_open_trade_def
  by (intro preserve_intros log_ok engine_state_ok transition_step modify_blind) simp_all

lemma drop_entry_ok: "preserves P drop_pending_entry"
  unfolding drop_pending_entry_def by (rule modify_blind) simp_all

lemma clear_exit_ok: "preserves P clear_pending_exit"
  unfolding clear_pending_exit_def by (rule modify_blind) simp_all

lemma reconcile_entry_ok: "preserves P (reconcile_pending_entry cfg v)"
proof -
  have failed: "preserves P (entry_failed b status)" for b status
    unfolding entry_failed_def by (intro preserve_intros log_ok drop_entry_ok release_ok force_watching_ok)
  have "preserves P (reconcile_entry_ledger cfg v bg p)" if "hc_bridge cfg = Some bg" for bg p
    unfolding reconcile_entry_ledger_def
    by (intro preserve_intros poll_and_project_ok await_fill_ok failed drop_entry_ok attach_ok that)
  moreover have "preserves P (reconcile_entry_legacy cfg v p)" for p
    unfolding reconcile_entry_legacy_def
    by (intro preserve_intros reads failed drop_entry_ok attach_ok log_ok)
  ultimately show ?thesis
    unfolding reconcile_pending_entry_def by (intro preserve_intros preserves_case_option)
qed

lemma reconcile_exit_ok: "preserves P (reconcile_pending_exit cfg v)"
proof -
  have fin: "preserves P (finalize_exit v p t price pnl)" for p t price pnl
    unfolding finalize_exit_def
    by (intro preserve_intros release_trade_ok closing_ok log_ok modify_blind) simp_all
  have "preserves P (note_partial_exit t r)" for t r
    unfolding note_partial_exit_def by (intro preserve_intros log_ok modify_blind) simp_all
  then have settle: "preserves P (settle_exit v p t pr)" for p t pr
    unfolding settle_exit_def by (intro preserve_intros fin clear_exit_ok log_ok)
  show ?thesis
    unfolding reconcile_pending_exit_def
    by (cases "hc_bridge cfg"; simp only: prod.case option.case)
       (intro preserve_intros poll_and_project_ok log_ok clear_exit_ok settle; assumption)+
qed

lemma exit_ok: "preserves P (try_exit cfg v e)"
proof -
  have sub: "preserves P (submit_exit cfg v t pos d)" if "hc_mode cfg \<noteq> Shadow" for t pos d
    unfolding submit_exit_def
    by (intro preserve_intros uuid_ok baseline_ok log_ok submits reconcile_exit_ok modify_blind that) simp_all
  show ?thesis
    unfolding try_exit_def
    by (intro preserves_bind preserves_get preserves_prod preserves_option preserves_list preserves_ret preserves_cond
          reconcile_exit_ok log_ok reads sub modify_blind) simp_all
qed

lemma option_quote_ok: "preserves P (on_option_quote cfg v ev)"
  unfolding on_option_quote_def
  by (cases ev) (auto intro!: preserve_intros exit_ok modify_blind simp: mark_trade_def split: option.split)

lemma judge_and_place_ok: "preserves P (judge_and_place cfg v st c source notional quantity)"
proof (cases "hc_mode cfg = Shadow")
  case True
  then show ?thesis by (simp add: judge_and_place_def shadow_entry_ok)
next
  case False
  have split_run: "on_engine (run_bind m f) = run_bind (on_engine m) (\<lambda>a. on_engine (f a))"
    for m :: "('b engine, 'c) run" and f :: "'c \<Rightarrow> ('b engine, 'd) run"
    by (auto simp: on_engine_def run_bind_def fun_eq_iff split: prod.splits sum.splits)
  have sub: "preserves P (on_engine (on_broker (br_submit (hc_ops cfg) i)))" for i
    using submits [OF False] by (simp add: broker_call_def)
  have "preserves P (on_engine (submit_entry (hc_env cfg) (hc_ops cfg) c))"
    unfolding submit_entry_def split_run
    by ((rule preserves_bind transition_step sub) | (rule quiet_engine, (rule quiet_if quiet_bind quiet_ops quiet_modify; simp?)+))+
  then have "preserves P (place_entry cfg v st c source notional quantity)"
    unfolding place_entry_def
    by (intro preserve_intros reserve_ok log_ok refund_ok count_ok mark_ok reconcile_entry_ok modify_blind) simp_all
  then show ?thesis
    using False unfolding judge_and_place_def
    by (simp add: preserves_bind preserves_get evaluate_step log_ok count_ok mark_ok preserves_ret)
qed

lemma attempt_ok: "preserves P (attempt_entry cfg v st snap opt)"
  by (intro attempt_entry_ok enter_selected_ok judge_and_place_ok)

lemma step_ok: "handler_step cfg s s' \<Longrightarrow> P s \<Longrightarrow> P s'"
  by (erule handler_step.cases)
     (auto intro: preservesD event_ok decision_ok proposal_ok reconcile_entry_ok reconcile_exit_ok option_quote_ok attempt_ok)

lemma run_ok: "handler_run cfg s s' \<Longrightarrow> P s \<Longrightarrow> P s'"
  by (induction rule: handler_run.induct) (auto intro: step_ok)

end

section \<open>What no event changes\<close>

lemma broker_call_keeps: "(\<And>s e. P (s\<lparr>mh_engine := e\<rparr>) \<longleftrightarrow> P s) \<Longrightarrow> preserves P (broker_call m)"
  by (rule preservesI) (simp add: broker_call_def on_engine_def split: prod.splits)

interpretation daily: handler_blind cfg "\<lambda>s. mh_daily_state s = d" for cfg :: "'b handler_config" and d
  by unfold_locales (simp_all add: trade_core_def broker_call_keeps)

text \<open>
  The day's statistics the governor judges by (trades taken, open positions, profit) never change in
  the handler: after any sequence of events, decisions and proposals they are what they were at the start.
  So a daily loss, trade or position limit that the initial statistics satisfy never stops an entry.
\<close>

theorem daily_state_never_updated:
  assumes "handler_run cfg s0 s"
  shows "mh_daily_state s = mh_daily_state s0 \<and>
    (0 \<le> ds_trades_count (mh_daily_state s0) \<and> ds_trades_count (mh_daily_state s0) < rc_max_trades_per_day (gv_config g) \<longrightarrow>
       ''MAX_TRADES'' \<notin> set (evaluate_reasons g c (mh_daily_state s) u t))"
proof -
  have same: "mh_daily_state s = mh_daily_state s0" by (rule daily.run_ok [OF assms]) simp
  show ?thesis
    unfolding same
    by (auto simp: evaluate_reasons_def soft_reasons_def freshness_reasons_def capital_reasons_def flag_if_def Let_def)
qed

text \<open>
  Claim C19. In shadow mode nothing is ever submitted: a property of the broker that its read operations (and the
  calls of the bridge) keep holds after any sequence of events, decisions and proposals, whatever the broker's
  \<open>submit_order\<close> does.
\<close>

theorem shadow_never_submits:
  assumes "handler_run cfg s0 s" "hc_mode cfg = Shadow" "Q (re_broker (mh_engine s0))"
    "preserves Q (br_list_open (hc_ops cfg))" "preserves Q (br_list_positions (hc_ops cfg))" "\<And>i. preserves Q (br_get (hc_ops cfg) i)"
    "\<And>bg c. hc_bridge cfg = Some bg \<Longrightarrow> preserves Q (bg_poll bg c) \<and> preserves Q (bg_project bg) \<and> preserves Q (bg_reconcile bg)"
  shows "Q (re_broker (mh_engine s))"
proof -
  let ?P = "\<lambda>s :: 'a handler. Q (re_broker (mh_engine s))"
  have lift: "preserves ?P (broker_call m)" if "preserves Q m" for m :: "('a, 'c) run"
  proof (rule preservesI)
    fix s :: "'a handler" assume "Q (re_broker (mh_engine s))"
    then have "Q (snd (m (re_broker (mh_engine s))))" using that by (simp add: preserves_def)
    then show "Q (re_broker (mh_engine (snd (broker_call m s))))"
      by (auto simp: broker_call_def on_engine_def on_broker_def split: prod.splits)
  qed
  have "handler_blind cfg ?P"
    by unfold_locales (use assms in \<open>auto intro!: lift simp: trade_core_def\<close>)
  from handler_blind.run_ok [OF this assms(1)] show ?thesis using assms(3) by simp
qed

section \<open>Without a bridge\<close>

text \<open>
  The predicate kept by every operation of a handler without a bridge once a trade is open: it stays open and the
  counts of entries and exits stand still.
\<close>

definition stuck_at :: "nat \<Rightarrow> nat \<Rightarrow> exit_record list \<Rightarrow> 'b handler \<Rightarrow> bool" where
  "stuck_at entered exited recs s \<longleftrightarrow>
     mh_open_trade s \<noteq> None \<and> mh_trades_entered s = entered \<and> mh_trades_exited s = exited \<and> mh_exit_records s = recs"

definition unbridged :: "'b handler_config \<Rightarrow> 'b handler_config" where
  "unbridged cfg = cfg\<lparr>hc_bridge := None\<rparr>"

interpretation stuck: handler_frame "unbridged cfg" "stuck_at entered exited recs"
  for cfg :: "'b handler_config" and entered exited recs
  by unfold_locales (auto simp: stuck_at_def trade_core_def unbridged_def broker_call_keeps)

lemma stuck_entry: "preserves (stuck_at n k xs) (reconcile_pending_entry (unbridged cfg) v)"
  by (rule preservesI) (auto simp: stuck_at_def reconcile_pending_entry_def run_bind_def run_get_def run_ret_def split: option.split)

lemma stuck_exit: "preserves (stuck_at n k xs) (reconcile_pending_exit (unbridged cfg) v)"
  by (rule preservesI)
     (auto simp: stuck_at_def reconcile_pending_exit_def unbridged_def run_bind_def run_get_def run_ret_def split: option.split)

lemma stuck_submit_exit: "preserves (stuck_at n k xs) (submit_exit (unbridged cfg) v t pos d)"
  unfolding submit_exit_def
  by (intro preserve_intros stuck.uuid_ok stuck.baseline_ok stuck.log_ok stuck_exit broker_call_keeps preserves_modify)
     (simp_all add: stuck_at_def)

lemma stuck_try_exit: "preserves (stuck_at n k xs) (try_exit (unbridged cfg) v e)"
  unfolding try_exit_def
  by (intro preserve_intros stuck_exit stuck_submit_exit stuck.log_ok stuck.reads preserves_modify) (simp_all add: stuck_at_def)

lemma stuck_quote: "preserves (stuck_at n k xs) (on_option_quote (unbridged cfg) v ev)"
proof (cases ev)
  case (Option_Quote e)
  have "preserves (stuck_at n k xs) (run_modify (mark_trade (hc_exits (unbridged cfg)) (qe_mid e)))"
    by (rule preserves_modify) (auto simp: stuck_at_def mark_trade_def)
  then show ?thesis unfolding Option_Quote on_option_quote_def market_event.case by (rule preserves_bind) (rule stuck_try_exit)
qed (simp_all add: on_option_quote_def preserves_ret)

lemma stuck_attempt: "preserves (stuck_at n k xs) (attempt_entry (unbridged cfg) v st snap opt)"
  by (rule preservesI) (auto simp: stuck_at_def attempt_entry_def flat_def run_bind_def run_get_def run_ret_def)

lemma stuck_step: "handler_step (unbridged cfg) s s' \<Longrightarrow> stuck_at n k xs s \<Longrightarrow> stuck_at n k xs s'"
  by (erule handler_step.cases)
     (auto intro: preservesD stuck.event_ok stuck.decision_ok stuck.proposal_ok stuck_entry stuck_exit stuck_quote stuck_attempt)

lemma stuck_run: "handler_run (unbridged cfg) s s' \<Longrightarrow> stuck_at n k xs s \<Longrightarrow> stuck_at n k xs s'"
  by (induction rule: handler_run.induct) (auto intro: stuck_step)

text \<open>
  Without a bridge to the execution runtime (replays and the plain paper loop) the first trade is the last:
  once a trade is open it stays open whatever events, decisions and proposals follow, no exit is ever counted
  or recorded, and no further entry is made - although exit orders may be submitted and filled.
\<close>

theorem unbridged_trade_never_closes:
  assumes "handler_run cfg s0 s" "hc_bridge cfg = None" "mh_open_trade s0 \<noteq> None"
  shows "mh_open_trade s \<noteq> None \<and> mh_trades_entered s = mh_trades_entered s0 \<and>
    mh_trades_exited s = mh_trades_exited s0 \<and> mh_exit_records s = mh_exit_records s0"
proof -
  have "unbridged cfg = cfg" using assms(2) by (simp add: unbridged_def)
  then have "handler_run (unbridged cfg) s0 s" using assms(1) by simp
  from stuck_run [OF this, of "mh_trades_entered s0" "mh_trades_exited s0" "mh_exit_records s0"] assms(3)
  show ?thesis by (simp add: stuck_at_def)
qed

section \<open>One trade at a time\<close>

text \<open>\<open>leads P m Q\<close>: however \<open>m\<close> ends, \<open>Q\<close> holds if \<open>P\<close> held before.\<close>

definition leads :: "('s \<Rightarrow> bool) \<Rightarrow> ('s, 'a) run \<Rightarrow> ('s \<Rightarrow> bool) \<Rightarrow> bool" where
  "leads P m Q \<longleftrightarrow> (\<forall>s. P s \<longrightarrow> Q (snd (m s)))"

lemma leads_preserves: "preserves P m \<Longrightarrow> (\<And>s. P s \<Longrightarrow> Q s) \<Longrightarrow> leads P m Q"
  by (simp add: leads_def preserves_def)

lemma leads_from: "preserves Q m \<Longrightarrow> (\<And>s. P s \<Longrightarrow> Q s) \<Longrightarrow> leads P m Q"
  by (simp add: leads_def preserves_def)

lemma leads_if: "leads P m Q \<Longrightarrow> leads P n Q \<Longrightarrow> leads P (if b then m else n) Q"
  by simp

lemma leads_option:
  "leads P m Q \<Longrightarrow> (\<And>x. leads P (f x) Q) \<Longrightarrow> leads P (case z of None \<Rightarrow> m | Some x \<Rightarrow> f x) Q"
  by (cases z) simp_all

lemma leads_prod: "(\<And>x y. leads P (f x y) Q) \<Longrightarrow> leads P (case z of (x, y) \<Rightarrow> f x y) Q"
  by (cases z) simp

lemma leads_ret: "(\<And>s. P s \<Longrightarrow> Q s) \<Longrightarrow> leads P (run_ret a) Q"
  by (simp add: leads_def run_ret_def)

lemma leads_bind:
  assumes "preserves P m" "\<And>a. leads P (f a) Q" "\<And>s. P s \<Longrightarrow> Q s"
  shows "leads P (run_bind m f) Q"
  unfolding leads_def
proof (intro allI impI)
  fix s assume "P s"
  then have "P (snd (m s))" using assms(1) by (simp add: preserves_def)
  then show "Q (snd (run_bind m f s))"
    using assms(2,3) by (auto simp: run_bind_def leads_def split: prod.splits sum.splits)
qed

lemma leads_then:
  assumes "leads P m Q" "\<And>a. preserves Q (f a)"
  shows "leads P (run_bind m f) Q"
  using assms by (fastforce simp: run_bind_def leads_def preserves_def split: prod.splits sum.splits)

definition one_trade :: "'b handler \<Rightarrow> bool" where
  "one_trade s \<longleftrightarrow> mh_open_trade s = None \<or> mh_pending_entry s = None"

definition no_trade :: "'b handler \<Rightarrow> bool" where
  "no_trade s \<longleftrightarrow> mh_open_trade s = None"

interpretation single: handler_frame cfg one_trade for cfg :: "'b handler_config"
  by unfold_locales (auto simp: one_trade_def trade_core_def broker_call_keeps)

interpretation none_open: handler_frame cfg no_trade for cfg :: "'b handler_config"
  by unfold_locales (auto simp: no_trade_def trade_core_def broker_call_keeps)

text \<open>Whether an entry waits; kept by everything but the entry itself.\<close>

definition no_entry :: "'b handler \<Rightarrow> bool" where
  "no_entry s \<longleftrightarrow> mh_pending_entry s = None"

interpretation none_waiting: handler_frame cfg no_entry for cfg :: "'b handler_config"
  by unfold_locales (auto simp: no_entry_def trade_core_def broker_call_keeps)

lemma attach_keeps_no_entry: "preserves no_entry (attach_open_trade v pid price c st)"
  unfolding attach_open_trade_def
  by (intro preserve_intros none_waiting.log_ok none_waiting.engine_state_ok none_waiting.transition_step preserves_modify)
     (simp_all add: no_entry_def)

lemma attach_after_drop: "preserves one_trade (run_bind drop_pending_entry (\<lambda>_. attach_open_trade v pid price c st))"
proof (rule preservesI)
  fix s :: "'b handler"
  have "no_entry (snd (attach_open_trade v pid price c st (s\<lparr>mh_pending_entry := None\<rparr>)))"
    using attach_keeps_no_entry by (rule preservesD) (simp add: no_entry_def)
  then show "one_trade (snd (run_bind drop_pending_entry (\<lambda>_. attach_open_trade v pid price c st) s))"
    by (simp add: run_bind_def drop_pending_entry_def run_modify_def one_trade_def no_entry_def)
qed

lemma single_entry: "preserves one_trade (reconcile_pending_entry cfg v)"
proof -
  have drop: "preserves one_trade drop_pending_entry"
    unfolding drop_pending_entry_def by (rule preserves_modify) (simp add: one_trade_def)
  have failed: "preserves one_trade (entry_failed b status)" for b status
    unfolding entry_failed_def by (intro preserve_intros single.log_ok drop single.release_ok single.force_watching_ok)
  have "preserves one_trade (reconcile_entry_ledger cfg v bg p)" if "hc_bridge cfg = Some bg" for bg p
    unfolding reconcile_entry_ledger_def
    by ((rule attach_after_drop failed single.await_fill_ok [OF that] single.poll_and_project_ok [OF that])
        | rule preserves_bind preserves_option preserves_prod preserves_ret)+
  moreover have "preserves one_trade (reconcile_entry_legacy cfg v p)" for p
    unfolding reconcile_entry_legacy_def
    by ((rule attach_after_drop failed single.reads single.log_ok)
        | rule preserves_bind preserves_list preserves_option preserves_if preserves_ret)+
  ultimately show ?thesis
    unfolding reconcile_pending_entry_def by (intro preserve_intros preserves_case_option)
qed

lemma single_exit: "preserves one_trade (reconcile_pending_exit cfg v)"
proof -
  have clear: "preserves one_trade clear_pending_exit"
    unfolding clear_pending_exit_def by (rule preserves_modify) (simp add: one_trade_def)
  have fin: "preserves one_trade (finalize_exit v p t price pnl)" for p t price pnl
    unfolding finalize_exit_def
    by (intro preserve_intros single.release_trade_ok single.closing_ok single.log_ok preserves_modify) (simp_all add: one_trade_def)
  have part: "leads (\<lambda>s. mh_open_trade s = Some t \<and> one_trade s) (note_partial_exit t r) one_trade" for t r
    by (auto simp: leads_def note_partial_exit_def one_trade_def run_bind_def run_modify_def run_ret_def log_event_def)
  have settle: "leads (\<lambda>s. mh_open_trade s = Some t \<and> one_trade s) (settle_exit v p t pr) one_trade" for p t pr
    unfolding settle_exit_def Let_def
    by (rule leads_then [OF part]) (intro preserve_intros fin clear single.log_ok)
  have kept: "preserves (\<lambda>s. mh_open_trade s = Some t \<and> one_trade s) (poll_and_project bg c name)" for t bg c name
    by (rule preservesI)
       (auto simp: poll_and_project_def run_bind_def run_catch_def run_ret_def log_event_def run_modify_def broker_call_def
          on_engine_def one_trade_def split: prod.splits sum.splits)
  have "leads (\<lambda>s. mh_open_trade s = Some t \<and> one_trade s)
      (run_bind (poll_and_project bg (px_client_order_id p) ''exit.reconcile_failed'') (\<lambda>got.
         case got of
           None \<Rightarrow> run_ret ()
         | Some (ord, pr) \<Rightarrow>
             if (case ord of None \<Rightarrow> False | Some x \<Rightarrow> bo_status x \<in> {Cancelled, Rejected})
                \<or> order_dead pr (px_client_order_id p) \<noteq> None
             then run_bind (log_event ''exit.order_failed'') (\<lambda>_. clear_pending_exit)
             else settle_exit v p t pr)) one_trade" (is "leads ?P (run_bind _ ?f) _") for t bg p
  proof (rule leads_bind [OF kept])
    fix got
    have "preserves one_trade (run_bind (log_event ''exit.order_failed'') (\<lambda>_. clear_pending_exit))"
      by (intro preserve_intros single.log_ok clear)
    then have "leads ?P (run_bind (log_event ''exit.order_failed'') (\<lambda>_. clear_pending_exit)) one_trade"
      by (rule leads_from) simp
    then show "leads ?P (?f got) one_trade"
      by (intro leads_option leads_prod leads_if leads_ret settle) simp
  qed simp
  then show ?thesis
    unfolding reconcile_pending_exit_def
    by (auto simp: preserves_def leads_def run_bind_def [of "run_get _"] run_get_def run_ret_def split: option.split)
qed

lemma single_try_exit: "preserves one_trade (try_exit cfg v e)"
proof -
  have "preserves one_trade (submit_exit cfg v t pos d)" for t pos d
    unfolding submit_exit_def
    by (intro preserve_intros single.uuid_ok single.baseline_ok single.log_ok single_exit broker_call_keeps preserves_modify)
       (simp_all add: one_trade_def)
  then show ?thesis
    unfolding try_exit_def
    by (intro preserve_intros single_exit single.log_ok single.reads preserves_modify) (simp_all add: one_trade_def)
qed

lemma single_quote: "preserves one_trade (on_option_quote cfg v ev)"
proof (cases ev)
  case (Option_Quote e)
  have "preserves one_trade (run_modify (mark_trade (hc_exits cfg) (qe_mid e)))"
    by (rule preserves_modify) (auto simp: one_trade_def mark_trade_def split: option.split)
  then show ?thesis unfolding Option_Quote on_option_quote_def market_event.case by (rule preserves_bind) (rule single_try_exit)
qed (simp_all add: on_option_quote_def preserves_ret)

lemma no_trade_single: "no_trade s \<Longrightarrow> one_trade s"
  by (simp add: no_trade_def one_trade_def)

lemma single_place: "leads no_trade (place_entry cfg v st c source notional quantity) one_trade"
proof -
  have submit: "preserves no_trade (on_engine m)" for m :: "('b engine, 'c) run"
    by (rule preservesI) (simp add: no_trade_def on_engine_def split: prod.splits)
  have wait: "leads no_trade (run_modify (\<lambda>s. s\<lparr>mh_trades_entered := Suc (mh_trades_entered s), mh_pending_entry := Some p\<rparr>)) one_trade" for p
    by (simp add: leads_def run_modify_def no_trade_def one_trade_def)
  have refused: "preserves no_trade (run_bind (refund_rejected notional) (\<lambda>_. run_bind count_risk_rejection
      (\<lambda>_. run_bind (mark_signaled st) (\<lambda>_. run_ret False))))"
    by (intro preserve_intros none_open.refund_ok none_open.count_ok none_open.mark_ok)
  show ?thesis
    unfolding place_entry_def
    by ((rule none_open.reserve_ok none_open.log_ok submit no_trade_single leads_preserves [OF refused] wait
            leads_preserves [OF preserves_ret])
        | rule leads_if leads_then [OF wait] leads_bind
        | rule preserves_bind single.log_ok single_entry single.mark_ok preserves_ret
        | assumption)+
qed

lemma single_attempt: "preserves one_trade (attempt_entry cfg v st snap opt)"
proof -
  have placed: "leads no_trade (judge_and_place cfg v st c source notional quantity) one_trade" for c source notional quantity
    unfolding judge_and_place_def
    by (rule leads_if)
       ((rule none_open.shadow_entry_ok [THEN leads_preserves] preserves_get none_open.evaluate_step none_open.log_ok
            no_trade_single single_place none_open.count_ok none_open.mark_ok preserves_ret leads_ret
          | rule leads_if leads_bind | assumption)+)
  have selected: "leads no_trade (enter_selected cfg v st opt sel) one_trade" for sel
    unfolding enter_selected_def
    by ((rule none_open.size_ok preserves_get none_open.log_ok none_open.candidate_ok none_open.sync_ok no_trade_single placed leads_ret
            preserves_ret)
        | rule leads_prod leads_if leads_bind preserves_if
        | (rule none_open.modify_core, simp add: trade_core_def) | assumption)+
  show ?thesis
  proof (rule preservesI)
    fix s :: "'a handler" assume s: "one_trade s"
    let ?rest = "run_bind (broker_busy cfg) (\<lambda>busy.
     if busy then run_ret False else
     run_bind (run_get (already_signaled st (eo_source opt))) (\<lambda>known.
     if known then run_ret False else
     run_bind (run_get (goal_pause cfg)) (\<lambda>paused.
     if paused then run_bind (log_event ''capital.goal_met_pause'') (\<lambda>_. run_ret False) else
     run_bind (run_get (\<lambda>s. may_enter (mh_engine s))) (\<lambda>ready.
     if \<not> ready then run_ret False else
     run_bind (gather_quotes v) (\<lambda>got.
       case got of
         None \<Rightarrow> run_ret False
       | Some quotes \<Rightarrow>
           if quotes = [] then run_ret False
           else run_bind (choose_contract cfg v quotes (st_direction st) (ms_price snap)) (\<lambda>picked.
                  case picked of None \<Rightarrow> run_ret False | Some sel \<Rightarrow> enter_selected cfg v st opt sel))))))"
    have rest: "leads no_trade ?rest one_trade"
      by ((rule none_open.busy_ok preserves_get none_open.log_ok none_open.gather_ok none_open.choose_ok no_trade_single selected leads_ret)
          | rule leads_option leads_if leads_bind | assumption)+
    show "one_trade (snd (attempt_entry cfg v st snap opt s))"
    proof (cases "flat s")
      case True
      then have "one_trade (snd (?rest s))" using rest by (simp add: leads_def no_trade_def flat_def)
      then show ?thesis by (simp add: attempt_entry_def run_bind_def [of "run_get flat"] run_get_def True)
    next
      case False
      then show ?thesis by (simp add: attempt_entry_def run_bind_def [of "run_get flat"] run_get_def run_ret_def s)
    qed
  qed
qed

lemma single_step: "handler_step cfg s s' \<Longrightarrow> one_trade s \<Longrightarrow> one_trade s'"
  by (erule handler_step.cases)
     (auto intro: preservesD single.event_ok single.decision_ok single.proposal_ok single_entry single_exit single_quote single_attempt)

text \<open>
  Claim C6. There is at most one trade: after any sequence of events, decisions and proposals, raised errors
  included, a handler never holds an open trade and a waiting entry at once.
\<close>

theorem one_trade_at_a_time:
  assumes "handler_run cfg s0 s" "mh_open_trade s0 = None \<or> mh_pending_entry s0 = None"
  shows "mh_open_trade s = None \<or> mh_pending_entry s = None"
proof -
  have "one_trade s" using assms
    by (induction rule: handler_run.induct) (auto intro: single_step simp: one_trade_def [symmetric])
  then show ?thesis by (simp add: one_trade_def)
qed

section \<open>From fills to trades\<close>

lemma poll_and_project_returns:
  assumes "bg_poll bg c (re_broker (mh_engine s)) = (Inr ord, b1)" "bg_project bg b1 = (Inr pr, b2)"
  shows "poll_and_project bg c name s = (Inr (Some (ord, pr)), s\<lparr>mh_engine := (mh_engine s)\<lparr>re_broker := b2\<rparr>\<rparr>)"
  by (simp add: poll_and_project_def run_catch_def run_bind_def broker_call_def on_engine_def on_broker_def run_ret_def assms)

text \<open>
  Claim C17. A verified fill becomes the open trade: when the ledger shows the contract of a waiting entry open, with an
  average price, and the order neither cancelled nor rejected, the next event's reconciliation attaches a trade with
  the ledger's quantity and price and the candidate's stop and target, clears the waiting entry and moves
  the engine on to managing the exit - whatever the polled order itself reports.
\<close>

theorem verified_fill_opens_trade:
  assumes "mh_pending_entry s = Some p" "mh_open_trade s = None" "hc_bridge cfg = Some bg" "re_state (mh_engine s) = OPEN_POSITION"
    "bg_poll bg (pe_client_order_id p) (re_broker (mh_engine s)) = (Inr ord, b1)" "bg_project bg b1 = (Inr pr, b2)"
    "order_dead pr (pe_client_order_id p) = None"
    "verified_position pr (contract_id_for (tc_contract (pe_candidate p))) = Some (pos, avg)"
  shows "\<exists>s' t. reconcile_pending_entry cfg v s = (Inr (), s') \<and> mh_open_trade s' = Some t \<and> mh_pending_entry s' = None \<and>
    re_state (mh_engine s') = MANAGING_EXIT \<and> re_broker (mh_engine s') = b2 \<and>
    ot_entry_price t = avg \<and> ot_quantity t = max 1 (trunc_zero (ps_quantity pos)) \<and> ot_entry_time t = mv_now v \<and>
    ot_stop_price t = tc_stop_price (pe_candidate p) \<and> ot_take_profit_price t = tc_take_profit_price (pe_candidate p)"
proof -
  have run: "reconcile_pending_entry cfg v s = reconcile_entry_ledger cfg v bg p s"
    by (simp add: reconcile_pending_entry_def run_bind_def run_get_def assms)
  show ?thesis
    unfolding run reconcile_entry_ledger_def
    by (subst run_bind_def)
       (simp add: poll_and_project_returns [OF assms(5,6)] assms drop_pending_entry_def attach_open_trade_def engine_state_def
          on_engine_def transition_def run_bind_def run_modify_def run_get_def run_ret_def log_event_def opened_trade_def)
qed

text \<open>
  An exit settles at the ledger's profit: when the ledger shows the position of a waiting exit closed, the trade's
  profit is the contract's realized profit since the exit was submitted, the trade and the waiting exit are cleared, the
  exit is counted once, under its reason, and the engine watches again.
\<close>

theorem closed_position_settles_exit:
  assumes "mh_pending_exit s = Some p" "mh_open_trade s = Some t" "hc_bridge cfg = Some bg" "re_state (mh_engine s) = MANAGING_EXIT"
    "bg_poll bg (px_client_order_id p) (re_broker (mh_engine s)) = (Inr ord, b1)" "bg_project bg b1 = (Inr pr, b2)"
    "case ord of None \<Rightarrow> True | Some x \<Rightarrow> bo_status x \<notin> {Cancelled, Rejected}"
    "order_dead pr (px_client_order_id p) = None"
    "dict_get (pr_positions pr) (px_contract_id p) = Some pos" "ps_quantity pos = 0" "mh_budget s = None"
  shows "\<exists>s'. reconcile_pending_exit cfg v s = (Inr (), s') \<and> mh_open_trade s' = None \<and> mh_pending_exit s' = None \<and>
    mh_trades_exited s' = Suc (mh_trades_exited s) \<and> mh_exits_by_reason s' = count_exit (px_reason p) (mh_exits_by_reason s) \<and>
    re_state (mh_engine s') = WATCHING \<and>
    map xd_trade_pnl_usd (mh_exit_records s') = map xd_trade_pnl_usd (mh_exit_records s) @ [ps_realized_pnl pos - px_realized_pnl_before p]"
proof -
  let ?s1 = "s\<lparr>mh_engine := (mh_engine s)\<lparr>re_broker := b2\<rparr>\<rparr>"
  have run: "reconcile_pending_exit cfg v s = settle_exit v p t pr ?s1"
    using assms(7,8)
    by (simp add: reconcile_pending_exit_def run_bind_def run_get_def assms(1-3) poll_and_project_returns [OF assms(5,6)] split: option.splits)
  have "settle_exit v p t pr ?s1 = finalize_exit v p t (exit_price_of pr (px_client_order_id p) t)
          (ps_realized_pnl pos - px_realized_pnl_before p) ?s1"
    by (simp add: settle_exit_def remaining_quantity_def note_partial_exit_def run_bind_def run_ret_def assms)
  then show ?thesis
    unfolding run
    by (simp add: finalize_exit_def release_trade_def closing_transitions_def engine_state_def on_engine_def transition_def
        run_bind_def run_modify_def run_get_def run_ret_def log_event_def assms)
qed

section \<open>What an entry presupposes\<close>

lemma on_engine_Inr: "on_engine m s = (Inr a, s') \<longleftrightarrow> (\<exists>e. m (mh_engine s) = (Inr a, e) \<and> s' = s\<lparr>mh_engine := e\<rparr>)"
  by (auto simp: on_engine_def split: prod.splits)

lemma log_event_Inr: "log_event name s = (Inr u, s') \<longleftrightarrow> s' = s\<lparr>mh_log := mh_log s @ [name]\<rparr>"
  by (simp add: log_event_def run_modify_def eq_commute)

lemma run_get_Inr: "run_get f s = (Inr a, s') \<longleftrightarrow> a = f s \<and> s' = s"
  by (auto simp: run_get_def)

lemma run_lift_Inr: "run_lift r s = (Inr a, s') \<longleftrightarrow> r = Inr a \<and> s' = s"
  by (auto simp: run_lift_def)

lemmas handler_op_simps = run_bind_Inr on_engine_Inr log_event_Inr run_get_Inr run_lift_Inr run_unit_Inr

lemma place_entry_True:
  assumes "place_entry cfg v st c source notional quantity s = (Inr True, s')"
  shows "\<exists>n b b' ord. br_submit (hc_ops cfg) (entry_intent (hc_env cfg) n c) b = (Inr ord, b') \<and> bo_status ord \<noteq> Rejected \<and>
    st_setup_id st \<in> mh_signaled s'"
proof -
  obtain e0 ord e where sub: "submit_entry (hc_env cfg) (hc_ops cfg) c e0 = (Inr ord, e)"
    and ok: "bo_status ord \<noteq> Rejected" and marked: "st_setup_id st \<in> mh_signaled s'"
    using assms unfolding place_entry_def mark_signaled_def by (auto simp: handler_op_simps split: if_splits)
  show ?thesis using submit_entry_returns [OF sub] ok marked by blast
qed

lemma judge_and_place_True:
  assumes "judge_and_place cfg v st c source notional quantity s = (Inr True, s')" "hc_mode cfg \<noteq> Shadow"
  shows "re_state (mh_engine s) \<in> {WATCHING, SETUP_ARMED, SIGNAL_DETECTED} \<and>
    (\<exists>t. evaluate_reasons (re_governor (mh_engine s)) c (mh_daily_state s) False t = []) \<and>
    (\<exists>n b b' ord. br_submit (hc_ops cfg) (entry_intent (hc_env cfg) n c) b = (Inr ord, b') \<and> bo_status ord \<noteq> Rejected) \<and>
    st_setup_id st \<in> mh_signaled s'"
proof -
  obtain dec e s2 where ev: "evaluate_signal (hc_env cfg) (hc_ops cfg) c (mh_daily_state s) (mh_engine s) = (Inr dec, e)"
    and app: "rd_approved dec" and pl: "place_entry cfg v st c source notional quantity s2 = (Inr True, s')"
    using assms by (auto simp: judge_and_place_def handler_op_simps split: if_splits)
  obtain opens :: "broker_order list" and n where dec: "dec = fst (evaluate c (mh_daily_state s) (opens \<noteq> []) (ee_now (hc_env cfg) n) (re_governor (mh_engine s)))"
    using evaluate_signal_returns [OF ev] by blast
  then have clear: "evaluate_reasons (re_governor (mh_engine s)) c (mh_daily_state s) (opens \<noteq> []) (ee_now (hc_env cfg) n) = []"
    using app by (simp add: evaluate_verdict)
  then have "opens = []"
    using unresolved_blocks [of "re_governor (mh_engine s)" c "mh_daily_state s" "ee_now (hc_env cfg) n"] by (cases opens) auto
  then have "\<exists>t. evaluate_reasons (re_governor (mh_engine s)) c (mh_daily_state s) False t = []" using clear by auto
  moreover have "SIGNAL_DETECTED \<in> valid_transitions (re_state (mh_engine s)) \<or> re_state (mh_engine s) = SIGNAL_DETECTED"
    using ev by (auto simp: evaluate_signal_def run_bind_Inr transition_Inr)
  then have "re_state (mh_engine s) \<in> {WATCHING, SETUP_ARMED, SIGNAL_DETECTED}" by (cases "re_state (mh_engine s)") simp_all
  ultimately show ?thesis using place_entry_True [OF pl] by blast
qed

text \<open>The governor an entry is judged by: the one the handler holds, with the budget's figures.\<close>

definition synced_governor :: "'b handler \<Rightarrow> governor" where
  "synced_governor s =
     (case mh_budget s of None \<Rightarrow> re_governor (mh_engine s) | Some b \<Rightarrow> with_capital b (re_governor (mh_engine s)))"

lemma new_uuid_Inr:
  "new_uuid cfg s = (Inr i, s') \<longleftrightarrow>
     i = ee_uuid (hc_env cfg) (re_draws (mh_engine s)) \<and>
     s' = s\<lparr>mh_engine := (mh_engine s)\<lparr>re_draws := Suc (re_draws (mh_engine s))\<rparr>\<rparr>"
  by (auto simp: new_uuid_def handler_op_simps draw_Inr)

lemma size_for_entry_Inr:
  assumes "size_for_entry opt premium minutes s = (Inr (quantity, notional), s')"
  shows "mh_engine s' = mh_engine s \<and> mh_budget s' = mh_budget s \<and> mh_daily_state s' = mh_daily_state s"
  using assms by (auto simp: size_for_entry_def handler_op_simps Let_def split: option.splits if_splits)

lemma enter_selected_True:
  assumes "enter_selected cfg v st opt sel s = (Inr True, s')"
  shows "\<exists>c quantity notional s2. judge_and_place cfg v st c (eo_source opt) notional quantity s2 = (Inr True, s') \<and>
    1 \<le> quantity \<and> quantity \<le> 100 \<and> (\<exists>i. c = candidate_of cfg v st sel opt quantity i) \<and>
    re_governor (mh_engine s2) = synced_governor s \<and> re_state (mh_engine s2) = re_state (mh_engine s) \<and>
    mh_daily_state s2 = mh_daily_state s"
proof -
  obtain quantity notional s1 where sz: "size_for_entry opt (oq_ask (sl_quote sel)) (mv_minutes_to_close v) s = (Inr (quantity, notional), s1)"
    and q: "1 \<le> quantity"
    and rest: "run_bind (run_get mh_advisories) (\<lambda>advisories.
         run_bind (if advisories \<noteq> [] then log_event ''option.advisory'' else run_ret ()) (\<lambda>_.
         run_bind (log_event ''option.selected'') (\<lambda>_.
         run_bind (build_candidate cfg v st sel opt quantity) (\<lambda>c.
         run_bind sync_risk_capital (\<lambda>_.
         run_bind (run_modify (\<lambda>s. s\<lparr>mh_signals_detected := Suc (mh_signals_detected s)\<rparr>)) (\<lambda>_.
         run_bind (log_event ''signal.detected'') (\<lambda>_.
           judge_and_place cfg v st c (eo_source opt) notional quantity))))))) s1 = (Inr True, s')"
    using assms by (fastforce simp: enter_selected_def run_bind_Inr run_unit_Inr not_less split: if_splits)
  have s1: "mh_engine s1 = mh_engine s" "mh_budget s1 = mh_budget s" "mh_daily_state s1 = mh_daily_state s"
    using size_for_entry_Inr [OF sz] by simp_all
  from rest obtain c s2 where c: "build_trade_candidate (candidate_of cfg v st sel opt quantity (ee_uuid (hc_env cfg) (re_draws (mh_engine s1)))) = Inr c"
    and j: "judge_and_place cfg v st c (eo_source opt) notional quantity s2 = (Inr True, s')"
    and s2: "re_governor (mh_engine s2) = synced_governor s" "re_state (mh_engine s2) = re_state (mh_engine s)"
      "mh_daily_state s2 = mh_daily_state s"
    by (auto simp: handler_op_simps new_uuid_Inr build_candidate_def sync_risk_capital_def s1 synced_governor_def
        split: if_splits option.splits)
  then have "c = candidate_of cfg v st sel opt quantity (ee_uuid (hc_env cfg) (re_draws (mh_engine s1)))" "quantity \<le> 100"
    using q by (auto simp: build_trade_candidate_def candidate_of_def Let_def split: if_splits)
  then show ?thesis using j s2 q by blast
qed

lemma broker_call_Inr:
  "broker_call m s = (Inr a, s') \<longleftrightarrow>
     (\<exists>b. m (re_broker (mh_engine s)) = (Inr a, b) \<and> s' = s\<lparr>mh_engine := (mh_engine s)\<lparr>re_broker := b\<rparr>\<rparr>)"
  by (auto simp: broker_call_def on_engine_Inr on_broker_Inr)

lemma broker_idle:
  assumes "broker_busy cfg s = (Inr False, s')"
  shows "\<exists>b ps b'. br_list_open (hc_ops cfg) (re_broker (mh_engine s)) = (Inr [], b) \<and>
    br_list_positions (hc_ops cfg) b = (Inr ps, b') \<and> (\<forall>p \<in> set ps. \<not> po_is_open p) \<and>
    s' = s\<lparr>mh_engine := (mh_engine s)\<lparr>re_broker := b'\<rparr>\<rparr>"
  using assms by (auto simp: broker_busy_def handler_op_simps broker_call_Inr list_ex_iff split: if_splits)

text \<open>What the rest of an entry reads of the state, unchanged by looking for quotes.\<close>

definition entry_view :: "'b handler \<Rightarrow> 'b engine \<times> capital_budget option \<times> daily_state" where
  "entry_view s = (mh_engine s, mh_budget s, mh_daily_state s)"

lemma gather_quotes_view: "entry_view (snd (gather_quotes v s)) = entry_view s"
  by (auto simp: gather_quotes_def missing_data_def entry_view_def run_bind_def run_ret_def log_event_def run_modify_def
      split: option.split sum.split)

lemma choose_contract_view: "entry_view (snd (choose_contract cfg v qs d price s)) = entry_view s"
  by (auto simp: choose_contract_def entry_view_def run_bind_def run_ret_def log_event_def run_modify_def count_rejection_def Let_def
      split: prod.split sum.split)

lemma choose_contract_Some:
  "choose_contract cfg v qs d price s = (Inr (Some sel), s') \<Longrightarrow>
     \<exists>adv. select_from_events (hc_selector cfg) qs d price (mv_now v) = (adv, Inr sel)"
  by (auto simp: choose_contract_def handler_op_simps split: prod.splits sum.splits)

lemma case_True:
  "(case z of None \<Rightarrow> run_ret False | Some x \<Rightarrow> f x) s = (Inr True, s') \<longleftrightarrow> (\<exists>x. z = Some x \<and> f x s = (Inr True, s'))"
  "(if b then run_ret False else m) s = (Inr True, s') \<longleftrightarrow> \<not> b \<and> m s = (Inr True, s')"
  by (auto simp: run_ret_def split: option.split)

text \<open>
  Claim C1. An entry is only ever made from a clean slate and under the governor: when \<open>_attempt_entry\<close> reports an
  entry outside shadow mode, the handler held no trade and no waiting entry, the broker had neither open orders nor
  open positions, the profit goal did not pause it, the engine was watching with a playbook, the selector had picked
  the contract, the governor - with the budget's figures - found no reason against the candidate, and the broker took
  the order for that candidate; and the setup is marked as used.
\<close>

theorem entry_presupposes:
  assumes "attempt_entry cfg v st snap opt s = (Inr True, s')" "hc_mode cfg \<noteq> Shadow"
  shows "mh_open_trade s = None \<and> mh_pending_entry s = None \<and> \<not> goal_pause cfg s \<and> re_playbook (mh_engine s) \<noteq> None \<and>
    re_state (mh_engine s) \<in> {WATCHING, SETUP_ARMED} \<and> st_setup_id st \<in> mh_signaled s' \<and>
    (\<exists>b ps b'. br_list_open (hc_ops cfg) (re_broker (mh_engine s)) = (Inr [], b) \<and>
       br_list_positions (hc_ops cfg) b = (Inr ps, b') \<and> (\<forall>p \<in> set ps. \<not> po_is_open p)) \<and>
    (\<exists>qs adv sel quantity i c. select_from_events (hc_selector cfg) qs (st_direction st) (ms_price snap) (mv_now v) = (adv, Inr sel) \<and>
       1 \<le> quantity \<and> quantity \<le> 100 \<and> c = candidate_of cfg v st sel opt quantity i \<and>
       (\<exists>t. evaluate_reasons (synced_governor s) c (mh_daily_state s) False t = []) \<and>
       (\<exists>n b b' ord. br_submit (hc_ops cfg) (entry_intent (hc_env cfg) n c) b = (Inr ord, b') \<and> bo_status ord \<noteq> Rejected))"
proof -
  obtain s1 qs s2 sel s3 where fl: "flat s" and busy: "broker_busy cfg s = (Inr False, s1)"
    and pause: "\<not> goal_pause cfg s1" and ready: "may_enter (mh_engine s1)"
    and got: "gather_quotes v s1 = (Inr (Some qs), s2)"
    and chosen: "choose_contract cfg v qs (st_direction st) (ms_price snap) s2 = (Inr (Some sel), s3)"
    and ent: "enter_selected cfg v st opt sel s3 = (Inr True, s')"
    using assms(1) by (auto simp: attempt_entry_def handler_op_simps case_True split: if_splits)
  obtain b ps b' where idle: "br_list_open (hc_ops cfg) (re_broker (mh_engine s)) = (Inr [], b)"
      "br_list_positions (hc_ops cfg) b = (Inr ps, b')" "\<forall>p \<in> set ps. \<not> po_is_open p"
    and s1: "s1 = s\<lparr>mh_engine := (mh_engine s)\<lparr>re_broker := b'\<rparr>\<rparr>"
    using broker_idle [OF busy] by blast
  have "entry_view s3 = entry_view s1"
    using gather_quotes_view [of v s1] choose_contract_view [of cfg v qs "st_direction st" "ms_price snap" s2] got chosen by simp
  then have s3: "synced_governor s3 = synced_governor s" "re_state (mh_engine s3) = re_state (mh_engine s)"
      "mh_daily_state s3 = mh_daily_state s"
    by (auto simp: entry_view_def s1 synced_governor_def split: option.split)
  obtain c quantity notional s4 i where j: "judge_and_place cfg v st c (eo_source opt) notional quantity s4 = (Inr True, s')"
    and c: "1 \<le> quantity" "quantity \<le> 100" "c = candidate_of cfg v st sel opt quantity i"
    and s4: "re_governor (mh_engine s4) = synced_governor s" "re_state (mh_engine s4) = re_state (mh_engine s)"
      "mh_daily_state s4 = mh_daily_state s"
    using enter_selected_True [OF ent] s3 by auto
  note last = judge_and_place_True [OF j assms(2), unfolded s4]
  have "re_state (mh_engine s) \<in> {WATCHING, SETUP_ARMED}" "re_playbook (mh_engine s) \<noteq> None"
    using last ready by (auto simp: may_enter_def s1)
  moreover have "\<not> goal_pause cfg s" using pause by (simp add: goal_pause_def s1)
  moreover obtain adv where "select_from_events (hc_selector cfg) qs (st_direction st) (ms_price snap) (mv_now v) = (adv, Inr sel)"
    using choose_contract_Some [OF chosen] by blast
  ultimately show ?thesis using fl idle last c unfolding flat_def by blast
qed

section \<open>Witnesses\<close>

definition demo_handler_config :: "safety_mode \<Rightarrow> paper_broker handler_config" where
  "demo_handler_config m =
     \<lparr>hc_mode = m, hc_run_id = ''r'', hc_env = demo_engine_env, hc_ops = paper_ops demo_env, hc_bridge = None,
      hc_selector = demo_selector, hc_exits = demo_exits, hc_rules_auto_entry = True, hc_pause_when_goal_met = True\<rparr>"

definition demo_handler :: "paper_broker handler" where
  "demo_handler =
     \<lparr>mh_engine = demo_engine, mh_daily_state = quiet_day, mh_budget = None, mh_pending_allocation = None, mh_shadow = [],
      mh_advisories = [], mh_open_trade = None, mh_pending_entry = None, mh_pending_exit = None, mh_signaled = {},
      mh_features_updated = 0, mh_signals_detected = 0, mh_trades_entered = 0, mh_trades_exited = 0, mh_risk_rejections = 0,
      mh_selector_rejections = 0, mh_missing_data = 0, mh_stale_quotes = 0, mh_wide_spreads = 0, mh_exits_by_reason = [],
      mh_exit_records = [], mh_durations = [], mh_mae = None, mh_mfe = None, mh_latest_spy = None, mh_latest_mid = None, mh_log = []\<rparr>"

definition demo_snapshot :: market_snapshot where
  "demo_snapshot = \<lparr>ms_symbol = ''SPY'', ms_timestamp = at_utc usec, ms_price = 602, ms_bid = None, ms_ask = None, ms_candles = []\<rparr>"

definition demo_view :: market_view where
  "demo_view =
     \<lparr>mv_now = at_utc usec, mv_snapshot = Some demo_snapshot, mv_features = Inr demo_features,
      mv_quotes = [demo_event ''near'' 602 (9 / 10)], mv_options = None, mv_minutes_to_close = Some 100\<rparr>"

lemma demo_entry:
  "case attempt_entry (demo_handler_config Paper) demo_view (demo_setup ''call'' Long_Call) demo_snapshot default_options demo_handler of
     (Inr b, s) \<Rightarrow> b \<and> mh_trades_entered s = 1 | _ \<Rightarrow> False"
  by code_simp

theorem entry_presupposes_witness:
  "\<exists>s'. attempt_entry (demo_handler_config Paper) demo_view (demo_setup ''call'' Long_Call) demo_snapshot default_options demo_handler =
      (Inr True, s') \<and> mh_trades_entered s' = 1 \<and> ''call'' \<in> mh_signaled s'"
proof -
  obtain s' where s': "attempt_entry (demo_handler_config Paper) demo_view (demo_setup ''call'' Long_Call) demo_snapshot default_options
      demo_handler = (Inr True, s')" "mh_trades_entered s' = 1"
    using demo_entry by (auto split: prod.splits sum.splits)
  have "hc_mode (demo_handler_config Paper) \<noteq> Shadow" by (simp add: demo_handler_config_def)
  then have "st_setup_id (demo_setup ''call'' Long_Call) \<in> mh_signaled s'" using entry_presupposes [OF s'(1)] by blast
  then show ?thesis using s' by (intro exI conjI) (simp_all add: demo_setup_def)
qed

text \<open>One event, and one decision after it.\<close>

definition demo_decision :: intraday_decision where
  "demo_decision = \<lparr>id_action = ''confirm'', id_direction = Some Long_Call, id_setup_id = None, id_confidence = 9 / 10,
     id_stop_pct = 1 / 2, id_take_profit_pct = 1, id_capital_fraction = None, id_target_contracts = None,
     id_allocation_style = Style_Auto, id_win_probability = None, id_expected_value_usd = None, id_expected_r = None\<rparr>"

definition demo_history :: "safety_mode \<Rightarrow> paper_broker handler \<Rightarrow> paper_broker handler" where
  "demo_history m s =
     snd (try_enter_from_decision (demo_handler_config m) demo_view demo_decision (45 / 100)
       (snd (handle_event (demo_handler_config m) demo_view (Spy_Quote 602) s)))"

lemma demo_run: "handler_run (demo_handler_config m) s (demo_history m s)"
  unfolding demo_history_def
  by (rule handler_run.step [OF handler_run.step [OF handler_run.start handler_step.event] handler_step.decision])

theorem daily_state_never_updated_witness:
  "mh_daily_state (demo_history Paper demo_handler) = quiet_day \<and>
   ''MAX_TRADES'' \<notin> set (evaluate_reasons risk_governor risk_candidate (mh_daily_state (demo_history Paper demo_handler)) False (at_utc 0))"
proof -
  have d: "mh_daily_state demo_handler = quiet_day" by (simp add: demo_handler_def)
  have limit: "0 \<le> ds_trades_count quiet_day \<and> ds_trades_count quiet_day < rc_max_trades_per_day (gv_config risk_governor)" by code_simp
  note kept = daily_state_never_updated [OF demo_run, of Paper demo_handler risk_governor risk_candidate False "at_utc 0", unfolded d]
  show ?thesis by (rule conjI [OF kept [THEN conjunct1] kept [THEN conjunct2, THEN mp, OF limit]])
qed

theorem shadow_never_submits_witness: "pb_orders (re_broker (mh_engine (demo_history Shadow demo_handler))) = []"
proof (rule shadow_never_submits [OF demo_run, where Q = "\<lambda>b. pb_orders b = []"])
  show "pb_orders (re_broker (mh_engine demo_handler)) = []" by code_simp
qed (simp_all add: demo_handler_config_def paper_ops_def preserves_get)

theorem unbridged_trade_never_closes_witness:
  "mh_open_trade (demo_history Paper (demo_handler\<lparr>mh_open_trade := Some Exit_Manager.demo_trade\<rparr>)) \<noteq> None"
  using unbridged_trade_never_closes [OF demo_run, of Paper "demo_handler\<lparr>mh_open_trade := Some Exit_Manager.demo_trade\<rparr>"]
  by (simp add: demo_handler_config_def)

theorem one_trade_at_a_time_witness:
  "mh_open_trade (demo_history Paper demo_handler) = None \<or> mh_pending_entry (demo_history Paper demo_handler) = None"
  by (rule one_trade_at_a_time [OF demo_run]) (simp add: demo_handler_def)

text \<open>A ledger showing \<open>q\<close> contracts held of the contract \<open>cid\<close>, and a bridge that reads it.\<close>

definition demo_ledger :: "string \<Rightarrow> decimal \<Rightarrow> projection_state" where
  "demo_ledger cid q =
     \<lparr>pr_orders = [], pr_positions = [(cid, \<lparr>ps_contract_id = cid, ps_quantity = q, ps_avg_price = Some 2, ps_realized_pnl = 30, ps_fees = 0,
        ps_open = (0 < q), ps_position_id = None\<rparr>)], pr_capital_usage = 0, pr_seen_event_ids = {}, pr_seen_keys = {}\<rparr>"

definition demo_bridge :: "projection_state \<Rightarrow> paper_broker bridge_ops" where
  "demo_bridge pr = \<lparr>bg_poll = (\<lambda>_. run_ret None), bg_project = run_ret pr, bg_reconcile = run_ret ()\<rparr>"

definition demo_waiting :: pending_entry where
  "demo_waiting = \<lparr>pe_order_id = ''o'', pe_client_order_id = ''k'', pe_candidate = risk_candidate,
     pe_setup = demo_setup ''call'' Long_Call, pe_source = ''structured_signal''\<rparr>"

theorem verified_fill_opens_trade_witness:
  "\<exists>s' t. reconcile_pending_entry ((demo_handler_config Paper)\<lparr>hc_bridge := Some (demo_bridge (demo_ledger (contract_id_for risk_contract) 3))\<rparr>)
       demo_view (demo_handler\<lparr>mh_pending_entry := Some demo_waiting, mh_engine := demo_engine\<lparr>re_state := OPEN_POSITION\<rparr>\<rparr>) = (Inr (), s') \<and>
     mh_open_trade s' = Some t \<and> ot_quantity t = 3 \<and> ot_entry_price t = 2"
proof -
  let ?l = "demo_ledger (contract_id_for risk_contract) 3"
  have c: "tc_contract (pe_candidate demo_waiting) = risk_contract" by (simp add: demo_waiting_def risk_candidate_def)
  have "verified_position ?l (contract_id_for (tc_contract (pe_candidate demo_waiting))) =
      Some (the (dict_get (pr_positions ?l) (contract_id_for risk_contract)), 2)"
    by (simp add: c verified_position_def demo_ledger_def)
  moreover have "trunc_zero (3 :: rat) = 3" by code_simp
  ultimately show ?thesis
    using verified_fill_opens_trade [of "demo_handler\<lparr>mh_pending_entry := Some demo_waiting, mh_engine := demo_engine\<lparr>re_state := OPEN_POSITION\<rparr>\<rparr>"
      demo_waiting "(demo_handler_config Paper)\<lparr>hc_bridge := Some (demo_bridge ?l)\<rparr>" "demo_bridge ?l" None "re_broker demo_engine" ?l
      "re_broker demo_engine" _ 2 demo_view]
    by (simp add: demo_handler_def demo_bridge_def run_ret_def order_dead_def demo_ledger_def) blast
qed

definition demo_leaving :: pending_exit where
  "demo_leaving = \<lparr>px_client_order_id = ''k'', px_broker_order_id = ''o'', px_position_id = ''p'', px_contract_id = ''c'',
     px_requested_quantity = 1, px_reason = STOP_LOSS, px_submitted_at = at_utc 0, px_realized_pnl_before = 10\<rparr>"

theorem closed_position_settles_exit_witness:
  "\<exists>s'. reconcile_pending_exit ((demo_handler_config Paper)\<lparr>hc_bridge := Some (demo_bridge (demo_ledger ''c'' 0))\<rparr>) demo_view
       (demo_handler\<lparr>mh_pending_exit := Some demo_leaving, mh_open_trade := Some Exit_Manager.demo_trade,
                     mh_engine := demo_engine\<lparr>re_state := MANAGING_EXIT\<rparr>\<rparr>) = (Inr (), s') \<and>
     mh_trades_exited s' = 1 \<and> map xd_trade_pnl_usd (mh_exit_records s') = [20]"
  using closed_position_settles_exit [of "demo_handler\<lparr>mh_pending_exit := Some demo_leaving, mh_open_trade := Some Exit_Manager.demo_trade,
        mh_engine := demo_engine\<lparr>re_state := MANAGING_EXIT\<rparr>\<rparr>" demo_leaving Exit_Manager.demo_trade
      "(demo_handler_config Paper)\<lparr>hc_bridge := Some (demo_bridge (demo_ledger ''c'' 0))\<rparr>" "demo_bridge (demo_ledger ''c'' 0)" None
      "re_broker demo_engine" "demo_ledger ''c'' 0" "re_broker demo_engine" "the (dict_get (pr_positions (demo_ledger ''c'' 0)) ''c'')" demo_view]
  by (auto simp: demo_handler_def demo_bridge_def run_ret_def order_dead_def demo_ledger_def demo_leaving_def)

end
