(* ===== verification/Feature_Engine.thy ===== *)
theory Feature_Engine
  imports Exit_Manager
begin

text \<open>
  The technical features of \<open>joker/features/engine.py\<close>, computed from a snapshot's candles. The zone of the
  exchange is a function from instants to offsets, as in \<open>Exit_Manager\<close>; the square sq_root of
  \<open>statistics.pstdev\<close> is a parameter, since the numbers here are exact. \<open>features_now\<close> extends
  the record of \<open>Playbooks\<close> by the fields no rule reads. \<open>compute_from_bars\<close> is not modelled: it calls
  \<open>require_timeframe\<close> with one argument where two are required, so every call raises \<open>TypeError\<close>.
\<close>

section \<open>Indicators\<close>

definition typical :: "candle \<Rightarrow> pyfloat" where
  "typical c = (cn_high c + cn_low c + cn_close c) / 3"

definition calculate_vwap :: "bool \<Rightarrow> candle list \<Rightarrow> pyfloat option" where
  "calculate_vwap allow_fallback cs =
     (if cs = [] then None
      else let pv = sum_list (map (\<lambda>c. typical c * cn_volume c) cs); volume = sum_list (map cn_volume cs)
      in if 0 < volume then Some (pv / volume)
         else if \<not> allow_fallback then None
         else Some (sum_list (map typical cs) / of_nat (length cs)))"

text \<open>\<open>previous_day_levels\<close> and \<open>session_levels\<close>\<close>

definition high_low :: "candle list \<Rightarrow> pyfloat option \<times> pyfloat option" where
  "high_low cs = (if cs = [] then (None, None) else (Some (Max (set (map cn_high cs))), Some (Min (set (map cn_low cs)))))"

definition momentum :: "nat \<Rightarrow> candle list \<Rightarrow> pyfloat option" where
  "momentum periods cs =
     (if length cs < periods + 1 then None
      else let begun = cn_close (cs ! (length cs - (periods + 1))); ended = cn_close (last cs)
      in if begun = 0 then None else Some ((ended - begun) / begun * 100))"

definition range_pct :: "nat \<Rightarrow> candle list \<Rightarrow> pyfloat option" where
  "range_pct periods cs =
     (if length cs < 2 then None
      else let window = drop (length cs - min periods (length cs)) cs;
               hi = Max (set (map cn_high window)); lo = Min (set (map cn_low window)); mid = (hi + lo) / 2
      in if mid \<le> 0 then None else Some ((hi - lo) / mid * 100))"

text \<open>\<open>distance_from_vwap_pct\<close> and \<open>pct_from_level\<close>\<close>

definition pct_from_level :: "pyfloat \<Rightarrow> pyfloat option \<Rightarrow> pyfloat option" where
  "pct_from_level price level =
     (case level of None \<Rightarrow> None | Some l \<Rightarrow> if l = 0 then None else Some ((price - l) / l * 100))"

definition trend_label :: "pyfloat option \<Rightarrow> string" where
  "trend_label m =
     (case m of
        None \<Rightarrow> ''unknown''
      | Some x \<Rightarrow> if 15 / 100 < x then ''trend_up'' else if x < - (15 / 100) then ''trend_down'' else ''chop'')"

definition extension_label :: "pyfloat option \<Rightarrow> string" where
  "extension_label d =
     (case d of
        None \<Rightarrow> ''unknown''
      | Some x \<Rightarrow> if 1 / 4 \<le> x then ''extended_up'' else if x \<le> - (1 / 4) then ''extended_down'' else ''near_vwap'')"

definition opening_range :: "nat \<Rightarrow> candle list \<Rightarrow> pyfloat option \<times> pyfloat option" where
  "opening_range bars cs = (if cs = [] then (None, None) else high_low (take (min bars (length cs)) cs))"

definition pvariance :: "pyfloat list \<Rightarrow> pyfloat" where
  "pvariance xs =
     (let mean = sum_list xs / of_nat (length xs)
      in sum_list (map (\<lambda>x. (x - mean) * (x - mean)) xs) / of_nat (length xs))"

definition vwap_bands ::
  "(pyfloat \<Rightarrow> pyfloat) \<Rightarrow> candle list \<Rightarrow> pyfloat option \<Rightarrow> pyfloat \<Rightarrow> pyfloat option \<times> pyfloat option" where
  "vwap_bands sq_root cs vwap mult =
     (case vwap of
        None \<Rightarrow> (None, None)
      | Some v \<Rightarrow>
          if length cs < 3 then (None, None)
          else let sigma = sq_root (pvariance (map typical cs))
          in if sigma \<le> 0 then (Some v, Some v) else (Some (v + mult * sigma), Some (v - mult * sigma)))"

section \<open>The session clock\<close>

definition exchange_wall :: "zone \<Rightarrow> datetime \<Rightarrow> int" where
  "exchange_wall ny t = instant t + ny (instant t)"

definition session_minutes :: "zone \<Rightarrow> datetime \<Rightarrow> pyfloat option \<times> pyfloat option \<times> string" where
  "session_minutes ny as_of =
     (let m = minute_of_day (exchange_wall ny as_of); open_m = m - (9 * 60 + 30); close_m = 16 * 60 - m;
          part = (if \<not> (0 \<le> open_m \<and> open_m \<le> 6 * 60 + 30) then ''outside_rth''
                  else if open_m < 30 then ''open_drive''
                  else if close_m < 45 then ''power_hour''
                  else if open_m < 120 then ''morning''
                  else if close_m < 150 then ''afternoon''
                  else ''midday'')
      in (Some (of_int open_m), Some (of_int close_m), part))"

definition wall_day :: "int \<Rightarrow> int" where
  "wall_day w = w div (24 * 60 * (60 * usec))"

fun split_after :: "zone \<Rightarrow> int \<Rightarrow> candle list \<Rightarrow> candle list \<times> candle list \<times> candle list" where
  "split_after ny today [] = ([], [], [])"
| "split_after ny today (c # cs) =
     (case split_after ny today cs of (prior, premarket, rth) \<Rightarrow>
        let w = exchange_wall ny (cn_timestamp c)
        in if wall_day w < today then (c # prior, premarket, rth)
           else if time_of_day w < (9 * 60 + 30) * (60 * usec) then (prior, c # premarket, rth)
           else (prior, premarket, c # rth))"

definition split_session_candles :: "zone \<Rightarrow> candle list \<Rightarrow> candle list \<times> candle list \<times> candle list" where
  "split_session_candles ny cs =
     (if cs = [] then ([], [], []) else split_after ny (wall_day (exchange_wall ny (cn_timestamp (last cs)))) cs)"

definition is_stale :: "datetime \<Rightarrow> int \<Rightarrow> datetime \<Rightarrow> bool" where
  "is_stale as_of max_age_seconds now \<longleftrightarrow> of_int max_age_seconds < seconds_between now as_of"

section \<open>The engine\<close>

record features_now = features +
  fn_as_of :: datetime
  fn_previous_high :: "pyfloat option"
  fn_previous_low :: "pyfloat option"
  fn_premarket_high :: "pyfloat option"
  fn_premarket_low :: "pyfloat option"
  fn_intraday_high :: "pyfloat option"
  fn_intraday_low :: "pyfloat option"
  fn_volume_confirmed :: "bool option"
  fn_opening_range_high :: "pyfloat option"
  fn_opening_range_low :: "pyfloat option"
  fn_distance_from_prev_high_pct :: "pyfloat option"
  fn_distance_from_prev_low_pct :: "pyfloat option"
  fn_vwap_upper_band :: "pyfloat option"
  fn_vwap_lower_band :: "pyfloat option"
  fn_range_15m_pct :: "pyfloat option"
  fn_minutes_from_open :: "pyfloat option"
  fn_day_part :: string

text \<open>
  \<open>compute\<close>: \<open>now\<close> is the reference time (the wall clock when none is given); absent prior-day and premarket
  candles are the empty list.
\<close>

definition compute_features ::
  "zone \<Rightarrow> (pyfloat \<Rightarrow> pyfloat) \<Rightarrow> int \<Rightarrow> market_snapshot \<Rightarrow> candle list \<Rightarrow> candle list \<Rightarrow> datetime option \<Rightarrow> datetime \<Rightarrow> features_now" where
  "compute_features ny sq_root max_age snap prior premarket as_of_arg now =
     (let as_of = (case as_of_arg of None \<Rightarrow> ms_timestamp snap | Some t \<Rightarrow> t);
          intraday = ms_candles snap;
          vwap = calculate_vwap True intraday;
          mom = momentum 5 intraday;
          away = pct_from_level (ms_price snap) vwap;
          (or_high, or_low) = opening_range 5 intraday;
          (upper, lower) = vwap_bands sq_root intraday vwap 1;
          (mins_open, mins_close, day_part) = session_minutes ny as_of
      in \<lparr>ft_symbol = ms_symbol snap, ft_vwap = vwap, ft_momentum_5m = mom, ft_momentum_15m = momentum 15 intraday,
          ft_distance_from_vwap_pct = away, ft_trend_label = trend_label mom, ft_extension_label = extension_label away,
          ft_is_stale = is_stale (ms_timestamp snap) max_age now, ft_candle_count = int (length intraday),
          ft_distance_from_or_high_pct = pct_from_level (ms_price snap) or_high,
          ft_distance_from_or_low_pct = pct_from_level (ms_price snap) or_low, ft_minutes_to_close = mins_close,
          fn_as_of = as_of, fn_previous_high = fst (high_low prior), fn_previous_low = snd (high_low prior),
          fn_premarket_high = fst (high_low premarket), fn_premarket_low = snd (high_low premarket),
          fn_intraday_high = fst (high_low intraday), fn_intraday_low = snd (high_low intraday),
          fn_volume_confirmed = (if intraday = [] then None else Some (list_ex (\<lambda>c. 0 < cn_volume c) intraday)),
          fn_opening_range_high = or_high, fn_opening_range_low = or_low,
          fn_distance_from_prev_high_pct = pct_from_level (ms_price snap) (fst (high_low prior)),
          fn_distance_from_prev_low_pct = pct_from_level (ms_price snap) (snd (high_low prior)),
          fn_vwap_upper_band = upper, fn_vwap_lower_band = lower, fn_range_15m_pct = range_pct 15 intraday,
          fn_minutes_from_open = mins_open, fn_day_part = day_part\<rparr>)"

section \<open>Bounds of the weighted price\<close>

lemma weighted_sum_bounds:
  fixes f w :: "'a \<Rightarrow> rat"
  assumes "\<forall>x \<in> set xs. lo \<le> f x \<and> f x \<le> hi \<and> 0 \<le> w x"
  shows "lo * sum_list (map w xs) \<le> sum_list (map (\<lambda>x. f x * w x) xs)"
    and "sum_list (map (\<lambda>x. f x * w x) xs) \<le> hi * sum_list (map w xs)"
  using assms by (induction xs) (auto simp: distrib_left add_mono mult_right_mono)

definition candle_ok :: "candle \<Rightarrow> bool" where
  "candle_ok c \<longleftrightarrow> cn_low c \<le> cn_close c \<and> cn_close c \<le> cn_high c \<and> 0 \<le> cn_volume c"

lemma typical_bounds:
  assumes "c \<in> set cs" "candle_ok c"
  shows "Min (set (map cn_low cs)) \<le> typical c" "typical c \<le> Max (set (map cn_high cs))"
proof -
  have "Min (set (map cn_low cs)) \<le> cn_low c" "cn_high c \<le> Max (set (map cn_high cs))"
    using assms(1) by (auto intro: Min_le Max_ge)
  moreover have "cn_low c \<le> typical c \<and> typical c \<le> cn_high c"
    using assms(2) by (auto simp: candle_ok_def typical_def field_simps)
  ultimately show "Min (set (map cn_low cs)) \<le> typical c" "typical c \<le> Max (set (map cn_high cs))" by linarith+
qed

text \<open>
  The volume-weighted price of candles whose close lies in their range and whose volume is not negative
  lies between their lowest low and their highest high, with the equal-weight fallback as well as without.
\<close>

theorem vwap_in_range:
  assumes "\<forall>c \<in> set cs. candle_ok c" "calculate_vwap allow_fallback cs = Some v"
  shows "\<exists>hi lo. high_low cs = (Some hi, Some lo) \<and> lo \<le> v \<and> v \<le> hi"
proof -
  let ?lo = "Min (set (map cn_low cs))" let ?hi = "Max (set (map cn_high cs))"
  have ne: "cs \<noteq> []" using assms(2) by (auto simp: calculate_vwap_def)
  have b: "\<forall>c \<in> set cs. ?lo \<le> typical c \<and> typical c \<le> ?hi \<and> 0 \<le> cn_volume c"
    using assms(1) by (simp add: typical_bounds candle_ok_def del: set_map)
  have vol: "?lo * sum_list (map cn_volume cs) \<le> sum_list (map (\<lambda>c. typical c * cn_volume c) cs)"
    "sum_list (map (\<lambda>c. typical c * cn_volume c) cs) \<le> ?hi * sum_list (map cn_volume cs)"
    using weighted_sum_bounds [OF b] .
  have b1: "\<forall>c \<in> set cs. ?lo \<le> typical c \<and> typical c \<le> ?hi \<and> (0::rat) \<le> 1" using b by simp
  have flat: "?lo * of_nat (length cs) \<le> sum_list (map typical cs)"
    "sum_list (map typical cs) \<le> ?hi * of_nat (length cs)"
    using weighted_sum_bounds [OF b1] by (simp_all add: sum_list_triv)
  have "?lo \<le> v \<and> v \<le> ?hi"
  proof (cases "0 < sum_list (map cn_volume cs)")
    case True
    then show ?thesis
      using assms(2) ne vol by (auto simp: calculate_vwap_def Let_def pos_le_divide_eq pos_divide_le_eq)
  next
    case False
    have "0 < (of_nat (length cs) :: rat)" using ne by simp
    then show ?thesis
      using False assms(2) ne flat by (auto simp: calculate_vwap_def Let_def pos_le_divide_eq pos_divide_le_eq split: if_splits)
  qed
  then show ?thesis using ne by (simp add: high_low_def)
qed

section \<open>The session split\<close>

definition candle_wall :: "zone \<Rightarrow> candle \<Rightarrow> int" where
  "candle_wall ny c = exchange_wall ny (cn_timestamp c)"

lemma split_after_filters:
  "split_after ny d cs =
     (filter (\<lambda>c. wall_day (candle_wall ny c) < d) cs,
      filter (\<lambda>c. \<not> wall_day (candle_wall ny c) < d \<and> time_of_day (candle_wall ny c) < (9 * 60 + 30) * (60 * usec)) cs,
      filter (\<lambda>c. \<not> wall_day (candle_wall ny c) < d \<and> \<not> time_of_day (candle_wall ny c) < (9 * 60 + 30) * (60 * usec)) cs)"
  by (induction cs) (simp_all add: candle_wall_def Let_def)

lemma sorted_filter_split:
  assumes "sorted (map k cs)" "\<And>x y. P y \<Longrightarrow> k x \<le> k y \<Longrightarrow> x \<in> set cs \<Longrightarrow> y \<in> set cs \<Longrightarrow> P x"
  shows "filter P cs @ filter (\<lambda>c. \<not> P c) cs = cs"
  using assms
proof (induction cs)
  case (Cons a cs)
  show ?case
  proof (cases "P a")
    case True
    then show ?thesis using Cons by (auto simp: )
  next
    case False
    have "\<not> P y" if "y \<in> set cs" for y using Cons.prems that False by auto
    then show ?thesis using False by (simp add: filter_empty_conv)
  qed
qed simp

lemma time_of_day_mono:
  "wall_day a = wall_day b \<Longrightarrow> a \<le> b \<Longrightarrow> time_of_day a \<le> time_of_day b"
  by (simp add: wall_day_def time_of_day_def minus_div_mult_eq_mod [symmetric])

lemma wall_day_mono: "a \<le> b \<Longrightarrow> wall_day a \<le> wall_day b"
  by (simp add: wall_day_def zdiv_mono1)

lemma sorted_le_last: "sorted (map k cs) \<Longrightarrow> c \<in> set cs \<Longrightarrow> k c \<le> k (last cs)"
  by (induction cs) auto

text \<open>
  On candles in the order of the exchange's clock the split into prior days, premarket and regular hours
  loses, repeats and reorders nothing: the three parts in this order are the list again.
\<close>

theorem session_split_roundtrip:
  assumes "sorted (map (candle_wall ny) cs)" "split_session_candles ny cs = (prior, premarket, rth)"
  shows "prior @ premarket @ rth = cs"
proof (cases "cs = []")
  case False
  let ?d = "wall_day (candle_wall ny (last cs))"
  let ?early = "\<lambda>c. time_of_day (candle_wall ny c) < (9 * 60 + 30) * (60 * usec)"
  let ?old = "\<lambda>c. wall_day (candle_wall ny c) < ?d"
  let ?now = "filter (\<lambda>c. \<not> ?old c) cs"
  have parts: "prior = filter ?old cs" "premarket = filter ?early ?now" "rth = filter (\<lambda>c. \<not> ?early c) ?now"
    using assms(2) False
    by (auto simp: split_session_candles_def split_after_filters candle_wall_def [symmetric] intro!: filter_cong)
  have day: "wall_day (candle_wall ny c) = ?d" if "c \<in> set ?now" for c
  proof -
    have "candle_wall ny c \<le> candle_wall ny (last cs)" using sorted_le_last [OF assms(1)] that by simp
    then show ?thesis using that wall_day_mono by fastforce
  qed
  have "filter ?old cs @ ?now = cs"
    by (rule sorted_filter_split [OF assms(1)]) (meson wall_day_mono order_le_less_trans)
  moreover have "filter ?early ?now @ filter (\<lambda>c. \<not> ?early c) ?now = ?now"
  proof (rule sorted_filter_split)
    show "sorted (map (candle_wall ny) ?now)" using assms(1) by (rule sorted_filter)
  next
    fix x y
    assume "?early y" "candle_wall ny x \<le> candle_wall ny y" "x \<in> set ?now" "y \<in> set ?now"
    moreover have "wall_day (candle_wall ny x) = wall_day (candle_wall ny y)"
      using day [OF calculation(3)] day [OF calculation(4)] by simp
    ultimately show "?early x" using time_of_day_mono by fastforce
  qed
  ultimately show ?thesis by (simp only: parts append_assoc)
qed (use assms in \<open>simp add: split_session_candles_def\<close>)

section \<open>Features and the prefilter\<close>

lemma momentum_some: "momentum n cs = Some m \<Longrightarrow> n + 1 \<le> length cs"
  by (auto simp: momentum_def Let_def split: if_splits)

lemma computed_fields:
  fixes ny sq_root max_age snap prior premarket t now
  defines "f \<equiv> features.truncate (compute_features ny sq_root max_age snap prior premarket t now)"
  shows "ft_momentum_5m f = momentum 5 (ms_candles snap)" "ft_momentum_15m f = momentum 15 (ms_candles snap)"
    "ft_minutes_to_close f =
       Some (of_int (16 * 60 - minute_of_day (exchange_wall ny (case t of None \<Rightarrow> ms_timestamp snap | Some x \<Rightarrow> x))))"
    "ft_is_stale f = is_stale (ms_timestamp snap) max_age now"
  unfolding f_def compute_features_def Let_def session_minutes_def features.truncate_def
  by (simp_all add: case_prod_unfold)

lemma momentum_of_computed:
  assumes "momentum_of (features.truncate (compute_features ny sq_root max_age snap prior premarket t now)) = Some m"
  shows "6 \<le> length (ms_candles snap)"
  using assms unfolding momentum_of_def computed_fields by (auto dest: momentum_some split: option.splits)

lemma candidate_inputs:
  assumes "pf_candidate (edge_prefilter f goal_met min_mom min_away)"
  shows "\<not> goal_met" "\<not> ft_is_stale f" "ft_minutes_to_close f = Some m \<Longrightarrow> 10 \<le> m"
    "\<exists>x. momentum_of f = Some x" "\<exists>x. ft_distance_from_vwap_pct f = Some x"
  using assms by (auto simp: edge_prefilter_def no_edge_def missing_edge_def split: if_splits option.splits)

text \<open>
  The decision agent is only asked on features of at least six candles, from a snapshot no older than the
  engine's limit, up to ten minutes before the close of a full session, and while the day's goal is not met.
\<close>

theorem prefilter_on_features:
  assumes "pf_candidate (edge_prefilter (features.truncate (compute_features ny sq_root max_age snap prior premarket t now))
             goal_met min_mom min_away)"
  shows "6 \<le> length (ms_candles snap) \<and> seconds_between now (ms_timestamp snap) \<le> of_int max_age \<and> \<not> goal_met \<and>
         minute_of_day (exchange_wall ny (case t of None \<Rightarrow> ms_timestamp snap | Some x \<Rightarrow> x)) \<le> 15 * 60 + 50"
proof -
  let ?f = "features.truncate (compute_features ny sq_root max_age snap prior premarket t now)"
  let ?m = "minute_of_day (exchange_wall ny (case t of None \<Rightarrow> ms_timestamp snap | Some x \<Rightarrow> x))"
  have "ft_minutes_to_close ?f = Some (of_int (16 * 60 - ?m))" "ft_is_stale ?f = is_stale (ms_timestamp snap) max_age now"
    by (rule computed_fields)+
  moreover note candidate_inputs [OF assms]
  ultimately have "10 \<le> (of_int (16 * 60 - ?m) :: rat)" "\<not> is_stale (ms_timestamp snap) max_age now" "\<not> goal_met"
    "6 \<le> length (ms_candles snap)"
    using momentum_of_computed by (metis, metis, metis, metis)
  then show ?thesis by (simp add: is_stale_def del: of_int_diff)
qed

section \<open>Concrete candles\<close>

definition demo_candle :: "int \<Rightarrow> pyfloat \<Rightarrow> candle" where
  "demo_candle minute p =
     \<lparr>cn_symbol = ''SPY'', cn_timestamp = at_utc ((20000 * 1440 + minute) * 60 * usec), cn_open = p, cn_high = p + 1,
      cn_low = p - 1, cn_close = p, cn_volume = 100\<rparr>"

definition eastern :: zone where
  "eastern t = - (4 * 60 * 60 * usec)"

theorem vwap_in_range_witness:
  "\<exists>v hi lo. calculate_vwap False [demo_candle 0 500, demo_candle 1 503] = Some v \<and>
     high_low [demo_candle 0 500, demo_candle 1 503] = (Some hi, Some lo) \<and> lo \<le> v \<and> v \<le> hi"
proof -
  have v: "calculate_vwap False [demo_candle 0 500, demo_candle 1 503] = Some (1003 / 2)" by code_simp
  have "\<forall>c \<in> set [demo_candle 0 500, demo_candle 1 503]. candle_ok c" by (simp add: candle_ok_def demo_candle_def)
  from vwap_in_range [OF this v] v show ?thesis by blast
qed

text \<open>A candle of the day before, one at 09:29 and one at 09:30 of the exchange's clock.\<close>

theorem session_split_roundtrip_witness:
  "\<exists>prior pre rth. split_session_candles eastern [demo_candle 100 500, demo_candle 809 501, demo_candle 810 502] = (prior, pre, rth) \<and>
     prior @ pre @ rth = [demo_candle 100 500, demo_candle 809 501, demo_candle 810 502] \<and> length rth = 1"
proof -
  let ?cs = "[demo_candle 100 500, demo_candle 809 501, demo_candle 810 502]"
  have sorted: "sorted (map (candle_wall eastern) ?cs)" by code_simp
  have split: "split_session_candles eastern ?cs = ([demo_candle 100 500], [demo_candle 809 501], [demo_candle 810 502])"
    by code_simp
  show ?thesis by (intro exI conjI, rule split, rule session_split_roundtrip [OF sorted split]) simp
qed

definition demo_rising :: market_snapshot where
  "demo_rising = \<lparr>ms_symbol = ''SPY'', ms_timestamp = at_utc ((20000 * 1440 + 900) * 60 * usec), ms_price = 506, ms_bid = None,
     ms_ask = None, ms_candles = map (\<lambda>i. demo_candle (900 + int i) (500 + of_nat i)) [0..<6]\<rparr>"

theorem prefilter_on_features_witness:
  "pf_candidate (edge_prefilter (features.truncate
      (compute_features eastern (\<lambda>x. x) 60 demo_rising [] [] None (ms_timestamp demo_rising))) False (8 / 100) (5 / 100)) \<and>
   6 \<le> length (ms_candles demo_rising)"
proof -
  have c: "pf_candidate (edge_prefilter (features.truncate
      (compute_features eastern (\<lambda>x. x) 60 demo_rising [] [] None (ms_timestamp demo_rising))) False (8 / 100) (5 / 100))"
    by code_simp
  show ?thesis using c prefilter_on_features [OF c] by blast
qed

end
