(* ===== verification/Market_Clock.thy ===== *)
theory Market_Clock
  imports Market_Bars
begin

text \<open>
  The exchange calendar (\<open>joker/time/calendar.py\<close>) and the exchange clocks (\<open>joker/time/clock.py\<close>). The
  calendar of the package \<open>exchange_calendars\<close> is a parameter, the record \<open>xcal\<close>; dates are day numbers, asked
  within its bounds. A time in the exchange's zone is its wall clock, as in \<open>Market_Bars\<close>: every comparison
  and difference the code makes is between two values of that one zone, which Python compares by the wall
  clock. \<open>lawful\<close> states what the package documents of its sessions, with the extended hours of the
  exchange: sessions open after 04:00 and close by 20:00 of their date.
\<close>

section \<open>The calendar\<close>

text \<open>Openings and closings are instants in microseconds; \<open>xl_date_to_session True\<close> searches forwards.\<close>

record xcal =
  xl_is_session :: "int \<Rightarrow> bool"
  xl_is_open_on_minute :: "int \<Rightarrow> py_error + bool"
  xl_early_closes :: "int list"
  xl_session_open :: "int \<Rightarrow> int"
  xl_session_close :: "int \<Rightarrow> int"
  xl_next_session :: "int \<Rightarrow> int"
  xl_previous_session :: "int \<Rightarrow> int"
  xl_date_to_session :: "bool \<Rightarrow> int \<Rightarrow> int"

record market_calendar =
  cal_inner :: xcal
  cal_tz :: "int \<Rightarrow> int"

record session_boundaries =
  sb_trading_date :: int
  sb_premarket_open :: int
  sb_regular_open :: int
  sb_regular_close :: int
  sb_post_market_close :: int
  sb_is_early_close :: bool

definition premarket_start :: int where
  "premarket_start = 4 * 60"

definition post_market_end :: int where
  "post_market_end = 20 * 60"

text \<open>\<open>datetime.combine(d, time, tzinfo=tz)\<close>, the time in minutes, and \<open>date()\<close>\<close>

definition wall_at :: "int \<Rightarrow> int \<Rightarrow> int" where
  "wall_at d minutes = (d * (24 * 60) + minutes) * minute_us"

definition date_of :: "int \<Rightarrow> int" where
  "date_of w = w div (24 * 60 * minute_us)"

definition calendar_aware :: "market_calendar \<Rightarrow> datetime \<Rightarrow> py_error + int" where
  "calendar_aware c ts = ensure_aware (cal_tz c) ts"

definition is_trading_day :: "market_calendar \<Rightarrow> int \<Rightarrow> bool" where
  "is_trading_day c d = xl_is_session (cal_inner c) d"

definition is_open_at :: "market_calendar \<Rightarrow> datetime \<Rightarrow> py_error + bool" where
  "is_open_at c ts =
     (case calendar_aware c ts of Inl e \<Rightarrow> Inl e | Inr _ \<Rightarrow> xl_is_open_on_minute (cal_inner c) (instant ts))"

definition is_early_close :: "market_calendar \<Rightarrow> int \<Rightarrow> bool" where
  "is_early_close c d \<longleftrightarrow> is_trading_day c d \<and> d \<in> set (xl_early_closes (cal_inner c))"

definition session_open :: "market_calendar \<Rightarrow> int \<Rightarrow> py_error + int" where
  "session_open c d =
     (if \<not> is_trading_day c d then Inl ValueError
      else let u = xl_session_open (cal_inner c) d in Inr (u + cal_tz c u))"

definition session_close :: "market_calendar \<Rightarrow> int \<Rightarrow> py_error + int" where
  "session_close c d =
     (if \<not> is_trading_day c d then Inl ValueError
      else let u = xl_session_close (cal_inner c) d in Inr (u + cal_tz c u))"

definition session_boundaries_of :: "market_calendar \<Rightarrow> int \<Rightarrow> py_error + session_boundaries" where
  "session_boundaries_of c d =
     (if \<not> is_trading_day c d then Inl ValueError
      else case (session_open c d, session_close c d) of
             (Inr opened, Inr shut) \<Rightarrow>
               Inr \<lparr>sb_trading_date = d, sb_premarket_open = wall_at d premarket_start, sb_regular_open = opened,
                    sb_regular_close = shut, sb_post_market_close = wall_at d post_market_end,
                    sb_is_early_close = is_early_close c d\<rparr>
           | (Inl e, _) \<Rightarrow> Inl e
           | (_, Inl e) \<Rightarrow> Inl e)"

text \<open>\<open>current_or_next_session\<close> of a time of the exchange's zone\<close>

definition owning_session :: "market_calendar \<Rightarrow> int \<Rightarrow> int" where
  "owning_session c w =
     (let d = date_of w
      in if is_trading_day c d
         then if w \<le> wall_at d post_market_end then d else xl_next_session (cal_inner c) d
         else xl_date_to_session (cal_inner c) True d)"

definition current_or_next_session :: "market_calendar \<Rightarrow> datetime \<Rightarrow> py_error + int" where
  "current_or_next_session c ts =
     (case calendar_aware c ts of Inl e \<Rightarrow> Inl e | Inr w \<Rightarrow> Inr (owning_session c w))"

definition previous_session :: "market_calendar \<Rightarrow> int \<Rightarrow> int" where
  "previous_session c d =
     (if is_trading_day c d then xl_previous_session (cal_inner c) d else xl_date_to_session (cal_inner c) False d)"

definition next_session :: "market_calendar \<Rightarrow> int \<Rightarrow> int" where
  "next_session c d =
     (if is_trading_day c d then xl_next_session (cal_inner c) d else xl_date_to_session (cal_inner c) True d)"

definition minutes_between :: "int \<Rightarrow> int \<Rightarrow> pyfloat" where
  "minutes_between a b = of_int (b - a) / of_int usec / 60"

definition until_close :: "market_calendar \<Rightarrow> int \<Rightarrow> py_error + pyfloat option" where
  "until_close c w =
     (case session_boundaries_of c (owning_session c w) of
        Inl e \<Rightarrow> Inl e
      | Inr b \<Rightarrow>
          Inr (if w < sb_premarket_open b then None
               else if sb_regular_close b < w then Some 0
               else Some (minutes_between w (sb_regular_close b))))"

definition minutes_until_close :: "market_calendar \<Rightarrow> datetime \<Rightarrow> py_error + pyfloat option" where
  "minutes_until_close c ts = (case calendar_aware c ts of Inl e \<Rightarrow> Inl e | Inr w \<Rightarrow> until_close c w)"

definition elapsed :: "market_calendar \<Rightarrow> int \<Rightarrow> py_error + pyfloat option" where
  "elapsed c w =
     (if \<not> is_trading_day c (date_of w) then Inr None
      else case session_boundaries_of c (date_of w) of
             Inl e \<Rightarrow> Inl e
           | Inr b \<Rightarrow>
               Inr (if w < sb_regular_open b \<or> sb_regular_close b < w then None
                    else Some (minutes_between (sb_regular_open b) w)))"

definition trading_minutes_elapsed :: "market_calendar \<Rightarrow> datetime \<Rightarrow> py_error + pyfloat option" where
  "trading_minutes_elapsed c ts = (case calendar_aware c ts of Inl e \<Rightarrow> Inl e | Inr w \<Rightarrow> elapsed c w)"

section \<open>The clocks\<close>

datatype session_phase = PREMARKET | REGULAR | POST_MARKET | CLOSED

definition phase_at :: "market_calendar \<Rightarrow> int \<Rightarrow> py_error + session_phase" where
  "phase_at c w =
     (let d = date_of w
      in if \<not> is_trading_day c d then Inr CLOSED
         else case session_open c d of
                Inl e \<Rightarrow> Inl e
              | Inr opened \<Rightarrow>
                  (case session_close c d of
                     Inl e \<Rightarrow> Inl e
                   | Inr shut \<Rightarrow>
                       Inr (if wall_at d premarket_start \<le> w \<and> w < opened then PREMARKET
                            else if opened \<le> w \<and> w < shut then REGULAR
                            else if shut \<le> w \<and> w < wall_at d post_market_end then POST_MARKET
                            else CLOSED)))"

definition session_phase_for :: "market_calendar \<Rightarrow> datetime \<Rightarrow> py_error + session_phase" where
  "session_phase_for c ts = (case ensure_aware (cal_tz c) ts of Inl e \<Rightarrow> Inl e | Inr w \<Rightarrow> phase_at c w)"

text \<open>The system clock reads \<open>now\<close> from the host.\<close>

definition system_trading_date :: "market_calendar \<Rightarrow> datetime \<Rightarrow> py_error + int" where
  "system_trading_date c now = current_or_next_session c now"

definition system_session_phase :: "market_calendar \<Rightarrow> datetime \<Rightarrow> datetime option \<Rightarrow> py_error + session_phase" where
  "system_session_phase c now ts = session_phase_for c (case ts of Some t \<Rightarrow> t | None \<Rightarrow> now)"

record frozen_clock =
  fz_calendar :: market_calendar
  fz_now :: int

definition new_frozen_clock :: "datetime \<Rightarrow> market_calendar \<Rightarrow> py_error + frozen_clock" where
  "new_frozen_clock t c =
     (case ensure_aware (cal_tz c) t of Inl e \<Rightarrow> Inl e | Inr w \<Rightarrow> Inr \<lparr>fz_calendar = c, fz_now = w\<rparr>)"

definition frozen_set_now :: "datetime \<Rightarrow> (frozen_clock, unit) run" where
  "frozen_set_now t =
     run_bind (run_get fz_calendar) (\<lambda>c.
     run_bind (run_lift (ensure_aware (cal_tz c) t)) (\<lambda>w. run_modify (\<lambda>k. k\<lparr>fz_now := w\<rparr>)))"

definition frozen_advance :: "int \<Rightarrow> (frozen_clock, unit) run" where
  "frozen_advance delta = run_modify (\<lambda>k. k\<lparr>fz_now := fz_now k + delta\<rparr>)"

definition frozen_trading_date :: "frozen_clock \<Rightarrow> int" where
  "frozen_trading_date k = owning_session (fz_calendar k) (fz_now k)"

definition frozen_session_phase :: "frozen_clock \<Rightarrow> datetime option \<Rightarrow> py_error + session_phase" where
  "frozen_session_phase k ts =
     (case ts of Some t \<Rightarrow> session_phase_for (fz_calendar k) t | None \<Rightarrow> phase_at (fz_calendar k) (fz_now k))"

section \<open>What the package documents\<close>

definition sessions_lawful :: "market_calendar \<Rightarrow> bool" where
  "sessions_lawful c \<longleftrightarrow>
     (\<forall>d opened shut. session_open c d = Inr opened \<and> session_close c d = Inr shut \<longrightarrow>
        wall_at d premarket_start \<le> opened \<and> opened < shut \<and> shut \<le> wall_at d post_market_end)"

definition search_lawful :: "xcal \<Rightarrow> bool" where
  "search_lawful x \<longleftrightarrow>
     (\<forall>d. xl_is_session x d \<longrightarrow>
        d < xl_next_session x d \<and> xl_is_session x (xl_next_session x d) \<and>
        (\<forall>e. d < e \<and> e < xl_next_session x d \<longrightarrow> \<not> xl_is_session x e) \<and>
        xl_previous_session x d < d \<and> xl_is_session x (xl_previous_session x d) \<and>
        (\<forall>e. xl_previous_session x d < e \<and> e < d \<longrightarrow> \<not> xl_is_session x e)) \<and>
     (\<forall>d. d \<le> xl_date_to_session x True d \<and> xl_is_session x (xl_date_to_session x True d) \<and>
        (\<forall>e. d \<le> e \<and> e < xl_date_to_session x True d \<longrightarrow> \<not> xl_is_session x e) \<and>
        xl_date_to_session x False d \<le> d \<and> xl_is_session x (xl_date_to_session x False d) \<and>
        (\<forall>e. xl_date_to_session x False d < e \<and> e \<le> d \<longrightarrow> \<not> xl_is_session x e))"

definition lawful :: "market_calendar \<Rightarrow> bool" where
  "lawful c \<longleftrightarrow> sessions_lawful c \<and> search_lawful (cal_inner c)"

section \<open>Dates and walls\<close>

lemma date_bounds: "wall_at (date_of w) 0 \<le> w \<and> w < wall_at (date_of w + 1) 0"
  unfolding wall_at_def date_of_def by simp presburger

lemma wall_at_less_day: "d < e \<Longrightarrow> m < 24 * 60 \<Longrightarrow> 0 \<le> n \<Longrightarrow> wall_at d m < wall_at e n"
  unfolding wall_at_def by simp

lemma date_of_wall: "wall_at d 0 \<le> w \<Longrightarrow> w < wall_at (d + 1) 0 \<Longrightarrow> date_of w = d"
  unfolding wall_at_def date_of_def by simp

lemma wall_at_mono: "d \<le> e \<Longrightarrow> m \<le> n \<Longrightarrow> wall_at d m \<le> wall_at e n"
  unfolding wall_at_def by simp

section \<open>The trading date\<close>

lemma nextD:
  assumes "search_lawful x" "xl_is_session x d"
  shows "d < xl_next_session x d" "xl_is_session x (xl_next_session x d)"
    "d < e \<Longrightarrow> xl_is_session x e \<Longrightarrow> xl_next_session x d \<le> e"
    "xl_previous_session x d < d" "xl_is_session x (xl_previous_session x d)"
    "e < d \<Longrightarrow> xl_is_session x e \<Longrightarrow> e \<le> xl_previous_session x d"
proof -
  have law: "d < xl_next_session x d \<and> xl_is_session x (xl_next_session x d) \<and>
        (\<forall>e. d < e \<and> e < xl_next_session x d \<longrightarrow> \<not> xl_is_session x e) \<and>
        xl_previous_session x d < d \<and> xl_is_session x (xl_previous_session x d) \<and>
        (\<forall>e. xl_previous_session x d < e \<and> e < d \<longrightarrow> \<not> xl_is_session x e)"
    using assms unfolding search_lawful_def by blast
  then show "d < xl_next_session x d" "xl_is_session x (xl_next_session x d)"
    "xl_previous_session x d < d" "xl_is_session x (xl_previous_session x d)" by blast+
  show "xl_next_session x d \<le> e" if "d < e" "xl_is_session x e" using law that by (meson not_le)
  show "e \<le> xl_previous_session x d" if "e < d" "xl_is_session x e" using law that by (meson not_le)
qed

lemma searchD:
  assumes "search_lawful x"
  shows "d \<le> xl_date_to_session x True d" "xl_is_session x (xl_date_to_session x True d)"
    "d \<le> e \<Longrightarrow> xl_is_session x e \<Longrightarrow> xl_date_to_session x True d \<le> e"
    "xl_date_to_session x False d \<le> d" "xl_is_session x (xl_date_to_session x False d)"
    "e \<le> d \<Longrightarrow> xl_is_session x e \<Longrightarrow> e \<le> xl_date_to_session x False d"
proof -
  have law: "d \<le> xl_date_to_session x True d \<and> xl_is_session x (xl_date_to_session x True d) \<and>
        (\<forall>e. d \<le> e \<and> e < xl_date_to_session x True d \<longrightarrow> \<not> xl_is_session x e) \<and>
        xl_date_to_session x False d \<le> d \<and> xl_is_session x (xl_date_to_session x False d) \<and>
        (\<forall>e. xl_date_to_session x False d < e \<and> e \<le> d \<longrightarrow> \<not> xl_is_session x e)"
    using assms unfolding search_lawful_def by blast
  then show "d \<le> xl_date_to_session x True d" "xl_is_session x (xl_date_to_session x True d)"
    "xl_date_to_session x False d \<le> d" "xl_is_session x (xl_date_to_session x False d)" by blast+
  show "xl_date_to_session x True d \<le> e" if "d \<le> e" "xl_is_session x e" using law that by (meson not_le)
  show "e \<le> xl_date_to_session x False d" if "e \<le> d" "xl_is_session x e" using law that by (meson not_le)
qed

lemma owning_session_least:
  assumes "lawful c"
  shows "is_trading_day c (owning_session c w) \<and> w \<le> wall_at (owning_session c w) post_market_end \<and>
    (\<forall>d. is_trading_day c d \<and> w \<le> wall_at d post_market_end \<longrightarrow> owning_session c w \<le> d)"
proof -
  let ?x = "cal_inner c" let ?d = "date_of w"
  have law: "search_lawful ?x" using assms by (simp add: lawful_def)
  have later: "w \<le> wall_at e post_market_end" if "?d < e" for e
    using date_bounds [of w] wall_at_mono [of "?d + 1" e 0 post_market_end] that by (simp add: post_market_end_def)
  have ge: "?d \<le> e" if "w \<le> wall_at e post_market_end" for e
  proof (rule ccontr)
    assume "\<not> ?d \<le> e"
    then have "wall_at e post_market_end < wall_at ?d 0" by (intro wall_at_less_day) (simp_all add: post_market_end_def)
    then show False using that date_bounds [of w] by linarith
  qed
  show ?thesis
  proof (cases "is_trading_day c ?d")
    case True
    then have s: "xl_is_session ?x ?d" by (simp add: is_trading_day_def)
    show ?thesis
    proof (cases "w \<le> wall_at ?d post_market_end")
      case True
      then show ?thesis using \<open>is_trading_day c ?d\<close> ge by (simp add: owning_session_def)
    next
      case False
      then have own: "owning_session c w = xl_next_session ?x ?d"
        using \<open>is_trading_day c ?d\<close> by (simp add: owning_session_def)
      have "xl_next_session ?x ?d \<le> e" if "is_trading_day c e" "w \<le> wall_at e post_market_end" for e
      proof -
        have "?d \<noteq> e" using False that(2) by blast
        then have "?d < e" using ge [OF that(2)] by simp
        then show ?thesis using nextD(3) [OF law s] that(1) by (simp add: is_trading_day_def)
      qed
      then show ?thesis unfolding own using nextD(1,2) [OF law s] later by (simp add: is_trading_day_def)
    qed
  next
    case False
    then have own: "owning_session c w = xl_date_to_session ?x True ?d" by (simp add: owning_session_def)
    have "?d \<noteq> xl_date_to_session ?x True ?d" using False searchD(2) [OF law, of ?d] by (auto simp: is_trading_day_def)
    then have "?d < xl_date_to_session ?x True ?d" using searchD(1) [OF law, of ?d] by simp
    then show ?thesis unfolding own
      using searchD(2,3) [OF law] later ge by (simp add: is_trading_day_def)
  qed
qed

text \<open>
  The trading date of a moment is the first session whose extended hours have not ended by then.
\<close>

theorem trading_date_least:
  assumes "lawful c" "current_or_next_session c ts = Inr r"
  shows "is_trading_day c r \<and> instant ts + cal_tz c (instant ts) \<le> wall_at r post_market_end \<and>
    (\<forall>d. is_trading_day c d \<and> instant ts + cal_tz c (instant ts) \<le> wall_at d post_market_end \<longrightarrow> r \<le> d)"
proof -
  have "r = owning_session c (instant ts + cal_tz c (instant ts))"
    using assms(2) by (auto simp: current_or_next_session_def calendar_aware_def ensure_aware_def split: if_splits)
  then show ?thesis using owning_session_least [OF assms(1)] by blast
qed

text \<open>
  A frozen clock that is advanced never moves its trading date back, and moving it to a time gives the
  trading date the system clock gives at that time.
\<close>

theorem frozen_clock_dates:
  assumes "lawful (fz_calendar k)" "0 \<le> delta" "frozen_advance delta k = (Inr (), k1)" "frozen_set_now t k = (Inr (), k2)"
  shows "frozen_trading_date k \<le> frozen_trading_date k1 \<and>
    system_trading_date (fz_calendar k) t = Inr (frozen_trading_date k2)"
proof -
  have k1: "fz_now k1 = fz_now k + delta" "fz_calendar k1 = fz_calendar k"
    using assms(3) by (auto simp: frozen_advance_def run_modify_def)
  have "fz_now k \<le> wall_at (frozen_trading_date k1) post_market_end" "is_trading_day (fz_calendar k) (frozen_trading_date k1)"
    using owning_session_least [OF assms(1), of "fz_now k1"] k1 assms(2) by (auto simp: frozen_trading_date_def)
  then have "frozen_trading_date k \<le> frozen_trading_date k1"
    using owning_session_least [OF assms(1), of "fz_now k"] by (simp add: frozen_trading_date_def)
  moreover have "system_trading_date (fz_calendar k) t = Inr (frozen_trading_date k2)"
    using assms(4)
    by (auto simp: frozen_set_now_def system_trading_date_def current_or_next_session_def calendar_aware_def
        frozen_trading_date_def run_bind_def run_get_def run_lift_def run_modify_def split: sum.splits)
  ultimately show ?thesis by blast
qed

section \<open>The phases\<close>

lemma trading_day_times:
  assumes "sessions_lawful c" "is_trading_day c d"
  obtains opened shut where "session_open c d = Inr opened" "session_close c d = Inr shut"
    "wall_at d premarket_start \<le> opened" "opened < shut" "shut \<le> wall_at d post_market_end"
proof -
  obtain opened shut where t: "session_open c d = Inr opened" "session_close c d = Inr shut"
    using assms(2) by (auto simp: session_open_def session_close_def Let_def)
  with assms(1) have "wall_at d premarket_start \<le> opened \<and> opened < shut \<and> shut \<le> wall_at d post_market_end"
    unfolding sessions_lawful_def by blast
  with t show ?thesis using that by blast
qed

lemma owning_session_today:
  "is_trading_day c (date_of w) \<Longrightarrow> w \<le> wall_at (date_of w) post_market_end \<Longrightarrow> owning_session c w = date_of w"
  by (simp add: owning_session_def)

text \<open>
  In the regular phase both the minutes since the open and the minutes until the close are defined, the
  first is not negative and the second is positive, and together they are the length of the session.
\<close>

theorem regular_phase_minutes:
  assumes "lawful c" "session_phase_for c ts = Inr REGULAR"
  shows "\<exists>d opened shut past left. session_open c d = Inr opened \<and> session_close c d = Inr shut \<and>
    trading_minutes_elapsed c ts = Inr (Some past) \<and> minutes_until_close c ts = Inr (Some left) \<and>
    0 \<le> past \<and> 0 < left \<and> past + left = minutes_between opened shut"
proof -
  let ?w = "instant ts + cal_tz c (instant ts)"
  have aware: "ensure_aware (cal_tz c) ts = Inr ?w" and phase: "phase_at c ?w = Inr REGULAR"
    using assms(2) by (auto simp: session_phase_for_def ensure_aware_def split: if_splits)
  let ?d = "date_of ?w"
  have day: "is_trading_day c ?d" using phase by (auto simp: phase_at_def Let_def split: if_splits)
  from assms(1) have "sessions_lawful c" by (simp add: lawful_def)
  from trading_day_times [OF this day] obtain opened shut where
    t: "session_open c ?d = Inr opened" "session_close c ?d = Inr shut"
    and law: "wall_at ?d premarket_start \<le> opened" "opened < shut" "shut \<le> wall_at ?d post_market_end" .
  have w: "opened \<le> ?w" "?w < shut"
    using phase day t by (auto simp: phase_at_def Let_def split: if_splits)
  have b: "session_boundaries_of c ?d = Inr \<lparr>sb_trading_date = ?d, sb_premarket_open = wall_at ?d premarket_start,
      sb_regular_open = opened, sb_regular_close = shut, sb_post_market_close = wall_at ?d post_market_end,
      sb_is_early_close = is_early_close c ?d\<rparr>"
    using day t by (simp add: session_boundaries_of_def)
  have own: "owning_session c ?w = ?d" using day w law by (intro owning_session_today) simp_all
  have "trading_minutes_elapsed c ts = Inr (Some (minutes_between opened ?w))"
    using aware day b w by (simp add: trading_minutes_elapsed_def calendar_aware_def elapsed_def)
  moreover have "minutes_until_close c ts = Inr (Some (minutes_between ?w shut))"
    using aware own b w law by (simp add: minutes_until_close_def calendar_aware_def until_close_def)
  moreover have "0 \<le> minutes_between opened ?w" "0 < minutes_between ?w shut"
    "minutes_between opened ?w + minutes_between ?w shut = minutes_between opened shut"
    using w by (simp_all add: minutes_between_def diff_divide_distrib)
  ultimately show ?thesis using t by blast
qed

lemma boundaries_of_day:
  assumes "session_open c d = Inr opened" "session_close c d = Inr shut"
  shows "session_boundaries_of c d = Inr \<lparr>sb_trading_date = d, sb_premarket_open = wall_at d premarket_start,
      sb_regular_open = opened, sb_regular_close = shut, sb_post_market_close = wall_at d post_market_end,
      sb_is_early_close = is_early_close c d\<rparr>"
  using assms by (auto simp: session_boundaries_of_def session_open_def Let_def split: if_splits)

lemma until_close_elsewhere:
  assumes "lawful c" "owning_session c w \<noteq> date_of w"
  shows "until_close c w = Inr None"
proof -
  let ?r = "owning_session c w"
  have least: "is_trading_day c ?r" "w \<le> wall_at ?r post_market_end" using owning_session_least [OF assms(1)] by blast+
  have "date_of w < ?r"
  proof (rule ccontr)
    assume "\<not> date_of w < ?r"
    then have "?r < date_of w" using assms(2) by simp
    then have "wall_at ?r post_market_end < wall_at (date_of w) 0" by (intro wall_at_less_day) (simp_all add: post_market_end_def)
    then show False using least(2) date_bounds [of w] by linarith
  qed
  then have "w < wall_at ?r premarket_start"
    using date_bounds [of w] wall_at_mono [of "date_of w + 1" ?r 0 premarket_start] by (simp add: premarket_start_def)
  moreover from assms(1) have "sessions_lawful c" by (simp add: lawful_def)
  from trading_day_times [OF this least(1)] obtain opened shut where
    "session_open c ?r = Inr opened" "session_close c ?r = Inr shut" .
  ultimately show ?thesis by (simp add: until_close_def boundaries_of_day)
qed

text \<open>
  Away from the last moment of the extended hours the minutes until the close are unknown exactly when
  the exchange is closed, and are zero after the regular close.
\<close>

theorem until_close_by_phase:
  assumes "lawful c" "ensure_aware (cal_tz c) ts = Inr w" "session_phase_for c ts = Inr ph"
    "w \<noteq> wall_at (date_of w) post_market_end"
  shows "(minutes_until_close c ts = Inr None \<longleftrightarrow> ph = CLOSED) \<and>
    (ph = POST_MARKET \<longrightarrow> minutes_until_close c ts = Inr (Some 0))"
proof -
  have phase: "phase_at c w = Inr ph" using assms(2,3) by (simp add: session_phase_for_def)
  have until: "minutes_until_close c ts = until_close c w" using assms(2) by (simp add: minutes_until_close_def calendar_aware_def)
  show ?thesis
  proof (cases "owning_session c w = date_of w")
    case True
    then have day: "is_trading_day c (date_of w)" and late: "w < wall_at (date_of w) post_market_end"
      using owning_session_least [OF assms(1), of w] assms(4) by auto
    from assms(1) have "sessions_lawful c" by (simp add: lawful_def)
    from trading_day_times [OF this day] obtain opened shut where
      t: "session_open c (date_of w) = Inr opened" "session_close c (date_of w) = Inr shut"
      and law: "wall_at (date_of w) premarket_start \<le> opened" "opened < shut" .
    have "ph = (if wall_at (date_of w) premarket_start \<le> w \<and> w < opened then PREMARKET
                else if opened \<le> w \<and> w < shut then REGULAR
                else if shut \<le> w then POST_MARKET else CLOSED)"
      using phase day t late by (auto simp: phase_at_def Let_def)
    moreover have "until_close c w = Inr (if w < wall_at (date_of w) premarket_start then None
                else if shut < w then Some 0 else Some (minutes_between w shut))"
      using True boundaries_of_day [OF t] by (simp add: until_close_def)
    ultimately show ?thesis unfolding until using law by (auto simp: minutes_between_def)
  next
    case False
    have "ph = CLOSED"
    proof (cases "is_trading_day c (date_of w)")
      case True
      with False have after: "\<not> w \<le> wall_at (date_of w) post_market_end" using owning_session_today by blast
      from assms(1) have "sessions_lawful c" by (simp add: lawful_def)
      from trading_day_times [OF this True] obtain opened shut where
        t: "session_open c (date_of w) = Inr opened" "session_close c (date_of w) = Inr shut"
        "opened < shut" "shut \<le> wall_at (date_of w) post_market_end" .
      with after True phase show ?thesis by (simp add: phase_at_def)
    qed (use phase in \<open>simp add: phase_at_def\<close>)
    then show ?thesis unfolding until using until_close_elsewhere [OF assms(1) False] by simp
  qed
qed

section \<open>Previous and next sessions\<close>

text \<open>
  From a trading day the previous and the next session are never the day itself, and each undoes the other.
\<close>

theorem session_neighbours:
  assumes "lawful c" "is_trading_day c d"
  shows "previous_session c d < d \<and> d < next_session c d \<and>
    previous_session c (next_session c d) = d \<and> next_session c (previous_session c d) = d"
proof -
  let ?x = "cal_inner c"
  have law: "search_lawful ?x" using assms(1) by (simp add: lawful_def)
  have s: "xl_is_session ?x d" using assms(2) by (simp add: is_trading_day_def)
  let ?n = "xl_next_session ?x d" let ?p = "xl_previous_session ?x d"
  have n: "d < ?n" "xl_is_session ?x ?n" and p: "?p < d" "xl_is_session ?x ?p"
    using nextD [OF law s] by blast+
  have "d \<le> xl_previous_session ?x ?n" by (rule nextD(6) [OF law n(2) n(1) s])
  moreover have "\<not> d < xl_previous_session ?x ?n"
    using nextD(3) [OF law s _ nextD(5) [OF law n(2)]] nextD(4) [OF law n(2)] by linarith
  moreover have "xl_next_session ?x ?p \<le> d" by (rule nextD(3) [OF law p(2) p(1) s])
  moreover have "\<not> xl_next_session ?x ?p < d"
    using nextD(6) [OF law s _ nextD(2) [OF law p(2)]] nextD(1) [OF law p(2)] by linarith
  ultimately show ?thesis using n p s by (simp add: previous_session_def next_session_def is_trading_day_def)
qed

section \<open>A calendar of weekdays\<close>

definition day_of_week :: "int \<Rightarrow> int" where
  "day_of_week d = (d + 3) mod 7"

definition weekday_next :: "int \<Rightarrow> int" where
  "weekday_next d = (if day_of_week d = 4 then d + 3 else d + 1)"

definition weekday_previous :: "int \<Rightarrow> int" where
  "weekday_previous d = (if day_of_week d = 0 then d - 3 else d - 1)"

definition weekday_search :: "bool \<Rightarrow> int \<Rightarrow> int" where
  "weekday_search forwards d =
     (if day_of_week d = 5 then (if forwards then d + 2 else d - 1)
      else if day_of_week d = 6 then (if forwards then d + 1 else d - 2) else d)"

definition weekdays :: market_calendar where
  "weekdays = \<lparr>cal_inner = \<lparr>xl_is_session = \<lambda>d. day_of_week d < 5, xl_is_open_on_minute = \<lambda>t. Inr True,
       xl_early_closes = [], xl_session_open = \<lambda>d. wall_at d (9 * 60 + 30 + 240), xl_session_close = \<lambda>d. wall_at d (16 * 60 + 240),
       xl_next_session = weekday_next, xl_previous_session = weekday_previous, xl_date_to_session = weekday_search\<rparr>,
     cal_tz = \<lambda>t. - (240 * minute_us)\<rparr>"

lemma weekday_next_laws:
  "day_of_week d < 5 \<Longrightarrow> day_of_week (weekday_next d) < 5"
  "day_of_week d < 5 \<Longrightarrow> d < e \<Longrightarrow> e < weekday_next d \<Longrightarrow> \<not> day_of_week e < 5"
  unfolding day_of_week_def weekday_next_def by (split if_split if_split_asm, presburger+)+

lemma weekday_previous_laws:
  "day_of_week d < 5 \<Longrightarrow> day_of_week (weekday_previous d) < 5"
  "day_of_week d < 5 \<Longrightarrow> e < d \<Longrightarrow> weekday_previous d < e \<Longrightarrow> \<not> day_of_week e < 5"
  unfolding day_of_week_def weekday_previous_def by (split if_split if_split_asm, presburger+)+

lemma weekday_forward_laws:
  "day_of_week (weekday_search True d) < 5"
  "d \<le> e \<Longrightarrow> e < weekday_search True d \<Longrightarrow> \<not> day_of_week e < 5"
  unfolding day_of_week_def weekday_search_def by (auto split: if_split if_split_asm) presburger+

lemma weekday_backward_laws:
  "day_of_week (weekday_search False d) < 5"
  "e \<le> d \<Longrightarrow> weekday_search False d < e \<Longrightarrow> \<not> day_of_week e < 5"
  unfolding day_of_week_def weekday_search_def by (auto split: if_split if_split_asm) presburger+

lemma weekdays_lawful: "lawful weekdays"
proof -
  have "sessions_lawful weekdays"
    by (simp add: sessions_lawful_def session_open_def session_close_def weekdays_def wall_at_def premarket_start_def post_market_end_def)
  moreover have "search_lawful (cal_inner weekdays)"
    unfolding search_lawful_def weekdays_def xcal.simps market_calendar.simps
    by (intro conjI allI impI; (elim conjE)?)
       (erule (2) weekday_next_laws(2) | erule (2) weekday_previous_laws(2) | erule (1) weekday_forward_laws(2)
        | erule (1) weekday_backward_laws(2) | erule weekday_next_laws(1) weekday_previous_laws(1)
        | rule weekday_forward_laws(1) weekday_backward_laws(1)
        | simp add: weekday_next_def weekday_previous_def weekday_search_def)+
  ultimately show ?thesis by (simp add: lawful_def)
qed

section \<open>A Friday\<close>

text \<open>Day 20000 is a Friday; the times are minutes of its clock.\<close>

definition friday_at :: "int \<Rightarrow> datetime" where
  "friday_at minute = at_utc (wall_at 20000 (minute + 240))"

theorem trading_date_least_witness:
  "current_or_next_session weekdays (friday_at (21 * 60)) = Inr 20003 \<and> is_trading_day weekdays 20003 \<and>
   \<not> (is_trading_day weekdays 20001 \<and> wall_at 20000 (21 * 60) \<le> wall_at 20001 post_market_end)"
proof -
  have r: "current_or_next_session weekdays (friday_at (21 * 60)) = Inr 20003" by code_simp
  have w: "instant (friday_at (21 * 60)) + cal_tz weekdays (instant (friday_at (21 * 60))) = wall_at 20000 (21 * 60)" by code_simp
  note l = trading_date_least [OF weekdays_lawful r, unfolded w]
  have "\<not> (is_trading_day weekdays 20001 \<and> wall_at 20000 (21 * 60) \<le> wall_at 20001 post_market_end)"
    using l by fastforce
  then show ?thesis using r l by blast
qed

theorem frozen_clock_dates_witness:
  "\<exists>k1 k2. frozen_advance (wall_at 1 0) \<lparr>fz_calendar = weekdays, fz_now = wall_at 20000 600\<rparr> = (Inr (), k1) \<and>
     frozen_set_now (friday_at 660) \<lparr>fz_calendar = weekdays, fz_now = wall_at 20000 600\<rparr> = (Inr (), k2) \<and>
     20000 \<le> frozen_trading_date k1 \<and> system_trading_date weekdays (friday_at 660) = Inr (frozen_trading_date k2)"
proof -
  let ?k = "\<lparr>fz_calendar = weekdays, fz_now = wall_at 20000 600\<rparr>"
  have law: "lawful (fz_calendar ?k)" by (simp add: weekdays_lawful)
  have d: "0 \<le> wall_at 1 0" by code_simp
  have a: "frozen_advance (wall_at 1 0) ?k = (Inr (), ?k\<lparr>fz_now := wall_at 20000 600 + wall_at 1 0\<rparr>)"
    by (simp add: frozen_advance_def run_modify_def)
  have b: "frozen_set_now (friday_at 660) ?k = (Inr (), ?k\<lparr>fz_now := wall_at 20000 660\<rparr>)"
    by (simp add: frozen_set_now_def run_bind_def run_defs ensure_aware_def friday_at_def at_utc_def instant_def weekdays_def wall_at_def)
  have t: "frozen_trading_date ?k = 20000" by code_simp
  note r = frozen_clock_dates [OF law d a b, unfolded t]
  show ?thesis by (intro exI conjI, rule a, rule b) (use r in simp_all)
qed

theorem regular_phase_minutes_witness:
  "trading_minutes_elapsed weekdays (friday_at (15 * 60)) = Inr (Some 330) \<and>
   (\<exists>opened shut past left. session_open weekdays 20000 = Inr opened \<and> session_close weekdays 20000 = Inr shut \<and>
      0 \<le> past \<and> 0 < left \<and> past + left = minutes_between opened shut)"
proof -
  have ph: "session_phase_for weekdays (friday_at (15 * 60)) = Inr REGULAR" by code_simp
  have e: "trading_minutes_elapsed weekdays (friday_at (15 * 60)) = Inr (Some 330)" by code_simp
  from regular_phase_minutes [OF weekdays_lawful ph] obtain d opened shut past left where
    r: "session_open weekdays d = Inr opened" "session_close weekdays d = Inr shut" "0 \<le> past" "0 < left"
      "past + left = minutes_between opened shut" by blast
  have "session_open weekdays 20000 = Inr (wall_at 20000 570)" "session_close weekdays 20000 = Inr (wall_at 20000 960)" by code_simp+
  moreover have "minutes_between opened shut = minutes_between (wall_at 20000 570) (wall_at 20000 960)"
    using r(1,2) by (auto simp: session_open_def session_close_def weekdays_def wall_at_def minutes_between_def split: if_splits)
  ultimately show ?thesis using e r by metis
qed

theorem until_close_by_phase_witness:
  "minutes_until_close weekdays (friday_at (17 * 60)) = Inr (Some 0)"
proof -
  have w: "ensure_aware (cal_tz weekdays) (friday_at (17 * 60)) = Inr (wall_at 20000 (17 * 60))" by code_simp
  have ph: "session_phase_for weekdays (friday_at (17 * 60)) = Inr POST_MARKET" by code_simp
  have ne: "wall_at 20000 (17 * 60) \<noteq> wall_at (date_of (wall_at 20000 (17 * 60))) post_market_end" by code_simp
  from until_close_by_phase [OF weekdays_lawful w ph ne] show ?thesis by blast
qed

theorem session_neighbours_witness:
  "is_trading_day weekdays 20000 \<and> next_session weekdays 20000 = 20003 \<and> previous_session weekdays 20003 = 20000"
proof -
  have d: "is_trading_day weekdays 20000" "next_session weekdays 20000 = 20003" by code_simp+
  from session_neighbours [OF weekdays_lawful d(1)] d show ?thesis by simp
qed

end
