(* ===== verification/Market_Runtime.thy ===== *)
theory Market_Runtime
  imports Data_Quality Event_Bus Market_Clock
begin

text \<open>
  The market runtime (\<open>joker/runtime/market_runtime.py\<close>): it feeds observations to the bar builder, builds the
  option surface, evaluates the quality of the data, saves a snapshot and publishes an event of each step. Its
  state holds the bar builder, the event bus and the three repositories as the theories of those parts have
  them. Ids and clock readings are drawn from an environment by a counter in the state; \<open>me_time\<close> is the
  \<open>datetime\<close> of a wall-clock reading of the exchange. The log is left out.
\<close>

section \<open>Configuration and state\<close>

record market_env =
  me_uuid :: "nat \<Rightarrow> uuid"
  me_now :: "nat \<Rightarrow> datetime"
  me_utc :: "nat \<Rightarrow> datetime"
  me_time :: "int \<Rightarrow> datetime"
  me_calendar :: market_calendar

record market_config =
  mc_symbol :: string
  mc_underlying_stale_seconds :: pyfloat
  mc_option_stale_seconds :: pyfloat
  mc_maximum_relative_spread :: pyfloat
  mc_min_option_contracts :: int
  mc_bars_1m_window :: int
  mc_bars_5m_window :: int

definition default_market_config :: market_config where
  "default_market_config =
     \<lparr>mc_symbol = ''SPY'', mc_underlying_stale_seconds = 5, mc_option_stale_seconds = 10,
      mc_maximum_relative_spread = 1 / 4, mc_min_option_contracts = 2, mc_bars_1m_window = 60, mc_bars_5m_window = 24\<rparr>"

definition to_quality_config :: "market_config \<Rightarrow> quality_config" where
  "to_quality_config c =
     default_quality_config\<lparr>qc_underlying_max_age_seconds := mc_underlying_stale_seconds c,
       qc_option_max_age_seconds := mc_option_stale_seconds c, qc_max_relative_spread := mc_maximum_relative_spread c,
       qc_min_option_contracts := mc_min_option_contracts c\<rparr>"

record market_runtime =
  mr_session :: string
  mr_correlation :: uuid
  mr_config :: market_config
  mr_bars :: bar_builder
  mr_bus :: event_bus
  mr_snapshots :: snapshot_db
  mr_surfaces :: "surface_db option"
  mr_quality_repo :: "quality_db option"
  mr_latest_underlying :: "underlying_snapshot option"
  mr_pending_rows :: "row list"
  mr_latest_surface :: "surface option"
  mr_latest_quality :: "quality_report option"
  mr_pending_findings :: "quality_finding list"
  mr_source_event_ids :: "uuid list"
  mr_prior_cumulative_volume :: "int option"
  mr_draws :: nat

text \<open>The constructor; \<open>uuid4()\<close> is draw 0.\<close>

definition new_market_runtime ::
  "market_env \<Rightarrow> bar_builder \<Rightarrow> event_bus \<Rightarrow> snapshot_db \<Rightarrow> surface_db option \<Rightarrow> quality_db option \<Rightarrow> string \<Rightarrow>
   market_config option \<Rightarrow> market_runtime" where
  "new_market_runtime env bars bus snaps surfaces reports session cfg =
     \<lparr>mr_session = session, mr_correlation = me_uuid env 0,
      mr_config = (case cfg of Some c \<Rightarrow> c | None \<Rightarrow> default_market_config), mr_bars = bars, mr_bus = bus,
      mr_snapshots = snaps, mr_surfaces = surfaces, mr_quality_repo = reports, mr_latest_underlying = None,
      mr_pending_rows = [], mr_latest_surface = None, mr_latest_quality = None, mr_pending_findings = [],
      mr_source_event_ids = [], mr_prior_cumulative_volume = None, mr_draws = 1\<rparr>"

definition next_draw :: "(market_runtime, nat) run" where
  "next_draw s = run_ret (mr_draws s) (s\<lparr>mr_draws := Suc (mr_draws s)\<rparr>)"

definition clock_now :: "market_env \<Rightarrow> (market_runtime, datetime) run" where
  "clock_now env = run_bind next_draw (\<lambda>n. run_ret (me_now env n))"

definition clock_trading_date :: "market_env \<Rightarrow> (market_runtime, int) run" where
  "clock_trading_date env =
     run_bind (clock_now env) (\<lambda>t. run_lift (current_or_next_session (me_calendar env) t))"

definition on_bars :: "(bar_builder, 'a) run \<Rightarrow> (market_runtime, 'a) run" where
  "on_bars m s = (case m (mr_bars s) of (r, b) \<Rightarrow> (r, s\<lparr>mr_bars := b\<rparr>))"

definition enqueue_quality_findings :: "quality_finding list \<Rightarrow> (market_runtime, unit) run" where
  "enqueue_quality_findings fs = run_modify (\<lambda>s. s\<lparr>mr_pending_findings := mr_pending_findings s @ fs\<rparr>)"

text \<open>\<open>make_event\<close>, the id added to the source events, and \<open>publish\<close>\<close>

definition emit_event ::
  "market_env \<Rightarrow> event_type \<Rightarrow> datetime \<Rightarrow> (string, meta_val) dict \<Rightarrow> (market_runtime, unit) run" where
  "emit_event env etype ts payload =
     run_bind next_draw (\<lambda>n.
     run_bind (run_get (\<lambda>s. (mr_session s, mr_correlation s))) (\<lambda>(session, corr).
     run_bind (run_lift (make_event (me_uuid env n) (me_utc env n) etype session ''market_runtime'' ts payload corr)) (\<lambda>e.
     run_bind (run_modify (\<lambda>s. s\<lparr>mr_source_event_ids := mr_source_event_ids s @ [de_event_id e]\<rparr>)) (\<lambda>_.
       run_modify (\<lambda>s. s\<lparr>mr_bus := snd (publish e (mr_bus s))\<rparr>)))))"

section \<open>Ingestion\<close>

datatype observed = Observed_Underlying underlying_obs | Observed_Quote quote_obs

record quote_args =
  qa_symbol :: "string option"
  qa_bid :: "decimal option"
  qa_ask :: "decimal option"
  qa_last :: "decimal option"
  qa_bid_size :: "int option"
  qa_ask_size :: "int option"
  qa_cumulative_volume :: "int option"
  qa_source_timestamp :: "datetime option"
  qa_received_timestamp :: "datetime option"
  qa_source :: string

definition symbol_or :: "string option \<Rightarrow> string \<Rightarrow> string" where
  "symbol_or s fallback = (case s of Some t \<Rightarrow> if t = [] then fallback else t | None \<Rightarrow> fallback)"

definition time_or :: "datetime option \<Rightarrow> datetime \<Rightarrow> datetime" where
  "time_or t now = (case t of Some x \<Rightarrow> x | None \<Rightarrow> now)"

definition observation_of_args :: "quote_args \<Rightarrow> string \<Rightarrow> datetime \<Rightarrow> uuid \<Rightarrow> py_error + underlying_obs" where
  "observation_of_args a symbol now oid =
     build_underlying_obs
       \<lparr>uo_observation_id = oid, uo_symbol = symbol_or (qa_symbol a) symbol,
        uo_source_timestamp = time_or (qa_source_timestamp a) now, uo_received_timestamp = time_or (qa_received_timestamp a) now,
        uo_last = qa_last a, uo_bid = qa_bid a, uo_ask = qa_ask a, uo_bid_size = qa_bid_size a, uo_ask_size = qa_ask_size a,
        uo_cumulative_volume = qa_cumulative_volume a, uo_source = qa_source a\<rparr>"

text \<open>\<open>_underlying_snapshot_from_observation\<close>\<close>

fun underlying_of :: "observed \<Rightarrow> underlying_snapshot" where
  "underlying_of (Observed_Underlying u) =
     \<lparr>us_symbol = uo_symbol u, us_exchange_time = uo_source_timestamp u, us_last = uo_last u, us_bid = uo_bid u, us_ask = uo_ask u,
      us_mid = compute_mid (uo_bid u) (uo_ask u), us_bid_size = uo_bid_size u, us_ask_size = uo_ask_size u,
      us_cumulative_volume = uo_cumulative_volume u, us_source = uo_source u\<rparr>"
| "underlying_of (Observed_Quote q) =
     \<lparr>us_symbol = qo_symbol q, us_exchange_time = qo_source_timestamp q, us_last = qo_last q, us_bid = qo_bid q, us_ask = qo_ask q,
      us_mid = compute_mid (qo_bid q) (qo_ask q), us_bid_size = qo_bid_size q, us_ask_size = qo_ask_size q,
      us_cumulative_volume = qo_cumulative_volume q, us_source = qo_source q\<rparr>"

fun observed_id :: "observed \<Rightarrow> uuid" where
  "observed_id (Observed_Underlying u) = uo_observation_id u"
| "observed_id (Observed_Quote q) = qo_observation_id q"

definition feed_bars :: "market_env \<Rightarrow> observed \<Rightarrow> (market_runtime, unit) run" where
  "feed_bars env ob =
     (case ob of
        Observed_Underlying u \<Rightarrow> on_bars (ingest_underlying (cal_tz (me_calendar env)) u)
      | Observed_Quote q \<Rightarrow> on_bars (ingest_quote (cal_tz (me_calendar env)) q))"

definition note_volume :: "int option \<Rightarrow> (market_runtime, unit) run" where
  "note_volume v = (case v of None \<Rightarrow> run_ret () | Some _ \<Rightarrow> run_modify (\<lambda>s. s\<lparr>mr_prior_cumulative_volume := v\<rparr>))"

definition ingest_observed :: "market_env \<Rightarrow> observed \<Rightarrow> (market_runtime, observed) run" where
  "ingest_observed env ob =
     run_bind (feed_bars env ob) (\<lambda>_.
     run_bind (run_lift (build_underlying_snapshot (underlying_of ob))) (\<lambda>u.
     run_bind (run_modify (\<lambda>s. s\<lparr>mr_latest_underlying := Some u\<rparr>)) (\<lambda>_.
     run_bind (note_volume (us_cumulative_volume u)) (\<lambda>_.
     run_bind (emit_event env QUOTE_RECEIVED (us_exchange_time u)
                 [(''observation_id'', MText (observed_id ob)), (''symbol'', MText (us_symbol u))]) (\<lambda>_.
       run_ret ob)))))"

definition ingest_underlying_quote ::
  "market_env \<Rightarrow> quote_args \<Rightarrow> observed option \<Rightarrow> (market_runtime, observed) run" where
  "ingest_underlying_quote env args observation =
     run_bind (clock_now env) (\<lambda>now.
       case observation of
         Some ob \<Rightarrow> ingest_observed env ob
       | None \<Rightarrow>
           run_bind next_draw (\<lambda>n.
           run_bind (run_get (\<lambda>s. mc_symbol (mr_config s))) (\<lambda>symbol.
           run_bind (run_lift (observation_of_args args symbol now (me_uuid env n))) (\<lambda>u.
             ingest_observed env (Observed_Underlying u)))))"

record trade_args =
  ta_symbol :: "string option"
  ta_price :: "decimal option"
  ta_size :: "int option"
  ta_cumulative_volume :: "int option"
  ta_source_timestamp :: "datetime option"
  ta_received_timestamp :: "datetime option"
  ta_source :: string

definition trade_of_args :: "trade_args \<Rightarrow> string \<Rightarrow> datetime \<Rightarrow> uuid \<Rightarrow> py_error + trade_obs" where
  "trade_of_args a symbol now oid =
     (case (ta_price a, ta_size a) of
        (Some p, Some n) \<Rightarrow>
          build_trade_obs
            \<lparr>to_observation_id = oid, to_symbol = symbol_or (ta_symbol a) symbol,
             to_source_timestamp = time_or (ta_source_timestamp a) now,
             to_received_timestamp = time_or (ta_received_timestamp a) now, to_price = p, to_size = n,
             to_cumulative_volume = ta_cumulative_volume a, to_source = ta_source a\<rparr>
      | _ \<Rightarrow> Inl ValueError)"

definition ingest_observed_trade :: "market_env \<Rightarrow> trade_obs \<Rightarrow> (market_runtime, trade_obs) run" where
  "ingest_observed_trade env t =
     run_bind (on_bars (ingest_trade (cal_tz (me_calendar env)) t)) (\<lambda>_.
     run_bind (note_volume (to_cumulative_volume t)) (\<lambda>_.
     run_bind (emit_event env TRADE_RECEIVED (to_source_timestamp t)
                 [(''observation_id'', MText (to_observation_id t)), (''symbol'', MText (to_symbol t)),
                  (''price'', MNumText (to_price t)), (''size'', MInt (to_size t))]) (\<lambda>_.
       run_ret t)))"

definition ingest_market_trade :: "market_env \<Rightarrow> trade_args \<Rightarrow> trade_obs option \<Rightarrow> (market_runtime, trade_obs) run" where
  "ingest_market_trade env args observation =
     run_bind (clock_now env) (\<lambda>now.
       case observation of
         Some t \<Rightarrow> ingest_observed_trade env t
       | None \<Rightarrow>
           run_bind next_draw (\<lambda>n.
           run_bind (run_get (\<lambda>s. mc_symbol (mr_config s))) (\<lambda>symbol.
           run_bind (run_lift (trade_of_args args symbol now (me_uuid env n))) (\<lambda>t. ingest_observed_trade env t))))"

datatype quote_input = Option_Observation option_obs | Provider_Row row

definition opt_num :: "decimal option \<Rightarrow> py_value" where
  "opt_num v = (case v of None \<Rightarrow> PNone | Some x \<Rightarrow> PNum x)"

definition opt_int :: "int option \<Rightarrow> py_value" where
  "opt_int v = (case v of None \<Rightarrow> PNone | Some x \<Rightarrow> PInt x)"

fun row_of_input :: "quote_input \<Rightarrow> row" where
  "row_of_input (Provider_Row r) = r"
| "row_of_input (Option_Observation q) =
     [(''contract_id'', PText (oo_contract_symbol q)), (''symbol'', PText (oo_contract_symbol q)), (''expiry'', PDate (oo_expiry q)),
      (''strike'', PNum (oo_strike q)), (''option_type'', PText (case oo_option_type q of SCall \<Rightarrow> ''call'' | SPut \<Rightarrow> ''put'')),
      (''bid'', opt_num (oo_bid q)), (''ask'', opt_num (oo_ask q)), (''last'', opt_num (oo_last q)),
      (''bid_size'', opt_int (oo_bid_size q)), (''ask_size'', opt_int (oo_ask_size q)), (''volume'', opt_int (oo_volume q)),
      (''open_interest'', opt_int (oo_open_interest q)), (''implied_volatility'', opt_num (oo_implied_volatility q)),
      (''delta'', opt_num (oo_delta q)), (''gamma'', opt_num (oo_gamma q)), (''theta'', opt_num (oo_theta q)),
      (''vega'', opt_num (oo_vega q)), (''quote_timestamp'', PTime (oo_source_timestamp q))]"

definition ingest_option_quotes :: "market_env \<Rightarrow> quote_input list \<Rightarrow> bool \<Rightarrow> (market_runtime, row list) run" where
  "ingest_option_quotes env quotes publish_it =
     (let rows = map row_of_input quotes
      in run_bind (run_modify (\<lambda>s. s\<lparr>mr_pending_rows := rows\<rparr>)) (\<lambda>_.
           if publish_it \<and> rows \<noteq> []
           then run_bind (clock_now env) (\<lambda>now.
                run_bind (emit_event env QUOTE_RECEIVED now
                            [(''option_quote_count'', MInt (int (length rows))), (''kind'', MText ''option_surface_buffer'')])
                  (\<lambda>_. run_ret rows))
           else run_ret rows))"

section \<open>The tick\<close>

record tick_result =
  tr_closed_bars :: "market_bar list"
  tr_snapshot :: "market_state option"
  tr_surface :: "surface option"
  tr_quality :: "quality_report option"
  tr_events_published :: int

definition bar_payload :: "market_env \<Rightarrow> market_bar \<Rightarrow> (string, meta_val) dict" where
  "bar_payload env b =
     [(''symbol'', MText (mb_symbol b)), (''timeframe'', MText (timeframe_value (mb_timeframe b))),
      (''start'', MText (isoformat (me_time env (mb_start b)))), (''end'', MText (isoformat (me_time env (mb_end b)))),
      (''volume'', MInt (mb_volume b)), (''incomplete'', MBool (mb_incomplete b))]"

definition announce_bars :: "market_env \<Rightarrow> market_bar list \<Rightarrow> (market_runtime, unit list) run" where
  "announce_bars env bars =
     run_for (\<lambda>b. run_bind (emit_event env BAR_CLOSED (me_time env (mb_end b)) (bar_payload env b)) (\<lambda>u. run_ret [u])) bars"

text \<open>\<open>mid or last or bid or ask\<close>, where zero counts as absent\<close>

definition or_number :: "decimal option \<Rightarrow> decimal option \<Rightarrow> decimal option" where
  "or_number a b = (if a = None \<or> a = Some 0 then b else a)"

definition underlying_price :: "underlying_snapshot option \<Rightarrow> decimal option" where
  "underlying_price u =
     (case u of
        None \<Rightarrow> None
      | Some x \<Rightarrow> or_number (us_mid x) (or_number (us_last x) (or_number (us_bid x) (us_ask x))))"

definition store_surface :: "surface \<Rightarrow> (market_runtime, unit) run" where
  "store_surface sf s =
     (case mr_surfaces s of
        None \<Rightarrow> run_ret () s
      | Some db \<Rightarrow> (case save_surface sf db of
                      (Inl e, db') \<Rightarrow> run_raise e (s\<lparr>mr_surfaces := Some db'\<rparr>)
                    | (Inr _, db') \<Rightarrow> run_ret () (s\<lparr>mr_surfaces := Some db'\<rparr>)))"

definition build_surface :: "market_env \<Rightarrow> datetime \<Rightarrow> (market_runtime, surface option) run" where
  "build_surface env reference =
     run_bind (run_get mr_pending_rows) (\<lambda>rows.
       if rows = [] then run_ret None
       else run_bind (clock_trading_date env) (\<lambda>day.
            run_bind next_draw (\<lambda>n.
            run_bind (run_get (\<lambda>s. (mc_symbol (mr_config s), underlying_price (mr_latest_underlying s)))) (\<lambda>(symbol, px).
            run_bind (run_lift (from_provider_rows rows reference day symbol px ''provider'' (me_uuid env n))) (\<lambda>sf.
            run_bind (run_modify (\<lambda>s. s\<lparr>mr_latest_surface := Some sf, mr_pending_rows := []\<rparr>)) (\<lambda>_.
            run_bind (store_surface sf) (\<lambda>_.
            run_bind (emit_event env OPTION_SURFACE_CREATED reference
                        [(''surface_id'', MText (sf_surface_id sf)), (''contract_count'', MInt (int (length (sf_contracts sf))))])
              (\<lambda>_. run_ret (Some sf)))))))))"

text \<open>\<open>xs[-n:]\<close>\<close>

definition tail_slice :: "int \<Rightarrow> 'a list \<Rightarrow> 'a list" where
  "tail_slice n xs = (if n \<le> 0 then drop (nat (- n)) xs else drop (length xs - nat n) xs)"

definition window :: "bar_timeframe \<Rightarrow> int \<Rightarrow> bar_builder \<Rightarrow> market_bar list" where
  "window tf n bb = tail_slice n (filter (\<lambda>b. mb_timeframe b = tf) (bb_closed_bars bb))"

text \<open>A finding of the bar builder as a finding of the report\<close>

definition quality_of_bar_finding :: "bar_finding \<Rightarrow> quality_finding" where
  "quality_of_bar_finding f =
     (if bf_code f = ''cumulative_volume_regression''
      then mk_finding CUMULATIVE_VOLUME_REGRESSION SevError (Some (bf_symbol f))
      else mk_finding INCOMPLETE_BAR SevWarning (Some (bf_symbol f)))"

definition with_findings :: "quality_report \<Rightarrow> quality_finding list \<Rightarrow> quality_report" where
  "with_findings r extra =
     (let merged = qr_findings r @ extra; sev = max_severity merged
      in r\<lparr>qr_severity := sev, qr_findings := merged, qr_usable_for_reasoning := (sev \<noteq> SevCritical),
           qr_usable_for_execution := (sev \<notin> {SevError, SevCritical})\<rparr>)"

definition tick_quality_input :: "underlying_snapshot \<Rightarrow> market_bar list \<Rightarrow> market_bar list \<Rightarrow> surface option \<Rightarrow> quality_input" where
  "tick_quality_input u m1 m5 sf =
     \<lparr>qi_underlying = Some (In_Snapshot u), qi_option_quotes = [], qi_option_surface = sf, qi_bars_1m = m1, qi_bars_5m = m5,
      qi_trades = [], qi_observation_ids = [], qi_prior_cumulative_volume = None,
      qi_current_cumulative_volume = us_cumulative_volume u, qi_snapshot_id = None\<rparr>"

definition merge_bar_findings :: "quality_report \<Rightarrow> (market_runtime, quality_report) run" where
  "merge_bar_findings r =
     run_bind (run_get (\<lambda>s. bb_findings (mr_bars s))) (\<lambda>fs.
       if fs = [] then run_ret r
       else run_bind (run_modify (\<lambda>s. s\<lparr>mr_bars := clear_findings (mr_bars s)\<rparr>))
              (\<lambda>_. run_ret (with_findings r (map quality_of_bar_finding fs))))"

definition merge_pending_findings :: "quality_report \<Rightarrow> (market_runtime, quality_report) run" where
  "merge_pending_findings r =
     run_bind (run_get mr_pending_findings) (\<lambda>fs.
       if fs = [] then run_ret r
       else run_bind (run_modify (\<lambda>s. s\<lparr>mr_pending_findings := []\<rparr>)) (\<lambda>_. run_ret (with_findings r fs)))"

definition store_quality :: "quality_report \<Rightarrow> (market_runtime, unit) run" where
  "store_quality r =
     run_modify (\<lambda>s. s\<lparr>mr_latest_quality := Some r,
                        mr_quality_repo := map_option (save_report r) (mr_quality_repo s)\<rparr>)"

definition assess_quality ::
  "market_env \<Rightarrow> datetime \<Rightarrow> underlying_snapshot \<Rightarrow> market_bar list \<Rightarrow> market_bar list \<Rightarrow> (market_runtime, quality_report) run" where
  "assess_quality env reference u m1 m5 =
     run_bind next_draw (\<lambda>n.
     run_bind (run_get (\<lambda>s. (mr_latest_surface s, to_quality_config (mr_config s)))) (\<lambda>(sf, qc).
     run_bind (run_lift (evaluate_data_quality (me_uuid env n) reference (tick_quality_input u m1 m5 sf) qc)) (\<lambda>r.
     run_bind (merge_bar_findings r) (\<lambda>r1.
     run_bind (merge_pending_findings r1) (\<lambda>r2.
     run_bind (store_quality r2) (\<lambda>_. run_ret r2))))))"

definition store_snapshot :: "market_state \<Rightarrow> (market_runtime, unit) run" where
  "store_snapshot m s =
     (case save_snapshot m (mr_snapshots s) of
        (Inl e, db) \<Rightarrow> run_raise e (s\<lparr>mr_snapshots := db\<rparr>)
      | (Inr _, db) \<Rightarrow> run_ret () (s\<lparr>mr_snapshots := db\<rparr>))"

definition take_snapshot ::
  "market_env \<Rightarrow> datetime \<Rightarrow> underlying_snapshot \<Rightarrow> market_bar list \<Rightarrow> market_bar list \<Rightarrow> quality_report \<Rightarrow>
   (market_runtime, market_state) run" where
  "take_snapshot env reference u m1 m5 r =
     run_bind (clock_trading_date env) (\<lambda>day.
     run_bind next_draw (\<lambda>n.
     run_bind (run_get (\<lambda>s. (map_option sf_surface_id (mr_latest_surface s), mr_source_event_ids s))) (\<lambda>(sf, ids).
     run_bind (run_lift (build_market_state
         \<lparr>mk_snapshot_id = me_uuid env n, mk_exchange_time = reference, mk_trading_date = day, mk_underlying = u,
          mk_bars_1m = m1, mk_bars_5m = m5, mk_feature_snapshot_id = None, mk_option_surface_id = sf,
          mk_data_quality_id = qr_report_id r, mk_source_event_ids = tail_slice 64 ids\<rparr>)) (\<lambda>m.
     run_bind (store_snapshot m) (\<lambda>_.
     run_bind (emit_event env MARKET_SNAPSHOT_CREATED reference
         [(''snapshot_id'', MText (mk_snapshot_id m)), (''data_quality_id'', MText (mk_data_quality_id m)),
          (''option_surface_id'', (case mk_option_surface_id m of Some i \<Rightarrow> MText i | None \<Rightarrow> MNull)),
          (''usable_for_execution'', MBool (qr_usable_for_execution r))])
       (\<lambda>_. run_ret m))))))"

definition tick_reference :: "market_env \<Rightarrow> datetime option \<Rightarrow> (market_runtime, datetime) run" where
  "tick_reference env now = (case now of Some t \<Rightarrow> run_ret t | None \<Rightarrow> clock_now env)"

definition assess_and_snapshot ::
  "market_env \<Rightarrow> datetime \<Rightarrow> underlying_snapshot \<Rightarrow> tick_result \<Rightarrow> (market_runtime, tick_result) run" where
  "assess_and_snapshot env reference u res =
     run_bind (run_get (\<lambda>s. (window M1 (mc_bars_1m_window (mr_config s)) (mr_bars s),
                              window M5 (mc_bars_5m_window (mr_config s)) (mr_bars s)))) (\<lambda>(m1, m5).
     run_bind (assess_quality env reference u m1 m5) (\<lambda>r.
     run_bind (take_snapshot env reference u m1 m5 r) (\<lambda>m.
       run_ret (res\<lparr>tr_quality := Some r, tr_snapshot := Some m, tr_events_published := tr_events_published res + 1\<rparr>))))"

definition market_tick :: "market_env \<Rightarrow> datetime option \<Rightarrow> (market_runtime, tick_result) run" where
  "market_tick env now =
     run_bind (tick_reference env now) (\<lambda>reference.
     run_bind (on_bars (close_ready_bars (cal_tz (me_calendar env)) reference (Some reference))) (\<lambda>bars.
     run_bind (announce_bars env bars) (\<lambda>_.
     run_bind (build_surface env reference) (\<lambda>sf.
     run_bind (run_get mr_latest_underlying) (\<lambda>lu.
       let res = \<lparr>tr_closed_bars = bars, tr_snapshot = None, tr_surface = sf, tr_quality = None,
                  tr_events_published = int (length bars) + (if sf = None then 0 else 1)\<rparr>
       in case lu of
            None \<Rightarrow> run_ret res
          | Some u \<Rightarrow> if bars = [] \<and> sf = None then run_ret res else assess_and_snapshot env reference u res)))))"

end
