(* ===== verification/Market_Runtime_Props.thy ===== *)
theory Market_Runtime_Props
  imports Market_Runtime
begin

text \<open>
  What the market runtime guarantees: the verdict of a tick's report, the references its snapshot carries, the bars
  it shows, the events it has published, and what a malformed option row does to it.
\<close>

section \<open>The verdict of a report\<close>

definition severe_blocks :: "quality_finding list \<Rightarrow> bool" where
  "severe_blocks fs \<longleftrightarrow> (\<forall>f \<in> set fs. blocks_execution f \<longrightarrow> 3 \<le> severity_rank (qf_severity f))"

lemma severe_blocks_simps [quality_simps]:
  "severe_blocks []"
  "severe_blocks (f # fs) \<longleftrightarrow> (blocks_execution f \<longrightarrow> 3 \<le> severity_rank (qf_severity f)) \<and> severe_blocks fs"
  "severe_blocks (fs @ gs) \<longleftrightarrow> severe_blocks fs \<and> severe_blocks gs"
  "severe_blocks (concat fss) \<longleftrightarrow> (\<forall>fs \<in> set fss. severe_blocks fs)"
  "severe_blocks (found b code sev sm) \<longleftrightarrow> (b \<longrightarrow> severe_blocks [mk_finding code sev sm])"
  "blocks_execution (mk_finding code sev sm) \<longleftrightarrow> code \<in> {STALE_UNDERLYING, CROSSED_MARKET, NEGATIVE_PRICE, INSUFFICIENT_OPTION_SURFACE}"
  by (auto simp: severe_blocks_def found_def blocks_execution_def mk_finding_def)

lemma severe_blocks_harmless: "harmless fs \<Longrightarrow> severe_blocks fs"
  by (auto simp: harmless_def severe_blocks_def calm_def)

lemma severe_blocks_book [quality_simps]: "severe_blocks (check_book symbol book limit)"
  by (cases book) (auto simp: check_book_def quality_simps Let_def split: option.splits)

lemma severe_blocks_underlying: "check_underlying u now cfg = Inr fs \<Longrightarrow> severe_blocks fs"
  by (auto simp: check_underlying_def quality_simps split: option.splits sum.splits)

lemma severe_blocks_surface [quality_simps]: "severe_blocks (check_option_surface sf cfg)"
  by (auto simp: check_option_surface_def check_surface_contract_def check_contract_book_def quality_simps split: option.split)

lemma severe_blocks_quotes:
  assumes "check_option_quotes qs now cfg = Inr fs"
  shows "severe_blocks fs"
proof -
  obtain fss where fss: "collect_sums (check_option_quote now cfg) qs = Inr fss" and fs: "fs = concat fss"
    using assms by (auto simp: check_option_quotes_def split: sum.splits)
  have "severe_blocks f" if "check_option_quote now cfg q = Inr f" for q f
    using that by (auto simp: check_option_quote_def quality_simps split: sum.splits)
  then show ?thesis unfolding fs quality_simps collect_sums_set [OF fss] by blast
qed

lemma severe_blocks_skew:
  assumes "check_clock_skew u qs sf now cfg = Inr fs"
  shows "severe_blocks fs"
proof -
  obtain fss where fss: "collect_sums (check_skew now cfg) (skew_times u qs sf) = Inr fss" and fs: "fs = concat fss"
    using assms by (auto simp: check_clock_skew_def split: sum.splits)
  have "severe_blocks f" if "check_skew now cfg st = Inr f" for st f
    using that by (auto simp: check_skew_def quality_simps split: sum.splits prod.splits)
  then show ?thesis unfolding fs quality_simps collect_sums_set [OF fss] by blast
qed

lemma severe_blocks_rest [quality_simps]:
  "severe_blocks (check_cum_vol p c)" "severe_blocks (check_trades ts)"
  by (auto simp: check_cum_vol_def check_trades_def quality_simps split: option.splits)

lemma quality_findings_severe:
  assumes "quality_findings now inp cfg = Inr fs"
  shows "severe_blocks fs"
proof -
  obtain f1 f2 f5 where
    parts: "check_underlying (qi_underlying inp) now cfg = Inr f1"
    "check_option_quotes (qi_option_quotes inp) now cfg = Inr f2"
    "check_clock_skew (qi_underlying inp) (qi_option_quotes inp) (qi_option_surface inp) now cfg = Inr f5"
    and eq: "fs = f1 @ f2 @ check_option_surface (qi_option_surface inp) cfg
               @ check_bars (qi_bars_1m inp) (qi_bars_5m inp) cfg @ f5 @ check_duplicates (qi_observation_ids inp) {}
               @ check_cum_vol (qi_prior_cumulative_volume inp) (qi_current_cumulative_volume inp)
               @ check_trades (qi_trades inp)"
    using quality_findings_parts [OF assms] by blast
  have "severe_blocks (check_bars b1 b5 cfg)" "severe_blocks (check_duplicates is {})" for b1 b5 "is"
    by (intro severe_blocks_harmless check_bars_harmless check_duplicates_harmless)+
  then show ?thesis
    unfolding eq severe_blocks_simps
    using severe_blocks_underlying [OF parts(1)] severe_blocks_quotes [OF parts(2)] severe_blocks_skew [OF parts(3)]
      severe_blocks_surface severe_blocks_rest by blast
qed

text \<open>A report whose verdicts are those of its severity.\<close>

definition verdict_by_severity :: "quality_report \<Rightarrow> bool" where
  "verdict_by_severity r \<longleftrightarrow>
     (qr_usable_for_execution r \<longleftrightarrow> (\<forall>f \<in> set (qr_findings r). severity_rank (qf_severity f) < 3)) \<and>
     (qr_usable_for_reasoning r \<longleftrightarrow> (\<forall>f \<in> set (qr_findings r). severity_rank (qf_severity f) < 4)) \<and>
     qr_severity r = max_severity (qr_findings r)"

lemma evaluate_quality_verdict:
  assumes "evaluate_data_quality rid now inp cfg = Inr r"
  shows "verdict_by_severity r"
proof -
  obtain fs where fs: "quality_findings now inp cfg = Inr fs" and r: "qr_findings r = fs" "qr_severity r = max_severity fs"
    using assms by (auto simp: evaluate_data_quality_def Let_def split: if_splits sum.splits)
  have "qr_usable_for_execution r \<longleftrightarrow> harmless fs" "qr_usable_for_reasoning r \<longleftrightarrow> uncritical fs"
    using usable_iff_findings [OF assms] fs by auto
  moreover have "severe_blocks fs" by (rule quality_findings_severe [OF fs])
  then have "harmless fs \<longleftrightarrow> (\<forall>f \<in> set fs. severity_rank (qf_severity f) < 3)"
    unfolding harmless_def calm_def severe_blocks_def by (meson not_le)
  ultimately show ?thesis by (simp add: verdict_by_severity_def r uncritical_def)
qed

lemma with_findings_verdict: "verdict_by_severity (with_findings r fs)"
proof -
  let ?fs = "qr_findings r @ fs"
  have "max_severity ?fs \<notin> {SevError, SevCritical} \<longleftrightarrow> \<not> 3 \<le> severity_rank (max_severity ?fs)"
    using severity_ranks(2) by blast
  then show ?thesis
    using max_severity_rank [of 3 ?fs] max_severity_rank [of 4 ?fs] severity_ranks(1) [of "max_severity ?fs"]
    by (auto simp: verdict_by_severity_def with_findings_def Let_def not_le)
qed

text \<open>
  What the assessment of a tick returns: the findings of the evaluation, those of the bar builder and the pending
  ones, in this order; it empties the last two and keeps the report.
\<close>

lemma with_findings_fields:
  "qr_report_id (with_findings r fs) = qr_report_id r" "qr_findings (with_findings r fs) = qr_findings r @ fs"
  by (simp_all add: with_findings_def Let_def)

lemma clear_findings_none: "bb_findings bb = [] \<Longrightarrow> clear_findings bb = bb"
  by (cases bb) (simp add: clear_findings_def)

lemma merge_bar_findings_result:
  assumes "merge_bar_findings r s = (Inr r', s')"
  shows "s' = s\<lparr>mr_bars := clear_findings (mr_bars s)\<rparr>" "qr_report_id r' = qr_report_id r"
    "qr_findings r' = qr_findings r @ map quality_of_bar_finding (bb_findings (mr_bars s))"
    "verdict_by_severity r \<Longrightarrow> verdict_by_severity r'"
  using assms
  by (auto simp: merge_bar_findings_def run_bind_def run_defs clear_findings_none with_findings_verdict
      with_findings_fields split: if_splits)

lemma merge_pending_findings_result:
  assumes "merge_pending_findings r s = (Inr r', s')"
  shows "s' = s\<lparr>mr_pending_findings := []\<rparr>" "qr_report_id r' = qr_report_id r"
    "qr_findings r' = qr_findings r @ mr_pending_findings s" "verdict_by_severity r \<Longrightarrow> verdict_by_severity r'"
  using assms
  by (auto simp: merge_pending_findings_def run_bind_def run_defs with_findings_verdict
      with_findings_fields split: if_splits)

lemma assess_quality_result:
  assumes "assess_quality env reference u m1 m5 s = (Inr r, s')"
  obtains fs where
    "quality_findings reference (tick_quality_input u m1 m5 (mr_latest_surface s)) (to_quality_config (mr_config s)) = Inr fs"
    "qr_findings r = fs @ map quality_of_bar_finding (bb_findings (mr_bars s)) @ mr_pending_findings s"
    "verdict_by_severity r" "qr_report_id r = me_uuid env (mr_draws s)"
    "s' = s\<lparr>mr_bars := clear_findings (mr_bars s), mr_latest_quality := Some r,
           mr_quality_repo := map_option (save_report r) (mr_quality_repo s), mr_pending_findings := [],
           mr_draws := Suc (mr_draws s)\<rparr>"
proof -
  let ?s1 = "s\<lparr>mr_draws := Suc (mr_draws s)\<rparr>"
  obtain r0 r1 s2 s3 where
    ev: "evaluate_data_quality (me_uuid env (mr_draws s)) reference
      (tick_quality_input u m1 m5 (mr_latest_surface s)) (to_quality_config (mr_config s)) = Inr r0"
    and m1: "merge_bar_findings r0 ?s1 = (Inr r1, s2)" and m2: "merge_pending_findings r1 s2 = (Inr r, s3)"
    and s': "store_quality r s3 = (Inr (), s')"
    using assms unfolding assess_quality_def
    by (auto simp: run_bind_Inr next_draw_def run_get_def run_lift_def run_ret_def)
  from ev obtain fs where
    fs: "quality_findings reference (tick_quality_input u m1 m5 (mr_latest_surface s)) (to_quality_config (mr_config s)) = Inr fs"
    and r0: "qr_findings r0 = fs" "qr_report_id r0 = me_uuid env (mr_draws s)"
    by (auto simp: evaluate_data_quality_def Let_def split: if_splits sum.splits)
  note a = merge_bar_findings_result [OF m1] and b = merge_pending_findings_result [OF m2]
  show ?thesis
  proof (rule that [OF fs])
    show "verdict_by_severity r" using evaluate_quality_verdict [OF ev] a(4) b(4) by blast
    show "s' = s\<lparr>mr_bars := clear_findings (mr_bars s), mr_latest_quality := Some r,
           mr_quality_repo := map_option (save_report r) (mr_quality_repo s), mr_pending_findings := [],
           mr_draws := Suc (mr_draws s)\<rparr>"
    proof -
      have "s' = s3\<lparr>mr_latest_quality := Some r, mr_quality_repo := map_option (save_report r) (mr_quality_repo s3)\<rparr>"
        using s' by (auto simp: store_quality_def run_modify_def)
      then show ?thesis unfolding b(1) a(1) by simp
    qed
  qed (simp_all add: a b r0)
qed

lemma bar_finding_rank:
  "severity_rank (qf_severity (quality_of_bar_finding f)) < 3 \<longleftrightarrow> bf_code f \<noteq> ''cumulative_volume_regression''"
  by (simp add: quality_of_bar_finding_def mk_finding_def)


section \<open>Frames\<close>

text \<open>
  \<open>inputs v\<close>: what a tick reads but its first half does not change. \<open>reports v\<close>: what taking and announcing
  the snapshot does not change.
\<close>

definition inputs ::
  "quality_finding list \<times> market_state list \<times> underlying_snapshot option \<times> market_config \<Rightarrow> market_runtime \<Rightarrow> bool" where
  "inputs v s \<longleftrightarrow> (mr_pending_findings s, mr_snapshots s, mr_latest_underlying s, mr_config s) = v"

definition reports ::
  "quality_finding list \<times> quality_report option \<times> quality_db option \<times> surface option \<times> bar_builder \<Rightarrow> market_runtime \<Rightarrow> bool" where
  "reports v s \<longleftrightarrow>
     (mr_pending_findings s, mr_latest_quality s, mr_quality_repo s, mr_latest_surface s, mr_bars s) = v"

named_theorems runtime_frames

lemma prim_frames [runtime_frames]:
  "preserves (inputs v) next_draw" "preserves (reports w) next_draw" "preserves (inputs v) (on_bars m)"
  "preserves (inputs v) (store_surface sf)" "preserves (reports w) (store_surface sf)" "preserves (reports w) (store_snapshot ms)"
  by (auto simp: preserves_def inputs_def reports_def next_draw_def on_bars_def store_surface_def store_snapshot_def
      run_defs split: prod.splits sum.splits option.splits)

lemma emit_frames [runtime_frames]:
  "preserves (inputs v) (emit_event env t ts p)" "preserves (reports w) (emit_event env t ts p)"
  unfolding emit_event_def case_prod_unfold
  by (intro preserve_intros runtime_frames preserves_modify; simp add: inputs_def reports_def)+

lemma clock_frames [runtime_frames]:
  "preserves (inputs v) (clock_trading_date env)" "preserves (reports w) (clock_trading_date env)"
  "preserves (inputs v) (tick_reference env now)"
  unfolding clock_trading_date_def clock_now_def tick_reference_def
  by (intro preserve_intros runtime_frames)+

lemma surface_frames [runtime_frames]: "preserves (inputs v) (build_surface env reference)"
  unfolding build_surface_def case_prod_unfold
  by (intro preserve_intros runtime_frames preserves_modify; simp add: inputs_def)

lemma announce_frames [runtime_frames]: "preserves (inputs v) (announce_bars env bars)"
  unfolding announce_bars_def by (intro preserve_intros runtime_frames)

section \<open>What a snapshot refers to\<close>

section \<open>What a snapshot refers to\<close>

lemma inputsI: "inputs (mr_pending_findings s, mr_snapshots s, mr_latest_underlying s, mr_config s) s"
  by (simp add: inputs_def)

lemma reportsI:
  "reports (mr_pending_findings s, mr_latest_quality s, mr_quality_repo s, mr_latest_surface s, mr_bars s) s"
  by (simp add: reports_def)

lemma framed: "preserves P m \<Longrightarrow> P s \<Longrightarrow> m s = (r, s') \<Longrightarrow> P s'"
  by (metis preservesD snd_conv)

lemma store_snapshot_result:
  assumes "store_snapshot m s = (Inr (), s')"
  shows "s' = s\<lparr>mr_snapshots := mr_snapshots s @ [m]\<rparr>" "mk_snapshot_id m \<notin> mk_snapshot_id ` set (mr_snapshots s)"
  using assms by (auto simp: store_snapshot_def save_snapshot_def run_defs split: if_splits)

lemma take_snapshot_result:
  assumes "take_snapshot env reference u m1 m5 r s = (Inr m, s')"
  shows "mr_snapshots s' = mr_snapshots s @ [m]" "mk_data_quality_id m = qr_report_id r"
    "mk_bars_1m m = m1" "mk_bars_5m m = m5" "mk_option_surface_id m = map_option sf_surface_id (mr_latest_surface s)"
    "mk_snapshot_id m \<notin> mk_snapshot_id ` set (mr_snapshots s)" "reports w s \<Longrightarrow> reports w s'"
    "mk_underlying m = u"
proof -
  obtain d s1 s2 s3 payload where
    day: "clock_trading_date env s = (Inr d, s1)" and s2: "s2 = s1\<lparr>mr_draws := Suc (mr_draws s1)\<rparr>"
    and m: "build_market_state
         \<lparr>mk_snapshot_id = me_uuid env (mr_draws s1), mk_exchange_time = reference, mk_trading_date = d, mk_underlying = u,
          mk_bars_1m = m1, mk_bars_5m = m5, mk_feature_snapshot_id = None,
          mk_option_surface_id = map_option sf_surface_id (mr_latest_surface s2),
          mk_data_quality_id = qr_report_id r, mk_source_event_ids = tail_slice 64 (mr_source_event_ids s2)\<rparr> = Inr m"
    and st: "store_snapshot m s2 = (Inr (), s3)"
    and em: "emit_event env MARKET_SNAPSHOT_CREATED reference payload s3 = (Inr (), s')"
    using assms(1) unfolding take_snapshot_def
    by (auto simp: run_bind_Inr next_draw_def run_get_def run_lift_def run_ret_def)
  have i: "mr_snapshots s1 = mr_snapshots s" using framed [OF clock_frames(1) inputsI day] by (simp add: inputs_def)
  have l: "mr_latest_surface s1 = mr_latest_surface s" using framed [OF clock_frames(2) reportsI day] by (simp add: reports_def)
  have e: "mr_snapshots s' = mr_snapshots s3" using framed [OF emit_frames(1) inputsI em] by (simp add: inputs_def)
  note s3 = store_snapshot_result [OF st]
  show "mr_snapshots s' = mr_snapshots s @ [m]" "mk_snapshot_id m \<notin> mk_snapshot_id ` set (mr_snapshots s)"
    using e s3 i by (simp_all add: s2)
  show "mk_data_quality_id m = qr_report_id r" "mk_bars_1m m = m1" "mk_bars_5m m = m5"
    "mk_option_surface_id m = map_option sf_surface_id (mr_latest_surface s)" "mk_underlying m = u"
    using m l by (auto simp: build_market_state_def s2 split: if_splits)
  show "reports w s'" if "reports w s"
  proof -
    have "reports w s1" by (rule framed [OF clock_frames(2) that day])
    then have "reports w s3" by (simp add: reports_def s3(1) s2)
    then show ?thesis by (rule framed [OF emit_frames(2) _ em])
  qed
qed

lemma tick_snapshot_path:
  assumes "market_tick env now s = (Inr res, s')" "tr_snapshot res = Some m"
  obtains reference u r s1 s2 where
    "inputs (mr_pending_findings s, mr_snapshots s, mr_latest_underlying s, mr_config s) s1" "mr_latest_underlying s = Some u"
    "assess_quality env reference u (window M1 (mc_bars_1m_window (mr_config s)) (mr_bars s1))
       (window M5 (mc_bars_5m_window (mr_config s)) (mr_bars s1)) s1 = (Inr r, s2)"
    "take_snapshot env reference u (window M1 (mc_bars_1m_window (mr_config s)) (mr_bars s1))
       (window M5 (mc_bars_5m_window (mr_config s)) (mr_bars s1)) r s2 = (Inr m, s')"
    "tr_quality res = Some r"
proof -
  let ?I = "inputs (mr_pending_findings s, mr_snapshots s, mr_latest_underlying s, mr_config s)"
  obtain reference a bars b x c sf s1 where
    t: "tick_reference env now s = (Inr reference, a)"
    "on_bars (close_ready_bars (cal_tz (me_calendar env)) reference (Some reference)) a = (Inr bars, b)"
    "announce_bars env bars b = (Inr x, c)" "build_surface env reference c = (Inr sf, s1)"
    and rest: "(case mr_latest_underlying s1 of
         None \<Rightarrow> run_ret \<lparr>tr_closed_bars = bars, tr_snapshot = None, tr_surface = sf, tr_quality = None,
                  tr_events_published = int (length bars) + (if sf = None then 0 else 1)\<rparr>
       | Some u \<Rightarrow> if bars = [] \<and> sf = None
            then run_ret \<lparr>tr_closed_bars = bars, tr_snapshot = None, tr_surface = sf, tr_quality = None,
                  tr_events_published = int (length bars) + (if sf = None then 0 else 1)\<rparr>
            else assess_and_snapshot env reference u \<lparr>tr_closed_bars = bars, tr_snapshot = None, tr_surface = sf, tr_quality = None,
                  tr_events_published = int (length bars) + (if sf = None then 0 else 1)\<rparr>) s1 = (Inr res, s')"
    using assms(1) unfolding market_tick_def Let_def by (auto simp: run_bind_Inr run_get_def)
  have I: "?I s1"
    by (rule framed [OF surface_frames _ t(4)], rule framed [OF announce_frames _ t(3)],
        rule framed [OF prim_frames(3) _ t(2)], rule framed [OF clock_frames(3) _ t(1)], rule inputsI)
  obtain u where u: "mr_latest_underlying s1 = Some u"
    and as: "assess_and_snapshot env reference u \<lparr>tr_closed_bars = bars, tr_snapshot = None, tr_surface = sf, tr_quality = None,
                  tr_events_published = int (length bars) + (if sf = None then 0 else 1)\<rparr> s1 = (Inr res, s')"
    using rest assms(2) by (auto simp: run_ret_def split: option.splits if_splits)
  have cfg: "mr_config s1 = mr_config s" "mr_latest_underlying s = Some u" using I u by (simp_all add: inputs_def)
  obtain r s2 m' where
    A: "assess_quality env reference u (window M1 (mc_bars_1m_window (mr_config s1)) (mr_bars s1))
       (window M5 (mc_bars_5m_window (mr_config s1)) (mr_bars s1)) s1 = (Inr r, s2)"
    and T: "take_snapshot env reference u (window M1 (mc_bars_1m_window (mr_config s1)) (mr_bars s1))
       (window M5 (mc_bars_5m_window (mr_config s1)) (mr_bars s1)) r s2 = (Inr m', s')"
    and res: "tr_quality res = Some r" "tr_snapshot res = Some m'"
    using as unfolding assess_and_snapshot_def by (auto simp: run_bind_Inr run_get_def run_ret_def)
  have "m' = m" using assms(2) res(2) by simp
  with T show ?thesis by (intro that [OF I cfg(2) A [unfolded cfg(1)] _ res(1)]) (simp add: cfg(1))
qed


section \<open>Interface: what every operation keeps\<close>

text \<open>
  The part of the state that a property of the bus, the bars or the snapshots reads. A property of it that the
  primitive steps keep is kept by every operation of the runtime.
\<close>

definition same_core :: "market_runtime \<Rightarrow> market_runtime \<Rightarrow> bool" where
  "same_core s t \<longleftrightarrow> mr_correlation s = mr_correlation t \<and> mr_bars s = mr_bars t \<and> mr_bus s = mr_bus t \<and>
     mr_snapshots s = mr_snapshots t \<and> mr_source_event_ids s = mr_source_event_ids t \<and> mr_draws s = mr_draws t"

locale runtime_frame =
  fixes env :: market_env and P :: "market_runtime \<Rightarrow> bool"
  assumes core: "same_core s s' \<Longrightarrow> P s \<Longrightarrow> P s'"
    and draw: "preserves P next_draw"
    and emit: "preserves P (emit_event env ty ts payload)"
    and bars: "preserves P (on_bars (ingest_underlying ny u))" "preserves P (on_bars (ingest_quote ny q))"
      "preserves P (on_bars (ingest_trade ny trd))" "preserves P (on_bars (close_ready_bars ny clock now))"
    and snap: "preserves P (assess_and_snapshot env reference us res)"
begin

lemma modify: "(\<And>s. same_core s (f s)) \<Longrightarrow> preserves P (run_modify f)"
  using core by (blast intro: preserves_modify)

lemma now: "preserves P (clock_now env)"
  unfolding clock_now_def by (intro preserve_intros draw)

lemma day: "preserves P (clock_trading_date env)"
  unfolding clock_trading_date_def by (intro preserve_intros now)

lemma volume: "preserves P (note_volume v)"
  unfolding note_volume_def by (intro preserve_intros modify) (simp add: same_core_def)

lemma observed: "preserves P (ingest_observed env ob)"
  unfolding ingest_observed_def feed_bars_def
  by (cases ob) (simp_all, (intro preserve_intros bars volume emit modify; simp add: same_core_def)+)

lemma quote: "preserves P (ingest_underlying_quote env args observation)"
  unfolding ingest_underlying_quote_def by (intro preserve_intros now draw observed)

lemma trade: "preserves P (ingest_market_trade env args observation)"
  unfolding ingest_market_trade_def ingest_observed_trade_def
  by (intro preserve_intros now draw bars volume emit)

lemma options: "preserves P (ingest_option_quotes env quotes publish_it)"
  unfolding ingest_option_quotes_def Let_def
  by (intro preserve_intros now emit modify) (simp add: same_core_def)

lemma enqueue: "preserves P (enqueue_quality_findings fs)"
  unfolding enqueue_quality_findings_def by (rule modify) (simp add: same_core_def)

lemma store: "preserves P (store_surface sf)"
proof
  fix s assume "P s"
  moreover have "same_core s (snd (store_surface sf s))"
    by (simp add: store_surface_def run_defs same_core_def split: option.split prod.split sum.split)
  ultimately show "P (snd (store_surface sf s))" using core by blast
qed

lemma surface: "preserves P (build_surface env reference)"
  unfolding build_surface_def case_prod_unfold
  by (intro preserve_intros day draw emit store modify) (simp add: same_core_def)

lemma tick: "preserves P (market_tick env t)"
  unfolding market_tick_def announce_bars_def tick_reference_def Let_def
  by (intro preserve_intros now bars emit surface snap)

end

section \<open>Runs\<close>

text \<open>
  A run of a new runtime on a new bus and an empty snapshot table. Every operation is made with any arguments and
  however it ends; the workers of the bus take, dispatch and finish events in between. The list holds the events
  whose dispatch has started.
\<close>

inductive market_run ::
  "market_env \<Rightarrow> (nat \<Rightarrow> domain_event \<Rightarrow> handler_outcome) \<Rightarrow> market_runtime \<Rightarrow> domain_event list \<Rightarrow> bool"
  for env outcome where
  run_begin: "market_run env outcome (new_market_runtime env (new_builder tol) new_bus [] surfaces reps session cfg) []"
| run_quote: "market_run env outcome s started \<Longrightarrow>
    market_run env outcome (snd (ingest_underlying_quote env args observation s)) started"
| run_trade: "market_run env outcome s started \<Longrightarrow> market_run env outcome (snd (ingest_market_trade env targs trd s)) started"
| run_options: "market_run env outcome s started \<Longrightarrow>
    market_run env outcome (snd (ingest_option_quotes env quotes publish_it s)) started"
| run_enqueue: "market_run env outcome s started \<Longrightarrow> market_run env outcome (snd (enqueue_quality_findings fs s)) started"
| run_tick: "market_run env outcome s started \<Longrightarrow> market_run env outcome (snd (market_tick env t s)) started"
| run_subscribe: "market_run env outcome s started \<Longrightarrow>
    market_run env outcome (s\<lparr>mr_bus := subscribe ty h (mr_bus s)\<rparr>) started"
| run_take: "market_run env outcome s started \<Longrightarrow> take_next c (mr_bus s) = Some b \<Longrightarrow> queue_of c (mr_bus s) = Some e # q \<Longrightarrow>
    market_run env outcome (s\<lparr>mr_bus := b\<rparr>) (started @ [e])"
| run_dispatch: "market_run env outcome s started \<Longrightarrow> run_handler outcome c (mr_bus s) = Some b \<Longrightarrow>
    market_run env outcome (s\<lparr>mr_bus := b\<rparr>) started"
| run_finish: "market_run env outcome s started \<Longrightarrow> finish_event c (mr_bus s) = Some b \<Longrightarrow>
    market_run env outcome (s\<lparr>mr_bus := b\<rparr>) started"

text \<open>A property that the operations keep and the bus cannot see holds in every run.\<close>

context runtime_frame begin

lemma run_keeps:
  assumes "market_run env outcome s started"
    and "\<And>tol surfaces reps session cfg. P (new_market_runtime env (new_builder tol) new_bus [] surfaces reps session cfg)"
    and "\<And>s b. P s \<Longrightarrow> P (s\<lparr>mr_bus := b\<rparr>)"
  shows "P s"
  using assms(1)
  by induction (auto intro: assms(2,3) preservesD [OF quote] preservesD [OF trade] preservesD [OF options]
      preservesD [OF enqueue] preservesD [OF tick])

end

section \<open>Snapshots hold well-formed bars\<close>

definition window_ok :: "bar_timeframe \<Rightarrow> market_bar list \<Rightarrow> bool" where
  "window_ok tf bs \<longleftrightarrow> (\<forall>b \<in> set bs. mb_timeframe b = tf \<and> market_bar_ok b) \<and> distinct (map closed_key bs)"

definition snapshot_ok :: "market_state \<Rightarrow> bool" where
  "snapshot_ok m \<longleftrightarrow> window_ok M1 (mk_bars_1m m) \<and> window_ok M5 (mk_bars_5m m)"

definition bars_and_snapshots_ok :: "market_runtime \<Rightarrow> bool" where
  "bars_and_snapshots_ok s \<longleftrightarrow> builder_ok [] (mr_bars s) \<and> (\<forall>m \<in> set (mr_snapshots s). snapshot_ok m) \<and>
     distinct (map mk_snapshot_id (mr_snapshots s))"

lemma tail_slice_drop: "\<exists>k. tail_slice n xs = drop k xs"
  by (auto simp: tail_slice_def)

lemma builder_window_ok: "builder_ok [] bb \<Longrightarrow> window_ok tf (window tf n bb)"
proof -
  assume ok: "builder_ok [] bb"
  obtain k where w: "window tf n bb = drop k (filter (\<lambda>b. mb_timeframe b = tf) (bb_closed_bars bb))"
    using tail_slice_drop unfolding window_def by blast
  have "distinct (map closed_key (filter (\<lambda>b. mb_timeframe b = tf) (bb_closed_bars bb)))"
    using ok by (simp add: builder_ok_def distinct_map_filter)
  then have "distinct (map closed_key (window tf n bb))" unfolding w by (simp flip: drop_map)
  moreover have "mb_timeframe b = tf \<and> market_bar_ok b" if "b \<in> set (window tf n bb)" for b
    using in_set_dropD [OF that [unfolded w]] ok by (simp add: builder_ok_def list_all_iff)
  ultimately show ?thesis by (simp add: window_ok_def)
qed

lemma on_bars_ok:
  "preserves (builder_ok []) m \<Longrightarrow> preserves bars_and_snapshots_ok (on_bars m)"
  by (auto simp: preserves_def bars_and_snapshots_ok_def on_bars_def split: prod.split)

lemma bars_ok_same:
  "mr_bars t = mr_bars s \<Longrightarrow> mr_snapshots t = mr_snapshots s \<Longrightarrow> bars_and_snapshots_ok s \<Longrightarrow> bars_and_snapshots_ok t"
  by (simp add: bars_and_snapshots_ok_def)

lemma bars_ok_draw: "preserves bars_and_snapshots_ok next_draw"
  by (simp add: preserves_def next_draw_def run_defs bars_and_snapshots_ok_def)

lemma bars_ok_emit: "preserves bars_and_snapshots_ok (emit_event env ty ts payload)"
  unfolding emit_event_def case_prod_unfold
  by (intro preserve_intros bars_ok_draw preserves_modify; simp add: bars_and_snapshots_ok_def)

lemma bars_ok_day: "preserves bars_and_snapshots_ok (clock_trading_date env)"
  unfolding clock_trading_date_def clock_now_def by (intro preserve_intros bars_ok_draw)

lemma bars_ok_assess: "preserves bars_and_snapshots_ok (assess_quality env reference u m1 m5)"
  unfolding assess_quality_def merge_bar_findings_def merge_pending_findings_def store_quality_def case_prod_unfold
  by (intro preserve_intros bars_ok_draw preserves_modify;
      simp add: bars_and_snapshots_ok_def builder_ok_def clear_findings_def)

lemma bars_ok_take:
  assumes "window_ok M1 m1" "window_ok M5 m5"
  shows "preserves bars_and_snapshots_ok (take_snapshot env reference u m1 m5 r)"
proof
  fix s assume ok: "bars_and_snapshots_ok s"
  have st: "preserves bars_and_snapshots_ok (store_snapshot m)" if "snapshot_ok m" for m
    using that by (auto simp: preserves_def store_snapshot_def save_snapshot_def run_defs bars_and_snapshots_ok_def)
  have lift: "preserves bars_and_snapshots_ok (run_bind (run_lift (build_market_state m)) f)"
    if "preserves bars_and_snapshots_ok (f m)" for m and f :: "market_state \<Rightarrow> (market_runtime, market_state) run"
    using that by (auto simp: preserves_def build_market_state_def run_bind_def run_lift_def)
  show "bars_and_snapshots_ok (snd (take_snapshot env reference u m1 m5 r s))"
    unfolding take_snapshot_def case_prod_unfold
    by (rule preservesD [where P = bars_and_snapshots_ok, OF _ ok])
       (intro preserve_intros bars_ok_day bars_ok_draw lift st bars_ok_emit; simp add: snapshot_ok_def assms)
qed

lemma bars_ok_snap: "preserves bars_and_snapshots_ok (assess_and_snapshot env reference u res)"
proof
  fix s assume ok: "bars_and_snapshots_ok s"
  let ?w1 = "window M1 (mc_bars_1m_window (mr_config s)) (mr_bars s)" and ?w5 = "window M5 (mc_bars_5m_window (mr_config s)) (mr_bars s)"
  have w: "window_ok M1 ?w1" "window_ok M5 ?w5"
    using ok by (simp_all add: bars_and_snapshots_ok_def builder_window_ok)
  have "preserves bars_and_snapshots_ok (run_bind (assess_quality env reference u ?w1 ?w5) (\<lambda>r.
     run_bind (take_snapshot env reference u ?w1 ?w5 r) (\<lambda>m.
       run_ret (res\<lparr>tr_quality := Some r, tr_snapshot := Some m, tr_events_published := tr_events_published res + 1\<rparr>))))"
    by (intro preserve_intros bars_ok_assess bars_ok_take w)
  from preservesD [OF this ok] show "bars_and_snapshots_ok (snd (assess_and_snapshot env reference u res s))"
    by (simp add: assess_and_snapshot_def run_bind_def [of "run_get _"] run_get_def)
qed

interpretation barred: runtime_frame env bars_and_snapshots_ok
proof unfold_locales
  show "bars_and_snapshots_ok s'" if "same_core s s'" "bars_and_snapshots_ok s" for s s'
    using that by (simp add: same_core_def bars_and_snapshots_ok_def)
qed (intro bars_ok_draw bars_ok_emit bars_ok_snap on_bars_ok builder_ok_ingest builder_ok_close)+

text \<open>
  Claim C25. Whatever is ingested and whenever it ticks, every snapshot the runtime saves shows one-minute bars and
  five-minute bars that are well formed, no bar twice, and no two snapshots have one id.
\<close>

theorem snapshots_show_sound_bars:
  assumes "market_run env outcome s started" "m \<in> set (mr_snapshots s)"
  shows "(\<forall>b \<in> set (mk_bars_1m m). mb_timeframe b = M1 \<and> market_bar_ok b) \<and> distinct (map closed_key (mk_bars_1m m)) \<and>
    (\<forall>b \<in> set (mk_bars_5m m). mb_timeframe b = M5 \<and> market_bar_ok b) \<and> distinct (map closed_key (mk_bars_5m m)) \<and>
    distinct (map mk_snapshot_id (mr_snapshots s))"
proof -
  have "bars_and_snapshots_ok s"
    by (rule barred.run_keeps [OF assms(1)])
       (simp_all add: bars_and_snapshots_ok_def new_market_runtime_def builder_ok_new)
  then show ?thesis using assms(2) by (simp add: bars_and_snapshots_ok_def snapshot_ok_def window_ok_def)
qed

section \<open>The events of the runtime are dispatched in order\<close>

definition on_bus ::
  "market_env \<Rightarrow> (nat \<Rightarrow> domain_event \<Rightarrow> handler_outcome) \<Rightarrow> domain_event list \<Rightarrow> market_runtime \<Rightarrow> bool" where
  "on_bus env outcome started s \<longleftrightarrow>
     (inj (me_uuid env) \<longrightarrow>
       (\<exists>acc. bus_run outcome (mr_bus s) acc started \<and> map de_event_id acc = mr_source_event_ids s \<and>
          (\<forall>e \<in> set acc. de_correlation_id e = mr_correlation s) \<and>
          set (mr_source_event_ids s) \<subseteq> me_uuid env ` {..<mr_draws s}))"

lemma on_bus_same:
  assumes "mr_bus t = mr_bus s" "mr_source_event_ids t = mr_source_event_ids s" "mr_correlation t = mr_correlation s"
    "mr_draws s \<le> mr_draws t" "on_bus env outcome started s"
  shows "on_bus env outcome started t"
  using assms unfolding on_bus_def by (auto simp: subset_iff image_iff) (metis lessThan_iff order_less_le_trans)+

lemma on_bus_draw: "preserves (on_bus env outcome started) next_draw"
  by (rule preservesI) (auto simp: next_draw_def run_defs intro: on_bus_same)

lemma on_bus_modify:
  "(\<And>s. mr_bus (f s) = mr_bus s \<and> mr_source_event_ids (f s) = mr_source_event_ids s \<and> mr_correlation (f s) = mr_correlation s \<and>
     mr_draws (f s) = mr_draws s) \<Longrightarrow> preserves (on_bus env outcome started) (run_modify f)"
  by (rule preserves_modify) (metis on_bus_same order_refl)

lemma on_bus_bars: "preserves (on_bus env outcome started) (on_bars m)"
  by (rule preservesI) (auto simp: on_bars_def intro: on_bus_same split: prod.split)

text \<open>A new event of the runtime is never taken for a duplicate: its id has not been drawn before.\<close>

lemma on_bus_emit: "preserves (on_bus env outcome started) (emit_event env ty ts payload)"
proof
  fix s assume P: "on_bus env outcome started s"
  let ?n = "mr_draws s"
  let ?made = "make_event (me_uuid env ?n) (me_utc env ?n) ty (mr_session s) ''market_runtime'' ts payload (mr_correlation s)"
  show "on_bus env outcome started (snd (emit_event env ty ts payload s))"
  proof (cases ?made)
    case (Inl e)
    then have "snd (emit_event env ty ts payload s) = s\<lparr>mr_draws := Suc ?n\<rparr>"
      by (simp add: emit_event_def next_draw_def run_bind_def run_defs)
    then show ?thesis using P by (auto intro: on_bus_same [of _ s])
  next
    case (Inr e)
    have e: "de_event_id e = me_uuid env ?n" "de_correlation_id e = mr_correlation s"
      using Inr by (auto simp: make_event_def Let_def split: if_splits)
    have s': "snd (emit_event env ty ts payload s) =
        s\<lparr>mr_draws := Suc ?n, mr_source_event_ids := mr_source_event_ids s @ [de_event_id e], mr_bus := snd (publish e (mr_bus s))\<rparr>"
      using Inr by (simp add: emit_event_def next_draw_def run_bind_def run_defs)
    show ?thesis unfolding on_bus_def
    proof
      assume inj: "inj (me_uuid env)"
      then obtain acc where acc: "bus_run outcome (mr_bus s) acc started" "map de_event_id acc = mr_source_event_ids s"
        "\<forall>e \<in> set acc. de_correlation_id e = mr_correlation s" "set (mr_source_event_ids s) \<subseteq> me_uuid env ` {..<?n}"
        using P unfolding on_bus_def by blast
      have "bus_seen (mr_bus s) = set (mr_source_event_ids s)"
        using bus_run_inv [OF acc(1)] acc(2) by (metis bus_inv_def set_map)
      moreover have "me_uuid env ?n \<notin> me_uuid env ` {..<?n}" using inj by (auto simp: inj_def)
      ultimately have "de_event_id e \<notin> bus_seen (mr_bus s)" using acc(4) e(1) by auto
      then have "publish e (mr_bus s) = (True, snd (publish e (mr_bus s)))" by (simp add: publish_def Let_def)
      from bus_run.br_publish [OF acc(1) this]
      show "\<exists>acc. bus_run outcome (mr_bus (snd (emit_event env ty ts payload s))) acc started \<and>
          map de_event_id acc = mr_source_event_ids (snd (emit_event env ty ts payload s)) \<and>
          (\<forall>e \<in> set acc. de_correlation_id e = mr_correlation (snd (emit_event env ty ts payload s))) \<and>
          set (mr_source_event_ids (snd (emit_event env ty ts payload s))) \<subseteq>
            me_uuid env ` {..<mr_draws (snd (emit_event env ty ts payload s))}"
        unfolding s' using acc e by (intro exI [of _ "acc @ [e]"]) (auto simp: lessThan_Suc)
    qed
  qed
qed

lemma on_bus_day: "preserves (on_bus env outcome started) (clock_trading_date env)"
  unfolding clock_trading_date_def clock_now_def by (intro preserve_intros on_bus_draw)

lemma on_bus_store: "preserves (on_bus env outcome started) (store_snapshot m)"
  by (rule preservesI) (auto simp: store_snapshot_def run_defs intro: on_bus_same split: prod.split sum.split)

lemma on_bus_snap: "preserves (on_bus env outcome started) (assess_and_snapshot env reference u res)"
  unfolding assess_and_snapshot_def assess_quality_def merge_bar_findings_def merge_pending_findings_def store_quality_def
    take_snapshot_def case_prod_unfold
  by (intro preserve_intros on_bus_draw on_bus_day on_bus_store on_bus_emit on_bus_modify) simp_all

interpretation bused: runtime_frame env "on_bus env outcome started"
proof unfold_locales
  show "on_bus env outcome started s'" if "same_core s s'" "on_bus env outcome started s" for s s'
    using that by (intro on_bus_same [of s' s]) (simp_all add: same_core_def)
qed (intro on_bus_draw on_bus_emit on_bus_snap on_bus_bars)+

lemma market_run_on_bus: "market_run env outcome s started \<Longrightarrow> on_bus env outcome started s"
proof (induction rule: market_run.induct)
  case run_begin
  show ?case by (auto simp: on_bus_def new_market_runtime_def intro: bus_run.br_new)
next
  case (run_subscribe s started ty h)
  then show ?case by (fastforce simp: on_bus_def intro: bus_run.br_subscribe)
next
  case (run_take s started c b e q)
  then show ?case by (fastforce simp: on_bus_def intro: bus_run.br_take)
next
  case (run_dispatch s started c b)
  then show ?case by (fastforce simp: on_bus_def intro: bus_run.br_handler)
next
  case (run_finish s started c b)
  then show ?case by (fastforce simp: on_bus_def intro: bus_run.br_finish)
qed (blast intro: preservesD [OF bused.quote] preservesD [OF bused.trade] preservesD [OF bused.options]
      preservesD [OF bused.enqueue] preservesD [OF bused.tick])+

text \<open>
  Claim C26. When its ids do not repeat, no event of the runtime is dropped as a duplicate and the workers dispatch
  them in the order the runtime recorded them: the recorded ids are those of the events whose dispatch has started,
  followed by those still queued for its correlation id.
\<close>

theorem runtime_events_in_order:
  assumes "market_run env outcome s started" "inj (me_uuid env)"
  shows "\<exists>queued. queue_of (mr_correlation s) (mr_bus s) = map Some queued \<and>
    mr_source_event_ids s = map de_event_id (started @ queued) \<and> distinct (mr_source_event_ids s)"
proof -
  obtain acc where acc: "bus_run outcome (mr_bus s) acc started" "map de_event_id acc = mr_source_event_ids s"
    "\<forall>e \<in> set acc. de_correlation_id e = mr_correlation s"
    using market_run_on_bus [OF assms(1)] assms(2) unfolding on_bus_def by blast
  let ?c = "mr_correlation s"
  have inv: "\<And>c. map Some (of_corr c acc) = map Some (of_corr c started) @ queue_of c (mr_bus s)" "distinct (map de_event_id acc)"
    using bus_run_inv [OF acc(1)] by (simp_all add: bus_inv_def)
  have "of_corr ?c acc = acc" using acc(3) by (simp add: of_corr_def)
  moreover have "of_corr ?c started = started"
  proof -
    have "de_correlation_id e = ?c" if "e \<in> set started" for e
    proof -
      have "e \<in> set (of_corr (de_correlation_id e) started)" using that by (simp add: of_corr_def)
      then have "Some e \<in> set (map Some (of_corr (de_correlation_id e) acc))"
        unfolding inv(1) [of "de_correlation_id e"] by simp
      then show ?thesis using acc(3) by (auto simp: of_corr_def)
    qed
    then show ?thesis by (simp add: of_corr_def)
  qed
  ultimately have eq: "map Some acc = map Some started @ queue_of ?c (mr_bus s)" using inv(1) [of ?c] by simp
  then obtain queued where q: "queue_of ?c (mr_bus s) = map Some queued" and "acc = started @ queued"
    by (auto simp: map_eq_append_conv)
  then show ?thesis using acc(2) inv(2) by auto
qed

section \<open>A malformed option row\<close>

definition surface_inputs :: "row list \<times> market_state list \<Rightarrow> market_runtime \<Rightarrow> bool" where
  "surface_inputs v s \<longleftrightarrow> (mr_pending_rows s, mr_snapshots s) = v"

lemma surface_inputs_prims:
  "preserves (surface_inputs v) next_draw" "preserves (surface_inputs v) (on_bars m)"
  by (auto simp: preserves_def surface_inputs_def next_draw_def on_bars_def run_defs split: prod.splits)

lemma surface_inputs_emit: "preserves (surface_inputs v) (emit_event env t ts p)"
  unfolding emit_event_def case_prod_unfold
  by (intro preserve_intros surface_inputs_prims preserves_modify; simp add: surface_inputs_def)

lemma surface_inputs_clock:
  "preserves (surface_inputs v) (clock_trading_date env)" "preserves (surface_inputs v) (announce_bars env bars)"
  unfolding clock_trading_date_def clock_now_def announce_bars_def
  by (intro preserve_intros surface_inputs_prims surface_inputs_emit)+

text \<open>\<open>fails K m s\<close>: \<open>m\<close> raises and leaves a state with \<open>K\<close>.\<close>

definition fails :: "('s \<Rightarrow> bool) \<Rightarrow> ('s, 'a) run \<Rightarrow> 's \<Rightarrow> bool" where
  "fails K m s \<longleftrightarrow> (\<exists>e s'. m s = (Inl e, s') \<and> K s')"

lemma fails_bind: "preserves K m \<Longrightarrow> (\<And>a s. K s \<Longrightarrow> fails K (f a) s) \<Longrightarrow> K s \<Longrightarrow> fails K (run_bind m f) s"
  by (fastforce simp: fails_def preserves_def run_bind_def split: prod.splits sum.splits)

lemma fails_first: "fails K m s \<Longrightarrow> fails K (run_bind m f) s"
  by (auto simp: fails_def run_bind_def)

lemma fails_get: "fails K (f (g s)) s \<Longrightarrow> fails K (run_bind (run_get g) f) s"
  by (simp add: fails_def run_bind_def run_get_def)

lemma provider_rows_fail:
  assumes "r \<in> set rows" "row_to_contract r reference = Inl e"
  shows "\<exists>e'. from_provider_rows rows reference day symbol px source sid = Inl e'"
proof (cases "reject_naive reference")
  case (Inr ts)
  then have "ts = reference" by (simp add: reject_naive_def split: if_splits)
  moreover have "\<exists>e'. collect_sums (\<lambda>r. row_to_contract r reference) rows = Inl e'"
    using collect_sums_all [of "\<lambda>r. row_to_contract r reference" rows] assms
    by (cases "collect_sums (\<lambda>r. row_to_contract r reference) rows") fastforce+
  ultimately show ?thesis using Inr by (auto simp: from_provider_rows_def)
qed (simp add: from_provider_rows_def)

lemma build_surface_fails:
  assumes "r \<in> set rows" "row_to_contract r reference = Inl e" "surface_inputs (rows, snaps) s"
  shows "fails (surface_inputs (rows, snaps)) (build_surface env reference) s"
proof -
  have rows: "mr_pending_rows s = rows" "rows \<noteq> []" using assms by (auto simp: surface_inputs_def)
  have "fails (surface_inputs (rows, snaps)) (run_bind (run_lift (from_provider_rows rows reference day symbol px src sid)) f) t"
    if "surface_inputs (rows, snaps) t" for day symbol px src sid t and f :: "surface \<Rightarrow> (market_runtime, surface option) run"
    using provider_rows_fail [OF assms(1,2), of day symbol px src sid] that
    by (auto simp: fails_def run_bind_def run_lift_def)
  note lifted = this
  let ?K = "surface_inputs (rows, snaps)"
  have drawn: "fails ?K (run_bind next_draw (\<lambda>n. run_bind (run_get (\<lambda>s. (mc_symbol (mr_config s), underlying_price (mr_latest_underlying s))))
       (\<lambda>(symbol, px). run_bind (run_lift (from_provider_rows rows reference day symbol px ''provider'' (me_uuid env n))) (f n)))) t"
    if "?K t" for day t and f :: "nat \<Rightarrow> surface \<Rightarrow> (market_runtime, surface option) run"
    by (rule fails_bind [OF surface_inputs_prims(1) _ that]) (simp add: fails_get lifted)
  have "fails ?K (run_bind (clock_trading_date env) (\<lambda>day. run_bind next_draw (\<lambda>n.
       run_bind (run_get (\<lambda>s. (mc_symbol (mr_config s), underlying_price (mr_latest_underlying s))))
       (\<lambda>(symbol, px). run_bind (run_lift (from_provider_rows rows reference day symbol px ''provider'' (me_uuid env n))) (f n))))) s"
    for f :: "nat \<Rightarrow> surface \<Rightarrow> (market_runtime, surface option) run"
    by (rule fails_bind [OF surface_inputs_clock(1) drawn assms(3)])
  then show ?thesis
    unfolding build_surface_def using rows by (intro fails_get) simp
qed

text \<open>
  Claim C33. One buffered option row that cannot be read makes the tick raise before any snapshot is taken, and the
  buffer keeps the row: every later tick at which the row is unreadable raises as well, until new option quotes
  replace the buffer.
\<close>

theorem unreadable_row_blocks_tick:
  assumes "r \<in> set (mr_pending_rows s)" "row_to_contract r reference = Inl e"
  shows "\<exists>err s'. market_tick env (Some reference) s = (Inl err, s') \<and> mr_pending_rows s' = mr_pending_rows s \<and>
    mr_snapshots s' = mr_snapshots s"
proof -
  let ?K = "surface_inputs (mr_pending_rows s, mr_snapshots s)"
  have K: "?K s" by (simp add: surface_inputs_def)
  have built: "fails ?K (run_bind (build_surface env reference) f) t" if "?K t"
    for t and f :: "surface option \<Rightarrow> (market_runtime, tick_result) run"
    by (rule fails_first [OF build_surface_fails [OF assms that]])
  have told: "fails ?K (run_bind (announce_bars env bars) (\<lambda>_. run_bind (build_surface env reference) f)) t" if "?K t"
    for t bars and f :: "surface option \<Rightarrow> (market_runtime, tick_result) run"
    by (rule fails_bind [OF surface_inputs_clock(2) built that])
  have shut: "fails ?K (run_bind (on_bars m) (\<lambda>bars. run_bind (announce_bars env bars)
      (\<lambda>_. run_bind (build_surface env reference) (f bars)))) s"
    for m and f :: "market_bar list \<Rightarrow> surface option \<Rightarrow> (market_runtime, tick_result) run"
    by (rule fails_bind [OF surface_inputs_prims(2) told K])
  have "fails ?K (market_tick env (Some reference)) s"
    unfolding market_tick_def tick_reference_def option.case
    by (simp add: shut)
  then show ?thesis by (auto simp: fails_def surface_inputs_def)
qed

section \<open>A concrete session\<close>

definition demo_env :: market_env where
  "demo_env = \<lparr>me_uuid = \<lambda>n. replicate n CHR ''x'', me_now = \<lambda>n. at_utc (62 * usec), me_utc = \<lambda>n. at_utc (62 * usec),
     me_time = at_utc, me_calendar = weekdays\<rparr>"

definition demo_quote_args :: quote_args where
  "demo_quote_args = \<lparr>qa_symbol = None, qa_bid = Some 499, qa_ask = Some 501, qa_last = None, qa_bid_size = None,
     qa_ask_size = None, qa_cumulative_volume = Some 10, qa_source_timestamp = Some (at_utc (50 * usec)),
     qa_received_timestamp = Some (at_utc (50 * usec)), qa_source = ''demo''\<rparr>"

definition demo_begin :: market_runtime where
  "demo_begin = new_market_runtime demo_env (new_builder 2) new_bus [] (Some []) (Some []) ''s1'' None"

definition demo_fed :: market_runtime where
  "demo_fed = snd (enqueue_quality_findings [mk_finding PARTIAL_OPTION_SURFACE SevError None]
     (snd (ingest_underlying_quote demo_env demo_quote_args None demo_begin)))"

definition demo_ticked :: "(py_error + tick_result) \<times> market_runtime" where
  "demo_ticked = market_tick demo_env (Some (at_utc (62 * usec))) demo_fed"

lemma demo_tick:
  obtains res s' m db where "market_tick demo_env (Some (at_utc (62 * usec))) demo_fed = (Inr res, s')"
    "tr_snapshot res = Some m" "mr_quality_repo s' = Some db" "s' = snd demo_ticked"
proof -
  have "case demo_ticked of (Inr res, s') \<Rightarrow> tr_snapshot res \<noteq> None \<and> mr_quality_repo s' \<noteq> None | _ \<Rightarrow> False"
    by code_simp
  then show ?thesis using that unfolding demo_ticked_def by (auto split: prod.splits sum.splits)
qed



lemma demo_market_run: "market_run demo_env outcome (snd demo_ticked) []"
  unfolding demo_ticked_def demo_fed_def demo_begin_def
  by (intro run_tick run_enqueue run_quote run_begin)

theorem snapshots_show_sound_bars_witness:
  "\<exists>m. mr_snapshots (snd demo_ticked) = [m] \<and> mk_bars_1m m \<noteq> [] \<and> list_all (\<lambda>b. mb_timeframe b = M1 \<and> market_bar_ok b) (mk_bars_1m m)"
proof -
  have "case mr_snapshots (snd demo_ticked) of [m] \<Rightarrow> (case mk_bars_1m m of [] \<Rightarrow> False | _ \<Rightarrow> True) | _ \<Rightarrow> False" by code_simp
  then obtain m where m: "mr_snapshots (snd demo_ticked) = [m]" "mk_bars_1m m \<noteq> []"
    by (auto split: list.splits)
  then have "m \<in> set (mr_snapshots (snd demo_ticked))" by simp
  from snapshots_show_sound_bars [OF demo_market_run this] m show ?thesis unfolding list_all_iff by blast
qed

theorem runtime_events_in_order_witness:
  "\<exists>queued :: domain_event list. length queued = 3 \<and> mr_source_event_ids (snd demo_ticked) = map de_event_id queued"
proof -
  have inj: "inj (me_uuid demo_env)" by (auto simp: demo_env_def inj_def)
  have "length (mr_source_event_ids (snd demo_ticked)) = 3" by code_simp
  moreover obtain queued :: "domain_event list" where "mr_source_event_ids (snd demo_ticked) = map de_event_id ([] @ queued)"
    using runtime_events_in_order [OF demo_market_run [of "\<lambda>_ _. Returned"] inj] by blast
  ultimately have "length queued = 3" "mr_source_event_ids (snd demo_ticked) = map de_event_id queued" by simp_all
  then show ?thesis by blast
qed

definition demo_bad_row :: row where
  "demo_bad_row = [(''contract_id'', PText ''c''), (''expiry'', PText ''soon''), (''strike'', PInt 500), (''option_type'', PText ''call'')]"

theorem unreadable_row_blocks_tick_witness:
  "\<exists>err s'. market_tick demo_env (Some (at_utc (62 * usec))) (demo_fed\<lparr>mr_pending_rows := [demo_bad_row]\<rparr>) = (Inl err, s') \<and>
     mr_pending_rows s' = [demo_bad_row]"
proof -
  have "case row_to_contract demo_bad_row (at_utc (62 * usec)) of Inl _ \<Rightarrow> True | Inr _ \<Rightarrow> False" by code_simp
  then obtain e where e: "row_to_contract demo_bad_row (at_utc (62 * usec)) = Inl e" by (auto split: sum.splits)
  have "demo_bad_row \<in> set (mr_pending_rows (demo_fed\<lparr>mr_pending_rows := [demo_bad_row]\<rparr>))" by simp
  from unreadable_row_blocks_tick [OF this e, of demo_env] show ?thesis by auto
qed

end
