(* ===== verification/Option_Feed.thy ===== *)
theory Option_Feed
  imports Option_Selector Market_Runtime
begin

text \<open>
  The option feed: contracts and snapshots (\<open>joker/schemas/options_data.py\<close>), OSI symbols
  (\<open>joker/data/webull_option_symbols.py\<close>), rate limit and cache (\<open>joker/data/options_rate_limit.py\<close>), the
  normalisation and validation of quotes (\<open>joker/data/options_normalizer.py\<close>) and the rows they become for the
  market runtime (\<open>joker/runtime/option_surface_ingest.py\<close>). A dictionary from the provider is a \<open>row\<close>; the
  monotonic clock is an argument. An \<open>OptionQuoteValidationError\<close> is \<open>OtherError\<close> with its code.
\<close>

section \<open>Contracts and snapshots\<close>

record option_metadata =
  om_underlying_symbol :: string
  om_expiration :: int
  om_strike :: pyfloat
  om_option_type :: option_type
  om_contract_id :: "string option"
  om_instrument_id :: "string option"
  om_source :: string

record field_availability =
  fa_bid :: bool
  fa_ask :: bool
  fa_mid :: bool
  fa_last :: bool
  fa_spread_pct :: bool
  fa_volume :: bool
  fa_open_interest :: bool
  fa_implied_volatility :: bool
  fa_delta :: bool
  fa_gamma :: bool
  fa_theta :: bool
  fa_vega :: bool
  fa_quote_timestamp :: bool
  fa_delayed :: bool
  fa_contract_id :: bool
  fa_instrument_id :: bool

definition unavailable_fields :: "field_availability \<Rightarrow> string list" where
  "unavailable_fields a =
     map snd (filter (\<lambda>x. \<not> fst x)
       [(fa_bid a, ''bid''), (fa_ask a, ''ask''), (fa_mid a, ''mid''), (fa_last a, ''last''), (fa_spread_pct a, ''spread_pct''),
        (fa_volume a, ''volume''), (fa_open_interest a, ''open_interest''), (fa_implied_volatility a, ''implied_volatility''),
        (fa_delta a, ''delta''), (fa_gamma a, ''gamma''), (fa_theta a, ''theta''), (fa_vega a, ''vega''),
        (fa_quote_timestamp a, ''quote_timestamp''), (fa_delayed a, ''delayed''), (fa_contract_id a, ''contract_id''),
        (fa_instrument_id a, ''instrument_id'')])"

record option_snapshot =
  os_contract :: option_metadata
  os_bid :: "pyfloat option"
  os_ask :: "pyfloat option"
  os_mid :: "pyfloat option"
  os_last :: "pyfloat option"
  os_spread_pct :: "pyfloat option"
  os_volume :: "int option"
  os_open_interest :: "int option"
  os_implied_volatility :: "pyfloat option"
  os_delta :: "pyfloat option"
  os_gamma :: "pyfloat option"
  os_theta :: "pyfloat option"
  os_vega :: "pyfloat option"
  os_quote_timestamp :: "datetime option"
  os_delayed :: "bool option"
  os_source :: string
  os_field_availability :: field_availability
  os_data_classification :: string
  os_persist_allowed :: bool
  os_openai_allowed :: bool
  os_is_synthetic :: bool

section \<open>OSI symbols\<close>

text \<open>\<open>strftime('%y%m%d')\<close>, \<open>round(x)\<close> and \<open>f"{n:08d}"\<close>\<close>

definition yymmdd :: "int \<Rightarrow> string" where
  "yymmdd d = (case civil_from_days d of (y, m, day) \<Rightarrow>
     pad_text 2 (nat (y mod 100)) @ pad_text 2 (nat m) @ pad_text 2 (nat day))"

definition round_int :: "pyfloat \<Rightarrow> int" where
  "round_int x = \<lfloor>round_half_even 0 x\<rfloor>"

definition zero_padded :: "nat \<Rightarrow> int \<Rightarrow> string" where
  "zero_padded w n = (if n < 0 then ''-'' @ pad_text (w - 1) (nat (- n)) else pad_text w (nat n))"

definition build_osi_symbol :: "string \<Rightarrow> int \<Rightarrow> pyfloat \<Rightarrow> string \<Rightarrow> py_error + string" where
  "build_osi_symbol underlying expiration strike otype =
     (if py_upper underlying \<noteq> ''SPY'' then Inl ValueError
      else let cp = (if py_lower otype \<in> {''call'', ''c''} then ''C'' else ''P'')
      in Inr (py_upper underlying @ yymmdd expiration @ cp @ zero_padded 8 (round_int (strike * 1000))))"

text \<open>\<open>date(y, m, d)\<close> and \<open>int(text)\<close>\<close>

definition make_date :: "int \<Rightarrow> int \<Rightarrow> int \<Rightarrow> py_error + int" where
  "make_date y m d = (if valid_civil y m d then Inr (days_from_civil y m d) else Inl ValueError)"

definition int_of_text :: "string \<Rightarrow> py_error + int" where
  "int_of_text t = (case parse_int t of None \<Rightarrow> Inl ValueError | Some n \<Rightarrow> Inr n)"

text \<open>\<open>symbol.split()[0]\<close> of a blank symbol is an \<open>IndexError\<close>; its value is not used otherwise.\<close>

definition parse_osi_symbol :: "string \<Rightarrow> py_error + (string \<times> int \<times> string \<times> pyfloat)" where
  "parse_osi_symbol symbol =
     (if take 3 symbol \<noteq> ''SPY'' \<and> \<not> nonblank symbol then Inl (OtherError ''IndexError'' [])
      else if take 3 symbol \<noteq> ''SPY'' \<or> length symbol < 15 then Inl ValueError
      else let exp_text = take 6 (drop 3 symbol)
      in sum_then (int_of_text (take 2 exp_text)) (\<lambda>y.
         sum_then (int_of_text (take 2 (drop 2 exp_text))) (\<lambda>m.
         sum_then (int_of_text (take 2 (drop 4 exp_text))) (\<lambda>d.
         sum_then (make_date (2000 + y) m d) (\<lambda>expiration.
         sum_then (int_of_text (drop 10 symbol)) (\<lambda>strike.
           Inr (take 3 symbol, expiration, if char_upper (symbol ! 9) = CHR ''C'' then ''call'' else ''put'', of_int strike / 1000)))))))"

definition metadata_from_osi :: "string \<Rightarrow> string option \<Rightarrow> py_error + option_metadata" where
  "metadata_from_osi symbol instrument =
     sum_then (parse_osi_symbol symbol) (\<lambda>(underlying, expiration, otype, strike).
       Inr \<lparr>om_underlying_symbol = underlying, om_expiration = expiration, om_strike = strike,
            om_option_type = (if otype = ''call'' then Call else Put), om_contract_id = Some symbol,
            om_instrument_id = instrument, om_source = ''webull_opra''\<rparr>)"

definition candidate_strikes_around :: "pyfloat \<Rightarrow> pyfloat \<Rightarrow> pyfloat list" where
  "candidate_strikes_around price step = (let base = of_int (round_int price) in [base - step, base, base + step])"

definition build_atm_candidate_symbols :: "string \<Rightarrow> int \<Rightarrow> pyfloat \<Rightarrow> py_error + option_metadata list" where
  "build_atm_candidate_symbols underlying expiration price =
     collect_sums (\<lambda>(strike, otype). sum_then (build_osi_symbol underlying expiration strike otype) (\<lambda>osi. metadata_from_osi osi None))
       (concat (map (\<lambda>k. [(k, ''call''), (k, ''put'')]) (candidate_strikes_around price 1)))"

section \<open>Rate limit and cache\<close>

record rate_limiter =
  rl_max_requests :: int
  rl_window_seconds :: pyfloat
  rl_timestamps :: "pyfloat list"

definition rate_limit_text :: "rate_limiter \<Rightarrow> string" where
  "rate_limit_text s =
     ''Rate limit exceeded: '' @ int_text (rl_max_requests s) @ '' requests per '' @ int_text (round_int (rl_window_seconds s)) @ ''s''"

definition acquire :: "pyfloat \<Rightarrow> (rate_limiter, unit) run" where
  "acquire now s =
     (let kept = filter (\<lambda>t. now - rl_window_seconds s < t) (rl_timestamps s); s1 = s\<lparr>rl_timestamps := kept\<rparr>
      in if rl_max_requests s \<le> int (length kept) then run_raise (OtherError ''RateLimitExceeded'' (rate_limit_text s)) s1
         else run_ret () (s1\<lparr>rl_timestamps := kept @ [now]\<rparr>))"

record 'a ttl_cache =
  ch_ttl_seconds :: pyfloat
  ch_entries :: "(string, pyfloat \<times> 'a) dict"

definition cache_get :: "pyfloat \<Rightarrow> string \<Rightarrow> 'a ttl_cache \<Rightarrow> 'a option \<times> 'a ttl_cache" where
  "cache_get now key c =
     (case dict_get (ch_entries c) key of
        None \<Rightarrow> (None, c)
      | Some (expires_at, value) \<Rightarrow>
          if expires_at < now then (None, c\<lparr>ch_entries := filter (\<lambda>kv. fst kv \<noteq> key) (ch_entries c)\<rparr>) else (Some value, c))"

definition cache_set :: "pyfloat \<Rightarrow> string \<Rightarrow> 'a \<Rightarrow> 'a ttl_cache \<Rightarrow> 'a ttl_cache" where
  "cache_set now key value c = c\<lparr>ch_entries := dict_set key (now + ch_ttl_seconds c, value) (ch_entries c)\<rparr>"

definition cache_clear :: "'a ttl_cache \<Rightarrow> 'a ttl_cache" where
  "cache_clear c = c\<lparr>ch_entries := []\<rparr>"

section \<open>Normalisation\<close>

definition quote_error :: "string \<Rightarrow> py_error + 'a" where
  "quote_error code = Inl (OtherError ''OptionQuoteValidationError'' code)"

text \<open>\<open>float(x)\<close> and \<open>int(x)\<close> of a value of the dictionary\<close>

fun float_of :: "py_value \<Rightarrow> py_error + pyfloat" where
  "float_of (PInt i) = Inr (of_int i)"
| "float_of (PNum x) = Inr x"
| "float_of (PBool b) = Inr (if b then 1 else 0)"
| "float_of (PText t) = (case parse_number t of None \<Rightarrow> Inl ValueError | Some x \<Rightarrow> Inr x)"
| "float_of _ = Inl (OtherError ''TypeError'' [])"

fun int_of :: "py_value \<Rightarrow> py_error + int" where
  "int_of (PInt i) = Inr i"
| "int_of (PNum x) = Inr (trunc_zero x)"
| "int_of (PBool b) = Inr (if b then 1 else 0)"
| "int_of (PText t) = int_of_text t"
| "int_of _ = Inl (OtherError ''TypeError'' [])"

text \<open>\<open>if v is not None: v = convert(v)\<close>\<close>

definition given :: "(py_value \<Rightarrow> py_error + 'a) \<Rightarrow> py_value \<Rightarrow> py_error + 'a option" where
  "given convert v = (if v = PNone then Inr None else sum_then (convert v) (\<lambda>x. Inr (Some x)))"

text \<open>\<open>_parse_ts\<close>: epoch seconds or milliseconds, rounded to microseconds, or an ISO text\<close>

definition from_epoch :: "rat \<Rightarrow> datetime" where
  "from_epoch ts = at_utc (round_int ((if 10 ^ 12 < ts then ts / 1000 else ts) * 1000000))"

fun parse_ts :: "py_value \<Rightarrow> py_error + datetime" where
  "parse_ts (PInt i) = Inr (from_epoch (of_int i))"
| "parse_ts (PNum x) = Inr (from_epoch x)"
| "parse_ts (PBool b) = Inr (from_epoch (if b then 1 else 0))"
| "parse_ts (PText t) =
     (case parse_datetime (concat (map (\<lambda>c. if c = CHR ''Z'' then ''+00:00'' else [c]) t)) of
        None \<Rightarrow> Inl ValueError
      | Some d \<Rightarrow> Inr (if dt_off d = None then d\<lparr>dt_off := Some 0\<rparr> else d))"
| "parse_ts _ = quote_error ''MISSING_TIMESTAMP''"

definition mid_of :: "pyfloat option \<Rightarrow> pyfloat option \<Rightarrow> pyfloat option" where
  "mid_of bid ask = (case (bid, ask) of (Some b, Some a) \<Rightarrow> Some ((b + a) / 2) | _ \<Rightarrow> None)"

definition spread_of :: "pyfloat option \<Rightarrow> pyfloat option \<Rightarrow> pyfloat option" where
  "spread_of bid ask =
     (case (bid, ask, mid_of bid ask) of
        (Some b, Some a, Some m) \<Rightarrow> if 0 < m then Some ((a - b) / m * 100) else None
      | _ \<Rightarrow> None)"

definition delayed_value :: "row \<Rightarrow> py_value" where
  "delayed_value data = (case dict_get data ''delayed'' of Some v \<Rightarrow> v | None \<Rightarrow> row_get data ''isDelayed'')"

definition option_id :: "string option \<Rightarrow> bool" where
  "option_id t = (case t of None \<Rightarrow> False | Some s \<Rightarrow> s \<noteq> [])"

text \<open>The snapshot of the converted values, built once all of them are read.\<close>

definition snapshot_with :: "option_metadata \<Rightarrow> row \<Rightarrow> pyfloat option \<Rightarrow> pyfloat option \<Rightarrow> pyfloat option \<Rightarrow> int option \<Rightarrow>
    int option \<Rightarrow> pyfloat option \<Rightarrow> pyfloat option list \<Rightarrow> datetime option \<Rightarrow> option_snapshot" where
  "snapshot_with contract data bid ask lst volume oi iv greeks ts =
     (let delayed = delayed_value data; spread = spread_of bid ask
      in \<lparr>os_contract = contract, os_bid = bid, os_ask = ask, os_mid = mid_of bid ask, os_last = lst, os_spread_pct = spread,
          os_volume = volume, os_open_interest = oi, os_implied_volatility = iv, os_delta = greeks ! 0, os_gamma = greeks ! 1,
          os_theta = greeks ! 2, os_vega = greeks ! 3, os_quote_timestamp = ts,
          os_delayed = (if delayed = PNone then None else Some (truthy delayed)), os_source = ''webull_opra'',
          os_field_availability =
            \<lparr>fa_bid = bid \<noteq> None, fa_ask = ask \<noteq> None, fa_mid = bid \<noteq> None \<and> ask \<noteq> None, fa_last = lst \<noteq> None,
             fa_spread_pct = spread \<noteq> None, fa_volume = volume \<noteq> None, fa_open_interest = oi \<noteq> None,
             fa_implied_volatility = iv \<noteq> None, fa_delta = greeks ! 0 \<noteq> None, fa_gamma = greeks ! 1 \<noteq> None,
             fa_theta = greeks ! 2 \<noteq> None, fa_vega = greeks ! 3 \<noteq> None, fa_quote_timestamp = ts \<noteq> None,
             fa_delayed = delayed \<noteq> PNone, fa_contract_id = option_id (om_contract_id contract),
             fa_instrument_id = option_id (om_instrument_id contract) \<or> truthy (row_get data ''instrument_id'')\<rparr>,
          os_data_classification = ''RAW_OPRA'', os_persist_allowed = False, os_openai_allowed = False, os_is_synthetic = False\<rparr>)"

definition normalize_webull_option_snapshot :: "option_metadata \<Rightarrow> row \<Rightarrow> py_error + option_snapshot" where
  "normalize_webull_option_snapshot contract data =
     sum_then (given float_of (row_get data ''bid'')) (\<lambda>bid.
     sum_then (given float_of (row_get data ''ask'')) (\<lambda>ask.
     sum_then (given float_of (or_else [row_get data ''last'', row_get data ''latestPrice''])) (\<lambda>lst.
     sum_then (given int_of (row_get data ''volume'')) (\<lambda>volume.
     sum_then (given int_of (or_else [row_get data ''openInterest'', row_get data ''open_interest''])) (\<lambda>oi.
     sum_then (given float_of (or_else [row_get data ''impliedVolatility'', row_get data ''imp_vol'', row_get data ''iv''])) (\<lambda>iv.
     sum_then (collect_sums (\<lambda>key. given float_of (row_get data key)) [''delta'', ''gamma'', ''theta'', ''vega'']) (\<lambda>greeks.
     sum_then (given parse_ts (or_else [row_get data ''quote_time'', row_get data ''timestamp'', row_get data ''quoteTime'',
                                        row_get data ''tradeTime''])) (\<lambda>ts.
       Inr (snapshot_with contract data bid ask lst volume oi iv greeks ts)))))))))"

lemma Inr_sym: "Inr a = Inr b \<Longrightarrow> b = a"
  by simp

lemma snapshot_with_contract [simp]: "os_contract (snapshot_with c data bid ask lst volume oi iv greeks ts) = c"
  by (simp add: snapshot_with_def Let_def)

lemma normalizedE:
  assumes "normalize_webull_option_snapshot contract data = Inr s"
  obtains bid ask lst volume oi iv greeks ts where
    "given float_of (row_get data ''bid'') = Inr bid" "given float_of (row_get data ''ask'') = Inr ask"
    "given int_of (or_else [row_get data ''openInterest'', row_get data ''open_interest'']) = Inr oi"
    "s = snapshot_with contract data bid ask lst volume oi iv greeks ts"
  using assms unfolding normalize_webull_option_snapshot_def by (elim sum_thenE) (rule that, assumption, assumption, assumption, erule Inr_sym)

lemma normalized_contract: "normalize_webull_option_snapshot contract data = Inr s \<Longrightarrow> os_contract s = contract"
  by (erule normalizedE) simp

section \<open>Validation\<close>

record tradable_limits =
  tl_max_spread_pct :: pyfloat
  tl_quote_max_age_seconds :: int
  tl_allow_delayed_quotes :: bool
  tl_feed_max_silence_seconds :: int
  tl_delayed_quote_max_age_seconds :: int

definition default_limits :: tradable_limits where
  "default_limits = \<lparr>tl_max_spread_pct = 15, tl_quote_max_age_seconds = 30, tl_allow_delayed_quotes = True,
     tl_feed_max_silence_seconds = 60, tl_delayed_quote_max_age_seconds = 900\<rparr>"

definition limits_freshness :: "tradable_limits \<Rightarrow> freshness_config" where
  "limits_freshness l =
     \<lparr>fc_quote_max_age_seconds = tl_quote_max_age_seconds l, fc_feed_max_silence_seconds = tl_feed_max_silence_seconds l,
      fc_delayed_quote_max_age_seconds = tl_delayed_quote_max_age_seconds l, fc_allow_delayed_quotes = tl_allow_delayed_quotes l\<rparr>"

definition positive :: "pyfloat option \<Rightarrow> bool" where
  "positive x = (case x of None \<Rightarrow> False | Some v \<Rightarrow> 0 < v)"

definition quote_verdict :: "option_snapshot \<Rightarrow> datetime \<Rightarrow> tradable_limits \<Rightarrow> datetime option \<Rightarrow> freshness_verdict" where
  "quote_verdict s reference l received =
     evaluate_quote_freshness (the (os_quote_timestamp s)) reference (os_delayed s = Some True) received (limits_freshness l)"

definition validate_tradable_snapshot ::
  "option_snapshot \<Rightarrow> datetime option \<Rightarrow> tradable_limits \<Rightarrow> datetime option \<Rightarrow> py_error + string list" where
  "validate_tradable_snapshot s reference l received =
     (if \<not> positive (os_bid s) then quote_error ''MISSING_BID''
      else if \<not> positive (os_ask s) then quote_error ''MISSING_ASK''
      else if os_quote_timestamp s = None then quote_error ''MISSING_TIMESTAMP''
      else if \<not> positive (os_mid s) then quote_error ''INVALID_MID''
      else if (case os_spread_pct s of None \<Rightarrow> False | Some p \<Rightarrow> tl_max_spread_pct l < p) then quote_error ''WIDE_SPREAD''
      else case reference of
             None \<Rightarrow> Inr (if os_delayed s = Some True then [''DELAYED''] else [])
           | Some now \<Rightarrow>
               let v = quote_verdict s now l received
               in if \<not> fv_ok v
                  then quote_error (case fv_reason v of None \<Rightarrow> ''STALE_QUOTE'' | Some r \<Rightarrow> if r = [] then ''STALE_QUOTE'' else r)
                  else Inr (if os_delayed s = Some True then [''DELAYED''] else []))"

definition synthetic_sources :: "string set" where
  "synthetic_sources = {''replay'', ''mock'', ''synthetic'', ''synthetic_option'', ''mock_option'', ''synthetic_replay''}"

definition snapshot_is_synthetic :: "option_snapshot \<Rightarrow> bool" where
  "snapshot_is_synthetic s \<longleftrightarrow> os_is_synthetic s \<or> os_source s \<in> synthetic_sources"

definition snapshot_to_quote_event :: "option_snapshot \<Rightarrow> datetime \<Rightarrow> py_error + quote_event" where
  "snapshot_to_quote_event s now =
     (case (os_bid s, os_ask s, os_mid s) of
        (Some bid, Some ask, Some mid) \<Rightarrow>
          (case os_quote_timestamp s of
             None \<Rightarrow> quote_error ''MISSING_TIMESTAMP''
           | Some ts \<Rightarrow>
               let c = os_contract s; synthetic = snapshot_is_synthetic s
               in if \<not> option_id (om_contract_id c) then quote_error ''MISSING_CONTRACT_ID''
                  else Inr \<lparr>qe_symbol = om_underlying_symbol c,
                            qe_source = (if synthetic then ''synthetic_option'' else os_source s),
                            qe_contract_id = the (om_contract_id c), qe_expiration = om_expiration c, qe_strike = om_strike c,
                            qe_option_type = om_option_type c, qe_bid = bid, qe_ask = ask, qe_mid = mid,
                            qe_spread_pct = (case os_spread_pct s of None \<Rightarrow> 0 | Some p \<Rightarrow> p), qe_quote_timestamp = ts,
                            qe_classification = (if synthetic then ''SYNTHETIC_DATA'' else ''RAW_OPRA''),
                            qe_persist_allowed = synthetic, qe_openai_allowed = synthetic, qe_is_synthetic = synthetic,
                            qe_delayed = (os_delayed s = Some True), qe_received_at = Some now\<rparr>)
      | _ \<Rightarrow> quote_error ''MISSING_BID_ASK'')"

section \<open>Rows for the market runtime\<close>

definition spy_or :: "string \<Rightarrow> string" where
  "spy_or s = (if s = [] then ''SPY'' else s)"

definition contract_of_snapshot :: "option_snapshot \<Rightarrow> int option \<Rightarrow> option_contract" where
  "contract_of_snapshot s trading_date =
     (let m = os_contract s
      in \<lparr>oc_symbol = spy_or (om_underlying_symbol m), oc_expiration = om_expiration m, oc_strike = om_strike m,
          oc_type = om_option_type m, oc_is_0dte = (trading_date = Some (om_expiration m))\<rparr>)"

definition opt_text :: "string option \<Rightarrow> py_value" where
  "opt_text v = (case v of None \<Rightarrow> PNone | Some x \<Rightarrow> PText x)"

definition opt_time :: "datetime option \<Rightarrow> py_value" where
  "opt_time v = (case v of None \<Rightarrow> PNone | Some x \<Rightarrow> PTime x)"

definition surface_row :: "option_snapshot \<Rightarrow> int option \<Rightarrow> row" where
  "surface_row s trading_date =
     (let m = os_contract s; c = contract_of_snapshot s trading_date
      in [(''contract_id'', PText (contract_id_for c)), (''symbol'', PText (oc_symbol c)), (''expiry'', PDate (om_expiration m)),
          (''strike'', PText (float_text (om_strike m))), (''option_type'', PText (option_type_text (om_option_type m))),
          (''bid'', opt_num (os_bid s)), (''ask'', opt_num (os_ask s)), (''last'', opt_num (os_last s)),
          (''volume'', opt_int (os_volume s)), (''open_interest'', opt_int (os_open_interest s)),
          (''implied_volatility'', opt_num (os_implied_volatility s)), (''delta'', opt_num (os_delta s)),
          (''gamma'', opt_num (os_gamma s)), (''theta'', opt_num (os_theta s)), (''vega'', opt_num (os_vega s)),
          (''quote_timestamp'', opt_time (os_quote_timestamp s)), (''source_contract_id'', opt_text (om_contract_id m)),
          (''is_0dte'', PBool (oc_is_0dte c))])"

text \<open>The constructor of the contract refuses one that does not expire on the trading date.\<close>

definition option_snapshot_to_surface_row :: "option_snapshot \<Rightarrow> int option \<Rightarrow> py_error + row" where
  "option_snapshot_to_surface_row s trading_date =
     (if oc_is_0dte (contract_of_snapshot s trading_date) then Inr (surface_row s trading_date) else Inl ValidationError)"

record conversion =
  cv_rows :: "row list"
  cv_input_count :: int
  cv_converted_count :: int
  cv_skipped :: int
  cv_failures :: "string list"

definition optional_text :: "string option \<Rightarrow> string" where
  "optional_text t = (case t of None \<Rightarrow> ''None'' | Some s \<Rightarrow> s)"

definition skip_reason :: "int option \<Rightarrow> option_snapshot \<Rightarrow> string option" where
  "skip_reason trading_date s =
     (let m = os_contract s
      in if (case trading_date of None \<Rightarrow> False | Some d \<Rightarrow> om_expiration m \<noteq> d)
         then Some (''skipped_expiry:'' @ optional_text (om_contract_id m) @ '':'' @ date_text (om_expiration m))
         else if py_upper (spy_or (om_underlying_symbol m)) \<noteq> ''SPY''
         then Some (''skipped_symbol:'' @ optional_text (om_contract_id m) @ '':'' @ om_underlying_symbol m)
         else None)"

text \<open>Why a snapshot gives no row, or its row; the text of a validation error is left out.\<close>

definition convert_one :: "int option \<Rightarrow> option_snapshot \<Rightarrow> string + row" where
  "convert_one trading_date s =
     (case skip_reason trading_date s of
        Some why \<Rightarrow> Inl why
      | None \<Rightarrow>
          (case option_snapshot_to_surface_row s trading_date of
             Inl e \<Rightarrow> Inl (''conversion:'' @ optional_text (om_contract_id (os_contract s)) @ '':'' @ exc_name e @ '':'')
           | Inr r \<Rightarrow> Inr r))"

definition convert_snapshots :: "option_snapshot list \<Rightarrow> int option \<Rightarrow> conversion" where
  "convert_snapshots snaps trading_date =
     (let outcomes = map (convert_one trading_date) snaps;
          rows = List.map_filter (\<lambda>x. case x of Inl _ \<Rightarrow> None | Inr r \<Rightarrow> Some r) outcomes
      in \<lparr>cv_rows = rows, cv_input_count = int (length snaps), cv_converted_count = int (length rows),
          cv_skipped = int (length (filter (\<lambda>s. skip_reason trading_date s \<noteq> None) snaps)),
          cv_failures = List.map_filter (\<lambda>x. case x of Inl why \<Rightarrow> Some why | Inr _ \<Rightarrow> None) outcomes\<rparr>)"

definition conversion_complete :: "conversion \<Rightarrow> bool" where
  "conversion_complete c \<longleftrightarrow> cv_failures c = [] \<and> cv_converted_count c = cv_input_count c"

definition conversion_findings :: "conversion \<Rightarrow> quality_finding list" where
  "conversion_findings c = (if conversion_complete c then [] else [mk_finding PARTIAL_OPTION_SURFACE SevError (Some ''SPY'')])"

definition filter_0dte_contracts :: "option_snapshot list \<Rightarrow> int \<Rightarrow> option_snapshot list" where
  "filter_0dte_contracts snaps trading_date =
     filter (\<lambda>s. py_upper (spy_or (om_underlying_symbol (os_contract s))) = ''SPY'' \<and> om_expiration (os_contract s) = trading_date) snaps"

section \<open>OSI symbols read back\<close>

lemma three_fields:
  assumes "length a = 2" "length b = 2" "length c = 2"
  shows "take 2 (a @ b @ c) = a" "take 2 (drop 2 (a @ b @ c)) = b" "take 2 (drop 4 (a @ b @ c)) = c"
  using assms by simp_all

lemma parse_pad_int: "parse_int (pad_text w n) = Some (int n)"
proof -
  have d: "list_all is_digit (pad_text w n)" and ne: "pad_text w n \<noteq> []" using pad_text_digits by blast+
  then have "\<forall>c \<in> set (pad_text w n). \<not> is_space c" using digit_not_space by (auto simp: list_all_iff)
  then have "py_strip (pad_text w n) = pad_text w n" by (rule strip_solid)
  moreover have "split_sign (pad_text w n) = (False, pad_text w n)"
  proof (cases "pad_text w n")
    case (Cons c r)
    then have "is_digit c" using d by simp
    then have "c \<noteq> CHR ''-''" "c \<noteq> CHR ''+''" by (auto simp: is_digit_def)
    then show ?thesis using Cons by (simp add: split_sign_def)
  qed (use ne in simp)
  ultimately show ?thesis by (simp add: parse_int_def)
qed

lemma round_int_of_int: "round_int (of_int k) = k"
  by (simp add: round_int_def round_half_even_def)

text \<open>
  The symbol of a contract that expires in this century at a strike of whole thousandths is read back to the
  underlying, the expiration, the type and the strike.
\<close>

theorem osi_round_trip:
  assumes "civil_from_days expiration = (y, m, d)" "2000 \<le> y" "y \<le> 2099" "strike * 1000 = of_int k" "0 \<le> k"
    "build_osi_symbol ''spy'' expiration strike (option_type_text t) = Inr symbol"
  shows "parse_osi_symbol symbol = Inr (''SPY'', expiration, option_type_text t, strike)"
proof -
  note civil = days_from_civil_inverse [OF assms(1)]
  have up: "py_upper ''spy'' = ''SPY''" by code_simp
  let ?cp = "if option_type_text t = ''call'' then ''C'' else ''P''"
  have low: "py_lower (option_type_text t) \<in> {''call'', ''c''} \<longleftrightarrow> option_type_text t = ''call''"
    by (cases t) (simp_all, code_simp+)
  have ms: "0 \<le> month_lengths y ! nat (m - 1) \<and> month_lengths y ! nat (m - 1) \<le> 31" using month_lengths_le [OF civil(2,3)] civil(4,5) by simp
  let ?y = "pad_text 2 (nat (y mod 100))" and ?m = "pad_text 2 (nat m)" and ?d = "pad_text 2 (nat d)"
  have len: "length ?y = 2" "length ?m = 2" "length ?d = 2"
    using civil ms by (intro length_pad_text; simp)+
  have sym: "symbol = ''SPY'' @ (?y @ ?m @ ?d) @ ?cp @ pad_text 8 (nat k)"
    using assms(5,6) up low by (simp add: build_osi_symbol_def yymmdd_def assms(1,4) round_int_of_int zero_padded_def)
  have strike8: "pad_text 8 (nat k) \<noteq> []" using pad_text_digits by blast
  have fields: "take 3 symbol = ''SPY''" "take 6 (drop 3 symbol) = ?y @ ?m @ ?d" "drop 10 symbol = pad_text 8 (nat k)"
    "[symbol ! 9] = ?cp"
    using len by (simp_all add: sym nth_append)
  have "15 \<le> length symbol"
  proof -
    have "8 \<le> length (pad_text 8 (nat k))" by (simp add: pad_text_def Let_def)
    then show ?thesis using len by (simp add: sym)
  qed
  moreover have "make_date (2000 + int (nat (y mod 100))) (int (nat m)) (int (nat d)) = Inr expiration"
  proof -
    have "2000 + y mod 100 = y" using assms(2,3) by presburger
    then show ?thesis using civil assms(2,3) by (simp add: make_date_def valid_civil_def)
  qed
  moreover have "char_upper (symbol ! 9) = CHR ''C'' \<longleftrightarrow> option_type_text t = ''call''"
    using fields(4) by (cases t) (simp_all, code_simp+)
  moreover have "of_int k / 1000 = strike" using assms(4) by simp
  ultimately show ?thesis
    using fields(1-3) three_fields [OF len] assms(5)
    by (cases t) (simp_all add: parse_osi_symbol_def int_of_text_def parse_pad_int sum_then_def)
qed

section \<open>The rate limit holds\<close>

text \<open>The times at which a sequence of requests is granted.\<close>

fun granted :: "pyfloat list \<Rightarrow> rate_limiter \<Rightarrow> pyfloat list" where
  "granted [] s = []"
| "granted (now # rest) s =
     (case acquire now s of (Inl e, s') \<Rightarrow> granted rest s' | (Inr u, s') \<Rightarrow> now # granted rest s')"

definition in_window :: "pyfloat \<Rightarrow> pyfloat \<Rightarrow> pyfloat list \<Rightarrow> nat" where
  "in_window w t xs = length (filter (\<lambda>x. t - w < x \<and> x \<le> t) xs)"

text \<open>
  The limiter holds the grants of the window before its last request, and no window holds more than the limit.
\<close>

definition limiter_inv :: "rate_limiter \<Rightarrow> pyfloat list \<Rightarrow> pyfloat \<Rightarrow> bool" where
  "limiter_inv s hist end_time \<longleftrightarrow>
     0 < rl_window_seconds s \<and>
     (\<exists>t0 \<le> end_time. rl_timestamps s = filter (\<lambda>x. t0 - rl_window_seconds s < x) hist) \<and>
     (\<forall>x \<in> set hist. x \<le> end_time) \<and> (\<forall>t. int (in_window (rl_window_seconds s) t hist) \<le> max 0 (rl_max_requests s))"

lemma filter_length_mono: "(\<And>x. P x \<Longrightarrow> Q x) \<Longrightarrow> length (filter P xs) \<le> length (filter Q xs)"
  by (induction xs) auto

definition grant_of :: "pyfloat \<Rightarrow> py_error + unit \<Rightarrow> pyfloat list" where
  "grant_of now r = (case r of Inl e \<Rightarrow> [] | Inr u \<Rightarrow> [now])"

lemma acquire_inv:
  assumes inv: "limiter_inv s hist end_time" and now: "end_time \<le> now" and run: "acquire now s = (r, s')"
  shows "limiter_inv s' (hist @ grant_of now r) now"
    "rl_max_requests s' = rl_max_requests s" "rl_window_seconds s' = rl_window_seconds s"
proof -
  let ?w = "rl_window_seconds s" and ?n = "rl_max_requests s"
  show same: "rl_max_requests s' = ?n" "rl_window_seconds s' = ?w"
    using run by (auto simp: acquire_def run_defs Let_def split: if_splits)
  obtain t0 where w: "0 < ?w" and t0: "t0 \<le> end_time" "rl_timestamps s = filter (\<lambda>x. t0 - ?w < x) hist"
    and hist: "\<forall>x \<in> set hist. x \<le> end_time" and cap: "\<forall>t. int (in_window ?w t hist) \<le> max 0 ?n"
    using inv unfolding limiter_inv_def by blast
  define kept where "kept = filter (\<lambda>t. now - ?w < t) (rl_timestamps s)"
  have kept: "kept = filter (\<lambda>x. now - ?w < x) hist"
    unfolding kept_def t0(2) filter_filter using t0(1) now by (intro filter_cong) auto
  have past: "\<forall>x \<in> set hist. x \<le> now" using hist now by force
  show "limiter_inv s' (hist @ grant_of now r) now"
  proof (cases "?n \<le> int (length kept)")
    case True
    then have "r = Inl (OtherError ''RateLimitExceeded'' (rate_limit_text s))" "rl_timestamps s' = kept"
      using run by (auto simp: acquire_def kept_def [symmetric] run_defs)
    then show ?thesis using w kept cap past same by (auto simp: limiter_inv_def grant_of_def)
  next
    case False
    then have r: "r = Inr ()" "rl_timestamps s' = kept @ [now]"
      using run by (auto simp: acquire_def kept_def [symmetric] run_defs Let_def)
    have "int (in_window ?w t (hist @ [now])) \<le> max 0 ?n" for t
    proof (cases "now \<le> t")
      case True
      have "length (filter (\<lambda>x. t - ?w < x \<and> x \<le> t) hist) \<le> length (filter (\<lambda>x. now - ?w < x) hist)"
        using True by (intro filter_length_mono) auto
      then have "in_window ?w t (hist @ [now]) \<le> length kept + 1" by (simp add: in_window_def kept)
      then show ?thesis using False by simp
    next
      case False
      then have "in_window ?w t (hist @ [now]) = in_window ?w t hist" by (simp add: in_window_def)
      then show ?thesis using cap by simp
    qed
    moreover have "kept @ [now] = filter (\<lambda>x. now - ?w < x) (hist @ [now])" using w kept by simp
    ultimately show ?thesis using w past same r by (auto simp: limiter_inv_def grant_of_def)
  qed
qed

lemma granted_inv:
  "limiter_inv s hist end_time \<Longrightarrow> sorted (end_time # stamps) \<Longrightarrow>
   (\<forall>t. int (in_window (rl_window_seconds s) t (hist @ granted stamps s)) \<le> max 0 (rl_max_requests s))"
proof (induction stamps arbitrary: s hist end_time)
  case Nil
  then show ?case by (simp add: limiter_inv_def)
next
  case (Cons now rest)
  obtain r s' where run: "acquire now s = (r, s')" by fastforce
  have now: "end_time \<le> now" "sorted (now # rest)" using Cons.prems(2) by simp_all
  note inv = acquire_inv [OF Cons.prems(1) now(1) run]
  have g: "granted (now # rest) s = grant_of now r @ granted rest s'"
    by (simp add: run grant_of_def split: sum.split)
  show ?case using Cons.IH [OF inv(1) now(2)] unfolding g inv(2,3) by simp
qed

text \<open>
  Claim C36. However requests come in time, no more than the limit of them are granted in any window of the limiter's
  length.
\<close>

theorem rate_limit_holds:
  assumes "0 < rl_window_seconds s" "rl_timestamps s = []" "sorted stamps"
  shows "int (in_window (rl_window_seconds s) t (granted stamps s)) \<le> max 0 (rl_max_requests s)"
proof (cases stamps)
  case (Cons first rest)
  have "limiter_inv s [] first" using assms(1,2) by (auto simp: limiter_inv_def in_window_def)
  from granted_inv [OF this, of stamps] show ?thesis using assms(3) Cons by simp
qed (simp add: in_window_def)

section \<open>What a normalised quote holds\<close>

lemma given_iff: "given f v = Inr x \<Longrightarrow> x = None \<longleftrightarrow> v = PNone"
  by (auto simp: given_def sum_then_def split: if_splits sum.splits)

text \<open>
  A normalised snapshot is well formed: each availability flag says whether its field is set, the mid is the
  mean of bid and ask exactly when both are set, the spread is set exactly when the mid is positive, and the
  snapshot is raw exchange data that may neither be persisted nor sent to the model provider.
\<close>

theorem normalized_snapshot_well_formed:
  assumes "normalize_webull_option_snapshot contract data = Inr s"
  shows "(let a = os_field_availability s in
      (fa_bid a \<longleftrightarrow> os_bid s \<noteq> None) \<and> (fa_ask a \<longleftrightarrow> os_ask s \<noteq> None) \<and> (fa_mid a \<longleftrightarrow> os_mid s \<noteq> None) \<and>
      (fa_spread_pct a \<longleftrightarrow> os_spread_pct s \<noteq> None) \<and> (fa_volume a \<longleftrightarrow> os_volume s \<noteq> None) \<and>
      (fa_open_interest a \<longleftrightarrow> os_open_interest s \<noteq> None) \<and> (fa_quote_timestamp a \<longleftrightarrow> os_quote_timestamp s \<noteq> None) \<and>
      (fa_delayed a \<longleftrightarrow> os_delayed s \<noteq> None)) \<and>
    os_mid s = mid_of (os_bid s) (os_ask s) \<and> (os_spread_pct s \<noteq> None \<longleftrightarrow> positive (os_mid s)) \<and>
    os_data_classification s = ''RAW_OPRA'' \<and> \<not> os_persist_allowed s \<and> \<not> os_openai_allowed s \<and> os_contract s = contract"
  by (rule normalizedE [OF assms])
     (simp add: snapshot_with_def Let_def mid_of_def spread_of_def positive_def split: option.splits)

text \<open>
  A field that the provider returned as zero, where two or more keys are tried for it, counts as absent: an
  open interest of zero is recorded as not available.
\<close>

theorem zero_open_interest_unavailable:
  assumes "normalize_webull_option_snapshot contract data = Inr s" "row_get data ''openInterest'' = PInt 0"
    "row_get data ''open_interest'' = PNone"
  shows "\<not> fa_open_interest (os_field_availability s) \<and> os_open_interest s = None"
  by (rule normalizedE [OF assms(1)]) (use assms(2,3) in \<open>simp add: snapshot_with_def Let_def given_def\<close>)


section \<open>From a snapshot to a row and back\<close>

text \<open>What \<open>a or b\<close> leaves of a number: zero is falsy.\<close>

definition unless_zero :: "'a::zero option \<Rightarrow> 'a option" where
  "unless_zero v = (if v = Some 0 then None else v)"

lemma read_number [simp]:
  "to_decimal (opt_num v) = v" "to_int (opt_int n) = n"
  "to_decimal (or_else [opt_num v, PNone]) = unless_zero v" "to_decimal (or_else [opt_num v, PNone, PNone]) = unless_zero v"
  "to_int (or_else [opt_int n, PNone]) = unless_zero n"
  by (auto simp: opt_num_def opt_int_def unless_zero_def split: option.splits)

lemma contract_id_solid:
  assumes "\<forall>ch \<in> set (oc_symbol c). \<not> is_space ch" "short_decimal (oc_strike c)"
  shows "\<forall>ch \<in> set (contract_id_for c). \<not> is_space ch"
proof -
  have "\<not> is_space ch" if "ch \<in> set (date_text z)" for ch z
  proof -
    have "is_digit ch \<or> ch = CHR ''-''"
      using that pad_text_digits(1) by (auto simp: date_text_def list_all_iff split: prod.splits)
    then show ?thesis using digit_not_space by (auto simp: is_space_def)
  qed
  moreover have "\<not> is_space ch" if "ch \<in> set (float_text (oc_strike c))" for ch
  proof -
    have "number_char ch" using parse_number_float_text(2) [OF assms(2)] that by blast
    then show ?thesis using digit_not_space by (auto simp: number_char_def is_space_def)
  qed
  moreover have "\<forall>ch \<in> set (option_type_text (oc_type c)). \<not> is_space ch" by (cases "oc_type c") (simp_all add: is_space_def)
  moreover have "\<not> is_space CHR '':''" by (simp add: is_space_def)
  ultimately show ?thesis using assms(1) by (auto simp: contract_id_for_def)
qed

definition surface_kind :: "option_type \<Rightarrow> surface_option_type" where
  "surface_kind t = (case t of Call \<Rightarrow> SCall | Put \<Rightarrow> SPut)"

text \<open>
  Claim C38. A converted snapshot of a SPY contract is read by the market runtime as the same contract: id, symbol,
  expiry, strike, type, bid, ask and volume are the snapshot's, the time is its quote time or else the exchange
  time, and only a last price, an open interest or a volatility of zero is lost.
\<close>

theorem converted_row_reads_back:
  assumes "om_underlying_symbol (os_contract s) = ''SPY''" "short_decimal (om_strike (os_contract s))"
    "pred_option (\<lambda>t. dt_off t \<noteq> None) (os_quote_timestamp s)"
    "option_snapshot_to_surface_row s day = Inr r"
  shows "\<exists>c. row_to_contract r now = Inr (Some c) \<and>
    cr_contract_id c = contract_id_for (contract_of_snapshot s day) \<and> cr_symbol c = ''SPY'' \<and>
    cr_expiry c = om_expiration (os_contract s) \<and> cr_strike c = om_strike (os_contract s) \<and>
    cr_option_type c = surface_kind (om_option_type (os_contract s)) \<and> cr_bid c = os_bid s \<and> cr_ask c = os_ask s \<and>
    cr_volume c = os_volume s \<and> cr_quote_timestamp c = (case os_quote_timestamp s of None \<Rightarrow> now | Some t \<Rightarrow> t) \<and>
    cr_last c = unless_zero (os_last s) \<and> cr_open_interest c = unless_zero (os_open_interest s) \<and>
    cr_implied_volatility c = unless_zero (os_implied_volatility s)"
proof -
  have r: "r = surface_row s day" using assms(4) by (simp add: option_snapshot_to_surface_row_def split: if_splits)
  let ?r = "surface_row s day" and ?c = "contract_of_snapshot s day" and ?m = "os_contract s"
  let ?t = "case os_quote_timestamp s of None \<Rightarrow> now | Some t \<Rightarrow> t"
  have sym: "oc_symbol ?c = ''SPY''" and strike: "oc_strike ?c = om_strike ?m"
    using assms(1) by (simp_all add: contract_of_snapshot_def spy_or_def Let_def)
  have "\<forall>ch \<in> set (oc_symbol ?c). \<not> is_space ch" unfolding sym by (simp add: is_space_def)
  then have "py_strip (contract_id_for ?c) = contract_id_for ?c"
    using assms(2) by (intro strip_solid contract_id_solid) (simp_all add: strike)
  moreover have "contract_id_for ?c \<noteq> []" by (simp add: contract_id_for_def)
  ultimately have cid: "py_strip (contract_id_for ?c) = contract_id_for ?c" "contract_id_for ?c \<noteq> []" by blast+
  have spy: "py_strip ''SPY'' = ''SPY''" by code_simp
  have price: "to_decimal (row_get ?r ''strike'') = Some (om_strike ?m)"
    using parse_number_float_text(1) [OF assms(2)] by (simp add: surface_row_def row_get_def Let_def)
  have kind: "row_option_type ?r = Some (surface_kind (om_option_type ?m))"
    by (cases "om_option_type ?m")
       (simp_all add: row_option_type_def surface_row_def row_get_def Let_def surface_kind_def, code_simp+)
  have stamp: "row_quote_time ?r now = Inr ?t"
    using assms(3) by (cases "os_quote_timestamp s")
      (simp_all add: row_quote_time_def surface_row_def row_get_def Let_def opt_time_def reject_naive_def)
  have ids: "row_get ?r ''contract_id'' = PText (contract_id_for ?c)" "row_get ?r ''symbol'' = PText ''SPY''"
    by (simp_all add: surface_row_def row_get_def Let_def sym)
  have expiry: "row_expiry ?r = Inr (Some (om_expiration ?m))"
    by (simp add: row_expiry_def surface_row_def row_get_def Let_def)
  have "row_to_contract ?r now =
      Inr (Some (fill_row ?r now (contract_id_for ?c) ''SPY'' (om_expiration ?m) (om_strike ?m) (surface_kind (om_option_type ?m)) ?t))"
    using cid spy by (simp add: row_to_contract_def price kind stamp expiry ids)
  moreover have "row_get ?r ''bid'' = opt_num (os_bid s)" "row_get ?r ''ask'' = opt_num (os_ask s)"
    "row_get ?r ''volume'' = opt_int (os_volume s)" "row_get ?r ''last'' = opt_num (os_last s)"
    "row_get ?r ''latestPrice'' = PNone" "row_get ?r ''open_interest'' = opt_int (os_open_interest s)"
    "row_get ?r ''openInterest'' = PNone" "row_get ?r ''implied_volatility'' = opt_num (os_implied_volatility s)"
    "row_get ?r ''impliedVolatility'' = PNone" "row_get ?r ''iv'' = PNone"
    by (simp_all add: surface_row_def row_get_def Let_def)
  ultimately show ?thesis unfolding r by (simp add: fill_row_def Let_def del: or_else.simps)
qed

text \<open>
  The conversion accounts for every snapshot: each gives a row or a recorded failure, the rows are those of the
  day's SPY contracts, in order, and the conversion is complete, with no finding, exactly when every snapshot is one of
  them. Without a trading date no snapshot is converted at all.
\<close>

theorem conversion_accounts:
  "(case date of
      Some day \<Rightarrow> cv_rows (convert_snapshots snaps date) = map (\<lambda>s. surface_row s date) (filter_0dte_contracts snaps day) \<and>
        (conversion_complete (convert_snapshots snaps date) \<longleftrightarrow> filter_0dte_contracts snaps day = snaps)
    | None \<Rightarrow> cv_rows (convert_snapshots snaps date) = []) \<and>
   length (cv_rows (convert_snapshots snaps date)) + length (cv_failures (convert_snapshots snaps date)) = length snaps \<and>
   (conversion_findings (convert_snapshots snaps date) = [] \<longleftrightarrow> conversion_complete (convert_snapshots snaps date))"
proof -
  have split: "length (List.map_filter (\<lambda>x. case x of Inl _ \<Rightarrow> None | Inr r \<Rightarrow> Some r) xs) +
      length (List.map_filter (\<lambda>x. case x of Inl why \<Rightarrow> Some why | Inr _ \<Rightarrow> None) xs) = length xs" for xs :: "(string + row) list"
    by (induction xs) (auto simp: map_filter_simps split: sum.split)
  have counted: "length (cv_rows (convert_snapshots snaps date)) + length (cv_failures (convert_snapshots snaps date)) = length snaps"
    unfolding convert_snapshots_def Let_def using split [of "map (convert_one date) snaps"] by simp
  have whole: "conversion_complete (convert_snapshots snaps date) \<longleftrightarrow> length (cv_rows (convert_snapshots snaps date)) = length snaps"
    using counted by (auto simp: conversion_complete_def convert_snapshots_def Let_def)
  have findings: "conversion_findings c = [] \<longleftrightarrow> conversion_complete c" for c by (simp add: conversion_findings_def)
  have rows: "cv_rows (convert_snapshots snaps (Some day)) = map (\<lambda>s. surface_row s (Some day)) (filter_0dte_contracts snaps day)" for day
    by (induction snaps)
       (simp_all add: convert_snapshots_def filter_0dte_contracts_def convert_one_def skip_reason_def option_snapshot_to_surface_row_def
          contract_of_snapshot_def map_filter_simps Let_def)
  have none: "cv_rows (convert_snapshots snaps None) = []"
    by (induction snaps)
       (simp_all add: convert_snapshots_def convert_one_def skip_reason_def option_snapshot_to_surface_row_def
          contract_of_snapshot_def map_filter_simps Let_def)
  have filter_len: "length (filter P xs) = length xs \<longleftrightarrow> filter P xs = xs" for P and xs :: "option_snapshot list"
    by (induction xs) (auto simp: le_imp_less_Suc dest: arg_cong [of _ _ length], metis Suc_n_not_le_n length_filter_le)
  have all: "length (filter_0dte_contracts snaps day) = length snaps \<longleftrightarrow> filter_0dte_contracts snaps day = snaps" for day
    unfolding filter_0dte_contracts_def using filter_len by blast
  show ?thesis
    by (cases date) (use counted findings whole rows none all in simp_all)
qed

section \<open>Witnesses\<close>

theorem osi_round_trip_witness:
  "build_osi_symbol ''spy'' 20000 (1 / 2) ''put'' = Inr ''SPY241004P00000500'' \<and>
   parse_osi_symbol ''SPY241004P00000500'' = Inr (''SPY'', 20000, ''put'', 1 / 2)"
proof -
  have b: "build_osi_symbol ''spy'' 20000 (1 / 2) (option_type_text Put) = Inr ''SPY241004P00000500''"
  proof -
    have "round_int (1 / 2 * 1000) = 500" using round_int_of_int [of 500] by simp
    moreover have "zero_padded 8 500 = ''00000500''" "yymmdd 20000 = ''241004''" "py_upper ''spy'' = ''SPY''"
      "py_lower ''put'' = ''put''"
      by code_simp+
    ultimately show ?thesis by (simp add: build_osi_symbol_def)
  qed
  have c: "civil_from_days 20000 = (2024, 10, 4)" by code_simp
  have "parse_osi_symbol ''SPY241004P00000500'' = Inr (''SPY'', 20000, option_type_text Put, 1 / 2)"
    by (rule osi_round_trip [OF c _ _ _ _ b, where k = 500]) simp_all
  then show ?thesis using b by simp
qed

definition demo_limiter :: rate_limiter where
  "demo_limiter = \<lparr>rl_max_requests = 2, rl_window_seconds = 10, rl_timestamps = []\<rparr>"

theorem rate_limit_holds_witness:
  "granted [0, 1, 2, 10, 11] demo_limiter = [0, 1, 10, 11] \<and> int (in_window 10 11 (granted [0, 1, 2, 10, 11] demo_limiter)) \<le> 2"
proof -
  have "granted [0, 1, 2, 10, 11] demo_limiter = [0, 1, 10, 11]" by code_simp
  moreover have "int (in_window (rl_window_seconds demo_limiter) 11 (granted [0, 1, 2, 10, 11] demo_limiter)) \<le>
      max 0 (rl_max_requests demo_limiter)"
    by (rule rate_limit_holds) (simp_all add: demo_limiter_def)
  ultimately show ?thesis by (simp add: demo_limiter_def)
qed

definition demo_meta :: option_metadata where
  "demo_meta = \<lparr>om_underlying_symbol = ''SPY'', om_expiration = 20000, om_strike = 500, om_option_type = Call,
     om_contract_id = Some ''SPY241004C00500000'', om_instrument_id = None, om_source = ''webull_opra''\<rparr>"

definition demo_data :: row where
  "demo_data = [(''bid'', PText ''1.20''), (''ask'', PNum (13 / 10)), (''volume'', PInt 7), (''openInterest'', PInt 0),
     (''timestamp'', PInt 1728050000)]"

definition demo_normalized :: option_snapshot where
  "demo_normalized = (case normalize_webull_option_snapshot demo_meta demo_data of Inr s \<Rightarrow> s)"

lemma demo_normalized: "normalize_webull_option_snapshot demo_meta demo_data = Inr demo_normalized"
proof -
  have "case normalize_webull_option_snapshot demo_meta demo_data of Inr _ \<Rightarrow> True | Inl _ \<Rightarrow> False" by code_simp
  then show ?thesis by (auto simp: demo_normalized_def split: sum.splits)
qed

theorem normalized_snapshot_well_formed_witness:
  "os_mid demo_normalized = Some (5 / 4) \<and> fa_mid (os_field_availability demo_normalized) \<and>
   \<not> os_persist_allowed demo_normalized"
proof -
  have "os_mid demo_normalized = Some (5 / 4)" by code_simp
  with normalized_snapshot_well_formed [OF demo_normalized] show ?thesis by (simp add: Let_def)
qed

theorem zero_open_interest_unavailable_witness:
  "dict_get demo_data ''openInterest'' = Some (PInt 0) \<and> os_open_interest demo_normalized = None"
proof -
  have "row_get demo_data ''openInterest'' = PInt 0" "row_get demo_data ''open_interest'' = PNone"
    "dict_get demo_data ''openInterest'' = Some (PInt 0)"
    by (simp_all add: demo_data_def row_get_def)
  with zero_open_interest_unavailable [OF demo_normalized] show ?thesis by simp
qed

theorem converted_row_reads_back_witness:
  "\<exists>r c. option_snapshot_to_surface_row demo_normalized (Some 20000) = Inr r \<and> row_to_contract r (at_utc 0) = Inr (Some c) \<and>
     cr_strike c = 500 \<and> cr_option_type c = SCall \<and> cr_bid c = Some (6 / 5)"
proof -
  note contract = normalized_contract [OF demo_normalized]
  have "os_bid demo_normalized = Some (6 / 5)" by code_simp
  moreover have stamp: "case os_quote_timestamp demo_normalized of None \<Rightarrow> True | Some t \<Rightarrow> dt_off t \<noteq> None" by code_simp
  then have "pred_option (\<lambda>t. dt_off t \<noteq> None) (os_quote_timestamp demo_normalized)" by (auto split: option.splits)
  moreover have "short_decimal 500" by (simp add: short_decimal_def)
  moreover have made: "option_snapshot_to_surface_row demo_normalized (Some 20000) = Inr (surface_row demo_normalized (Some 20000))"
    by (simp add: option_snapshot_to_surface_row_def contract_of_snapshot_def contract demo_meta_def)
  ultimately show ?thesis
    using converted_row_reads_back [of demo_normalized, OF _ _ _ made, of "at_utc 0"]
    by (auto simp: contract demo_meta_def surface_kind_def)
qed

end
