(* ===== verification/Options_Provider.thy ===== *)
theory Options_Provider
  imports Execution_Runtime Option_Feed
begin

text \<open>
  The options provider (\<open>joker/data/webull_options_provider.py\<close>) over the market-data API it is given
  (\<open>joker/data/webull_options_api.py\<close>): discovery with its cache, the choice of the contracts at the money, the fetch
  of the whole surface in batches with its accounting, and the events it makes of the snapshots. The API is a record of
  operations over a state of its own, with the HTTP client and the offline double as its two instances; the exchange over
  the network, the registry of verified endpoints and the clocks are parameters.
\<close>

definition api_error :: "string \<Rightarrow> py_error" where
  "api_error t = OtherError ''WebullApiError'' t"

definition unverified_error :: "string \<Rightarrow> py_error" where
  "unverified_error t = OtherError ''OptionEndpointUnverified'' t"

definition optional_or_empty :: "string option \<Rightarrow> string" where
  "optional_or_empty t = (case t of None \<Rightarrow> [] | Some s \<Rightarrow> s)"

section \<open>The market-data API\<close>

record 'a market_api =
  ap_authenticate :: "('a, bool) run"
  ap_find_contracts :: "string \<Rightarrow> int \<Rightarrow> ('a, option_metadata list) run"
  ap_snapshot :: "option_metadata \<Rightarrow> ('a, option_snapshot) run"
  ap_snapshots :: "option_metadata list \<Rightarrow> ('a, option_snapshot list) run"

definition ensure_spy :: "string \<Rightarrow> py_error + unit" where
  "ensure_spy symbol = (if py_upper symbol \<noteq> ''SPY'' then Inl (api_error ''Only SPY is supported'') else Inr ())"

definition resolve_osi_symbol :: "option_metadata \<Rightarrow> py_error + string" where
  "resolve_osi_symbol c =
     (let cid = optional_or_empty (om_contract_id c); instrument = optional_or_empty (om_instrument_id c)
      in if has_prefix ''SPY'' cid then Inr cid
         else if instrument \<noteq> [] then Inr instrument
         else if om_strike c \<noteq> 0
         then build_osi_symbol (om_underlying_symbol c) (om_expiration c) (om_strike c) (option_type_text (om_option_type c))
         else Inl (api_error ''Missing required identifier for option snapshot''))"

text \<open>A response body: a list, an object with its \<open>data\<close>, or anything else; an entry that is no object is \<open>None\<close>.\<close>

datatype body_data = Data_List "row option list" | Data_Object row | Data_Other

datatype response_body = Body_List "row option list" | Body_Object row body_data | Body_Other

fun parse_snapshot_rows :: "response_body \<Rightarrow> py_error + row list" where
  "parse_snapshot_rows (Body_List rows) = Inr (List.map_filter id rows)"
| "parse_snapshot_rows (Body_Object whole (Data_List rows)) = Inr (List.map_filter id rows)"
| "parse_snapshot_rows (Body_Object whole (Data_Object r)) = Inr [r]"
| "parse_snapshot_rows (Body_Object whole Data_Other) = Inr [whole]"
| "parse_snapshot_rows Body_Other = Inl (api_error ''Malformed option snapshot response'')"

subsection \<open>The HTTP client\<close>

text \<open>
  \<open>hv_legacy\<close>: the legacy sign-in, with the message of its failure; \<open>hv_request n symbols\<close>: the answer to request \<open>n\<close>.
\<close>

record http_env =
  hv_verified :: "string \<Rightarrow> bool"
  hv_token_configured :: bool
  hv_legacy :: "nat \<Rightarrow> string option"
  hv_request :: "nat \<Rightarrow> string \<Rightarrow> py_error + response_body"

record http_state =
  hs_token :: bool
  hs_requests :: nat

definition next_request :: "(http_state, nat) run" where
  "next_request s = run_ret (hs_requests s) (s\<lparr>hs_requests := Suc (hs_requests s)\<rparr>)"

definition http_sign_in :: "http_env \<Rightarrow> (http_state, string option) run" where
  "http_sign_in env =
     (if hv_token_configured env then run_bind (run_modify (\<lambda>s. s\<lparr>hs_token := True\<rparr>)) (\<lambda>_. run_ret None)
      else run_bind (run_get hs_token) (\<lambda>token. if token then run_ret None else run_bind next_request (\<lambda>n.
        case hv_legacy env n of
          None \<Rightarrow> run_bind (run_modify (\<lambda>s. s\<lparr>hs_token := True\<rparr>)) (\<lambda>_. run_ret None)
        | Some message \<Rightarrow> run_ret (Some message))))"

definition http_authenticate :: "http_env \<Rightarrow> (http_state, bool) run" where
  "http_authenticate env = run_bind (http_sign_in env) (\<lambda>failure. run_ret (failure = None))"

definition ensure_auth :: "http_env \<Rightarrow> (http_state, unit) run" where
  "ensure_auth env =
     run_bind (run_get hs_token) (\<lambda>token.
       if token then run_ret ()
       else run_bind (http_sign_in env) (\<lambda>failure.
         case failure of None \<Rightarrow> run_ret () | Some message \<Rightarrow> run_raise (api_error (''Auth failed: '' @ message))))"

definition require_verified :: "http_env \<Rightarrow> string \<Rightarrow> (http_state, unit) run" where
  "require_verified env name =
     (if hv_verified env name then run_ret () else run_raise (unverified_error (''Endpoint not verified: '' @ name)))"

definition http_request :: "http_env \<Rightarrow> string \<Rightarrow> (http_state, response_body) run" where
  "http_request env symbols = run_bind next_request (\<lambda>n. run_lift (hv_request env n symbols))"

text \<open>Even a verified chain endpoint ends in \<open>OptionEndpointUnverified\<close>.\<close>

definition http_find_contracts :: "http_env \<Rightarrow> string \<Rightarrow> int \<Rightarrow> (http_state, option_metadata list) run" where
  "http_find_contracts env symbol expiration =
     run_bind (run_lift (ensure_spy symbol)) (\<lambda>_.
     run_bind (require_verified env ''option_chain'') (\<lambda>_.
     run_bind (ensure_auth env) (\<lambda>_. run_raise (unverified_error ''Option chain endpoint not verified''))))"

definition text_or :: "py_value \<Rightarrow> string \<Rightarrow> string" where
  "text_or v d = (if truthy v then py_str v else d)"

definition merged_contract :: "option_metadata \<Rightarrow> row \<Rightarrow> string \<Rightarrow> option_metadata" where
  "merged_contract c data osi =
     c\<lparr>om_contract_id := Some (text_or (row_get data ''symbol'') osi),
       om_instrument_id := (let v = row_get data ''instrument_id'' in if truthy v then Some (py_str v) else om_instrument_id c)\<rparr>"

definition http_snapshot :: "http_env \<Rightarrow> option_metadata \<Rightarrow> (http_state, option_snapshot) run" where
  "http_snapshot env c =
     run_bind (run_lift (ensure_spy (om_underlying_symbol c))) (\<lambda>_.
     run_bind (require_verified env ''option_snapshot'') (\<lambda>_.
     run_bind (run_lift (resolve_osi_symbol c)) (\<lambda>osi.
     run_bind (ensure_auth env) (\<lambda>_.
     run_bind (http_request env osi) (\<lambda>body.
     run_bind (run_lift (parse_snapshot_rows body)) (\<lambda>rows.
       case rows of
         [] \<Rightarrow> run_raise (api_error ''Empty option snapshot response'')
       | data # _ \<Rightarrow> run_lift (normalize_webull_option_snapshot (merged_contract c data osi) data)))))))"

text \<open>\<open>{str(r.get("symbol")): r for r in rows if r.get("symbol")}\<close>\<close>

definition rows_by_symbol :: "row list \<Rightarrow> (string, row) dict" where
  "rows_by_symbol rows =
     fold (\<lambda>r d. dict_set (py_str (row_get r ''symbol'')) r d) (filter (\<lambda>r. truthy (row_get r ''symbol'')) rows) []"

definition snapshot_from_rows :: "(string, row) dict \<Rightarrow> option_metadata \<Rightarrow> py_error + option_snapshot" where
  "snapshot_from_rows by_symbol c =
     sum_then (resolve_osi_symbol c) (\<lambda>osi.
       case dict_get by_symbol osi of
         None \<Rightarrow> Inl (api_error (''No snapshot row for '' @ osi))
       | Some r \<Rightarrow> normalize_webull_option_snapshot (merged_contract c r osi) r)"

definition http_snapshots :: "http_env \<Rightarrow> option_metadata list \<Rightarrow> (http_state, option_snapshot list) run" where
  "http_snapshots env cs =
     (case cs of
        [] \<Rightarrow> run_ret []
      | [c] \<Rightarrow> run_bind (require_verified env ''option_snapshot'') (\<lambda>_. run_bind (http_snapshot env c) (\<lambda>s. run_ret [s]))
      | _ \<Rightarrow>
          run_bind (require_verified env ''option_snapshot'') (\<lambda>_.
          run_bind (run_lift (collect_sums resolve_osi_symbol (take 20 cs))) (\<lambda>symbols.
          run_bind (ensure_auth env) (\<lambda>_.
          run_bind (http_request env (join_text '','' symbols)) (\<lambda>body.
          run_bind (run_lift (parse_snapshot_rows body)) (\<lambda>rows.
            run_lift (collect_sums (snapshot_from_rows (rows_by_symbol rows)) (take 20 cs))))))))"

definition http_api :: "http_env \<Rightarrow> http_state market_api" where
  "http_api env =
     \<lparr>ap_authenticate = http_authenticate env, ap_find_contracts = http_find_contracts env, ap_snapshot = http_snapshot env,
      ap_snapshots = http_snapshots env\<rparr>"

subsection \<open>The offline double\<close>

record mock_state =
  mk_contracts :: "option_metadata list"
  mk_snapshots :: "(string, option_snapshot) dict"
  mk_auth_success :: bool
  mk_fail_discovery :: "py_error option"
  mk_rate_limit_after :: "int option"
  mk_snapshot_calls :: int

definition mock_find_contracts :: "string \<Rightarrow> int \<Rightarrow> (mock_state, option_metadata list) run" where
  "mock_find_contracts symbol expiration =
     run_bind (run_lift (ensure_spy symbol)) (\<lambda>_.
     run_bind (run_get mk_fail_discovery) (\<lambda>failure.
       case failure of
         Some e \<Rightarrow> run_raise e
       | None \<Rightarrow> run_get (\<lambda>s. filter (\<lambda>c. om_expiration c = expiration) (mk_contracts s))))"

definition mock_snapshot :: "option_metadata \<Rightarrow> (mock_state, option_snapshot) run" where
  "mock_snapshot c =
     run_bind (run_modify (\<lambda>s. s\<lparr>mk_snapshot_calls := mk_snapshot_calls s + 1\<rparr>)) (\<lambda>_.
     run_bind (run_get (\<lambda>s. case mk_rate_limit_after s of None \<Rightarrow> False | Some n \<Rightarrow> n < mk_snapshot_calls s)) (\<lambda>limited.
       if limited then run_raise (api_error ''Rate limit exceeded'')
       else run_bind (run_get (\<lambda>s. dict_get (mk_snapshots s) (optional_or_empty (om_contract_id c)))) (\<lambda>found.
         case found of
           None \<Rightarrow> run_raise (api_error (''No mock snapshot for '' @ optional_or_empty (om_contract_id c)))
         | Some s \<Rightarrow> run_ret s)))"

definition mock_snapshots :: "option_metadata list \<Rightarrow> (mock_state, option_snapshot list) run" where
  "mock_snapshots cs = run_for (\<lambda>c. run_bind (mock_snapshot c) (\<lambda>s. run_ret [s])) cs"

definition mock_api :: "mock_state market_api" where
  "mock_api = \<lparr>ap_authenticate = run_get mk_auth_success, ap_find_contracts = mock_find_contracts, ap_snapshot = mock_snapshot,
     ap_snapshots = mock_snapshots\<rparr>"


section \<open>The provider\<close>

record provider_env =
  pv_monotonic :: "nat \<Rightarrow> pyfloat"
  pv_today :: "nat \<Rightarrow> int"
  pv_utc :: "nat \<Rightarrow> datetime"

record 'a options_provider =
  op_api :: 'a
  op_max_spread_pct :: pyfloat
  op_quote_max_age_seconds :: int
  op_allow_delayed_quotes :: bool
  op_feed_max_silence_seconds :: int
  op_delayed_quote_max_age_seconds :: int
  op_verified :: bool
  op_contract_discovery_succeeded :: bool
  op_contract_cache :: "option_metadata list ttl_cache"
  op_snapshot_cache :: "option_snapshot ttl_cache"
  op_rate_limiter :: rate_limiter
  op_last_warnings :: "string list"
  op_reads :: nat

definition new_options_provider :: "'a \<Rightarrow> pyfloat \<Rightarrow> pyfloat \<Rightarrow> 'a options_provider" where
  "new_options_provider api contract_ttl snapshot_ttl =
     \<lparr>op_api = api, op_max_spread_pct = 15, op_quote_max_age_seconds = 30, op_allow_delayed_quotes = True,
      op_feed_max_silence_seconds = 60, op_delayed_quote_max_age_seconds = 900, op_verified = False,
      op_contract_discovery_succeeded = False, op_contract_cache = \<lparr>ch_ttl_seconds = contract_ttl, ch_entries = []\<rparr>,
      op_snapshot_cache = \<lparr>ch_ttl_seconds = snapshot_ttl, ch_entries = []\<rparr>,
      op_rate_limiter = \<lparr>rl_max_requests = 60, rl_window_seconds = 60, rl_timestamps = []\<rparr>, op_last_warnings = [],
      op_reads = 0\<rparr>"

text \<open>\<open>create_webull_options_provider\<close> with the limits of the risk settings\<close>

definition create_options_provider :: "'a \<Rightarrow> tradable_limits option \<Rightarrow> 'a options_provider" where
  "create_options_provider api risk =
     (let p = new_options_provider api 300 5
      in case risk of
           None \<Rightarrow> p
         | Some l \<Rightarrow> p\<lparr>op_max_spread_pct := tl_max_spread_pct l, op_quote_max_age_seconds := tl_quote_max_age_seconds l,
                       op_allow_delayed_quotes := tl_allow_delayed_quotes l,
                       op_feed_max_silence_seconds := tl_feed_max_silence_seconds l,
                       op_delayed_quote_max_age_seconds := tl_delayed_quote_max_age_seconds l\<rparr>)"

text \<open>A reading of a clock, and the parts of the provider as operations on it\<close>

definition next_read :: "('a options_provider, nat) run" where
  "next_read p = run_ret (op_reads p) (p\<lparr>op_reads := Suc (op_reads p)\<rparr>)"

definition on_api :: "('a, 'b) run \<Rightarrow> ('a options_provider, 'b) run" where
  "on_api m p = (case m (op_api p) of (r, a) \<Rightarrow> (r, p\<lparr>op_api := a\<rparr>))"

definition provider_acquire :: "provider_env \<Rightarrow> ('a options_provider, unit) run" where
  "provider_acquire env =
     run_bind next_read (\<lambda>n p. case acquire (pv_monotonic env n) (op_rate_limiter p) of (r, l) \<Rightarrow> (r, p\<lparr>op_rate_limiter := l\<rparr>))"

definition cached_contracts :: "provider_env \<Rightarrow> string \<Rightarrow> ('a options_provider, option_metadata list option) run" where
  "cached_contracts env key =
     run_bind next_read (\<lambda>n p. case cache_get (pv_monotonic env n) key (op_contract_cache p) of
        (hit, c) \<Rightarrow> (Inr hit, p\<lparr>op_contract_cache := c\<rparr>))"

definition store_contracts :: "provider_env \<Rightarrow> string \<Rightarrow> option_metadata list \<Rightarrow> ('a options_provider, unit) run" where
  "store_contracts env key cs =
     run_bind next_read (\<lambda>n. run_modify (\<lambda>p. p\<lparr>op_contract_cache := cache_set (pv_monotonic env n) key cs (op_contract_cache p)\<rparr>))"

definition cached_snapshot :: "provider_env \<Rightarrow> string \<Rightarrow> ('a options_provider, option_snapshot option) run" where
  "cached_snapshot env key =
     run_bind next_read (\<lambda>n p. case cache_get (pv_monotonic env n) key (op_snapshot_cache p) of
        (hit, c) \<Rightarrow> (Inr hit, p\<lparr>op_snapshot_cache := c\<rparr>))"

definition store_cached_snapshot :: "provider_env \<Rightarrow> string \<Rightarrow> option_snapshot \<Rightarrow> ('a options_provider, unit) run" where
  "store_cached_snapshot env key s =
     run_bind next_read (\<lambda>n. run_modify (\<lambda>p. p\<lparr>op_snapshot_cache := cache_set (pv_monotonic env n) key s (op_snapshot_cache p)\<rparr>))"

definition provider_authenticate :: "'a market_api \<Rightarrow> ('a options_provider, bool) run" where
  "provider_authenticate api = on_api (ap_authenticate api)"

definition expiration_or_today :: "provider_env \<Rightarrow> int option \<Rightarrow> ('a options_provider, int) run" where
  "expiration_or_today env expiration =
     (case expiration of Some d \<Rightarrow> run_ret d | None \<Rightarrow> run_bind next_read (\<lambda>n. run_ret (pv_today env n)))"

definition discover_contracts ::
  "provider_env \<Rightarrow> 'a market_api \<Rightarrow> string \<Rightarrow> int option \<Rightarrow> ('a options_provider, option_metadata list) run" where
  "discover_contracts env api symbol expiration =
     (if py_upper symbol \<noteq> ''SPY'' then run_raise (api_error (''Only SPY supported; got '' @ symbol))
      else run_bind (expiration_or_today env expiration) (\<lambda>day.
           let key = symbol @ '':'' @ date_text day
           in run_bind (cached_contracts env key) (\<lambda>cached.
              case cached of
                Some cs \<Rightarrow> run_ret cs
              | None \<Rightarrow>
                  run_bind (provider_acquire env) (\<lambda>_.
                  run_bind (on_api (ap_find_contracts api symbol day)) (\<lambda>cs.
                  run_bind (run_modify (\<lambda>p. p\<lparr>op_contract_discovery_succeeded := (cs \<noteq> [])\<rparr>)) (\<lambda>_.
                  run_bind (store_contracts env key cs) (\<lambda>_. run_ret cs)))))))"

definition discover_osi_candidates ::
  "provider_env \<Rightarrow> pyfloat \<Rightarrow> int option \<Rightarrow> ('a options_provider, option_metadata list) run" where
  "discover_osi_candidates env price expiration =
     run_bind (expiration_or_today env expiration) (\<lambda>day. run_lift (build_atm_candidate_symbols ''SPY'' day price))"

text \<open>\<open>try: discover_contracts ... except OptionEndpointUnverified: ...\<close>\<close>

definition discover_or_build ::
  "provider_env \<Rightarrow> 'a market_api \<Rightarrow> pyfloat \<Rightarrow> int \<Rightarrow> bool \<Rightarrow> ('a options_provider, option_metadata list) run" where
  "discover_or_build env api price day fallback =
     run_catch (discover_contracts env api ''SPY'' (Some day))
       (\<lambda>e. if exc_name e = ''OptionEndpointUnverified'' \<and> fallback then discover_osi_candidates env price (Some day)
            else run_raise e)"

section \<open>Contracts at the money\<close>

record atm_candidates =
  ac_expiration :: int
  ac_underlying_price :: pyfloat
  ac_atm_call :: "option_metadata option"
  ac_atm_put :: "option_metadata option"
  ac_otm_call :: "option_metadata option"
  ac_otm_put :: "option_metadata option"
  ac_itm_call :: "option_metadata option"
  ac_itm_put :: "option_metadata option"

definition by_distance :: "pyfloat \<Rightarrow> option_metadata list \<Rightarrow> option_metadata list" where
  "by_distance price cs = sort_key (\<lambda>c. \<bar>om_strike c - price\<bar>) cs"

definition first_of :: "'a list \<Rightarrow> 'a option" where
  "first_of xs = (case xs of [] \<Rightarrow> None | x # _ \<Rightarrow> Some x)"

definition beyond :: "(option_metadata \<Rightarrow> bool) \<Rightarrow> option_metadata list \<Rightarrow> option_metadata option" where
  "beyond p cs = (if 1 < length cs then find p cs else None)"

definition select_atm_candidates :: "option_metadata list \<Rightarrow> pyfloat \<Rightarrow> int \<Rightarrow> atm_candidates" where
  "select_atm_candidates contracts price expiration =
     (let calls = by_distance price (filter (\<lambda>c. om_option_type c = Call) contracts);
          puts = by_distance price (filter (\<lambda>c. om_option_type c = Put) contracts)
      in \<lparr>ac_expiration = expiration, ac_underlying_price = price, ac_atm_call = first_of calls, ac_atm_put = first_of puts,
          ac_otm_call = beyond (\<lambda>c. price < om_strike c) calls, ac_otm_put = beyond (\<lambda>c. om_strike c < price) puts,
          ac_itm_call = beyond (\<lambda>c. om_strike c < price) calls, ac_itm_put = beyond (\<lambda>c. price < om_strike c) puts\<rparr>)"

definition provider_snapshot ::
  "provider_env \<Rightarrow> 'a market_api \<Rightarrow> option_metadata \<Rightarrow> ('a options_provider, option_snapshot) run" where
  "provider_snapshot env api c =
     (let key = optional_or_empty (om_contract_id c)
      in if key = [] then run_raise (api_error ''Missing contract_id'')
         else run_bind (cached_snapshot env key) (\<lambda>cached.
           case cached of
             Some s \<Rightarrow> run_ret s
           | None \<Rightarrow>
               run_bind (run_catch (run_bind (provider_acquire env) (\<lambda>_. on_api (ap_snapshot api c)))
                  (\<lambda>e. if exc_name e = ''RateLimitExceeded'' then run_raise (api_error (exc_text e)) else run_raise e)) (\<lambda>s.
               run_bind (store_cached_snapshot env key s) (\<lambda>_. run_ret s))))"

definition snapshot_if_keyed ::
  "provider_env \<Rightarrow> 'a market_api \<Rightarrow> option_metadata option \<Rightarrow> ('a options_provider, option_snapshot option) run" where
  "snapshot_if_keyed env api c =
     (case c of
        Some c \<Rightarrow> if option_id (om_contract_id c) then run_bind (provider_snapshot env api c) (\<lambda>s. run_ret (Some s)) else run_ret None
      | None \<Rightarrow> run_ret None)"

definition fetch_atm_snapshots ::
  "provider_env \<Rightarrow> 'a market_api \<Rightarrow> pyfloat \<Rightarrow> int option \<Rightarrow> bool \<Rightarrow>
   ('a options_provider, option_snapshot option \<times> option_snapshot option) run" where
  "fetch_atm_snapshots env api price expiration fallback =
     run_bind (expiration_or_today env expiration) (\<lambda>day.
     run_bind (discover_or_build env api price day fallback) (\<lambda>contracts.
       if contracts = [] then run_ret (None, None)
       else let chosen = select_atm_candidates contracts price day
            in run_bind (snapshot_if_keyed env api (ac_atm_call chosen)) (\<lambda>call.
               run_bind (snapshot_if_keyed env api (ac_atm_put chosen)) (\<lambda>put. run_ret (call, put)))))"


section \<open>The whole surface\<close>

record surface_fetch =
  sh_snapshots :: "option_snapshot list"
  sh_discovered_count :: int
  sh_selected_count :: int
  sh_fetched_count :: int
  sh_failed_batches :: "string list"
  sh_emergency_truncated :: bool
  sh_complete :: bool
  sh_trading_date :: "int option"

definition surface_unavailable :: "surface_fetch \<Rightarrow> bool" where
  "surface_unavailable r \<longleftrightarrow>
     sh_selected_count r = 0 \<or> sh_fetched_count r = 0 \<or>
     (\<exists>b \<in> set (sh_failed_batches r). contains_text ''zero_'' b \<or> contains_text ''unavailable'' (py_lower b))"

definition fetch_findings :: "surface_fetch \<Rightarrow> quality_finding list" where
  "fetch_findings r =
     (if sh_failed_batches r \<noteq> [] \<or> sh_emergency_truncated r \<or> \<not> sh_complete r
      then [Data_Quality.mk_finding (if surface_unavailable r then OPTION_SURFACE_UNAVAILABLE else PARTIAL_OPTION_SURFACE) SevError (Some ''SPY'')]
      else [])"

definition symbol_of :: "option_metadata \<Rightarrow> string" where
  "symbol_of c = py_upper (spy_or (om_underlying_symbol c))"

definition eligible :: "int \<Rightarrow> option_metadata \<Rightarrow> bool" where
  "eligible day c \<longleftrightarrow> symbol_of c = ''SPY'' \<and> om_expiration c = day \<and> option_id (om_contract_id c)"

text \<open>\<open>range(0, len(selected), n)\<close> and the slices, each with its start.\<close>

function batches :: "nat \<Rightarrow> nat \<Rightarrow> 'a list \<Rightarrow> (nat \<times> 'a list) list" where
  "batches n start xs =
     (if xs = [] then [] else (start, take (max 1 n) xs) # batches n (start + max 1 n) (drop (max 1 n) xs))"
  by auto

termination by (relation "measure (\<lambda>(n, start, xs). length xs)") auto

declare batches.simps [simp del]

record batch_state =
  bt_complete :: bool
  bt_failed :: "string list"
  bt_snapshots :: "option_snapshot list"
  bt_seen :: "string list"

definition batch_label :: "nat \<Rightarrow> 'a list \<Rightarrow> string" where
  "batch_label start batch = ''batch['' @ nat_text start @ '':'' @ nat_text (start + length batch) @ '']''"

text \<open>The snapshots a batch returned, by id, and what is wrong with the others.\<close>

definition refusal :: "int \<Rightarrow> string list \<Rightarrow> (string, option_snapshot) dict \<Rightarrow> option_snapshot \<Rightarrow> string option" where
  "refusal day seen returned s =
     (let c = os_contract s; key = optional_or_empty (om_contract_id c)
      in if symbol_of c \<noteq> ''SPY'' then Some (''wrong_symbol='' @ symbol_of c)
         else if om_expiration c \<noteq> day then Some (''wrong_expiry='' @ date_text (om_expiration c))
         else if key = [] then Some ''missing_contract_id''
         else if dict_get returned key \<noteq> None \<or> key \<in> set seen then Some (''duplicate_contract_id='' @ key)
         else None)"

fun take_returned :: "string \<Rightarrow> int \<Rightarrow> string list \<Rightarrow> option_snapshot list \<Rightarrow> (string, option_snapshot) dict \<Rightarrow> string list \<Rightarrow>
    (string, option_snapshot) dict \<times> string list" where
  "take_returned label day seen [] returned failed = (returned, failed)"
| "take_returned label day seen (s # ss) returned failed =
     (case refusal day seen returned s of
        Some why \<Rightarrow> take_returned label day seen ss returned (failed @ [label @ '': '' @ why])
      | None \<Rightarrow> take_returned label day seen ss (dict_set (optional_or_empty (om_contract_id (os_contract s))) s returned) failed)"

definition requested_ids :: "option_metadata list \<Rightarrow> string list" where
  "requested_ids batch = filter (\<lambda>t. t \<noteq> []) (map (\<lambda>c. optional_or_empty (om_contract_id c)) batch)"

definition missing_text :: "string \<Rightarrow> string list \<Rightarrow> string list" where
  "missing_text label missing =
     (if missing = [] then []
      else [label @ '': missing_ids='' @ join_text '','' (take 8 missing) @ (if 8 < length missing then ''...'' else [])])"

definition run_batch ::
  "provider_env \<Rightarrow> 'a market_api \<Rightarrow> int \<Rightarrow> nat \<times> option_metadata list \<Rightarrow> batch_state \<Rightarrow> ('a options_provider, batch_state) run" where
  "run_batch env api day sb b =
     (case sb of (start, batch) \<Rightarrow>
        let label = batch_label start batch
        in run_catch
          (run_bind (provider_acquire env) (\<lambda>_.
           run_bind (on_api (ap_snapshots api batch)) (\<lambda>snaps.
             case take_returned label day (bt_seen b) snaps [] [] of (returned, refused) \<Rightarrow>
               run_bind (run_for (\<lambda>(key, s). run_bind (store_cached_snapshot env key s) (\<lambda>_. run_ret [()])) returned) (\<lambda>_.
                 let missing = filter (\<lambda>cid. dict_get returned cid = None) (requested_ids batch);
                     wrong = refused @ missing_text label missing
                 in run_ret (b\<lparr>bt_complete := bt_complete b \<and> wrong = [], bt_failed := bt_failed b @ wrong,
                               bt_seen := bt_seen b @ map fst returned,
                               bt_snapshots := bt_snapshots b @ dict_values returned\<rparr>)))))
          (\<lambda>e. run_ret (b\<lparr>bt_complete := False,
                         bt_failed := bt_failed b @ [label @ '': '' @ exc_name e @ '': '' @ exc_text e]\<rparr>)))"

fun run_batches ::
  "provider_env \<Rightarrow> 'a market_api \<Rightarrow> int \<Rightarrow> (nat \<times> option_metadata list) list \<Rightarrow> batch_state \<Rightarrow>
   ('a options_provider, batch_state) run" where
  "run_batches env api day [] b = run_ret b"
| "run_batches env api day (sb # rest) b = run_bind (run_batch env api day sb b) (\<lambda>b'. run_batches env api day rest b')"

text \<open>\<open>dict.fromkeys\<close>: each entry once, at its first place.\<close>

definition once_each :: "'a list \<Rightarrow> 'a list" where
  "once_each xs = rev (remdups (rev xs))"

definition fetch_result :: "int \<Rightarrow> int \<Rightarrow> int \<Rightarrow> bool \<Rightarrow> batch_state \<Rightarrow> surface_fetch" where
  "fetch_result day discovered selected truncated b =
     (let n = int (length (bt_snapshots b)); short = (n \<noteq> selected);
          failed = bt_failed b @
            (if short then [''fetched_count='' @ int_text n @ '' != selected_count='' @ int_text selected] else [])
      in \<lparr>sh_snapshots = bt_snapshots b, sh_discovered_count = discovered, sh_selected_count = selected, sh_fetched_count = n,
          sh_failed_batches = once_each failed, sh_emergency_truncated = truncated,
          sh_complete = (bt_complete b \<and> bt_failed b = [] \<and> \<not> short), sh_trading_date = Some day\<rparr>)"

definition empty_fetch :: "int \<Rightarrow> int \<Rightarrow> surface_fetch" where
  "empty_fetch day discovered =
     \<lparr>sh_snapshots = [], sh_discovered_count = discovered, sh_selected_count = 0, sh_fetched_count = 0,
      sh_failed_batches = [if discovered = 0 then ''zero_contracts_discovered'' else ''zero_eligible_spy_0dte_contracts''],
      sh_emergency_truncated = False, sh_complete = False, sh_trading_date = Some day\<rparr>"

text \<open>The contracts to fetch, and the message when the emergency limit cuts them; what is cut is never empty.\<close>

definition cut_selection :: "int option \<Rightarrow> option_metadata list \<Rightarrow> option_metadata list \<times> string list" where
  "cut_selection limit selected =
     (case limit of
        Some m \<Rightarrow> if 0 < m \<and> m < int (length selected)
                  then (take (nat m) selected, [''emergency_max_contracts='' @ int_text m @ '' truncated surface''])
                  else (selected, [])
      | None \<Rightarrow> (selected, []))"

definition fetch_surface_snapshots ::
  "provider_env \<Rightarrow> 'a market_api \<Rightarrow> pyfloat \<Rightarrow> int option \<Rightarrow> int option \<Rightarrow> int option \<Rightarrow> bool \<Rightarrow> int \<Rightarrow>
   ('a options_provider, surface_fetch) run" where
  "fetch_surface_snapshots env api price expiration trading_date limit fallback batch_size =
     run_bind (expiration_or_today env (case trading_date of Some d \<Rightarrow> Some d | None \<Rightarrow> expiration)) (\<lambda>day.
     run_bind (discover_or_build env api price day fallback) (\<lambda>contracts.
       case cut_selection limit (by_distance price (filter (eligible day) contracts)) of
         (selected, trimmed) \<Rightarrow>
           if selected = [] then run_ret (empty_fetch day (int (length contracts)))
           else run_bind (run_batches env api day (batches (nat (max 1 batch_size)) 0 selected)
                  \<lparr>bt_complete = (trimmed = []), bt_failed = trimmed, bt_snapshots = [], bt_seen = []\<rparr>) (\<lambda>b.
                run_ret (fetch_result day (int (length contracts)) (int (length selected)) (trimmed \<noteq> []) b))))"

section \<open>Events for the selector\<close>

definition provider_limits :: "'a options_provider \<Rightarrow> bool \<Rightarrow> int \<Rightarrow> int \<Rightarrow> tradable_limits" where
  "provider_limits p allow_delayed silence delayed_age =
     \<lparr>tl_max_spread_pct = op_max_spread_pct p, tl_quote_max_age_seconds = op_quote_max_age_seconds p,
      tl_allow_delayed_quotes = allow_delayed, tl_feed_max_silence_seconds = silence,
      tl_delayed_quote_max_age_seconds = delayed_age\<rparr>"

definition quote_event_of ::
  "provider_env \<Rightarrow> bool \<Rightarrow> tradable_limits \<Rightarrow> datetime \<Rightarrow> datetime \<Rightarrow> option_snapshot \<Rightarrow> ('a options_provider, quote_event list) run" where
  "quote_event_of env require_tradable l reference received s =
     run_bind (if require_tradable
        then run_bind (run_lift (validate_tradable_snapshot s (Some reference) l (Some received))) (\<lambda>warnings.
             run_modify (\<lambda>p. p\<lparr>op_last_warnings := op_last_warnings p @ warnings\<rparr>))
        else run_ret ()) (\<lambda>_.
     run_bind next_read (\<lambda>n.
     run_bind (run_lift (snapshot_to_quote_event s (pv_utc env n))) (\<lambda>e.
       run_ret [e\<lparr>qe_received_at := Some received\<rparr>])))"

definition to_quote_events ::
  "provider_env \<Rightarrow> option_snapshot list \<Rightarrow> bool \<Rightarrow> datetime option \<Rightarrow> bool \<Rightarrow> int \<Rightarrow> int \<Rightarrow>
   ('a options_provider, quote_event list) run" where
  "to_quote_events env snaps require_tradable reference allow_delayed silence delayed_age =
     run_bind (case reference of Some t \<Rightarrow> run_ret t | None \<Rightarrow> run_bind next_read (\<lambda>n. run_ret (pv_utc env n))) (\<lambda>t.
     run_bind next_read (\<lambda>n.
     run_bind (run_modify (\<lambda>p. p\<lparr>op_last_warnings := []\<rparr>)) (\<lambda>_.
     run_bind (run_get (\<lambda>p. provider_limits p allow_delayed silence delayed_age)) (\<lambda>l.
       run_for (quote_event_of env require_tradable l t (pv_utc env n)) snaps))))"

section \<open>The capability report\<close>

record capability_report =
  cb_contract_discovery :: bool
  cb_same_day_expiration :: bool
  cb_snapshot_bid_ask :: bool
  cb_volume :: bool
  cb_open_interest :: bool
  cb_implied_volatility :: bool
  cb_greeks :: bool
  cb_delayed_data :: "bool option"
  cb_verified :: bool
  cb_unavailable_fields :: "string list"

definition build_capability_report ::
  "option_snapshot option \<Rightarrow> option_snapshot option \<Rightarrow> bool \<Rightarrow> bool \<Rightarrow> bool \<Rightarrow> capability_report" where
  "build_capability_report call put discovery auth_pass same_day =
     (let snaps = List.map_filter id [call, put];
          bid_ask = list_all (\<lambda>s. os_bid s \<noteq> None \<and> os_ask s \<noteq> None) snaps;
          timestamps = list_all (\<lambda>s. os_quote_timestamp s \<noteq> None) snaps
      in if snaps = []
         then \<lparr>cb_contract_discovery = discovery, cb_same_day_expiration = False, cb_snapshot_bid_ask = False, cb_volume = False,
               cb_open_interest = False, cb_implied_volatility = False, cb_greeks = False, cb_delayed_data = None,
               cb_verified = False, cb_unavailable_fields = []\<rparr>
         else \<lparr>cb_contract_discovery = discovery, cb_same_day_expiration = same_day, cb_snapshot_bid_ask = bid_ask,
               cb_volume = list_ex (\<lambda>s. os_volume s \<noteq> None) snaps,
               cb_open_interest = list_ex (\<lambda>s. os_open_interest s \<noteq> None) snaps,
               cb_implied_volatility = list_ex (\<lambda>s. os_implied_volatility s \<noteq> None) snaps,
               cb_greeks = list_ex (\<lambda>s. os_delta s \<noteq> None \<or> os_gamma s \<noteq> None) snaps,
               cb_delayed_data = Some (list_ex (\<lambda>s. os_delayed s = Some True) snaps),
               cb_verified = (auth_pass \<and> same_day \<and> call \<noteq> None \<and> put \<noteq> None \<and> bid_ask \<and> timestamps),
               cb_unavailable_fields =
                 sort (remdups (concat (map (\<lambda>s. unavailable_fields (os_field_availability s)) snaps)))\<rparr>)"


section \<open>The accounting of a fetch\<close>

definition snapshot_key :: "option_snapshot \<Rightarrow> string" where
  "snapshot_key s = optional_or_empty (om_contract_id (os_contract s))"

lemma dict_set_fresh: "dict_get d k = None \<Longrightarrow> dict_set k v d = d @ [(k, v)]"
  by (induction d) (auto split: if_splits)

lemma batches_cover: "concat (map snd (batches n start xs)) = xs"
proof (induction n start xs rule: batches.induct)
  case (1 n start xs)
  then show ?case by (cases "xs = []") (simp_all add: batches.simps [of n start xs] batches.simps [of n start "[]"])
qed

text \<open>What the snapshots of a batch are filed under.\<close>

definition filed :: "int \<Rightarrow> string list \<Rightarrow> (string, option_snapshot) dict \<Rightarrow> bool" where
  "filed day seen returned \<longleftrightarrow>
     dict_ok returned \<and> set (map fst returned) \<inter> set seen = {} \<and>
     (\<forall>(k, s) \<in> set returned. eligible day (os_contract s) \<and> snapshot_key s = k)"

lemma accepted_eligible: "refusal day seen returned s = None \<Longrightarrow> eligible day (os_contract s)"
  by (auto simp: refusal_def eligible_def option_id_def optional_or_empty_def Let_def split: if_splits option.splits)

lemma take_returned_filed:
  "take_returned label day seen ss returned failed = (returned', failed') \<Longrightarrow> filed day seen returned \<Longrightarrow> filed day seen returned'"
proof (induction ss arbitrary: returned failed)
  case (Cons s ss)
  show ?case
  proof (cases "refusal day seen returned s")
    case None
    then have new: "dict_get returned (snapshot_key s) = None" "snapshot_key s \<notin> set seen"
      by (auto simp: refusal_def snapshot_key_def Let_def split: if_splits)
    have "filed day seen (dict_set (snapshot_key s) s returned)"
      using Cons.prems(2) new accepted_eligible [OF None]
      by (auto simp: filed_def dict_set_fresh map_of_eq_None_iff)
    with Cons.IH Cons.prems(1) None show ?thesis by (simp add: snapshot_key_def)
  next
    case (Some why)
    with Cons show ?thesis by simp
  qed
qed simp

text \<open>
  The state between batches: what was taken, and, while nothing went wrong, that every contract requested so far has
  its snapshot.
\<close>

definition batch_inv :: "int \<Rightarrow> string list \<Rightarrow> option_metadata list \<Rightarrow> batch_state \<Rightarrow> bool" where
  "batch_inv day pre asked b \<longleftrightarrow>
     (\<exists>more. bt_failed b = pre @ more) \<and>
     bt_seen b = map snapshot_key (bt_snapshots b) \<and> distinct (bt_seen b) \<and>
     (\<forall>s \<in> set (bt_snapshots b). eligible day (os_contract s)) \<and> (bt_complete b \<longleftrightarrow> bt_failed b = []) \<and>
     (bt_complete b \<longrightarrow> set (requested_ids asked) \<subseteq> set (bt_seen b))"

lemma filed_values: "filed day seen returned \<Longrightarrow> map snapshot_key (dict_values returned) = map fst returned"
  by (induction returned) (auto simp: filed_def)

lemma batch_inv_more:
  assumes inv: "batch_inv day pre asked b" and f: "filed day (bt_seen b) returned"
    and all: "wrong = [] \<Longrightarrow> set (requested_ids batch) \<subseteq> fst ` set returned"
  shows "batch_inv day pre (asked @ batch)
     (b\<lparr>bt_complete := bt_complete b \<and> wrong = [], bt_failed := bt_failed b @ wrong, bt_seen := bt_seen b @ map fst returned,
        bt_snapshots := bt_snapshots b @ dict_values returned\<rparr>)"
proof -
  have keys: "map snapshot_key (dict_values returned) = map fst returned" by (rule filed_values [OF f])
  have "set (requested_ids (asked @ batch)) = set (requested_ids asked) \<union> set (requested_ids batch)"
    by (auto simp: requested_ids_def)
  then show ?thesis
    using inv f all keys by (auto simp: batch_inv_def filed_def)
qed

lemma stores_return:
  "\<exists>u p'. run_for (\<lambda>(key, s). run_bind (store_cached_snapshot env key s) (\<lambda>_. run_ret [()])) ds p = (Inr u, p')"
proof (induction ds arbitrary: p)
  case (Cons d ds)
  obtain k s where d: "d = (k, s)" by fastforce
  obtain p1 where "store_cached_snapshot env k s p = (Inr (), p1)"
    by (simp add: store_cached_snapshot_def next_read_def run_bind_def run_defs)
  with Cons.IH [of p1] show ?case unfolding d by (auto simp: run_bind_def run_defs)
qed (simp add: run_defs)

text \<open>A batch never raises, and keeps the accounting.\<close>

lemma run_batch_inv:
  assumes inv: "batch_inv day pre asked b"
  shows "\<exists>b' p'. run_batch env api day (start, batch) b p = (Inr b', p') \<and> batch_inv day pre (asked @ batch) b'"
proof -
  let ?label = "batch_label start batch"
  have failed: "batch_inv day pre (asked @ batch) (b\<lparr>bt_complete := False, bt_failed := bt_failed b @ [t]\<rparr>)" for t
    using inv by (auto simp: batch_inv_def)
  obtain r1 p1 where r1: "provider_acquire env p = (r1, p1)" by fastforce
  show ?thesis
  proof (cases r1)
    case (Inl e)
    then show ?thesis using r1 failed by (simp add: run_batch_def Let_def run_catch_def run_bind_def run_defs)
  next
    case (Inr u)
    obtain r2 p2 where r2: "on_api (ap_snapshots api batch) p1 = (r2, p2)" by fastforce
    show ?thesis
    proof (cases r2)
      case (Inl e)
      then show ?thesis using r1 r2 Inr failed by (simp add: run_batch_def Let_def run_catch_def run_bind_def run_defs)
    next
      case (Inr snaps)
      obtain returned refused where taken: "take_returned ?label day (bt_seen b) snaps [] [] = (returned, refused)" by fastforce
      have f: "filed day (bt_seen b) returned" by (rule take_returned_filed [OF taken]) (simp add: filed_def)
      obtain v p3 where stored:
        "run_for (\<lambda>(key, s). run_bind (store_cached_snapshot env key s) (\<lambda>_. run_ret [()])) returned p2 = (Inr v, p3)"
        using stores_return by blast
      let ?missing = "filter (\<lambda>cid. dict_get returned cid = None) (requested_ids batch)"
      have covered: "set (requested_ids batch) \<subseteq> fst ` set returned" if "refused @ missing_text ?label ?missing = []"
        using that by (auto simp: missing_text_def filter_empty_conv map_of_eq_None_iff split: if_splits)
      note inv' = batch_inv_more [OF inv f, of "refused @ missing_text ?label ?missing" batch, OF covered]
      show ?thesis
        using inv' \<open>r1 = Inr u\<close> Inr r1 r2 taken stored
        by (simp add: run_batch_def Let_def run_catch_def run_bind_def run_defs)
    qed
  qed
qed

lemma run_batches_inv:
  "batch_inv day pre asked b \<Longrightarrow>
   \<exists>b' p'. run_batches env api day bs b p = (Inr b', p') \<and> batch_inv day pre (asked @ concat (map snd bs)) b'"
proof (induction bs arbitrary: asked b p)
  case (Cons sb bs)
  obtain start batch where sb: "sb = (start, batch)" by fastforce
  obtain b1 p1 where "run_batch env api day (start, batch) b p = (Inr b1, p1)" "batch_inv day pre (asked @ batch) b1"
    using run_batch_inv [OF Cons.prems] by blast
  with Cons.IH [of "asked @ batch" b1 p1] show ?case by (simp add: sb run_bind_def)
qed (simp add: run_defs)

text \<open>
  Claim C14. Once the contracts are discovered, the fetch of the surface returns, whatever the provider does: every snapshot
  it keeps is of a SPY contract of the day, no id comes twice, a finding is raised exactly when the fetch is not complete,
  and a complete fetch holds a snapshot of every discovered contract of the day that has an id, and as many snapshots as
  contracts.
\<close>

theorem surface_fetch_accounts:
  assumes "discover_or_build env api price day fallback p = (Inr contracts, q)"
  shows "\<exists>r p'. fetch_surface_snapshots env api price expiration (Some day) limit fallback n p = (Inr r, p') \<and>
    (\<forall>s \<in> set (sh_snapshots r). eligible day (os_contract s)) \<and> distinct (map snapshot_key (sh_snapshots r)) \<and>
    (fetch_findings r = [] \<longleftrightarrow> sh_complete r) \<and>
    (sh_complete r \<longrightarrow> sh_snapshots r \<noteq> [] \<and> length (sh_snapshots r) = length (filter (eligible day) contracts) \<and>
       (\<forall>c \<in> set contracts. eligible day c \<longrightarrow> optional_or_empty (om_contract_id c) \<in> snapshot_key ` set (sh_snapshots r)))"
proof -
  let ?wanted = "by_distance price (filter (eligible day) contracts)"
  have wanted: "set ?wanted = {c \<in> set contracts. eligible day c}" "length ?wanted = length (filter (eligible day) contracts)"
    by (simp_all add: by_distance_def)
  obtain selected trimmed where trim: "cut_selection limit ?wanted = (selected, trimmed)" by fastforce
  have full: "selected = ?wanted" if "trimmed = []"
    using trim that by (auto simp: cut_selection_def split: option.splits if_splits)
  show ?thesis
  proof (cases "selected = []")
    case True
    then show ?thesis
      using assms trim by (simp add: fetch_surface_snapshots_def expiration_or_today_def run_bind_def run_defs empty_fetch_def fetch_findings_def)
  next
    case False
    let ?b0 = "\<lparr>bt_complete = (trimmed = []), bt_failed = trimmed, bt_snapshots = [], bt_seen = []\<rparr>"
    have "batch_inv day trimmed [] ?b0" by (simp add: batch_inv_def requested_ids_def)
    from run_batches_inv [OF this, of env api "batches (nat (max 1 n)) 0 selected" q]
    obtain b p' where b: "run_batches env api day (batches (nat (max 1 n)) 0 selected) ?b0 q = (Inr b, p')"
      "batch_inv day trimmed selected b"
      by (auto simp: batches_cover)
    let ?r = "fetch_result day (int (length contracts)) (int (length selected)) (trimmed \<noteq> []) b"
    have run: "fetch_surface_snapshots env api price expiration (Some day) limit fallback n p = (Inr ?r, p')"
      using assms trim False b(1) by (simp add: fetch_surface_snapshots_def expiration_or_today_def run_bind_def run_defs)
    have seen: "\<forall>s \<in> set (sh_snapshots ?r). eligible day (os_contract s)" "distinct (map snapshot_key (sh_snapshots ?r))"
      using b(2) by (auto simp: batch_inv_def fetch_result_def Let_def)
    have sound: "sh_complete ?r \<longleftrightarrow> sh_failed_batches ?r = []" and untrimmed: "sh_complete ?r \<Longrightarrow> trimmed = []"
      using b(2) by (cases "int (length (bt_snapshots b)) = int (length selected)",
                     auto simp: batch_inv_def fetch_result_def Let_def once_each_def)
    have shortened: "sh_emergency_truncated ?r \<longleftrightarrow> trimmed \<noteq> []" by (simp add: fetch_result_def Let_def)
    have findings: "fetch_findings ?r = [] \<longleftrightarrow> sh_complete ?r"
      using sound untrimmed unfolding fetch_findings_def shortened by (cases "sh_complete ?r") simp_all
    have complete: "sh_complete ?r \<longrightarrow> sh_snapshots ?r \<noteq> [] \<and> length (sh_snapshots ?r) = length (filter (eligible day) contracts) \<and>
       (\<forall>c \<in> set contracts. eligible day c \<longrightarrow> optional_or_empty (om_contract_id c) \<in> snapshot_key ` set (sh_snapshots ?r))"
    proof
      assume whole: "sh_complete ?r"
      note all = full [OF untrimmed [OF whole]]
      have len: "length (sh_snapshots ?r) = length selected" and
        got: "set (requested_ids selected) \<subseteq> snapshot_key ` set (sh_snapshots ?r)"
        using b(2) whole by (auto simp: batch_inv_def fetch_result_def Let_def)
      have "optional_or_empty (om_contract_id c) \<in> snapshot_key ` set (sh_snapshots ?r)"
        if "c \<in> set contracts" "eligible day c" for c
      proof -
        have "optional_or_empty (om_contract_id c) \<in> set (requested_ids selected)"
          using that wanted(1) unfolding all
          by (auto simp: requested_ids_def eligible_def option_id_def optional_or_empty_def split: option.splits)
        then show ?thesis using got by blast
      qed
      moreover have "length (sh_snapshots ?r) = length (filter (eligible day) contracts)" using len wanted(2) unfolding all by (rule trans)
      moreover have "sh_snapshots ?r \<noteq> []" using len False by auto
      ultimately show "sh_snapshots ?r \<noteq> [] \<and> length (sh_snapshots ?r) = length (filter (eligible day) contracts) \<and>
        (\<forall>c \<in> set contracts. eligible day c \<longrightarrow> optional_or_empty (om_contract_id c) \<in> snapshot_key ` set (sh_snapshots ?r))"
        by blast
    qed
    show ?thesis by (intro exI [of _ ?r] exI [of _ p'] conjI run seen findings complete)
  qed
qed


section \<open>What the selector is given\<close>

lemma run_for_elements:
  "run_for f xs s = (Inr ys, s') \<Longrightarrow> y \<in> set ys \<Longrightarrow> \<exists>x t t' zs. x \<in> set xs \<and> f x t = (Inr zs, t') \<and> y \<in> set zs"
proof (induction xs arbitrary: s ys)
  case (Cons x xs)
  then obtain zs t rest t' where "f x s = (Inr zs, t)" "run_for f xs t = (Inr rest, t')" "ys = zs @ rest" "t' = s'"
    by (auto simp: run_bind_Inr run_defs)
  with Cons.IH [of t rest] Cons.prems(2) show ?case by fastforce
qed (simp add: run_defs)

lemma validated_snapshot:
  assumes "validate_tradable_snapshot s (Some now) l received = Inr ws"
  shows "positive (os_bid s)" "positive (os_ask s)" "fv_ok (quote_verdict s now l received)"
    "os_spread_pct s = Some x \<Longrightarrow> x \<le> tl_max_spread_pct l"
  using assms by (auto simp: validate_tradable_snapshot_def quote_error_def Let_def not_less split: if_splits option.splits)

lemma event_of_snapshot:
  assumes "snapshot_to_quote_event s now = Inr e"
  shows "os_bid s = Some (qe_bid e)" "os_ask s = Some (qe_ask e)" "os_quote_timestamp s = Some (qe_quote_timestamp e)"
    "qe_delayed e \<longleftrightarrow> os_delayed s = Some True" "qe_symbol e = om_underlying_symbol (os_contract s)"
    "qe_spread_pct e = (case os_spread_pct s of None \<Rightarrow> 0 | Some x \<Rightarrow> x)"
  using assms by (auto simp: snapshot_to_quote_event_def quote_error_def Let_def split: if_splits option.splits)

definition selector_matches :: "selector_config \<Rightarrow> tradable_limits \<Rightarrow> bool" where
  "selector_matches cfg l \<longleftrightarrow>
     selector_freshness cfg = limits_freshness l \<and> tl_max_spread_pct l \<le> sc_max_spread_pct cfg \<and> 0 \<le> sc_max_spread_pct cfg"

text \<open>
  Claim C39. An event the provider made of a snapshot it validated is one the selector accepts under the same limits, unless
  the premium of one contract is above the selector's budget: the two checks of spread and freshness agree.
\<close>

theorem validated_events_acceptable:
  assumes run: "to_quote_events env snaps True (Some now) allow silence age (p :: 'a options_provider) = (Inr es, p')"
    and e: "e \<in> set es" "qe_symbol e = sc_allowed_symbol cfg"
    and cfg: "selector_matches cfg (provider_limits p allow silence age)"
  shows "acceptable cfg e now \<longleftrightarrow> sc_soft_liquidity_advisory cfg \<or> \<not> too_expensive cfg e"
proof -
  let ?l = "provider_limits p allow silence age" and ?received = "pv_utc env (op_reads p)"
  let ?q = "p\<lparr>op_reads := Suc (op_reads p), op_last_warnings := []\<rparr>"
  have "run_for (quote_event_of env True ?l now ?received) snaps ?q = (Inr es, p')"
    using run by (simp add: to_quote_events_def next_read_def provider_limits_def run_bind_def run_defs)
  from run_for_elements [OF this e(1)] obtain s t t' zs where
    one: "quote_event_of env True ?l now ?received s (t :: 'a options_provider) = (Inr zs, t')" "e \<in> set zs" by blast
  then obtain ws n e0 where v: "validate_tradable_snapshot s (Some now) ?l (Some ?received) = Inr ws"
    and made: "snapshot_to_quote_event s (pv_utc env n) = Inr e0" and e0: "e = e0\<lparr>qe_received_at := Some ?received\<rparr>"
    by (auto simp: quote_event_of_def run_bind_Inr run_defs next_read_def)
  note ev = event_of_snapshot [OF made] and ok = validated_snapshot [OF v]
  have "event_verdict cfg e now = quote_verdict s now ?l (Some ?received)"
    using cfg ev e0 by (simp add: event_verdict_def quote_verdict_def selector_matches_def)
  moreover have "\<not> too_wide cfg e"
    using cfg ev e0 ok(4) by (auto simp: too_wide_def selector_matches_def split: option.splits)
  moreover have "0 < qe_bid e" "0 < qe_ask e" using ok(1,2) ev e0 by (simp_all add: positive_def)
  ultimately show ?thesis using e(2) ok(3) by (auto simp: acceptable_def)
qed

section \<open>Witnesses\<close>

definition demo_option :: "string \<Rightarrow> pyfloat \<Rightarrow> option_snapshot" where
  "demo_option cid strike =
     (let c = demo_meta\<lparr>om_contract_id := Some cid, om_strike := strike\<rparr>
      in snapshot_with c demo_data (Some (6 / 5)) (Some (13 / 10)) None (Some 7) None None (replicate 4 None) (Some (at_utc 0)))"

definition demo_feed :: mock_state where
  "demo_feed =
     \<lparr>mk_contracts = map (\<lambda>s. os_contract s) [demo_option ''a'' 500, demo_option ''b'' 501, demo_option ''c'' 502],
      mk_snapshots = [(''a'', demo_option ''a'' 500), (''b'', demo_option ''b'' 501), (''c'', demo_option ''c'' 502)],
      mk_auth_success = True, mk_fail_discovery = None, mk_rate_limit_after = None, mk_snapshot_calls = 0\<rparr>"

definition demo_provider_env :: provider_env where
  "demo_provider_env = \<lparr>pv_monotonic = of_nat, pv_today = \<lambda>_. 20000, pv_utc = \<lambda>_. at_utc 0\<rparr>"

definition demo_provider :: "mock_state options_provider" where
  "demo_provider = new_options_provider demo_feed 300 5"

theorem surface_fetch_accounts_witness:
  "\<exists>r p'. fetch_surface_snapshots demo_provider_env mock_api 501 None (Some 20000) None True 2 demo_provider = (Inr r, p') \<and>
     sh_complete r \<and> length (sh_snapshots r) = 3 \<and> fetch_findings r = []"
proof -
  let ?run = "fetch_surface_snapshots demo_provider_env mock_api 501 None (Some 20000) None True 2 demo_provider"
  have "case discover_or_build demo_provider_env mock_api 501 20000 True demo_provider of
      (Inr cs, q) \<Rightarrow> length (filter (eligible 20000) cs) = 3 | _ \<Rightarrow> False" by code_simp
  then obtain cs q where d: "discover_or_build demo_provider_env mock_api 501 20000 True demo_provider = (Inr cs, q)"
    "length (filter (eligible 20000) cs) = 3"
    by (auto split: prod.splits sum.splits)
  have "case ?run of (Inr r, p') \<Rightarrow> sh_complete r | _ \<Rightarrow> False" by code_simp
  moreover obtain r p' where r: "?run = (Inr r, p')" "fetch_findings r = [] \<longleftrightarrow> sh_complete r"
    "sh_complete r \<Longrightarrow> length (sh_snapshots r) = length (filter (eligible 20000) cs)"
    using surface_fetch_accounts [OF d(1), of None None 2] by blast
  ultimately show ?thesis using d(2) by simp
qed

definition demo_events_run :: "(py_error + quote_event list) \<times> mock_state options_provider" where
  "demo_events_run = to_quote_events demo_provider_env [demo_option ''a'' 500] True (Some (at_utc 0)) True 60 900 demo_provider"

definition demo_matching :: selector_config where
  "demo_matching = demo_selector\<lparr>sc_max_spread_pct := 15, sc_quote_max_age_seconds := 30, sc_feed_max_silence_seconds := 60,
     sc_delayed_quote_max_age_seconds := 900, sc_allow_delayed_quotes := True, sc_allowed_symbol := ''SPY''\<rparr>"

theorem validated_events_acceptable_witness:
  "case demo_events_run of
     (Inr [e], _) \<Rightarrow> (acceptable demo_matching e (at_utc 0) \<longleftrightarrow>
       sc_soft_liquidity_advisory demo_matching \<or> \<not> too_expensive demo_matching e)
   | _ \<Rightarrow> False"
proof -
  have "case demo_events_run of (Inr [e], _) \<Rightarrow> qe_symbol e = ''SPY'' | _ \<Rightarrow> False" by code_simp
  then obtain e p' where run: "demo_events_run = (Inr [e], p')" "qe_symbol e = ''SPY''"
    by (auto split: prod.splits sum.splits list.splits)
  have "selector_matches demo_matching (provider_limits demo_provider True 60 900)" by code_simp
  moreover have "sc_allowed_symbol demo_matching = ''SPY''" by (simp add: demo_matching_def)
  ultimately have "acceptable demo_matching e (at_utc 0) \<longleftrightarrow>
      sc_soft_liquidity_advisory demo_matching \<or> \<not> too_expensive demo_matching e"
    using validated_events_acceptable [OF run(1) [unfolded demo_events_run_def], of e demo_matching] run(2) by simp
  then show ?thesis unfolding run(1) by simp
qed

end
