(* ===== verification/Model_Router.thy ===== *)
theory Model_Router
  imports Option_Surface
begin

text \<open>
  The model layer of the cognitive agents: the durable record of model calls (\<open>joker/cognition/artifacts.py\<close>), the
  registry of profiles (\<open>joker/models/registry.py\<close>) and the router, with its schema repair and its escalation
  (\<open>joker/models/router.py\<close>). A provider is a parameter over a state of its own; the validation of an output is a
  parameter as well. The telemetry that is only logged and the semaphore of the event loop are left out. A
  \<open>ModelError\<close> is \<open>OtherError\<close> with the name of its class.
\<close>

section \<open>Records of model calls\<close>

datatype call_status = In_Progress | Call_Completed | Call_Failed

record model_call =
  ml_request_id :: uuid
  ml_idempotency_key :: string
  ml_session_id :: string
  ml_cycle_id :: string
  ml_snapshot_id :: uuid
  ml_agent_role :: string
  ml_prompt_id :: string
  ml_prompt_version :: string
  ml_provider :: "string option"
  ml_model :: "string option"
  ml_status :: call_status
  ml_attempt_count :: int
  ml_escalation_source :: "string option"
  ml_started_at :: datetime
  ml_finished_at :: "datetime option"
  ml_latency_ms :: "int option"
  ml_input_tokens :: "int option"
  ml_output_tokens :: "int option"
  ml_error_code :: "string option"
  ml_output_artifact_id :: "uuid option"
  ml_output_json :: "string option"

type_synonym call_table = "model_call list"

definition call_by_idempotency :: "string \<Rightarrow> call_table \<Rightarrow> model_call option" where
  "call_by_idempotency key t = find (\<lambda>c. ml_idempotency_key c = key) t"

definition call_by_id :: "uuid \<Rightarrow> call_table \<Rightarrow> model_call option" where
  "call_by_id rid t = find (\<lambda>c. ml_request_id c = rid) t"

definition call_error :: "string \<Rightarrow> py_error" where
  "call_error name = OtherError name []"

text \<open>\<open>append_model_call\<close>: a known idempotency key is reused; a known request id under another key is a conflict.\<close>

definition append_model_call :: "model_call \<Rightarrow> (call_table, uuid) run" where
  "append_model_call c t =
     (case call_by_idempotency (ml_idempotency_key c) t of
        Some prior \<Rightarrow> run_ret (ml_request_id prior) t
      | None \<Rightarrow> if call_by_id (ml_request_id c) t \<noteq> None then run_raise (call_error ''ArtifactConflictError'') t
                else run_ret (ml_request_id c) (t @ [c]))"

text \<open>\<open>UPDATE model_calls SET ... WHERE request_id = ?\<close>\<close>

definition update_model_call :: "model_call \<Rightarrow> call_table \<Rightarrow> call_table" where
  "update_model_call u t = map (\<lambda>c. if ml_request_id c = ml_request_id u then u else c) t"

definition or_prior :: "string option \<Rightarrow> string option \<Rightarrow> string option" where
  "or_prior v prior = (case v of Some t \<Rightarrow> if t \<noteq> [] then Some t else prior | None \<Rightarrow> prior)"

record call_outcome =
  cx_provider :: "string option"
  cx_model :: "string option"
  cx_latency_ms :: "int option"
  cx_input_tokens :: "int option"
  cx_output_tokens :: "int option"
  cx_output_artifact_id :: "uuid option"
  cx_output_json :: "string option"
  cx_finished_at :: datetime

definition completed_call :: "call_outcome \<Rightarrow> model_call \<Rightarrow> model_call" where
  "completed_call o' c =
     c\<lparr>ml_status := Call_Completed, ml_provider := or_prior (cx_provider o') (ml_provider c), ml_model := or_prior (cx_model o') (ml_model c),
       ml_latency_ms := cx_latency_ms o', ml_input_tokens := cx_input_tokens o', ml_output_tokens := cx_output_tokens o',
       ml_output_artifact_id := cx_output_artifact_id o', ml_output_json := or_prior (cx_output_json o') (ml_output_json c),
       ml_finished_at := Some (cx_finished_at o')\<rparr>"

definition mark_call_complete :: "uuid \<Rightarrow> call_outcome \<Rightarrow> (call_table, model_call) run" where
  "mark_call_complete rid o' t =
     (case call_by_id rid t of
        None \<Rightarrow> run_raise (call_error ''ModelCallNotFoundError'') t
      | Some c \<Rightarrow>
          (case ml_status c of
             Call_Completed \<Rightarrow> run_ret c t
           | Call_Failed \<Rightarrow> run_raise (call_error ''ModelCallStateError'') t
           | In_Progress \<Rightarrow> run_ret (completed_call o' c) (update_model_call (completed_call o' c) t)))"

definition failed_call :: "string \<Rightarrow> int option \<Rightarrow> datetime \<Rightarrow> model_call \<Rightarrow> model_call" where
  "failed_call code latency finished c =
     c\<lparr>ml_status := Call_Failed, ml_error_code := Some code, ml_latency_ms := latency, ml_finished_at := Some finished\<rparr>"

definition mark_call_failed :: "uuid \<Rightarrow> string \<Rightarrow> int option \<Rightarrow> datetime \<Rightarrow> (call_table, model_call) run" where
  "mark_call_failed rid code latency finished t =
     (case call_by_id rid t of
        None \<Rightarrow> run_raise (call_error ''ModelCallNotFoundError'') t
      | Some c \<Rightarrow>
          if ml_status c = Call_Completed then run_raise (call_error ''ModelCallStateError'') t
          else run_ret (failed_call code latency finished c) (update_model_call (failed_call code latency finished c) t))"

section \<open>Profiles\<close>

record model_profile =
  mf_provider :: string
  mf_model :: string
  mf_enabled :: bool
  mf_max_output_tokens :: int
  mf_temperature :: "pyfloat option"

record models_config =
  mg_profiles :: "(string, model_profile) dict"
  mg_openai_model :: "string option"
  mg_max_schema_repair_attempts :: int
  mg_max_provider_escalations :: int

definition local_profile :: "string \<Rightarrow> int \<Rightarrow> bool \<Rightarrow> model_profile" where
  "local_profile model tokens enabled =
     \<lparr>mf_provider = ''ollama'', mf_model = model, mf_enabled = enabled, mf_max_output_tokens = tokens, mf_temperature = None\<rparr>"

definition default_model_profiles :: "(string, model_profile) dict" where
  "default_model_profiles =
     [(''fast_structured'', local_profile ''qwen3.5:9b'' 800 True), (''general_reasoning'', local_profile ''gemma4:12b'' 1200 True),
      (''independent_critic'', local_profile ''ministral-3:14b'' 1200 True), (''deep_local'', local_profile ''gemma4:26b'' 1500 False),
      (''remote_escalation'', \<lparr>mf_provider = ''openai'', mf_model = ''${OPENAI_MODEL}'', mf_enabled = True,
         mf_max_output_tokens = 1500, mf_temperature = None\<rparr>)]"

text \<open>\<open>mg_openai_model\<close> is the value of the environment variable of the OpenAI model.\<close>

definition default_models_config :: models_config where
  "default_models_config = \<lparr>mg_profiles = default_model_profiles, mg_openai_model = None, mg_max_schema_repair_attempts = 1,
     mg_max_provider_escalations = 1\<rparr>"

definition configuration_error :: "py_error + 'a" where
  "configuration_error = Inl (OtherError ''ModelConfigurationError'' [])"

definition get_profile :: "models_config \<Rightarrow> string \<Rightarrow> py_error + model_profile" where
  "get_profile cfg name = (case dict_get (mg_profiles cfg) name of None \<Rightarrow> configuration_error | Some p \<Rightarrow> Inr p)"

definition resolve_model_name :: "models_config \<Rightarrow> model_profile \<Rightarrow> py_error + string" where
  "resolve_model_name cfg p =
     (if mf_model p = ''${OPENAI_MODEL}''
      then (case mg_openai_model cfg of
              None \<Rightarrow> configuration_error
            | Some v \<Rightarrow> if py_strip v = [] then configuration_error else Inr (py_strip v))
      else Inr (mf_model p))"

definition provider_for_profile :: "models_config \<Rightarrow> string list \<Rightarrow> string \<Rightarrow> py_error + (string \<times> model_profile \<times> string)" where
  "provider_for_profile cfg providers name =
     sum_then (get_profile cfg name) (\<lambda>p.
       if \<not> mf_enabled p then configuration_error
       else if mf_provider p \<notin> set providers then configuration_error
       else sum_then (resolve_model_name cfg p) (\<lambda>model. Inr (mf_provider p, p, model)))"

section \<open>Requests and results\<close>

record model_request =
  mq_request_id :: uuid
  mq_idempotency_key :: string
  mq_role :: string
  mq_prompt_id :: string
  mq_prompt_version :: string
  mq_model_profile :: string
  mq_context_payload :: row
  mq_timeout_seconds :: pyfloat
  mq_max_output_tokens :: int
  mq_temperature :: "pyfloat option"
  mq_snapshot_id :: uuid
  mq_cycle_id :: string

record 'o model_result =
  mv_request_id :: uuid
  mv_provider_name :: string
  mv_model_name :: string
  mv_output :: 'o
  mv_prompt_version :: string
  mv_input_tokens :: "int option"
  mv_output_tokens :: "int option"
  mv_latency_ms :: int
  mv_attempt_count :: int
  mv_escalated_from :: "string option"
  mv_completed_at :: datetime


section \<open>The router\<close>

record ('p, 'o) router_env =
  rv_complete :: "string \<Rightarrow> model_request \<Rightarrow> ('p, 'o model_result) run"
  rv_dump :: "'o \<Rightarrow> string"
  rv_load :: "string \<Rightarrow> 'o option"
  rv_now :: "nat \<Rightarrow> datetime"
  rv_config :: models_config
  rv_providers :: "string list"
  rv_max_schema_repair :: int
  rv_max_escalations :: int

record routing_entry =
  rt_request_id :: uuid
  rt_agent_role :: string
  rt_selected_profile :: string
  rt_reason_code :: string
  rt_independence_degraded :: bool

record 'p router =
  ro_providers :: 'p
  ro_calls :: "call_table option"
  ro_session_id :: "string option"
  ro_routing_logs :: "routing_entry list"
  ro_reads :: nat

definition fast_structured_roles :: "string set" where
  "fast_structured_roles = {''anomaly'', ''temporal_context''}"

definition critic_roles :: "string set" where
  "critic_roles = {''strategy_advocate'', ''falsifier'', ''historical_critic'', ''execution_critic'', ''alternative_explanation''}"

definition deep_local_roles :: "string set" where
  "deep_local_roles = {''meta_decision'', ''entry_tactician'', ''order_manager'', ''position_thesis'', ''position_decision''}"

definition inventor_roles :: "string set" where
  "inventor_roles = {''bullish_inventor'', ''bearish_inventor'', ''neutral_advocate''}"

definition agent_roles :: "string set" where
  "agent_roles =
     {''market_structure'', ''volatility'', ''options_microstructure'', ''temporal_context'', ''anomaly'', ''pattern_miner'',
      ''sequence_analyst'', ''analogy_retriever'', ''bullish_inventor'', ''bearish_inventor'', ''neutral_advocate'',
      ''strategy_advocate'', ''falsifier'', ''historical_critic'', ''execution_critic'', ''alternative_explanation'',
      ''world_model_synthesiser'', ''meta_decision'', ''entry_tactician'', ''order_manager'', ''position_thesis'',
      ''position_decision''}"

text \<open>\<open>role.endswith(t)\<close>\<close>

definition has_suffix :: "string \<Rightarrow> string \<Rightarrow> bool" where
  "has_suffix t s = has_prefix (rev t) (rev s)"

text \<open>The profile, the reason, and whether the critic shares the profile of the inventor it judges.\<close>

definition select_profile ::
  "models_config \<Rightarrow> model_request \<Rightarrow> string option \<Rightarrow> bool \<Rightarrow> py_error + (string \<times> string \<times> bool)" where
  "select_profile cfg rq forced escalate =
     (let role = mq_role rq; payload = mq_context_payload rq
      in if (case forced of None \<Rightarrow> False | Some f \<Rightarrow> f \<noteq> []) then Inr (the forced, ''forced_profile'', False)
      else if escalate \<or> truthy (row_get payload ''escalate'') then Inr (''remote_escalation'', ''explicit_escalation'', False)
      else if dict_get (mg_profiles cfg) (mq_model_profile rq) \<noteq> None
      then Inr (mq_model_profile rq, ''request_profile_override'', False)
      else if role \<in> critic_roles
      then Inr (''independent_critic'', ''critic_independence'', row_get payload ''inventor_profile'' = PText ''independent_critic'')
      else if role \<in> deep_local_roles
      then sum_then (get_profile cfg ''deep_local'') (\<lambda>p.
             Inr (if mf_enabled p then (''deep_local'', ''deep_local_arbitration'', False)
                  else (''general_reasoning'', ''deep_local_disabled'', False)))
      else if role \<in> fast_structured_roles then Inr (''fast_structured'', ''fast_extraction'', False)
      else if role \<in> inventor_roles \<or> has_prefix ''pattern_'' role \<or> has_suffix ''_analyst'' role
      then Inr (''general_reasoning'', ''general_reasoning'', False)
      else Inr (''general_reasoning'', ''default_general_reasoning'', False))"

definition record_routing :: "model_request \<Rightarrow> string \<Rightarrow> string \<Rightarrow> bool \<Rightarrow> ('p router, unit) run" where
  "record_routing rq profile reason degraded =
     run_modify (\<lambda>s. s\<lparr>ro_routing_logs := ro_routing_logs s @
       [\<lparr>rt_request_id = mq_request_id rq, rt_agent_role = mq_role rq, rt_selected_profile = profile, rt_reason_code = reason,
         rt_independence_degraded = degraded\<rparr>]\<rparr>)"

definition payload_with :: "row \<Rightarrow> string \<Rightarrow> int \<Rightarrow> string option \<Rightarrow> bool \<Rightarrow> row" where
  "payload_with payload model attempts origin repair =
     (let p1 = dict_set ''attempt_count'' (PInt attempts) (dict_set ''resolved_model'' (PText model) payload);
          p2 = (case origin of Some f \<Rightarrow> if f \<noteq> [] then dict_set ''escalated_from'' (PText f) p1 else p1 | None \<Rightarrow> p1)
      in if repair
         then dict_set ''schema_repair_hint''
                (PText ''Previous response failed schema validation. Return only valid JSON matching the schema.'')
                (dict_set ''schema_repair'' (PBool True) p2)
         else p2)"

definition build_routed_request :: "model_request \<Rightarrow> model_profile \<Rightarrow> string \<Rightarrow> int \<Rightarrow> string option \<Rightarrow> bool \<Rightarrow> model_request" where
  "build_routed_request rq p model attempts origin repair =
     rq\<lparr>mq_model_profile := mf_model p, mq_max_output_tokens := min (mq_max_output_tokens rq) (mf_max_output_tokens p),
        mq_temperature := (case mq_temperature rq of None \<Rightarrow> mf_temperature p | Some t \<Rightarrow> Some t),
        mq_context_payload := payload_with (mq_context_payload rq) model attempts origin repair\<rparr>"

definition router_now :: "('p, 'o) router_env \<Rightarrow> ('p router, datetime) run" where
  "router_now env s = run_ret (rv_now env (ro_reads s)) (s\<lparr>ro_reads := Suc (ro_reads s)\<rparr>)"

text \<open>A call into the repository of model calls, whose exceptions are only logged.\<close>

definition on_calls :: "(call_table, 'a) run \<Rightarrow> ('p router, unit) run" where
  "on_calls m s = (Inr (), s\<lparr>ro_calls := map_option (\<lambda>t. snd (m t)) (ro_calls s)\<rparr>)"

definition text_or_reused :: "string option \<Rightarrow> string" where
  "text_or_reused v = (case v of None \<Rightarrow> ''reused'' | Some t \<Rightarrow> if t = [] then ''reused'' else t)"

definition result_of_call :: "model_call \<Rightarrow> 'o \<Rightarrow> datetime \<Rightarrow> 'o model_result" where
  "result_of_call c output now =
     \<lparr>mv_request_id = ml_request_id c, mv_provider_name = text_or_reused (ml_provider c), mv_model_name = text_or_reused (ml_model c),
      mv_output = output, mv_prompt_version = ml_prompt_version c, mv_input_tokens = ml_input_tokens c,
      mv_output_tokens = ml_output_tokens c, mv_latency_ms = (case ml_latency_ms c of None \<Rightarrow> 0 | Some n \<Rightarrow> n),
      mv_attempt_count = ml_attempt_count c, mv_escalated_from = ml_escalation_source c,
      mv_completed_at = (case ml_finished_at c of None \<Rightarrow> now | Some t \<Rightarrow> t)\<rparr>"

text \<open>The output of a completed call, when it still validates.\<close>

definition stored_output :: "('p, 'o) router_env \<Rightarrow> call_table \<Rightarrow> string \<Rightarrow> (model_call \<times> 'o) option" where
  "stored_output env t key =
     (case call_by_idempotency key t of
        None \<Rightarrow> None
      | Some c \<Rightarrow>
          if ml_status c \<noteq> Call_Completed then None
          else (case ml_output_json c of
                  None \<Rightarrow> None
                | Some j \<Rightarrow> if j = [] then None else map_option (\<lambda>x. (c, x)) (rv_load env j)))"

definition try_reuse_completed :: "('p, 'o) router_env \<Rightarrow> model_request \<Rightarrow> ('p router, 'o model_result option) run" where
  "try_reuse_completed env rq =
     run_bind (run_get (\<lambda>s. case ro_calls s of None \<Rightarrow> None | Some t \<Rightarrow> stored_output env t (mq_idempotency_key rq))) (\<lambda>hit.
       case hit of
         None \<Rightarrow> run_ret None
       | Some (c, x) \<Rightarrow> run_bind (router_now env) (\<lambda>now. run_ret (Some (result_of_call c x now))))"

definition started_call :: "model_request \<Rightarrow> string option \<Rightarrow> string \<Rightarrow> string \<Rightarrow> datetime \<Rightarrow> string option \<Rightarrow> int \<Rightarrow> model_call" where
  "started_call rq session provider model started origin attempts =
     \<lparr>ml_request_id = mq_request_id rq, ml_idempotency_key = mq_idempotency_key rq,
      ml_session_id = (case session of Some t \<Rightarrow> if t \<noteq> [] then t else ''unknown'' | None \<Rightarrow> ''unknown''),
      ml_cycle_id = mq_cycle_id rq, ml_snapshot_id = mq_snapshot_id rq, ml_agent_role = mq_role rq, ml_prompt_id = mq_prompt_id rq,
      ml_prompt_version = mq_prompt_version rq, ml_provider = Some provider, ml_model = Some model, ml_status = In_Progress,
      ml_attempt_count = attempts, ml_escalation_source = origin, ml_started_at = started, ml_finished_at = None,
      ml_latency_ms = None, ml_input_tokens = None, ml_output_tokens = None, ml_error_code = None, ml_output_artifact_id = None,
      ml_output_json = None\<rparr>"

definition record_call_started ::
  "model_request \<Rightarrow> string \<Rightarrow> string \<Rightarrow> datetime \<Rightarrow> string option \<Rightarrow> int \<Rightarrow> ('p router, unit) run" where
  "record_call_started rq provider model started origin attempts =
     (if mq_role rq \<notin> agent_roles then run_ret ()
      else run_bind (run_get ro_session_id) (\<lambda>session.
           on_calls (append_model_call (started_call rq session provider model started origin attempts))))"

definition outcome_of_result :: "('p, 'o) router_env \<Rightarrow> 'o model_result \<Rightarrow> call_outcome" where
  "outcome_of_result env r =
     \<lparr>cx_provider = Some (mv_provider_name r), cx_model = Some (mv_model_name r), cx_latency_ms = Some (mv_latency_ms r),
      cx_input_tokens = mv_input_tokens r, cx_output_tokens = mv_output_tokens r, cx_output_artifact_id = None,
      cx_output_json = Some (rv_dump env (mv_output r)), cx_finished_at = mv_completed_at r\<rparr>"

definition record_call_completed :: "('p, 'o) router_env \<Rightarrow> 'o model_result \<Rightarrow> ('p router, unit) run" where
  "record_call_completed env r = on_calls (mark_call_complete (mv_request_id r) (outcome_of_result env r))"

definition record_call_failed :: "('p, 'o) router_env \<Rightarrow> model_request \<Rightarrow> string \<Rightarrow> ('p router, unit) run" where
  "record_call_failed env rq code =
     run_bind (router_now env) (\<lambda>now. on_calls (mark_call_failed (mq_request_id rq) code None now))"

definition model_errors :: "string set" where
  "model_errors = {''ModelError'', ''ModelProviderUnavailable'', ''ModelTimeout'', ''StructuredOutputFailure'', ''ModelRefusal'',
     ''ModelConfigurationError'', ''ModelBudgetExceeded'', ''ModelResponseEmpty''}"

text \<open>The call to the provider, with a \<open>ModelError\<close> caught.\<close>

definition call_provider ::
  "('p, 'o) router_env \<Rightarrow> string \<Rightarrow> model_request \<Rightarrow> ('p router, py_error + 'o model_result) run" where
  "call_provider env provider rq s =
     (case rv_complete env provider rq (ro_providers s) of
        (Inr r, p) \<Rightarrow> (Inr (Inr r), s\<lparr>ro_providers := p\<rparr>)
      | (Inl e, p) \<Rightarrow> (if exc_name e \<in> model_errors then Inr (Inl e) else Inl e, s\<lparr>ro_providers := p\<rparr>))"

text \<open>One attempt: the stored output, or the provider's answer, or the \<open>ModelError\<close> it raised.\<close>

definition attempt_call ::
  "('p, 'o) router_env \<Rightarrow> model_request \<Rightarrow> string \<Rightarrow> nat \<Rightarrow> nat \<Rightarrow> string option \<Rightarrow>
   ('p router, py_error + 'o model_result) run" where
  "attempt_call env rq profile escalations repairs origin =
     run_bind (run_lift (provider_for_profile (rv_config env) (rv_providers env) profile)) (\<lambda>(provider, p, model).
       let attempts = int repairs + int escalations + 1;
           routed = build_routed_request rq p model attempts origin (0 < repairs)
       in run_bind (router_now env) (\<lambda>started.
          run_bind (try_reuse_completed env rq) (\<lambda>reused.
            case reused of
              Some r \<Rightarrow> run_ret (Inr r)
            | None \<Rightarrow>
                run_bind (record_call_started routed provider model started origin attempts) (\<lambda>_.
                run_bind (call_provider env provider routed) (\<lambda>answer.
                  case answer of
                    Inl e \<Rightarrow> run_ret (Inl e)
                  | Inr r \<Rightarrow>
                      let r' = r\<lparr>mv_attempt_count := attempts, mv_escalated_from := origin\<rparr>
                      in run_bind (record_call_completed env r') (\<lambda>_. run_ret (Inr r')))))))"

definition remote :: string where
  "remote = ''remote_escalation''"

text \<open>\<open>_complete_with_retries\<close> and \<open>_escalate_or_raise\<close>\<close>

function complete_with_retries ::
  "('p, 'o) router_env \<Rightarrow> model_request \<Rightarrow> string \<Rightarrow> nat \<Rightarrow> nat \<Rightarrow> string option \<Rightarrow> ('p router, 'o model_result) run" where
  "complete_with_retries env rq profile escalations repairs origin s =
     (case attempt_call env rq profile escalations repairs origin s of
        (Inl e, s1) \<Rightarrow> (Inl e, s1)
      | (Inr (Inr r), s1) \<Rightarrow> (Inr r, s1)
      | (Inr (Inl e), s1) \<Rightarrow>
          if exc_name e = ''StructuredOutputFailure'' \<and> int repairs < rv_max_schema_repair env
          then complete_with_retries env rq profile escalations (Suc repairs) origin s1
          else let s2 = snd (record_call_failed env rq (exc_name e) s1)
               in if profile = remote \<or> rv_max_escalations env \<le> int escalations then (Inl e, s2)
                  else complete_with_retries env rq remote (Suc escalations) 0 (Some profile)
                         (snd (record_routing rq remote ''escalation_after_failure'' False s2)))"
  by pat_completeness auto

termination
  by (relation "measures [\<lambda>(env, rq, profile, escalations, repairs, origin, s). nat (rv_max_escalations env) - escalations,
        \<lambda>(env, rq, profile, escalations, repairs, origin, s). nat (rv_max_schema_repair env) - repairs]") auto

declare complete_with_retries.simps [simp del]

definition route_and_complete ::
  "('p, 'o) router_env \<Rightarrow> model_request \<Rightarrow> string option \<Rightarrow> bool \<Rightarrow> ('p router, 'o model_result) run" where
  "route_and_complete env rq forced escalate =
     run_bind (run_lift (select_profile (rv_config env) rq forced escalate)) (\<lambda>(profile, reason, degraded).
     run_bind (record_routing rq profile reason degraded) (\<lambda>_.
       run_catch (complete_with_retries env rq profile 0 0 None)
         (\<lambda>e. run_raise (if exc_name e = ''TimeoutError''
                         then OtherError ''ModelBudgetExceeded'' ''model router semaphore acquisition timed out'' else e))))"


section \<open>How often a provider is called\<close>

lemma attempt_calls_once:
  assumes "\<And>name q p. calls (snd (rv_complete env name q p)) \<le> Suc (calls p)"
  shows "calls (ro_providers (snd (attempt_call env rq profile escalations repairs origin s))) \<le> Suc (calls (ro_providers s))"
proof -
  have "calls q \<le> Suc (calls p)" if "rv_complete env name rq' p = (r, q)" for name rq' p r q
    using assms [of name rq' p] that by simp
  then show ?thesis
    by (auto simp: attempt_call_def try_reuse_completed_def router_now_def record_call_started_def record_call_completed_def
      call_provider_def on_calls_def run_bind_def run_defs Let_def le_SucI split: sum.splits prod.splits option.splits)
qed

definition attempts_left :: "('p, 'o) router_env \<Rightarrow> string \<Rightarrow> nat \<Rightarrow> nat" where
  "attempts_left env profile repairs =
     (let r = nat (rv_max_schema_repair env) in Suc (r - repairs) + (if profile = remote then 0 else Suc r))"

lemma retries_bounded:
  assumes once: "\<And>name q p. calls (snd (rv_complete env name q p)) \<le> Suc (calls p)"
  shows "calls (ro_providers (snd (complete_with_retries env rq profile escalations repairs origin s))) \<le>
    calls (ro_providers s) + attempts_left env profile repairs"
  using once
proof (induction env rq profile escalations repairs origin s rule: complete_with_retries.induct)
  case (1 env rq profile escalations repairs origin s)
  obtain res s1 where a: "attempt_call env rq profile escalations repairs origin s = (res, s1)" by fastforce
  have one: "calls (ro_providers s1) \<le> Suc (calls (ro_providers s))"
    using attempt_calls_once [of calls env rq profile escalations repairs origin s, OF "1.prems"] a by simp
  note step = complete_with_retries.simps [of env rq profile escalations repairs origin s]
  have quick: ?case if "ro_providers (snd (complete_with_retries env rq profile escalations repairs origin s)) = ro_providers s1"
    unfolding that attempts_left_def Let_def using one by simp
  show ?case
  proof (cases res)
    case (Inl e)
    then show ?thesis using quick by (simp add: step a)
  next
    case (Inr answer)
    show ?thesis
    proof (cases answer)
      case (Inr r)
      then show ?thesis using quick \<open>res = Inr answer\<close> by (simp add: step a)
    next
      case (Inl e)
      note hit = a [unfolded \<open>res = Inr answer\<close> Inl]
      let ?s2 = "snd (record_call_failed env rq (exc_name e) s1)"
      let ?s3 = "snd (record_routing rq remote ''escalation_after_failure'' False ?s2)"
      have same: "ro_providers ?s2 = ro_providers s1" "ro_providers ?s3 = ro_providers s1"
        by (simp_all add: record_call_failed_def record_routing_def router_now_def on_calls_def run_bind_def run_defs)
      show ?thesis
      proof (cases "exc_name e = ''StructuredOutputFailure'' \<and> int repairs < rv_max_schema_repair env")
        case True
        have "calls (ro_providers (snd (complete_with_retries env rq profile escalations (Suc repairs) origin s1))) \<le>
            calls (ro_providers s1) + attempts_left env profile (Suc repairs)"
          by (rule "1.IH"(1)) (rule hit hit [symmetric] True refl "1.prems")+
        then show ?thesis using True one hit by (auto simp: step attempts_left_def Let_def)
      next
        case repaired: False
        show ?thesis
        proof (cases "profile = remote \<or> rv_max_escalations env \<le> int escalations")
          case True
          then have "complete_with_retries env rq profile escalations repairs origin s = (Inl e, ?s2)"
            using repaired hit by (auto simp: step Let_def)
          then show ?thesis using quick same(1) by simp
        next
          case False
          have "calls (ro_providers (snd (complete_with_retries env rq remote (Suc escalations) 0 (Some profile) ?s3))) \<le>
              calls (ro_providers ?s3) + attempts_left env remote 0"
            by (rule "1.IH"(2)) (rule hit hit [symmetric] repaired False refl "1.prems")+
          moreover have "complete_with_retries env rq profile escalations repairs origin s =
              complete_with_retries env rq remote (Suc escalations) 0 (Some profile) ?s3"
            using repaired False hit by (auto simp: step Let_def)
          ultimately show ?thesis using one same(2) False by (simp add: attempts_left_def Let_def)
        qed
      qed
    qed
  qed
qed


text \<open>
  Claim C40. A routed call ends, and asks providers at most twice as often as one call and its schema repairs, whatever the
  configured number of escalations: the first profile and the remote one are each tried with at most the configured
  repairs.
\<close>

theorem router_calls_bounded:
  assumes "\<And>name q p. calls (snd (rv_complete env name q p)) \<le> Suc (calls p)"
  shows "calls (ro_providers (snd (route_and_complete env rq forced escalate s))) \<le>
    calls (ro_providers s) + 2 * Suc (nat (rv_max_schema_repair env))"
proof (cases "select_profile (rv_config env) rq forced escalate")
  case (Inl e)
  then show ?thesis by (simp add: route_and_complete_def run_bind_def run_defs)
next
  case (Inr choice)
  obtain profile reason degraded where choice: "choice = (profile, reason, degraded)" by (cases choice)
  let ?s = "snd (record_routing rq profile reason degraded s)"
  have "calls (ro_providers (snd (complete_with_retries env rq profile 0 0 None ?s))) \<le>
      calls (ro_providers ?s) + attempts_left env profile 0"
    by (rule retries_bounded [OF assms])
  moreover have "ro_providers ?s = ro_providers s" by (simp add: record_routing_def run_defs)
  moreover have "ro_providers (snd (route_and_complete env rq forced escalate s)) =
      ro_providers (snd (complete_with_retries env rq profile 0 0 None ?s))"
    using Inr by (auto simp: route_and_complete_def choice run_bind_def run_catch_def record_routing_def run_defs split: prod.splits sum.splits)
  ultimately show ?thesis by (simp add: attempts_left_def Let_def split: if_splits)
qed

section \<open>What the table keeps of a call\<close>

text \<open>The record of a request, under its key and its id, and its status; \<open>None\<close> before it is made.\<close>

definition tracked :: "call_status option \<Rightarrow> model_request \<Rightarrow> call_table \<Rightarrow> bool" where
  "tracked st rq t \<longleftrightarrow>
     (case st of
        None \<Rightarrow> call_by_idempotency (mq_idempotency_key rq) t = None \<and> call_by_id (mq_request_id rq) t = None
      | Some x \<Rightarrow> (\<exists>c. call_by_idempotency (mq_idempotency_key rq) t = Some c \<and> call_by_id (mq_request_id rq) t = Some c \<and> ml_status c = x))"

lemma find_map_same: "(\<And>x. x \<in> set xs \<Longrightarrow> P (f x) \<longleftrightarrow> Q x) \<Longrightarrow> find P (map f xs) = map_option f (find Q xs)"
  by (induction xs) auto

lemma find_first: "find P xs = Some c \<Longrightarrow> find Q xs = Some c \<Longrightarrow> find (\<lambda>x. P x \<or> Q x) xs = Some c"
  by (induction xs) (auto split: if_splits)

lemma update_tracked:
  assumes "call_by_idempotency (mq_idempotency_key rq) t = Some c" "call_by_id (mq_request_id rq) t = Some c"
    "ml_idempotency_key u = ml_idempotency_key c" "ml_request_id u = ml_request_id c"
  shows "call_by_idempotency (mq_idempotency_key rq) (update_model_call u t) = Some u"
    "call_by_id (mq_request_id rq) (update_model_call u t) = Some u"
proof -
  let ?f = "\<lambda>x. if ml_request_id x = ml_request_id u then u else x"
  have c: "ml_idempotency_key c = mq_idempotency_key rq" "ml_request_id c = mq_request_id rq"
    using assms(1,2) by (auto simp: call_by_idempotency_def call_by_id_def find_Some_iff)
  have "find (\<lambda>x. ml_request_id x = mq_request_id rq) (map ?f t) = map_option ?f (find (\<lambda>x. ml_request_id x = mq_request_id rq) t)"
    by (rule find_map_same) (use assms(4) c in auto)
  then show "call_by_id (mq_request_id rq) (update_model_call u t) = Some u"
    using assms(2,4) by (simp add: call_by_id_def update_model_call_def)
  have "find (\<lambda>x. ml_idempotency_key x = mq_idempotency_key rq) (map ?f t) =
      map_option ?f (find (\<lambda>x. ml_idempotency_key x = mq_idempotency_key rq \<or> ml_request_id x = mq_request_id rq) t)"
    by (rule find_map_same) (use assms(3,4) c in auto)
  then show "call_by_idempotency (mq_idempotency_key rq) (update_model_call u t) = Some u"
    using find_first [OF assms(1,2) [unfolded call_by_idempotency_def call_by_id_def]] assms(4)
    by (simp add: call_by_idempotency_def update_model_call_def)
qed

lemma append_tracked:
  assumes "tracked st rq t" "ml_idempotency_key c = mq_idempotency_key rq" "ml_request_id c = mq_request_id rq" "ml_status c = In_Progress"
  shows "tracked (Some (case st of None \<Rightarrow> In_Progress | Some x \<Rightarrow> x)) rq (snd (append_model_call c t))"
proof (cases st)
  case None
  then show ?thesis
    using assms by (simp add: tracked_def append_model_call_def run_defs) (simp add: call_by_idempotency_def call_by_id_def find_snoc)
next
  case (Some x)
  then show ?thesis using assms by (auto simp: tracked_def append_model_call_def run_defs)
qed

lemma failed_tracked:
  assumes "tracked (Some x) rq t" "x \<noteq> Call_Completed"
  shows "tracked (Some Call_Failed) rq (snd (mark_call_failed (mq_request_id rq) code latency finished t))"
proof -
  obtain c where c: "call_by_idempotency (mq_idempotency_key rq) t = Some c" "call_by_id (mq_request_id rq) t = Some c" "ml_status c = x"
    using assms(1) by (auto simp: tracked_def)
  have "ml_idempotency_key (failed_call code latency finished c) = ml_idempotency_key c"
    "ml_request_id (failed_call code latency finished c) = ml_request_id c"
    by (simp_all add: failed_call_def)
  from update_tracked [OF c(1,2) this] show ?thesis
    using c assms(2) by (simp add: tracked_def mark_call_failed_def run_defs) (simp add: failed_call_def)
qed

lemma not_stored: "tracked (Some x) rq t \<Longrightarrow> x \<noteq> Call_Completed \<Longrightarrow> stored_output env t (mq_idempotency_key rq) = None"
  "tracked None rq t \<Longrightarrow> stored_output env t (mq_idempotency_key rq) = None"
  by (auto simp: tracked_def stored_output_def)

text \<open>What a provider and the validation of outputs promise: the answer is to the request, and an output survives its dump.\<close>

definition honest :: "('p, 'o) router_env \<Rightarrow> bool" where
  "honest env \<longleftrightarrow>
     (\<forall>name q p r p'. rv_complete env name q p = (Inr r, p') \<longrightarrow> mv_request_id r = mq_request_id q) \<and>
     (\<forall>x. rv_load env (rv_dump env x) = Some x \<and> rv_dump env x \<noteq> [])"

lemma completed_stored:
  assumes "tracked (Some In_Progress) rq t" "honest env" "mv_request_id r = mq_request_id rq"
  shows "\<exists>c. stored_output env (snd (mark_call_complete (mv_request_id r) (outcome_of_result env r) t)) (mq_idempotency_key rq) =
    Some (c, mv_output r)"
proof -
  obtain c where c: "call_by_idempotency (mq_idempotency_key rq) t = Some c" "call_by_id (mq_request_id rq) t = Some c"
    "ml_status c = In_Progress"
    using assms(1) by (auto simp: tracked_def)
  let ?u = "completed_call (outcome_of_result env r) c"
  have "ml_idempotency_key ?u = ml_idempotency_key c" "ml_request_id ?u = ml_request_id c" by (simp_all add: completed_call_def)
  note u = update_tracked [OF c(1,2) this]
  have "ml_status ?u = Call_Completed" "ml_output_json ?u = Some (rv_dump env (mv_output r))"
    using assms(2) by (simp_all add: completed_call_def or_prior_def outcome_of_result_def honest_def)
  then show ?thesis
    using u(1) c assms by (simp add: mark_call_complete_def run_defs stored_output_def honest_def)
qed

lemma failed_stays:
  assumes "tracked (Some Call_Failed) rq t" "mv_request_id r = mq_request_id rq"
  shows "snd (mark_call_complete (mv_request_id r) x t) = t"
  using assms by (auto simp: tracked_def mark_call_complete_def run_defs)


definition status_after :: "call_status option \<Rightarrow> call_status" where
  "status_after st = (case st of None \<Rightarrow> In_Progress | Some x \<Rightarrow> x)"

lemma attempt_tracked:
  assumes calls: "ro_calls s = Some t" "tracked st rq t" "st \<noteq> Some Call_Completed" and role: "mq_role rq \<in> agent_roles"
    and env: "honest env" and run: "attempt_call env rq profile escalations repairs origin s = (Inr answer, s1)"
  shows "\<exists>t1. ro_calls s1 = Some t1 \<and>
    (case answer of
       Inl e \<Rightarrow> tracked (Some (status_after st)) rq t1
     | Inr r \<Rightarrow> mv_escalated_from r = origin \<and>
         (if st = Some Call_Failed then tracked (Some Call_Failed) rq t1
          else \<exists>c. stored_output env t1 (mq_idempotency_key rq) = Some (c, mv_output r)))"
proof -
  obtain provider p model where profile: "provider_for_profile (rv_config env) (rv_providers env) profile = Inr (provider, p, model)"
    using run by (cases "provider_for_profile (rv_config env) (rv_providers env) profile")
      (auto simp: attempt_call_def run_bind_def run_defs)
  let ?n = "int repairs + int escalations + 1"
  let ?routed = "build_routed_request rq p model ?n origin (0 < repairs)"
  let ?c = "started_call ?routed (ro_session_id s) provider model (rv_now env (ro_reads s)) origin ?n"
  let ?t1 = "snd (append_model_call ?c t)"
  have routed: "mq_role ?routed = mq_role rq" "mq_idempotency_key ?routed = mq_idempotency_key rq" "mq_request_id ?routed = mq_request_id rq"
    by (simp_all add: build_routed_request_def)
  have unknown: "stored_output env t (mq_idempotency_key rq) = None"
    using calls(2,3) not_stored(1) [of _ rq t env] not_stored(2) [of rq t env] by (cases st) auto
  have t1: "tracked (Some (status_after st)) rq ?t1"
    unfolding status_after_def by (rule append_tracked [OF calls(2)]) (simp_all add: started_call_def routed)
  obtain res p' where asked: "rv_complete env provider ?routed (ro_providers s) = (res, p')" by fastforce
  let ?s1 = "s\<lparr>ro_reads := Suc (ro_reads s), ro_calls := Some ?t1, ro_providers := p'\<rparr>"
  show ?thesis
  proof (cases res)
    case (Inl e)
    then have "answer = Inl e \<and> ro_calls s1 = Some ?t1"
      using run profile unknown asked calls(1) role
      by (auto simp: attempt_call_def try_reuse_completed_def router_now_def record_call_started_def call_provider_def on_calls_def
        run_bind_def run_defs routed Let_def split: if_splits)
    then show ?thesis using t1 by simp
  next
    case (Inr r)
    let ?r = "r\<lparr>mv_attempt_count := ?n, mv_escalated_from := origin\<rparr>"
    let ?t2 = "snd (mark_call_complete (mv_request_id ?r) (outcome_of_result env ?r) ?t1)"
    have ans: "answer = Inr ?r" "ro_calls s1 = Some ?t2"
      using run profile unknown asked calls(1) role Inr
      by (auto simp: attempt_call_def try_reuse_completed_def router_now_def record_call_started_def call_provider_def on_calls_def
        record_call_completed_def run_bind_def run_defs routed Let_def)
    have rid: "mv_request_id ?r = mq_request_id rq"
    proof -
      have "mv_request_id r = mq_request_id ?routed" using env asked unfolding Inr honest_def by blast
      then show ?thesis using routed(3) by simp
    qed
    show ?thesis
    proof (cases "st = Some Call_Failed")
      case True
      then have "tracked (Some Call_Failed) rq ?t1" using t1 by (simp add: status_after_def)
      then show ?thesis using failed_stays [OF _ rid] ans True by simp
    next
      case False
      then have "status_after st = In_Progress" using calls(3) by (auto simp: status_after_def split: option.splits call_status.splits)
        (metis call_status.exhaust)+
      then have "tracked (Some In_Progress) rq ?t1" using t1 by simp
      from completed_stored [OF this env rid] show ?thesis using ans False by simp
    qed
  qed
qed

lemma retries_tracked:
  assumes "ro_calls s = Some t" "tracked st rq t" "st \<noteq> Some Call_Completed" "origin = None \<longleftrightarrow> st \<noteq> Some Call_Failed"
    "mq_role rq \<in> agent_roles" "honest env"
    "complete_with_retries env rq profile escalations repairs origin s = (Inr r, s1)"
  shows "\<exists>t1. ro_calls s1 = Some t1 \<and>
    ((\<exists>c. stored_output env t1 (mq_idempotency_key rq) = Some (c, mv_output r)) \<longleftrightarrow> mv_escalated_from r = None)"
  using assms
proof (induction env rq profile escalations repairs origin s arbitrary: t st rule: complete_with_retries.induct)
  case (1 env rq profile escalations repairs origin s)
  note step = complete_with_retries.simps [of env rq profile escalations repairs origin s]
  obtain answer s' where a: "attempt_call env rq profile escalations repairs origin s = (Inr answer, s')"
    using "1.prems"(7) by (cases "attempt_call env rq profile escalations repairs origin s") (auto simp: step split: sum.splits)
  obtain t1 where t1: "ro_calls s' = Some t1" and eff: "case answer of
       Inl e \<Rightarrow> tracked (Some (status_after st)) rq t1
     | Inr r \<Rightarrow> mv_escalated_from r = origin \<and>
         (if st = Some Call_Failed then tracked (Some Call_Failed) rq t1
          else \<exists>c. stored_output env t1 (mq_idempotency_key rq) = Some (c, mv_output r))"
    using attempt_tracked [OF "1.prems"(1-3,5,6) a] by blast
  show ?case
  proof (cases answer)
    case (Inr r')
    then have r': "r' = r" "s1 = s'" using "1.prems"(7) by (simp_all add: step a)
    show ?thesis
    proof (cases "st = Some Call_Failed")
      case True
      then have "stored_output env t1 (mq_idempotency_key rq) = None" using eff Inr not_stored(1) by auto
      then show ?thesis using t1 r' eff Inr True "1.prems"(4) by auto
    next
      case False
      then show ?thesis using t1 r' eff Inr "1.prems"(4) by auto
    qed
  next
    case (Inl e)
    note hit = a [unfolded Inl]
    have after: "tracked (Some (status_after st)) rq t1" "status_after st \<noteq> Call_Completed"
      using eff Inl "1.prems"(3) by (auto simp: status_after_def split: option.splits)
    show ?thesis
    proof (cases "exc_name e = ''StructuredOutputFailure'' \<and> int repairs < rv_max_schema_repair env")
      case True
      then have more: "complete_with_retries env rq profile escalations (Suc repairs) origin s' = (Inr r, s1)"
        using "1.prems"(7) by (simp add: step hit)
      have same: "origin = None \<longleftrightarrow> Some (status_after st) \<noteq> Some Call_Failed"
        using "1.prems"(4) by (auto simp: status_after_def split: option.splits)
      show ?thesis
        by (rule "1.IH"(1) [OF hit [symmetric] refl refl True t1 after(1) _ same "1.prems"(5,6) more]) (use after(2) in simp)
    next
      case repaired: False
      let ?s2 = "snd (record_call_failed env rq (exc_name e) s')"
      let ?s3 = "snd (record_routing rq remote ''escalation_after_failure'' False ?s2)"
      have go: "\<not> (profile = remote \<or> rv_max_escalations env \<le> int escalations)"
        "complete_with_retries env rq remote (Suc escalations) 0 (Some profile) ?s3 = (Inr r, s1)"
        using "1.prems"(7) repaired by (auto simp: step hit Let_def split: if_splits)
      let ?t3 = "snd (mark_call_failed (mq_request_id rq) (exc_name e) None (rv_now env (ro_reads s')) t1)"
      have t3: "ro_calls ?s3 = Some ?t3"
        using t1 by (simp add: record_call_failed_def record_routing_def router_now_def on_calls_def run_bind_def run_defs)
      have "tracked (Some Call_Failed) rq ?t3" by (rule failed_tracked [OF after])
      then show ?thesis
        by (rule "1.IH"(2) [OF hit [symmetric] refl refl repaired refl go(1) t3 _ _ _ "1.prems"(5,6) go(2)]) simp_all
    qed
  qed
qed

text \<open>
  Claim C35. The answer of a new routed call can be reused, in that its record is completed and holds the output, exactly when
  no escalation was needed: the record of a call that succeeded after an escalation stays marked as failed.
\<close>

theorem success_reusable_iff_not_escalated:
  assumes "honest env" "mq_role rq \<in> agent_roles" "ro_calls s = Some t" "tracked None rq t"
    "route_and_complete env rq forced escalate s = (Inr r, s1)"
  shows "\<exists>t1. ro_calls s1 = Some t1 \<and>
    ((\<exists>c. stored_output env t1 (mq_idempotency_key rq) = Some (c, mv_output r)) \<longleftrightarrow> mv_escalated_from r = None)"
proof -
  obtain profile reason degraded where
    "select_profile (rv_config env) rq forced escalate = Inr (profile, reason, degraded)"
    using assms(5) by (cases "select_profile (rv_config env) rq forced escalate") (auto simp: route_and_complete_def run_bind_def run_defs)
  then have "complete_with_retries env rq profile 0 0 None (snd (record_routing rq profile reason degraded s)) = (Inr r, s1)"
    using assms(5) by (auto simp: route_and_complete_def run_bind_def run_catch_def record_routing_def run_defs split: prod.splits sum.splits)
  then show ?thesis
    by (rule retries_tracked [OF _ assms(4) _ _ assms(2,1), rotated -1]) (use assms(3) in \<open>simp_all add: record_routing_def run_defs\<close>)
qed

text \<open>
  A call that is asked again is answered from its record: once a new routed call has been answered without an
  escalation, the same request returns the same output and leaves every provider alone.
\<close>

theorem answered_call_is_reused:
  assumes "honest env" "mq_role rq \<in> agent_roles" "ro_calls s = Some t" "tracked None rq t"
    "route_and_complete env rq forced escalate s = (Inr r, s1)" "mv_escalated_from r = None"
  shows "\<exists>r' s2. route_and_complete env rq forced escalate s1 = (Inr r', s2) \<and> mv_output r' = mv_output r \<and>
    ro_providers s2 = ro_providers s1 \<and> ro_calls s2 = ro_calls s1"
proof -
  obtain profile reason degraded where sel: "select_profile (rv_config env) rq forced escalate = Inr (profile, reason, degraded)"
    using assms(5) by (cases "select_profile (rv_config env) rq forced escalate") (auto simp: route_and_complete_def run_bind_def run_defs)
  let ?log = "\<lambda>s. snd (record_routing rq profile reason degraded s)"
  have unlogged: "route_and_complete env rq forced escalate s' = (Inr x, s'')"
    if "complete_with_retries env rq profile 0 0 None (?log s') = (Inr x, s'')" for s' x s''
    using that sel by (auto simp: route_and_complete_def run_bind_def run_catch_def record_routing_def run_defs)
  have first: "complete_with_retries env rq profile 0 0 None (?log s) = (Inr r, s1)"
    using assms(5) sel by (auto simp: route_and_complete_def run_bind_def run_catch_def record_routing_def run_defs split: prod.splits sum.splits)
  obtain t1 where t1: "ro_calls s1 = Some t1" and
    iff: "(\<exists>c. stored_output env t1 (mq_idempotency_key rq) = Some (c, mv_output r)) \<longleftrightarrow> mv_escalated_from r = None"
    by (rule exE [OF retries_tracked [OF _ assms(4) _ _ assms(2,1) first]]) (use assms(3) in \<open>simp_all add: record_routing_def run_defs\<close>)
  obtain c where c: "stored_output env t1 (mq_idempotency_key rq) = Some (c, mv_output r)" using iff assms(6) by blast
  obtain provider p model where profile: "provider_for_profile (rv_config env) (rv_providers env) profile = Inr (provider, p, model)"
    using first by (cases "provider_for_profile (rv_config env) (rv_providers env) profile")
      (auto simp: complete_with_retries.simps [of env rq profile 0 0 None "?log s"] attempt_call_def run_bind_def run_defs)
  let ?s2 = "(?log s1)\<lparr>ro_reads := Suc (Suc (ro_reads s1))\<rparr>"
  have "attempt_call env rq profile 0 0 None (?log s1) = (Inr (Inr (result_of_call c (mv_output r) (rv_now env (Suc (ro_reads s1))))), ?s2)"
    using profile c t1 by (simp add: attempt_call_def try_reuse_completed_def router_now_def record_routing_def run_bind_def run_defs Let_def)
  then have "complete_with_retries env rq profile 0 0 None (?log s1) =
      (Inr (result_of_call c (mv_output r) (rv_now env (Suc (ro_reads s1)))), ?s2)"
    by (simp add: complete_with_retries.simps [of env rq profile 0 0 None "?log s1"])
  note again = unlogged [OF this]
  have "mv_output (result_of_call c (mv_output r) x) = mv_output r" for x by (simp add: result_of_call_def)
  moreover have "ro_providers ?s2 = ro_providers s1" "ro_calls ?s2 = ro_calls s1" by (simp_all add: record_routing_def run_defs)
  ultimately show ?thesis using again by blast
qed

section \<open>Witnesses\<close>

text \<open>
  Providers whose state counts the calls: the local one answers, or is down from the start; the remote one always answers.
\<close>

definition demo_answer :: "string \<Rightarrow> model_request \<Rightarrow> string model_result" where
  "demo_answer name q =
     \<lparr>mv_request_id = mq_request_id q, mv_provider_name = name, mv_model_name = mq_model_profile q, mv_output = ''hold'',
      mv_prompt_version = mq_prompt_version q, mv_input_tokens = None, mv_output_tokens = None, mv_latency_ms = 5,
      mv_attempt_count = 1, mv_escalated_from = None, mv_completed_at = at_utc 0\<rparr>"

definition demo_providers :: "bool \<Rightarrow> string \<Rightarrow> model_request \<Rightarrow> (nat, string model_result) run" where
  "demo_providers up name q n =
     (if name = ''ollama'' \<and> \<not> up then (Inl (OtherError ''ModelProviderUnavailable'' []), Suc n)
      else (Inr (demo_answer name q), Suc n))"

definition demo_router_env :: "bool \<Rightarrow> (nat, string) router_env" where
  "demo_router_env up =
     \<lparr>rv_complete = demo_providers up, rv_dump = Cons CHR ''q'', rv_load = \<lambda>j. case j of [] \<Rightarrow> None | c # x \<Rightarrow> Some x,
      rv_now = \<lambda>_. at_utc 0, rv_config = default_models_config\<lparr>mg_openai_model := Some ''gpt''\<rparr>,
      rv_providers = [''ollama'', ''openai''], rv_max_schema_repair = 1, rv_max_escalations = 1\<rparr>"

definition demo_model_request :: model_request where
  "demo_model_request =
     \<lparr>mq_request_id = ''r1'', mq_idempotency_key = ''k1'', mq_role = ''anomaly'', mq_prompt_id = ''p'', mq_prompt_version = ''1'',
      mq_model_profile = [], mq_context_payload = [], mq_timeout_seconds = 30, mq_max_output_tokens = 500, mq_temperature = None,
      mq_snapshot_id = ''s'', mq_cycle_id = ''c''\<rparr>"

definition demo_router :: "nat router" where
  "demo_router = \<lparr>ro_providers = 0, ro_calls = Some [], ro_session_id = Some ''day'', ro_routing_logs = [], ro_reads = 0\<rparr>"

lemma demo_honest: "honest (demo_router_env up)"
  by (auto simp: honest_def demo_router_env_def demo_providers_def demo_answer_def split: if_splits)

lemma demo_untracked: "tracked None demo_model_request []"
  by (simp add: tracked_def call_by_idempotency_def call_by_id_def)

lemma demo_role: "mq_role demo_model_request \<in> agent_roles"
  by (simp add: demo_model_request_def agent_roles_def)

theorem router_calls_bounded_witness:
  "ro_providers (snd (route_and_complete (demo_router_env False) demo_model_request None False demo_router)) = 2 \<and>
   ro_providers (snd (route_and_complete (demo_router_env False) demo_model_request None False demo_router)) \<le> 4"
proof -
  have "\<And>name q p. id (snd (rv_complete (demo_router_env False) name q p)) \<le> Suc (id p)"
    by (simp add: demo_router_env_def demo_providers_def)
  from router_calls_bounded [OF this, of demo_model_request None False demo_router]
  have "ro_providers (snd (route_and_complete (demo_router_env False) demo_model_request None False demo_router)) \<le> 4"
    by (simp add: demo_router_def) (simp add: demo_router_env_def)
  moreover have "ro_providers (snd (route_and_complete (demo_router_env False) demo_model_request None False demo_router)) = 2"
    by code_simp
  ultimately show ?thesis by simp
qed

theorem success_reusable_iff_not_escalated_witness:
  "\<exists>r s1 t1. route_and_complete (demo_router_env False) demo_model_request None False demo_router = (Inr r, s1) \<and>
     mv_escalated_from r = Some ''fast_structured'' \<and> ro_calls s1 = Some t1 \<and>
     \<not> (\<exists>c. stored_output (demo_router_env False) t1 ''k1'' = Some (c, mv_output r))"
proof -
  have "case route_and_complete (demo_router_env False) demo_model_request None False demo_router of
      (Inr r, s1) \<Rightarrow> mv_escalated_from r = Some ''fast_structured'' | _ \<Rightarrow> False" by code_simp
  then obtain r s1 where run: "route_and_complete (demo_router_env False) demo_model_request None False demo_router = (Inr r, s1)"
    "mv_escalated_from r = Some ''fast_structured''"
    by (auto split: prod.splits sum.splits)
  have "ro_calls demo_router = Some []" by (simp add: demo_router_def)
  from success_reusable_iff_not_escalated [OF demo_honest demo_role this demo_untracked run(1)] run
  show ?thesis by (auto simp: demo_model_request_def)
qed

theorem answered_call_is_reused_witness:
  "\<exists>r s1 r' s2. route_and_complete (demo_router_env True) demo_model_request None False demo_router = (Inr r, s1) \<and>
     route_and_complete (demo_router_env True) demo_model_request None False s1 = (Inr r', s2) \<and>
     mv_output r' = mv_output r \<and> ro_providers s2 = ro_providers s1"
proof -
  have "case route_and_complete (demo_router_env True) demo_model_request None False demo_router of
      (Inr r, s1) \<Rightarrow> mv_escalated_from r = None | _ \<Rightarrow> False" by code_simp
  then obtain r s1 where run: "route_and_complete (demo_router_env True) demo_model_request None False demo_router = (Inr r, s1)"
    "mv_escalated_from r = None"
    by (auto split: prod.splits sum.splits)
  have "ro_calls demo_router = Some []" by (simp add: demo_router_def)
  from answered_call_is_reused [OF demo_honest demo_role this demo_untracked run] run show ?thesis by blast
qed

end
