(* ===== verification/Cognitive_Proposal.thy ===== *)
theory Cognitive_Proposal
  imports Order_Gateway_Props
begin

text \<open>
  The execution proposals of the entry tactician (\<open>joker/agents/cognitive/execution.py\<close>, with the types
  \<open>ExecutionLeg\<close> and \<open>ExecutionProposal\<close> of \<open>joker/cognition/schemas.py\<close>): the truth they are checked against,
  the validator with its two modes, and the compiler to an execution command. The answer of the agent itself is a
  parameter of the graph that asks for it. \<open>order_type\<close> and \<open>action\<close> are closed enumerations of the schema, so the
  branches for other texts do not arise; neither do a snapshot without an id and an order without a proposal id field.
\<close>

section \<open>Proposals\<close>

datatype proposal_action = Act_Execute | Act_Probe

record execution_leg =
  el_leg_id :: uuid
  el_contract_id :: string
  el_side :: side
  el_quantity :: int
  el_limit_price :: "decimal option"
  el_sequence_order :: int
  el_max_quote_age_seconds :: int
  el_replacement_policy :: string
  el_partial_fill_policy :: string

definition build_execution_leg :: "execution_leg \<Rightarrow> py_error + execution_leg" where
  "build_execution_leg leg = (if el_quantity leg \<le> 0 then Inl ValidationError else Inr leg)"

record execution_proposal =
  ep_proposal_id :: uuid
  ep_decision_id :: uuid
  ep_strategy_id :: uuid
  ep_session_id :: string
  ep_cycle_id :: string
  ep_snapshot_id :: uuid
  ep_action :: proposal_action
  ep_legs :: "execution_leg list"
  ep_order_type :: order_kind
  ep_time_in_force :: string
  ep_cancel_after_seconds :: "int option"
  ep_entry_rationale :: string
  ep_invalidation_conditions :: "string list"
  ep_supporting_evidence_ids :: "uuid list"
  ep_prompt_version :: string
  ep_model_call_id :: uuid
  ep_created_at :: datetime

text \<open>\<open>EntryTacticianAgent.propose\<close> stamps the agent's answer with the decision, the strategy and the context.\<close>

definition stamp_proposal :: "uuid \<Rightarrow> uuid \<Rightarrow> string \<Rightarrow> string \<Rightarrow> uuid \<Rightarrow> execution_proposal \<Rightarrow> execution_proposal" where
  "stamp_proposal decision strategy session cycle snapshot p =
     p\<lparr>ep_decision_id := decision, ep_strategy_id := strategy, ep_session_id := session, ep_cycle_id := cycle,
       ep_snapshot_id := snapshot\<rparr>"

section \<open>The truth and the limits\<close>

record validation_config =
  vc_allowed_symbol :: string
  vc_paper_mode_required :: bool
  vc_max_legs :: nat
  vc_allowed_sides :: "side list"
  vc_max_quantity :: int
  vc_require_positive_quantity :: bool

definition default_validation :: validation_config where
  "default_validation = \<lparr>vc_allowed_symbol = ''SPY'', vc_paper_mode_required = True, vc_max_legs = 1,
     vc_allowed_sides = [Buy, Sell], vc_max_quantity = 20, vc_require_positive_quantity = True\<rparr>"

record market_truth =
  mt_snapshot :: market_state
  mt_quality :: "quality_report option"
  mt_surface :: "surface option"
  mt_working :: "working_order list"
  mt_open_order_clients :: "string list"
  mt_open_positions :: "string list"
  mt_submitted :: "string set"
  mt_trading_mode :: string

definition build_truth_from_deps ::
  "market_state \<Rightarrow> quality_report option \<Rightarrow> surface option \<Rightarrow> projection_state option \<Rightarrow> string set \<Rightarrow> string \<Rightarrow> market_truth" where
  "build_truth_from_deps snapshot quality sf projection submitted mode =
     (let working = working_orders_from_projection projection []
      in \<lparr>mt_snapshot = snapshot, mt_quality = quality, mt_surface = sf, mt_working = working,
          mt_open_order_clients = map wo_client_order_id working,
          mt_open_positions = map fst (open_positions_from_projection projection), mt_submitted = submitted,
          mt_trading_mode = mode\<rparr>)"

section \<open>Validation\<close>

definition leg_basics :: "validation_config \<Rightarrow> execution_leg \<Rightarrow> (bool \<times> string) list" where
  "leg_basics cfg leg =
     [(vc_require_positive_quantity cfg \<and> el_quantity leg \<le> 0, ''leg quantity must be positive''),
      (vc_max_quantity cfg < el_quantity leg,
       ''leg quantity '' @ int_text (el_quantity leg) @ '' exceeds max_quantity='' @ int_text (vc_max_quantity cfg)),
      (el_side leg \<notin> set (vc_allowed_sides cfg), ''unsupported leg side='' @ py_repr (side_text (el_side leg)))]"

definition paper_guard :: "validation_config \<Rightarrow> string \<Rightarrow> (bool \<times> string) list" where
  "paper_guard cfg mode =
     [(vc_paper_mode_required cfg \<and> py_upper mode \<noteq> ''PAPER'', ''execution proposals require PAPER mode; got '' @ py_repr mode)]"

definition shape_guard :: "validation_config \<Rightarrow> execution_proposal \<Rightarrow> (bool \<times> string) list" where
  "shape_guard cfg p =
     [(ep_legs p = [], ''execution proposal must include at least one leg''),
      (vc_max_legs cfg < length (ep_legs p), ''execution proposal exceeds max_legs='' @ int_text (int (vc_max_legs cfg)))]"

definition symbol_guard :: "validation_config \<Rightarrow> option_contract \<Rightarrow> (bool \<times> string) list" where
  "symbol_guard cfg contract =
     [(oc_symbol contract \<noteq> vc_allowed_symbol cfg,
       ''contract symbol must be '' @ py_repr (vc_allowed_symbol cfg) @ ''; got '' @ py_repr (oc_symbol contract))]"

text \<open>The checks without a truth.\<close>

fun validate_legs_basic :: "validation_config \<Rightarrow> int \<Rightarrow> execution_leg list \<Rightarrow> py_error + unit" where
  "validate_legs_basic cfg day [] = Inr ()"
| "validate_legs_basic cfg day (leg # legs) =
     sum_then (guard_all (leg_basics cfg leg) ()) (\<lambda>_.
     sum_then (parse_contract_id (el_contract_id leg) (Some day)) (\<lambda>contract.
     sum_then (guard_all (symbol_guard cfg contract @ [(\<not> oc_is_0dte contract, ''only 0DTE contracts are supported'')]) ()) (\<lambda>_.
       validate_legs_basic cfg day legs)))"

definition validate_basic ::
  "validation_config \<Rightarrow> execution_proposal \<Rightarrow> string \<Rightarrow> string option \<Rightarrow> int option \<Rightarrow> py_error + unit" where
  "validate_basic cfg p mode latest day =
     sum_then (guard_all
       ([(opt_truthy latest \<and> latest \<noteq> Some (ep_snapshot_id p), ''execution proposal snapshot is stale'')]
        @ paper_guard cfg mode @ shape_guard cfg p
        @ [(day = None, ''trading_date is required to validate 0DTE contract expiry'')]) ()) (\<lambda>_.
       validate_legs_basic cfg (the day) (ep_legs p))"

text \<open>The checks against the truth.\<close>

definition conflict_guard :: "market_truth \<Rightarrow> execution_leg \<Rightarrow> (bool \<times> string) list" where
  "conflict_guard truth leg =
     [(el_side leg = Buy \<and> el_contract_id leg \<in> set (mt_open_positions truth),
       ''conflicting active position exists for contract''),
      (el_side leg = Buy \<and> has_working_entry_order (mt_working truth),
       ''conflicting working entry order exists; no additional entry'')]"

definition validate_leg :: "validation_config \<Rightarrow> market_truth \<Rightarrow> surface \<Rightarrow> execution_leg \<Rightarrow> py_error + unit" where
  "validate_leg cfg truth sf leg =
     (let day = mk_trading_date (mt_snapshot truth); cid = el_contract_id leg
      in sum_then (guard_all (leg_basics cfg leg) ()) (\<lambda>_.
         sum_then (parse_contract_id cid (Some day)) (\<lambda>contract.
         sum_then (guard_all
           (symbol_guard cfg contract @
            [(oc_expiration contract \<noteq> day,
              ''contract expiry must equal the snapshot exchange trading date (expiry='' @ date_text (oc_expiration contract) @
              '', trading_date='' @ date_text day @ '')''),
             (\<not> oc_is_0dte contract, ''only 0DTE contracts are supported'')]) ()) (\<lambda>_.
         sum_then (case surface_row sf cid of
                     None \<Rightarrow> cognitive_error (''contract_id '' @ py_repr cid @ '' is absent from the option surface'')
                   | Some row \<Rightarrow> validate_quote_age (Some (el_max_quote_age_seconds leg)) row) (\<lambda>_.
           guard_all (conflict_guard truth leg) ())))))"

fun validate_legs :: "validation_config \<Rightarrow> market_truth \<Rightarrow> surface \<Rightarrow> execution_leg list \<Rightarrow> py_error + unit" where
  "validate_legs cfg truth sf [] = Inr ()"
| "validate_legs cfg truth sf (leg # legs) = sum_then (validate_leg cfg truth sf leg) (\<lambda>_. validate_legs cfg truth sf legs)"

definition proposal_conflict :: "market_truth \<Rightarrow> execution_proposal \<Rightarrow> bool" where
  "proposal_conflict truth p =
     (if mt_working truth \<noteq> [] then list_ex (\<lambda>w. wo_proposal_id w = Some (ep_proposal_id p)) (mt_working truth)
      else list_ex (contains_text (ep_proposal_id p)) (mt_open_order_clients truth))"

definition truth_guard :: "validation_config \<Rightarrow> market_truth \<Rightarrow> execution_proposal \<Rightarrow> (bool \<times> string) list" where
  "truth_guard cfg truth p =
     [(ep_snapshot_id p \<noteq> mk_snapshot_id (mt_snapshot truth), ''execution proposal snapshot is stale or mismatched vs Task 1 truth'')]
     @ paper_guard cfg (mt_trading_mode truth)
     @ [(mt_quality truth = None, ''data quality report unavailable; execution blocked''),
        (case mt_quality truth of None \<Rightarrow> True | Some q \<Rightarrow> \<not> qr_usable_for_execution q,
         ''data quality does not permit execution '' @
         (case mt_quality truth of None \<Rightarrow> [] | Some q \<Rightarrow> ''(severity='' @ severity_value (qr_severity q) @ '')''))]
     @ surface_guard (mt_snapshot truth) (mt_surface truth)
     @ [(ep_proposal_id p \<in> mt_submitted truth, ''proposal/decision has already been submitted'')]
     @ shape_guard cfg p"

definition validate_authoritative :: "validation_config \<Rightarrow> market_truth \<Rightarrow> execution_proposal \<Rightarrow> py_error + unit" where
  "validate_authoritative cfg truth p =
     sum_then (guard_all (truth_guard cfg truth p) ()) (\<lambda>_.
     sum_then (validate_legs cfg truth (the (mt_surface truth)) (ep_legs p)) (\<lambda>_.
       guard_all [(proposal_conflict truth p, ''conflicting active order exists for proposal'')] ()))"

section \<open>Compilation\<close>

definition entry_order_id :: "execution_proposal \<Rightarrow> execution_leg \<Rightarrow> string" where
  "entry_order_id p leg = ''cog-'' @ ep_proposal_id p @ ''-'' @ el_leg_id leg"

definition compile_proposal ::
  "string \<Rightarrow> uuid list \<Rightarrow> string option \<Rightarrow> int option \<Rightarrow> execution_proposal \<Rightarrow> py_error + provenanced_command" where
  "compile_proposal account evidence client_order_id day p =
     (case ep_legs p of
        [leg] \<Rightarrow>
          sum_then (parse_contract_id (el_contract_id leg) day) (\<lambda>contract.
            let oid = first_nonempty [client_order_id] (entry_order_id p leg)
            in Inr \<lparr>pc_command = \<lparr>ec_client_order_id = oid,
                     ec_intent = \<lparr>oi_intent_id = oid, oi_candidate_id = ep_proposal_id p, oi_contract = contract,
                                  oi_side = el_side leg, oi_order_type = ep_order_type p, oi_quantity = el_quantity leg,
                                  oi_limit_price = el_limit_price leg\<rparr>,
                     ec_account = account\<rparr>,
                   pc_decision_id = ep_decision_id p, pc_strategy_id = ep_strategy_id p, pc_proposal_id = ep_proposal_id p,
                   pc_snapshot_id = ep_snapshot_id p, pc_cycle_id = ep_cycle_id p, pc_evidence_ids = evidence,
                   pc_max_quote_age_seconds = Some (el_max_quote_age_seconds leg)\<rparr>)
      | _ \<Rightarrow> cognitive_error ''compiler currently supports single-leg proposals only'')"

definition validate_and_compile_proposal ::
  "validation_config \<Rightarrow> string \<Rightarrow> uuid list \<Rightarrow> string option \<Rightarrow> int option \<Rightarrow> market_truth option \<Rightarrow> execution_proposal \<Rightarrow>
   py_error + provenanced_command" where
  "validate_and_compile_proposal cfg account evidence latest day truth p =
     (case truth of
        Some t \<Rightarrow>
          sum_then (validate_authoritative cfg t p) (\<lambda>_.
            compile_proposal account evidence None (Some (mk_trading_date (mt_snapshot t))) p)
      | None \<Rightarrow>
          sum_then (validate_basic cfg p ''PAPER'' latest day) (\<lambda>_. compile_proposal account evidence None day p))"

section \<open>What a compiled proposal satisfies\<close>

lemma validate_legs_Inr: "validate_legs cfg truth sf legs = Inr u \<longleftrightarrow> (\<forall>leg \<in> set legs. validate_leg cfg truth sf leg = Inr ())"
  by (induction legs) (auto simp: sum_then_Inr)

lemma accepted_proposal:
  assumes "validate_and_compile_proposal cfg account evidence latest day (Some truth) p = Inr pc"
  obtains leg contract sf row where
    "ep_legs p = [leg]" "mt_surface truth = Some sf" "\<not> list_ex fst (truth_guard cfg truth p)"
    "\<not> list_ex fst (leg_basics cfg leg)" "\<not> list_ex fst (conflict_guard truth leg)"
    "parse_contract_id (el_contract_id leg) (Some (mk_trading_date (mt_snapshot truth))) = Inr contract"
    "oc_symbol contract = vc_allowed_symbol cfg" "oc_expiration contract = mk_trading_date (mt_snapshot truth)"
    "surface_row sf (el_contract_id leg) = Some row"
    "validate_quote_age (Some (el_max_quote_age_seconds leg)) row = Inr ()" "\<not> proposal_conflict truth p"
    "compile_proposal account evidence None (Some (mk_trading_date (mt_snapshot truth))) p = Inr pc"
proof -
  have c: "compile_proposal account evidence None (Some (mk_trading_date (mt_snapshot truth))) p = Inr pc"
    and v: "validate_authoritative cfg truth p = Inr ()"
    using assms by (auto simp: validate_and_compile_proposal_def sum_then_Inr)
  have g: "\<not> list_ex fst (truth_guard cfg truth p)" and ls: "validate_legs cfg truth (the (mt_surface truth)) (ep_legs p) = Inr ()"
    and pc: "\<not> proposal_conflict truth p"
    using v by (simp_all add: validate_authoritative_def sum_then_Inr guard_all_Inr cognitive_error_def split: if_splits)
  obtain leg where leg: "ep_legs p = [leg]"
    using c by (auto simp: compile_proposal_def cognitive_error_def split: list.splits)
  obtain sf where sf: "mt_surface truth = Some sf" using g by (cases "mt_surface truth") (simp_all add: truth_guard_def surface_guard_def)
  have l: "validate_leg cfg truth sf leg = Inr ()" using ls leg sf by (simp add: sum_then_def split: sum.splits)
  let ?day = "mk_trading_date (mt_snapshot truth)"
  obtain contract u where k: "\<not> list_ex fst (leg_basics cfg leg)" "\<not> list_ex fst (conflict_guard truth leg)"
    "parse_contract_id (el_contract_id leg) (Some ?day) = Inr contract"
    and sg: "\<not> list_ex fst (symbol_guard cfg contract @
            [(oc_expiration contract \<noteq> ?day,
              ''contract expiry must equal the snapshot exchange trading date (expiry='' @ date_text (oc_expiration contract) @
              '', trading_date='' @ date_text ?day @ '')''),
             (\<not> oc_is_0dte contract, ''only 0DTE contracts are supported'')])"
    and rw: "(case surface_row sf (el_contract_id leg) of
           None \<Rightarrow> cognitive_error (''contract_id '' @ py_repr (el_contract_id leg) @ '' is absent from the option surface'')
         | Some row \<Rightarrow> validate_quote_age (Some (el_max_quote_age_seconds leg)) row) = Inr u"
    using l unfolding validate_leg_def Let_def by (elim sum_thenE, unfold guard_all_Inr, elim conjE) (rule that, assumption+)
  have k': "oc_symbol contract = vc_allowed_symbol cfg" "oc_expiration contract = ?day"
    using sg by (simp_all add: symbol_guard_def)
  obtain row where "surface_row sf (el_contract_id leg) = Some row"
    "validate_quote_age (Some (el_max_quote_age_seconds leg)) row = Inr ()"
    using rw by (auto simp: cognitive_error_def split: option.splits)
  then show thesis using that leg sf g k k' pc c by blast
qed

lemma compiled_fields:
  assumes "compile_proposal account evidence None (Some day) p = Inr pc" "ep_legs p = [leg]"
    "parse_contract_id (el_contract_id leg) (Some day) = Inr contract"
  shows "ec_client_order_id (pc_command pc) = entry_order_id p leg" "oi_contract (ec_intent (pc_command pc)) = contract"
    "oi_side (ec_intent (pc_command pc)) = el_side leg" "oi_quantity (ec_intent (pc_command pc)) = el_quantity leg"
    "oi_order_type (ec_intent (pc_command pc)) = ep_order_type p" "oi_limit_price (ec_intent (pc_command pc)) = el_limit_price leg"
    "oi_intent_id (ec_intent (pc_command pc)) = entry_order_id p leg" "oi_candidate_id (ec_intent (pc_command pc)) = ep_proposal_id p"
    "ec_account (pc_command pc) = account" "pc_proposal_id pc = ep_proposal_id p" "pc_snapshot_id pc = ep_snapshot_id p"
    "pc_max_quote_age_seconds pc = Some (el_max_quote_age_seconds leg)"
  using assms(1) unfolding compile_proposal_def assms(2) by (auto simp: assms(3) sum_then_def Let_def)

section \<open>The truth of a projection\<close>

lemma working_has_no_proposal: "w \<in> set (working_orders_from_projection projection []) \<Longrightarrow> wo_proposal_id w = None"
proof -
  have "wo_proposal_id v = None" if "working_of [] ord = Some v" for ord v
    using that by (auto simp: working_of_def Let_def split: if_splits)
  moreover assume "w \<in> set (working_orders_from_projection projection [])"
  ultimately show ?thesis by (force simp: working_orders_from_projection_def List.map_filter_def split: option.splits)
qed

text \<open>The working orders of a projection carry no proposal id, so the last check of the validator never fires.\<close>

lemma conflict_check_is_dead: "\<not> proposal_conflict (build_truth_from_deps snapshot quality sf projection submitted mode) p"
  using working_has_no_proposal [of _ projection]
  by (auto simp: proposal_conflict_def build_truth_from_deps_def Let_def list_ex_iff)

lemma open_positions_member: "dict_get d cid = None \<longleftrightarrow> cid \<notin> set (map fst d)"
  by (induction d) auto

text \<open>
  The validator of the entry tactician's proposal and the gateway that the order passes next agree. When a
  proposal is validated and compiled against a snapshot, its quality report and surface and the projection, and its
  contract id is written the way the execution runtime writes it, then the gateway, asked to act on the same truth,
  accepts the order exactly when its leg is a buy, and the command it compiles is the one the proposal was compiled
  to. A sell leg is accepted by the validator and always refused by the gateway.
\<close>

theorem accepted_proposal_passes_gateway:
  assumes compiled: "validate_and_compile_proposal default_validation account evidence latest day
      (Some (build_truth_from_deps snapshot quality sf projection submitted mode)) p = Inr pc"
    and named: "ep_proposal_id p \<noteq> []"
    and canonical: "contract_id_for (oi_contract (ec_intent (pc_command pc))) = el_contract_id (hd (ep_legs p))"
    and kind: "action = ENTRY \<or> action = PROBE"
  defines "verdict \<equiv> validate_and_compile 20 submitted (provenanced_to_action_request pc action) snapshot quality sf
      (working_orders_from_projection projection []) (open_positions_from_projection projection)"
  shows "if el_side (hd (ep_legs p)) = Buy then verdict = Inr (pc_command pc) else \<exists>msg. verdict = Inl (CognitiveValidationError msg)"
proof -
  let ?t = "build_truth_from_deps snapshot quality sf projection submitted mode"
  obtain leg contract s row where a: "ep_legs p = [leg]" "mt_surface ?t = Some s" "\<not> list_ex fst (truth_guard default_validation ?t p)"
    "\<not> list_ex fst (leg_basics default_validation leg)" "\<not> list_ex fst (conflict_guard ?t leg)"
    "parse_contract_id (el_contract_id leg) (Some (mk_trading_date (mt_snapshot ?t))) = Inr contract"
    "oc_symbol contract = vc_allowed_symbol default_validation" "oc_expiration contract = mk_trading_date (mt_snapshot ?t)"
    "surface_row s (el_contract_id leg) = Some row" "validate_quote_age (Some (el_max_quote_age_seconds leg)) row = Inr ()"
    "compile_proposal account evidence None (Some (mk_trading_date (mt_snapshot ?t))) p = Inr pc"
    by (rule accepted_proposal [OF compiled])
  note f = compiled_fields [OF a(11,1,6)]
  define rq where "rq = provenanced_to_action_request pc action"
  have rq: "rq_action rq = action" "rq_contract_id rq = el_contract_id leg" "rq_side rq = el_side leg" "rq_quantity rq = el_quantity leg"
    "rq_client_order_id rq = entry_order_id p leg" "rq_limit_price rq = el_limit_price leg" "rq_order_type rq = ep_order_type p"
    "rq_max_quote_age_seconds rq = Some (el_max_quote_age_seconds leg)" "rq_proposal_id rq = Some (ep_proposal_id p)"
    "rq_broker_account_id rq = account"
    using canonical by (simp_all add: rq_def provenanced_to_action_request_def Let_def f a(1))
  have t: "mt_snapshot ?t = snapshot" "mt_quality ?t = quality" "mt_surface ?t = sf" "mt_submitted ?t = submitted"
    "mt_working ?t = working_orders_from_projection projection []"
    "mt_open_positions ?t = map fst (open_positions_from_projection projection)"
    by (simp_all add: build_truth_from_deps_def Let_def)
  have cmd: "compile_command rq (first_nonempty [rq_proposal_id rq, rq_decision_id rq] (rq_client_order_id rq)) contract
      (rq_side rq) (rq_quantity rq) = pc_command pc"
    using f named by (simp add: compile_command_def rq)
  have g: "\<not> list_ex fst (quality_guard action quality @ surface_guard snapshot sf)" "ep_proposal_id p \<notin> submitted"
    using a(3) by (auto simp: truth_guard_def t quality_guard_def)
  have k: "\<not> list_ex fst (contract_guard contract snapshot)"
    using a(7,8) by (simp add: contract_guard_def default_validation_def t)
  have q: "\<not> list_ex fst (quantity_guard rq 20)" using a(4) by (simp add: quantity_guard_def rq leg_basics_def default_validation_def)
  have w: "\<not> list_ex (\<lambda>w. wo_proposal_id w = Some (ep_proposal_id p)) (working_orders_from_projection projection [])"
    using working_has_no_proposal [of _ projection] by (auto simp: list_ex_iff)
  let ?w = "working_orders_from_projection projection []" let ?o = "open_positions_from_projection projection"
  let ?gs = "quantity_guard rq 20 @ entry_guard rq submitted ?w ?o @ add_guard rq ?w ?o @ close_guard rq ?w ?o @ replace_guard rq ?w"
  have sf: "sf = Some s" using a(2) t by simp
  have passed: "guard_all (quality_guard action quality @ surface_guard snapshot sf) () = Inr ()"
    "guard_all (contract_guard contract snapshot) () = Inr ()"
    using g(1) k by (simp_all add: guard_all_Inr)
  have row: "parse_contract_id (rq_contract_id rq) (Some (mk_trading_date snapshot)) = Inr contract"
    "surface_row (the sf) (rq_contract_id rq) = Some row" "validate_quote_age (rq_max_quote_age_seconds rq) row = Inr ()"
    using a(6,9,10) unfolding t(1) by (simp_all add: rq sf)
  have verdict: "verdict = guard_all ?gs (pc_command pc)"
    unfolding verdict_def rq_def [symmetric] validate_and_compile_def rq(1) passed(1) sum_then_def
    by (simp add: row passed(2) cmd del: first_nonempty.simps)
  show ?thesis
  proof (cases "el_side leg = Buy")
    case True
    then have "\<not> list_ex fst (entry_guard rq submitted ?w ?o)"
      using a(5) g(2) w by (auto simp: entry_guard_def conflict_guard_def t rq opt_truthy_def open_positions_member)
    moreover have "\<not> list_ex fst (add_guard rq ?w ?o @ close_guard rq ?w ?o @ replace_guard rq ?w)"
      using kind by (auto simp: add_guard_def close_guard_def replace_guard_def rq)
    ultimately have "verdict = Inr (pc_command pc)" using q by (simp add: verdict guard_all_Inr)
    then show ?thesis using True a(1) by simp
  next
    case False
    then have "list_ex fst ?gs" using kind by (auto simp: entry_guard_def rq)
    then have "\<exists>e. verdict = Inl e" unfolding verdict using guard_all_Inr [of ?gs "pc_command pc"] by (cases "guard_all ?gs (pc_command pc)") blast+
    then show ?thesis using False a(1) guard_all_Inl unfolding verdict by fastforce
  qed
qed

section \<open>A proposal\<close>

definition demo_leg :: "side \<Rightarrow> execution_leg" where
  "demo_leg sd = \<lparr>el_leg_id = ''l1'', el_contract_id = demo_contract_id, el_side = sd, el_quantity = 2, el_limit_price = Some 2,
     el_sequence_order = 1, el_max_quote_age_seconds = 60, el_replacement_policy = ''none'', el_partial_fill_policy = ''keep''\<rparr>"

definition demo_proposal :: "side \<Rightarrow> execution_proposal" where
  "demo_proposal sd = \<lparr>ep_proposal_id = ''p9'', ep_decision_id = ''d9'', ep_strategy_id = ''s9'', ep_session_id = ''s'', ep_cycle_id = ''c'',
     ep_snapshot_id = demo_snapshot_id, ep_action = Act_Execute, ep_legs = [demo_leg sd], ep_order_type = Limit,
     ep_time_in_force = ''day'', ep_cancel_after_seconds = None, ep_entry_rationale = ''r'', ep_invalidation_conditions = [],
     ep_supporting_evidence_ids = [], ep_prompt_version = ''1'', ep_model_call_id = ''m'', ep_created_at = at_utc 0\<rparr>"

definition demo_truth_now :: market_truth where
  "demo_truth_now = build_truth_from_deps demo_market (Some (demo_report True)) (Some demo_truth_surface) None {} ''PAPER''"

definition demo_compiled :: "side \<Rightarrow> py_error + provenanced_command" where
  "demo_compiled sd = validate_and_compile_proposal default_validation ''default'' [] None None (Some demo_truth_now) (demo_proposal sd)"

lemma demo_compiled: "\<exists>pc. demo_compiled sd = Inr pc \<and> oi_contract (ec_intent (pc_command pc)) = demo_contract"
proof -
  have up: "py_upper ''PAPER'' = ''PAPER''" by code_simp
  have row: "surface_row demo_truth_surface demo_contract_id = Some demo_quote_row"
    by (simp add: surface_row_def demo_truth_surface_def demo_quote_row)
  have t: "demo_truth_now =
      \<lparr>mt_snapshot = demo_market, mt_quality = Some (demo_report True), mt_surface = Some demo_truth_surface, mt_working = [],
       mt_open_order_clients = [], mt_open_positions = [], mt_submitted = {}, mt_trading_mode = ''PAPER''\<rparr>"
    by (simp add: demo_truth_now_def build_truth_from_deps_def working_orders_from_projection_def open_positions_from_projection_def)
  have usable: "qr_usable_for_execution (demo_report True)" by (simp add: demo_report_def)
  have ids: "mk_snapshot_id demo_market = demo_snapshot_id" "mk_trading_date demo_market = 20000"
    "mk_option_surface_id demo_market = Some ''sf1''" "sf_surface_id demo_truth_surface = ''sf1''"
    by (simp_all add: demo_market_def demo_truth_surface_def)
  have g: "\<not> list_ex fst (truth_guard default_validation demo_truth_now (demo_proposal sd))"
    by (simp add: truth_guard_def t ids usable demo_proposal_def paper_guard_def up default_validation_def
        surface_guard_def shape_guard_def)
  have l: "validate_leg default_validation demo_truth_now demo_truth_surface (demo_leg sd) = Inr ()"
    by (cases sd) (simp_all add: validate_leg_def Let_def t ids demo_leg_def leg_basics_def default_validation_def
        sum_then_def demo_parsed symbol_guard_def demo_contract_def row validate_quote_age_def demo_quote_row conflict_guard_def
        has_working_entry_order_def)
  show ?thesis
    using g l by (simp add: demo_compiled_def validate_and_compile_proposal_def validate_authoritative_def sum_then_def guard_all_Inr
        [THEN iffD2] t demo_proposal_def proposal_conflict_def compile_proposal_def ids demo_leg_def demo_parsed Let_def)
qed

theorem accepted_proposal_passes_gateway_witness:
  "\<exists>pc cmd. demo_compiled Buy = Inr pc \<and>
     validate_and_compile 20 {} (provenanced_to_action_request pc ENTRY) demo_market (Some (demo_report True)) (Some demo_truth_surface)
       (working_orders_from_projection None []) (open_positions_from_projection None) = Inr cmd"
proof -
  obtain pc where pc: "demo_compiled Buy = Inr pc" "oi_contract (ec_intent (pc_command pc)) = demo_contract"
    using demo_compiled by blast
  have named_id: "contract_id_for demo_contract = demo_contract_id" by code_simp
  have n: "ep_proposal_id (demo_proposal Buy) \<noteq> []" by (simp add: demo_proposal_def)
  have c: "contract_id_for (oi_contract (ec_intent (pc_command pc))) = el_contract_id (hd (ep_legs (demo_proposal Buy)))"
    unfolding pc(2) using named_id by (simp add: demo_proposal_def demo_leg_def)
  have b: "el_side (hd (ep_legs (demo_proposal Buy))) = Buy" by (simp add: demo_proposal_def demo_leg_def)
  from accepted_proposal_passes_gateway [OF pc(1) [unfolded demo_compiled_def demo_truth_now_def] n c disjI1 [OF refl]]
  show ?thesis using b pc(1) by auto
qed

end
