(* ===== verification/Graph_Reducers.thy ===== *)
theory Graph_Reducers
  imports Order_Gateway_Props
begin

text \<open>
  The reducers of the cognitive graphs (\<open>joker/graph/reducers.py\<close>) and the helpers that record traces and errors
  (\<open>joker/graph/node_helpers.py\<close>). LangGraph merges what a node returns into a channel of the state with the reducer
  of the channel; a subgraph returns the whole channel, and a resumed node its update a second time, so the merge has
  to absorb what it has already merged. The contract is a locale, interpreted on every reducer. Of an artefact the
  graph reads the identifier; the rest of the model is the JSON text that \<open>_payload_key\<close> compares.
\<close>

section \<open>Artefacts, traces and errors\<close>

record artefact =
  af_id :: uuid
  af_payload :: string

datatype node_status = Started | Completed | Failed | Skipped

fun node_status_value :: "node_status \<Rightarrow> string" where
  "node_status_value Started = ''started''"
| "node_status_value Completed = ''completed''"
| "node_status_value Failed = ''failed''"
| "node_status_value Skipped = ''skipped''"

record node_trace =
  nt_trace_id :: uuid
  nt_node_name :: string
  nt_status :: node_status
  nt_artifact_ids :: "uuid list"

record graph_error =
  ge_error_id :: uuid
  ge_node_name :: string
  ge_error_code :: string
  ge_message :: string
  ge_recoverable :: bool

section \<open>Merging\<close>

text \<open>The loop of \<open>_merge_models\<close>: the first item under an id is kept, whether a later one conflicts or not.\<close>

definition merge_step :: "('a \<Rightarrow> string) \<Rightarrow> ('a \<Rightarrow> string) \<Rightarrow> 'a \<Rightarrow> (string, 'a) dict \<Rightarrow> (string, 'a) dict" where
  "merge_step ident payload item merged =
     (case dict_get merged (ident item) of
        None \<Rightarrow> dict_set (ident item) item merged
      | Some prior \<Rightarrow> if payload prior \<noteq> payload item then merged else merged)"

definition merge_models ::
  "('a \<Rightarrow> string) \<Rightarrow> ('a \<Rightarrow> string) \<Rightarrow> ('a \<Rightarrow> string) \<Rightarrow> 'a list \<Rightarrow> 'a list \<Rightarrow> 'a list" where
  "merge_models ident payload key existing incoming =
     sort_key key (dict_values (fold (merge_step ident payload) (existing @ incoming) []))"

definition merge_artefacts :: "artefact list \<Rightarrow> artefact list \<Rightarrow> artefact list" where
  "merge_artefacts = merge_models af_id af_payload af_id"

definition trace_payload :: "node_trace \<Rightarrow> string" where
  "trace_payload t = nt_node_name t @ node_status_value (nt_status t) @ concat (nt_artifact_ids t)"

definition merge_traces :: "node_trace list \<Rightarrow> node_trace list \<Rightarrow> node_trace list" where
  "merge_traces = merge_models nt_trace_id trace_payload (\<lambda>t. nt_node_name t @ '':'' @ nt_trace_id t)"

definition error_payload :: "graph_error \<Rightarrow> string" where
  "error_payload e = ge_node_name e @ ge_error_code e @ ge_message e"

definition merge_errors :: "graph_error list \<Rightarrow> graph_error list \<Rightarrow> graph_error list" where
  "merge_errors = merge_models ge_error_id error_payload ge_error_id"

text \<open>\<open>find_conflicting_ids\<close>\<close>

definition find_conflicting_ids ::
  "('a \<Rightarrow> string) \<Rightarrow> ('a \<Rightarrow> string) \<Rightarrow> 'a list \<Rightarrow> 'a list \<Rightarrow> string list" where
  "find_conflicting_ids ident payload existing incoming =
     (let known = foldl (\<lambda>d x. dict_set (ident x) x d) [] existing
      in map ident (filter (\<lambda>x. case dict_get known (ident x) of
                                   None \<Rightarrow> False | Some prior \<Rightarrow> payload prior \<noteq> payload x) incoming))"

section \<open>The contract of a reducer\<close>

lemma find_distinct: "distinct (map f xs) \<Longrightarrow> x \<in> set xs \<Longrightarrow> find (\<lambda>y. f y = f x) xs = Some x"
  by (induction xs) (auto simp: image_iff)

lemma find_append: "find p (xs @ ys) = (case find p xs of None \<Rightarrow> find p ys | Some x \<Rightarrow> Some x)"
  by (induction xs) auto

text \<open>
  \<open>reads\<close> is the view a client has of a channel: the item under an identifier. A reducer keeps what is there, adds
  what is new under its first occurrence, and lists the channel in the order of a key.
\<close>

locale reducer =
  fixes merge :: "'a list \<Rightarrow> 'a list \<Rightarrow> 'a list"
    and ident :: "'a \<Rightarrow> string"
    and key :: "'a \<Rightarrow> string"
  assumes merge_set: "x \<in> set (merge xs ys) \<longleftrightarrow> find (\<lambda>y. ident y = ident x) (xs @ ys) = Some x"
    and merge_distinct: "distinct (map ident (merge xs ys))"
    and merge_sorted: "sorted (map key (merge xs ys))"
begin

lemma merge_ids: "ident ` set (merge xs ys) = ident ` set (xs @ ys)"
proof (intro subset_antisym subsetI)
  fix i assume "i \<in> ident ` set (xs @ ys)"
  then obtain x where x: "find (\<lambda>y. ident y = i) (xs @ ys) = Some x"
    by (cases "find (\<lambda>y. ident y = i) (xs @ ys)") (auto simp: find_None_iff)
  then have "ident x = i" by (auto simp: find_Some_iff)
  with x show "i \<in> ident ` set (merge xs ys)" by (auto simp: merge_set image_iff)
next
  fix i assume "i \<in> ident ` set (merge xs ys)"
  then obtain x where "find (\<lambda>y. ident y = ident x) (xs @ ys) = Some x" "i = ident x" by (auto simp: merge_set)
  then show "i \<in> ident ` set (xs @ ys)" using find_member by fastforce
qed

lemma merge_first: "find (\<lambda>y. ident y = i) (merge xs ys) = find (\<lambda>y. ident y = i) (xs @ ys)"
proof (cases "find (\<lambda>y. ident y = i) (xs @ ys)")
  case None
  then have "i \<notin> ident ` set (merge xs ys)" unfolding merge_ids by (auto simp: find_None_iff)
  then have "find (\<lambda>y. ident y = i) (merge xs ys) = None" by (auto simp: find_None_iff)
  then show ?thesis using None by simp
next
  case (Some x)
  then have i: "ident x = i" by (auto simp: find_Some_iff)
  have x: "x \<in> set (merge xs ys)" using Some i by (simp add: merge_set)
  obtain y where y: "find (\<lambda>y. ident y = i) (merge xs ys) = Some y"
    using x i by (cases "find (\<lambda>y. ident y = i) (merge xs ys)") (auto simp: find_None_iff)
  then have "y \<in> set (merge xs ys)" "ident y = i" using find_member by fastforce+
  then have "y = x" using merge_distinct [of xs ys] x i by (auto simp: distinct_map inj_on_def)
  with y Some show ?thesis by simp
qed

text \<open>What was merged once is not merged again, and existing items are never replaced.\<close>

lemma same_members:
  assumes "\<And>i. find (\<lambda>y. ident y = i) (us @ vs) = find (\<lambda>y. ident y = i) (xs @ ys)"
  shows "set (merge us vs) = set (merge xs ys)"
  by (auto simp: merge_set assms)

lemma replay_members: "set (merge (merge xs ys) ys) = set (merge xs ys)"
proof (rule same_members)
  fix i show "find (\<lambda>y. ident y = i) (merge xs ys @ ys) = find (\<lambda>y. ident y = i) (xs @ ys)"
    using merge_first [of i xs ys] by (auto simp: find_append split: option.splits)
qed

lemma absorb_members: "set (merge xs (merge xs ys)) = set (merge xs ys)"
proof (rule same_members)
  fix i show "find (\<lambda>y. ident y = i) (xs @ merge xs ys) = find (\<lambda>y. ident y = i) (xs @ ys)"
    using merge_first [of i xs ys] by (auto simp: find_append split: option.splits)
qed

end

text \<open>A reducer whose key tells items apart: equal members make equal lists.\<close>

locale keyed_reducer = reducer +
  assumes key_ident: "key x = key y \<Longrightarrow> ident x = ident y"
begin

lemma merge_unique:
  assumes "set (merge us vs) = set (merge xs ys)"
  shows "merge us vs = merge xs ys"
proof -
  have inj: "inj_on key (set (merge xs ys))" for xs ys
  proof (rule inj_onI)
    fix x y assume "x \<in> set (merge xs ys)" "y \<in> set (merge xs ys)" "key x = key y"
    then show "x = y" using merge_distinct [of xs ys] key_ident [of x y] unfolding distinct_map by (blast dest: inj_onD)
  qed
  have d: "distinct (map key (merge xs ys))" for xs ys
    using inj merge_distinct by (auto simp: distinct_map)
  have "map key (merge us vs) = map key (merge xs ys)"
    using assms by (intro sorted_distinct_set_unique merge_sorted d) simp
  then show ?thesis
    by (rule map_inj_on) (use inj [of us vs] assms in simp)
qed

lemmas replay = merge_unique [OF replay_members]
lemmas absorb = merge_unique [OF absorb_members]

end

section \<open>The reducers of the graph\<close>

lemma merge_step_get:
  "dict_get (fold (merge_step ident payload) xs d) i =
     (case dict_get d i of Some x \<Rightarrow> Some x | None \<Rightarrow> find (\<lambda>y. ident y = i) xs)"
  by (induction xs arbitrary: d) (auto simp: merge_step_def split: option.splits)

lemma merge_step_ok:
  assumes "dict_ok d" "\<forall>(k, v) \<in> set d. ident v = k"
  shows "dict_ok (fold (merge_step ident payload) xs d) \<and> (\<forall>(k, v) \<in> set (fold (merge_step ident payload) xs d). ident v = k)"
  using assms
proof (induction xs arbitrary: d)
  case (Cons x xs)
  have "dict_ok (merge_step ident payload x d)" "\<forall>(k, v) \<in> set (merge_step ident payload x d). ident v = k"
    using Cons.prems by (auto simp: merge_step_def split: option.splits dest: dict_set_values)
  then show ?case using Cons.IH by simp
qed simp

lemma merge_models_reducer: "reducer (merge_models ident payload key) ident key"
proof
  fix xs ys :: "'a list" and x
  let ?d = "fold (merge_step ident payload) (xs @ ys) []"
  have ok: "dict_ok ?d" and k: "\<forall>(k, v) \<in> set ?d. ident v = k" using merge_step_ok [of "[]" ident payload "xs @ ys"] by simp_all
  have "x \<in> set (dict_values ?d) \<longleftrightarrow> dict_get ?d (ident x) = Some x"
    using dict_ok_get [OF ok] k dict_get_in_values [of ?d] by fastforce
  then show "x \<in> set (merge_models ident payload key xs ys) \<longleftrightarrow> find (\<lambda>y. ident y = ident x) (xs @ ys) = Some x"
    by (simp add: merge_models_def merge_step_get find_append)
  have "map ident (dict_values ?d) = map fst ?d" using k by (auto simp: map_eq_conv intro: map_cong)
  then have "distinct (map ident (dict_values ?d))" using ok by (simp only:)
  then have "distinct (dict_values ?d) \<and> inj_on ident (set (dict_values ?d))" by (rule distinct_map [THEN iffD1])
  then show "distinct (map ident (merge_models ident payload key xs ys))"
    unfolding merge_models_def by (intro distinct_map [THEN iffD2]) simp
  show "sorted (map key (merge_models ident payload key xs ys))" by (simp add: merge_models_def)
qed

interpretation artefacts: keyed_reducer merge_artefacts af_id af_id
  unfolding merge_artefacts_def by (intro keyed_reducer.intro merge_models_reducer) (unfold_locales, simp)

interpretation errors: keyed_reducer merge_errors ge_error_id ge_error_id
  unfolding merge_errors_def by (intro keyed_reducer.intro merge_models_reducer) (unfold_locales, simp)

interpretation traces: reducer merge_traces nt_trace_id "\<lambda>t. nt_node_name t @ '':'' @ nt_trace_id t"
  unfolding merge_traces_def by (rule merge_models_reducer)

text \<open>
  The channels of the graph absorb repetition. Merging an update a second time, as a resumed node does, or
  merging the whole channel a subgraph returns, changes nothing; an item stays under its identifier as it was first
  recorded, whatever is merged later; and the conflicts of an update are exactly the items that the merge drops in
  favour of a different one.
\<close>

theorem reducers_absorb_repetition:
  "merge_artefacts (merge_artefacts xs ys) ys = merge_artefacts xs ys"
  "merge_artefacts xs (merge_artefacts xs ys) = merge_artefacts xs ys"
  "merge_errors (merge_errors es fs) fs = merge_errors es fs"
  "find (\<lambda>x. af_id x = i) (merge_artefacts (merge_artefacts xs ys) zs) =
     (case find (\<lambda>x. af_id x = i) (merge_artefacts xs ys) of None \<Rightarrow> find (\<lambda>x. af_id x = i) zs | Some x \<Rightarrow> Some x)"
  "i \<in> set (find_conflicting_ids af_id af_payload (merge_artefacts xs ys) zs) \<longleftrightarrow>
     (\<exists>z \<in> set zs. \<exists>x \<in> set (merge_artefacts xs ys). af_id z = i \<and> af_id x = i \<and> af_payload x \<noteq> af_payload z)"
proof -
  show "merge_artefacts (merge_artefacts xs ys) ys = merge_artefacts xs ys" by (rule artefacts.replay)
  show "merge_artefacts xs (merge_artefacts xs ys) = merge_artefacts xs ys" by (rule artefacts.absorb)
  show "merge_errors (merge_errors es fs) fs = merge_errors es fs" by (rule errors.replay)
  show "find (\<lambda>x. af_id x = i) (merge_artefacts (merge_artefacts xs ys) zs) =
     (case find (\<lambda>x. af_id x = i) (merge_artefacts xs ys) of None \<Rightarrow> find (\<lambda>x. af_id x = i) zs | Some x \<Rightarrow> Some x)"
    by (simp add: artefacts.merge_first find_append)
  show "i \<in> set (find_conflicting_ids af_id af_payload (merge_artefacts xs ys) zs) \<longleftrightarrow>
     (\<exists>z \<in> set zs. \<exists>x \<in> set (merge_artefacts xs ys). af_id z = i \<and> af_id x = i \<and> af_payload x \<noteq> af_payload z)"
  proof -
    have known: "dict_get (foldl (\<lambda>d x. dict_set (af_id x) x d) [] zs) k = find (\<lambda>x. af_id x = k) (rev zs)" for zs :: "artefact list" and k
      by (induction zs rule: rev_induct) auto
    let ?m = "merge_artefacts xs ys"
    have m: "find (\<lambda>x. af_id x = k) (rev ?m) = Some x \<longleftrightarrow> x \<in> set ?m \<and> af_id x = k" for x k
      using find_distinct [of af_id "rev ?m" x] artefacts.merge_distinct [of xs ys] by (auto simp: rev_map [symmetric] dest: find_member)
    have "(case find (\<lambda>x. af_id x = af_id z) (rev ?m) of None \<Rightarrow> False | Some prior \<Rightarrow> af_payload prior \<noteq> af_payload z) \<longleftrightarrow>
        (\<exists>x \<in> set ?m. af_id x = af_id z \<and> af_payload x \<noteq> af_payload z)" for z
    proof (cases "find (\<lambda>x. af_id x = af_id z) (rev ?m)")
      case None
      then have "\<forall>x \<in> set ?m. af_id x \<noteq> af_id z" by (auto simp: find_None_iff)
      then show ?thesis unfolding None by auto
    next
      case (Some x)
      have u: "y = x" if "y \<in> set ?m" "af_id y = af_id z" for y using that Some m [of "af_id z" y] by simp
      have x: "x \<in> set ?m" "af_id x = af_id z" using Some m [of "af_id z" x] by simp_all
      show ?thesis unfolding Some option.case(2) using x by (intro iffI) (blast, metis u)
    qed
    note conflict = this [folded known]
    show ?thesis unfolding find_conflicting_ids_def Let_def by (auto simp: conflict)
  qed
qed

end
