(* ===== verification/Cognitive_Graph.thy ===== *)
theory Cognitive_Graph
  imports Cognitive_Proposal Graph_Reducers
begin

text \<open>
  The decision graph of the cognitive agents (\<open>joker/graph/cognitive_graph.py\<close>, its state of
  \<open>cognitive_state.py\<close> and its subgraphs \<open>perception_graph.py\<close>, \<open>discovery_graph.py\<close>, \<open>strategy_graph.py\<close> and
  \<open>debate_graph.py\<close>): every node, the conditional edges, and the run from the trigger to the end. What an agent answers
  and what a repository of artefacts stores are parameters over a state of their own; so is the assembly of a context.
  LangGraph runs one node after another, merges what it returns with the reducer of the channel and gives up after its
  recursion limit; a subgraph is the node it runs. The times of traces and errors are left out.
\<close>

section \<open>The state of a cycle\<close>

record context_package =
  cp_context_id :: uuid
  cp_session_id :: string
  cp_cycle_id :: string
  cp_snapshot_id :: uuid

datatype meta_action = Meta_Execute | Meta_Probe | Meta_Delay | Meta_More_Evidence | Meta_Switch | Meta_Abandon

record meta_decision =
  md_decision_id :: uuid
  md_action :: meta_action
  md_selected_strategy_id :: "uuid option"
  md_alternate_strategy_ids :: "uuid list"
  md_requested_evidence :: "string list"

record cycle =
  cy_run_id :: string
  cy_session_id :: string
  cy_cycle_id :: string
  cy_trigger_event_id :: string
  cy_trigger_event_type :: string
  cy_snapshot_id :: string
  cy_latest_known_snapshot_id :: string
  cy_context_ref :: "uuid option"
  cy_evidence :: "artefact list"
  cy_world_model :: "artefact option"
  cy_hypotheses :: "artefact list"
  cy_strategies :: "artefact list"
  cy_reviews :: "artefact list"
  cy_meta_decision :: "meta_decision option"
  cy_execution_proposal :: "execution_proposal option"
  cy_command_id :: "string option"
  cy_result_ref :: "string option"
  cy_pending_evidence :: "string list"
  cy_node_trace :: "node_trace list"
  cy_errors :: "graph_error list"
  cy_debate_round :: int
  cy_strategy_switch_count :: int
  cy_selected_strategy_ids :: "string list"
  cy_stale_decision :: bool
  cy_context_package :: "context_package option"
  cy_data_quality :: "quality_report option"
  cy_option_surface_id :: "uuid option"

definition initial_cycle_state :: "string \<Rightarrow> string \<Rightarrow> string \<Rightarrow> string \<Rightarrow> string \<Rightarrow> string \<Rightarrow> cycle" where
  "initial_cycle_state session run_id cycle_id trigger trigger_type snapshot_id =
     \<lparr>cy_run_id = run_id, cy_session_id = session, cy_cycle_id = cycle_id, cy_trigger_event_id = trigger,
      cy_trigger_event_type = trigger_type, cy_snapshot_id = snapshot_id, cy_latest_known_snapshot_id = snapshot_id,
      cy_context_ref = None, cy_evidence = [], cy_world_model = None, cy_hypotheses = [], cy_strategies = [], cy_reviews = [],
      cy_meta_decision = None, cy_execution_proposal = None, cy_command_id = None, cy_result_ref = None,
      cy_pending_evidence = [], cy_node_trace = [], cy_errors = [], cy_debate_round = 0, cy_strategy_switch_count = 0,
      cy_selected_strategy_ids = [], cy_stale_decision = False, cy_context_package = None, cy_data_quality = None,
      cy_option_surface_id = None\<rparr>"

section \<open>The services of the nodes\<close>

record graph_settings =
  st_max_debate_rounds :: int
  st_max_strategy_candidates :: nat
  st_max_hypotheses :: nat
  st_max_strategy_switches :: int

definition default_graph_settings :: graph_settings where
  "default_graph_settings = \<lparr>st_max_debate_rounds = 2, st_max_strategy_candidates = 3, st_max_hypotheses = 5,
     st_max_strategy_switches = 1\<rparr>"

record ('g, 'b) graph_env =
  ce_deps :: "'b gateway_deps"
  ce_settings :: graph_settings
  ce_session_id :: string
  ce_uuid :: "nat \<Rightarrow> uuid"
  ce_assemble :: "string \<Rightarrow> cycle \<Rightarrow> market_state \<Rightarrow> quality_report \<Rightarrow> surface option \<Rightarrow> projection_state option \<Rightarrow>
                  py_error + context_package"
  ce_store :: "string \<Rightarrow> uuid \<Rightarrow> ('g, unit) run"
  ce_observe :: "string \<Rightarrow> cycle \<Rightarrow> market_state \<Rightarrow> ('g, artefact) run"
  ce_synthesise :: "cycle \<Rightarrow> market_state \<Rightarrow> ('g, artefact) run"
  ce_discover :: "nat \<Rightarrow> context_package \<Rightarrow> ('g, artefact list) run"
  ce_invent :: "context_package \<Rightarrow> ('g, artefact list) run"
  ce_review :: "artefact \<Rightarrow> context_package \<Rightarrow> ('g, artefact list) run"
  ce_decide :: "cycle \<Rightarrow> context_package \<Rightarrow> ('g, meta_decision) run"
  ce_propose :: "cycle \<Rightarrow> context_package \<Rightarrow> meta_decision \<Rightarrow> artefact \<Rightarrow> ('g, execution_proposal) run"
  ce_submit_callback :: "(provenanced_command \<Rightarrow> ('b gateway_state, string option) run) option"
  ce_has_bus :: bool

record cycle_completed =
  cc_session_id :: string
  cc_cycle_id :: string
  cc_snapshot_id :: string
  cc_outcome :: string
  cc_command_id :: "string option"

record ('g, 'b) graph_run =
  gr_agents :: 'g
  gr_gateway :: "'b gateway_state"
  gr_published :: "cycle_completed list"
  gr_ids :: nat

type_synonym ('g, 'b) node = "cycle \<Rightarrow> (('g, 'b) graph_run, cycle) run"

definition on_agents :: "('g, 'a) run \<Rightarrow> (('g, 'b) graph_run, 'a) run" where
  "on_agents m s = (case m (gr_agents s) of (r, g) \<Rightarrow> (r, s\<lparr>gr_agents := g\<rparr>))"

definition on_gateway :: "('b gateway_state, 'a) run \<Rightarrow> (('g, 'b) graph_run, 'a) run" where
  "on_gateway m s = (case m (gr_gateway s) of (r, g) \<Rightarrow> (r, s\<lparr>gr_gateway := g\<rparr>))"

definition fresh_id :: "('g, 'b) graph_env \<Rightarrow> (('g, 'b) graph_run, uuid) run" where
  "fresh_id env s = run_ret (ce_uuid env (gr_ids s)) (s\<lparr>gr_ids := Suc (gr_ids s)\<rparr>)"

definition append_trace :: "('g, 'b) graph_env \<Rightarrow> string \<Rightarrow> node_status \<Rightarrow> uuid list \<Rightarrow> ('g, 'b) node" where
  "append_trace env name status ids c =
     run_bind (fresh_id env) (\<lambda>i. run_ret (c\<lparr>cy_node_trace := merge_traces (cy_node_trace c)
       [\<lparr>nt_trace_id = i, nt_node_name = name, nt_status = status, nt_artifact_ids = ids\<rparr>]\<rparr>))"

definition append_error :: "('g, 'b) graph_env \<Rightarrow> string \<Rightarrow> string \<Rightarrow> string \<Rightarrow> bool \<Rightarrow> ('g, 'b) node" where
  "append_error env name code msg recoverable c =
     run_bind (fresh_id env) (\<lambda>i. run_ret (c\<lparr>cy_errors := merge_errors (cy_errors c)
       [\<lparr>ge_error_id = i, ge_node_name = name, ge_error_code = code, ge_message = msg, ge_recoverable = recoverable\<rparr>]\<rparr>))"

definition session_of :: "('g, 'b) graph_env \<Rightarrow> cycle \<Rightarrow> string" where
  "session_of env c = first_nonempty [Some (cy_session_id c)] (ce_session_id env)"

definition stored :: "('g, 'b) graph_env \<Rightarrow> string \<Rightarrow> artefact list \<Rightarrow> (('g, 'b) graph_run, artefact list) run" where
  "stored env kind = run_for (\<lambda>a. run_bind (on_agents (ce_store env kind (af_id a))) (\<lambda>_. run_ret [a]))"

section \<open>From the trigger to the world model\<close>

definition validate_trigger :: "('g, 'b) graph_env \<Rightarrow> ('g, 'b) node" where
  "validate_trigger env c =
     (if cy_trigger_event_id c = [] \<or> cy_snapshot_id c = []
      then append_error env ''validate_trigger'' ''invalid_trigger'' ''missing trigger_event_id or snapshot_id'' False c
      else append_trace env ''validate_trigger'' Completed [] c)"

definition hydrate_context :: "('g, 'b) graph_env \<Rightarrow> ('g, 'b) node" where
  "hydrate_context env c =
     (if cy_snapshot_id c = [] \<or> gd_snapshots (ce_deps env) = None
      then append_error env ''hydrate_context'' ''snapshot_unavailable'' ''cannot hydrate context without snapshot repository'' True c
      else case load_snapshot_truth (ce_deps env) (cy_snapshot_id c) of
        Inl e \<Rightarrow> append_error env ''hydrate_context'' ''snapshot_not_found'' (exc_text e) True c
      | Inr (snapshot, quality, sf) \<Rightarrow>
          run_bind (if cy_cycle_id c = [] then fresh_id env else run_ret (cy_cycle_id c)) (\<lambda>cid.
          run_bind (on_gateway (load_projection (ce_deps env))) (\<lambda>projection.
          run_bind (run_lift (ce_assemble env ''market_structure'' (c\<lparr>cy_cycle_id := cid\<rparr>) snapshot quality sf projection)) (\<lambda>ctx.
            append_trace env ''hydrate_context'' Completed []
              (c\<lparr>cy_cycle_id := cid, cy_context_ref := Some (cp_context_id ctx), cy_context_package := Some ctx,
                 cy_data_quality := Some quality, cy_option_surface_id := mk_option_surface_id snapshot,
                 cy_latest_known_snapshot_id := cy_snapshot_id c\<rparr>)))))"

definition perception_roles :: "string list" where
  "perception_roles = [''market_structure'', ''volatility'', ''options_microstructure'', ''temporal_context'', ''anomaly'']"

definition run_perception :: "('g, 'b) graph_env \<Rightarrow> ('g, 'b) node" where
  "run_perception env c =
     (if cy_snapshot_id c = [] then run_ret c
      else run_bind (run_lift (load_snapshot_truth (ce_deps env) (cy_snapshot_id c))) (\<lambda>(snapshot, quality, sf).
           run_bind (run_for (\<lambda>role. run_bind (on_agents (ce_observe env role c snapshot)) (\<lambda>e. stored env ''evidence'' [e]))
                       perception_roles) (\<lambda>evidence.
           run_bind (append_trace env ''perception_swarm'' Started [] c) (\<lambda>c'.
             append_trace env ''perception_swarm'' Completed (map af_id evidence)
               (c'\<lparr>cy_evidence := merge_artefacts (cy_evidence c') evidence\<rparr>)))))"

definition synthesise_world_model :: "('g, 'b) graph_env \<Rightarrow> ('g, 'b) node" where
  "synthesise_world_model env c =
     (if cy_evidence c = []
      then append_error env ''synthesise_world_model'' ''no_evidence'' ''cannot synthesise world model without evidence'' True c
      else case cy_world_model c of
        Some w \<Rightarrow> append_trace env ''synthesise_world_model'' Skipped [af_id w] c
      | None \<Rightarrow>
          run_bind (run_lift (load_snapshot_truth (ce_deps env) (cy_snapshot_id c))) (\<lambda>(snapshot, quality, sf).
          run_bind (on_agents (ce_synthesise env c snapshot)) (\<lambda>w.
          run_bind (on_agents (ce_store env ''world_model'' (af_id w))) (\<lambda>_.
            append_trace env ''synthesise_world_model'' Completed [af_id w] (c\<lparr>cy_world_model := Some w\<rparr>)))))"

section \<open>Hypotheses, strategies and the debate\<close>

definition run_discovery :: "('g, 'b) graph_env \<Rightarrow> ('g, 'b) node" where
  "run_discovery env c =
     (case cy_context_package c of
        None \<Rightarrow> run_ret c
      | Some ctx \<Rightarrow>
          run_bind (on_agents (ce_discover env (st_max_hypotheses (ce_settings env)) ctx)) (\<lambda>found.
          run_bind (stored env ''hypothesis'' found) (\<lambda>hypotheses.
          run_bind (append_trace env ''discovery'' Started [] c) (\<lambda>c'.
            append_trace env ''discovery'' Completed (map af_id hypotheses)
              (c'\<lparr>cy_hypotheses := merge_artefacts (cy_hypotheses c') hypotheses\<rparr>)))))"

definition run_strategy_construction :: "('g, 'b) graph_env \<Rightarrow> ('g, 'b) node" where
  "run_strategy_construction env c =
     (case cy_context_package c of
        None \<Rightarrow> run_ret c
      | Some ctx \<Rightarrow>
          run_bind (on_agents (ce_invent env ctx)) (\<lambda>found.
          run_bind (stored env ''strategy'' (take (st_max_strategy_candidates (ce_settings env)) found)) (\<lambda>strategies.
          run_bind (append_trace env ''strategy_construction'' Started [] c) (\<lambda>c'.
            append_trace env ''strategy_construction'' Completed (map af_id strategies)
              (c'\<lparr>cy_strategies := merge_artefacts (cy_strategies c') strategies\<rparr>)))))"

definition select_debate_candidates :: "('g, 'b) graph_env \<Rightarrow> ('g, 'b) node" where
  "select_debate_candidates env c =
     append_trace env ''select_debate_candidates'' Completed []
       (c\<lparr>cy_selected_strategy_ids := map af_id (take (st_max_strategy_candidates (ce_settings env)) (cy_strategies c))\<rparr>)"

definition debated :: "cycle \<Rightarrow> artefact list" where
  "debated c =
     (if cy_selected_strategy_ids c = [] then cy_strategies c
      else filter (\<lambda>st. af_id st \<in> set (cy_selected_strategy_ids c)) (cy_strategies c))"

definition run_debate :: "('g, 'b) graph_env \<Rightarrow> ('g, 'b) node" where
  "run_debate env c =
     (case cy_context_package c of
        None \<Rightarrow> run_ret c
      | Some ctx \<Rightarrow>
          run_bind (run_for (\<lambda>st. on_agents (ce_review env st ctx)) (debated c)) (\<lambda>found.
          run_bind (stored env ''review'' found) (\<lambda>reviews.
          run_bind (append_trace env ''debate_panel'' Started [] c) (\<lambda>c'.
            append_trace env ''debate_panel'' Completed (map af_id reviews)
              (c'\<lparr>cy_reviews := merge_artefacts (cy_reviews c') reviews\<rparr>)))))"

section \<open>The decision\<close>

text \<open>\<open>validate_meta_decision\<close> (\<open>joker/agents/cognitive/decision.py\<close>)\<close>

definition validate_meta_decision :: "meta_decision \<Rightarrow> artefact list \<Rightarrow> py_error + unit" where
  "validate_meta_decision decision strategies =
     (case md_selected_strategy_id decision of
        None \<Rightarrow> Inr ()
      | Some sid \<Rightarrow>
          if sid \<notin> af_id ` set strategies
          then cognitive_error (''selected_strategy_id='' @ sid @ '' not in candidate strategies'')
          else (case find (\<lambda>i. i \<notin> af_id ` set strategies) (md_alternate_strategy_ids decision) of
                  None \<Rightarrow> Inr ()
                | Some alt \<Rightarrow> cognitive_error (''alternate_strategy_id='' @ alt @ '' not in candidate strategies'')))"

definition meta_decision_node :: "('g, 'b) graph_env \<Rightarrow> ('g, 'b) node" where
  "meta_decision_node env c =
     (case cy_context_package c of
        None \<Rightarrow> run_ret c
      | Some ctx \<Rightarrow>
          run_bind (on_agents (ce_decide env c ctx)) (\<lambda>decision.
          run_bind (run_lift (validate_meta_decision decision (cy_strategies c))) (\<lambda>_.
          run_bind (on_agents (ce_store env ''meta_decision'' (md_decision_id decision))) (\<lambda>_.
            append_trace env ''meta_decision'' Completed [md_decision_id decision] (c\<lparr>cy_meta_decision := Some decision\<rparr>)))))"

definition strategy_switch_revision :: "('g, 'b) graph_env \<Rightarrow> ('g, 'b) node" where
  "strategy_switch_revision env c =
     append_trace env ''strategy_switch_revision'' Completed []
       (c\<lparr>cy_strategy_switch_count := cy_strategy_switch_count c + 1,
          cy_selected_strategy_ids := (case cy_meta_decision c of None \<Rightarrow> [] | Some m \<Rightarrow> md_alternate_strategy_ids m),
          cy_debate_round := cy_debate_round c + 1\<rparr>)"

text \<open>\<open>_selected_strategy\<close>\<close>

definition selected_strategy :: "cycle \<Rightarrow> artefact option" where
  "selected_strategy c =
     (case cy_meta_decision c of
        None \<Rightarrow> None
      | Some m \<Rightarrow>
          (case md_selected_strategy_id m of
             None \<Rightarrow> None
           | Some sid \<Rightarrow>
               (case find (\<lambda>st. af_id st = sid) (cy_strategies c) of
                  Some st \<Rightarrow> Some st
                | None \<Rightarrow> (case cy_strategies c of [] \<Rightarrow> None | st # _ \<Rightarrow> Some st))))"

definition entry_tactician_node :: "('g, 'b) graph_env \<Rightarrow> ('g, 'b) node" where
  "entry_tactician_node env c =
     (case (cy_context_package c, cy_meta_decision c, selected_strategy c) of
        (Some ctx, Some m, Some st) \<Rightarrow>
          run_bind (on_agents (ce_propose env c ctx m st)) (\<lambda>answer.
            let p = stamp_proposal (md_decision_id m) (af_id st) (cp_session_id ctx) (cp_cycle_id ctx) (cp_snapshot_id ctx) answer
            in run_bind (on_agents (ce_store env ''execution_proposal'' (ep_proposal_id p))) (\<lambda>_.
                 append_trace env ''entry_tactician'' Completed [ep_proposal_id p] (c\<lparr>cy_execution_proposal := Some p\<rparr>)))
      | _ \<Rightarrow> append_error env ''entry_tactician'' ''missing_inputs'' ''meta_decision and strategy required for entry tactician'' True c)"

section \<open>The order\<close>

text \<open>The truth is loaded anew and the proposal compiled against it; every exception of it is an outcome.\<close>

definition compile_against_truth ::
  "('g, 'b) graph_env \<Rightarrow> cycle \<Rightarrow> execution_proposal \<Rightarrow> (('g, 'b) graph_run, provenanced_command) run" where
  "compile_against_truth env c p =
     run_bind (run_lift (load_snapshot_truth (ce_deps env) (ep_snapshot_id p))) (\<lambda>(snapshot, quality, sf).
     run_bind (on_gateway (load_projection (ce_deps env))) (\<lambda>projection.
     run_bind (run_get (\<lambda>s. gs_submitted_proposals (gr_gateway s))) (\<lambda>submitted.
       run_lift (validate_and_compile_proposal default_validation ''default'' (map af_id (cy_evidence c)) None None
         (Some (build_truth_from_deps snapshot (Some quality) sf projection submitted ''PAPER'')) p))))"

definition tried :: "('s, 'a) run \<Rightarrow> ('s, py_error + 'a) run" where
  "tried m s = (case m s of (r, s') \<Rightarrow> (Inr r, s'))"

definition validate_execution_proposal :: "('g, 'b) graph_env \<Rightarrow> ('g, 'b) node" where
  "validate_execution_proposal env c =
     (case cy_execution_proposal c of
        None \<Rightarrow> append_error env ''validate_execution_proposal'' ''missing_proposal'' ''no execution proposal to validate'' True c
      | Some p \<Rightarrow>
          run_bind (tried (compile_against_truth env c p)) (\<lambda>r.
            case r of
              Inr _ \<Rightarrow> append_trace env ''validate_execution_proposal'' Completed [] c
            | Inl e \<Rightarrow>
                if contains_text ''stale'' (py_lower (exc_text e))
                then append_error env ''validate_execution_proposal'' ''stale_proposal'' (exc_text e) True (c\<lparr>cy_stale_decision := True\<rparr>)
                else append_error env ''validate_execution_proposal'' ''validation_failed'' (exc_text e) True c))"

definition opening_kind :: "execution_proposal \<Rightarrow> order_action_kind" where
  "opening_kind p = (case ep_action p of Act_Probe \<Rightarrow> PROBE | Act_Execute \<Rightarrow> ENTRY)"

definition callback_provenance :: "('g, 'b) graph_env \<Rightarrow> provenanced_command \<Rightarrow> ('b gateway_state, unit) run" where
  "callback_provenance env pc =
     (let cid = ec_client_order_id (pc_command pc)
      in if \<not> gd_has_provenance (ce_deps env) then run_ret ()
         else run_modify (\<lambda>s. s\<lparr>gs_provenance := insert_or_replace cid
           \<lparr>pv_client_order_id = cid, pv_proposal_id = Some (pc_proposal_id pc), pv_decision_id = Some (pc_decision_id pc),
            pv_strategy_id = Some (pc_strategy_id pc), pv_cycle_id = Some (pc_cycle_id pc), pv_snapshot_id = pc_snapshot_id pc,
            pv_contract_id = contract_id_for (oi_contract (ec_intent (pc_command pc))), pv_session_id = ce_session_id env,
            pv_kind = ''entry'', pv_degraded_reason = None, pv_replace_of = None\<rparr> (gs_provenance s)\<rparr>))"

text \<open>The order id of what was submitted, or the error that ends the node.\<close>

definition place_order ::
  "('g, 'b) graph_env \<Rightarrow> execution_proposal \<Rightarrow> provenanced_command \<Rightarrow>
   ('b gateway_state, (string \<times> string) + (string \<times> string)) run" where
  "place_order env p pc =
     (if gd_has_runtime (ce_deps env)
      then run_bind (gateway_submit (ce_deps env) (provenanced_to_action_request pc (opening_kind p))) (\<lambda>res.
             run_ret (if \<not> rs_submitted res
                      then Inl (''gateway_blocked'', first_nonempty [rs_blocked_reason res] ''order action blocked'')
                      else Inr (rs_client_order_id res,
                                case rs_broker_order res of None \<Rightarrow> rs_client_order_id res | Some ord \<Rightarrow> bo_order_id ord)))
      else case ce_submit_callback env of
        None \<Rightarrow> run_ret (Inl (''no_submit_callback'', ''execution submit callback not configured''))
      | Some callback \<Rightarrow>
          run_bind (callback_provenance env pc) (\<lambda>_.
          run_bind (callback pc) (\<lambda>oid.
          run_bind (run_modify (\<lambda>s. s\<lparr>gs_submitted_proposals := insert (ep_proposal_id p) (gs_submitted_proposals s)\<rparr>)) (\<lambda>_.
            run_ret (Inr (ec_client_order_id (pc_command pc),
                          case oid of None \<Rightarrow> ec_client_order_id (pc_command pc) | Some i \<Rightarrow> i))))))"

definition submit_execution_command_node :: "('g, 'b) graph_env \<Rightarrow> ('g, 'b) node" where
  "submit_execution_command_node env c =
     (case cy_execution_proposal c of
        None \<Rightarrow> run_ret c
      | Some p \<Rightarrow>
          if opt_truthy (cy_command_id c) then append_trace env ''submit_execution_command'' Skipped [] c
          else run_bind (tried (compile_against_truth env c p)) (\<lambda>r.
            case r of
              Inl e \<Rightarrow> append_error env ''submit_execution_command'' ''submit_validation_failed'' (exc_text e) True c
            | Inr pc \<Rightarrow>
                run_bind (on_gateway (place_order env p pc)) (\<lambda>placed.
                  case placed of
                    Inl (code, msg) \<Rightarrow> append_error env ''submit_execution_command'' code msg True c
                  | Inr (cid, oid) \<Rightarrow>
                      append_trace env ''submit_execution_command'' Completed []
                        (c\<lparr>cy_command_id := Some cid, cy_result_ref := Some oid\<rparr>))))"

definition publish_cycle_completed :: "('g, 'b) graph_env \<Rightarrow> cycle \<Rightarrow> string \<Rightarrow> (('g, 'b) graph_run, unit) run" where
  "publish_cycle_completed env c outcome =
     (if \<not> ce_has_bus env then run_ret ()
      else run_modify (\<lambda>s. s\<lparr>gr_published := gr_published s @
        [\<lparr>cc_session_id = session_of env c, cc_cycle_id = cy_cycle_id c, cc_snapshot_id = cy_snapshot_id c, cc_outcome = outcome,
          cc_command_id = cy_command_id c\<rparr>]\<rparr>))"

definition persist_cycle :: "('g, 'b) graph_env \<Rightarrow> string \<Rightarrow> string \<Rightarrow> ('g, 'b) node" where
  "persist_cycle env name outcome c =
     run_bind (publish_cycle_completed env c outcome) (\<lambda>_. append_trace env name Completed [] c)"

definition persist_evidence_request :: "('g, 'b) graph_env \<Rightarrow> ('g, 'b) node" where
  "persist_evidence_request env c =
     run_bind (publish_cycle_completed env c ''more_evidence_requested'') (\<lambda>_.
       append_trace env ''persist_evidence_request'' Completed []
         (c\<lparr>cy_pending_evidence := (case cy_meta_decision c of None \<Rightarrow> [] | Some m \<Rightarrow> md_requested_evidence m)\<rparr>))"

section \<open>The graph\<close>

datatype graph_node =
    Validate_Trigger | Hydrate_Context | Perception | Synthesise_World_Model | Discovery | Strategy | Select_Candidates
  | Debate | Meta_Decision | Switch_Revision | Entry_Tactician | Validate_Proposal | Submit_Command
  | Persist_Cycle | Persist_Pending | Persist_Evidence | Persist_Stale

fun run_node :: "('g, 'b) graph_env \<Rightarrow> graph_node \<Rightarrow> ('g, 'b) node" where
  "run_node env Validate_Trigger = validate_trigger env"
| "run_node env Hydrate_Context = hydrate_context env"
| "run_node env Perception = run_perception env"
| "run_node env Synthesise_World_Model = synthesise_world_model env"
| "run_node env Discovery = run_discovery env"
| "run_node env Strategy = run_strategy_construction env"
| "run_node env Select_Candidates = select_debate_candidates env"
| "run_node env Debate = run_debate env"
| "run_node env Meta_Decision = meta_decision_node env"
| "run_node env Switch_Revision = strategy_switch_revision env"
| "run_node env Entry_Tactician = entry_tactician_node env"
| "run_node env Validate_Proposal = validate_execution_proposal env"
| "run_node env Submit_Command = submit_execution_command_node env"
| "run_node env Persist_Cycle = persist_cycle env ''persist_cycle'' ''completed''"
| "run_node env Persist_Pending = persist_cycle env ''persist_pending_cycle'' ''delayed''"
| "run_node env Persist_Evidence = persist_evidence_request env"
| "run_node env Persist_Stale = persist_cycle env ''persist_stale'' ''stale''"

definition route_meta_decision :: "graph_settings \<Rightarrow> cycle \<Rightarrow> graph_node" where
  "route_meta_decision st c =
     (case cy_meta_decision c of
        None \<Rightarrow> Persist_Cycle
      | Some m \<Rightarrow>
          if cy_stale_decision c then Persist_Stale
          else (case md_action m of
                  Meta_Execute \<Rightarrow> Entry_Tactician
                | Meta_Probe \<Rightarrow> Entry_Tactician
                | Meta_Delay \<Rightarrow> Persist_Pending
                | Meta_More_Evidence \<Rightarrow> Persist_Evidence
                | Meta_Switch \<Rightarrow> if st_max_strategy_switches st \<le> cy_strategy_switch_count c then Persist_Cycle else Switch_Revision
                | Meta_Abandon \<Rightarrow> Persist_Cycle))"

definition after_switch_route :: "graph_settings \<Rightarrow> cycle \<Rightarrow> graph_node" where
  "after_switch_route st c = (if cy_debate_round c \<le> st_max_debate_rounds st then Debate else Meta_Decision)"

definition after_validate_route :: "cycle \<Rightarrow> graph_node" where
  "after_validate_route c =
     (if cy_stale_decision c then Persist_Stale
      else if list_ex (\<lambda>e. ge_error_code e = ''validation_failed'') (cy_errors c) then Persist_Cycle
      else Submit_Command)"

text \<open>The edges; \<open>None\<close> is the end.\<close>

fun next_node :: "graph_settings \<Rightarrow> graph_node \<Rightarrow> cycle \<Rightarrow> graph_node option" where
  "next_node st Validate_Trigger c = Some Hydrate_Context"
| "next_node st Hydrate_Context c = Some Perception"
| "next_node st Perception c = Some Synthesise_World_Model"
| "next_node st Synthesise_World_Model c = Some Discovery"
| "next_node st Discovery c = Some Strategy"
| "next_node st Strategy c = Some Select_Candidates"
| "next_node st Select_Candidates c = Some Debate"
| "next_node st Debate c = Some Meta_Decision"
| "next_node st Meta_Decision c = Some (route_meta_decision st c)"
| "next_node st Switch_Revision c = Some (after_switch_route st c)"
| "next_node st Entry_Tactician c = Some Validate_Proposal"
| "next_node st Validate_Proposal c = Some (after_validate_route c)"
| "next_node st Submit_Command c = Some Persist_Cycle"
| "next_node st _ c = None"

definition recursion_error :: py_error where
  "recursion_error = OtherError ''GraphRecursionError'' []"

text \<open>\<open>ainvoke\<close>, with LangGraph's bound on the number of nodes it runs.\<close>

primrec run_graph :: "('g, 'b) graph_env \<Rightarrow> nat \<Rightarrow> graph_node \<Rightarrow> ('g, 'b) node" where
  "run_graph env 0 nd c = run_raise recursion_error"
| "run_graph env (Suc n) nd c =
     run_bind (run_node env nd c) (\<lambda>c'.
       case next_node (ce_settings env) nd c' of None \<Rightarrow> run_ret c' | Some nd' \<Rightarrow> run_graph env n nd' c')"

definition recursion_limit :: nat where
  "recursion_limit = 25"

definition run_cycle :: "('g, 'b) graph_env \<Rightarrow> ('g, 'b) node" where
  "run_cycle env c = run_graph env recursion_limit Validate_Trigger c"

section \<open>What the nodes leave alone\<close>

definition reads_only :: "'b gateway_deps \<Rightarrow> bool" where
  "reads_only d \<longleftrightarrow> (\<forall>m x. gd_projection_loader d = Some m \<longrightarrow> snd (m x) = x)"

text \<open>The nodes compose from pieces that keep a property of the gateway.\<close>

named_theorems gateway_kept

abbreviation keeps :: "'b gateway_state \<Rightarrow> (('g, 'b) graph_run, 'a) run \<Rightarrow> bool" where
  "keeps g \<equiv> preserves (\<lambda>s. gr_gateway s = g)"

lemma keepsD: "(\<And>g. keeps g m) \<Longrightarrow> m s = (r, s') \<Longrightarrow> gr_gateway s' = gr_gateway s"
  unfolding preserves_def by (metis snd_conv)

lemma keeps_agents [gateway_kept]: "keeps g (on_agents m)"
  by (auto simp: preserves_def on_agents_def split: prod.splits)

lemma keeps_fresh [gateway_kept]: "keeps g (fresh_id env)"
  by (auto simp: preserves_def fresh_id_def run_ret_def)

lemma keeps_tried: "keeps g m \<Longrightarrow> keeps g (tried m)"
  by (auto simp: preserves_def tried_def split: prod.splits)

lemma keeps_projection:
  fixes d :: "'b gateway_deps" and g :: "'b gateway_state"
  assumes "reads_only d"
  shows "keeps g (on_gateway (load_projection d))"
proof
  fix s :: "('g, 'b) graph_run" assume g: "gr_gateway s = g"
  have "y = x" if "gd_projection_loader d = Some m" "m x = (r, y)" for m x r y
    using assms that unfolding reads_only_def by (metis snd_conv)
  then show "gr_gateway (snd (on_gateway (load_projection d) s)) = g"
    using g by (auto simp: on_gateway_def load_projection_def run_ret_def on_exec_def split: option.splits prod.splits)
qed

lemma keeps_trace [gateway_kept]: "keeps g (append_trace env name status ids c)"
  unfolding append_trace_def by (intro preserve_intros gateway_kept)

lemma keeps_error [gateway_kept]: "keeps g (append_error env name code msg r c)"
  unfolding append_error_def by (intro preserve_intros gateway_kept)

lemma keeps_stored [gateway_kept]: "keeps g (stored env kind xs)"
  unfolding stored_def by (intro preserve_intros gateway_kept)

lemma keeps_published [gateway_kept]: "keeps g (publish_cycle_completed env c outcome)"
  unfolding publish_cycle_completed_def by (intro preserve_intros preserves_modify) simp

lemma keeps_prod [preserve_intros]: "(\<And>a b. preserves P (f a b)) \<Longrightarrow> preserves P (case z of (a, b) \<Rightarrow> f a b)"
  by (cases z) simp

lemma keeps_sum [preserve_intros]:
  "(\<And>a. preserves P (f a)) \<Longrightarrow> (\<And>b. preserves P (h b)) \<Longrightarrow> preserves P (case z of Inl a \<Rightarrow> f a | Inr b \<Rightarrow> h b)"
  by (cases z) simp_all

lemma keeps_compile:
  "reads_only (ce_deps env) \<Longrightarrow> keeps g (compile_against_truth env c p)"
  unfolding compile_against_truth_def by (intro preserve_intros keeps_projection) assumption

lemma node_keeps_gateway:
  assumes r: "reads_only (ce_deps env)" and nd: "nd \<noteq> Submit_Command"
  shows "keeps g (run_node env nd c)"
proof -
  note keep = preserve_intros gateway_kept keeps_projection keeps_tried keeps_compile r
  have "keeps g (validate_trigger env c)" "keeps g (hydrate_context env c)" "keeps g (run_perception env c)"
    "keeps g (synthesise_world_model env c)" "keeps g (run_discovery env c)" "keeps g (run_strategy_construction env c)"
    unfolding validate_trigger_def hydrate_context_def run_perception_def synthesise_world_model_def run_discovery_def
      run_strategy_construction_def
    by (intro keep)+
  moreover have "keeps g (select_debate_candidates env c)" "keeps g (run_debate env c)" "keeps g (meta_decision_node env c)"
    "keeps g (strategy_switch_revision env c)" "keeps g (entry_tactician_node env c)"
    unfolding select_debate_candidates_def run_debate_def meta_decision_node_def strategy_switch_revision_def
      entry_tactician_node_def Let_def prod.case
    by (intro keep)+
  moreover have "keeps g (validate_execution_proposal env c)" "keeps g (persist_cycle env name outcome c)"
    "keeps g (persist_evidence_request env c)" for name outcome
    unfolding validate_execution_proposal_def persist_cycle_def persist_evidence_request_def
    by (intro keep)+
  ultimately show ?thesis using nd by (cases nd) simp_all
qed

text \<open>What a node that returns has done to the cycle.\<close>

definition yields :: "('a \<Rightarrow> bool) \<Rightarrow> ('s, 'a) run \<Rightarrow> bool" where
  "yields Q m \<longleftrightarrow> (\<forall>s a s'. m s = (Inr a, s') \<longrightarrow> Q a)"

named_theorems yields_intros

lemma yieldsD: "yields Q m \<Longrightarrow> m s = (Inr a, s') \<Longrightarrow> Q a"
  unfolding yields_def by blast

lemma yields_ret [yields_intros]: "Q a \<Longrightarrow> yields Q (run_ret a)"
  by (simp add: yields_def run_ret_def)

lemma yields_bind [yields_intros]: "(\<And>a. yields Q (f a)) \<Longrightarrow> yields Q (run_bind m f)"
  by (force simp: yields_def run_bind_Inr)

lemma yields_bind_with: "yields R m \<Longrightarrow> (\<And>a. R a \<Longrightarrow> yields Q (f a)) \<Longrightarrow> yields Q (run_bind m f)"
  by (force simp: yields_def run_bind_Inr)

lemma yields_if [yields_intros]: "(b \<Longrightarrow> yields Q m) \<Longrightarrow> (\<not> b \<Longrightarrow> yields Q n) \<Longrightarrow> yields Q (if b then m else n)"
  by simp

lemma yields_option [yields_intros]:
  "(z = None \<Longrightarrow> yields Q m) \<Longrightarrow> (\<And>x. z = Some x \<Longrightarrow> yields Q (f x)) \<Longrightarrow> yields Q (case z of None \<Rightarrow> m | Some x \<Rightarrow> f x)"
  by (cases z) simp_all

lemma yields_sum [yields_intros]:
  "(\<And>a. yields Q (f a)) \<Longrightarrow> (\<And>b. yields Q (h b)) \<Longrightarrow> yields Q (case z of Inl a \<Rightarrow> f a | Inr b \<Rightarrow> h b)"
  by (cases z) simp_all

lemma yields_prod [yields_intros]: "(\<And>a b. yields Q (f a b)) \<Longrightarrow> yields Q (case z of (a, b) \<Rightarrow> f a b)"
  by (cases z) simp

lemma yields_trace:
  "yields (\<lambda>c'. \<exists>t. c' = c\<lparr>cy_node_trace := t\<rparr>) (append_trace env name status ids c)"
  unfolding append_trace_def by (intro yields_intros) blast

lemma yields_error:
  "yields (\<lambda>c'. \<exists>t. c' = c\<lparr>cy_errors := t\<rparr>) (append_error env name code msg r c)"
  unfolding append_error_def by (intro yields_intros) blast

lemma yields_trace_is [yields_intros]: "(\<And>t. Q (c\<lparr>cy_node_trace := t\<rparr>)) \<Longrightarrow> yields Q (append_trace env name status ids c)"
  using yields_trace [of c env name status ids] by (auto simp: yields_def)

lemma yields_error_is [yields_intros]: "(\<And>t. Q (c\<lparr>cy_errors := t\<rparr>)) \<Longrightarrow> yields Q (append_error env name code msg r c)"
  using yields_error [of c env name code msg r] by (auto simp: yields_def)

lemma yields_trace_then:
  "(\<And>t. yields Q (f (c\<lparr>cy_node_trace := t\<rparr>))) \<Longrightarrow> yields Q (run_bind (append_trace env name status ids c) f)"
  by (rule yields_bind_with [OF yields_trace]) blast

text \<open>The decision, the proposal and the number of switches change in one node each.\<close>

definition advances :: "graph_node \<Rightarrow> cycle \<Rightarrow> cycle \<Rightarrow> bool" where
  "advances nd c c' \<longleftrightarrow>
     cy_strategy_switch_count c' = cy_strategy_switch_count c + (if nd = Switch_Revision then 1 else 0) \<and>
     (nd \<noteq> Meta_Decision \<longrightarrow> cy_meta_decision c' = cy_meta_decision c) \<and>
     (nd \<noteq> Submit_Command \<longrightarrow> cy_command_id c' = cy_command_id c) \<and>
     (cy_execution_proposal c' = cy_execution_proposal c \<or>
      nd = Entry_Tactician \<and> (\<exists>m p. cy_meta_decision c = Some m \<and> cy_execution_proposal c' = Some p \<and>
        ep_decision_id p = md_decision_id m \<and> ep_strategy_id p \<in> af_id ` set (cy_strategies c)))"

lemma selected_in: "selected_strategy c = Some st \<Longrightarrow> st \<in> set (cy_strategies c)"
  by (auto simp: selected_strategy_def dest: find_member split: option.splits list.splits)

lemma node_advances: "yields (advances nd c) (run_node env nd c)"
proof -
  note rules = yields_trace_then yields_intros
  have "yields (advances Validate_Trigger c) (validate_trigger env c)" "yields (advances Hydrate_Context c) (hydrate_context env c)"
    "yields (advances Perception c) (run_perception env c)" "yields (advances Synthesise_World_Model c) (synthesise_world_model env c)"
    "yields (advances Discovery c) (run_discovery env c)" "yields (advances Strategy c) (run_strategy_construction env c)"
    unfolding validate_trigger_def hydrate_context_def run_perception_def synthesise_world_model_def run_discovery_def
      run_strategy_construction_def
    by ((intro rules; simp add: advances_def; fail)+)
  moreover have "yields (advances Select_Candidates c) (select_debate_candidates env c)" "yields (advances Debate c) (run_debate env c)"
    "yields (advances Meta_Decision c) (meta_decision_node env c)" "yields (advances Switch_Revision c) (strategy_switch_revision env c)"
    unfolding select_debate_candidates_def run_debate_def meta_decision_node_def strategy_switch_revision_def
    by ((intro rules; simp add: advances_def; fail)+)
  moreover have "yields (advances Entry_Tactician c) (entry_tactician_node env c)"
    unfolding entry_tactician_node_def Let_def prod.case
    by (intro rules) (auto simp: advances_def stamp_proposal_def intro: selected_in)
  moreover have "yields (advances Validate_Proposal c) (validate_execution_proposal env c)"
    "yields (advances Submit_Command c) (submit_execution_command_node env c)"
    "yields (advances Persist_Evidence c) (persist_evidence_request env c)"
    unfolding validate_execution_proposal_def submit_execution_command_node_def persist_evidence_request_def
    by ((intro rules; simp add: advances_def; fail)+)
  moreover have "yields (advances nd c) (persist_cycle env name outcome c)"
    if "nd = Persist_Cycle \<or> nd = Persist_Pending \<or> nd = Persist_Stale" for name outcome
    unfolding persist_cycle_def using that by (intro rules) (auto simp: advances_def)
  ultimately show ?thesis by (cases nd) simp_all
qed

section \<open>A cycle ends\<close>

text \<open>A bound on the nodes still to run, from a node and the number of switches made.\<close>

definition nodes_left :: "graph_settings \<Rightarrow> graph_node \<Rightarrow> int \<Rightarrow> nat" where
  "nodes_left st nd k =
     (let w = 3 * nat (st_max_strategy_switches st - k)
      in case nd of
           Validate_Trigger \<Rightarrow> 13 + w | Hydrate_Context \<Rightarrow> 12 + w | Perception \<Rightarrow> 11 + w | Synthesise_World_Model \<Rightarrow> 10 + w
         | Discovery \<Rightarrow> 9 + w | Strategy \<Rightarrow> 8 + w | Select_Candidates \<Rightarrow> 7 + w | Debate \<Rightarrow> 6 + w | Meta_Decision \<Rightarrow> 5 + w
         | Switch_Revision \<Rightarrow> 7 + 3 * nat (st_max_strategy_switches st - (k + 1))
         | Entry_Tactician \<Rightarrow> 4 | Validate_Proposal \<Rightarrow> 3 | Submit_Command \<Rightarrow> 2 | _ \<Rightarrow> 1)"

lemma nodes_left_pos: "0 < nodes_left st nd k"
  by (cases nd) (simp_all add: nodes_left_def Let_def)

lemma nodes_left_decrease:
  assumes "next_node st nd c' = Some nd'" "advances nd c c'"
  shows "nodes_left st nd' (cy_strategy_switch_count c') < nodes_left st nd (cy_strategy_switch_count c)"
  using assms
  by (cases nd)
     (auto simp: nodes_left_def Let_def advances_def route_meta_decision_def after_switch_route_def after_validate_route_def
       split: option.splits meta_action.splits if_splits)

lemma more_fuel:
  "nodes_left (ce_settings env) nd (cy_strategy_switch_count c) \<le> n \<Longrightarrow> run_graph env (n + k) nd c s = run_graph env n nd c s"
proof (induction n arbitrary: nd c s)
  case 0
  then show ?case using nodes_left_pos [of "ce_settings env" nd "cy_strategy_switch_count c"] by simp
next
  case (Suc n)
  have "(case next_node (ce_settings env) nd c' of None \<Rightarrow> run_ret c' | Some nd' \<Rightarrow> run_graph env (n + k) nd' c') s1 =
      (case next_node (ce_settings env) nd c' of None \<Rightarrow> run_ret c' | Some nd' \<Rightarrow> run_graph env n nd' c') s1"
    if r: "run_node env nd c s = (Inr c', s1)" for c' s1
  proof (cases "next_node (ce_settings env) nd c'")
    case (Some nd')
    have "nodes_left (ce_settings env) nd' (cy_strategy_switch_count c') \<le> n"
      using nodes_left_decrease [OF Some yieldsD [OF node_advances r]] Suc.prems by simp
    then show ?thesis using Suc.IH Some by simp
  qed simp
  then show ?case by (simp add: run_bind_def split: prod.splits sum.splits)
qed

text \<open>The nodes a run passes, from a node with its state to the node that runs after \<open>n\<close> others.\<close>

inductive graph_steps ::
  "('g, 'b) graph_env \<Rightarrow> nat \<Rightarrow> graph_node \<times> cycle \<times> ('g, 'b) graph_run \<Rightarrow> graph_node \<times> cycle \<times> ('g, 'b) graph_run \<Rightarrow> bool"
  for env where
  here: "graph_steps env 0 x x"
| onward: "run_node env nd c s = (Inr c', s1) \<Longrightarrow> next_node (ce_settings env) nd c' = Some nd' \<Longrightarrow>
     graph_steps env n (nd', c', s1) y \<Longrightarrow> graph_steps env (Suc n) (nd, c, s) y"

inductive_cases graph_steps_here: "graph_steps env 0 x y"
inductive_cases graph_steps_onward: "graph_steps env (Suc n) x y"

lemma graph_steps_bounded:
  "graph_steps env n x y \<Longrightarrow>
   n < nodes_left (ce_settings env) (fst x) (cy_strategy_switch_count (fst (snd x)))"
proof (induction rule: graph_steps.induct)
  case (here x)
  then show ?case by (simp add: nodes_left_pos)
next
  case (onward nd c s c' s1 nd' n y)
  have "nodes_left (ce_settings env) nd' (cy_strategy_switch_count c') < nodes_left (ce_settings env) nd (cy_strategy_switch_count c)"
    by (rule nodes_left_decrease [OF onward.hyps(2) yieldsD [OF node_advances onward.hyps(1)]])
  then show ?case using onward.IH by simp
qed

text \<open>A run that ends without the limit: its last node raised, or has no successor.\<close>

definition ends_with ::
  "('g, 'b) graph_env \<Rightarrow> graph_node \<times> cycle \<times> ('g, 'b) graph_run \<Rightarrow> (py_error + cycle) \<times> ('g, 'b) graph_run \<Rightarrow> bool" where
  "ends_with env x out \<longleftrightarrow>
     (case x of (nd, c, s) \<Rightarrow>
        run_node env nd c s = out \<and> (\<forall>c'. fst out = Inr c' \<longrightarrow> next_node (ce_settings env) nd c' = None))"

lemma run_graph_ends:
  "nodes_left (ce_settings env) nd (cy_strategy_switch_count c) \<le> limit \<Longrightarrow>
   \<exists>n y. graph_steps env n (nd, c, s) y \<and> ends_with env y (run_graph env limit nd c s)"
proof (induction limit arbitrary: nd c s)
  case 0
  then show ?case using nodes_left_pos [of "ce_settings env" nd "cy_strategy_switch_count c"] by simp
next
  case (Suc n)
  obtain r s1 where r: "run_node env nd c s = (r, s1)" by fastforce
  show ?case
  proof (cases "\<exists>c' nd'. r = Inr c' \<and> next_node (ce_settings env) nd c' = Some nd'")
    case True
    then obtain c' nd' where n: "r = Inr c'" "next_node (ce_settings env) nd c' = Some nd'" by blast
    have "nodes_left (ce_settings env) nd' (cy_strategy_switch_count c') \<le> n"
      using nodes_left_decrease [OF n(2) yieldsD [OF node_advances r [unfolded n(1)]]] Suc.prems by simp
    then obtain k y where "graph_steps env k (nd', c', s1) y" "ends_with env y (run_graph env n nd' c' s1)"
      using Suc.IH by blast
    moreover have "run_graph env (Suc n) nd c s = run_graph env n nd' c' s1"
      using r n by (simp add: run_bind_def)
    ultimately show ?thesis using graph_steps.onward [OF r [unfolded n(1)] n(2)] by metis
  next
    case False
    then have "run_graph env (Suc n) nd c s = (r, s1)"
      using r by (cases r) (auto simp: run_bind_def run_ret_def split: option.splits)
    then have "ends_with env (nd, c, s) (run_graph env (Suc n) nd c s)" using r False by (auto simp: ends_with_def)
    then show ?thesis using graph_steps.here by blast
  qed
qed

text \<open>
  Claim C29. A decision cycle ends by itself. However the agents answer and wherever it fails, no run from the trigger passes
  more than 13 nodes and three more for every strategy switch the settings allow. So with any limit of at least that many
  nodes the outcome is that of the last node of the run, which raised or has no successor, and not LangGraph's recursion
  error. For at most four switches (the default is one) this holds of the limit of 25 that \<open>ainvoke\<close> has, and a higher limit
  would not change the outcome.
\<close>

theorem cycle_ends_within_limit:
  "(\<forall>n y. graph_steps env n (Validate_Trigger, initial_cycle_state session run_id cid trigger ttype snapshot_id, s) y \<longrightarrow>
       n < 13 + 3 * nat (st_max_strategy_switches (ce_settings env))) \<and>
   (\<forall>limit. 13 + 3 * nat (st_max_strategy_switches (ce_settings env)) \<le> limit \<longrightarrow>
       (\<exists>n y. graph_steps env n (Validate_Trigger, initial_cycle_state session run_id cid trigger ttype snapshot_id, s) y \<and>
          ends_with env y (run_graph env limit Validate_Trigger (initial_cycle_state session run_id cid trigger ttype snapshot_id) s))) \<and>
   (st_max_strategy_switches (ce_settings env) \<le> 4 \<longrightarrow>
       (\<exists>n y. graph_steps env n (Validate_Trigger, initial_cycle_state session run_id cid trigger ttype snapshot_id, s) y \<and>
          ends_with env y (run_cycle env (initial_cycle_state session run_id cid trigger ttype snapshot_id) s)) \<and>
       run_graph env (recursion_limit + k) Validate_Trigger (initial_cycle_state session run_id cid trigger ttype snapshot_id) s =
         run_cycle env (initial_cycle_state session run_id cid trigger ttype snapshot_id) s)"
proof -
  let ?start = "initial_cycle_state session run_id cid trigger ttype snapshot_id"
  let ?bound = "13 + 3 * nat (st_max_strategy_switches (ce_settings env))"
  have count: "cy_strategy_switch_count ?start = 0" by (simp add: initial_cycle_state_def)
  have left: "nodes_left (ce_settings env) Validate_Trigger (cy_strategy_switch_count ?start) = ?bound"
    by (simp add: nodes_left_def Let_def count)
  have ends: "\<exists>n y. graph_steps env n (Validate_Trigger, ?start, s) y \<and> ends_with env y (run_graph env limit Validate_Trigger ?start s)"
    if "?bound \<le> limit" for limit
    by (rule run_graph_ends) (simp only: left that)
  have "?bound \<le> recursion_limit" if "st_max_strategy_switches (ce_settings env) \<le> 4"
    using that by (simp add: recursion_limit_def)
  moreover from this have "run_graph env (recursion_limit + k) Validate_Trigger ?start s = run_cycle env ?start s"
    if "st_max_strategy_switches (ce_settings env) \<le> 4"
    using that unfolding run_cycle_def by (intro more_fuel) (simp only: left)
  ultimately show ?thesis
    using graph_steps_bounded [of env _ "(Validate_Trigger, ?start, s)"] ends unfolding run_cycle_def
    by (auto simp only: fst_conv snd_conv left)
qed

section \<open>The order of a cycle\<close>

text \<open>What changed behind the gateway is one placement of a proposal that passed against the truth, the projection and the
  proposals that were there, with the evidence of the cycle.\<close>

definition placed :: "('g, 'b) graph_env \<Rightarrow> cycle \<Rightarrow> execution_proposal \<Rightarrow> 'b gateway_state \<Rightarrow> 'b gateway_state \<Rightarrow> bool" where
  "placed env c p g g' \<longleftrightarrow>
     (\<exists>snapshot quality sf projection pc.
        load_snapshot_truth (ce_deps env) (ep_snapshot_id p) = Inr (snapshot, quality, sf) \<and>
        fst (load_projection (ce_deps env) g) = Inr projection \<and>
        validate_and_compile_proposal default_validation ''default'' (map af_id (cy_evidence c)) None None
          (Some (build_truth_from_deps snapshot (Some quality) sf projection (gs_submitted_proposals g) ''PAPER'')) p = Inr pc \<and>
        g' = snd (place_order env p pc g))"

lemma compiled_against_truth:
  assumes "reads_only (ce_deps env)" "compile_against_truth env c p s = (Inr pc, s1)"
  shows "\<exists>snapshot quality sf projection.
    load_snapshot_truth (ce_deps env) (ep_snapshot_id p) = Inr (snapshot, quality, sf) \<and>
    fst (load_projection (ce_deps env) (gr_gateway s)) = Inr projection \<and>
    validate_and_compile_proposal default_validation ''default'' (map af_id (cy_evidence c)) None None
      (Some (build_truth_from_deps snapshot (Some quality) sf projection (gs_submitted_proposals (gr_gateway s)) ''PAPER'')) p = Inr pc"
proof -
  obtain snapshot quality sf projection s2 where l: "load_snapshot_truth (ce_deps env) (ep_snapshot_id p) = Inr (snapshot, quality, sf)"
    and pr: "on_gateway (load_projection (ce_deps env)) s = (Inr projection, s2)"
    and v: "validate_and_compile_proposal default_validation ''default'' (map af_id (cy_evidence c)) None None
      (Some (build_truth_from_deps snapshot (Some quality) sf projection (gs_submitted_proposals (gr_gateway s2)) ''PAPER'')) p = Inr pc"
    using assms(2) by (auto simp: compile_against_truth_def run_bind_Inr run_lift_def run_get_def)
  have "gr_gateway s2 = gr_gateway s" using keepsD [OF keeps_projection [OF assms(1)] pr] by simp
  moreover have "fst (load_projection (ce_deps env) (gr_gateway s)) = Inr projection"
    using pr by (auto simp: on_gateway_def split: prod.splits)
  ultimately show ?thesis using l v by auto
qed

lemma submit_node_runs:
  assumes "cy_execution_proposal c = Some p" "\<not> opt_truthy (cy_command_id c)" "compile_against_truth env c p s = (Inr pc, s1)"
    and "submit_execution_command_node env c s = (r, s')"
  shows "gr_gateway s' = snd (place_order env p pc (gr_gateway s1))"
proof -
  obtain pl g2 where pl: "place_order env p pc (gr_gateway s1) = (pl, g2)" by fastforce
  have "gr_gateway s' = g2"
  proof (cases pl)
    case (Inl e)
    then show ?thesis using assms pl by (auto simp: submit_execution_command_node_def run_bind_def tried_def on_gateway_def)
  next
    case (Inr result)
    have k: "keeps g (case result of
        Inl (code, msg) \<Rightarrow> append_error env ''submit_execution_command'' code msg True c
      | Inr (cid, oid) \<Rightarrow> append_trace env ''submit_execution_command'' Completed [] (c\<lparr>cy_command_id := Some cid, cy_result_ref := Some oid\<rparr>))" for g
      by (intro preserve_intros gateway_kept)
    have "(case result of
        Inl (code, msg) \<Rightarrow> append_error env ''submit_execution_command'' code msg True c
      | Inr (cid, oid) \<Rightarrow> append_trace env ''submit_execution_command'' Completed [] (c\<lparr>cy_command_id := Some cid, cy_result_ref := Some oid\<rparr>))
       (s1\<lparr>gr_gateway := g2\<rparr>) = (r, s')"
      using assms pl Inr by (simp add: submit_execution_command_node_def run_bind_def tried_def on_gateway_def)
    from keepsD [OF k this] show ?thesis by simp
  qed
  then show ?thesis using pl by simp
qed

lemma submit_node_places:
  assumes "reads_only (ce_deps env)" "submit_execution_command_node env c s = (r, s')"
  shows "gr_gateway s' = gr_gateway s \<or> (\<exists>p. cy_execution_proposal c = Some p \<and> placed env c p (gr_gateway s) (gr_gateway s'))"
proof (cases "cy_execution_proposal c")
  case None
  then show ?thesis using assms(2) by (simp add: submit_execution_command_node_def run_ret_def)
next
  case (Some p)
  show ?thesis
  proof (cases "opt_truthy (cy_command_id c)")
    case True
    then have "append_trace env ''submit_execution_command'' Skipped [] c s = (r, s')"
      using assms(2) Some by (simp add: submit_execution_command_node_def)
    then show ?thesis using keepsD [OF keeps_trace] by blast
  next
    case False
    obtain q s1 where q: "compile_against_truth env c p s = (q, s1)" by fastforce
    have g1: "gr_gateway s1 = gr_gateway s" by (rule keepsD [OF keeps_compile [OF assms(1)] q])
    show ?thesis
    proof (cases q)
      case (Inl e)
      then have "append_error env ''submit_execution_command'' ''submit_validation_failed'' (exc_text e) True c s1 = (r, s')"
        using assms(2) Some False q by (simp add: submit_execution_command_node_def run_bind_def tried_def)
      then show ?thesis using keepsD [OF keeps_error] g1 by metis
    next
      case (Inr pc)
      have "gr_gateway s' = snd (place_order env p pc (gr_gateway s))"
        using submit_node_runs [OF Some False q [unfolded Inr] assms(2)] unfolding g1 .
      then have "placed env c p (gr_gateway s) (gr_gateway s')"
        using compiled_against_truth [OF assms(1) q [unfolded Inr]] unfolding placed_def by blast
      then show ?thesis using Some by blast
    qed
  qed
qed

text \<open>The invariant of a cycle that started without a decision, by the node that runs next.\<close>

definition decided :: "graph_node \<Rightarrow> cycle \<Rightarrow> bool" where
  "decided nd c \<longleftrightarrow>
     (nd \<in> {Entry_Tactician, Validate_Proposal, Submit_Command} \<longrightarrow>
        (\<exists>m. cy_meta_decision c = Some m \<and> md_action m \<in> {Meta_Execute, Meta_Probe} \<and>
          (\<forall>p. cy_execution_proposal c = Some p \<longrightarrow> nd \<noteq> Entry_Tactician \<and> ep_decision_id p = md_decision_id m))) \<and>
     (nd \<notin> {Validate_Proposal, Submit_Command, Persist_Cycle, Persist_Pending, Persist_Evidence, Persist_Stale} \<longrightarrow>
        cy_execution_proposal c = None)"

lemma decided_step:
  assumes "decided nd c" "advances nd c c'" "next_node st nd c' = Some nd'"
  shows "decided nd' c'"
  using assms
  by (cases nd)
     (auto simp: decided_def advances_def route_meta_decision_def after_switch_route_def after_validate_route_def
       split: option.splits meta_action.splits if_splits)

text \<open>What a run from a node may have done behind the gateway.\<close>

definition at_most_one_order ::
  "('g, 'b) graph_env \<Rightarrow> graph_node \<times> cycle \<times> ('g, 'b) graph_run \<Rightarrow> ('g, 'b) graph_run \<Rightarrow> py_error + cycle \<Rightarrow> bool" where
  "at_most_one_order env x s' r \<longleftrightarrow>
     (case x of (nd, c, s) \<Rightarrow>
        gr_gateway s' = gr_gateway s \<or>
        (\<exists>n c1 s1 m p. graph_steps env n x (Submit_Command, c1, s1) \<and> gr_gateway s1 = gr_gateway s \<and>
          cy_meta_decision c1 = Some m \<and> md_action m \<in> {Meta_Execute, Meta_Probe} \<and>
          cy_execution_proposal c1 = Some p \<and> ep_decision_id p = md_decision_id m \<and>
          placed env c1 p (gr_gateway s) (gr_gateway s') \<and>
          (\<forall>c'. r = Inr c' \<longrightarrow> cy_meta_decision c' = Some m \<and> cy_execution_proposal c' = Some p)))"

lemma at_most_one_order_onward:
  assumes "run_node env nd c s = (Inr c', s1)" "next_node (ce_settings env) nd c' = Some nd'" "gr_gateway s1 = gr_gateway s"
    and "at_most_one_order env (nd', c', s1) s' r"
  shows "at_most_one_order env (nd, c, s) s' r"
  using assms(3,4) graph_steps.onward [OF assms(1,2)] unfolding at_most_one_order_def prod.case by metis

lemma run_orders:
  assumes "reads_only (ce_deps env)"
  shows "run_graph env n nd c s = (r, s') \<Longrightarrow> decided nd c \<Longrightarrow> at_most_one_order env (nd, c, s) s' r"
proof (induction n arbitrary: nd c s)
  case 0
  then show ?case by (simp add: run_raise_def at_most_one_order_def)
next
  case (Suc n)
  obtain q s1 where q: "run_node env nd c s = (q, s1)" by fastforce
  show ?case
  proof (cases "nd = Submit_Command")
    case False
    have g: "gr_gateway s1 = gr_gateway s" by (rule keepsD [OF node_keeps_gateway [OF assms False] q])
    show ?thesis
    proof (cases q)
      case (Inl e)
      then show ?thesis using Suc.prems(1) q g by (simp add: run_bind_def at_most_one_order_def)
    next
      case (Inr c')
      have adv: "advances nd c c'" using yieldsD [OF node_advances] q Inr by blast
      show ?thesis
      proof (cases "next_node (ce_settings env) nd c'")
        case None
        then show ?thesis using Suc.prems(1) q Inr g by (simp add: run_bind_def run_ret_def at_most_one_order_def)
      next
        case (Some nd')
        then have "run_graph env n nd' c' s1 = (r, s')" using Suc.prems(1) q Inr by (simp add: run_bind_def)
        from at_most_one_order_onward [OF q [unfolded Inr] Some g Suc.IH [OF this decided_step [OF Suc.prems(2) adv Some]]]
        show ?thesis .
      qed
    qed
  next
    case True
    obtain m where m: "cy_meta_decision c = Some m" "md_action m \<in> {Meta_Execute, Meta_Probe}"
      "\<forall>p. cy_execution_proposal c = Some p \<longrightarrow> ep_decision_id p = md_decision_id m"
      using Suc.prems(2) True by (auto simp: decided_def)
    have place: "gr_gateway s1 = gr_gateway s \<or>
        (\<exists>p. cy_execution_proposal c = Some p \<and> placed env c p (gr_gateway s) (gr_gateway s1))"
      using submit_node_places [OF assms] q True by simp
    have here: "graph_steps env 0 (nd, c, s) (Submit_Command, c, s)" unfolding True by (rule graph_steps.here)
    have single: "at_most_one_order env (nd, c, s) s' r"
      if "gr_gateway s' = gr_gateway s1"
        "\<And>c'. r = Inr c' \<Longrightarrow> cy_meta_decision c' = cy_meta_decision c \<and> cy_execution_proposal c' = cy_execution_proposal c"
      using place m here that unfolding at_most_one_order_def prod.case by metis
    show ?thesis
    proof (cases q)
      case (Inl e)
      then have "r = Inl e" "s' = s1" using Suc.prems(1) q by (simp_all add: run_bind_def)
      then show ?thesis by (intro single) simp_all
    next
      case (Inr c')
      have adv: "cy_meta_decision c' = cy_meta_decision c" "cy_execution_proposal c' = cy_execution_proposal c"
        using yieldsD [OF node_advances q [unfolded Inr]] True by (auto simp: advances_def)
      have rest: "run_graph env n Persist_Cycle c' s1 = (r, s')" using Suc.prems(1) q Inr True by (simp add: run_bind_def)
      have "gr_gateway s' = gr_gateway s1 \<and>
          (\<forall>c''. r = Inr c'' \<longrightarrow> cy_meta_decision c'' = cy_meta_decision c' \<and> cy_execution_proposal c'' = cy_execution_proposal c')"
      proof (cases n)
        case 0
        then show ?thesis using rest by (auto simp: run_raise_def)
      next
        case (Suc j)
        obtain q2 s2 where q2: "run_node env Persist_Cycle c' s1 = (q2, s2)" by fastforce
        have rs: "r = q2 \<and> s' = s2" using rest Suc q2 by (cases q2) (simp_all add: run_bind_def run_ret_def)
        have "gr_gateway s2 = gr_gateway s1" by (rule keepsD [OF node_keeps_gateway [OF assms] q2]) simp
        moreover have "advances Persist_Cycle c' c''" if "q2 = Inr c''" for c''
          using yieldsD [OF node_advances q2 [unfolded that]] .
        ultimately show ?thesis using rs by (auto simp: advances_def)
      qed
      then show ?thesis using adv by (intro single) simp_all
    qed
  qed
qed

text \<open>
  Claim C16. Agents reach the broker through one door. A decision cycle, however its agents answer and wherever it fails,
  leaves the ledger, the broker, the submitted proposals and the provenance as they were, or it got to its submission node with
  a decision to execute or to probe and a proposal that belongs to that decision, and changes them by the placement of that
  single proposal: its snapshot could be loaded again, the projection the loader then returned was taken, and the proposal passed
  validation against the snapshot, its quality report and surface, that projection, the proposals submitted before and the
  evidence of the cycle. A cycle that returns still carries that decision and that proposal.
\<close>

theorem cycle_places_at_most_one_order:
  assumes "reads_only (ce_deps env)"
    and "run_cycle env (initial_cycle_state session run_id cid trigger ttype snapshot_id) s = (r, s')"
  shows "gr_gateway s' = gr_gateway s \<or>
    (\<exists>n c s1 m p snapshot quality sf projection pc.
       graph_steps env n (Validate_Trigger, initial_cycle_state session run_id cid trigger ttype snapshot_id, s) (Submit_Command, c, s1) \<and>
       gr_gateway s1 = gr_gateway s \<and>
       cy_meta_decision c = Some m \<and> md_action m \<in> {Meta_Execute, Meta_Probe} \<and>
       cy_execution_proposal c = Some p \<and> ep_decision_id p = md_decision_id m \<and>
       load_snapshot_truth (ce_deps env) (ep_snapshot_id p) = Inr (snapshot, quality, sf) \<and>
       fst (load_projection (ce_deps env) (gr_gateway s)) = Inr projection \<and>
       validate_and_compile_proposal default_validation ''default'' (map af_id (cy_evidence c)) None None
         (Some (build_truth_from_deps snapshot (Some quality) sf projection (gs_submitted_proposals (gr_gateway s)) ''PAPER'')) p = Inr pc \<and>
       gr_gateway s' = snd (place_order env p pc (gr_gateway s)) \<and>
       (\<forall>c'. r = Inr c' \<longrightarrow> cy_meta_decision c' = Some m \<and> cy_execution_proposal c' = Some p))"
proof -
  have "decided Validate_Trigger (initial_cycle_state session run_id cid trigger ttype snapshot_id)"
    by (simp add: decided_def initial_cycle_state_def)
  from run_orders [OF assms(1) assms(2) [unfolded run_cycle_def] this] show ?thesis
    unfolding at_most_one_order_def placed_def prod.case by blast
qed

definition untouched :: "('g, 'b) graph_run \<Rightarrow> ('g, 'b) graph_run \<Rightarrow> bool" where
  "untouched s s' \<longleftrightarrow> gr_published s' = gr_published s \<and> gr_gateway s' = gr_gateway s \<and> gr_agents s' = gr_agents s"

lemma error_runs: "\<exists>t s'. append_error env name code msg b c s = (Inr (c\<lparr>cy_errors := t\<rparr>), s') \<and> untouched s s'"
  by (auto simp: append_error_def run_bind_def fresh_id_def run_ret_def untouched_def)

lemma trace_runs: "\<exists>t s'. append_trace env name status ids c s = (Inr (c\<lparr>cy_node_trace := t\<rparr>), s') \<and> untouched s s'"
  by (auto simp: append_trace_def run_bind_def fresh_id_def run_ret_def untouched_def)

text \<open>
  Claim C21. A snapshot that cannot be loaded loses the error that is recorded for it. The context node records
  \<open>snapshot_not_found\<close> and lets the cycle go on, but the next node loads the same snapshot unprotected: the cycle ends
  with the exception, no cycle-completed event is published, and nothing behind the gateway has changed.
\<close>

theorem unloadable_snapshot_aborts_cycle:
  fixes env :: "('g, 'b) graph_env"
  assumes "load_snapshot_truth (ce_deps env) snapshot_id = Inl e" "snapshot_id \<noteq> []"
  shows "\<exists>s'. run_cycle env (initial_cycle_state session run_id cid trigger ttype snapshot_id) s = (Inl e, s') \<and>
    gr_published s' = gr_published s \<and> gr_gateway s' = gr_gateway s \<and> gr_agents s' = gr_agents s"
proof -
  let ?c = "initial_cycle_state session run_id cid trigger ttype snapshot_id"
  obtain t s0 where e: "append_error env ''validate_trigger'' ''invalid_trigger'' ''missing trigger_event_id or snapshot_id'' False ?c s =
      (Inr (?c\<lparr>cy_errors := t\<rparr>), s0)" "untouched s s0"
    using error_runs by blast
  obtain t' s0' where t: "append_trace env ''validate_trigger'' Completed [] ?c s = (Inr (?c\<lparr>cy_node_trace := t'\<rparr>), s0')" "untouched s s0'"
    using trace_runs by blast
  have id: "cy_snapshot_id ?c = snapshot_id" by (simp add: initial_cycle_state_def)
  obtain c1 s1 where 1: "run_node env Validate_Trigger ?c s = (Inr c1, s1)" "cy_snapshot_id c1 = snapshot_id" "untouched s s1"
  proof (cases "cy_trigger_event_id ?c = []")
    case True
    then show thesis using that [of "?c\<lparr>cy_errors := t\<rparr>" s0] e id by (simp add: validate_trigger_def)
  next
    case False
    then show thesis using that [of "?c\<lparr>cy_node_trace := t'\<rparr>" s0'] t id assms(2) by (simp add: validate_trigger_def)
  qed
  have "run_node env Hydrate_Context c1 s1 =
      (if gd_snapshots (ce_deps env) = None
       then append_error env ''hydrate_context'' ''snapshot_unavailable'' ''cannot hydrate context without snapshot repository'' True c1 s1
       else append_error env ''hydrate_context'' ''snapshot_not_found'' (exc_text e) True c1 s1)"
    using assms by (simp add: hydrate_context_def 1(2))
  then obtain t s2 where 2: "run_node env Hydrate_Context c1 s1 = (Inr (c1\<lparr>cy_errors := t\<rparr>), s2)" "untouched s1 s2"
    using error_runs [of env _ _ _ _ c1 s1] by metis
  have 3: "run_node env Perception (c1\<lparr>cy_errors := t\<rparr>) s2 = (Inl e, s2)"
    using assms 1(2) by (simp add: run_perception_def run_bind_def run_lift_def)
  have limit: "recursion_limit = Suc (Suc (Suc 22))" by (simp add: recursion_limit_def)
  have "run_cycle env ?c s = (Inl e, s2)"
    unfolding run_cycle_def limit run_graph.simps
    by (simp add: run_bind_def 1(1) 2(1) 3 del: run_node.simps run_graph.simps)
  then show ?thesis using 1(3) 2(2) by (simp add: untouched_def)
qed

section \<open>A cycle\<close>

definition demo_artefact :: "string \<Rightarrow> artefact" where
  "demo_artefact i = \<lparr>af_id = i, af_payload = ''{}''\<rparr>"

definition demo_decision :: "meta_action \<Rightarrow> meta_decision" where
  "demo_decision a = \<lparr>md_decision_id = ''d9'', md_action = a, md_selected_strategy_id = Some ''s9'', md_alternate_strategy_ids = [''s9''],
     md_requested_evidence = []\<rparr>"

definition demo_graph_env :: "meta_action \<Rightarrow> (unit, paper_broker) graph_env" where
  "demo_graph_env a = \<lparr>ce_deps = demo_deps True None, ce_settings = default_graph_settings, ce_session_id = ''s'',
     ce_uuid = (\<lambda>n. replicate n (CHR ''u'')),
     ce_assemble = (\<lambda>role c snapshot quality sf projection. Inr \<lparr>cp_context_id = ''x'', cp_session_id = cy_session_id c,
       cp_cycle_id = cy_cycle_id c, cp_snapshot_id = mk_snapshot_id snapshot\<rparr>),
     ce_store = (\<lambda>kind i. run_ret ()), ce_observe = (\<lambda>role c snapshot. run_ret (demo_artefact role)),
     ce_synthesise = (\<lambda>c snapshot. run_ret (demo_artefact ''w'')), ce_discover = (\<lambda>n ctx. run_ret [demo_artefact ''h'']),
     ce_invent = (\<lambda>ctx. run_ret [demo_artefact ''s9'']), ce_review = (\<lambda>st ctx. run_ret [demo_artefact ''r'']),
     ce_decide = (\<lambda>c ctx. run_ret (demo_decision a)), ce_propose = (\<lambda>c ctx m st. run_ret (demo_proposal Buy)),
     ce_submit_callback = None, ce_has_bus = True\<rparr>"

definition demo_graph_run :: "(unit, paper_broker) graph_run" where
  "demo_graph_run = \<lparr>gr_agents = (), gr_gateway = demo_gateway, gr_published = [], gr_ids = 0\<rparr>"

definition demo_cycle :: cycle where
  "demo_cycle = initial_cycle_state ''s'' ''r'' ''c'' ''e'' ''market.snapshot_created'' demo_snapshot_id"

lemma demo_reads: "reads_only (ce_deps (demo_graph_env a))"
  by (simp add: reads_only_def demo_graph_env_def run_ret_def)

theorem cycle_ends_within_limit_witness:
  "\<exists>n y. graph_steps (demo_graph_env Meta_Switch) n (Validate_Trigger, demo_cycle, demo_graph_run) y \<and> n < 16 \<and>
     ends_with (demo_graph_env Meta_Switch) y (run_cycle (demo_graph_env Meta_Switch) demo_cycle demo_graph_run)"
proof -
  have one: "st_max_strategy_switches (ce_settings (demo_graph_env Meta_Switch)) = 1"
    by (simp add: demo_graph_env_def default_graph_settings_def)
  have bound: "13 + 3 * nat 1 = (16::nat)" and four: "1 \<le> (4::int)" by simp_all
  show ?thesis
    using cycle_ends_within_limit [of "demo_graph_env Meta_Switch" "''s''" "''r''" "''c''" "''e''" "''market.snapshot_created''" demo_snapshot_id
        demo_graph_run 0] four
    unfolding one bound demo_cycle_def by blast
qed

text \<open>The cycle of the example gets to its submission node and places its order.\<close>

definition demo_accepted :: "uuid list \<Rightarrow> provenanced_command" where
  "demo_accepted evidence =
     \<lparr>pc_command = \<lparr>ec_client_order_id = ''cog-p9-l1'',
        ec_intent = \<lparr>oi_intent_id = ''cog-p9-l1'', oi_candidate_id = ''p9'', oi_contract = demo_contract, oi_side = Buy,
          oi_order_type = Limit, oi_quantity = 2, oi_limit_price = Some 2\<rparr>, ec_account = ''default''\<rparr>,
      pc_decision_id = ''d9'', pc_strategy_id = ''s9'', pc_proposal_id = ''p9'', pc_snapshot_id = demo_snapshot_id, pc_cycle_id = ''c'',
      pc_evidence_ids = evidence, pc_max_quote_age_seconds = Some 60\<rparr>"

lemma demo_accepts:
  "validate_and_compile_proposal default_validation ''default'' evidence None None (Some demo_truth_now) (demo_proposal Buy) =
   Inr (demo_accepted evidence)"
proof -
  have "mt_snapshot demo_truth_now = demo_market" by (simp add: demo_truth_now_def build_truth_from_deps_def Let_def)
  moreover have "mk_trading_date demo_market = 20000" by (simp add: demo_market_def)
  moreover have "entry_order_id (demo_proposal Buy) (demo_leg Buy) = ''cog-p9-l1''" by code_simp
  then have "compile_proposal ''default'' evidence None (Some 20000) (demo_proposal Buy) = Inr (demo_accepted evidence)" for evidence
    by (simp add: compile_proposal_def demo_proposal_def demo_leg_def sum_then_def demo_parsed Let_def demo_accepted_def)
  moreover obtain pc where "demo_compiled Buy = Inr pc" using demo_compiled by blast
  then have "validate_authoritative default_validation demo_truth_now (demo_proposal Buy) = Inr ()"
    by (simp add: demo_compiled_def validate_and_compile_proposal_def sum_then_Inr)
  ultimately show ?thesis by (simp add: validate_and_compile_proposal_def sum_then_def)
qed

lemma demo_places:
  "gs_provenance (snd (place_order (demo_graph_env a) (demo_proposal Buy) (demo_accepted evidence) demo_gateway)) \<noteq> []"
proof -
  let ?rq = "provenanced_to_action_request (demo_accepted evidence) ENTRY"
  have named: "contract_id_for demo_contract = demo_contract_id" by code_simp
  have v: "validate_and_compile 20 {} ?rq demo_market (Some (demo_report True)) (Some demo_truth_surface) [] [] = Inr (pc_command (demo_accepted evidence))"
    by (simp add: demo_validation provenanced_to_action_request_def demo_accepted_def Let_def named [unfolded demo_contract_def] compile_command_def)
  have "case submit_execution_command demo_cfg (paper_ops demo_env) (pc_command (demo_accepted [])) (demo_start 2) of (Inl _, _) \<Rightarrow> False | (Inr _, _) \<Rightarrow> True"
    by code_simp
  then obtain ord x where sub: "submit_execution_command demo_cfg (paper_ops demo_env) (pc_command (demo_accepted evidence)) (demo_start 2) = (Inr ord, x)"
    by (auto simp: demo_accepted_def split: prod.splits sum.splits)
  have rq: "rq_snapshot_id ?rq = demo_snapshot_id" "rq_action ?rq = ENTRY"
    by (simp_all add: provenanced_to_action_request_def demo_accepted_def Let_def)
  have loaded: "working_orders_from_projection None [] = []" "open_positions_from_projection None = []" "gd_has_provenance (demo_deps True None)"
    by (simp_all add: working_orders_from_projection_def open_positions_from_projection_def demo_deps_def)
  have "gs_provenance (snd (gateway_submit (demo_deps True None) ?rq demo_gateway)) \<noteq> []"
    using sub v
    by (simp add: gateway_submit_def run_bind_def run_defs demo_truth load_projection_def act_on_truth_def Let_def rq loaded
        submit_validated_def on_exec_def record_provenance_def insert_or_replace_def split: prod.splits)
  moreover have "opening_kind (demo_proposal Buy) = ENTRY" "ce_deps (demo_graph_env a) = demo_deps True None"
    by (simp_all add: opening_kind_def demo_proposal_def demo_graph_env_def)
  ultimately show ?thesis
    by (auto simp: place_order_def run_bind_def run_ret_def split: prod.splits sum.splits)
qed


lemma trace_run:
  "append_trace env name status ids c s = (Inr (c\<lparr>cy_node_trace := merge_traces (cy_node_trace c)
       [\<lparr>nt_trace_id = ce_uuid env (gr_ids s), nt_node_name = name, nt_status = status, nt_artifact_ids = ids\<rparr>]\<rparr>), s\<lparr>gr_ids := Suc (gr_ids s)\<rparr>)"
  by (simp add: append_trace_def run_bind_def fresh_id_def run_ret_def)

definition demo_evidence :: "artefact list" where
  "demo_evidence = merge_artefacts [] (map demo_artefact perception_roles)"

definition demo_package :: context_package where
  "demo_package = \<lparr>cp_context_id = ''x'', cp_session_id = ''s'', cp_cycle_id = ''c'', cp_snapshot_id = demo_snapshot_id\<rparr>"

lemma demo_merges:
  "demo_evidence \<noteq> []" "merge_artefacts [] [demo_artefact ''s9''] = [demo_artefact ''s9'']" "demo_snapshot_id \<noteq> []"
proof -
  have "case demo_evidence of [] \<Rightarrow> False | _ \<Rightarrow> True" "case demo_snapshot_id of [] \<Rightarrow> False | _ \<Rightarrow> True" by code_simp+
  then show "demo_evidence \<noteq> []" "demo_snapshot_id \<noteq> []" by (auto split: list.splits)
  show "merge_artefacts [] [demo_artefact ''s9''] = [demo_artefact ''s9'']" by code_simp
qed

text \<open>The fields of a cycle of the example that its nodes read.\<close>

definition demo_shape :: "context_package option \<Rightarrow> artefact list \<Rightarrow> artefact list \<Rightarrow> meta_decision option \<Rightarrow> execution_proposal option \<Rightarrow> cycle \<Rightarrow> bool" where
  "demo_shape ctx ev st dec p c \<longleftrightarrow>
     cy_snapshot_id c = demo_snapshot_id \<and> cy_trigger_event_id c = ''e'' \<and> cy_cycle_id c = ''c'' \<and> cy_session_id c = ''s'' \<and>
     cy_context_package c = ctx \<and> cy_evidence c = ev \<and> cy_strategies c = st \<and> cy_meta_decision c = dec \<and>
     cy_execution_proposal c = p \<and> cy_command_id c = None \<and> cy_errors c = [] \<and> \<not> cy_stale_decision c"

definition demo_passes :: "graph_node \<Rightarrow> graph_node \<Rightarrow> (cycle \<Rightarrow> bool) \<Rightarrow> (cycle \<Rightarrow> bool) \<Rightarrow> bool" where
  "demo_passes nd nd' P Q \<longleftrightarrow>
     (\<forall>c s. P c \<longrightarrow> gr_gateway s = demo_gateway \<longrightarrow>
        (\<exists>c' s'. run_node (demo_graph_env Meta_Execute) nd c s = (Inr c', s') \<and>
           next_node default_graph_settings nd c' = Some nd' \<and> Q c' \<and> gr_gateway s' = demo_gateway))"

lemmas demo_pass_defs = demo_passes_def demo_shape_def demo_graph_env_def run_bind_def trace_run run_defs on_agents_def stored_def
  on_gateway_def

lemma demo_pass_1:
  "demo_passes Validate_Trigger Hydrate_Context (demo_shape None [] [] None None) (demo_shape None [] [] None None)"
  "demo_passes Hydrate_Context Perception (demo_shape None [] [] None None) (demo_shape (Some demo_package) [] [] None None)"
  "demo_passes Perception Synthesise_World_Model (demo_shape (Some demo_package) [] [] None None) (demo_shape (Some demo_package) demo_evidence [] None None)"
  "demo_passes Synthesise_World_Model Discovery (demo_shape (Some demo_package) demo_evidence [] None None) (demo_shape (Some demo_package) demo_evidence [] None None)"
proof -
  have market: "mk_snapshot_id demo_market = demo_snapshot_id" by (simp add: demo_market_def)
  note truth = demo_truth [of True None] market
  have repo: "gd_snapshots (demo_deps True None) = Some [demo_market]" by (simp add: demo_deps_def)
  note ids = demo_merges(3)
  show "demo_passes Validate_Trigger Hydrate_Context (demo_shape None [] [] None None) (demo_shape None [] [] None None)"
    using ids by (simp add: demo_pass_defs validate_trigger_def)
  show "demo_passes Hydrate_Context Perception (demo_shape None [] [] None None) (demo_shape (Some demo_package) [] [] None None)"
    using ids truth by (simp add: demo_pass_defs hydrate_context_def repo demo_package_def load_projection_def on_exec_def)
  show "demo_passes Perception Synthesise_World_Model (demo_shape (Some demo_package) [] [] None None) (demo_shape (Some demo_package) demo_evidence [] None None)"
    using ids truth by (simp add: demo_pass_defs run_perception_def perception_roles_def demo_evidence_def)
  show "demo_passes Synthesise_World_Model Discovery (demo_shape (Some demo_package) demo_evidence [] None None) (demo_shape (Some demo_package) demo_evidence [] None None)"
    using ids truth demo_merges(1) by (auto simp add: demo_pass_defs synthesise_world_model_def split: option.splits)
qed

lemma demo_pass_2:
  "demo_passes Discovery Strategy (demo_shape (Some demo_package) demo_evidence [] None None) (demo_shape (Some demo_package) demo_evidence [] None None)"
  "demo_passes Strategy Select_Candidates (demo_shape (Some demo_package) demo_evidence [] None None) (demo_shape (Some demo_package) demo_evidence [demo_artefact ''s9''] None None)"
  "demo_passes Select_Candidates Debate (demo_shape (Some demo_package) demo_evidence [demo_artefact ''s9''] None None) (demo_shape (Some demo_package) demo_evidence [demo_artefact ''s9''] None None)"
  by (simp_all add: demo_pass_defs run_discovery_def run_strategy_construction_def select_debate_candidates_def default_graph_settings_def demo_merges)

lemma demo_stamped: "stamp_proposal ''d9'' ''s9'' ''s'' ''c'' demo_snapshot_id (demo_proposal Buy) = demo_proposal Buy"
  by (simp add: stamp_proposal_def demo_proposal_def)

lemma demo_pass_3:
  "demo_passes Debate Meta_Decision (demo_shape (Some demo_package) demo_evidence [demo_artefact ''s9''] None None) (demo_shape (Some demo_package) demo_evidence [demo_artefact ''s9''] None None)"
  "demo_passes Meta_Decision Entry_Tactician (demo_shape (Some demo_package) demo_evidence [demo_artefact ''s9''] None None) (demo_shape (Some demo_package) demo_evidence [demo_artefact ''s9''] (Some (demo_decision Meta_Execute)) None)"
  "demo_passes Entry_Tactician Validate_Proposal (demo_shape (Some demo_package) demo_evidence [demo_artefact ''s9''] (Some (demo_decision Meta_Execute)) None) 
     (demo_shape (Some demo_package) demo_evidence [demo_artefact ''s9''] (Some (demo_decision Meta_Execute)) (Some (demo_proposal Buy)))"
proof -
  show "demo_passes Debate Meta_Decision (demo_shape (Some demo_package) demo_evidence [demo_artefact ''s9''] None None) (demo_shape (Some demo_package) demo_evidence [demo_artefact ''s9''] None None)"
  proof -
    have "debated c = [] \<or> debated c = [demo_artefact ''s9'']" if "cy_strategies c = [demo_artefact ''s9'']" for c
      using that by (simp add: debated_def)
    then show ?thesis by (fastforce simp add: demo_pass_defs run_debate_def)
  qed
  show "demo_passes Meta_Decision Entry_Tactician (demo_shape (Some demo_package) demo_evidence [demo_artefact ''s9''] None None) (demo_shape (Some demo_package) demo_evidence [demo_artefact ''s9''] (Some (demo_decision Meta_Execute)) None)"
    by (simp add: demo_pass_defs meta_decision_node_def validate_meta_decision_def demo_decision_def demo_artefact_def route_meta_decision_def)
  show "demo_passes Entry_Tactician Validate_Proposal (demo_shape (Some demo_package) demo_evidence [demo_artefact ''s9''] (Some (demo_decision Meta_Execute)) None) 
     (demo_shape (Some demo_package) demo_evidence [demo_artefact ''s9''] (Some (demo_decision Meta_Execute)) (Some (demo_proposal Buy)))"
    by (simp add: demo_pass_defs entry_tactician_node_def selected_strategy_def demo_decision_def demo_artefact_def demo_stamped demo_package_def Let_def)
qed

lemma demo_compiles:
  assumes "cy_evidence c = demo_evidence" "gr_gateway s = demo_gateway"
  shows "compile_against_truth (demo_graph_env Meta_Execute) c (demo_proposal Buy) s = (Inr (demo_accepted (map af_id demo_evidence)), s)"
proof -
  have "ep_snapshot_id (demo_proposal Buy) = demo_snapshot_id" by (simp add: demo_proposal_def)
  moreover have "ce_deps (demo_graph_env Meta_Execute) = demo_deps True None" by (simp add: demo_graph_env_def)
  moreover have "s\<lparr>gr_gateway := demo_gateway\<rparr> = s" "demo_gateway\<lparr>gs_exec := demo_start 2\<rparr> = demo_gateway"
    using assms(2) by (simp_all add: demo_gateway_def)
  ultimately show ?thesis
    using assms demo_accepts [unfolded demo_truth_now_def]
    by (simp add: compile_against_truth_def run_bind_def run_defs on_gateway_def load_projection_def on_exec_def demo_truth)
qed

lemma demo_pass_4:
  "demo_passes Validate_Proposal Submit_Command
     (demo_shape (Some demo_package) demo_evidence [demo_artefact ''s9''] (Some (demo_decision Meta_Execute)) (Some (demo_proposal Buy)))
     (demo_shape (Some demo_package) demo_evidence [demo_artefact ''s9''] (Some (demo_decision Meta_Execute)) (Some (demo_proposal Buy)))"
proof -
  show ?thesis
    using demo_compiles
    by (simp add: demo_passes_def demo_shape_def validate_execution_proposal_def tried_def run_bind_def trace_run after_validate_route_def)
qed

text \<open>The run of the example is at a node, with \<open>n\<close> more allowed and nothing done behind the gateway.\<close>

definition demo_gets :: "nat \<Rightarrow> graph_node \<Rightarrow> (cycle \<Rightarrow> bool) \<Rightarrow> bool" where
  "demo_gets n nd P \<longleftrightarrow>
     (\<exists>c s. run_cycle (demo_graph_env Meta_Execute) demo_cycle demo_graph_run = run_graph (demo_graph_env Meta_Execute) n nd c s \<and>
        P c \<and> gr_gateway s = demo_gateway)"

lemma demo_onward:
  assumes "demo_passes nd nd' P Q" "demo_gets (Suc n) nd P"
  shows "demo_gets n nd' Q"
proof -
  have settings: "ce_settings (demo_graph_env Meta_Execute) = default_graph_settings" by (simp add: demo_graph_env_def)
  obtain c s where c: "run_cycle (demo_graph_env Meta_Execute) demo_cycle demo_graph_run = run_graph (demo_graph_env Meta_Execute) (Suc n) nd c s"
    "P c" "gr_gateway s = demo_gateway"
    using assms(2) unfolding demo_gets_def by blast
  then obtain c' s' where "run_node (demo_graph_env Meta_Execute) nd c s = (Inr c', s')" "next_node default_graph_settings nd c' = Some nd'"
    "Q c'" "gr_gateway s' = demo_gateway"
    using assms(1) unfolding demo_passes_def by blast
  then show ?thesis
    unfolding demo_gets_def c(1) by (intro exI [of _ c'] exI [of _ s']) (simp add: run_bind_def settings del: run_node.simps)
qed

lemma demo_reaches:
  "demo_gets 14 Submit_Command
     (demo_shape (Some demo_package) demo_evidence [demo_artefact ''s9''] (Some (demo_decision Meta_Execute)) (Some (demo_proposal Buy)))"
proof -
  have limit: "recursion_limit = Suc (Suc (Suc (Suc (Suc (Suc (Suc (Suc (Suc (Suc (Suc 14))))))))))" by (simp add: recursion_limit_def)
  have "demo_shape None [] [] None None demo_cycle" by (simp add: demo_shape_def demo_cycle_def initial_cycle_state_def)
  moreover have "gr_gateway demo_graph_run = demo_gateway" by (simp add: demo_graph_run_def)
  ultimately have start: "demo_gets recursion_limit Validate_Trigger (demo_shape None [] [] None None)"
    unfolding demo_gets_def run_cycle_def by blast
  show ?thesis
    by (rule demo_onward [OF demo_pass_4], rule demo_onward [OF demo_pass_3(3)], rule demo_onward [OF demo_pass_3(2)],
        rule demo_onward [OF demo_pass_3(1)], rule demo_onward [OF demo_pass_2(3)], rule demo_onward [OF demo_pass_2(2)],
        rule demo_onward [OF demo_pass_2(1)], rule demo_onward [OF demo_pass_1(4)], rule demo_onward [OF demo_pass_1(3)],
        rule demo_onward [OF demo_pass_1(2)], rule demo_onward [OF demo_pass_1(1)], rule start [unfolded limit])
qed

lemma demo_shapeD:
  assumes "demo_shape ctx ev st dec p c"
  shows "cy_evidence c = ev" "cy_execution_proposal c = p" "cy_command_id c = None"
  using assms by (simp_all add: demo_shape_def)

lemma demo_cycle_orders:
  assumes "run_cycle (demo_graph_env Meta_Execute) demo_cycle demo_graph_run = (r, s')"
  shows "gr_gateway s' \<noteq> demo_gateway"
proof -
  let ?E = "demo_graph_env Meta_Execute"
  from demo_reaches obtain c s where at_node: "run_cycle ?E demo_cycle demo_graph_run = run_graph ?E 14 Submit_Command c s"
    "demo_shape (Some demo_package) demo_evidence [demo_artefact ''s9''] (Some (demo_decision Meta_Execute)) (Some (demo_proposal Buy)) c"
    "gr_gateway s = demo_gateway"
    unfolding demo_gets_def by blast
  note c = trans [OF at_node(1) [symmetric] assms] at_node(3) demo_shapeD [OF at_node(2)]
  have fresh: "\<not> opt_truthy (cy_command_id c)" unfolding c(5) by (simp add: opt_truthy_def)
  obtain q s1 where q: "run_node ?E Submit_Command c s = (q, s1)" by fastforce
  have s1: "gr_gateway s1 = snd (place_order ?E (demo_proposal Buy) (demo_accepted (map af_id demo_evidence)) demo_gateway)"
    using submit_node_runs [OF c(4) fresh demo_compiles [OF c(3,2)] q [unfolded run_node.simps]] unfolding c(2) .
  have "gr_gateway s' = gr_gateway s1"
  proof (cases q)
    case (Inl e)
    then show ?thesis using c(1) q by (simp add: eval_nat_numeral run_bind_def del: run_node.simps)
  next
    case (Inr c')
    obtain q2 s2 where q2: "run_node ?E Persist_Cycle c' s1 = (q2, s2)" by fastforce
    have "s' = s2" using c(1) q q2 Inr
      by (cases q2) (simp_all add: eval_nat_numeral run_bind_def run_ret_def del: run_node.simps)
    then show ?thesis using keepsD [OF node_keeps_gateway [OF demo_reads] q2] by simp
  qed
  then show ?thesis using s1 demo_places [of Meta_Execute "map af_id demo_evidence"] by (auto simp: demo_gateway_def)
qed

theorem cycle_places_at_most_one_order_witness:
  "\<exists>r s' n c s1 p pc. run_cycle (demo_graph_env Meta_Execute) demo_cycle demo_graph_run = (r, s') \<and> gr_gateway s' \<noteq> demo_gateway \<and>
     graph_steps (demo_graph_env Meta_Execute) n (Validate_Trigger, demo_cycle, demo_graph_run) (Submit_Command, c, s1) \<and>
     cy_execution_proposal c = Some p \<and> gr_gateway s' = snd (place_order (demo_graph_env Meta_Execute) p pc demo_gateway)"
proof -
  obtain r s' where run: "run_cycle (demo_graph_env Meta_Execute) demo_cycle demo_graph_run = (r, s')" by fastforce
  have g: "gr_gateway demo_graph_run = demo_gateway" by (simp add: demo_graph_run_def)
  have "gr_gateway s' \<noteq> gr_gateway demo_graph_run" unfolding g by (rule demo_cycle_orders [OF run])
  with cycle_places_at_most_one_order [OF demo_reads run [unfolded demo_cycle_def]] run show ?thesis
    unfolding g demo_cycle_def by blast
qed

theorem unloadable_snapshot_aborts_cycle_witness:
  "\<exists>s'. run_cycle (demo_graph_env Meta_Execute) (initial_cycle_state ''s'' ''r'' ''c'' ''e'' ''t'' ''gone'') demo_graph_run = (Inl ValueError, s') \<and>
     gr_published s' = [] \<and> gr_gateway s' = demo_gateway"
proof -
  have "parse_uuid ''gone'' = None" by code_simp
  then have "load_snapshot_truth (ce_deps (demo_graph_env Meta_Execute)) ''gone'' = Inl ValueError"
    by (simp add: load_snapshot_truth_def demo_graph_env_def demo_deps_def)
  from unloadable_snapshot_aborts_cycle [OF this, of "''s''" "''r''" "''c''" "''e''" "''t''" demo_graph_run] show ?thesis
    by (simp add: demo_graph_run_def)
qed

end
