(* ===== verification/Position_Graph.thy ===== *)
theory Position_Graph
  imports Cognitive_Graph
begin

text \<open>
  The position graph (\<open>joker/graph/position_graph.py\<close>) with the agents' stamps of \<open>joker/agents/cognitive/position.py\<close>:
  one straight line of nodes from the truth of the position to the order its decision asks for. The services are those
  of the decision graph; the answers of the agents and the repositories of theses and strategies are parameters. The
  trading date the last node computes is not used by it and left out, and LangGraph drops the \<open>_degraded_exit_reason\<close>
  the node returns, for which the state has no channel.
\<close>

section \<open>Theses\<close>

datatype position_action = Hold | Add | Reduce | Exit_Position | Cancel_Working_Order | Replace_Working_Order | Update_Thesis

fun position_action_value :: "position_action \<Rightarrow> string" where
  "position_action_value Hold = ''hold''"
| "position_action_value Add = ''add''"
| "position_action_value Reduce = ''reduce''"
| "position_action_value Exit_Position = ''exit''"
| "position_action_value Cancel_Working_Order = ''cancel_working_order''"
| "position_action_value Replace_Working_Order = ''replace_working_order''"
| "position_action_value Update_Thesis = ''update_thesis''"

record thesis =
  th_version_id :: uuid
  th_position_id :: string
  th_contract_id :: string
  th_session_id :: string
  th_snapshot_id :: uuid
  th_prior_version_id :: "uuid option"
  th_original_strategy_id :: uuid
  th_current_thesis :: string
  th_recommended_action :: position_action
  th_recommended_quantity :: "int option"
  th_recommended_limit_price :: "decimal option"

text \<open>\<open>PositionThesisAgent.reassess\<close> and \<open>PositionDecisionAgent.decide\<close> stamp the answer.\<close>

definition stamp_thesis :: "string \<Rightarrow> string \<Rightarrow> context_package \<Rightarrow> uuid \<Rightarrow> thesis option \<Rightarrow> thesis \<Rightarrow> thesis" where
  "stamp_thesis position contract ctx strategy prior t =
     (let t' = t\<lparr>th_position_id := position, th_contract_id := contract, th_session_id := cp_session_id ctx,
                 th_snapshot_id := cp_snapshot_id ctx, th_original_strategy_id := strategy\<rparr>
      in case prior of None \<Rightarrow> t' | Some v \<Rightarrow> t'\<lparr>th_prior_version_id := Some (th_version_id v)\<rparr>)"

definition stamp_decision :: "context_package \<Rightarrow> thesis \<Rightarrow> thesis \<Rightarrow> thesis" where
  "stamp_decision ctx latest d =
     d\<lparr>th_position_id := th_position_id latest, th_contract_id := th_contract_id latest, th_session_id := cp_session_id ctx,
       th_snapshot_id := cp_snapshot_id ctx, th_original_strategy_id := th_original_strategy_id latest,
       th_prior_version_id := Some (th_version_id latest)\<rparr>"

section \<open>The view of the ledger\<close>

text \<open>A quantity the view does not carry is \<open>None\<close>; \<open>average_price\<close> is always the empty text, for the ledger's position calls
  it otherwise.\<close>

record position_view =
  pw_position_id :: string
  pw_contract_id :: "string option"
  pw_quantity :: "decimal option"

definition ledger_contract :: "string \<Rightarrow> position_state \<Rightarrow> string" where
  "ledger_contract key pos = (if ps_contract_id pos = [] then key else ps_contract_id pos)"

definition extract_position :: "projection_state option \<Rightarrow> string \<Rightarrow> position_view" where
  "extract_position projection position_id =
     (let bare = \<lparr>pw_position_id = position_id, pw_contract_id = None, pw_quantity = None\<rparr>
      in case projection of
        None \<Rightarrow> bare
      | Some p \<Rightarrow>
          (case find (\<lambda>(key, pos). ledger_contract key pos = position_id \<or> key = position_id) (pr_positions p) of
             Some (key, pos) \<Rightarrow>
               \<lparr>pw_position_id = position_id, pw_contract_id = Some (ledger_contract key pos),
                pw_quantity = (if ps_quantity pos = 0 then None else Some (ps_quantity pos))\<rparr>
           | None \<Rightarrow>
               (case find (\<lambda>(key, pos). ps_quantity pos \<noteq> 0) (pr_positions p) of
                  Some (key, pos) \<Rightarrow>
                    \<lparr>pw_position_id = position_id, pw_contract_id = Some (ps_contract_id pos), pw_quantity = Some (ps_quantity pos)\<rparr>
                | None \<Rightarrow> bare)))"

text \<open>Of a ledger order the view carries neither side nor quantity: the code asks for attributes it does not have.\<close>

record order_view =
  ow_client_order_id :: string
  ow_status :: string

definition extract_orders :: "projection_state option \<Rightarrow> order_view option" where
  "extract_orders projection =
     (case projection of
        None \<Rightarrow> None
      | Some p \<Rightarrow>
          map_option (\<lambda>ord. \<lparr>ow_client_order_id = ol_client_order_id ord, ow_status = order_status_value (ol_status ord)\<rparr>)
            (find (\<lambda>ord. order_status_value (ol_status ord) \<in> working_statuses) (dict_values (pr_orders p))))"

section \<open>The state of a position cycle\<close>

record position_cycle =
  pq_session_id :: string
  pq_run_id :: string
  pq_cycle_id :: string
  pq_snapshot_id :: string
  pq_position_id :: string
  pq_contract_id :: string
  pq_original_strategy_id :: "string option"
  pq_original_strategy :: "artefact option"
  pq_prior_thesis :: "thesis option"
  pq_thesis :: "thesis option"
  pq_decision :: "thesis option"
  pq_position :: "position_view option"
  pq_order :: "order_view option"
  pq_trading_date :: "int option"
  pq_critic_notes :: "artefact option"
  pq_action :: "string option"
  pq_command_id :: "string option"
  pq_context_package :: "context_package option"
  pq_node_trace :: "node_trace list"
  pq_errors :: "graph_error list"

record ('g, 'b) position_env =
  pe_graph :: "('g, 'b) graph_env"
  pe_assemble :: "string \<Rightarrow> position_cycle \<Rightarrow> market_state \<Rightarrow> quality_report \<Rightarrow> surface option \<Rightarrow> py_error + context_package"
  pe_strategy :: "(uuid \<Rightarrow> ('g, artefact option) run) option"
  pe_theses :: "(string \<Rightarrow> ('g, thesis list) run) option"
  pe_keep_thesis :: "thesis \<Rightarrow> ('g, unit) run"
  pe_reassess :: "context_package \<Rightarrow> position_cycle \<Rightarrow> ('g, thesis) run"
  pe_criticise :: "context_package \<Rightarrow> thesis \<Rightarrow> ('g, artefact) run"
  pe_decide :: "context_package \<Rightarrow> position_cycle \<Rightarrow> ('g, thesis) run"

type_synonym ('g, 'b) position_node = "position_cycle \<Rightarrow> (('g, 'b) graph_run, position_cycle) run"

abbreviation pe_deps :: "('g, 'b) position_env \<Rightarrow> 'b gateway_deps" where
  "pe_deps env \<equiv> ce_deps (pe_graph env)"

definition position_trace :: "('g, 'b) position_env \<Rightarrow> string \<Rightarrow> node_status \<Rightarrow> uuid list \<Rightarrow> ('g, 'b) position_node" where
  "position_trace env name status ids c =
     run_bind (fresh_id (pe_graph env)) (\<lambda>i. run_ret (c\<lparr>pq_node_trace := merge_traces (pq_node_trace c)
       [\<lparr>nt_trace_id = i, nt_node_name = name, nt_status = status, nt_artifact_ids = ids\<rparr>]\<rparr>))"

definition position_error :: "('g, 'b) position_env \<Rightarrow> string \<Rightarrow> string \<Rightarrow> string \<Rightarrow> ('g, 'b) position_node" where
  "position_error env name code msg c =
     run_bind (fresh_id (pe_graph env)) (\<lambda>i. run_ret (c\<lparr>pq_errors := merge_errors (pq_errors c)
       [\<lparr>ge_error_id = i, ge_node_name = name, ge_error_code = code, ge_message = msg, ge_recoverable = True\<rparr>]\<rparr>))"

definition position_session :: "('g, 'b) position_env \<Rightarrow> position_cycle \<Rightarrow> string" where
  "position_session env c = first_nonempty [Some (pq_session_id c)] (ce_session_id (pe_graph env))"

section \<open>The nodes before the action\<close>

definition hydrate_position_truth :: "('g, 'b) position_env \<Rightarrow> ('g, 'b) position_node" where
  "hydrate_position_truth env c =
     (if pq_snapshot_id c = [] \<or> pq_position_id c = []
      then position_error env ''hydrate_position_truth'' ''missing_position_inputs'' ''snapshot_id and position_id required'' c
      else run_bind (run_lift (load_snapshot_truth (pe_deps env) (pq_snapshot_id c))) (\<lambda>(snapshot, quality, sf).
           run_bind (on_gateway (load_projection (pe_deps env))) (\<lambda>projection.
           run_bind (if pq_cycle_id c = [] then fresh_id (pe_graph env) else run_ret (pq_cycle_id c)) (\<lambda>cid.
             let c1 = c\<lparr>pq_cycle_id := cid, pq_position := Some (extract_position projection (pq_position_id c)),
                        pq_order := extract_orders projection\<rparr>
             in run_bind (run_lift (pe_assemble env ''position_thesis'' c1 snapshot quality sf)) (\<lambda>ctx.
                position_trace env ''hydrate_position_truth'' Completed []
                  (c1\<lparr>pq_context_package := Some ctx, pq_trading_date := Some (mk_trading_date snapshot)\<rparr>))))))"

definition load_original_strategy :: "('g, 'b) position_env \<Rightarrow> ('g, 'b) position_node" where
  "load_original_strategy env c =
     run_bind (case (pq_original_strategy_id c, pe_strategy env) of
                 (Some i, Some look) \<Rightarrow>
                   if i = [] then run_ret None
                   else run_catch (case parse_uuid i of None \<Rightarrow> run_raise ValueError | Some u \<Rightarrow> on_agents (look u)) (\<lambda>_. run_ret None)
               | _ \<Rightarrow> run_ret None) (\<lambda>st.
       position_trace env ''load_original_strategy'' Completed [] (c\<lparr>pq_original_strategy := st\<rparr>))"

definition load_prior_thesis :: "('g, 'b) position_env \<Rightarrow> ('g, 'b) position_node" where
  "load_prior_thesis env c =
     run_bind (case pe_theses env of
                 None \<Rightarrow> run_ret None
               | Some theses \<Rightarrow>
                   if pq_position_id c = [] then run_ret None
                   else run_bind (on_agents (theses (position_session env c))) (\<lambda>ts.
                        let matching = filter (\<lambda>t. th_position_id t = pq_position_id c) ts
                        in run_ret (if matching = [] then None else Some (last matching)))) (\<lambda>prior.
       position_trace env ''load_prior_thesis'' Completed [] (c\<lparr>pq_prior_thesis := prior\<rparr>))"

definition position_thesis_agent :: "('g, 'b) position_env \<Rightarrow> ('g, 'b) position_node" where
  "position_thesis_agent env c =
     (case pq_context_package c of
        None \<Rightarrow> position_error env ''position_thesis_agent'' ''missing_context'' ''context package required'' c
      | Some ctx \<Rightarrow>
          run_bind (if opt_truthy (pq_original_strategy_id c)
                    then run_lift (case parse_uuid (the (pq_original_strategy_id c)) of None \<Rightarrow> Inl ValueError | Some u \<Rightarrow> Inr u)
                    else fresh_id (pe_graph env)) (\<lambda>strategy.
          run_bind (on_agents (pe_reassess env ctx c)) (\<lambda>answer.
            let t = stamp_thesis (pq_position_id c) (pq_contract_id c) ctx strategy (pq_prior_thesis c) answer
            in run_bind (on_agents (pe_keep_thesis env t)) (\<lambda>_.
               position_trace env ''position_thesis_agent'' Completed [th_version_id t] (c\<lparr>pq_thesis := Some t\<rparr>)))))"

definition position_execution_critic :: "('g, 'b) position_env \<Rightarrow> ('g, 'b) position_node" where
  "position_execution_critic env c =
     (case (pq_context_package c, pq_thesis c) of
        (Some ctx, Some t) \<Rightarrow>
          run_bind (run_lift (load_snapshot_truth (pe_deps env) (cp_snapshot_id ctx))) (\<lambda>(snapshot, quality, sf).
          run_bind (run_lift (pe_assemble env ''execution_critic'' c snapshot quality sf)) (\<lambda>critic.
          run_bind (on_agents (pe_criticise env critic t)) (\<lambda>review.
          run_bind (on_agents (ce_store (pe_graph env) ''review'' (af_id review))) (\<lambda>_.
            position_trace env ''position_execution_critic'' Completed [af_id review] (c\<lparr>pq_critic_notes := Some review\<rparr>)))))
      | _ \<Rightarrow> position_error env ''position_execution_critic'' ''missing_thesis'' ''thesis required for position execution critic'' c)"

definition position_decision_agent :: "('g, 'b) position_env \<Rightarrow> ('g, 'b) position_node" where
  "position_decision_agent env c =
     (case (pq_context_package c, pq_thesis c) of
        (Some ctx, Some t) \<Rightarrow>
          run_bind (run_lift (load_snapshot_truth (pe_deps env) (cp_snapshot_id ctx))) (\<lambda>(snapshot, quality, sf).
          run_bind (run_lift (pe_assemble env ''position_decision'' c snapshot quality sf)) (\<lambda>ctx'.
          run_bind (on_agents (pe_decide env ctx' c)) (\<lambda>answer.
            let d = stamp_decision ctx' t answer
            in run_bind (on_agents (pe_keep_thesis env d)) (\<lambda>_.
               position_trace env ''position_decision_agent'' Completed [th_version_id d] (c\<lparr>pq_decision := Some d\<rparr>)))))
      | _ \<Rightarrow> position_error env ''position_decision_agent'' ''missing_thesis'' ''thesis required for position decision'' c)"

section \<open>The action\<close>

definition open_quantity_of :: "position_view option \<Rightarrow> int" where
  "open_quantity_of v =
     (case v of
        None \<Rightarrow> 1
      | Some w \<Rightarrow> max 1 (trunc_zero (case pw_quantity w of None \<Rightarrow> 1 | Some q \<Rightarrow> if q = 0 then 1 else q)))"

definition working_client_id :: "position_cycle \<Rightarrow> string" where
  "working_client_id c = (case pq_order c of None \<Rightarrow> [] | Some ord \<Rightarrow> ow_client_order_id ord)"

text \<open>Kind, side and quantity of the order an action asks for.\<close>

definition order_shape :: "position_cycle \<Rightarrow> thesis \<Rightarrow> order_action_kind \<times> side \<times> int" where
  "order_shape c d =
     (let held = open_quantity_of (pq_position c);
          asked = (case th_recommended_quantity d of None \<Rightarrow> held | Some q \<Rightarrow> if q = 0 then held else q)
      in case th_recommended_action d of
           Reduce \<Rightarrow> (REDUCE, Sell, max 1 (min asked held))
         | Add \<Rightarrow> (ADD, Buy, max 1 asked)
         | Replace_Working_Order \<Rightarrow> (REPLACE, Buy, asked)
         | _ \<Rightarrow> (EXIT, Sell, held))"

definition position_request :: "position_cycle \<Rightarrow> thesis \<Rightarrow> action_request" where
  "position_request c d =
     (case order_shape c d of (kind, sd, qty) \<Rightarrow>
        \<lparr>rq_action = kind, rq_snapshot_id = first_nonempty [Some (pq_snapshot_id c)] (th_snapshot_id d), rq_contract_id = th_contract_id d,
         rq_side = sd, rq_quantity = qty,
         rq_client_order_id = ''pos-'' @ th_version_id d @ ''-'' @ position_action_value (th_recommended_action d),
         rq_limit_price = th_recommended_limit_price d,
         rq_order_type = (if th_recommended_limit_price d = None then Market else Limit), rq_max_quote_age_seconds = Some 3600,
         rq_proposal_id = None, rq_decision_id = Some (th_version_id d), rq_strategy_id = Some (th_original_strategy_id d),
         rq_cycle_id = Some (pq_cycle_id c),
         rq_replace_of = (if kind = REPLACE \<and> working_client_id c \<noteq> [] then Some (working_client_id c) else None),
         rq_allow_degraded_exit = True, rq_degraded_exit_reason = Some ''position_close_with_degraded_market_data'',
         rq_evidence_ids = [], rq_broker_account_id = ''default''\<rparr>)"

text \<open>
  \<open>route_position_action\<close>. A trace of the update replaces the one put into it before, so a node that completes shows one
  trace and a node that fails shows the \<open>started\<close> trace and the error.
\<close>

definition route_position_action :: "('g, 'b) position_env \<Rightarrow> ('g, 'b) position_node" where
  "route_position_action env c =
     (case pq_decision c of
        None \<Rightarrow> position_error env ''route_position_action'' ''missing_decision'' ''position decision missing'' c
      | Some d \<Rightarrow>
          let action = th_recommended_action d;
              c1 = c\<lparr>pq_action := Some (position_action_value action)\<rparr>;
              trace = (\<lambda>status. position_trace env ''route_position_action'' status []);
              fail = (\<lambda>code msg. run_bind (trace Started c1) (\<lambda>c2. position_error env ''route_position_action'' code msg c2))
          in if action = Hold \<or> action = Update_Thesis then trace Completed c1
             else if \<not> gd_has_runtime (pe_deps env) then fail ''no_execution_runtime'' ''ExecutionRuntime required for order actions''
             else if action = Cancel_Working_Order
             then let client = working_client_id c
                  in if client = [] then trace Completed c1
                     else run_bind (on_gateway (on_exec (cancel_client_order (gd_config (pe_deps env)) (gd_ops (pe_deps env)) client)))
                            (\<lambda>_. trace Completed (c1\<lparr>pq_command_id := Some (''cancel:'' @ client)\<rparr>))
             else if opt_truthy (pq_command_id c) then trace Skipped c1
             else run_bind (on_gateway (gateway_submit (pe_deps env) (position_request c d))) (\<lambda>res.
                    if \<not> rs_submitted res then fail ''gateway_blocked'' (first_nonempty [rs_blocked_reason res] ''blocked'')
                    else trace Completed (c1\<lparr>pq_command_id := Some (rs_client_order_id res)\<rparr>)))"

text \<open>The compiled graph: the nodes in a line.\<close>

definition run_position_graph :: "('g, 'b) position_env \<Rightarrow> ('g, 'b) position_node" where
  "run_position_graph env c =
     run_bind (hydrate_position_truth env c) (\<lambda>c1.
     run_bind (load_original_strategy env c1) (\<lambda>c2.
     run_bind (load_prior_thesis env c2) (\<lambda>c3.
     run_bind (position_thesis_agent env c3) (\<lambda>c4.
     run_bind (position_execution_critic env c4) (\<lambda>c5.
     run_bind (position_decision_agent env c5) (\<lambda>c6.
       route_position_action env c6))))))"

section \<open>The order of a position cycle\<close>

lemma keeps_position_trace [gateway_kept]: "keeps g (position_trace env name status ids c)"
  unfolding position_trace_def by (intro preserve_intros gateway_kept)

lemma keeps_position_error [gateway_kept]: "keeps g (position_error env name code msg c)"
  unfolding position_error_def by (intro preserve_intros gateway_kept)

lemma before_action_keeps:
  assumes "reads_only (pe_deps env)"
  shows "keeps g (hydrate_position_truth env c)" "keeps g (load_original_strategy env c)" "keeps g (load_prior_thesis env c)"
    "keeps g (position_thesis_agent env c)" "keeps g (position_execution_critic env c)" "keeps g (position_decision_agent env c)"
  unfolding hydrate_position_truth_def load_original_strategy_def load_prior_thesis_def position_thesis_agent_def
    position_execution_critic_def position_decision_agent_def Let_def prod.case
  by (intro preserve_intros gateway_kept keeps_projection assms)+

lemma yields_position_trace [yields_intros]:
  "(\<And>t. Q (c\<lparr>pq_node_trace := t\<rparr>)) \<Longrightarrow> yields Q (position_trace env name status ids c)"
  unfolding position_trace_def by (intro yields_intros)

lemma yields_position_error [yields_intros]:
  "(\<And>t. Q (c\<lparr>pq_errors := t\<rparr>)) \<Longrightarrow> yields Q (position_error env name code msg c)"
  unfolding position_error_def by (intro yields_intros)

text \<open>The line up to the decision.\<close>

definition position_decided :: "('g, 'b) position_env \<Rightarrow> ('g, 'b) position_node" where
  "position_decided env c =
     run_bind (hydrate_position_truth env c) (\<lambda>c1. run_bind (load_original_strategy env c1) (\<lambda>c2.
     run_bind (load_prior_thesis env c2) (\<lambda>c3. run_bind (position_thesis_agent env c3) (\<lambda>c4.
     run_bind (position_execution_critic env c4) (position_decision_agent env)))))"

lemma run_position_graph_split:
  "run_position_graph env c = run_bind (position_decided env c) (route_position_action env)"
  by (simp add: run_position_graph_def position_decided_def run_bind_assoc)

text \<open>
  What the cycle knows once it has a context: the position and the working order of the projection, and a thesis and a
  decision about the contract the cycle was started for.
\<close>

definition informed :: "string \<Rightarrow> string \<Rightarrow> projection_state option \<Rightarrow> position_cycle \<Rightarrow> bool" where
  "informed pid cid projection c \<longleftrightarrow>
     pq_contract_id c = cid \<and> pq_position c = Some (extract_position projection pid) \<and> pq_order c = extract_orders projection \<and>
     (\<forall>t. pq_thesis c = Some t \<longrightarrow> th_contract_id t = cid) \<and> (\<forall>d. pq_decision c = Some d \<longrightarrow> th_contract_id d = cid)"

definition uninformed :: "position_cycle \<Rightarrow> bool" where
  "uninformed c \<longleftrightarrow> pq_context_package c = None \<and> pq_thesis c = None \<and> pq_decision c = None"

lemma after_truth_informed:
  "informed pid cid projection c \<Longrightarrow> yields (informed pid cid projection) (load_original_strategy env c)"
  "informed pid cid projection c \<Longrightarrow> yields (informed pid cid projection) (load_prior_thesis env c)"
  "informed pid cid projection c \<Longrightarrow> yields (informed pid cid projection) (position_thesis_agent env c)"
  "informed pid cid projection c \<Longrightarrow> yields (informed pid cid projection) (position_execution_critic env c)"
  "informed pid cid projection c \<Longrightarrow> yields (informed pid cid projection) (position_decision_agent env c)"
  unfolding load_original_strategy_def load_prior_thesis_def position_thesis_agent_def position_execution_critic_def
    position_decision_agent_def Let_def prod.case
  by (intro yields_intros; auto simp: informed_def stamp_thesis_def stamp_decision_def Let_def split: option.splits; fail)+

lemma after_truth_uninformed:
  "uninformed c \<Longrightarrow> yields uninformed (load_original_strategy env c)"
  "uninformed c \<Longrightarrow> yields uninformed (load_prior_thesis env c)"
  "uninformed c \<Longrightarrow> yields uninformed (position_thesis_agent env c)"
  "uninformed c \<Longrightarrow> yields uninformed (position_execution_critic env c)"
  "uninformed c \<Longrightarrow> yields uninformed (position_decision_agent env c)"
  unfolding load_original_strategy_def load_prior_thesis_def position_thesis_agent_def position_execution_critic_def
    position_decision_agent_def Let_def prod.case
  by (intro yields_intros; auto simp: uninformed_def split: option.splits; fail)+

text \<open>A property that each node of the line keeps is kept by the line.\<close>

lemma line_yields:
  assumes "P c"
    and "\<And>c. P c \<Longrightarrow> yields P (load_original_strategy env c)" "\<And>c. P c \<Longrightarrow> yields P (load_prior_thesis env c)"
      "\<And>c. P c \<Longrightarrow> yields P (position_thesis_agent env c)" "\<And>c. P c \<Longrightarrow> yields P (position_execution_critic env c)"
      "\<And>c. P c \<Longrightarrow> yields P (position_decision_agent env c)"
  shows "yields P (run_bind (load_original_strategy env c) (\<lambda>c2. run_bind (load_prior_thesis env c2) (\<lambda>c3.
     run_bind (position_thesis_agent env c3) (\<lambda>c4. run_bind (position_execution_critic env c4) (position_decision_agent env)))))"
  by (rule yields_bind_with [OF assms(2) [OF assms(1)]], rule yields_bind_with [OF assms(3)], assumption,
      rule yields_bind_with [OF assms(4)], assumption, rule yields_bind_with [OF assms(5)], assumption, rule assms(6))

lemma hydrated:
  assumes "uninformed c" "hydrate_position_truth env c s = (Inr c', s')"
  shows "uninformed c' \<or> (\<exists>projection. fst (load_projection (pe_deps env) (gr_gateway s)) = Inr projection \<and>
    informed (pq_position_id c) (pq_contract_id c) projection c')"
proof (cases "pq_snapshot_id c = [] \<or> pq_position_id c = []")
  case True
  have quiet: "yields uninformed (position_error env name code msg c)" for name code msg
    using assms(1) by (intro yields_intros) (simp add: uninformed_def)
  have run: "position_error env ''hydrate_position_truth'' ''missing_position_inputs'' ''snapshot_id and position_id required'' c s = (Inr c', s')"
    using assms(2) True by (simp add: hydrate_position_truth_def)
  show ?thesis by (rule disjI1, rule yieldsD [OF quiet run])
next
  case False
  let ?rest = "\<lambda>snapshot quality sf projection.
     run_bind (if pq_cycle_id c = [] then fresh_id (pe_graph env) else run_ret (pq_cycle_id c)) (\<lambda>cid.
       let c1 = c\<lparr>pq_cycle_id := cid, pq_position := Some (extract_position projection (pq_position_id c)),
                  pq_order := extract_orders projection\<rparr>
       in run_bind (run_lift (pe_assemble env ''position_thesis'' c1 snapshot quality sf)) (\<lambda>ctx.
          position_trace env ''hydrate_position_truth'' Completed []
            (c1\<lparr>pq_context_package := Some ctx, pq_trading_date := Some (mk_trading_date snapshot)\<rparr>)))"
  have informs: "yields (informed (pq_position_id c) (pq_contract_id c) projection) (?rest snapshot quality sf projection)"
    for snapshot quality sf projection
    unfolding Let_def using assms(1) by (intro yields_intros) (simp add: informed_def uninformed_def)
  have "run_bind (run_lift (load_snapshot_truth (pe_deps env) (pq_snapshot_id c))) (\<lambda>(snapshot, quality, sf).
      run_bind (on_gateway (load_projection (pe_deps env))) (?rest snapshot quality sf)) s = (Inr c', s')"
    using assms(2) unfolding hydrate_position_truth_def if_not_P [OF False] .
  then obtain snapshot quality sf where "run_bind (on_gateway (load_projection (pe_deps env))) (?rest snapshot quality sf) s = (Inr c', s')"
    by (cases "load_snapshot_truth (pe_deps env) (pq_snapshot_id c)") (auto simp: run_bind_def [of "run_lift _"] run_lift_def)
  then obtain projection s2 where loaded: "on_gateway (load_projection (pe_deps env)) s = (Inr projection, s2)"
    and rest: "?rest snapshot quality sf projection s2 = (Inr c', s')"
    unfolding run_bind_Inr [of "on_gateway _"] by blast
  have "fst (load_projection (pe_deps env) (gr_gateway s)) = Inr projection"
    using loaded by (auto simp: on_gateway_def split: prod.splits)
  then show ?thesis using yieldsD [OF informs rest] by blast
qed

lemma position_decided_informed:
  assumes "uninformed c" "position_decided env c s = (Inr c', s')" "pq_decision c' = Some d"
  shows "\<exists>projection. fst (load_projection (pe_deps env) (gr_gateway s)) = Inr projection \<and>
    informed (pq_position_id c) (pq_contract_id c) projection c'"
proof -
  obtain c1 s1 where h: "hydrate_position_truth env c s = (Inr c1, s1)"
    and rest: "run_bind (load_original_strategy env c1) (\<lambda>c2. run_bind (load_prior_thesis env c2) (\<lambda>c3.
     run_bind (position_thesis_agent env c3) (\<lambda>c4. run_bind (position_execution_critic env c4) (position_decision_agent env)))) s1 = (Inr c', s')"
    using assms(2) unfolding position_decided_def run_bind_Inr [of "hydrate_position_truth env c"] by blast
  from hydrated [OF assms(1) h] show ?thesis
  proof
    assume u: "uninformed c1"
    have "uninformed c'" by (rule yieldsD [OF line_yields [of uninformed, OF u after_truth_uninformed] rest])
    then show ?thesis using assms(3) by (simp add: uninformed_def)
  next
    assume "\<exists>projection. fst (load_projection (pe_deps env) (gr_gateway s)) = Inr projection \<and>
      informed (pq_position_id c) (pq_contract_id c) projection c1"
    then obtain projection where p: "fst (load_projection (pe_deps env) (gr_gateway s)) = Inr projection"
      "informed (pq_position_id c) (pq_contract_id c) projection c1" by blast
    have "informed (pq_position_id c) (pq_contract_id c) projection c'"
      by (rule yieldsD [OF line_yields [of "informed (pq_position_id c) (pq_contract_id c) projection", OF p(2) after_truth_informed] rest])
    then show ?thesis using p(1) by blast
  qed
qed

lemma run_bind_cases:
  assumes "run_bind m f s = (r, s')"
  obtains (raised) e where "m s = (Inl e, s')" "r = Inl e" | (returned) a s1 where "m s = (Inr a, s1)" "f a s1 = (r, s')"
  using assms by (auto simp: run_bind_def split: prod.splits sum.splits)

text \<open>What the last node does behind the gateway.\<close>

definition acted :: "('g, 'b) position_env \<Rightarrow> position_cycle \<Rightarrow> thesis \<Rightarrow> 'b gateway_state \<Rightarrow> 'b gateway_state \<Rightarrow> bool" where
  "acted env c d g g' \<longleftrightarrow>
     (if th_recommended_action d = Cancel_Working_Order
      then working_client_id c \<noteq> [] \<and>
        g' = snd (on_exec (cancel_client_order (gd_config (pe_deps env)) (gd_ops (pe_deps env)) (working_client_id c)) g)
      else th_recommended_action d \<notin> {Hold, Update_Thesis} \<and> g' = snd (gateway_submit (pe_deps env) (position_request c d) g))"

lemma run_on_gateway:
  assumes "run_bind (on_gateway m) f s = (r, s')" "\<And>a g. keeps g (f a)"
  shows "gr_gateway s' = snd (m (gr_gateway s))"
proof -
  obtain q g2 where q: "m (gr_gateway s) = (q, g2)" by fastforce
  show ?thesis
  proof (cases q)
    case (Inl e)
    then show ?thesis using assms(1) q by (auto simp: run_bind_def on_gateway_def)
  next
    case (Inr a)
    then have "f a (s\<lparr>gr_gateway := g2\<rparr>) = (r, s')" using assms(1) q by (simp add: run_bind_def on_gateway_def)
    from keepsD [OF assms(2) this] show ?thesis using q by simp
  qed
qed

lemma route_submits:
  assumes "pq_decision c = Some d" "th_recommended_action d \<notin> {Hold, Update_Thesis, Cancel_Working_Order}" "gd_has_runtime (pe_deps env)"
    and "pq_command_id c = None" "route_position_action env c s = (r, s')"
  shows "gr_gateway s' = snd (gateway_submit (pe_deps env) (position_request c d) (gr_gateway s))"
proof -
  note k = gateway_kept preserve_intros
  let ?c1 = "c\<lparr>pq_action := Some (position_action_value (th_recommended_action d))\<rparr>"
  have "run_bind (on_gateway (gateway_submit (pe_deps env) (position_request c d))) (\<lambda>res.
      if \<not> rs_submitted res
      then run_bind (position_trace env ''route_position_action'' Started [] ?c1)
             (\<lambda>c2. position_error env ''route_position_action'' ''gateway_blocked'' (first_nonempty [rs_blocked_reason res] ''blocked'') c2)
      else position_trace env ''route_position_action'' Completed [] (?c1\<lparr>pq_command_id := Some (rs_client_order_id res)\<rparr>)) s = (r, s')"
    using assms by (simp add: route_position_action_def opt_truthy_def Let_def)
  then show ?thesis by (rule run_on_gateway) (intro k)
qed

lemma route_acts:
  assumes "route_position_action env c s = (r, s')"
  shows "gr_gateway s' = gr_gateway s \<or> (\<exists>d. pq_decision c = Some d \<and> acted env c d (gr_gateway s) (gr_gateway s'))"
proof -
  note k = gateway_kept preserve_intros
  have quiet: "gr_gateway s' = gr_gateway s" if "\<And>g. keeps g (route_position_action env c)"
    using keepsD [OF that assms] .
  show ?thesis
  proof (cases "pq_decision c")
    case None
    have "keeps g (route_position_action env c)" for g unfolding route_position_action_def None option.case by (intro k)
    then show ?thesis using quiet by blast
  next
    case (Some d)
    let ?c1 = "c\<lparr>pq_action := Some (position_action_value (th_recommended_action d))\<rparr>"
    let ?trace = "\<lambda>status. position_trace env ''route_position_action'' status []"
    let ?fail = "\<lambda>code msg. run_bind (?trace Started ?c1) (\<lambda>c2. position_error env ''route_position_action'' code msg c2)"
    have kf: "keeps g (?fail code msg)" for g code msg by (intro k)
    let ?cancel = "on_exec (cancel_client_order (gd_config (pe_deps env)) (gd_ops (pe_deps env)) (working_client_id c))"
    let ?submit = "gateway_submit (pe_deps env) (position_request c d)"
    consider (plain) "\<And>g. keeps g (route_position_action env c)"
      | (cancel) "th_recommended_action d = Cancel_Working_Order" "working_client_id c \<noteq> []"
          "run_bind (on_gateway ?cancel) (\<lambda>_. ?trace Completed (?c1\<lparr>pq_command_id := Some (''cancel:'' @ working_client_id c)\<rparr>)) s = (r, s')"
      | (submit) "th_recommended_action d \<notin> {Hold, Update_Thesis, Cancel_Working_Order}"
          "run_bind (on_gateway ?submit) (\<lambda>res.
                    if \<not> rs_submitted res then ?fail ''gateway_blocked'' (first_nonempty [rs_blocked_reason res] ''blocked'')
                    else ?trace Completed (?c1\<lparr>pq_command_id := Some (rs_client_order_id res)\<rparr>)) s = (r, s')"
    proof (cases "th_recommended_action d \<in> {Hold, Update_Thesis} \<or> \<not> gd_has_runtime (pe_deps env) \<or>
        (if th_recommended_action d = Cancel_Working_Order then working_client_id c = [] else opt_truthy (pq_command_id c))")
      case True
      have "keeps g (route_position_action env c)" for g
        using True kf [of g] keeps_position_trace [of g env "''route_position_action''" _ "[]"]
        by (auto simp: route_position_action_def Some Let_def)
      then show thesis by (rule plain)
    next
      case False
      then show thesis
        using assms cancel submit by (cases "th_recommended_action d = Cancel_Working_Order") (auto simp: route_position_action_def Some Let_def)
    qed
    then show ?thesis
    proof cases
      case plain
      then show ?thesis using quiet by blast
    next
      case cancel
      have "gr_gateway s' = snd (?cancel (gr_gateway s))" by (rule run_on_gateway [OF cancel(3)]) (intro k)
      then show ?thesis using Some cancel(1,2) by (simp add: acted_def)
    next
      case submit
      have "gr_gateway s' = snd (?submit (gr_gateway s))" by (rule run_on_gateway [OF submit(2)]) (intro k kf)
      then show ?thesis using Some submit(1) by (simp add: acted_def)
    qed
  qed
qed

lemma closing_request:
  assumes "th_recommended_action d \<in> {Exit_Position, Reduce}"
  shows "rq_side (position_request c d) = Sell \<and> rq_action (position_request c d) \<in> {EXIT, REDUCE} \<and>
    rq_quantity (position_request c d) \<le> open_quantity_of (pq_position c)"
proof -
  have "1 \<le> open_quantity_of (pq_position c)" by (simp add: open_quantity_of_def split: option.split)
  then show ?thesis using assms by (auto simp: position_request_def order_shape_def Let_def)
qed

text \<open>
  Claim C22. A position cycle acts on its own contract only. However its agents answer and wherever it fails, a cycle that starts
  without a context, a thesis and a decision either leaves the ledger, the broker and the provenance as they were, or its line of
  agents ended in a decision about the contract of the cycle, and what changed is one of two. If the decision is to cancel, it is
  the cancellation of the first working order of the projection that the loader returned, whatever contract that order is for.
  Otherwise the decision asks for an action, and it is one submission to the gateway for that very contract; if the decision is
  to exit or to reduce, it is a sale of no more than the quantity the cycle read from that projection for its position (that of
  another open position, when none has this id, and one contract, when none is open).
\<close>

theorem position_cycle_trades_its_contract:
  assumes "reads_only (pe_deps env)" "pq_context_package c = None" "pq_thesis c = None" "pq_decision c = None"
    and "run_position_graph env c s = (r, s')"
  shows "gr_gateway s' = gr_gateway s \<or>
    (\<exists>c' s1 d projection.
       position_decided env c s = (Inr c', s1) \<and> gr_gateway s1 = gr_gateway s \<and> pq_decision c' = Some d \<and> th_contract_id d = pq_contract_id c \<and>
       fst (load_projection (pe_deps env) (gr_gateway s)) = Inr projection \<and>
       (if th_recommended_action d = Cancel_Working_Order
        then \<exists>ord. extract_orders projection = Some ord \<and>
               gr_gateway s' = snd (on_exec (cancel_client_order (gd_config (pe_deps env)) (gd_ops (pe_deps env)) (ow_client_order_id ord))
                 (gr_gateway s))
        else th_recommended_action d \<notin> {Hold, Update_Thesis} \<and>
          gr_gateway s' = snd (gateway_submit (pe_deps env) (position_request c' d) (gr_gateway s)) \<and>
          rq_contract_id (position_request c' d) = pq_contract_id c \<and>
          (th_recommended_action d \<in> {Exit_Position, Reduce} \<longrightarrow>
             rq_side (position_request c' d) = Sell \<and> rq_action (position_request c' d) \<in> {EXIT, REDUCE} \<and>
             rq_quantity (position_request c' d) \<le> open_quantity_of (Some (extract_position projection (pq_position_id c))))))"
proof -
  note keep = before_action_keeps [OF assms(1)]
  have k: "keeps g (position_decided env c)" for g unfolding position_decided_def by (intro preserves_bind keep)
  have fresh: "uninformed c" using assms(2-4) by (simp add: uninformed_def)
  from assms(5) [unfolded run_position_graph_split] show ?thesis
  proof (cases rule: run_bind_cases)
    case (raised e)
    then show ?thesis using keepsD [OF k] by blast
  next
    case (returned c' s1)
    have g1: "gr_gateway s1 = gr_gateway s" by (rule keepsD [OF k returned(1)])
    from route_acts [OF returned(2)] show ?thesis
    proof
      assume "gr_gateway s' = gr_gateway s1"
      then show ?thesis using g1 by simp
    next
      assume "\<exists>d. pq_decision c' = Some d \<and> acted env c' d (gr_gateway s1) (gr_gateway s')"
      then obtain d where d: "pq_decision c' = Some d" "acted env c' d (gr_gateway s) (gr_gateway s')" using g1 by auto
      obtain projection where p: "fst (load_projection (pe_deps env) (gr_gateway s)) = Inr projection"
        "informed (pq_position_id c) (pq_contract_id c) projection c'"
        using position_decided_informed [OF fresh returned(1) d(1)] by blast
      have fields: "pq_order c' = extract_orders projection" "pq_position c' = Some (extract_position projection (pq_position_id c))"
        "th_contract_id d = pq_contract_id c"
        using p(2) d(1) by (simp_all add: informed_def)
      have request: "rq_contract_id (position_request c' d) = pq_contract_id c \<and> (th_recommended_action d \<in> {Exit_Position, Reduce} \<longrightarrow>
           rq_side (position_request c' d) = Sell \<and> rq_action (position_request c' d) \<in> {EXIT, REDUCE} \<and>
           rq_quantity (position_request c' d) \<le> open_quantity_of (Some (extract_position projection (pq_position_id c))))"
        using closing_request [of d c'] unfolding fields(2) by (auto simp: position_request_def fields(3) split: prod.splits)
      have known: "position_decided env c s = (Inr c', s1)" "gr_gateway s1 = gr_gateway s" by (fact returned(1), fact g1)
      show ?thesis
      proof (cases "th_recommended_action d = Cancel_Working_Order")
        case True
        then obtain ord where "extract_orders projection = Some ord" "working_client_id c' = ow_client_order_id ord"
          using d(2) by (auto simp: acted_def working_client_id_def fields(1) split: option.splits)
        then show ?thesis using True known d p(1) fields(3) by (auto simp: acted_def)
      next
        case False
        then have "th_recommended_action d \<notin> {Hold, Update_Thesis}"
          "gr_gateway s' = snd (gateway_submit (pe_deps env) (position_request c' d) (gr_gateway s))"
          using d(2) by (simp_all add: acted_def)
        then show ?thesis using False known d(1) p(1) fields(3) request by metis
      qed
    qed
  qed
qed

section \<open>Replacing a sell order\<close>

lemma refused_submission:
  assumes reads: "reads_only d" and kind: "rq_action rq \<notin> {EXIT, REDUCE}" and run: "gateway_submit d rq g = (r, g')"
    and refused: "\<And>snapshot quality sf projection cmd. loaded_projection d (gs_exec g) projection (gs_exec g) \<Longrightarrow>
      validate_and_compile (gd_max_quantity d) (gs_submitted_proposals g) rq snapshot (Some quality) sf
        (working_orders_from_projection projection []) (open_positions_from_projection projection) \<noteq> Inr cmd"
  shows "g' = g \<and> (\<forall>res. r = Inr res \<longrightarrow> \<not> rs_submitted res)"
proof -
  have same: "y = gs_exec g" if "gd_projection_loader d = Some m" "m (gs_exec g) = (q, y)" for m q y
    using reads that unfolding reads_only_def by (metis snd_conv)
  have loads: "snd (load_projection d g) = g \<and>
      (\<forall>projection. fst (load_projection d g) = Inr projection \<longrightarrow> loaded_projection d (gs_exec g) projection (gs_exec g))"
  proof (cases "gd_projection_loader d")
    case None
    then show ?thesis by (simp add: load_projection_def run_ret_def loaded_projection_def)
  next
    case (Some m)
    obtain q y where q: "m (gs_exec g) = (q, y)" by fastforce
    show ?thesis using Some q same [OF Some q] by (simp add: load_projection_def on_exec_def loaded_projection_def)
  qed
  consider "\<not> gd_has_runtime d" | e where "gd_has_runtime d" "load_snapshot_truth d (rq_snapshot_id rq) = Inl e"
    | snapshot quality sf where "gd_has_runtime d" "load_snapshot_truth d (rq_snapshot_id rq) = Inr (snapshot, quality, sf)"
    by (cases "load_snapshot_truth d (rq_snapshot_id rq)") auto
  then show ?thesis
  proof cases
    case 1
    then show ?thesis using run by (auto simp: gateway_submit_def run_ret_def blocked_def)
  next
    case 2
    then show ?thesis using run by (auto simp: gateway_submit_def run_bind_def run_lift_def)
  next
    case (3 snapshot quality sf)
    then have split: "run_bind (load_projection d) (act_on_truth d rq snapshot quality sf) g = (r, g')"
      using run by (simp add: gateway_submit_def run_bind_def run_lift_def)
    then show ?thesis
    proof (cases rule: run_bind_cases)
      case (raised e)
      then show ?thesis using loads by simp
    next
      case (returned projection g1)
      have g1: "g1 = g" and "loaded_projection d (gs_exec g) projection (gs_exec g)" using loads returned(1) by simp_all
      then have "validate_and_compile (gd_max_quantity d) (gs_submitted_proposals g) rq snapshot (Some quality) sf
          (working_orders_from_projection projection []) (open_positions_from_projection projection) \<noteq> Inr cmd" for cmd
        by (intro refused)
      with returned(2) kind show ?thesis unfolding g1
        by (auto simp: act_on_truth_def Let_def run_ret_def run_raise_def blocked_def allows_degraded_def
            split: sum.splits py_error.splits if_splits)
    qed
  qed
qed

text \<open>
  A working sell order cannot be replaced. The view of the ledger that the graph takes drops the side of the
  order, so the request to replace always asks for a buy: when the working order of that id is a sell, the gateway
  refuses, nothing behind it changes and the cycle gets no order.
\<close>

theorem sell_replacement_never_submitted:
  assumes reads: "reads_only (pe_deps env)" and d: "pq_decision c = Some d" "th_recommended_action d = Replace_Working_Order"
    and loaded: "gd_projection_loader (pe_deps env) = Some (run_ret (Some pr))"
    and sells: "\<And>w. w \<in> set (working_orders_from_projection (Some pr) []) \<Longrightarrow> wo_client_order_id w = working_client_id c \<Longrightarrow> wo_side w = Sell"
    and run: "route_position_action env c s = (r, s')"
  shows "gr_gateway s' = gr_gateway s \<and> (\<forall>c'. r = Inr c' \<longrightarrow> pq_command_id c' = pq_command_id c)"
proof -
  let ?rq = "position_request c d"
  have rq: "rq_action ?rq = REPLACE" "rq_side ?rq = Buy"
    "rq_replace_of ?rq = (if working_client_id c \<noteq> [] then Some (working_client_id c) else None)"
    using d(2) by (simp_all add: position_request_def order_shape_def Let_def)
  have "validate_and_compile maxq submitted ?rq snapshot (Some quality) sf
      (working_orders_from_projection (Some pr) []) positions \<noteq> Inr cmd" for maxq submitted snapshot quality sf positions cmd
  proof
    assume "validate_and_compile maxq submitted ?rq snapshot (Some quality) sf
        (working_orders_from_projection (Some pr) []) positions = Inr cmd"
    then have "\<not> list_ex fst (replace_guard ?rq (working_orders_from_projection (Some pr) []))"
      by (rule validated) simp
    then obtain w where "replace_match ?rq (working_orders_from_projection (Some pr) []) = Some w" "wo_side w = Buy"
      using rq by (auto simp: replace_guard_def Let_def)
    then show False using sells [of w] rq(3) by (auto simp: replace_match_def dest!: find_member split: if_splits)
  qed
  then have refused: "validate_and_compile (gd_max_quantity (pe_deps env)) (gs_submitted_proposals g) ?rq snapshot (Some quality) sf
        (working_orders_from_projection projection []) (open_positions_from_projection projection) \<noteq> Inr cmd"
    if "loaded_projection (pe_deps env) (gs_exec g) projection (gs_exec g)" for snapshot quality sf projection cmd g
    using that loaded by (simp add: loaded_projection_def run_ret_def)
  have sub: "g' = g \<and> (\<forall>res. q = Inr res \<longrightarrow> \<not> rs_submitted res)" if "gateway_submit (pe_deps env) ?rq g = (q, g')" for g q g'
    by (rule refused_submission [OF reads _ that refused]) (simp_all add: rq)
  have "gr_gateway s' = gr_gateway s"
    using route_acts [OF run] d sub by (auto simp: acted_def) (metis prod.collapse)
  moreover have "pq_command_id c' = pq_command_id c" if r: "r = Inr c'" for c'
  proof -
    have no: "\<not> rs_submitted res" if "on_gateway (gateway_submit (pe_deps env) ?rq) s = (Inr res, s1)" for res s1
      using that sub by (auto simp: on_gateway_def split: prod.splits)
    have tr: "yields (\<lambda>x. pq_command_id x = pq_command_id c) (position_trace env name status ids (c\<lparr>pq_action := a\<rparr>))" for name status ids a
      by (intro yields_intros) simp
    have er: "yields (\<lambda>x. pq_command_id x = pq_command_id c) (run_bind (position_trace env n1 st ids (c\<lparr>pq_action := a\<rparr>))
        (position_error env n2 code msg))" for n1 st ids a n2 code msg
      by (rule yields_bind_with [OF tr], intro yields_intros) simp
    show ?thesis
      using run [unfolded r] d no yieldsD [OF tr] yieldsD [OF er]
      by (fastforce simp: route_position_action_def Let_def run_bind_Inr [of "on_gateway _"] split: if_splits)
  qed
  ultimately show ?thesis by blast
qed

section \<open>A position cycle\<close>

definition demo_thesis :: "position_action \<Rightarrow> thesis" where
  "demo_thesis a = \<lparr>th_version_id = ''t1'', th_position_id = demo_contract_id, th_contract_id = demo_contract_id, th_session_id = ''s'',
     th_snapshot_id = demo_snapshot_id, th_prior_version_id = None, th_original_strategy_id = ''s9'', th_current_thesis = ''holds'',
     th_recommended_action = a, th_recommended_quantity = None, th_recommended_limit_price = Some 2\<rparr>"

definition selling_projection :: projection_state where
  "selling_projection = \<lparr>pr_orders = [(''c8'', \<lparr>ol_client_order_id = ''c8'', ol_status = ACCEPTED, ol_submitted_qty = 3, ol_filled_qty = 0,
       ol_avg_fill_price = None, ol_fees = 0, ol_side = Sell, ol_contract_id = demo_contract_id, ol_broker_order_id = Some ''b1''\<rparr>)],
     pr_positions = pr_positions holding_three, pr_capital_usage = 600, pr_seen_event_ids = {}, pr_seen_keys = {}\<rparr>"

definition demo_position_env :: "position_action \<Rightarrow> (unit, paper_broker) position_env" where
  "demo_position_env a = \<lparr>pe_graph = (demo_graph_env Meta_Abandon)\<lparr>ce_deps := demo_deps True (Some selling_projection)\<rparr>,
     pe_assemble = (\<lambda>role c snapshot quality sf. Inr \<lparr>cp_context_id = ''x'', cp_session_id = pq_session_id c, cp_cycle_id = pq_cycle_id c,
       cp_snapshot_id = mk_snapshot_id snapshot\<rparr>),
     pe_strategy = None, pe_theses = None, pe_keep_thesis = (\<lambda>t. run_ret ()), pe_reassess = (\<lambda>ctx c. run_ret (demo_thesis a)),
     pe_criticise = (\<lambda>ctx t. run_ret (demo_artefact ''r'')), pe_decide = (\<lambda>ctx c. run_ret (demo_thesis a))\<rparr>"

definition demo_position_cycle :: position_cycle where
  "demo_position_cycle = \<lparr>pq_session_id = ''s'', pq_run_id = ''r'', pq_cycle_id = ''c'', pq_snapshot_id = demo_snapshot_id,
     pq_position_id = demo_contract_id, pq_contract_id = demo_contract_id, pq_original_strategy_id = None, pq_original_strategy = None,
     pq_prior_thesis = None, pq_thesis = None, pq_decision = None, pq_position = None, pq_order = None, pq_trading_date = None,
     pq_critic_notes = None, pq_action = None, pq_command_id = None, pq_context_package = None, pq_node_trace = [], pq_errors = []\<rparr>"

lemma demo_position_reads: "reads_only (pe_deps (demo_position_env a))"
  by (simp add: reads_only_def demo_position_env_def run_ret_def)

lemma position_trace_run:
  "position_trace env name status ids c s = (Inr (c\<lparr>pq_node_trace := merge_traces (pq_node_trace c)
       [\<lparr>nt_trace_id = ce_uuid (pe_graph env) (gr_ids s), nt_node_name = name, nt_status = status, nt_artifact_ids = ids\<rparr>]\<rparr>), s\<lparr>gr_ids := Suc (gr_ids s)\<rparr>)"
  by (simp add: position_trace_def run_bind_def fresh_id_def run_ret_def)

lemma demo_position_decides:
  "\<exists>c' s1 d. position_decided (demo_position_env Exit_Position) demo_position_cycle demo_graph_run = (Inr c', s1) \<and> gr_gateway s1 = demo_gateway \<and>
     pq_decision c' = Some d \<and> d = (demo_thesis Exit_Position)\<lparr>th_original_strategy_id := th_original_strategy_id d, th_prior_version_id := Some ''t1''\<rparr> \<and>
     pq_position c' = Some (extract_position (Some selling_projection) demo_contract_id) \<and>
     pq_command_id c' = None \<and> pq_snapshot_id c' = demo_snapshot_id"
proof -
  have market: "mk_snapshot_id demo_market = demo_snapshot_id" by (simp add: demo_market_def)
  have ids: "demo_contract_id \<noteq> []" by code_simp
  show ?thesis
    by (simp add: position_decided_def hydrate_position_truth_def load_original_strategy_def load_prior_thesis_def position_thesis_agent_def
      position_execution_critic_def position_decision_agent_def Let_def run_bind_def run_defs position_trace_run on_gateway_def on_agents_def
      demo_position_env_def demo_position_cycle_def demo_truth market demo_merges(3) ids load_projection_def on_exec_def demo_graph_run_def
      fresh_id_def demo_graph_env_def opt_truthy_def stamp_thesis_def stamp_decision_def demo_thesis_def)
qed

lemma demo_exit_submits:
  assumes d: "d = (demo_thesis Exit_Position)\<lparr>th_original_strategy_id := i, th_prior_version_id := Some ''t1''\<rparr>"
    and c: "pq_position c = Some (extract_position (Some selling_projection) demo_contract_id)" "pq_snapshot_id c = demo_snapshot_id"
  shows "gs_provenance (snd (gateway_submit (pe_deps (demo_position_env a)) (position_request c d) demo_gateway)) \<noteq> []"
proof -
  let ?rq = "position_request c d" let ?deps = "demo_deps True (Some selling_projection)"
  let ?w = "working_orders_from_projection (Some selling_projection) []" and ?o = "open_positions_from_projection (Some selling_projection)"
  have held: "open_quantity_of (pq_position c) = 3"
    unfolding c(1) by (simp add: extract_position_def selling_projection_def holding_three_def ledger_contract_def open_quantity_of_def trunc_zero_def)
  have rq: "rq_snapshot_id ?rq = demo_snapshot_id" "rq_action ?rq = EXIT" "rq_quantity ?rq = 3" "rq_side ?rq = Sell" "rq_contract_id ?rq = demo_contract_id"
    "rq_client_order_id ?rq = ''pos-t1-exit''" "rq_limit_price ?rq = Some 2" "rq_order_type ?rq = Limit" "rq_max_quote_age_seconds ?rq = Some 3600"
    "rq_proposal_id ?rq = None" "rq_broker_account_id ?rq = ''default''" "rq_decision_id ?rq = Some ''t1''" "rq_replace_of ?rq = None"
    using c(2) by (simp_all add: position_request_def order_shape_def d demo_thesis_def held Let_def demo_merges(3))
  let ?cmd = "compile_command ?rq ''t1'' demo_contract Sell 3"
  have client: "wo_client_order_id w = ''c8''" if "w \<in> set ?w" for w
    using that by (auto simp: working_orders_from_projection_def selling_projection_def List.map_filter_def working_of_def Let_def
        split: if_splits)
  have free: "\<not> list_ex (\<lambda>w. wo_client_order_id w = ''pos-t1-exit'') ?w" by (auto simp: list_ex_iff dest: client)
  have three: "open_quantity ?o demo_contract_id = 3" "\<exists>pos. dict_get ?o demo_contract_id = Some pos"
    by (simp_all add: open_quantity_def open_positions_from_projection_def selling_projection_def holding_three_def Let_def trunc_zero_def)
  have v: "validate_and_compile 20 {} ?rq demo_market (Some (demo_report True)) (Some demo_truth_surface) ?w ?o = Inr ?cmd"
    using free by (simp add: demo_validation rq compile_command_def three guard_all_Inr [THEN iffD2])
  have "case submit_execution_command demo_cfg (paper_ops demo_env)
      \<lparr>ec_client_order_id = ''pos-t1-exit'', ec_intent = \<lparr>oi_intent_id = ''pos-t1-exit'', oi_candidate_id = ''t1'', oi_contract = demo_contract,
         oi_side = Sell, oi_order_type = Limit, oi_quantity = 3, oi_limit_price = Some 2\<rparr>, ec_account = ''default''\<rparr> (demo_start 2)
      of (Inl _, _) \<Rightarrow> False | (Inr _, _) \<Rightarrow> True"
    by code_simp
  then obtain ord x where sub: "submit_execution_command demo_cfg (paper_ops demo_env) ?cmd (demo_start 2) = (Inr ord, x)"
    by (auto simp: compile_command_def rq split: prod.splits sum.splits)
  have deps: "pe_deps (demo_position_env a) = ?deps" "gd_has_provenance ?deps" by (simp_all add: demo_position_env_def demo_deps_def)
  show ?thesis
    using sub v
    by (simp add: deps gateway_submit_def run_bind_def run_defs demo_truth load_projection_def act_on_truth_def Let_def rq
        submit_validated_def on_exec_def record_provenance_def insert_or_replace_def opt_truthy_def split: prod.splits)
qed

theorem position_cycle_trades_its_contract_witness:
  "\<exists>r s' c s1 d. run_position_graph (demo_position_env Exit_Position) demo_position_cycle demo_graph_run = (r, s') \<and> gr_gateway s' \<noteq> demo_gateway \<and>
     position_decided (demo_position_env Exit_Position) demo_position_cycle demo_graph_run = (Inr c, s1) \<and> pq_decision c = Some d \<and>
     gr_gateway s' = snd (gateway_submit (pe_deps (demo_position_env Exit_Position)) (position_request c d) demo_gateway) \<and>
     rq_side (position_request c d) = Sell \<and> rq_contract_id (position_request c d) = demo_contract_id"
proof -
  let ?E = "demo_position_env Exit_Position"
  obtain r s' where run: "run_position_graph ?E demo_position_cycle demo_graph_run = (r, s')" by fastforce
  have c: "pq_context_package demo_position_cycle = None" "pq_thesis demo_position_cycle = None" "pq_decision demo_position_cycle = None"
    "pq_contract_id demo_position_cycle = demo_contract_id"
    by (simp_all add: demo_position_cycle_def)
  have g: "gr_gateway demo_graph_run = demo_gateway" by (simp add: demo_graph_run_def)
  obtain c0 s0 d0 where d0: "position_decided ?E demo_position_cycle demo_graph_run = (Inr c0, s0)" "gr_gateway s0 = demo_gateway"
    "pq_decision c0 = Some d0"
    "d0 = (demo_thesis Exit_Position)\<lparr>th_original_strategy_id := th_original_strategy_id d0, th_prior_version_id := Some ''t1''\<rparr>"
    "pq_position c0 = Some (extract_position (Some selling_projection) demo_contract_id)" "pq_command_id c0 = None" "pq_snapshot_id c0 = demo_snapshot_id"
    using demo_position_decides by blast
  have "th_recommended_action ((demo_thesis Exit_Position)\<lparr>th_original_strategy_id := i, th_prior_version_id := v\<rparr>) = Exit_Position" for i v
    by (simp add: demo_thesis_def)
  then have exit: "th_recommended_action d0 = Exit_Position" using d0(4) by metis
  have route: "route_position_action ?E c0 s0 = (r, s')"
    using run d0(1) unfolding run_position_graph_split run_bind_def by simp
  have runtime: "gd_has_runtime (pe_deps ?E)" by (simp add: demo_position_env_def)
  have "gr_gateway s' = snd (gateway_submit (pe_deps ?E) (position_request c0 d0) demo_gateway)"
    using route_submits [OF d0(3) _ runtime d0(6) route] exit unfolding d0(2) by simp
  then have acts: "gr_gateway s' \<noteq> demo_gateway"
    using demo_exit_submits [OF d0(4,5,7), of Exit_Position] by (auto simp: demo_gateway_def)
  from position_cycle_trades_its_contract [OF demo_position_reads c(1-3) run] show ?thesis
    using acts run d0(1,3) exit unfolding g c(4) by auto
qed

theorem sell_replacement_never_submitted_witness:
  "\<exists>r s'. route_position_action (demo_position_env Replace_Working_Order)
       (demo_position_cycle\<lparr>pq_decision := Some (demo_thesis Replace_Working_Order),
          pq_order := extract_orders (Some selling_projection)\<rparr>) demo_graph_run = (r, s') \<and> gr_gateway s' = demo_gateway"
proof -
  let ?env = "demo_position_env Replace_Working_Order"
  let ?c = "demo_position_cycle\<lparr>pq_decision := Some (demo_thesis Replace_Working_Order), pq_order := extract_orders (Some selling_projection)\<rparr>"
  obtain r s' where run: "route_position_action ?env ?c demo_graph_run = (r, s')" by fastforce
  have d: "pq_decision ?c = Some (demo_thesis Replace_Working_Order)"
    "th_recommended_action (demo_thesis Replace_Working_Order) = Replace_Working_Order"
    by (simp_all add: demo_thesis_def)
  have l: "gd_projection_loader (pe_deps ?env) = Some (run_ret (Some selling_projection))" by (simp add: demo_position_env_def)
  have sells: "wo_side w = Sell" if "w \<in> set (working_orders_from_projection (Some selling_projection) [])" for w
    using that by (auto simp: working_orders_from_projection_def selling_projection_def List.map_filter_def working_of_def Let_def
        split: if_splits)
  have "gr_gateway s' = gr_gateway demo_graph_run"
    using sell_replacement_never_submitted [OF demo_position_reads d l sells run] by blast
  then show ?thesis using run by (simp add: demo_graph_run_def)
qed

end
