(* ===== verification/Cognitive_Runtime.thy ===== *)
theory Cognitive_Runtime
  imports Position_Graph
begin

text \<open>
  The runtime of the cognitive agents (\<open>joker/runtime/cognitive_agent_runtime.py\<close>) with the registry of its cycles
  (\<open>joker/persistence/cognitive_cycle_registry.py\<close>) and the keys of its order actions
  (\<open>joker/persistence/order_management_actions.py\<close>). Events arrive while cycles run, so the runtime is a step relation:
  an arrival, a worker taking work, a decision cycle ending, the runtime starting or shutting down. A decision cycle is
  in flight from the step that takes its work to the step that ends it, which runs the graph; a timeout or a shutdown
  cuts it between two nodes. Work on a position or an order is one step. The services and repositories are those of the
  graphs, and may be others at every step; \<open>datetime.now\<close> is read once per step. Resuming a checkpoint, which LangGraph
  does, is a parameter. The counter \<open>queued_events\<close>, which nothing reads, is left out.
\<close>

section \<open>Work and its queues\<close>

datatype work_priority = Critical | Position_Snapshot | New_Entry_Snapshot

primrec priority_rank :: "work_priority \<Rightarrow> nat" where
  "priority_rank Critical = 0"
| "priority_rank Position_Snapshot = 1"
| "priority_rank New_Entry_Snapshot = 2"

lemma priority_rank_inj: "priority_rank p = priority_rank q \<Longrightarrow> p = q"
  by (cases p; cases q) simp_all

instantiation work_priority :: linorder
begin

definition less_eq_work_priority :: "work_priority \<Rightarrow> work_priority \<Rightarrow> bool" where
  "p \<le> q \<longleftrightarrow> priority_rank p \<le> priority_rank q"

definition less_work_priority :: "work_priority \<Rightarrow> work_priority \<Rightarrow> bool" where
  "p < q \<longleftrightarrow> priority_rank p < priority_rank q"

instance
  by standard (auto simp: less_eq_work_priority_def less_work_priority_def intro: priority_rank_inj)

end

datatype work_kind = Decision_Work | Position_Work | Order_Work

record queued_work =
  qw_priority :: work_priority
  qw_sequence :: nat
  qw_event :: domain_event
  qw_kind :: work_kind

text \<open>A priority queue is the list of its elements in the order of priority and sequence; \<open>get\<close> takes the first.\<close>

definition work_key :: "queued_work \<Rightarrow> work_priority \<times> nat" where
  "work_key w = (qw_priority w, qw_sequence w)"

definition queue_put :: "queued_work \<Rightarrow> queued_work list \<Rightarrow> queued_work list" where
  "queue_put w q = insort_key work_key w q"

section \<open>The registry of cycles\<close>

datatype cycle_status = Cycle_Pending | Cycle_Running | Cycle_Completed | Cycle_Abandoned

datatype graph_kind = Decision_Kind | Position_Kind

primrec graph_kind_value :: "graph_kind \<Rightarrow> string" where
  "graph_kind_value Decision_Kind = ''decision''"
| "graph_kind_value Position_Kind = ''position''"

record cycle_record =
  rg_session_id :: string
  rg_kind :: graph_kind
  rg_cycle_id :: string
  rg_trigger_event_id :: string
  rg_snapshot_id :: string
  rg_status :: cycle_status
  rg_thread_id :: string
  rg_last_completed_node :: "string option"
  rg_parent_entry_cycle_id :: "string option"
  rg_original_strategy_id :: "string option"
  rg_original_proposal_id :: "string option"
  rg_payload :: "(string, meta_val) dict"
  rg_updated_at :: datetime

definition rg_key :: "cycle_record \<Rightarrow> string \<times> graph_kind \<times> string" where
  "rg_key r = (rg_session_id r, rg_kind r, rg_cycle_id r)"

text \<open>\<open>INSERT OR REPLACE\<close> removes the row of the key and inserts a new one.\<close>

definition registry_upsert :: "cycle_record \<Rightarrow> cycle_record list \<Rightarrow> cycle_record list" where
  "registry_upsert r table = filter (\<lambda>x. rg_key x \<noteq> rg_key r) table @ [r]"

definition list_resumable :: "string \<Rightarrow> cycle_record list \<Rightarrow> cycle_record list" where
  "list_resumable session table =
     sort_key (\<lambda>r. isoformat (rg_updated_at r))
       (filter (\<lambda>r. rg_session_id r = session \<and> (rg_status r = Cycle_Pending \<or> rg_status r = Cycle_Running)) table)"

definition registry_get :: "string \<Rightarrow> graph_kind \<Rightarrow> string \<Rightarrow> cycle_record list \<Rightarrow> cycle_record option" where
  "registry_get session kind cid table = find (\<lambda>r. rg_key r = (session, kind, cid)) table"

definition cognitive_thread_id :: "string \<Rightarrow> graph_kind \<Rightarrow> string \<Rightarrow> string" where
  "cognitive_thread_id session kind cid = session @ '':'' @ graph_kind_value kind @ '':'' @ cid"

text \<open>What the runtime reads of the state a graph ends in.\<close>

record graph_outcome =
  go_errors :: "graph_error list"
  go_traces :: "node_trace list"
  go_command_id :: "string option"

definition blocking_codes :: "string list" where
  "blocking_codes = [''no_submit_callback'', ''no_order_action_gateway'', ''gateway_blocked'', ''submit_validation_failed'',
     ''validation_failed'', ''cycle_recovery_failed'']"

definition terminal_nodes :: "string list" where
  "terminal_nodes = [''persist_cycle'', ''persist_pending_cycle'', ''persist_evidence_request'', ''persist_stale'',
     ''route_position_action'']"

definition cycle_reached_terminal_outcome :: "graph_outcome option \<Rightarrow> bool" where
  "cycle_reached_terminal_outcome outcome =
     (case outcome of
        None \<Rightarrow> False
      | Some g \<Rightarrow>
          \<not> list_ex (\<lambda>e. ge_error_code e \<in> set blocking_codes) (go_errors g) \<and>
          (list_ex (\<lambda>t. nt_node_name t \<in> set terminal_nodes \<and> nt_status t = Completed) (go_traces g) \<or> opt_truthy (go_command_id g)))"

definition decision_outcome :: "cycle \<Rightarrow> graph_outcome" where
  "decision_outcome c = \<lparr>go_errors = cy_errors c, go_traces = cy_node_trace c, go_command_id = cy_command_id c\<rparr>"

definition position_outcome :: "position_cycle \<Rightarrow> graph_outcome" where
  "position_outcome c = \<lparr>go_errors = pq_errors c, go_traces = pq_node_trace c, go_command_id = pq_command_id c\<rparr>"

section \<open>Decisions on orders\<close>

datatype order_decision_action = Continue_Waiting | Cancel_It | Replace_It | Reduce_Quantity | Abandon_It

primrec order_decision_value :: "order_decision_action \<Rightarrow> string" where
  "order_decision_value Continue_Waiting = ''continue_waiting''"
| "order_decision_value Cancel_It = ''cancel''"
| "order_decision_value Replace_It = ''replace''"
| "order_decision_value Reduce_Quantity = ''reduce_quantity''"
| "order_decision_value Abandon_It = ''abandon''"

record order_decision =
  od_decision_id :: uuid
  od_cycle_id :: string
  od_snapshot_id :: uuid
  od_client_order_id :: string
  od_action :: order_decision_action
  od_new_limit_price :: "decimal option"
  od_new_quantity :: "int option"
  od_rationale_summary :: string

record order_action =
  oa_key :: string
  oa_session_id :: string
  oa_source_order_id :: string
  oa_action :: string
  oa_source_state :: string
  oa_trigger_event_id :: string
  oa_decision_id :: string
  oa_replacement_id :: "string option"

definition has_action_key :: "string \<Rightarrow> order_action list \<Rightarrow> bool" where
  "has_action_key key table \<longleftrightarrow> key \<in> oa_key ` set table"

text \<open>The insertion of a key that is there raises an integrity error, which is swallowed.\<close>

definition record_action :: "order_action \<Rightarrow> order_action list \<Rightarrow> order_action list" where
  "record_action a table = (if has_action_key (oa_key a) table then table else table @ [a])"

section \<open>The runtime\<close>

datatype runtime_status = Healthy | Degraded | Unavailable | Shutting_Down

record runtime_failure =
  rf_code :: string
  rf_message :: string

record started_cycle =
  sc_cycle_id :: string
  sc_snapshot_id :: string
  sc_causation_id :: uuid

record ('g, 'b) agent_runtime =
  ar_run :: "('g, 'b) graph_run"
  ar_decisions :: "queued_work list"
  ar_positions :: "queued_work list"
  ar_sequence :: nat
  ar_started :: bool
  ar_shutdown :: bool
  ar_current :: "domain_event option"
  ar_in_flight :: bool
  ar_pending :: "string option"
  ar_active_decisions :: int
  ar_active_positions :: int
  ar_last_success :: "datetime option"
  ar_last_error :: "runtime_failure option"
  ar_status :: runtime_status
  ar_received :: "domain_event list"
  ar_order_decisions :: "string set"
  ar_registry :: "cycle_record list"
  ar_actions :: "order_action list"
  ar_announced :: "started_cycle list"

definition new_runtime :: "('g, 'b) graph_run \<Rightarrow> cycle_record list \<Rightarrow> order_action list \<Rightarrow> ('g, 'b) agent_runtime" where
  "new_runtime g registry actions =
     \<lparr>ar_run = g, ar_decisions = [], ar_positions = [], ar_sequence = 0, ar_started = False, ar_shutdown = False,
      ar_current = None, ar_in_flight = False, ar_pending = None, ar_active_decisions = 0, ar_active_positions = 0,
      ar_last_success = None, ar_last_error = None, ar_status = Healthy, ar_received = [], ar_order_decisions = {},
      ar_registry = registry, ar_actions = actions, ar_announced = []\<rparr>"

record ('g, 'b) agent_env =
  av_position :: "('g, 'b) position_env"
  av_session_id :: string
  av_run_id :: string
  av_position_enabled :: bool
  av_coalescing :: bool
  av_max_cycle_seconds :: int
  av_has_registry :: bool
  av_has_actions :: bool
  av_has_checkpoints :: bool
  av_now :: datetime
  av_uuid5 :: "string \<Rightarrow> uuid"
  av_digest :: "string \<Rightarrow> string"
  av_order_context :: "string \<Rightarrow> market_state \<Rightarrow> quality_report \<Rightarrow> surface option \<Rightarrow> py_error + context_package"
  av_manage :: "context_package \<Rightarrow> string \<Rightarrow> broker_order option \<Rightarrow> ('g, order_decision) run"
  av_keep_decision :: "order_decision \<Rightarrow> ('g, unit) run"
  av_resume :: "cycle_record \<Rightarrow> (('g, 'b) graph_run, graph_outcome option) run"
  av_providers :: "(string, py_error + string) dict option"

abbreviation av_graph :: "('g, 'b) agent_env \<Rightarrow> ('g, 'b) graph_env" where
  "av_graph env \<equiv> pe_graph (av_position env)"

abbreviation av_deps :: "('g, 'b) agent_env \<Rightarrow> 'b gateway_deps" where
  "av_deps env \<equiv> ce_deps (av_graph env)"

type_synonym ('g, 'b, 'a) runtime_op = "(('g, 'b) agent_runtime, 'a) run"

definition on_run :: "(('g, 'b) graph_run, 'a) run \<Rightarrow> ('g, 'b, 'a) runtime_op" where
  "on_run m s = (case m (ar_run s) of (r, g) \<Rightarrow> (r, s\<lparr>ar_run := g\<rparr>))"

definition failed_with :: "string \<Rightarrow> string \<Rightarrow> ('g, 'b, unit) runtime_op" where
  "failed_with code msg =
     run_modify (\<lambda>s. s\<lparr>ar_last_error := Some \<lparr>rf_code = code, rf_message = msg\<rparr>, ar_status := Degraded\<rparr>)"

definition upsert_cycle :: "('g, 'b) agent_env \<Rightarrow> cycle_record \<Rightarrow> ('g, 'b, unit) runtime_op" where
  "upsert_cycle env r =
     (if av_has_registry env then run_modify (\<lambda>s. s\<lparr>ar_registry := registry_upsert (r\<lparr>rg_updated_at := av_now env\<rparr>) (ar_registry s)\<rparr>)
      else run_ret ())"

text \<open>The projection of the ledger; a loader that fails is taken for an empty ledger.\<close>

definition projection_or_none :: "('g, 'b) agent_env \<Rightarrow> ('g, 'b, projection_state option) runtime_op" where
  "projection_or_none env = run_catch (on_run (on_gateway (load_projection (av_deps env)))) (\<lambda>_. run_ret None)"

definition entry_order_works :: "('g, 'b) agent_env \<Rightarrow> ('g, 'b, bool) runtime_op" where
  "entry_order_works env =
     run_bind (projection_or_none env) (\<lambda>p. run_ret (has_working_entry_order (working_orders_from_projection p [])))"

definition open_position_contract_ids :: "('g, 'b) agent_env \<Rightarrow> ('g, 'b, string list) runtime_op" where
  "open_position_contract_ids env =
     run_bind (projection_or_none env) (\<lambda>p.
       run_ret (case p of
         None \<Rightarrow> []
       | Some proj \<Rightarrow>
           filter (\<lambda>cid. cid \<noteq> [])
             (map (\<lambda>(key, pos). ledger_contract key pos) (filter (\<lambda>(key, pos). ps_quantity pos \<noteq> 0) (pr_positions proj)))))"

section \<open>Events\<close>

text \<open>\<open>str(payload.get(a) or payload.get(b) or "")\<close>\<close>

fun meta_text :: "meta_val \<Rightarrow> string" where
  "meta_text MNull = ''None''"
| "meta_text (MBool b) = (if b then ''True'' else ''False'')"
| "meta_text (MInt i) = int_text i"
| "meta_text (MText t) = t"
| "meta_text (MNumText x) = float_text x"

fun first_text :: "(string, meta_val) dict \<Rightarrow> string list \<Rightarrow> string" where
  "first_text d [] = []"
| "first_text d (k # ks) =
     (case dict_get d k of
        None \<Rightarrow> first_text d ks
      | Some v \<Rightarrow> if meta_truthy v then meta_text v else first_text d ks)"

definition snapshot_of_payload :: "(string, meta_val) dict \<Rightarrow> string" where
  "snapshot_of_payload d = first_text d [''snapshot_id'', ''market_snapshot_id'']"

definition position_event_types :: "event_type set" where
  "position_event_types = {EV_POSITION_OPENED, POSITION_CHANGED, EV_POSITION_CLOSED}"

definition order_event_types :: "event_type set" where
  "order_event_types = {ORDER_FILLED, ORDER_PARTIALLY_FILLED, ORDER_SUBMITTED, ORDER_ACCEPTED, ORDER_CANCELLED, ORDER_REJECTED}"

definition classify :: "domain_event \<Rightarrow> work_kind" where
  "classify e =
     (if de_event_type e \<in> position_event_types then Position_Work
      else if de_event_type e \<in> order_event_types then Order_Work
      else if de_event_type e = MARKET_SNAPSHOT_CREATED
      then (if first_text (de_payload e) [''active_position_id'', ''position_id''] \<noteq> [] then Position_Work else Decision_Work)
      else Decision_Work)"

definition event_priority :: "domain_event \<Rightarrow> work_priority" where
  "event_priority e =
     (if de_event_type e \<in> order_event_types \<union> position_event_types then Critical
      else if de_event_type e = MARKET_SNAPSHOT_CREATED
      then (if first_text (de_payload e) [''active_position_id'', ''position_id''] \<noteq> [] then Position_Snapshot else New_Entry_Snapshot)
      else New_Entry_Snapshot)"

definition enqueue :: "work_priority \<Rightarrow> work_kind \<Rightarrow> domain_event \<Rightarrow> ('g, 'b, unit) runtime_op" where
  "enqueue p kind e =
     run_modify (\<lambda>s.
       let n = Suc (ar_sequence s); w = \<lparr>qw_priority = p, qw_sequence = n, qw_event = e, qw_kind = kind\<rparr>
       in if kind = Decision_Work then s\<lparr>ar_sequence := n, ar_decisions := queue_put w (ar_decisions s)\<rparr>
          else s\<lparr>ar_sequence := n, ar_positions := queue_put w (ar_positions s)\<rparr>)"

definition runtime_uuid :: "('g, 'b) agent_env \<Rightarrow> ('g, 'b, uuid) runtime_op" where
  "runtime_uuid env = on_run (fresh_id (av_graph env))"

definition enqueue_position_snapshot :: "('g, 'b) agent_env \<Rightarrow> domain_event \<Rightarrow> string \<Rightarrow> ('g, 'b, unit list) runtime_op" where
  "enqueue_position_snapshot env e contract =
     run_bind (runtime_uuid env) (\<lambda>i.
     run_bind (run_lift (make_event i (av_now env) MARKET_SNAPSHOT_CREATED (de_session_id e) ''cognitive_runtime_position_route''
         (de_exchange_ts e)
         (fold (\<lambda>(k, v). dict_set k (MText v))
            [(''snapshot_id'', snapshot_of_payload (de_payload e)), (''position_id'', contract), (''contract_id'', contract),
             (''active_position_id'', contract), (''trigger_event_id'', de_event_id e)] (de_payload e))
         (de_correlation_id e))) (\<lambda>enriched.
     run_bind (enqueue Position_Snapshot Position_Work (enriched\<lparr>de_causation_id := Some (de_event_id e)\<rparr>)) (\<lambda>_. run_ret [])))"

definition remember_snapshot :: "string \<Rightarrow> ('g, 'b) agent_runtime \<Rightarrow> ('g, 'b) agent_runtime" where
  "remember_snapshot sid s = s\<lparr>ar_pending := (if sid = [] then ar_pending s else Some sid)\<rparr>"

definition enqueue_snapshot_work :: "('g, 'b) agent_env \<Rightarrow> domain_event \<Rightarrow> ('g, 'b, unit) runtime_op" where
  "enqueue_snapshot_work env e =
     run_bind (open_position_contract_ids env) (\<lambda>held.
     run_bind (entry_order_works env) (\<lambda>working.
     run_bind (if held \<noteq> [] \<and> av_position_enabled env then run_for (enqueue_position_snapshot env e) held else run_ret []) (\<lambda>_.
       if held \<noteq> [] \<or> working then run_ret ()
       else run_bind (run_get ar_in_flight) (\<lambda>busy.
            if av_coalescing env \<and> busy then run_modify (remember_snapshot (snapshot_of_payload (de_payload e)))
            else enqueue New_Entry_Snapshot Decision_Work e))))"

definition on_event :: "('g, 'b) agent_env \<Rightarrow> domain_event \<Rightarrow> ('g, 'b, unit) runtime_op" where
  "on_event env e =
     run_bind (run_modify (\<lambda>s. s\<lparr>ar_received := ar_received s @ [e]\<rparr>)) (\<lambda>_.
     run_bind (run_get (\<lambda>s. ar_started s \<and> \<not> ar_shutdown s)) (\<lambda>running.
       if \<not> running then run_ret ()
       else if de_event_type e = MARKET_SNAPSHOT_CREATED then enqueue_snapshot_work env e
       else enqueue (event_priority e) (classify e) e))"

section \<open>Decision cycles\<close>

definition begin_decision_work :: "domain_event \<Rightarrow> ('g, 'b) agent_runtime \<Rightarrow> ('g, 'b) agent_runtime" where
  "begin_decision_work e s =
     (if ar_in_flight s then remember_snapshot (snapshot_of_payload (de_payload e)) s
      else s\<lparr>ar_in_flight := True, ar_active_decisions := ar_active_decisions s + 1, ar_current := Some e\<rparr>)"

definition decision_record :: "('g, 'b) agent_env \<Rightarrow> string \<Rightarrow> domain_event \<Rightarrow> string \<Rightarrow> cycle_status \<Rightarrow> cycle_record" where
  "decision_record env cid e sid status =
     \<lparr>rg_session_id = av_session_id env, rg_kind = Decision_Kind, rg_cycle_id = cid, rg_trigger_event_id = de_event_id e,
      rg_snapshot_id = sid, rg_status = status, rg_thread_id = cognitive_thread_id (av_session_id env) Decision_Kind cid,
      rg_last_completed_node = None, rg_parent_entry_cycle_id = None, rg_original_strategy_id = None,
      rg_original_proposal_id = None, rg_payload = [], rg_updated_at = av_now env\<rparr>"

definition status_of_outcome :: "graph_outcome option \<Rightarrow> cycle_status" where
  "status_of_outcome g = (if cycle_reached_terminal_outcome g then Cycle_Completed else Cycle_Running)"

text \<open>\<open>stop\<close> is the number of nodes after which \<open>max_cycle_seconds\<close> are over, if they are.\<close>

definition run_decision_graph :: "('g, 'b) agent_env \<Rightarrow> nat option \<Rightarrow> cycle \<Rightarrow> ('g, 'b, cycle) runtime_op" where
  "run_decision_graph env stop c =
     on_run (run_graph (av_graph env) (case stop of None \<Rightarrow> recursion_limit | Some n \<Rightarrow> min n recursion_limit) Validate_Trigger c)"

definition decision_failure :: "('g, 'b) agent_env \<Rightarrow> nat option \<Rightarrow> py_error \<Rightarrow> ('g, 'b, unit) runtime_op" where
  "decision_failure env stop e =
     (if stop \<noteq> None \<and> e = recursion_error
      then failed_with ''cycle_timeout'' (''cycle exceeded '' @ int_text (av_max_cycle_seconds env) @ ''s'')
      else failed_with ''cycle_failed'' (exc_text e))"

definition invoke_decision_graph :: "('g, 'b) agent_env \<Rightarrow> nat option \<Rightarrow> domain_event \<Rightarrow> ('g, 'b, unit) runtime_op" where
  "invoke_decision_graph env stop e =
     run_bind (entry_order_works env) (\<lambda>working.
       let sid = snapshot_of_payload (de_payload e)
       in if working \<or> sid = [] then run_ret ()
          else run_bind (let given = first_text (de_payload e) [''cycle_id'']
                         in if given \<noteq> [] then run_ret given else runtime_uuid env) (\<lambda>cid.
               run_bind (upsert_cycle env (decision_record env cid e sid Cycle_Running)) (\<lambda>_.
               run_bind (if ce_has_bus (av_graph env)
                         then run_modify (\<lambda>s. s\<lparr>ar_announced := ar_announced s @
                                [\<lparr>sc_cycle_id = cid, sc_snapshot_id = sid, sc_causation_id = de_event_id e\<rparr>]\<rparr>)
                         else run_ret ()) (\<lambda>_.
                 run_catch
                   (run_bind (run_decision_graph env stop
                       (initial_cycle_state (av_session_id env) (av_run_id env) cid (de_event_id e) (event_type_value (de_event_type e)) sid)) (\<lambda>c.
                    run_bind (run_modify (\<lambda>s. s\<lparr>ar_last_success := Some (av_now env), ar_status := Healthy\<rparr>)) (\<lambda>_.
                      upsert_cycle env (decision_record env cid e sid (status_of_outcome (Some (decision_outcome c)))))))
                   (decision_failure env stop)))))"

text \<open>The task of the cycle ends, and the worker that has waited for it.\<close>

definition clear_decision :: "('g, 'b) agent_runtime \<Rightarrow> ('g, 'b) agent_runtime" where
  "clear_decision s = s\<lparr>ar_in_flight := False, ar_active_decisions := max 0 (ar_active_decisions s - 1), ar_current := None\<rparr>"

definition end_decision_work :: "('g, 'b) agent_env \<Rightarrow> nat option \<Rightarrow> ('g, 'b) agent_runtime \<Rightarrow> ('g, 'b) agent_runtime" where
  "end_decision_work env stop s =
     (case ar_current s of
        None \<Rightarrow> s
      | Some e \<Rightarrow>
          clear_decision (snd (run_catch (invoke_decision_graph env stop e) (\<lambda>x. failed_with ''decision_worker_failure'' (exc_text x)) s)))"

definition take_decision_work :: "('g, 'b) agent_runtime \<Rightarrow> ('g, 'b) agent_runtime" where
  "take_decision_work s =
     (case ar_decisions s of [] \<Rightarrow> s | w # ws \<Rightarrow> begin_decision_work (qw_event w) (s\<lparr>ar_decisions := ws\<rparr>))"

definition run_coalesced_new_entry :: "('g, 'b) agent_env \<Rightarrow> ('g, 'b, unit) runtime_op" where
  "run_coalesced_new_entry env =
     run_bind (run_get ar_pending) (\<lambda>pending.
     run_bind (run_modify (\<lambda>s. s\<lparr>ar_pending := None\<rparr>)) (\<lambda>_.
       if \<not> opt_truthy pending then run_ret ()
       else run_bind (runtime_uuid env) (\<lambda>i.
            run_bind (runtime_uuid env) (\<lambda>correlation.
            run_bind (run_lift (make_event i (av_now env) MARKET_SNAPSHOT_CREATED (av_session_id env) ''cognitive_runtime_coalesce''
                (av_now env) [(''snapshot_id'', MText (the pending))] correlation)) (\<lambda>e.
              run_modify (begin_decision_work e))))))"

section \<open>Work on positions\<close>

definition opt_meta :: "string option \<Rightarrow> meta_val" where
  "opt_meta t = (case t of None \<Rightarrow> MNull | Some s \<Rightarrow> MText s)"

text \<open>\<open>ORDER BY created_at DESC LIMIT 1\<close>; a row is written with the time of its insertion, so the table is in that order.\<close>

definition latest_by_contract_id :: "string \<Rightarrow> (string, provenance) dict \<Rightarrow> provenance option" where
  "latest_by_contract_id contract table = find (\<lambda>r. pv_contract_id r = contract) (rev (dict_values table))"

definition provenance_of :: "('g, 'b) agent_env \<Rightarrow> string \<Rightarrow> string \<Rightarrow> (string, provenance) dict \<Rightarrow> provenance option" where
  "provenance_of env client contract table =
     (if \<not> gd_has_provenance (av_deps env) then None
      else case (if client = [] then None else dict_get table client) of
        Some r \<Rightarrow> Some r
      | None \<Rightarrow> if contract = [] then None else latest_by_contract_id contract table)"

definition with_provenance :: "provenance option \<Rightarrow> (string, meta_val) dict \<Rightarrow> (string, meta_val) dict" where
  "with_provenance prov payload =
     (case prov of
        None \<Rightarrow> payload
      | Some r \<Rightarrow>
          (let d = fold (\<lambda>(k, v). dict_setdefault k v)
                 [(''snapshot_id'', MText (pv_snapshot_id r)), (''strategy_id'', opt_meta (pv_strategy_id r)),
                  (''original_strategy_id'', opt_meta (pv_strategy_id r)), (''proposal_id'', opt_meta (pv_proposal_id r)),
                  (''decision_id'', opt_meta (pv_decision_id r)), (''cycle_id'', opt_meta (pv_cycle_id r))] payload
           in if pv_contract_id r = [] then d else dict_setdefault ''contract_id'' (MText (pv_contract_id r)) d))"

definition with_identity :: "string \<Rightarrow> (string, meta_val) dict \<Rightarrow> (string, meta_val) dict" where
  "with_identity contract payload =
     (if contract = [] then payload
      else fold (\<lambda>k. dict_setdefault k (MText contract)) [''position_id'', ''active_position_id'', ''contract_id''] payload)"

definition resolve_provenance :: "('g, 'b) agent_env \<Rightarrow> domain_event \<Rightarrow> (string, provenance) dict \<Rightarrow> (string, meta_val) dict" where
  "resolve_provenance env e table =
     (let payload = de_payload e;
          contract = first_text payload [''contract_id''];
          prov = provenance_of env (first_text payload [''client_order_id'']) contract table;
          identity = (if contract = [] then (case prov of None \<Rightarrow> [] | Some r \<Rightarrow> pv_contract_id r) else contract);
          resolved = with_identity identity (with_provenance prov payload)
      in if first_text resolved [''snapshot_id''] \<noteq> [] then resolved
         else case gd_snapshots (av_deps env) of
           None \<Rightarrow> resolved
         | Some db \<Rightarrow> (case latest_snapshot db of
                         None \<Rightarrow> resolved | Some m \<Rightarrow> dict_set ''snapshot_id'' (MText (mk_snapshot_id m)) resolved))"

definition resolved_payload :: "('g, 'b) agent_env \<Rightarrow> domain_event \<Rightarrow> ('g, 'b, (string, meta_val) dict) runtime_op" where
  "resolved_payload env e = run_get (\<lambda>s. resolve_provenance env e (gs_provenance (gr_gateway (ar_run s))))"

definition stable_position_cycle_id :: "('g, 'b) agent_env \<Rightarrow> string \<Rightarrow> string" where
  "stable_position_cycle_id env event_id = av_uuid5 env (av_session_id env @ '':'' @ event_id @ '':position_reassessment'')"

definition nonempty_text :: "string \<Rightarrow> string option" where
  "nonempty_text t = (if t = [] then None else Some t)"

definition position_record ::
  "('g, 'b) agent_env \<Rightarrow> domain_event \<Rightarrow> (string, meta_val) dict \<Rightarrow> string option \<Rightarrow> cycle_status \<Rightarrow> cycle_record" where
  "position_record env e resolved parent status =
     (let cid = stable_position_cycle_id env (de_event_id e)
      in \<lparr>rg_session_id = av_session_id env, rg_kind = Position_Kind, rg_cycle_id = cid, rg_trigger_event_id = de_event_id e,
          rg_snapshot_id = snapshot_of_payload resolved, rg_status = status,
          rg_thread_id = cognitive_thread_id (av_session_id env) Position_Kind cid, rg_last_completed_node = None,
          rg_parent_entry_cycle_id = parent,
          rg_original_strategy_id = nonempty_text (first_text resolved [''original_strategy_id'', ''strategy_id'']),
          rg_original_proposal_id = nonempty_text (first_text resolved [''proposal_id'']), rg_payload = [],
          rg_updated_at = av_now env\<rparr>)"

definition position_of_payload :: "(string, meta_val) dict \<Rightarrow> string" where
  "position_of_payload resolved = first_text resolved [''position_id'', ''active_position_id'', ''contract_id'']"

definition initial_position_state :: "('g, 'b) agent_env \<Rightarrow> domain_event \<Rightarrow> (string, meta_val) dict \<Rightarrow> position_cycle" where
  "initial_position_state env e resolved =
     (let pid = position_of_payload resolved; contract = first_text resolved [''contract_id'']
      in \<lparr>pq_session_id = av_session_id env, pq_run_id = av_run_id env, pq_cycle_id = stable_position_cycle_id env (de_event_id e),
          pq_snapshot_id = snapshot_of_payload resolved, pq_position_id = pid,
          pq_contract_id = (if contract = [] then pid else contract),
          pq_original_strategy_id = nonempty_text (first_text resolved [''original_strategy_id'', ''strategy_id'']),
          pq_original_strategy = None, pq_prior_thesis = None, pq_thesis = None, pq_decision = None, pq_position = None,
          pq_order = None, pq_trading_date = None, pq_critic_notes = None, pq_action = None, pq_command_id = None,
          pq_context_package = None, pq_node_trace = [], pq_errors = []\<rparr>)"

text \<open>\<open>try: m finally: f\<close>\<close>

definition run_finally :: "('s, 'a) run \<Rightarrow> ('s \<Rightarrow> 's) \<Rightarrow> ('s, 'a) run" where
  "run_finally m f s = (case m s of (r, s') \<Rightarrow> (r, f s'))"

definition run_position_work :: "('g, 'b) agent_env \<Rightarrow> domain_event \<Rightarrow> ('g, 'b, unit) runtime_op" where
  "run_position_work env e =
     (if \<not> av_position_enabled env \<or> de_event_type e = EV_POSITION_CLOSED then run_ret ()
      else run_bind (resolved_payload env e) (\<lambda>resolved.
           if position_of_payload resolved = [] \<or> snapshot_of_payload resolved = [] then run_ret ()
           else let parent = nonempty_text (first_text resolved [''parent_entry_cycle_id'', ''cycle_id''])
                in run_bind (upsert_cycle env (position_record env e resolved parent Cycle_Running)) (\<lambda>_.
                   run_bind (run_modify (\<lambda>s. s\<lparr>ar_active_positions := ar_active_positions s + 1\<rparr>)) (\<lambda>_.
                     run_finally
                       (run_bind (on_run (run_position_graph (av_position env) (initial_position_state env e resolved))) (\<lambda>c.
                        run_bind (run_modify (\<lambda>s. s\<lparr>ar_last_success := Some (av_now env)\<rparr>)) (\<lambda>_.
                          upsert_cycle env (position_record env e resolved None (status_of_outcome (Some (position_outcome c)))))))
                       (\<lambda>s. s\<lparr>ar_active_positions := max 0 (ar_active_positions s - 1)\<rparr>)))))"

section \<open>Work on orders\<close>

text \<open>The order as the broker reports it; a poll that fails leaves the payload alone.\<close>

definition polled_order :: "('g, 'b) agent_env \<Rightarrow> string \<Rightarrow> ('g, 'b, broker_order option) runtime_op" where
  "polled_order env client =
     (if \<not> gd_has_runtime (av_deps env) then run_ret None
      else run_catch (on_run (on_gateway (on_exec (poll_order_status (gd_config (av_deps env)) (gd_ops (av_deps env)) client))))
             (\<lambda>_. run_ret None))"

definition order_source_state :: "domain_event \<Rightarrow> (string, meta_val) dict \<Rightarrow> broker_order option \<Rightarrow> string" where
  "order_source_state e resolved sync =
     (case sync of
        Some ord \<Rightarrow> broker_status_text (bo_status ord)
      | None \<Rightarrow> first_nonempty [nonempty_text (first_text resolved [''status'', ''event_type''])] (event_type_value (de_event_type e)))"

definition order_action_key :: "('g, 'b) agent_env \<Rightarrow> order_decision \<Rightarrow> string \<Rightarrow> string \<Rightarrow> string" where
  "order_action_key env d state trigger =
     av_digest env (od_client_order_id d @ ''|'' @ state @ ''|'' @ trigger @ ''|'' @ od_decision_id d @ ''|'' @
       order_decision_value (od_action d))"

definition action_done :: "('g, 'b) agent_env \<Rightarrow> order_decision \<Rightarrow> string \<Rightarrow> string \<Rightarrow> string option \<Rightarrow> ('g, 'b, unit) runtime_op" where
  "action_done env d state trigger replacement =
     (if \<not> av_has_actions env then run_ret ()
      else run_modify (\<lambda>s. s\<lparr>ar_actions := record_action
             \<lparr>oa_key = order_action_key env d state trigger, oa_session_id = av_session_id env,
              oa_source_order_id = od_client_order_id d, oa_action = order_decision_value (od_action d), oa_source_state = state,
              oa_trigger_event_id = trigger, oa_decision_id = od_decision_id d, oa_replacement_id = replacement\<rparr> (ar_actions s)\<rparr>))"

text \<open>
  The quantity of a replacement. The broker's order has no \<open>filled_quantity\<close>, so the remaining quantity is the whole
  quantity of the order.
\<close>

definition replacement_quantity :: "order_decision \<Rightarrow> broker_order \<Rightarrow> int" where
  "replacement_quantity d ord =
     (let asked = (case od_new_quantity d of Some q \<Rightarrow> q | None \<Rightarrow> if bo_quantity ord = 0 then 1 else bo_quantity ord)
      in if od_action d \<noteq> Reduce_Quantity then asked
         else let total = (if bo_quantity ord = 0 then asked else bo_quantity ord); remaining = max 0 (total - 0)
              in case od_new_quantity d of
                   Some q \<Rightarrow> min q remaining
                 | None \<Rightarrow> if 1 < remaining then max 1 (remaining div 2) else remaining)"

definition replacement_id :: "order_decision \<Rightarrow> string" where
  "replacement_id d = od_client_order_id d @ '':replace:'' @ od_decision_id d"

definition replacement_request :: "order_decision \<Rightarrow> broker_order \<Rightarrow> action_request" where
  "replacement_request d ord =
     (let limit = (case od_new_limit_price d of Some p \<Rightarrow> Some p | None \<Rightarrow> bo_limit_price ord)
      in \<lparr>rq_action = REPLACE, rq_snapshot_id = od_snapshot_id d, rq_contract_id = contract_id_for (bo_contract ord),
          rq_side = bo_side ord, rq_quantity = replacement_quantity d ord, rq_client_order_id = replacement_id d,
          rq_limit_price = limit, rq_order_type = (if limit = None then Market else Limit), rq_max_quote_age_seconds = Some 60,
          rq_proposal_id = None, rq_decision_id = Some (od_decision_id d), rq_strategy_id = None, rq_cycle_id = Some (od_cycle_id d),
          rq_replace_of = Some (od_client_order_id d), rq_allow_degraded_exit = True, rq_degraded_exit_reason = None,
          rq_evidence_ids = [], rq_broker_account_id = ''default''\<rparr>)"

text \<open>Without the broker's order there is no contract: the events of the ledger have no \<open>contract\<close> in their payload.\<close>

definition apply_order_decision ::
  "('g, 'b) agent_env \<Rightarrow> order_decision \<Rightarrow> string \<Rightarrow> broker_order option \<Rightarrow> string \<Rightarrow> ('g, 'b, unit) runtime_op" where
  "apply_order_decision env d state sync trigger =
     (if \<not> gd_has_runtime (av_deps env) \<or> od_action d = Continue_Waiting then run_ret ()
      else run_bind (run_get (\<lambda>s. av_has_actions env \<and> has_action_key (order_action_key env d state trigger) (ar_actions s))) (\<lambda>known.
           if known then run_ret ()
           else if od_action d = Cancel_It \<or> od_action d = Abandon_It
           then run_catch
                  (run_bind (on_run (on_gateway (on_exec
                      (cancel_client_order (gd_config (av_deps env)) (gd_ops (av_deps env)) (od_client_order_id d))))) (\<lambda>_.
                     action_done env d state trigger None))
                  (\<lambda>_. run_ret ())
           else case sync of
                  None \<Rightarrow> run_ret ()
                | Some ord \<Rightarrow>
                    if od_action d = Reduce_Quantity \<and> replacement_quantity d ord \<le> 0 then run_ret ()
                    else run_bind (on_run (on_gateway (gateway_submit (av_deps env) (replacement_request d ord)))) (\<lambda>res.
                           if rs_submitted res then action_done env d state trigger (Some (replacement_id d)) else run_ret ())))"

text \<open>The context of the order manager; a failure leaves none.\<close>

definition order_context :: "('g, 'b) agent_env \<Rightarrow> string \<Rightarrow> ('g, 'b, context_package option) runtime_op" where
  "order_context env sid =
     (if sid = [] \<or> gd_snapshots (av_deps env) = None then run_ret None
      else case load_snapshot_truth (av_deps env) sid of
        Inl _ \<Rightarrow> run_ret None
      | Inr (snapshot, quality, sf) \<Rightarrow>
          run_bind (runtime_uuid env) (\<lambda>cid.
            run_ret (case av_order_context env cid snapshot quality sf of Inl _ \<Rightarrow> None | Inr ctx \<Rightarrow> Some ctx)))"

definition decision_text :: "string \<Rightarrow> order_decision \<Rightarrow> string" where
  "decision_text client d = client @ '':'' @ order_decision_value (od_action d) @ '':'' @ od_rationale_summary d"

definition run_order_work :: "('g, 'b) agent_env \<Rightarrow> domain_event \<Rightarrow> ('g, 'b, unit) runtime_op" where
  "run_order_work env e =
     run_bind (resolved_payload env e) (\<lambda>resolved.
       let client = first_text resolved [''client_order_id'']
       in if client = [] then run_ret ()
          else run_bind (polled_order env client) (\<lambda>sync.
               run_bind (order_context env (snapshot_of_payload resolved)) (\<lambda>package.
                 case package of
                   None \<Rightarrow> run_ret ()
                 | Some ctx \<Rightarrow>
                     run_bind (on_run (on_agents (av_manage env ctx client sync))) (\<lambda>d.
                     run_bind (run_get (\<lambda>s. decision_text client d \<in> ar_order_decisions s)) (\<lambda>seen.
                       if seen then run_ret ()
                       else run_bind (run_modify (\<lambda>s. s\<lparr>ar_order_decisions := insert (decision_text client d) (ar_order_decisions s)\<rparr>)) (\<lambda>_.
                            run_bind (on_run (on_agents (av_keep_decision env d))) (\<lambda>_.
                              apply_order_decision env d (order_source_state e resolved sync) sync (de_event_id e))))))))"

definition run_position_item :: "('g, 'b) agent_env \<Rightarrow> ('g, 'b) agent_runtime \<Rightarrow> ('g, 'b) agent_runtime" where
  "run_position_item env s =
     (case ar_positions s of
        [] \<Rightarrow> s
      | w # ws \<Rightarrow>
          snd (run_catch (if qw_kind w = Order_Work then run_order_work env (qw_event w) else run_position_work env (qw_event w))
                 (\<lambda>x. failed_with ''position_worker_failure'' (exc_text x)) (s\<lparr>ar_positions := ws\<rparr>)))"

section \<open>Starting, stopping and health\<close>

definition resumed_record :: "cycle_record \<Rightarrow> graph_outcome option \<Rightarrow> cycle_record" where
  "resumed_record r g =
     r\<lparr>rg_status := status_of_outcome g,
       rg_payload := dict_set ''recovery_terminal_ok'' (MBool (cycle_reached_terminal_outcome g)) (rg_payload r)\<rparr>"

definition degrade :: "('g, 'b, unit) runtime_op" where
  "degrade = run_modify (\<lambda>s. s\<lparr>ar_status := Degraded\<rparr>)"

definition resume_cycle :: "('g, 'b) agent_env \<Rightarrow> cycle_record \<Rightarrow> ('g, 'b, unit list) runtime_op" where
  "resume_cycle env r =
     run_bind (upsert_cycle env (r\<lparr>rg_status := Cycle_Running\<rparr>)) (\<lambda>_.
     run_bind (run_catch
         (run_bind (on_run (av_resume env r)) (\<lambda>g.
          run_bind (upsert_cycle env (resumed_record r g)) (\<lambda>_.
            if cycle_reached_terminal_outcome g then run_ret () else degrade)))
         (\<lambda>_. degrade)) (\<lambda>_. run_ret []))"

definition resume_unfinished_cycles :: "('g, 'b) agent_env \<Rightarrow> ('g, 'b, unit) runtime_op" where
  "resume_unfinished_cycles env =
     (if \<not> av_has_registry env \<or> \<not> av_has_checkpoints env then run_ret ()
      else run_bind (run_get (\<lambda>s. list_resumable (av_session_id env) (ar_registry s))) (\<lambda>rs.
           run_bind (run_for (resume_cycle env) rs) (\<lambda>_. run_ret ())))"

definition start_runtime :: "('g, 'b) agent_env \<Rightarrow> ('g, 'b, unit) runtime_op" where
  "start_runtime env =
     run_bind (run_get ar_started) (\<lambda>started.
       if started then run_ret ()
       else run_bind (run_modify (\<lambda>s. s\<lparr>ar_started := True, ar_shutdown := False\<rparr>)) (\<lambda>_.
            run_catch (resume_unfinished_cycles env) (\<lambda>e. failed_with ''cycle_recovery_failed'' (exc_text e))))"

text \<open>
  \<open>shutdown\<close> raises the flag; the tasks have some seconds to end, and a decision cycle that does not is cancelled
  after the nodes it has run. The handlers of \<open>Exception\<close> do not see the cancellation.
\<close>

definition ask_shutdown :: "('g, 'b) agent_runtime \<Rightarrow> ('g, 'b) agent_runtime" where
  "ask_shutdown s = s\<lparr>ar_status := Shutting_Down, ar_shutdown := True\<rparr>"

definition cancel_decision :: "('g, 'b) agent_env \<Rightarrow> nat \<Rightarrow> ('g, 'b) agent_runtime \<Rightarrow> ('g, 'b) agent_runtime" where
  "cancel_decision env n s =
     (case ar_current s of
        None \<Rightarrow> s
      | Some e \<Rightarrow> clear_decision ((snd (invoke_decision_graph env (Some n) e s))
          \<lparr>ar_status := ar_status s, ar_last_error := ar_last_error s\<rparr>))"

definition finish_shutdown :: "('g, 'b) agent_env \<Rightarrow> nat \<Rightarrow> ('g, 'b) agent_runtime \<Rightarrow> ('g, 'b) agent_runtime" where
  "finish_shutdown env n s = (cancel_decision env n s)\<lparr>ar_started := False\<rparr>"

text \<open>A provider's health check, by provider name; a check that raises counts as unavailable.\<close>

fun some_healthy :: "(string, py_error + string) dict \<Rightarrow> string list \<Rightarrow> bool" where
  "some_healthy checks [] = False"
| "some_healthy checks (n # ns) =
     (case dict_get checks n of
        None \<Rightarrow> some_healthy checks ns
      | Some (Inl _) \<Rightarrow> False
      | Some (Inr t) \<Rightarrow> t = ''healthy'' \<or> some_healthy checks ns)"

definition provider_available :: "('g, 'b) agent_env \<Rightarrow> bool \<Rightarrow> bool" where
  "provider_available env local_only =
     (case av_providers env of
        None \<Rightarrow> True
      | Some checks \<Rightarrow> some_healthy checks (if local_only then [''fake'', ''ollama''] else [''openai'']))"

record runtime_health =
  hl_status :: runtime_status
  hl_local_available :: bool
  hl_remote_available :: bool
  hl_active_decisions :: int
  hl_active_positions :: int
  hl_queued :: nat
  hl_last_success :: "datetime option"
  hl_last_error :: "runtime_failure option"

definition health :: "('g, 'b) agent_env \<Rightarrow> ('g, 'b) agent_runtime \<Rightarrow> runtime_health" where
  "health env s =
     (let near = provider_available env True; remote = provider_available env False
      in \<lparr>hl_status = (if \<not> near \<and> \<not> remote then Unavailable
                       else if ar_last_error s \<noteq> None then Degraded else ar_status s),
          hl_local_available = near, hl_remote_available = remote, hl_active_decisions = ar_active_decisions s,
          hl_active_positions = ar_active_positions s, hl_queued = length (ar_decisions s) + length (ar_positions s),
          hl_last_success = ar_last_success s, hl_last_error = ar_last_error s\<rparr>)"

section \<open>The steps of the runtime\<close>

text \<open>\<open>Decision_Idle\<close> is the half second in which the decision worker has found no work.\<close>

datatype runtime_action =
    Start
  | Event_Arrives domain_event
  | Decision_Taken
  | Decision_Ends "nat option"
  | Decision_Idle
  | Position_Taken
  | Shutdown_Asked
  | Shutdown_Done nat

definition accepting :: "('g, 'b) agent_runtime \<Rightarrow> bool" where
  "accepting s \<longleftrightarrow> ar_started s \<and> \<not> ar_shutdown s"

primrec action_enabled :: "runtime_action \<Rightarrow> ('g, 'b) agent_runtime \<Rightarrow> bool" where
  "action_enabled Start s = True"
| "action_enabled (Event_Arrives e) s = True"
| "action_enabled Decision_Taken s = (accepting s \<and> ar_current s = None \<and> ar_decisions s \<noteq> [])"
| "action_enabled (Decision_Ends stop) s = (ar_current s \<noteq> None)"
| "action_enabled Decision_Idle s =
     (accepting s \<and> ar_current s = None \<and> ar_decisions s = [] \<and> opt_truthy (ar_pending s) \<and> \<not> ar_in_flight s)"
| "action_enabled Position_Taken s = (accepting s \<and> ar_positions s \<noteq> [])"
| "action_enabled Shutdown_Asked s = True"
| "action_enabled (Shutdown_Done n) s = ar_shutdown s"

primrec runtime_step :: "('g, 'b) agent_env \<Rightarrow> runtime_action \<Rightarrow> ('g, 'b) agent_runtime \<Rightarrow> ('g, 'b) agent_runtime" where
  "runtime_step env Start s = snd (start_runtime env s)"
| "runtime_step env (Event_Arrives e) s = snd (on_event env e s)"
| "runtime_step env Decision_Taken s = take_decision_work s"
| "runtime_step env (Decision_Ends stop) s = end_decision_work env stop s"
| "runtime_step env Decision_Idle s = snd (run_coalesced_new_entry env s)"
| "runtime_step env Position_Taken s = run_position_item env s"
| "runtime_step env Shutdown_Asked s = ask_shutdown s"
| "runtime_step env (Shutdown_Done n) s = finish_shutdown env n s"

inductive runtime_reaches :: "('g, 'b) agent_runtime \<Rightarrow> ('g, 'b) agent_runtime \<Rightarrow> bool" where
  here: "runtime_reaches s s"
| more: "runtime_reaches s t \<Longrightarrow> action_enabled a t \<Longrightarrow> runtime_reaches s (runtime_step env a t)"

section \<open>What every operation of the runtime does to its state\<close>

text \<open>
  The operations are long and touch few fields. A relation between the states before and after is carried through
  them once, in a locale, from what the three primitive updates do to it.
\<close>

definition moves :: "('s \<Rightarrow> 's \<Rightarrow> bool) \<Rightarrow> ('s, 'a) run \<Rightarrow> bool" where
  "moves R m \<longleftrightarrow> (\<forall>s. R s (snd (m s)))"

definition same_core :: "('g, 'b) agent_runtime \<Rightarrow> ('g, 'b) agent_runtime \<Rightarrow> bool" where
  "same_core s t \<longleftrightarrow>
     ar_decisions t = ar_decisions s \<and> ar_positions t = ar_positions s \<and> ar_sequence t = ar_sequence s \<and>
     ar_current t = ar_current s \<and> ar_in_flight t = ar_in_flight s \<and> ar_active_decisions t = ar_active_decisions s \<and>
     ar_actions t = ar_actions s \<and> ar_last_error t = ar_last_error s"

named_theorems moving

locale runtime_relation =
  fixes R :: "('g, 'b) agent_runtime \<Rightarrow> ('g, 'b) agent_runtime \<Rightarrow> bool"
  assumes trans: "R s t \<Longrightarrow> R t u \<Longrightarrow> R s u"
    and free: "same_core s t \<Longrightarrow> R s t"
    and fails: "R s (s\<lparr>ar_last_error := Some f\<rparr>)"
    and acts: "R s (s\<lparr>ar_actions := record_action a (ar_actions s)\<rparr>)"
    and queues: "R s (snd (enqueue p k e s))"
begin

lemma stays: "R s s"
  by (rule free) (simp add: same_core_def)

lemma moves_modify: "(\<And>s. R s (f s)) \<Longrightarrow> moves R (run_modify f)"
  by (simp add: moves_def run_modify_def)

lemma moves_free: "(\<And>s. same_core s (f s)) \<Longrightarrow> moves R (run_modify f)"
  by (intro moves_modify free)

lemma moves_ret: "moves R (run_ret a)" and moves_raise: "moves R (run_raise x)" and moves_get: "moves R (run_get h)"
  and moves_lift: "moves R (run_lift r)"
  by (simp_all add: moves_def run_ret_def run_raise_def run_get_def run_lift_def stays)

lemma moves_bind: "moves R m \<Longrightarrow> (\<And>a. moves R (f a)) \<Longrightarrow> moves R (run_bind m f)"
  unfolding moves_def run_bind_def by (auto split: prod.splits sum.splits intro: trans) (metis snd_conv trans)+

lemma moves_catch: "moves R m \<Longrightarrow> (\<And>e. moves R (h e)) \<Longrightarrow> moves R (run_catch m h)"
  unfolding moves_def run_catch_def by (auto split: prod.splits sum.splits intro: trans) (metis snd_conv trans)+

lemma moves_finally: "moves R m \<Longrightarrow> (\<And>s. same_core s (f s)) \<Longrightarrow> moves R (run_finally m f)"
  unfolding moves_def run_finally_def by (auto split: prod.splits) (metis free snd_conv trans)

lemma moves_if: "(b \<Longrightarrow> moves R m) \<Longrightarrow> (\<not> b \<Longrightarrow> moves R n) \<Longrightarrow> moves R (if b then m else n)"
  by simp

lemma moves_option: "moves R m \<Longrightarrow> (\<And>x. moves R (f x)) \<Longrightarrow> moves R (case z of None \<Rightarrow> m | Some x \<Rightarrow> f x)"
  by (cases z) simp_all

lemma moves_sum: "(\<And>a. moves R (f a)) \<Longrightarrow> (\<And>b. moves R (h b)) \<Longrightarrow> moves R (case z of Inl a \<Rightarrow> f a | Inr b \<Rightarrow> h b)"
  by (cases z) simp_all

lemma moves_prod: "(\<And>a b. moves R (f a b)) \<Longrightarrow> moves R (case z of (a, b) \<Rightarrow> f a b)"
  by (cases z) simp

lemma moves_Let: "(\<And>x. moves R (f x)) \<Longrightarrow> moves R (let x = z in f x)"
  by simp

lemma moves_for: "(\<And>x. moves R (f x)) \<Longrightarrow> moves R (run_for f xs)"
  by (induction xs) (auto intro!: moves_bind moves_ret)

lemma moves_on_run: "moves R (on_run m)"
  by (auto simp: moves_def on_run_def same_core_def intro: free split: prod.splits)

lemmas moving_steps = moves_ret moves_raise moves_get moves_lift moves_bind moves_catch moves_if moves_option moves_sum
  moves_prod moves_Let moves_for moves_on_run

lemma moves_failed: "moves R (failed_with code msg)"
proof -
  have "R s (s\<lparr>ar_last_error := Some f, ar_status := Degraded\<rparr>)" for s f
    by (rule trans [OF fails free]) (simp add: same_core_def)
  then show ?thesis unfolding failed_with_def by (intro moves_modify)
qed

lemma moves_upsert: "moves R (upsert_cycle env r)"
  unfolding upsert_cycle_def by (intro moving_steps moves_free) (simp add: same_core_def)

lemma moves_projection: "moves R (projection_or_none env)"
  unfolding projection_or_none_def by (intro moving_steps)

lemma moves_works: "moves R (entry_order_works env)" and moves_held: "moves R (open_position_contract_ids env)"
  unfolding entry_order_works_def open_position_contract_ids_def by (intro moving_steps moves_projection)+

lemma moves_enqueue: "moves R (enqueue p k e)"
  by (simp add: moves_def queues)

lemma moves_event: "moves R (on_event env e)"
proof -
  note rules = moving_steps moves_enqueue moves_works moves_held
  have p: "moves R (enqueue_position_snapshot env e c)" for c
    unfolding enqueue_position_snapshot_def runtime_uuid_def by (intro rules)
  have "moves R (enqueue_snapshot_work env e)"
    unfolding enqueue_snapshot_work_def by (intro rules p moves_free) (simp add: same_core_def remember_snapshot_def)
  then show ?thesis unfolding on_event_def by (intro rules moves_free) (simp_all add: same_core_def)
qed

lemma moves_invoke: "moves R (invoke_decision_graph env stop e)"
  unfolding invoke_decision_graph_def decision_failure_def run_decision_graph_def runtime_uuid_def
  by (intro moving_steps moves_works moves_upsert moves_failed moves_free) (simp_all add: same_core_def)

lemma moves_position_work: "moves R (run_position_work env e)"
  unfolding run_position_work_def resolved_payload_def
  by (intro moving_steps moves_finally moves_upsert moves_free) (simp_all add: same_core_def)

lemma moves_order_work: "moves R (run_order_work env e)"
proof -
  have acted: "moves R (action_done env d st trigger i)" for d st trigger i
    unfolding action_done_def by (intro moving_steps moves_modify acts)
  have "moves R (apply_order_decision env d st sync trigger)" for d st sync trigger
    unfolding apply_order_decision_def by (intro moving_steps acted)
  moreover have "moves R (polled_order env c)" "moves R (order_context env i)" for c i
    unfolding polled_order_def order_context_def runtime_uuid_def by (intro moving_steps)+
  ultimately show ?thesis
    unfolding run_order_work_def resolved_payload_def
    by (intro moving_steps moves_free) (simp_all add: same_core_def)
qed

lemma moves_start: "moves R (start_runtime env)"
proof -
  have d: "moves R degrade" unfolding degrade_def by (intro moves_free) (simp add: same_core_def)
  have "moves R (resume_cycle env r)" for r
    unfolding resume_cycle_def by (intro moving_steps moves_upsert d)
  then have "moves R (resume_unfinished_cycles env)"
    unfolding resume_unfinished_cycles_def by (intro moving_steps)
  then show ?thesis
    unfolding start_runtime_def by (intro moving_steps moves_failed moves_free) (simp_all add: same_core_def)
qed

end

end
