(* ===== verification/Cognitive_Runtime_Props.thy ===== *)
theory Cognitive_Runtime_Props
  imports Cognitive_Runtime
begin

text \<open>
  What the runtime of the cognitive agents guarantees, whatever arrives and whatever the agents, the broker and the
  repositories answer: one decision cycle at a time, the place of order and position events in the queue, an order
  action once per key. The last theorems are about what it does not do: recover its health, complete a blocked cycle,
  reassess a position on the market of the moment.
\<close>

section \<open>The relations carried through the runtime\<close>

text \<open>No operation below the workers touches the cycle in flight, and none forgets a failure.\<close>

definition calm :: "('g, 'b) agent_runtime \<Rightarrow> ('g, 'b) agent_runtime \<Rightarrow> bool" where
  "calm s t \<longleftrightarrow>
     ar_current t = ar_current s \<and> ar_in_flight t = ar_in_flight s \<and> ar_active_decisions t = ar_active_decisions s \<and>
     (ar_last_error s \<noteq> None \<longrightarrow> ar_last_error t \<noteq> None)"

interpretation calm: runtime_relation calm
  by unfold_locales (auto simp: calm_def same_core_def enqueue_def run_modify_def Let_def)

section \<open>Reachable states\<close>

lemma reaches_invariant:
  assumes "runtime_reaches s t" "Q s"
    and "\<And>env a t. Q t \<Longrightarrow> action_enabled a t \<Longrightarrow> Q (runtime_step env a t)"
  shows "Q t"
  using assms by (induction rule: runtime_reaches.induct) blast+

lemma movesD: "moves R m \<Longrightarrow> R s (snd (m s))"
  by (simp add: moves_def)

context runtime_relation
begin

lemma moves_item:
  assumes taken: "\<And>w ws. ar_positions s = w # ws \<Longrightarrow> R s (s\<lparr>ar_positions := ws\<rparr>)"
  shows "R s (run_position_item env s)"
proof (cases "ar_positions s")
  case (Cons w ws)
  let ?m = "run_catch (if qw_kind w = Order_Work then run_order_work env (qw_event w) else run_position_work env (qw_event w))
                 (\<lambda>x. failed_with ''position_worker_failure'' (exc_text x))"
  have "moves R ?m" by (intro moves_catch moves_if moves_order_work moves_position_work moves_failed)
  from trans [OF taken [OF Cons] movesD [OF this]] show ?thesis
    unfolding run_position_item_def Cons list.case .
qed (simp add: run_position_item_def stays)

end

text \<open>A relation that the updates of the workers satisfy as well holds between any two states of a run.\<close>

locale step_relation = runtime_relation +
  assumes taken: "ar_positions s = w # ws \<Longrightarrow> R s (s\<lparr>ar_positions := ws\<rparr>)"
    and dropped: "R s (s\<lparr>ar_decisions := vs\<rparr>)"
    and cleared: "R s (clear_decision s)"
    and begun: "R s (begin_decision_work e s)"
    and restored: "R s t \<Longrightarrow> R s (t\<lparr>ar_last_error := ar_last_error s\<rparr>)"
begin

lemma moves_ended: "R s (end_decision_work env stop s)"
proof (cases "ar_current s")
  case (Some e)
  from trans [OF movesD [OF moves_catch [OF moves_invoke moves_failed]] cleared] show ?thesis
    unfolding end_decision_work_def Some option.case .
qed (simp add: end_decision_work_def stays)

lemma moves_coalesced: "moves R (run_coalesced_new_entry env)"
  unfolding run_coalesced_new_entry_def runtime_uuid_def
  by (intro moving_steps moves_modify begun moves_free) (simp add: same_core_def)

lemma moves_cancelled: "R s (finish_shutdown env n s)"
proof -
  have started: "R t (t\<lparr>ar_started := False\<rparr>)" for t by (rule free) (simp add: same_core_def)
  have "R s (cancel_decision env n s)"
  proof (cases "ar_current s")
    case (Some e)
    let ?t = "snd (invoke_decision_graph env (Some n) e s)"
    have "R s (?t\<lparr>ar_last_error := ar_last_error s\<rparr>)" by (rule restored [OF movesD [OF moves_invoke]])
    moreover have "R (?t\<lparr>ar_last_error := ar_last_error s\<rparr>) (?t\<lparr>ar_status := ar_status s, ar_last_error := ar_last_error s\<rparr>)"
      by (rule free) (simp add: same_core_def)
    ultimately have "R s (?t\<lparr>ar_status := ar_status s, ar_last_error := ar_last_error s\<rparr>)" by (rule trans)
    from trans [OF this cleared] show ?thesis unfolding cancel_decision_def Some option.case .
  qed (simp add: cancel_decision_def stays)
  from trans [OF this started] show ?thesis unfolding finish_shutdown_def .
qed

lemma moves_runtime: "R s (runtime_step env a s)"
proof (cases a)
  case Decision_Taken
  show ?thesis
  proof (cases "ar_decisions s")
    case (Cons w ws)
    from trans [OF dropped begun] show ?thesis
      unfolding Decision_Taken runtime_step.simps take_decision_work_def Cons list.case .
  qed (simp add: Decision_Taken take_decision_work_def stays)
next
  case Shutdown_Asked
  then show ?thesis by (auto simp: ask_shutdown_def same_core_def intro: free)
qed (simp_all add: movesD [OF moves_start] movesD [OF moves_event] movesD [OF moves_coalesced] moves_item [OF taken] moves_ended moves_cancelled)

lemma related: "runtime_reaches s t \<Longrightarrow> R s t"
  by (induction rule: runtime_reaches.induct) (auto intro: stays trans moves_runtime)

end

definition failing :: "('g, 'b) agent_runtime \<Rightarrow> ('g, 'b) agent_runtime \<Rightarrow> bool" where
  "failing s t \<longleftrightarrow> (ar_last_error s \<noteq> None \<longrightarrow> ar_last_error t \<noteq> None)"

lemmas worker_updates = same_core_def enqueue_def run_modify_def Let_def clear_decision_def begin_decision_work_def remember_snapshot_def

interpretation failing: step_relation failing
  by unfold_locales (auto simp: failing_def worker_updates)

definition remembers :: "('g, 'b) agent_runtime \<Rightarrow> ('g, 'b) agent_runtime \<Rightarrow> bool" where
  "remembers s t \<longleftrightarrow> oa_key ` set (ar_actions s) \<subseteq> oa_key ` set (ar_actions t)"

interpretation remembers: step_relation remembers
  by unfold_locales (auto simp: remembers_def worker_updates record_action_def)

text \<open>The position queue is in the order of its keys, and every sequence number has been drawn.\<close>

definition queue_ok :: "('g, 'b) agent_runtime \<Rightarrow> bool" where
  "queue_ok s \<longleftrightarrow> sorted (map work_key (ar_positions s)) \<and> (\<forall>w \<in> set (ar_positions s). qw_sequence w \<le> ar_sequence s)"

lemma queue_put_members: "set (queue_put w q) = insert w (set q)"
  by (simp add: queue_put_def set_insort_key)

lemma queue_put_sorted: "sorted (map work_key q) \<Longrightarrow> sorted (map work_key (queue_put w q))"
  by (simp add: queue_put_def sorted_insort_key)

definition queued :: "('g, 'b) agent_runtime \<Rightarrow> ('g, 'b) agent_runtime \<Rightarrow> bool" where
  "queued s t \<longleftrightarrow> (queue_ok s \<longrightarrow> queue_ok t)"

interpretation queued: step_relation queued
proof
  fix s :: "('g, 'b) agent_runtime" and p k e
  show "queued s (snd (enqueue p k e s))"
    by (auto simp: queued_def queue_ok_def enqueue_def run_modify_def Let_def queue_put_members queue_put_sorted)
qed (auto simp: queued_def queue_ok_def worker_updates)

section \<open>One decision cycle at a time\<close>

definition one_cycle :: "('g, 'b) agent_runtime \<Rightarrow> bool" where
  "one_cycle s \<longleftrightarrow> ar_in_flight s = (ar_current s \<noteq> None) \<and> ar_active_decisions s = (if ar_in_flight s then 1 else 0)"

lemma one_cycle_calm: "calm s t \<Longrightarrow> one_cycle s \<Longrightarrow> one_cycle t"
  by (simp add: calm_def one_cycle_def)

lemma one_cycle_cleared: "one_cycle s \<Longrightarrow> one_cycle (clear_decision s)"
  by (simp add: one_cycle_def clear_decision_def)

lemma one_cycle_begun: "one_cycle s \<Longrightarrow> one_cycle (begin_decision_work e s)"
  by (auto simp: one_cycle_def begin_decision_work_def remember_snapshot_def)

lemma one_cycle_step:
  assumes ok: "one_cycle s"
  shows "one_cycle (runtime_step env a s)"
proof (cases a)
  case Start
  then show ?thesis using one_cycle_calm [OF movesD [OF calm.moves_start] ok] by simp
next
  case (Event_Arrives e)
  then show ?thesis using one_cycle_calm [OF movesD [OF calm.moves_event] ok] by simp
next
  case Decision_Taken
  have "one_cycle (s\<lparr>ar_decisions := ws\<rparr>)" for ws using ok by (simp add: one_cycle_def)
  then show ?thesis using Decision_Taken ok by (auto simp: take_decision_work_def split: list.splits intro: one_cycle_begun)
next
  case (Decision_Ends stop)
  show ?thesis
  proof (cases "ar_current s")
    case (Some e)
    have "calm s (snd (run_catch (invoke_decision_graph env stop e) (\<lambda>x. failed_with ''decision_worker_failure'' (exc_text x)) s))"
      by (rule movesD [OF calm.moves_catch [OF calm.moves_invoke calm.moves_failed]])
    from one_cycle_cleared [OF one_cycle_calm [OF this ok]] show ?thesis
      unfolding Decision_Ends runtime_step.simps end_decision_work_def Some option.case .
  qed (use Decision_Ends ok in \<open>simp add: end_decision_work_def\<close>)
next
  case Decision_Idle
  have "preserves one_cycle (runtime_uuid env)"
    unfolding preserves_def runtime_uuid_def using one_cycle_calm [OF movesD [OF calm.moves_on_run]] by blast
  moreover have "preserves one_cycle (run_modify (begin_decision_work e))"
    "preserves one_cycle (run_modify (ar_pending_update f))" for e f
    by (intro preserves_modify one_cycle_begun, assumption, intro preserves_modify, simp add: one_cycle_def)
  ultimately have "preserves one_cycle (run_coalesced_new_entry env)"
    unfolding run_coalesced_new_entry_def by (intro preserve_intros) assumption+
  then show ?thesis using Decision_Idle ok by (auto simp: preserves_def)
next
  case Position_Taken
  have "calm s (run_position_item env s)" by (rule calm.moves_item) (simp add: calm_def)
  from one_cycle_calm [OF this ok] show ?thesis using Position_Taken by simp
next
  case Shutdown_Asked
  then show ?thesis using ok by (simp add: ask_shutdown_def one_cycle_def)
next
  case (Shutdown_Done n)
  have "calm s (snd (invoke_decision_graph env (Some n) e s))" for e
    by (rule movesD [OF calm.moves_invoke])
  then have "one_cycle ((snd (invoke_decision_graph env (Some n) e s))\<lparr>ar_status := st, ar_last_error := er\<rparr>)" for e st er
    using ok by (simp add: calm_def one_cycle_def)
  then have "one_cycle (cancel_decision env n s)"
    using ok by (auto simp: cancel_decision_def one_cycle_cleared split: option.splits)
  then show ?thesis using Shutdown_Done by (simp add: finish_shutdown_def one_cycle_def)
qed

text \<open>
  Claim C27. The decision worker runs one cycle at a time: in every state the runtime can reach, whatever events, starts,
  timeouts and shutdowns interleave, the counter of active decision cycles is one while a cycle is in flight and zero
  otherwise, and the flag that guards a second cycle is set exactly while there is one.
\<close>

theorem one_decision_cycle_at_a_time:
  assumes "runtime_reaches (new_runtime g registry actions) s"
  shows "ar_active_decisions s = (if ar_current s = None then 0 else 1) \<and> ar_in_flight s = (ar_current s \<noteq> None)"
proof -
  have "one_cycle (new_runtime g registry actions)" by (simp add: one_cycle_def new_runtime_def)
  with assms have "one_cycle s" by (rule reaches_invariant) (rule one_cycle_step)
  then show ?thesis by (simp add: one_cycle_def)
qed

section \<open>Order and position events\<close>

lemma insort_splits:
  "sorted (map f xs) \<Longrightarrow> \<exists>before after. insort_key f x xs = before @ x # after \<and> before @ after = xs \<and>
     (\<forall>y \<in> set before. f y < f x) \<and> (\<forall>y \<in> set after. f x \<le> f y)"
proof (induction xs)
  case (Cons a xs)
  show ?case
  proof (cases "f x \<le> f a")
    case True
    then have "insort_key f x (a # xs) = [] @ x # a # xs" "\<forall>y \<in> set (a # xs). f x \<le> f y" using Cons.prems by auto
    then show ?thesis by (metis append_Nil empty_iff list.set(1))
  next
    case False
    obtain before after where ih: "insort_key f x xs = before @ x # after" "before @ after = xs"
      "\<forall>y \<in> set before. f y < f x" "\<forall>y \<in> set after. f x \<le> f y"
      using Cons by auto
    have "insort_key f x (a # xs) = (a # before) @ x # after" "(a # before) @ after = a # xs"
      "\<forall>y \<in> set (a # before). f y < f x" using ih False by auto
    then show ?thesis using ih(4) by blast
  qed
qed simp

text \<open>
  Claim C23. An order or position event that arrives while the runtime accepts work is never dropped and never overtaken
  by market data: it is put into the position queue behind all earlier order and position events and before every
  reassessment that a snapshot has asked for.
\<close>

theorem critical_event_is_queued_first:
  assumes reached: "runtime_reaches (new_runtime g registry actions) s" and on: "accepting s"
    and critical: "de_event_type e \<in> order_event_types \<union> position_event_types"
  shows "\<exists>before w after. ar_positions (runtime_step env (Event_Arrives e) s) = before @ w # after \<and>
           before @ after = ar_positions s \<and> qw_event w = e \<and> qw_kind w = classify e \<and>
           (\<forall>x \<in> set before. qw_priority x = Critical \<and> qw_sequence x < qw_sequence w) \<and>
           (\<forall>x \<in> set after. qw_priority x \<noteq> Critical)"
proof -
  have "queue_ok (new_runtime g registry actions)" by (simp add: queue_ok_def new_runtime_def)
  then have ok: "queue_ok s" using queued.related [OF reached] by (simp add: queued_def)
  let ?w = "\<lparr>qw_priority = Critical, qw_sequence = Suc (ar_sequence s), qw_event = e, qw_kind = classify e\<rparr>"
  have kind: "classify e \<noteq> Decision_Work" "de_event_type e \<noteq> MARKET_SNAPSHOT_CREATED" "event_priority e = Critical"
    using critical by (auto simp: classify_def event_priority_def order_event_types_def position_event_types_def)
  have step: "ar_positions (runtime_step env (Event_Arrives e) s) = queue_put ?w (ar_positions s)"
    using on kind by (simp add: on_event_def enqueue_def run_bind_def run_modify_def run_get_def accepting_def Let_def)
  obtain before after where split: "queue_put ?w (ar_positions s) = before @ ?w # after" "before @ after = ar_positions s"
    "\<forall>y \<in> set before. work_key y < work_key ?w" "\<forall>y \<in> set after. work_key ?w \<le> work_key y"
    using insort_splits [of work_key "ar_positions s" ?w] ok unfolding queue_put_def queue_ok_def by blast
  have least: "Critical \<le> p" "p \<le> Critical \<longleftrightarrow> p = Critical" "\<not> p < Critical" for p
    by (cases p; simp add: less_eq_work_priority_def less_work_priority_def)+
  have "qw_priority x = Critical \<and> qw_sequence x < Suc (ar_sequence s)" if "x \<in> set before" for x
    using split(3) that least by (auto simp: work_key_def)
  moreover have "qw_priority x \<noteq> Critical" if x: "x \<in> set after" for x
  proof
    assume "qw_priority x = Critical"
    then have "Suc (ar_sequence s) \<le> qw_sequence x" using split(4) x by (fastforce simp: work_key_def)
    moreover have "x \<in> set (ar_positions s)" using x split(2) by (metis Un_iff set_append)
    ultimately show False using ok by (fastforce simp: queue_ok_def)
  qed
  ultimately show ?thesis using step split(1,2) by (intro exI [of _ before] exI [of _ ?w] exI [of _ after]) simp
qed

section \<open>Order actions\<close>

text \<open>
  An action on an order is carried out once per key: after a decision has been applied and its key recorded,
  applying it again in any later state of the runtime, a restarted one included, does nothing at all.
\<close>

theorem order_action_applied_once:
  assumes "av_has_actions env" and recorded: "has_action_key (order_action_key env d state trigger) (ar_actions s)"
    and later: "runtime_reaches s t"
  shows "apply_order_decision env d state sync trigger t = (Inr (), t)"
proof -
  have "has_action_key (order_action_key env d state trigger) (ar_actions t)"
    using remembers.related [OF later] recorded by (auto simp: remembers_def has_action_key_def)
  then show ?thesis using assms(1) by (simp add: apply_order_decision_def run_bind_def run_get_def run_ret_def)
qed

section \<open>Health\<close>

text \<open>
  The runtime never reports itself healthy again after a failure: once a cycle has failed or timed out, or a
  worker has raised, the failure stays recorded in every later state, however many cycles succeed, and the health
  report is degraded (or unavailable) from then on.
\<close>

theorem failure_degrades_health_for_good:
  assumes failed: "ar_last_error s \<noteq> None" and later: "runtime_reaches s t"
  shows "hl_status (health env t) \<in> {Degraded, Unavailable} \<and> hl_last_error (health env t) \<noteq> None"
proof -
  have "ar_last_error t \<noteq> None" using failing.related [OF later] failed by (simp add: failing_def)
  then show ?thesis by (auto simp: health_def Let_def)
qed

section \<open>Cycles that are resumed\<close>

definition still_open :: "string \<times> graph_kind \<times> string \<Rightarrow> cycle_record list \<Rightarrow> bool" where
  "still_open k table \<longleftrightarrow> list_ex (\<lambda>r. rg_key r = k \<and> (rg_status r = Cycle_Pending \<or> rg_status r = Cycle_Running)) table"

lemma upsert_keeps_open: "still_open k table \<Longrightarrow> rg_status r = Cycle_Running \<Longrightarrow> still_open k (registry_upsert r table)"
  by (cases "rg_key r = k") (auto simp: still_open_def registry_upsert_def list_ex_iff)

lemma open_is_resumable:
  "r \<in> set (list_resumable session table) \<Longrightarrow> rg_key r = k \<Longrightarrow> still_open k table"
  by (auto simp: list_resumable_def still_open_def list_ex_iff)

lemma resumable_is_open:
  "still_open (session, kind, cid) table \<Longrightarrow> \<exists>r \<in> set (list_resumable session table). rg_key r = (session, kind, cid)"
  by (auto simp: list_resumable_def still_open_def list_ex_iff rg_key_def)

definition resumes_blocked :: "('g, 'b) agent_env \<Rightarrow> bool" where
  "resumes_blocked env \<longleftrightarrow>
     (\<forall>r g. \<exists>out g'. av_resume env r g = (Inr (Some out), g') \<and> list_ex (\<lambda>e. ge_error_code e \<in> set blocking_codes) (go_errors out))"

lemma upsert_cycle_keeps_open:
  "rg_status r = Cycle_Running \<Longrightarrow>
   \<exists>t'. upsert_cycle env r t = (Inr (), t') \<and> (still_open k (ar_registry t) \<longrightarrow> still_open k (ar_registry t'))"
  using upsert_keeps_open [of k "ar_registry t" "r\<lparr>rg_updated_at := av_now env\<rparr>"]
  by (cases "av_has_registry env") (simp_all add: upsert_cycle_def run_modify_def run_ret_def)

lemma resume_blocked:
  assumes "resumes_blocked env"
  shows "\<exists>t'. resume_cycle env r t = (Inr [], t') \<and> ar_status t' = Degraded \<and>
           (still_open k (ar_registry t) \<longrightarrow> still_open k (ar_registry t'))"
proof -
  have "rg_status (r\<lparr>rg_status := Cycle_Running\<rparr>) = Cycle_Running" by simp
  from upsert_cycle_keeps_open [OF this, of env t k]
  obtain t1 where t1: "upsert_cycle env (r\<lparr>rg_status := Cycle_Running\<rparr>) t = (Inr (), t1)"
    "still_open k (ar_registry t) \<longrightarrow> still_open k (ar_registry t1)"
    by (elim exE conjE) simp_all
  obtain out g' where resumed: "av_resume env r (ar_run t1) = (Inr (Some out), g')"
    and blocked: "list_ex (\<lambda>e. ge_error_code e \<in> set blocking_codes) (go_errors out)"
    using assms unfolding resumes_blocked_def by metis
  have no: "\<not> cycle_reached_terminal_outcome (Some out)" using blocked by (simp add: cycle_reached_terminal_outcome_def)
  have "rg_status (resumed_record r (Some out)) = Cycle_Running" using no by (simp add: resumed_record_def status_of_outcome_def)
  from upsert_cycle_keeps_open [OF this, of env "t1\<lparr>ar_run := g'\<rparr>" k]
  obtain t2 where t2: "upsert_cycle env (resumed_record r (Some out)) (t1\<lparr>ar_run := g'\<rparr>) = (Inr (), t2)"
    "still_open k (ar_registry t1) \<longrightarrow> still_open k (ar_registry t2)"
    by (elim exE conjE) simp_all
  have "resume_cycle env r t = (Inr [], t2\<lparr>ar_status := Degraded\<rparr>)"
    using t1(1) t2(1) resumed no
    by (simp add: resume_cycle_def run_bind_def run_catch_def on_run_def degrade_def run_modify_def run_ret_def)
  then show ?thesis using t1(2) t2(2) by auto
qed

lemma resume_all_blocked:
  assumes "resumes_blocked env"
  shows "\<exists>t'. run_for (resume_cycle env) rs t = (Inr [], t') \<and> (rs \<noteq> [] \<longrightarrow> ar_status t' = Degraded) \<and>
           (still_open k (ar_registry t) \<longrightarrow> still_open k (ar_registry t'))"
proof (induction rs arbitrary: t)
  case (Cons r rs)
  obtain t1 where t1: "resume_cycle env r t = (Inr [], t1)" "ar_status t1 = Degraded"
    "still_open k (ar_registry t) \<longrightarrow> still_open k (ar_registry t1)"
    using resume_blocked [OF assms] by blast
  obtain t2 where t2: "run_for (resume_cycle env) rs t1 = (Inr [], t2)" "rs \<noteq> [] \<longrightarrow> ar_status t2 = Degraded"
    "still_open k (ar_registry t1) \<longrightarrow> still_open k (ar_registry t2)"
    using Cons.IH by blast
  have "rs = [] \<Longrightarrow> t2 = t1" using t2(1) by (simp add: run_ret_def)
  then have "ar_status t2 = Degraded" using t1(2) t2(2) by blast
  moreover have "run_for (resume_cycle env) (r # rs) t = (Inr [], t2)" using t1(1) t2(1) by (simp add: run_bind_def run_ret_def)
  ultimately show ?case using t1(3) t2(3) by blast
qed (simp add: run_ret_def)

text \<open>
  Claim C18. A cycle that ended in a blocking error is never completed. When every resumption shows such an error (as
  the resumption of a graph that has run to its end does), each start of the runtime leaves every cycle it has resumed
  running, so the next start resumes it again, and reports a degraded runtime although nothing is left to recover.
\<close>

theorem blocked_cycle_never_completes:
  assumes on: "av_has_registry env" "av_has_checkpoints env" "\<not> ar_started s"
    and blocked: "resumes_blocked env"
    and r: "r \<in> set (list_resumable (av_session_id env) (ar_registry s))"
    and t: "snd (start_runtime env s) = t"
  shows "(\<exists>r' \<in> set (list_resumable (av_session_id env) (ar_registry t)). rg_key r' = rg_key r) \<and> ar_status t = Degraded"
proof -
  have session: "rg_session_id r = av_session_id env" using r by (simp add: list_resumable_def)
  let ?s = "s\<lparr>ar_started := True, ar_shutdown := False\<rparr>" and ?rs = "list_resumable (av_session_id env) (ar_registry s)"
  obtain t' where t': "run_for (resume_cycle env) ?rs ?s = (Inr [], t')" "?rs \<noteq> [] \<longrightarrow> ar_status t' = Degraded"
    "still_open (rg_key r) (ar_registry ?s) \<longrightarrow> still_open (rg_key r) (ar_registry t')"
    using resume_all_blocked [OF blocked] by blast
  have "t = t'"
    using t t'(1) on by (simp add: start_runtime_def resume_unfinished_cycles_def run_bind_def run_get_def run_modify_def run_catch_def run_ret_def)
  moreover have "still_open (rg_key r) (ar_registry ?s)" using open_is_resumable [OF r] by simp
  ultimately have "still_open (rg_key r) (ar_registry t)" using t'(3) by blast
  then have "\<exists>r' \<in> set (list_resumable (av_session_id env) (ar_registry t)). rg_key r' = rg_key r"
    unfolding rg_key_def [of r] session by (rule resumable_is_open)
  moreover have "ar_status t = Degraded" using t'(2) r \<open>t = t'\<close> by (cases ?rs) auto
  ultimately show ?thesis by blast
qed

section \<open>What a position is reassessed on\<close>

text \<open>
  A position event is reassessed on the market of the entry. Such an event carries no snapshot, so the
  snapshot recorded with the order that opened the position is taken, whatever snapshots the store holds by now: the
  latest one is only a fallback for positions without a provenance.
\<close>

theorem position_reassessed_on_entry_snapshot:
  assumes "dict_get (de_payload e) ''snapshot_id'' = None" "pv_snapshot_id r \<noteq> []"
    and "provenance_of env (first_text (de_payload e) [''client_order_id'']) (first_text (de_payload e) [''contract_id'']) table = Some r"
  shows "pq_snapshot_id (initial_position_state env e (resolve_provenance env e table)) = pv_snapshot_id r"
proof -
  have "dict_get (with_provenance (Some r) (de_payload e)) ''snapshot_id'' = Some (MText (pv_snapshot_id r))"
    using assms(1) by (simp add: with_provenance_def Let_def dict_get_setdefault)
  then have "dict_get (with_identity i (with_provenance (Some r) (de_payload e))) ''snapshot_id'' = Some (MText (pv_snapshot_id r))" for i
    by (simp add: with_identity_def dict_get_setdefault)
  then show ?thesis
    using assms(2,3) by (simp add: resolve_provenance_def Let_def initial_position_state_def snapshot_of_payload_def)
qed

section \<open>Reducing an order that is partly filled\<close>


section \<open>A runtime\<close>

definition filling_projection :: projection_state where
  "filling_projection = \<lparr>pr_orders = [(''c8'', \<lparr>ol_client_order_id = ''c8'', ol_status = PARTIALLY_FILLED, ol_submitted_qty = 10,
       ol_filled_qty = 8, ol_avg_fill_price = Some 2, ol_fees = 0, ol_side = Buy, ol_contract_id = demo_contract_id,
       ol_broker_order_id = Some ''b8''\<rparr>)],
     pr_positions = [], pr_capital_usage = 0, pr_seen_event_ids = {}, pr_seen_keys = {}\<rparr>"

definition blocked_outcome :: graph_outcome where
  "blocked_outcome = \<lparr>go_errors = [\<lparr>ge_error_id = ''e1'', ge_node_name = ''submit_execution_command'', ge_error_code = ''gateway_blocked'',
     ge_message = ''blocked'', ge_recoverable = True\<rparr>], go_traces = [], go_command_id = None\<rparr>"

definition demo_agent_env :: "(unit, paper_broker) agent_env" where
  "demo_agent_env = \<lparr>av_position = (demo_position_env Hold)\<lparr>pe_graph := (demo_graph_env Meta_Abandon)
       \<lparr>ce_deps := demo_deps True (Some filling_projection)\<rparr>\<rparr>,
     av_session_id = ''s'', av_run_id = ''r'', av_position_enabled = True, av_coalescing = True, av_max_cycle_seconds = 90,
     av_has_registry = True, av_has_actions = True, av_has_checkpoints = True, av_now = at_utc 0, av_uuid5 = (\<lambda>t. t),
     av_digest = (\<lambda>t. t),
     av_order_context = (\<lambda>cid snapshot quality sf. Inr \<lparr>cp_context_id = ''x'', cp_session_id = ''s'', cp_cycle_id = cid,
       cp_snapshot_id = mk_snapshot_id snapshot\<rparr>),
     av_manage = (\<lambda>ctx client sync. run_raise RuntimeError), av_keep_decision = (\<lambda>d. run_ret ()),
     av_resume = (\<lambda>r. run_ret (Some blocked_outcome)), av_providers = None\<rparr>"

definition demo_domain_event :: "event_type \<Rightarrow> (string, meta_val) dict \<Rightarrow> domain_event" where
  "demo_domain_event etype payload = \<lparr>de_event_id = ''e1'', de_event_type = etype, de_schema_version = ''1'', de_correlation_id = ''k'',
     de_causation_id = None, de_session_id = ''s'', de_exchange_ts = at_utc 0, de_created_ts = at_utc 0, de_source = ''ledger'',
     de_payload = payload\<rparr>"

definition demo_new :: "(unit, paper_broker) agent_runtime" where
  "demo_new = new_runtime demo_graph_run [] []"

definition demo_accepting :: "(unit, paper_broker) agent_runtime" where
  "demo_accepting = demo_new\<lparr>ar_started := True\<rparr>"

lemma demo_accepting: "runtime_reaches demo_new demo_accepting" "accepting demo_accepting"
proof -
  have "runtime_step demo_agent_env Start demo_new = demo_accepting"
    by (simp add: start_runtime_def resume_unfinished_cycles_def list_resumable_def demo_new_def new_runtime_def demo_accepting_def
        run_bind_def run_get_def run_modify_def run_catch_def run_ret_def)
  moreover have "runtime_reaches demo_new (runtime_step demo_agent_env Start demo_new)"
    by (rule runtime_reaches.more [OF runtime_reaches.here]) simp
  ultimately show "runtime_reaches demo_new demo_accepting" by simp
  show "accepting demo_accepting" by (simp add: accepting_def demo_accepting_def demo_new_def new_runtime_def)
qed

definition demo_busy :: "(unit, paper_broker) agent_runtime" where
  "demo_busy = runtime_step demo_agent_env Decision_Taken
     (runtime_step demo_agent_env (Event_Arrives (demo_domain_event BAR_CLOSED [])) demo_accepting)"

theorem one_decision_cycle_at_a_time_witness:
  "\<exists>s. runtime_reaches (new_runtime demo_graph_run [] []) s \<and> ar_current s \<noteq> None \<and> ar_active_decisions s = 1 \<and> ar_in_flight s"
proof -
  let ?e = "demo_domain_event BAR_CLOSED []" and ?t = "runtime_step demo_agent_env (Event_Arrives (demo_domain_event BAR_CLOSED [])) demo_accepting"
  have kind: "classify ?e = Decision_Work" "de_event_type ?e \<noteq> MARKET_SNAPSHOT_CREATED"
    by (simp_all add: classify_def demo_domain_event_def position_event_types_def order_event_types_def)
  have fields: "ar_started demo_accepting" "\<not> ar_shutdown demo_accepting" "ar_current demo_accepting = None" "ar_in_flight demo_accepting = False"
    "ar_decisions demo_accepting = []"
    by (simp_all add: demo_accepting_def demo_new_def new_runtime_def)
  have taken: "accepting ?t" "ar_current ?t = None" "ar_decisions ?t \<noteq> []" "ar_current demo_busy \<noteq> None"
    by (simp_all add: demo_busy_def on_event_def enqueue_def kind fields run_bind_def run_modify_def run_get_def Let_def accepting_def
        queue_put_def take_decision_work_def begin_decision_work_def)
  have "runtime_reaches demo_new ?t" by (rule runtime_reaches.more [OF demo_accepting(1)]) simp
  then have "runtime_reaches demo_new demo_busy"
    unfolding demo_busy_def by (rule runtime_reaches.more) (use taken in simp)
  then have busy: "runtime_reaches (new_runtime demo_graph_run [] []) demo_busy" by (simp add: demo_new_def)
  show ?thesis using one_decision_cycle_at_a_time [OF busy] taken(4) busy by auto
qed

theorem critical_event_is_queued_first_witness:
  "\<exists>before w after. ar_positions (runtime_step demo_agent_env (Event_Arrives (demo_domain_event ORDER_FILLED [])) demo_accepting) =
     before @ w # after \<and> qw_event w = demo_domain_event ORDER_FILLED []"
proof -
  have "de_event_type (demo_domain_event ORDER_FILLED []) \<in> order_event_types \<union> position_event_types"
    by (simp add: demo_domain_event_def order_event_types_def)
  from critical_event_is_queued_first [OF demo_accepting(1) [unfolded demo_new_def] demo_accepting(2) this] show ?thesis by blast
qed

definition demo_order_decision :: "order_decision_action \<Rightarrow> order_decision" where
  "demo_order_decision a = \<lparr>od_decision_id = ''d1'', od_cycle_id = ''y1'', od_snapshot_id = demo_snapshot_id, od_client_order_id = ''c8'',
     od_action = a, od_new_limit_price = None, od_new_quantity = None, od_rationale_summary = ''slow''\<rparr>"

definition demo_recorded :: "(unit, paper_broker) agent_runtime" where
  "demo_recorded = snd (action_done demo_agent_env (demo_order_decision Cancel_It) ''open'' ''e1'' None demo_accepting)"

theorem order_action_applied_once_witness:
  "apply_order_decision demo_agent_env (demo_order_decision Cancel_It) ''open'' None ''e1'' (runtime_step demo_agent_env Shutdown_Asked demo_recorded) =
     (Inr (), runtime_step demo_agent_env Shutdown_Asked demo_recorded)"
proof (rule order_action_applied_once)
  show on: "av_has_actions demo_agent_env" by (simp add: demo_agent_env_def)
  show "has_action_key (order_action_key demo_agent_env (demo_order_decision Cancel_It) ''open'' ''e1'') (ar_actions demo_recorded)"
    using on by (simp add: demo_recorded_def action_done_def run_modify_def record_action_def has_action_key_def)
  show "runtime_reaches demo_recorded (runtime_step demo_agent_env Shutdown_Asked demo_recorded)"
    by (rule runtime_reaches.more [OF runtime_reaches.here]) simp
qed

definition demo_failed :: "(unit, paper_broker) agent_runtime" where
  "demo_failed = snd (failed_with ''cycle_timeout'' ''cycle exceeded 90s'' demo_accepting)"

theorem failure_degrades_health_for_good_witness:
  "hl_status (health demo_agent_env (runtime_step demo_agent_env Start demo_failed)) \<in> {Degraded, Unavailable}"
proof (rule failure_degrades_health_for_good [THEN conjunct1])
  show "ar_last_error demo_failed \<noteq> None" by (simp add: demo_failed_def failed_with_def run_modify_def)
  show "runtime_reaches demo_failed (runtime_step demo_agent_env Start demo_failed)"
    by (rule runtime_reaches.more [OF runtime_reaches.here]) simp
qed

definition demo_cycle_record :: cycle_record where
  "demo_cycle_record = decision_record demo_agent_env ''y1'' (demo_domain_event MARKET_SNAPSHOT_CREATED []) demo_snapshot_id Cycle_Running"

theorem blocked_cycle_never_completes_witness:
  "\<exists>r. r \<in> set (list_resumable ''s'' (ar_registry (snd (start_runtime demo_agent_env (new_runtime demo_graph_run [demo_cycle_record] []))))) \<and>
     rg_key r = rg_key demo_cycle_record"
proof -
  let ?s = "new_runtime demo_graph_run [demo_cycle_record] [] :: (unit, paper_broker) agent_runtime"
  have on: "av_has_registry demo_agent_env" "av_has_checkpoints demo_agent_env" "\<not> ar_started ?s" "av_session_id demo_agent_env = ''s''"
    by (simp_all add: demo_agent_env_def new_runtime_def)
  have b: "resumes_blocked demo_agent_env"
    by (simp add: resumes_blocked_def demo_agent_env_def run_ret_def blocked_outcome_def blocking_codes_def)
  have r: "demo_cycle_record \<in> set (list_resumable (av_session_id demo_agent_env) (ar_registry ?s))"
    by (simp add: list_resumable_def new_runtime_def demo_cycle_record_def decision_record_def)
  from blocked_cycle_never_completes [OF on(1,2,3) b r refl] show ?thesis unfolding on(4) by blast
qed

definition demo_provenance :: provenance where
  "demo_provenance = \<lparr>pv_client_order_id = ''c1'', pv_proposal_id = None, pv_decision_id = None, pv_strategy_id = None, pv_cycle_id = None,
     pv_snapshot_id = ''old'', pv_contract_id = demo_contract_id, pv_session_id = ''s'', pv_kind = ''entry'', pv_degraded_reason = None,
     pv_replace_of = None\<rparr>"

theorem position_reassessed_on_entry_snapshot_witness:
  "pq_snapshot_id (initial_position_state demo_agent_env (demo_domain_event POSITION_CHANGED [(''contract_id'', MText demo_contract_id)])
     (resolve_provenance demo_agent_env (demo_domain_event POSITION_CHANGED [(''contract_id'', MText demo_contract_id)])
        [(''c1'', demo_provenance)])) = ''old''"
proof -
  let ?e = "demo_domain_event POSITION_CHANGED [(''contract_id'', MText demo_contract_id)]"
  have p: "de_payload ?e = [(''contract_id'', MText demo_contract_id)]" by (simp add: demo_domain_event_def)
  have n: "demo_contract_id \<noteq> []" by simp
  have r: "provenance_of demo_agent_env (first_text (de_payload ?e) [''client_order_id'']) (first_text (de_payload ?e) [''contract_id''])
      [(''c1'', demo_provenance)] = Some demo_provenance"
    by (simp add: p n provenance_of_def latest_by_contract_id_def demo_agent_env_def demo_position_env_def demo_deps_def demo_provenance_def)
  from position_reassessed_on_entry_snapshot [OF _ _ r] show ?thesis by (simp add: p demo_provenance_def)
qed

definition demo_working_order :: broker_order where
  "demo_working_order = \<lparr>bo_order_id = ''b8'', bo_intent_id = ''c8'', bo_status = Open, bo_contract = demo_contract, bo_side = Buy,
     bo_quantity = 10, bo_limit_price = Some 2, bo_submitted_at = at_utc 0\<rparr>"


end
