(* ===== verification/Spec2Isabelle.thy ===== *)
theory Spec2Isabelle
  imports Order_Gateway_Props Market_Handler_Props Feature_Engine Market_Runtime_Props Options_Provider Model_Router Cognitive_Runtime_Props
begin

text \<open>
  A verification library of the trading core of joker, a program that trades same-day SPY options, in paper mode,
  on the decisions of language-model agents. The sources are under \<open>joker/\<close> in the repository.

  \<^bold>\<open>The program and its parts.\<close> Market data arrive as observations and option rows. The market runtime builds bars,
  option surfaces, quality reports and snapshots from them and publishes events on the bus. Two decision paths read
  the snapshots. The rule path (market handler, reactive engine, playbooks, exit manager) enters and leaves trades on
  signals. The agent path (cognitive runtime, decision graph, position graph) asks agents for a proposal, validates it
  against the truth reloaded from the stores, and hands it to the order-action gateway. Both paths end in the
  execution runtime, which submits a command to the broker once, records what the broker reports as ledger events, and
  compares ledger and broker. Orders, positions and profit are projections of the ledger; nothing else is believed.

  \<^bold>\<open>Theories and sources.\<close>

  \<^item> Python itself: \<open>Prelude\<close> (dictionaries, strings, exceptions, operations that may raise, and the contracts of an
    idempotent consumer and of an append-only table), \<open>Py_Time\<close> (\<open>datetime\<close>), \<open>Py_Text\<close> (numbers and dates as text).
  \<^item> Ledger: \<open>Ledger_Schemas\<close> (\<open>ledger/schemas.py\<close>), \<open>Ledger_Projector\<close> and \<open>Ledger_Invariants\<close> (\<open>ledger/projector.py\<close>),
    \<open>Ledger_Store\<close> (\<open>ledger/store.py\<close>), \<open>Reconciliation\<close> and \<open>Reconciliation_Props\<close> (\<open>ledger/reconciliation.py\<close>).
  \<^item> Execution: \<open>Domain\<close> (\<open>schemas/domain.py\<close>), \<open>Paper_Broker\<close> and \<open>Paper_Broker_Props\<close> (\<open>broker/interface.py\<close>), \<open>Event_Bus\<close>
    (\<open>events/\<close>), \<open>Execution_Runtime\<close> and \<open>Execution_Props\<close> (\<open>runtime/execution_runtime.py\<close>), \<open>Live_Bridge\<close>
    (\<open>runtime/compatibility.py\<close>), \<open>Order_Gateway\<close> and \<open>Order_Gateway_Props\<close> (\<open>runtime/order_action_gateway.py\<close>,
    \<open>graph/context_hydrate.py\<close>, \<open>persistence/cognitive_execution_provenance.py\<close>).
  \<^item> Market data: \<open>Market_Bars\<close>, \<open>Option_Surface\<close>, \<open>Data_Quality\<close> (\<open>market/\<close>), \<open>Market_Clock\<close> (\<open>time/\<close>), \<open>Market_Runtime\<close> and
    \<open>Market_Runtime_Props\<close> (\<open>runtime/market_runtime.py\<close>), \<open>Option_Feed\<close> and \<open>Options_Provider\<close> (the option feed of
    \<open>data/\<close>, with \<open>schemas/options_data.py\<close> and \<open>runtime/option_surface_ingest.py\<close>).
  \<^item> Rules and risk: \<open>Capital\<close>, \<open>Risk_Governor\<close> (\<open>risk/\<close>, \<open>app/safety.py\<close>, \<open>data/freshness.py\<close>), \<open>Playbooks\<close> (\<open>strategy/\<close>),
    \<open>Feature_Engine\<close> (\<open>features/engine.py\<close>), \<open>Exit_Manager\<close> and \<open>Option_Selector\<close> (\<open>execution/\<close>), \<open>Reactive_Engine\<close>
    (\<open>runtime/reactive_engine.py\<close>), \<open>Market_Handler\<close> and \<open>Market_Handler_Props\<close> (\<open>runtime/market_handler.py\<close>).
  \<^item> Agents: \<open>Model_Router\<close> (\<open>models/\<close>, the call records of \<open>cognition/artifacts.py\<close>), \<open>Cognitive_Proposal\<close>
    (\<open>agents/cognitive/execution.py\<close>), \<open>Graph_Reducers\<close>, \<open>Cognitive_Graph\<close>, \<open>Position_Graph\<close> (\<open>graph/\<close>), \<open>Cognitive_Runtime\<close>
    and \<open>Cognitive_Runtime_Props\<close> (\<open>runtime/cognitive_agent_runtime.py\<close>, the cycle registry and order-action keys of
    \<open>persistence/\<close>).

  \<^bold>\<open>How code becomes definitions.\<close> A class is a record of its fields, an enumeration a datatype, a method a definition of
  nearly the same name. A method that changes its object is an operation of type \<open>('s, 'a) run\<close>: from a state, an
  exception or a value, and the state it leaves, which survives the exception as an object does. A SQLite table is a list
  of rows in the order of insertion; what a broker, a market-data service, an agent, a calendar or LangGraph answers is a
  parameter, usually a field of an environment record. Floats and decimals are read as exact rationals, so rounding
  errors of binary floats are not seen. A time is a wall clock with the offset its zone has; the offsets come from the
  code's own values, so a change of the offset between two readings is whatever the input says. Workers and asyncio
  tasks are step relations; the bodies between two awaits that matter to a claim are single steps.

  \<^bold>\<open>What is shown.\<close>

  \<^item> The ledger's projection is well formed for every history, its profit is the cash of the fills, replaying an event
    changes nothing, and fills never exceed what was submitted.
  \<^item> A command reaches the broker once, whatever is retried; a report of the reconciler is consistent exactly when ledger
    and broker agree; the simulated broker's accounts balance.
  \<^item> The gateway lets an opening action pass only on usable data and a flat contract, and never sells more than is held;
    what the validator of proposals accepts, the gateway accepts, sells excepted.
  \<^item> The capital budget is never overcommitted, the governor approves exactly under its rules, the market handler holds
    one trade at a time, opens it only on a verified fill, and never submits in shadow mode.
  \<^item> Bars equal a reference aggregation of the interval's trades, snapshots refer to what was stored, events come in
    order, option rows survive conversion and are read back, and the rate limit holds in every window.
  \<^item> A decision cycle ends within LangGraph's limit, places at most one order and only one that was validated; a position
    cycle trades the contract of its position; the cognitive runtime runs one decision cycle at a time, and an order or
    position event is queued before every snapshot.
  \<^item> Some theorems state what the code does and should not: a working sell order cannot be replaced, a partly filled order
    not be reduced, a blocked cycle never completes, a snapshot that cannot be loaded aborts its cycle.

  \<^bold>\<open>Interfaces.\<close> \<open>idempotent_consumer\<close> (projector, bus), \<open>append_only_table\<close> (snapshots, surfaces), \<open>keyed_log\<close> (ledger
  store), \<open>reducer\<close> and \<open>keyed_reducer\<close> (channels of the graphs) are contracts that several components share or rely on.
  \<open>handler_frame\<close>, \<open>handler_blind\<close>, \<open>runtime_frame\<close>, \<open>runtime_relation\<close> and \<open>step_relation\<close> carry a predicate or a relation
  through every operation of a component; each is interpreted on the predicates its theorems need.

  \<^bold>\<open>Bounds.\<close> No loop of the model runs on unbounded fuel. \<open>run_graph\<close> counts LangGraph's recursion limit of 25; the graph
  needs 13 nodes and 3 more for each change of strategy, so the limit is reached only with more than four changes, and one is
  allowed by default. The retries of the model router recurse on the repairs left and one escalation. Everything else is
  recursion on data.

  \<^bold>\<open>Not modelled.\<close> The session loops that wire the components together, the replay and watch drivers, the command line,
  the terminal interface and the reports (input, output and display); HTTP clients, authentication and capture of market
  data and of the brokerage; the SQLite layer under the stores; prompts, context assembly and parsing of agent answers;
  the classification and redaction of stored data; configuration files. Log messages are left out everywhere, and
  messages of exceptions where no code reads them.
\<close>

end
